(* ===== verification/Go_Prelude.thy ===== *)
theory Go_Prelude
  imports Main "HOL-Library.Finite_Map"
begin

text \<open>
  What the development shares: the parts of the Go language and of its standard library
  that the source uses (errors, panics, instants and durations, the \<^verbatim>\<open>strings\<close>,
  \<^verbatim>\<open>strconv\<close>, \<^verbatim>\<open>maps\<close> and \<^verbatim>\<open>encoding/base64\<close> functions), written as executable
  functions, and the generic lemmas on strings, lists, sums and finite maps.

  \<^item> A Go string is the list of its bytes (\<open>string\<close>). Case mapping is the ASCII one.
  \<^item> A Go map is a finite map (\<open>fmap\<close>): its iteration order is not observable.
    Where the code does observe the order, the map is an association list in iteration
    order.
  \<^item> An instant (\<^verbatim>\<open>time.Time\<close>, \<^verbatim>\<open>metav1.Time\<close>) is the number of nanoseconds since
    Go's zero instant, so \<open>0\<close> is the zero time; a \<^verbatim>\<open>time.Duration\<close> is a number of
    nanoseconds, and differences saturate at 64 bits as \<^verbatim>\<open>Time.Sub\<close> does.
  \<^item> A pointer that may be nil is an \<open>option\<close>; dereferencing nil is the error
    \<open>Panicked\<close>.
\<close>

named_theorems go_string_simps \<open>the string functions, for evaluation\<close>

section \<open>Errors and panics\<close>

text \<open>
  \<open>NotFound\<close> is the class of errors that \<^verbatim>\<open>apierrors.IsNotFound\<close> recognises,
  \<open>Err\<close> any other error value, \<open>Panicked\<close> a run-time panic.
\<close>

datatype go_error = NotFound string | Err string | Panicked string

type_synonym 'a result = "go_error + 'a"

fun IsNotFound :: "go_error \<Rightarrow> bool" where
  "IsNotFound (NotFound _) = True"
| "IsNotFound _ = False"

fun err_msg :: "go_error \<Rightarrow> string" where
  "err_msg (NotFound m) = m"
| "err_msg (Err m) = m"
| "err_msg (Panicked m) = m"

definition bindE :: "'e + 'a \<Rightarrow> ('a \<Rightarrow> 'e + 'b) \<Rightarrow> 'e + 'b" where
  "bindE m f = (case m of Inl e \<Rightarrow> Inl e | Inr x \<Rightarrow> f x)"

lemma bindE_simps [simp]:
  "bindE (Inl e) f = Inl e"
  "bindE (Inr x) f = f x"
  by (simp_all add: bindE_def)

lemma bindE_Inr_iff: "bindE m f = Inr y \<longleftrightarrow> (\<exists>x. m = Inr x \<and> f x = Inr y)"
  by (cases m) auto

lemma bindE_Inl_iff:
  "bindE m f = Inl e \<longleftrightarrow> m = Inl e \<or> (\<exists>x. m = Inr x \<and> f x = Inl e)"
  by (cases m) auto

text \<open>\<open>p.Field\<close> on a pointer: a nil pointer panics.\<close>

definition deref :: "'a option \<Rightarrow> 'a result" where
  "deref p = (case p of
      None \<Rightarrow> Inl (Panicked ''invalid memory address or nil pointer dereference'')
    | Some x \<Rightarrow> Inr x)"

lemma deref_simps [simp]:
  "deref (Some x) = Inr x"
  "deref None = Inl (Panicked ''invalid memory address or nil pointer dereference'')"
  by (simp_all add: deref_def)

lemma deref_Inr_iff: "deref p = Inr x \<longleftrightarrow> p = Some x"
  by (cases p) auto

section \<open>Instants and durations\<close>

type_synonym time = int
type_synonym duration = int

abbreviation (input) zero_time :: time where "zero_time \<equiv> 0"

definition IsZero :: "time \<Rightarrow> bool" where
  "IsZero t \<longleftrightarrow> t = zero_time"

lemma IsZero_iff [simp]: "IsZero t \<longleftrightarrow> t = 0"
  by (simp add: IsZero_def)

definition second :: duration where "second = 1000000000"
definition minute :: duration where "minute = 60 * second"

definition max_duration :: duration where "max_duration = 2 ^ 63 - 1"
definition min_duration :: duration where "min_duration = - (2 ^ 63)"

text \<open>\<^verbatim>\<open>time.Time.Sub\<close> saturates; \<^verbatim>\<open>time.Since(t)\<close> is \<^verbatim>\<open>now.Sub(t)\<close>.\<close>

definition time_sub :: "time \<Rightarrow> time \<Rightarrow> duration" where
  "time_sub t u = max min_duration (min max_duration (t - u))"

definition time_since :: "time \<Rightarrow> time \<Rightarrow> duration" where
  "time_since now t = time_sub now t"

lemma time_since_bounds:
  "min_duration \<le> time_since now t \<and> time_since now t \<le> max_duration"
  by (auto simp: time_since_def time_sub_def min_duration_def max_duration_def)

lemma time_since_gt_iff:
  assumes "min_duration \<le> d" "d < max_duration"
  shows "time_since now t > d \<longleftrightarrow> now > t + d"
  using assms by (auto simp: time_since_def time_sub_def)

lemma time_since_ge_iff:
  assumes "min_duration < d" "d \<le> max_duration"
  shows "time_since now t \<ge> d \<longleftrightarrow> now \<ge> t + d"
  using assms by (auto simp: time_since_def time_sub_def)

section \<open>Strings\<close>

definition HasPrefix :: "string \<Rightarrow> string \<Rightarrow> bool" where
  "HasPrefix s p \<longleftrightarrow> take (length p) s = p"

definition HasSuffix :: "string \<Rightarrow> string \<Rightarrow> bool" where
  "HasSuffix s p \<longleftrightarrow> HasPrefix (rev s) (rev p)"

lemma HasPrefix_iff: "HasPrefix s p \<longleftrightarrow> (\<exists>r. s = p @ r)"
  unfolding HasPrefix_def by (metis append_eq_conv_conj append_take_drop_id)

lemma HasSuffix_iff: "HasSuffix s p \<longleftrightarrow> (\<exists>r. s = r @ p)"
proof -
  have "HasSuffix s p \<longleftrightarrow> (\<exists>r. rev s = rev p @ r)"
    by (simp add: HasSuffix_def HasPrefix_iff)
  also have "\<dots> \<longleftrightarrow> (\<exists>r. s = r @ p)"
    by (metis rev_append rev_rev_ident)
  finally show ?thesis .
qed

lemma HasPrefix_append [simp]: "HasPrefix (p @ r) p"
  by (auto simp: HasPrefix_iff)

lemma HasSuffix_append [simp]: "HasSuffix (r @ p) p"
  by (auto simp: HasSuffix_iff)

definition CutPrefix :: "string \<Rightarrow> string \<Rightarrow> string \<times> bool" where
  "CutPrefix s p = (if HasPrefix s p then (drop (length p) s, True) else (s, False))"

definition TrimPrefix :: "string \<Rightarrow> string \<Rightarrow> string" where
  "TrimPrefix s p = (if HasPrefix s p then drop (length p) s else s)"

definition TrimSuffix :: "string \<Rightarrow> string \<Rightarrow> string" where
  "TrimSuffix s p = (if HasSuffix s p then take (length s - length p) s else s)"

lemma CutPrefix_found: "CutPrefix s p = (a, True) \<Longrightarrow> s = p @ a"
  by (auto simp: CutPrefix_def HasPrefix_iff split: if_splits)

lemma TrimSuffix_append [simp]: "TrimSuffix (r @ p) p = r"
  by (simp add: TrimSuffix_def)

text \<open>\<^verbatim>\<open>strings.Index\<close>, with \<open>None\<close> for \<open>-1\<close>, and the functions built on it.\<close>

fun str_Index :: "string \<Rightarrow> string \<Rightarrow> nat option" where
  "str_Index [] p = (if p = [] then Some 0 else None)"
| "str_Index (c # s) p =
     (if HasPrefix (c # s) p then Some 0 else map_option Suc (str_Index s p))"

definition str_Contains :: "string \<Rightarrow> string \<Rightarrow> bool" where
  "str_Contains s p \<longleftrightarrow> str_Index s p \<noteq> None"

definition Cut :: "string \<Rightarrow> string \<Rightarrow> string \<times> string \<times> bool" where
  "Cut s sep = (case str_Index s sep of
      Some i \<Rightarrow> (take i s, drop (i + length sep) s, True)
    | None \<Rightarrow> (s, [], False))"

lemma str_Index_Some:
  "str_Index s p = Some i \<Longrightarrow> \<exists>a b. s = a @ p @ b \<and> length a = i"
proof (induction s p arbitrary: i rule: str_Index.induct)
  case (1 p)
  then show ?case by (auto split: if_splits)
next
  case (2 c s p)
  show ?case
  proof (cases "HasPrefix (c # s) p")
    case True
    with "2.prems" show ?thesis by (auto simp: HasPrefix_iff)
  next
    case False
    with "2.prems" obtain j where "str_Index s p = Some j" and i: "i = Suc j" by auto
    with "2.IH" False obtain a b where "s = a @ p @ b" and "length a = j" by blast
    then have "c # s = (c # a) @ p @ b \<and> length (c # a) = i" by (simp add: i)
    then show ?thesis by blast
  qed
qed

lemma str_Index_None: "str_Index s p = None \<Longrightarrow> \<not> (\<exists>a b. s = a @ p @ b)"
proof (induction s p rule: str_Index.induct)
  case (1 p)
  then show ?case by (auto split: if_splits)
next
  case (2 c s p)
  then have np: "\<not> HasPrefix (c # s) p" and none: "str_Index s p = None"
    by (auto split: if_splits)
  show ?case
  proof
    assume "\<exists>a b. c # s = a @ p @ b"
    then obtain a b where e: "c # s = a @ p @ b" by blast
    with np have "a \<noteq> []" by (auto simp: HasPrefix_iff)
    with e obtain a' where "s = a' @ p @ b" by (cases a) auto
    with "2.IH" [OF np none] show False by blast
  qed
qed

lemma str_Contains_iff: "str_Contains s p \<longleftrightarrow> (\<exists>a b. s = a @ p @ b)"
  unfolding str_Contains_def by (metis not_None_eq str_Index_None str_Index_Some)

lemma Cut_found: "Cut s sep = (a, b, True) \<Longrightarrow> s = a @ sep @ b"
  by (auto simp: Cut_def split: option.splits dest!: str_Index_Some)

lemma Cut_not_found: "Cut s sep = (a, b, False) \<Longrightarrow> a = s \<and> \<not> str_Contains s sep"
  by (auto simp: Cut_def str_Contains_def split: option.splits)

text \<open>ASCII case mapping.\<close>

definition lower_char :: "char \<Rightarrow> char" where
  "lower_char c = (let n = (of_char c :: nat) in
     if 65 \<le> n \<and> n \<le> 90 then char_of (n + 32) else c)"

definition upper_char :: "char \<Rightarrow> char" where
  "upper_char c = (let n = (of_char c :: nat) in
     if 97 \<le> n \<and> n \<le> 122 then char_of (n - 32) else c)"

definition ToLower :: "string \<Rightarrow> string" where "ToLower s = map lower_char s"
definition ToUpper :: "string \<Rightarrow> string" where "ToUpper s = map upper_char s"

text \<open>
  \<^verbatim>\<open>strings.ReplaceAll\<close> for a pattern that is not empty. The counter skips the characters
  of an occurrence that was replaced.
\<close>

fun replace_from :: "string \<Rightarrow> string \<Rightarrow> nat \<Rightarrow> string \<Rightarrow> string" where
  "replace_from old new k [] = []"
| "replace_from old new (Suc k) (c # s) = replace_from old new k s"
| "replace_from old new 0 (c # s) =
     (if HasPrefix (c # s) old then new @ replace_from old new (length old - 1) s
      else c # replace_from old new 0 s)"

definition ReplaceAll :: "string \<Rightarrow> string \<Rightarrow> string \<Rightarrow> string" where
  "ReplaceAll s old new = replace_from old new 0 s"

lemma ReplaceAll_char: "ReplaceAll s [a] [b] = map (\<lambda>c. if c = a then b else c) s"
proof -
  have "replace_from [a] [b] 0 s = map (\<lambda>c. if c = a then b else c) s"
    by (induction s) (auto simp: HasPrefix_def)
  then show ?thesis by (simp add: ReplaceAll_def)
qed

fun str_Join :: "string list \<Rightarrow> string \<Rightarrow> string" where
  "str_Join [] sep = []"
| "str_Join [x] sep = x"
| "str_Join (x # y # xs) sep = x @ sep @ str_Join (y # xs) sep"

text \<open>
  \<^verbatim>\<open>strings.FieldsFunc\<close> with one separator character: the maximal runs without it.
\<close>

fun fields_acc :: "char \<Rightarrow> string \<Rightarrow> string \<Rightarrow> string list" where
  "fields_acc sep acc [] = (if acc = [] then [] else [acc])"
| "fields_acc sep acc (c # s) =
     (if c = sep then (if acc = [] then [] else [acc]) @ fields_acc sep [] s
      else fields_acc sep (acc @ [c]) s)"

definition FieldsFunc :: "char \<Rightarrow> string \<Rightarrow> string list" where
  "FieldsFunc sep s = fields_acc sep [] s"

section \<open>Decimal numerals\<close>

text \<open>\<^verbatim>\<open>fmt.Sprintf("%d", n)\<close> and \<^verbatim>\<open>strconv.FormatInt(n, 10)\<close>.\<close>

definition digit_char :: "nat \<Rightarrow> char" where
  "digit_char d = char_of (48 + d)"

fun show_nat :: "nat \<Rightarrow> string" where
  "show_nat n = (if n < 10 then [digit_char n] else show_nat (n div 10) @ [digit_char (n mod 10)])"

declare show_nat.simps [simp del]

definition show_int :: "int \<Rightarrow> string" where
  "show_int i = (if i < 0 then CHR ''-'' # show_nat (nat (- i)) else show_nat (nat i))"

lemma digit_char_inj: "a < 10 \<Longrightarrow> b < 10 \<Longrightarrow> digit_char a = digit_char b \<longleftrightarrow> a = b"
proof -
  assume "a < 10" "b < 10"
  moreover have "(of_char (digit_char d) :: nat) = 48 + d" if "d < 10" for d
    using that by (simp add: digit_char_def of_char_of)
  ultimately show ?thesis by (metis add_left_cancel)
qed

lemma show_nat_nonempty [simp]: "show_nat n \<noteq> []" "[] \<noteq> show_nat n"
  by (subst show_nat.simps, simp)+

lemma show_nat_inj: "show_nat m = show_nat n \<Longrightarrow> m = n"
proof (induction m arbitrary: n rule: show_nat.induct)
  case (1 m)
  show ?case
  proof (cases "m < 10")
    case True
    with "1.prems" show ?thesis
      by (cases "n < 10") (auto simp: show_nat.simps [of m] show_nat.simps [of n] digit_char_inj)
  next
    case False
    with "1.prems" have n: "\<not> n < 10"
      by (auto simp: show_nat.simps [of m] show_nat.simps [of n])
    with False "1.prems" have "show_nat (m div 10) = show_nat (n div 10)"
      and "m mod 10 = n mod 10"
      by (auto simp: show_nat.simps [of m] show_nat.simps [of n] digit_char_inj)
    with "1.IH" [OF False] have "m div 10 = n div 10 \<and> m mod 10 = n mod 10" by blast
    then show ?thesis by (metis div_mult_mod_eq)
  qed
qed

lemma show_nat_eq_iff [simp]: "show_nat m = show_nat n \<longleftrightarrow> m = n"
  using show_nat_inj by blast

lemma show_nat_digits: "c \<in> set (show_nat n) \<Longrightarrow> 48 \<le> (of_char c :: nat) \<and> (of_char c :: nat) \<le> 57"
proof (induction n rule: show_nat.induct)
  case (1 n)
  have dc: "d < 10 \<Longrightarrow> (of_char (digit_char d) :: nat) = 48 + d" for d
    by (simp add: digit_char_def of_char_of)
  from 1 show ?case
    by (cases "n < 10") (auto simp: show_nat.simps [of n] dc)
qed

text \<open>
  \<^verbatim>\<open>fmt.Sprintf("%q", s)\<close>: the ASCII characters as \<^verbatim>\<open>strconv.Quote\<close> writes them; bytes of
  multi-byte characters are kept, as it does for printable characters.
\<close>

definition lower_hex :: "nat \<Rightarrow> char" where
  "lower_hex n = (if n < 10 then char_of (48 + n) else char_of (87 + n))"

definition quote_char :: "char \<Rightarrow> string" where
  "quote_char c =
     (let n = (of_char c :: nat) in
      if n = 34 \<or> n = 92 then [CHR 0x5C, c]
      else if n = 7 then [CHR 0x5C, CHR ''a'']
      else if n = 8 then [CHR 0x5C, CHR ''b'']
      else if n = 9 then [CHR 0x5C, CHR ''t'']
      else if n = 10 then [CHR 0x5C, CHR ''n'']
      else if n = 11 then [CHR 0x5C, CHR ''v'']
      else if n = 12 then [CHR 0x5C, CHR ''f'']
      else if n = 13 then [CHR 0x5C, CHR ''r'']
      else if n < 32 \<or> n = 127 then [CHR 0x5C, CHR ''x'', lower_hex (n div 16), lower_hex (n mod 16)]
      else [c])"

definition go_quote :: "string \<Rightarrow> string" where
  "go_quote s = CHR 0x22 # concat (map quote_char s) @ [CHR 0x22]"

lemma go_quote_nonempty [simp]: "go_quote s \<noteq> []"
  by (simp add: go_quote_def)

text \<open>Integer division of Go truncates towards zero.\<close>

definition go_quo :: "int \<Rightarrow> int \<Rightarrow> int" where
  "go_quo a b = sgn a * sgn b * (\<bar>a\<bar> div \<bar>b\<bar>)"

lemma go_quo_nonneg: "0 \<le> a \<Longrightarrow> 0 < b \<Longrightarrow> go_quo a b = a div b"
  by (cases "a = 0") (simp_all add: go_quo_def)

section \<open>Maps\<close>

type_synonym strmap = "(string, string) fmap"

text \<open>\<^verbatim>\<open>maps.Copy(dst, src)\<close>: the entries of \<open>src\<close> overwrite those of \<open>dst\<close>.\<close>

definition maps_Copy :: "('k, 'v) fmap \<Rightarrow> ('k, 'v) fmap \<Rightarrow> ('k, 'v) fmap" where
  "maps_Copy dst src = dst ++\<^sub>f src"

lemma fmlookup_maps_Copy [simp]:
  "fmlookup (maps_Copy dst src) k =
     (case fmlookup src k of Some v \<Rightarrow> Some v | None \<Rightarrow> fmlookup dst k)"
  by (auto simp: maps_Copy_def fmdom_notI split: option.splits)

lemma maps_Copy_empty [simp]: "maps_Copy fmempty m = m"
  by (simp add: maps_Copy_def)

text \<open>A missing key reads as the zero value.\<close>

definition map_get :: "('k, string) fmap \<Rightarrow> 'k \<Rightarrow> string" where
  "map_get m k = (case fmlookup m k of Some v \<Rightarrow> v | None \<Rightarrow> [])"

text \<open>One map is contained in another: what a label selector asks of an object's labels.\<close>

definition sub_map :: "('k, 'v) fmap \<Rightarrow> ('k, 'v) fmap \<Rightarrow> bool" where
  "sub_map m n \<longleftrightarrow> (\<forall>k v. fmlookup m k = Some v \<longrightarrow> fmlookup n k = Some v)"

lemma sub_map_refl [simp]: "sub_map m m"
  by (simp add: sub_map_def)

lemma sub_map_Copy [simp]: "sub_map m (maps_Copy n m)"
  by (simp add: sub_map_def)

section \<open>Lists\<close>

text \<open>A loop that returns on the first element with a result.\<close>

fun first_some :: "('a \<Rightarrow> 'b option) \<Rightarrow> 'a list \<Rightarrow> 'b option" where
  "first_some f [] = None"
| "first_some f (x # xs) = (case f x of Some y \<Rightarrow> Some y | None \<Rightarrow> first_some f xs)"

lemma first_some_None: "first_some f xs = None \<longleftrightarrow> (\<forall>x\<in>set xs. f x = None)"
  by (induction xs) (auto split: option.splits)

lemma first_some_SomeD: "first_some f xs = Some y \<Longrightarrow> \<exists>x\<in>set xs. f x = Some y"
  by (induction xs) (auto split: option.splits)

lemma first_some_append:
  "first_some f (xs @ ys) = (case first_some f xs of Some y \<Rightarrow> Some y | None \<Rightarrow> first_some f ys)"
  by (induction xs) (auto split: option.splits)

text \<open>A loop that overwrites a variable with each matching element: the last one stays.\<close>

fun last_some :: "('a \<Rightarrow> 'b option) \<Rightarrow> 'a list \<Rightarrow> 'b option" where
  "last_some f [] = None"
| "last_some f (x # xs) = (case last_some f xs of Some y \<Rightarrow> Some y | None \<Rightarrow> f x)"

lemma last_some_None: "last_some f xs = None \<longleftrightarrow> (\<forall>x\<in>set xs. f x = None)"
  by (induction xs) (auto split: option.splits)

lemma last_some_SomeD: "last_some f xs = Some y \<Longrightarrow> \<exists>x\<in>set xs. f x = Some y"
  by (induction xs) (auto split: option.splits)

lemma last_some_rev: "last_some f xs = first_some f (rev xs)"
  by (induction xs) (auto simp: first_some_append split: option.splits)

text \<open>Building a list of results that stops at the first error.\<close>

fun traverseE :: "('a \<Rightarrow> 'e + 'b) \<Rightarrow> 'a list \<Rightarrow> 'e + 'b list" where
  "traverseE f [] = Inr []"
| "traverseE f (x # xs) = bindE (f x) (\<lambda>y. bindE (traverseE f xs) (\<lambda>ys. Inr (y # ys)))"

lemma traverseE_Inr_iff:
  "traverseE f xs = Inr ys \<longleftrightarrow> list_all2 (\<lambda>x y. f x = Inr y) xs ys"
proof (induction xs arbitrary: ys)
  case Nil
  then show ?case by auto
next
  case (Cons x xs)
  then show ?case by (cases ys) (auto simp: bindE_Inr_iff)
qed

section \<open>Base64\<close>

text \<open>
  \<^verbatim>\<open>base64.StdEncoding\<close>, \<^verbatim>\<open>base64.URLEncoding\<close> (padded) and \<^verbatim>\<open>base64.RawURLEncoding\<close>
  (unpadded): three bytes become four characters of the alphabet of RFC 4648, section 4, or
  of its URL-safe variant, section 5.
\<close>

definition b64_char :: "bool \<Rightarrow> nat \<Rightarrow> char" where
  "b64_char urlsafe d =
     (if d < 26 then char_of (65 + d)
      else if d < 52 then char_of (97 + (d - 26))
      else if d < 62 then char_of (48 + (d - 52))
      else if d = 62 then (if urlsafe then CHR ''-'' else CHR ''+'')
      else if urlsafe then CHR ''_'' else CHR ''/'')"

fun b64_encode :: "(nat \<Rightarrow> char) \<Rightarrow> bool \<Rightarrow> string \<Rightarrow> string" where
  "b64_encode ch pad [] = []"
| "b64_encode ch pad [a] =
     (let n = (of_char a :: nat) in
      [ch (n div 4), ch (n mod 4 * 16)] @ (if pad then ''=='' else []))"
| "b64_encode ch pad [a, b] =
     (let n = (of_char a :: nat); m = (of_char b :: nat) in
      [ch (n div 4), ch (n mod 4 * 16 + m div 16), ch (m mod 16 * 4)]
      @ (if pad then ''='' else []))"
| "b64_encode ch pad (a # b # c # s) =
     (let n = (of_char a :: nat); m = (of_char b :: nat); k = (of_char c :: nat) in
      [ch (n div 4), ch (n mod 4 * 16 + m div 16), ch (m mod 16 * 4 + k div 64), ch (k mod 64)]
      @ b64_encode ch pad s)"

definition StdEncoding_EncodeToString :: "string \<Rightarrow> string" where
  "StdEncoding_EncodeToString = b64_encode (b64_char False) True"

definition URLEncoding_EncodeToString :: "string \<Rightarrow> string" where
  "URLEncoding_EncodeToString = b64_encode (b64_char True) True"

definition RawURLEncoding_EncodeToString :: "string \<Rightarrow> string" where
  "RawURLEncoding_EncodeToString = b64_encode (b64_char True) False"

lemma length_b64_raw: "length (b64_encode ch False s) = (4 * length s + 2) div 3"
  by (induction ch "False" s rule: b64_encode.induct) (simp_all add: Let_def)

lemma b64_encode_empty_iff [simp]: "b64_encode ch pad s = [] \<longleftrightarrow> s = []"
  by (cases "(ch, pad, s)" rule: b64_encode.cases) (simp_all add: Let_def)

end
