(* ===== verification/K8s_Types.thy ===== *)
theory K8s_Types
  imports Go_Prelude
begin

text \<open>
  The Kubernetes API objects that the operator reads and writes, as records with the
  fields that the source under \<^verbatim>\<open>src/\<close> mentions. The types themselves live in
  \<^verbatim>\<open>k8s.io/api\<close> and \<^verbatim>\<open>k8s.io/apimachinery\<close>; here they are only data.

  \<^item> A value the operator passes through without looking inside (an affinity, a
    toleration, a volume source it does not build) is \<open>opaque\<close>.
  \<^item> A \<^verbatim>\<open>resource.Quantity\<close> is its text; what the code asks of it (zero test, value,
    comparison) is a parameter of the operations that ask it.
  \<^item> String enumerations of Kubernetes are strings, with the constants of the API as
    abbreviations.
\<close>

type_synonym opaque = string
type_synonym quantity = string
type_synonym resource_list = "(string, quantity) fmap"

abbreviation (input) zero_quantity :: quantity where "zero_quantity \<equiv> ''0''"

section \<open>Metadata\<close>

record ObjectMeta =
  om_Name :: string
  om_Namespace :: string
  om_UID :: string
  om_Labels :: strmap
  om_Annotations :: strmap
  om_CreationTimestamp :: time
  om_DeletionTimestamp :: "time option"
  om_Finalizers :: "string list"
  om_OwnerReferences :: "string list"

definition empty_meta :: ObjectMeta where
  "empty_meta = \<lparr> om_Name = [], om_Namespace = [], om_UID = [], om_Labels = fmempty,
     om_Annotations = fmempty, om_CreationTimestamp = zero_time, om_DeletionTimestamp = None,
     om_Finalizers = [], om_OwnerReferences = [] \<rparr>"

lemma empty_meta_simps [simp]:
  "om_Name empty_meta = []" "om_Namespace empty_meta = []" "om_UID empty_meta = []"
  "om_Labels empty_meta = fmempty" "om_Annotations empty_meta = fmempty"
  "om_CreationTimestamp empty_meta = 0" "om_DeletionTimestamp empty_meta = None"
  "om_Finalizers empty_meta = []" "om_OwnerReferences empty_meta = []"
  by (simp_all add: empty_meta_def)

section \<open>Containers and volumes\<close>

datatype EnvVarSource = SecretKeyRef string string | OtherEnvVarSource opaque

record EnvVar =
  ev_Name :: string
  ev_Value :: string
  ev_ValueFrom :: "EnvVarSource option"

definition env_value :: "string \<Rightarrow> string \<Rightarrow> EnvVar" where
  "env_value n v = \<lparr> ev_Name = n, ev_Value = v, ev_ValueFrom = None \<rparr>"

definition env_secret :: "string \<Rightarrow> string \<Rightarrow> string \<Rightarrow> EnvVar" where
  "env_secret n sec key =
     \<lparr> ev_Name = n, ev_Value = [], ev_ValueFrom = Some (SecretKeyRef sec key) \<rparr>"

datatype EnvFromSource = EnvFromSecret string | OtherEnvFromSource opaque

record VolumeMount =
  vm_Name :: string
  vm_ReadOnly :: bool
  vm_MountPath :: string
  vm_SubPath :: string

definition mount :: "string \<Rightarrow> string \<Rightarrow> VolumeMount" where
  "mount n p = \<lparr> vm_Name = n, vm_ReadOnly = False, vm_MountPath = p, vm_SubPath = [] \<rparr>"

lemma mount_simps [simp]: "vm_Name (mount n p) = n" "vm_MountPath (mount n p) = p"
  by (simp_all add: mount_def)

datatype VolumeSource =
    PersistentVolumeClaimSource (claim_name: string) (claim_readonly: bool)
  | EmptyDirSource (medium: string) (size_limit: "quantity option")
  | SecretSource (secret_name: string) (secret_optional: "bool option")
  | OtherVolumeSource opaque

record Volume =
  vol_Name :: string
  vol_Source :: VolumeSource

datatype IntOrString = FromInt32 int | FromString string

datatype ProbeHandler = HTTPGet string IntOrString | TCPSocket IntOrString

record Probe =
  pr_Handler :: ProbeHandler
  pr_SuccessThreshold :: int
  pr_PeriodSeconds :: int
  pr_InitialDelaySeconds :: int

record SecurityContext =
  sc_RunAsNonRoot :: "bool option"
  sc_RunAsUser :: "int option"
  sc_RunAsGroup :: "int option"
  sc_AllowPrivilegeEscalation :: "bool option"
  sc_CapabilitiesDrop :: "string list"

record ResourceRequirements =
  rr_Requests :: resource_list
  rr_Limits :: resource_list

definition no_resources :: ResourceRequirements where
  "no_resources = \<lparr> rr_Requests = fmempty, rr_Limits = fmempty \<rparr>"

record ContainerPort =
  cp_Name :: string
  cp_ContainerPort :: int

record Container =
  c_Name :: string
  c_Image :: string
  c_ImagePullPolicy :: string
  c_Command :: "string list"
  c_Args :: "string list"
  c_Env :: "EnvVar list"
  c_EnvFrom :: "EnvFromSource list"
  c_Resources :: ResourceRequirements
  c_VolumeMounts :: "VolumeMount list"
  c_WorkingDir :: string
  c_TerminationMessagePath :: string
  c_TerminationMessagePolicy :: string
  c_Ports :: "ContainerPort list"
  c_ReadinessProbe :: "Probe option"
  c_LivenessProbe :: "Probe option"
  c_SecurityContext :: "SecurityContext option"
  c_RestartPolicy :: "string option"

text \<open>The zero value of \<^verbatim>\<open>v1.Container\<close>, from which the templates are built.\<close>

definition empty_container :: Container where
  "empty_container = \<lparr> c_Name = [], c_Image = [], c_ImagePullPolicy = [], c_Command = [],
     c_Args = [], c_Env = [], c_EnvFrom = [], c_Resources = no_resources, c_VolumeMounts = [],
     c_WorkingDir = [], c_TerminationMessagePath = [], c_TerminationMessagePolicy = [],
     c_Ports = [], c_ReadinessProbe = None, c_LivenessProbe = None, c_SecurityContext = None,
     c_RestartPolicy = None \<rparr>"

lemma empty_container_simps [simp]:
  "c_Name empty_container = []" "c_Env empty_container = []" "c_EnvFrom empty_container = []"
  "c_VolumeMounts empty_container = []" "c_Ports empty_container = []"
  "c_Image empty_container = []" "c_Args empty_container = []" "c_Command empty_container = []"
  "c_ReadinessProbe empty_container = None" "c_SecurityContext empty_container = None"
  "c_RestartPolicy empty_container = None"
  by (simp_all add: empty_container_def)

section \<open>Pods\<close>

record PodSpec =
  ps_ServiceAccountName :: string
  ps_DeprecatedServiceAccount :: string
  ps_EnableServiceLinks :: "bool option"
  ps_AutomountServiceAccountToken :: "bool option"
  ps_FSGroup :: "int option"
  ps_Containers :: "Container list"
  ps_InitContainers :: "Container list"
  ps_Volumes :: "Volume list"
  ps_Tolerations :: "opaque list"
  ps_NodeSelector :: strmap
  ps_Affinity :: "opaque option"
  ps_PriorityClassName :: string
  ps_ImagePullSecrets :: "string list"
  ps_RestartPolicy :: string
  ps_TerminationGracePeriodSeconds :: "int option"

record PodTemplateSpec =
  pt_Labels :: strmap
  pt_Annotations :: strmap
  pt_Spec :: PodSpec

record WaitingState =
  ws_Reason :: string
  ws_Message :: string

record TerminatedState =
  ts_ExitCode :: int
  ts_Reason :: string
  ts_Message :: string

record ContainerState =
  cst_Waiting :: "WaitingState option"
  cst_Running :: "time option"
  cst_Terminated :: "TerminatedState option"

record ContainerStatus =
  cs_Name :: string
  cs_Ready :: bool
  cs_Started :: "bool option"
  cs_State :: ContainerState

record PodCondition =
  pc_Type :: string
  pc_Status :: string
  pc_Reason :: string
  pc_Message :: string

record Pod =
  pod_Meta :: ObjectMeta
  pod_Spec :: PodSpec
  pod_Phase :: string
  pod_Conditions :: "PodCondition list"
  pod_InitContainerStatuses :: "ContainerStatus list"
  pod_ContainerStatuses :: "ContainerStatus list"

abbreviation (input) ConditionTrue :: string where "ConditionTrue \<equiv> ''True''"
abbreviation (input) ConditionFalse :: string where "ConditionFalse \<equiv> ''False''"
abbreviation (input) PodRunning :: string where "PodRunning \<equiv> ''Running''"
abbreviation (input) PodSucceeded :: string where "PodSucceeded \<equiv> ''Succeeded''"
abbreviation (input) PodFailed :: string where "PodFailed \<equiv> ''Failed''"
abbreviation (input) PodReady :: string where "PodReady \<equiv> ''Ready''"
abbreviation (input) DisruptionTarget :: string where "DisruptionTarget \<equiv> ''DisruptionTarget''"
abbreviation (input) ContainerRestartPolicyAlways :: string where
  "ContainerRestartPolicyAlways \<equiv> ''Always''"

section \<open>Workloads\<close>

record StatefulSetSpec =
  sss_PodManagementPolicy :: string
  sss_Replicas :: "int option"
  sss_Selector :: "strmap option"
  sss_Template :: PodTemplateSpec

record StatefulSet =
  sts_Meta :: ObjectMeta
  sts_Spec :: StatefulSetSpec
  sts_ReadyReplicas :: int
  sts_StatusReplicas :: int

record JobCondition =
  jc_Type :: string
  jc_Status :: string
  jc_Reason :: string
  jc_Message :: string

record JobSpec =
  js_Parallelism :: "int option"
  js_Completions :: "int option"
  js_BackoffLimit :: "int option"
  js_ActiveDeadlineSeconds :: "int option"
  js_TTLSecondsAfterFinished :: "int option"
  js_Suspend :: "bool option"
  js_Template :: PodTemplateSpec

record JobStatus =
  jst_Conditions :: "JobCondition list"
  jst_Active :: int
  jst_Ready :: "int option"
  jst_Failed :: int

record Job =
  job_Meta :: ObjectMeta
  job_Spec :: JobSpec
  job_Status :: JobStatus

abbreviation (input) JobComplete :: string where "JobComplete \<equiv> ''Complete''"
abbreviation (input) JobFailed :: string where "JobFailed \<equiv> ''Failed''"
abbreviation (input) JobFailureTarget :: string where "JobFailureTarget \<equiv> ''FailureTarget''"

section \<open>Services, ingresses, claims, secrets\<close>

record ServicePort =
  svp_Protocol :: string
  svp_Name :: string
  svp_Port :: int
  svp_TargetPort :: IntOrString

text \<open>The port errors reported under \<^verbatim>\<open>status.loadBalancer.ingress[].ports[]\<close>.\<close>

type_synonym load_balancer_status = "(string option) list list"

record ServiceSpec =
  svs_Selector :: strmap
  svs_Ports :: "ServicePort list"
  svs_PublishNotReadyAddresses :: bool
  svs_ClusterIP :: string

record Service =
  svc_Meta :: ObjectMeta
  svc_Spec :: ServiceSpec
  svc_LoadBalancer :: load_balancer_status

record HTTPIngressPath =
  hip_Path :: string
  hip_PathType :: string
  hip_ServiceName :: string
  hip_ServicePortName :: string

record IngressRule =
  igr_Host :: string
  igr_Paths :: "HTTPIngressPath list"

record IngressTLS =
  tls_Hosts :: "string list"
  tls_SecretName :: string

record IngressSpec =
  igs_IngressClassName :: "string option"
  igs_Rules :: "IngressRule list"
  igs_TLS :: "IngressTLS list"

record NetIngress =
  ing_Meta :: ObjectMeta
  ing_Spec :: IngressSpec
  ing_LoadBalancer :: load_balancer_status

record PVCSpec =
  pvs_AccessModes :: "string list"
  pvs_Requests :: resource_list
  pvs_StorageClassName :: "string option"
  pvs_VolumeName :: string

record PVCCondition =
  pvcc_Type :: string
  pvcc_Status :: string
  pvcc_Message :: string

text \<open>
  \<open>pvc_AllocatedResourceStatuses\<close> is in the order in which the code's \<^verbatim>\<open>range\<close> visits
  the map: the first infeasible entry it meets decides the message.
\<close>

record PersistentVolumeClaim =
  pvc_Meta :: ObjectMeta
  pvc_Spec :: PVCSpec
  pvc_Phase :: string
  pvc_AllocatedResourceStatuses :: "(string \<times> string) list"
  pvc_Conditions :: "PVCCondition list"

abbreviation (input) ClaimBound :: string where "ClaimBound \<equiv> ''Bound''"
abbreviation (input) ReadOnlyMany :: string where "ReadOnlyMany \<equiv> ''ReadOnlyMany''"
abbreviation (input) ReadWriteOnce :: string where "ReadWriteOnce \<equiv> ''ReadWriteOnce''"
abbreviation (input) NodeResizeInfeasible :: string where
  "NodeResizeInfeasible \<equiv> ''NodeResizeInfeasible''"
abbreviation (input) ControllerResizeInfeasible :: string where
  "ControllerResizeInfeasible \<equiv> ''ControllerResizeInfeasible''"
abbreviation (input) PVCResizing :: string where "PVCResizing \<equiv> ''Resizing''"
abbreviation (input) PVCFileSystemResizePending :: string where
  "PVCFileSystemResizePending \<equiv> ''FileSystemResizePending''"

record SecretObject =
  sec_Meta :: ObjectMeta
  sec_Data :: strmap
  sec_StringData :: strmap

section \<open>Events\<close>

record Event =
  evt_Reason :: string
  evt_Message :: string
  evt_EventTime :: time
  evt_FirstTimestamp :: time
  evt_LastTimestamp :: time

end
