(* ===== verification/Go_URL.thy ===== *)
theory Go_URL
  imports Go_Prelude
begin

text \<open>
  The part of Go's \<^verbatim>\<open>net/url\<close> and \<^verbatim>\<open>path\<close> packages that the operator uses to build
  the address of a session: \<^verbatim>\<open>url.Parse\<close>, \<^verbatim>\<open>URL.String\<close> and \<^verbatim>\<open>URL.JoinPath\<close>, with their
  percent-encoding. The user-and-host part of a reference that starts with \<open>//\<close> is
  split by the function argument \<open>parseAuthority\<close>; no address the operator builds
  itself reaches it.
\<close>

record url =
  u_Scheme :: string
  u_Opaque :: string
  u_User :: "string option"
  u_Host :: string
  u_Path :: string
  u_RawPath :: string
  u_OmitHost :: bool
  u_ForceQuery :: bool
  u_RawQuery :: string
  u_Fragment :: string
  u_RawFragment :: string

definition empty_url :: url where
  "empty_url = \<lparr> u_Scheme = [], u_Opaque = [], u_User = None, u_Host = [], u_Path = [],
     u_RawPath = [], u_OmitHost = False, u_ForceQuery = False, u_RawQuery = [],
     u_Fragment = [], u_RawFragment = [] \<rparr>"

section \<open>Percent-encoding\<close>

datatype url_mode = encodePath | encodeFragment | encodeHost

definition is_alnum :: "char \<Rightarrow> bool" where
  "is_alnum c = (let n = (of_char c :: nat) in
     (97 \<le> n \<and> n \<le> 122) \<or> (65 \<le> n \<and> n \<le> 90) \<or> (48 \<le> n \<and> n \<le> 57))"

definition is_alpha :: "char \<Rightarrow> bool" where
  "is_alpha c = (let n = (of_char c :: nat) in (97 \<le> n \<and> n \<le> 122) \<or> (65 \<le> n \<and> n \<le> 90))"

definition is_digit :: "char \<Rightarrow> bool" where
  "is_digit c = (let n = (of_char c :: nat) in 48 \<le> n \<and> n \<le> 57)"

definition shouldEscape :: "url_mode \<Rightarrow> char \<Rightarrow> bool" where
  "shouldEscape mode c =
     (if is_alnum c then False
      else if mode = encodeHost \<and> c \<in> set ''!$&()*+,;=:[]<>'' \<union> {CHR 0x22, CHR 0x27} then False
      else if c \<in> set ''-_.~'' then False
      else if c \<in> set ''$&+,/:;=?@'' then
        (case mode of encodePath \<Rightarrow> c = CHR ''?'' | encodeFragment \<Rightarrow> False | encodeHost \<Rightarrow> True)
      else if mode = encodeFragment \<and> c \<in> set ''!()*'' then False
      else True)"

definition hex_digit :: "nat \<Rightarrow> char" where
  "hex_digit n = (if n < 10 then char_of (48 + n) else char_of (55 + n))"

definition unhex :: "char \<Rightarrow> nat option" where
  "unhex c = (let n = (of_char c :: nat) in
     if 48 \<le> n \<and> n \<le> 57 then Some (n - 48)
     else if 97 \<le> n \<and> n \<le> 102 then Some (n - 87)
     else if 65 \<le> n \<and> n \<le> 70 then Some (n - 55)
     else None)"

fun url_escape :: "url_mode \<Rightarrow> string \<Rightarrow> string" where
  "url_escape mode [] = []"
| "url_escape mode (c # s) =
     (if shouldEscape mode c
      then (let n = (of_char c :: nat) in
            CHR ''%'' # hex_digit (n div 16) # hex_digit (n mod 16) # url_escape mode s)
      else c # url_escape mode s)"

fun url_unescape :: "string \<Rightarrow> string result" where
  "url_unescape [] = Inr []"
| "url_unescape (c # s) =
     (if c = CHR ''%'' then
        (case s of
           a # b # t \<Rightarrow>
             (case (unhex a, unhex b) of
                (Some x, Some y) \<Rightarrow>
                  bindE (url_unescape t) (\<lambda>r. Inr (char_of (16 * x + y) # r))
              | _ \<Rightarrow> Inl (Err ''invalid URL escape''))
         | _ \<Rightarrow> Inl (Err ''invalid URL escape''))
      else bindE (url_unescape s) (\<lambda>r. Inr (c # r)))"

definition validEncoded :: "url_mode \<Rightarrow> string \<Rightarrow> bool" where
  "validEncoded mode s = list_all (\<lambda>c.
     c \<in> set ''!$&()*+,;=:@[]%'' \<union> {CHR 0x27} \<or> \<not> shouldEscape mode c) s"

section \<open>Parsing\<close>

definition setPath :: "url \<Rightarrow> string \<Rightarrow> url result" where
  "setPath u p = bindE (url_unescape p) (\<lambda>path.
     Inr (u\<lparr> u_Path := path,
             u_RawPath := (if p = url_escape encodePath path then [] else p) \<rparr>))"

definition setFragment :: "url \<Rightarrow> string \<Rightarrow> url result" where
  "setFragment u f = bindE (url_unescape f) (\<lambda>frag.
     Inr (u\<lparr> u_Fragment := frag,
             u_RawFragment := (if f = url_escape encodeFragment frag then [] else f) \<rparr>))"

fun getScheme_from :: "string \<Rightarrow> string \<Rightarrow> string \<Rightarrow> (string \<times> string) result" where
  "getScheme_from raw acc [] = Inr ([], raw)"
| "getScheme_from raw acc (c # s) =
     (if is_alpha c then getScheme_from raw (acc @ [c]) s
      else if is_digit c \<or> c \<in> set ''+-.'' then
        (if acc = [] then Inr ([], raw) else getScheme_from raw (acc @ [c]) s)
      else if c = CHR '':'' then
        (if acc = [] then Inl (Err ''missing protocol scheme'') else Inr (acc, s))
      else Inr ([], raw))"

definition getScheme :: "string \<Rightarrow> (string \<times> string) result" where
  "getScheme raw = getScheme_from raw [] raw"

definition containsCTLByte :: "string \<Rightarrow> bool" where
  "containsCTLByte s =
     list_ex (\<lambda>c. (of_char c :: nat) < 32 \<or> (of_char c :: nat) = 127) s"

definition split_query :: "string \<Rightarrow> string \<times> bool \<times> string" where
  "split_query rest =
     (if HasSuffix rest ''?'' \<and> count_list rest (CHR ''?'') = 1
      then (butlast rest, True, [])
      else (let (a, q, _) = Cut rest ''?'' in (a, False, q)))"

type_synonym authority_parser = "string \<Rightarrow> (string option \<times> string) result"

definition parse_ref :: "authority_parser \<Rightarrow> string \<Rightarrow> url result" where
  "parse_ref parseAuthority raw =
     (if containsCTLByte raw then Inl (Err ''net/url: invalid control character in URL'')
      else if raw = ''*'' then Inr (empty_url\<lparr> u_Path := ''*'' \<rparr>)
      else bindE (getScheme raw) (\<lambda>(sch0, rest0).
        let sch = ToLower sch0; (rest, force, q) = split_query rest0;
            u = empty_url\<lparr> u_Scheme := sch, u_ForceQuery := force, u_RawQuery := q \<rparr> in
        if \<not> HasPrefix rest ''/'' \<and> sch \<noteq> [] then Inr (u\<lparr> u_Opaque := rest \<rparr>)
        else if \<not> HasPrefix rest ''/'' \<and> str_Contains (fst (Cut rest ''/'')) '':''
        then Inl (Err ''first path segment in URL cannot contain colon'')
        else if (sch \<noteq> [] \<or> \<not> HasPrefix rest ''///'') \<and> HasPrefix rest ''//'' then
          (let auth = takeWhile (\<lambda>c. c \<noteq> CHR ''/'') (drop 2 rest);
               tl_path = dropWhile (\<lambda>c. c \<noteq> CHR ''/'') (drop 2 rest) in
           bindE (parseAuthority auth) (\<lambda>(user, host).
             setPath (u\<lparr> u_User := user, u_Host := host \<rparr>) tl_path))
        else setPath (u\<lparr> u_OmitHost := (sch \<noteq> [] \<and> HasPrefix rest ''/'') \<rparr>) rest))"

definition url_Parse :: "authority_parser \<Rightarrow> string \<Rightarrow> url result" where
  "url_Parse parseAuthority raw =
     (let (r, frag, _) = Cut raw ''#'' in
      bindE (parse_ref parseAuthority r) (\<lambda>u.
        if frag = [] then Inr u else setFragment u frag))"

section \<open>Printing\<close>

definition EscapedPath :: "url \<Rightarrow> string" where
  "EscapedPath u =
     (if u_RawPath u \<noteq> [] \<and> validEncoded encodePath (u_RawPath u)
         \<and> url_unescape (u_RawPath u) = Inr (u_Path u) then u_RawPath u
      else if u_Path u = ''*'' then ''*''
      else url_escape encodePath (u_Path u))"

definition EscapedFragment :: "url \<Rightarrow> string" where
  "EscapedFragment u =
     (if u_RawFragment u \<noteq> [] \<and> validEncoded encodeFragment (u_RawFragment u)
         \<and> url_unescape (u_RawFragment u) = Inr (u_Fragment u) then u_RawFragment u
      else url_escape encodeFragment (u_Fragment u))"

definition url_String :: "url \<Rightarrow> string" where
  "url_String u =
     (let sch = (if u_Scheme u \<noteq> [] then u_Scheme u @ '':'' else []);
          auth = (if (u_Scheme u \<noteq> [] \<or> u_Host u \<noteq> [] \<or> u_User u \<noteq> None)
                     \<and> \<not> (u_OmitHost u \<and> u_Host u = [] \<and> u_User u = None)
                  then (if u_Host u \<noteq> [] \<or> u_Path u \<noteq> [] \<or> u_User u \<noteq> None then ''//'' else [])
                     @ (case u_User u of Some x \<Rightarrow> x @ ''@'' | None \<Rightarrow> [])
                     @ url_escape encodeHost (u_Host u)
                  else []);
          path = EscapedPath u;
          sep = (if path \<noteq> [] \<and> \<not> HasPrefix path ''/'' \<and> u_Host u \<noteq> [] then ''/'' else []);
          dot = (if sch @ auth @ sep = [] \<and> str_Contains (fst (Cut path ''/'')) '':''
                 then ''./'' else []);
          main = (if u_Opaque u \<noteq> [] then sch @ u_Opaque u else sch @ auth @ sep @ dot @ path) in
      main @ (if u_ForceQuery u \<or> u_RawQuery u \<noteq> [] then ''?'' @ u_RawQuery u else [])
           @ (if u_Fragment u \<noteq> [] then ''#'' @ EscapedFragment u else []))"

section \<open>Joining paths\<close>

text \<open>\<^verbatim>\<open>path.Clean\<close> on a rooted path.\<close>

fun clean_segs :: "string list \<Rightarrow> string list \<Rightarrow> string list" where
  "clean_segs out [] = out"
| "clean_segs out (s # ss) =
     (if s = ''.'' then clean_segs out ss
      else if s = ''..'' then clean_segs (butlast out) ss
      else clean_segs (out @ [s]) ss)"

definition path_Clean_rooted :: "string \<Rightarrow> string" where
  "path_Clean_rooted p = ''/'' @ str_Join (clean_segs [] (FieldsFunc (CHR ''/'') p)) ''/''"

text \<open>
  \<^verbatim>\<open>path.Clean\<close> on any path: without a leading slash, leading \<open>..\<close> segments stay and
  the empty result is \<open>.\<close>; and \<^verbatim>\<open>filepath.Join\<close>, which cleans the non-empty elements.
\<close>

fun clean_rel :: "string list \<Rightarrow> string list \<Rightarrow> string list" where
  "clean_rel out [] = out"
| "clean_rel out (s # ss) =
     (if s = ''.'' then clean_rel out ss
      else if s = ''..'' \<and> out \<noteq> [] \<and> last out \<noteq> ''..'' then clean_rel (butlast out) ss
      else clean_rel (out @ [s]) ss)"

definition path_Clean :: "string \<Rightarrow> string" where
  "path_Clean p =
     (if HasPrefix p ''/'' then path_Clean_rooted p
      else (let segs = clean_rel [] (FieldsFunc (CHR ''/'') p) in
            if segs = [] then ''.'' else str_Join segs ''/''))"

definition filepath_Join :: "string list \<Rightarrow> string" where
  "filepath_Join es =
     (let ne = filter (\<lambda>e. e \<noteq> []) es in if ne = [] then [] else path_Clean (str_Join ne ''/''))"

text \<open>\<^verbatim>\<open>u.JoinPath(elem)\<close>; a result that does not parse leaves the URL as it was.\<close>

definition url_JoinPath :: "url \<Rightarrow> string \<Rightarrow> url" where
  "url_JoinPath u e =
     (let e0 = EscapedPath u;
          rooted = HasPrefix e0 ''/'';
          p0 = path_Clean_rooted ((if rooted then e0 else ''/'' @ e0) @ ''/'' @ e);
          p1 = (if rooted then p0 else drop 1 p0);
          p = (if HasSuffix e ''/'' \<and> \<not> HasSuffix p1 ''/'' then p1 @ ''/'' else p1) in
      case setPath u p of Inr v \<Rightarrow> v | Inl _ \<Rightarrow> u)"

section \<open>Host, port and query\<close>

text \<open>A colon and a number at the end of the host is the port; brackets around the rest go.\<close>

definition validOptionalPort :: "string \<Rightarrow> bool" where
  "validOptionalPort port \<longleftrightarrow> port = [] \<or> hd port = CHR '':'' \<and> list_all is_digit (tl port)"

definition splitHostPort :: "string \<Rightarrow> string \<times> string" where
  "splitHostPort hostPort =
     (let port = rev (takeWhile (\<lambda>c. c \<noteq> CHR '':'') (rev hostPort));
          colon = CHR '':'' \<in> set hostPort \<and> validOptionalPort (CHR '':'' # port);
          host = (if colon then take (length hostPort - length port - 1) hostPort else hostPort) in
      (if HasPrefix host ''['' \<and> HasSuffix host '']'' then butlast (tl host) else host,
       if colon then port else []))"

definition url_Hostname :: "url \<Rightarrow> string" where
  "url_Hostname u = fst (splitHostPort (u_Host u))"

definition url_Port :: "url \<Rightarrow> string" where
  "url_Port u = snd (splitHostPort (u_Host u))"

fun QueryEscape :: "string \<Rightarrow> string" where
  "QueryEscape [] = []"
| "QueryEscape (c # s) =
     (if is_alnum c \<or> c \<in> set ''-_.~'' then c # QueryEscape s
      else if c = CHR '' '' then CHR ''+'' # QueryEscape s
      else (let n = (of_char c :: nat) in
            CHR ''%'' # hex_digit (n div 16) # hex_digit (n mod 16) # QueryEscape s))"

section \<open>References\<close>

text \<open>
  \<^verbatim>\<open>u.Parse(ref)\<close>: the reference is resolved against \<open>u\<close>. \<open>resolve_segs\<close> removes the
  dot segments; its second argument is the path written so far, without the leading slash.
\<close>

fun split_char :: "char \<Rightarrow> string \<Rightarrow> string list" where
  "split_char sep [] = [[]]"
| "split_char sep (c # s) =
     (if c = sep then [] # split_char sep s
      else (case split_char sep s of x # xs \<Rightarrow> (c # x) # xs | [] \<Rightarrow> [[c]]))"

definition last_index :: "char \<Rightarrow> string \<Rightarrow> nat option" where
  "last_index c s =
     (if c \<in> set s then Some (length s - 1 - length (takeWhile (\<lambda>x. x \<noteq> c) (rev s))) else None)"

fun resolve_segs :: "string list \<Rightarrow> string \<Rightarrow> bool \<Rightarrow> string" where
  "resolve_segs [] dst first = dst"
| "resolve_segs (e # es) dst first =
     (if e = ''.'' then resolve_segs es dst False
      else if e = ''..'' then
        (case last_index (CHR ''/'') dst of
           None \<Rightarrow> resolve_segs es [] True
         | Some i \<Rightarrow> resolve_segs es (take i dst) first)
      else resolve_segs es ((if first then dst else dst @ ''/'') @ e) False)"

definition resolvePath :: "string \<Rightarrow> string \<Rightarrow> string" where
  "resolvePath base ref =
     (let full = (if ref = [] then base
                  else if hd ref \<noteq> CHR ''/'' then
                    (case last_index (CHR ''/'') base of
                       Some i \<Rightarrow> take (Suc i) base @ ref | None \<Rightarrow> ref)
                  else ref)
      in if full = [] then []
         else (let segs = split_char (CHR ''/'') full;
                   r = ''/'' @ resolve_segs segs [] True
                       @ (if last segs = ''.'' \<or> last segs = ''..'' then ''/'' else [])
               in if HasPrefix r ''//'' then tl r else r))"

text \<open>A path that does not parse leaves the URL as it was.\<close>

definition set_resolved :: "url \<Rightarrow> string \<Rightarrow> url" where
  "set_resolved u p = (case setPath u p of Inr v \<Rightarrow> v | Inl _ \<Rightarrow> u)"

definition ResolveReference :: "url \<Rightarrow> url \<Rightarrow> url" where
  "ResolveReference u ref =
     (let url0 = (if u_Scheme ref = [] then ref\<lparr> u_Scheme := u_Scheme u \<rparr> else ref) in
      if u_Scheme ref \<noteq> [] \<or> u_Host ref \<noteq> [] \<or> u_User ref \<noteq> None
      then set_resolved url0 (resolvePath (EscapedPath ref) [])
      else if u_Opaque ref \<noteq> [] then url0\<lparr> u_User := None, u_Host := [], u_Path := [] \<rparr>
      else
        let url1 = (if u_Path ref = [] \<and> \<not> u_ForceQuery ref \<and> u_RawQuery ref = []
                    then (let v = url0\<lparr> u_RawQuery := u_RawQuery u \<rparr> in
                          if u_Fragment ref = []
                          then v\<lparr> u_Fragment := u_Fragment u, u_RawFragment := u_RawFragment u \<rparr>
                          else v)
                    else url0)
        in if u_Path ref = [] \<and> u_Opaque u \<noteq> []
           then url1\<lparr> u_Opaque := u_Opaque u, u_User := None, u_Host := [], u_Path := [] \<rparr>
           else set_resolved (url1\<lparr> u_Host := u_Host u, u_User := u_User u \<rparr>)
                  (resolvePath (EscapedPath u) (EscapedPath ref)))"

definition url_ParseRef :: "authority_parser \<Rightarrow> url \<Rightarrow> string \<Rightarrow> url result" where
  "url_ParseRef pa u ref = bindE (url_Parse pa ref) (\<lambda>r. Inr (ResolveReference u r))"

text \<open>
  \<^verbatim>\<open>u.Query()\<close>: the parameters that parse; a part with a semicolon or a bad escape is
  dropped. \<^verbatim>\<open>url.Values\<close> is a list sorted by key, \<^verbatim>\<open>Set\<close> replaces, \<^verbatim>\<open>Add\<close> appends.
\<close>

fun str_le :: "string \<Rightarrow> string \<Rightarrow> bool" where
  "str_le [] t = True"
| "str_le (c # s) [] = False"
| "str_le (c # s) (d # t) =
     ((of_char c :: nat) < of_char d \<or> c = d \<and> str_le s t)"

fun Values_Set :: "string \<Rightarrow> string \<Rightarrow> (string \<times> string) list \<Rightarrow> (string \<times> string) list" where
  "Values_Set k v [] = [(k, v)]"
| "Values_Set k v ((k', v') # vs) =
     (if k = k' then (k, v) # filter (\<lambda>(x, _). x \<noteq> k) vs
      else if str_le k k' then (k, v) # (k', v') # vs
      else (k', v') # Values_Set k v vs)"

fun Values_Add :: "string \<Rightarrow> string \<Rightarrow> (string \<times> string) list \<Rightarrow> (string \<times> string) list" where
  "Values_Add k v [] = [(k, v)]"
| "Values_Add k v ((k', v') # vs) =
     (if str_le k' k then (k', v') # Values_Add k v vs else (k, v) # (k', v') # vs)"

definition Values_Encode :: "(string \<times> string) list \<Rightarrow> string" where
  "Values_Encode vs =
     str_Join (map (\<lambda>(k, v). QueryEscape k @ ''='' @ QueryEscape v) vs) ''&''"

definition QueryUnescape :: "string \<Rightarrow> string result" where
  "QueryUnescape s = url_unescape (map (\<lambda>c. if c = CHR ''+'' then CHR '' '' else c) s)"

definition query_part :: "string \<Rightarrow> (string \<times> string) list \<Rightarrow> (string \<times> string) list" where
  "query_part p vs =
     (if p = [] \<or> CHR '';'' \<in> set p then vs
      else let (k, v, _) = Cut p ''='' in
        case (QueryUnescape k, QueryUnescape v) of
          (Inr k', Inr v') \<Rightarrow> Values_Add k' v' vs
        | _ \<Rightarrow> vs)"

definition url_Query :: "url \<Rightarrow> (string \<times> string) list" where
  "url_Query u = foldl (\<lambda>vs p. query_part p vs) [] (split_char (CHR ''&'') (u_RawQuery u))"

section \<open>Plain paths and hosts\<close>

text \<open>
  A path or host made of characters that need no encoding is parsed and printed
  unchanged.
\<close>

definition plain_char :: "char \<Rightarrow> bool" where
  "plain_char c \<longleftrightarrow> is_alnum c \<or> c \<in> set ''-_.~/''"

lemma plain_char_not_escaped:
  "plain_char c \<Longrightarrow> \<not> shouldEscape encodePath c"
  by (auto simp: plain_char_def shouldEscape_def)

lemma plain_char_not_special:
  assumes "plain_char c"
  shows "c \<noteq> CHR ''%'' \<and> c \<noteq> CHR ''?'' \<and> c \<noteq> CHR ''#'' \<and> c \<noteq> CHR '':''
    \<and> \<not> (of_char c :: nat) < 32 \<and> (of_char c :: nat) \<noteq> 127"
  using assms by (auto simp: plain_char_def is_alnum_def Let_def)

lemma url_escape_id:
  "(\<And>c. c \<in> set s \<Longrightarrow> \<not> shouldEscape mode c) \<Longrightarrow> url_escape mode s = s"
  by (induction s) auto

lemma url_unescape_id: "CHR ''%'' \<notin> set s \<Longrightarrow> url_unescape s = Inr s"
  by (induction s) auto

lemma str_Index_char_None: "c \<notin> set s \<Longrightarrow> str_Index s [c] = None"
  by (induction s) (auto simp: HasPrefix_def)

lemma Cut_absent: "c \<notin> set s \<Longrightarrow> Cut s [c] = (s, [], False)"
  by (simp add: Cut_def str_Index_char_None)

lemma HasSuffix_single: "HasSuffix s [c] \<longleftrightarrow> s \<noteq> [] \<and> last s = c"
  by (cases s rule: rev_cases) (auto simp: HasSuffix_def HasPrefix_def)

lemma split_query_absent: "CHR ''?'' \<notin> set s \<Longrightarrow> split_query s = (s, False, [])"
  by (auto simp: split_query_def Cut_absent HasSuffix_single)

theorem url_Parse_plain:
  assumes plain: "\<And>c. c \<in> set (CHR ''/'' # p) \<Longrightarrow> plain_char c"
    and single: "\<not> HasPrefix p ''/''"
  shows "url_Parse pa (CHR ''/'' # p) = Inr (empty_url\<lparr> u_Path := CHR ''/'' # p \<rparr>)"
proof -
  let ?s = "CHR ''/'' # p"
  have no: "CHR ''%'' \<notin> set ?s" "CHR ''?'' \<notin> set ?s" "CHR ''#'' \<notin> set ?s"
    using plain plain_char_not_special by blast+
  have ctl: "\<not> containsCTLByte ?s"
    using plain plain_char_not_special by (auto simp: containsCTLByte_def list_ex_iff)
  have esc: "url_escape encodePath ?s = ?s"
    by (rule url_escape_id) (use plain plain_char_not_escaped in blast)
  have sch: "getScheme ?s = Inr ([], ?s)"
    by (simp add: getScheme_def is_alpha_def is_digit_def)
  have pre: "HasPrefix ?s ''/''" "\<not> HasPrefix ?s ''//''"
    using single by (auto simp: HasPrefix_iff)
  have "parse_ref pa ?s = Inr (empty_url\<lparr> u_Path := ?s \<rparr>)"
    using ctl esc sch pre split_query_absent [OF no(2)] url_unescape_id [OF no(1)]
    by (simp add: parse_ref_def setPath_def ToLower_def empty_url_def)
  with Cut_absent [OF no(3)] show ?thesis
    by (simp add: url_Parse_def)
qed

lemma url_String_plain:
  assumes "s \<noteq> []" "h \<noteq> []" "\<And>c. c \<in> set h \<Longrightarrow> \<not> shouldEscape encodeHost c"
    and "\<And>c. c \<in> set (CHR ''/'' # p) \<Longrightarrow> plain_char c"
  shows "url_String (empty_url\<lparr> u_Scheme := s, u_Host := h, u_Path := CHR ''/'' # p \<rparr>)
    = s @ ''://'' @ h @ CHR ''/'' # p"
proof -
  have "url_escape encodePath (CHR ''/'' # p) = CHR ''/'' # p"
    by (rule url_escape_id) (use assms plain_char_not_escaped in blast)
  then have "EscapedPath (empty_url\<lparr> u_Scheme := s, u_Host := h, u_Path := CHR ''/'' # p \<rparr>)
    = CHR ''/'' # p"
    by (simp add: EscapedPath_def empty_url_def)
  moreover have "url_escape encodeHost h = h"
    by (rule url_escape_id) (use assms in blast)
  ultimately show ?thesis
    using assms(1,2) by (simp add: url_String_def empty_url_def HasPrefix_def)
qed

end
