(* ===== verification/Session_Types.thy ===== *)
theory Session_Types
  imports K8s_Types Go_URL
begin

text \<open>
  The custom resource: \<^verbatim>\<open>src/api/v1alpha1/amaltheasession_types.go\<close>. One record per Go
  struct with its fields in order, one datatype per string enumeration. The values of an
  enumeration are those the CRD admits; where the code has a default branch that a value
  outside the enumeration reaches and reports, the datatype has an \<open>Other\<close> constructor.
\<close>

section \<open>Enumerations\<close>

datatype State = Running | Failed | Hibernated | NotReady | RunningDegraded | Succeeded

fun State_string :: "State \<Rightarrow> string" where
  "State_string Running = ''Running''"
| "State_string Failed = ''Failed''"
| "State_string Hibernated = ''Hibernated''"
| "State_string NotReady = ''NotReady''"
| "State_string RunningDegraded = ''RunningDegraded''"
| "State_string Succeeded = ''Succeeded''"

lemma State_string_inj: "State_string s = State_string t \<Longrightarrow> s = t"
  by (cases s; cases t) simp_all

datatype CodeRepositoryType = Git
datatype StorageType = Rclone | OtherStorageType string
datatype AuthenticationType = Token | OauthProxy | Oidc | OtherAuthenticationType string

fun AuthenticationType_string :: "AuthenticationType \<Rightarrow> string" where
  "AuthenticationType_string Token = ''token''"
| "AuthenticationType_string OauthProxy = ''oauth2proxy''"
| "AuthenticationType_string Oidc = ''oidc''"
| "AuthenticationType_string (OtherAuthenticationType s) = s"

datatype ReconcileStrategy = Never | Always | WhenFailedOrHibernated | OtherStrategy string

fun ReconcileStrategy_string :: "ReconcileStrategy \<Rightarrow> string" where
  "ReconcileStrategy_string Never = ''never''"
| "ReconcileStrategy_string Always = ''always''"
| "ReconcileStrategy_string WhenFailedOrHibernated = ''whenFailedOrHibernated''"
| "ReconcileStrategy_string (OtherStrategy s) = s"

datatype ReadinessProbeType = ProbeNone | ProbeTCP | ProbeHTTP

fun ReadinessProbeType_string :: "ReadinessProbeType \<Rightarrow> string" where
  "ReadinessProbeType_string ProbeNone = ''none''"
| "ReadinessProbeType_string ProbeTCP = ''tcp''"
| "ReadinessProbeType_string ProbeHTTP = ''http''"

datatype SessionLocation = Local | Remote
datatype SessionType = SessionTypeInteractive | SessionTypeNonInteractive
datatype AmaltheaSessionConditionType =
  AmaltheaSessionReady | AmaltheaSessionRoutingReady | OtherConditionType string

section \<open>The specification\<close>

record SessionSecretKeyRef =
  skr_Name :: string
  skr_Key :: string
  skr_Adopt :: bool

record SessionSecretRef =
  sr_Name :: string
  sr_Key :: string
  sr_Adopt :: bool

record Storage =
  stg_ClassName :: "string option"
  stg_Size :: "quantity option"
  stg_MountPath :: string

record Session =
  ses_Image :: string
  ses_ImagePullPolicy :: string
  ses_Command :: "string list"
  ses_Args :: "string list"
  ses_Env :: "EnvVar list"
  ses_Resources :: ResourceRequirements
  ses_Port :: int
  ses_Storage :: Storage
  ses_ShmSize :: "quantity option"
  ses_WorkingDir :: string
  ses_RunAsUser :: int
  ses_RunAsGroup :: int
  ses_URLPath :: string
  ses_StripURLPath :: bool
  ses_ExtraVolumeMounts :: "VolumeMount list"
  ses_ReadinessProbe :: ReadinessProbeType
  ses_RemoteSecretRef :: "SessionSecretRef option"

record Ingress =
  igc_Annotations :: strmap
  igc_IngressClassName :: "string option"
  igc_Host :: string
  igc_TLSSecret :: "SessionSecretRef option"
  igc_PathPrefix :: string
  igc_UseDefaultClusterTLSCert :: bool
  igc_AssumeHttps :: bool

record CodeRepository =
  cr_Type :: CodeRepositoryType
  cr_ClonePath :: string
  cr_Remote :: string
  cr_Revision :: string
  cr_CloningConfigSecretRef :: "SessionSecretKeyRef option"
  cr_ConfigSecretRef :: "SessionSecretKeyRef option"

record DataSource =
  ds_Type :: StorageType
  ds_MountPath :: string
  ds_AccessMode :: string
  ds_SecretRef :: "SessionSecretRef option"

record Culling =
  cul_MaxAge :: duration
  cul_MaxIdleDuration :: duration
  cul_MaxStartingDuration :: duration
  cul_MaxFailedDuration :: duration
  cul_MaxHibernatedDuration :: duration
  cul_LastInteraction :: time
  cul_CPUIdleThreshold :: quantity

record Authentication =
  auth_Enabled :: bool
  auth_Type :: AuthenticationType
  auth_SecretRef :: SessionSecretRef
  auth_ExtraVolumeMounts :: "VolumeMount list"

record TemplateMetadata =
  tm_Annotations :: strmap
  tm_Labels :: strmap

record AmaltheaSessionSpec =
  sp_SessionLocation :: SessionLocation
  sp_Session :: Session
  sp_CodeRepositories :: "CodeRepository list"
  sp_DataSources :: "DataSource list"
  sp_Authentication :: "Authentication option"
  sp_Culling :: Culling
  sp_Hibernated :: bool
  sp_ExtraContainers :: "Container list"
  sp_ExtraInitContainers :: "Container list"
  sp_ExtraVolumes :: "Volume list"
  sp_Ingress :: "Ingress option"
  sp_NodeSelector :: strmap
  sp_Affinity :: "opaque option"
  sp_Tolerations :: "opaque list"
  sp_ReconcileStrategy :: ReconcileStrategy
  sp_PriorityClassName :: string
  sp_ImagePullSecrets :: "SessionSecretRef list"
  sp_ServiceAccountName :: string
  sp_Template :: TemplateMetadata
  sp_SessionType :: SessionType

section \<open>The status\<close>

record ContainerCounts =
  cc_Ready :: int
  cc_Total :: int

definition no_counts :: ContainerCounts where
  "no_counts = \<lparr> cc_Ready = 0, cc_Total = 0 \<rparr>"

definition ContainerCounts_Ok :: "ContainerCounts \<Rightarrow> bool" where
  "ContainerCounts_Ok c \<longleftrightarrow> cc_Ready c = cc_Total c"

record AmaltheaSessionCondition =
  cond_Type :: AmaltheaSessionConditionType
  cond_Status :: string
  cond_LastTransitionTime :: time
  cond_Reason :: string
  cond_Message :: string

record AmaltheaSessionStatus =
  st_Conditions :: "AmaltheaSessionCondition list"
  st_State :: State
  st_URL :: string
  st_ContainerCounts :: ContainerCounts
  st_InitContainerCounts :: ContainerCounts
  st_Idle :: bool
  st_IdleSince :: time
  st_FailingSince :: time
  st_FailedSchedulingSince :: time
  st_HibernatedSince :: time
  st_WillHibernateAt :: time
  st_RunID :: string
  st_Error :: string

text \<open>\<^verbatim>\<open>AmaltheaSessionStatus{State: NotReady, Idle: false}\<close>.\<close>

definition initial_status :: AmaltheaSessionStatus where
  "initial_status = \<lparr> st_Conditions = [], st_State = NotReady, st_URL = [],
     st_ContainerCounts = no_counts, st_InitContainerCounts = no_counts, st_Idle = False,
     st_IdleSince = zero_time, st_FailingSince = zero_time,
     st_FailedSchedulingSince = zero_time, st_HibernatedSince = zero_time,
     st_WillHibernateAt = zero_time, st_RunID = [], st_Error = [] \<rparr>"

record AmaltheaSession =
  as_Meta :: ObjectMeta
  as_Spec :: AmaltheaSessionSpec
  as_Status :: AmaltheaSessionStatus

abbreviation as_Name :: "AmaltheaSession \<Rightarrow> string" where
  "as_Name as \<equiv> om_Name (as_Meta as)"

abbreviation as_Namespace :: "AmaltheaSession \<Rightarrow> string" where
  "as_Namespace as \<equiv> om_Namespace (as_Meta as)"

abbreviation as_Session :: "AmaltheaSession \<Rightarrow> Session" where
  "as_Session as \<equiv> sp_Session (as_Spec as)"

section \<open>Methods\<close>

text \<open>\<^verbatim>\<open>os.Getenv\<close>: the environment of the operator process; unset reads as empty.\<close>

type_synonym environ = "string \<Rightarrow> string"

definition SessionSecretKeyRef_isAdopted :: "SessionSecretKeyRef option \<Rightarrow> bool" where
  "SessionSecretKeyRef_isAdopted s =
     (case s of None \<Rightarrow> False | Some r \<Rightarrow> skr_Name r \<noteq> [] \<and> skr_Adopt r)"

definition SessionSecretRef_isAdopted :: "SessionSecretRef option \<Rightarrow> bool" where
  "SessionSecretRef_isAdopted s =
     (case s of None \<Rightarrow> False | Some r \<Rightarrow> sr_Name r \<noteq> [] \<and> sr_Adopt r)"

definition getHttpsSessionIngress :: "environ \<Rightarrow> bool" where
  "getHttpsSessionIngress env \<longleftrightarrow> ToLower (env ''HTTPS_SESSION_INGRESS'') = ''true''"

definition UrlScheme :: "environ \<Rightarrow> Ingress \<Rightarrow> string" where
  "UrlScheme env ingress =
     (if (case igc_TLSSecret ingress of Some s \<Rightarrow> sr_Name s \<noteq> [] | None \<Rightarrow> False)
         \<or> igc_UseDefaultClusterTLSCert ingress \<or> igc_AssumeHttps ingress
         \<or> getHttpsSessionIngress env
      then ''https'' else ''http'')"

definition GetURL :: "authority_parser \<Rightarrow> environ \<Rightarrow> AmaltheaSession \<Rightarrow> url option" where
  "GetURL pa env a =
     (case sp_Ingress (as_Spec a) of
        None \<Rightarrow> None
      | Some ingress \<Rightarrow>
          if igc_Host ingress = [] then None
          else
            (let urlScheme = UrlScheme env ingress;
                 path0 = ses_URLPath (as_Session a);
                 path = (if HasSuffix path0 ''/'' then path0 else path0 @ ''/'') in
             case url_Parse pa path of
               Inl _ \<Rightarrow> Some (empty_url\<lparr> u_Scheme := urlScheme, u_Path := path,
                                       u_Host := igc_Host ingress \<rparr>)
             | Inr sessionURL \<Rightarrow>
                 Some (sessionURL\<lparr> u_Scheme := urlScheme, u_Host := igc_Host ingress \<rparr>)))"

definition GetURLString :: "authority_parser \<Rightarrow> environ \<Rightarrow> AmaltheaSession \<Rightarrow> string" where
  "GetURLString pa env a =
     (case GetURL pa env a of None \<Rightarrow> ''None'' | Some u \<Rightarrow> url_String u)"

definition PodName :: "AmaltheaSession \<Rightarrow> string" where
  "PodName as = as_Name as @ ''-0''"

definition JobName :: "AmaltheaSession \<Rightarrow> string" where
  "JobName as = as_Name as"

section \<open>Lemmas\<close>

lemma GetURL_None_iff:
  "GetURL pa env a = None \<longleftrightarrow>
     (case sp_Ingress (as_Spec a) of None \<Rightarrow> True | Some i \<Rightarrow> igc_Host i = [])"
  by (auto simp: GetURL_def Let_def split: option.splits sum.splits)

text \<open>Whatever the path, the address of a session has the ingress' host and scheme.\<close>

lemma GetURL_host_scheme:
  "GetURL pa env a = Some u \<Longrightarrow>
     \<exists>i. sp_Ingress (as_Spec a) = Some i \<and> u_Host u = igc_Host i \<and> u_Scheme u = UrlScheme env i"
  by (auto simp: GetURL_def Let_def split: option.splits sum.splits if_splits)

lemma UrlScheme_cases: "UrlScheme env i = ''http'' \<or> UrlScheme env i = ''https''"
  by (simp add: UrlScheme_def)

end
