(* ===== verification/Operator_Config.thy ===== *)
theory Operator_Config
  imports Go_Prelude
begin

text \<open>
  The operator's configuration: \<^verbatim>\<open>src/internal/controller/config/\<close>. Cluster detection and
  the rewriting of session images. The discovery client, \<^verbatim>\<open>json.Unmarshal\<close> and
  \<^verbatim>\<open>reference.ParseDockerRef\<close> are arguments.
\<close>

section \<open>Cluster type\<close>

datatype ClusterType = Kubernetes | OpenShift

text \<open>
  \<open>newClient\<close> is the error of \<^verbatim>\<open>discovery.NewDiscoveryClientForConfig\<close>, \<open>serverGroups\<close>
  the group names that \<^verbatim>\<open>ServerGroups\<close> returns.
\<close>

definition DetectClusterType ::
  "go_error option \<Rightarrow> string list result \<Rightarrow> ClusterType result" where
  "DetectClusterType newClient serverGroups =
     (case newClient of
        Some e \<Rightarrow> Inl e
      | None \<Rightarrow> bindE serverGroups (\<lambda>groups.
          if list_ex (\<lambda>g. g = ''project.openshift.io'') groups then Inr OpenShift
          else Inr Kubernetes))"

section \<open>Image rewriting\<close>

record imageRewriteRule =
  rule_SourcePrefix :: string
  rule_TargetPrefix :: string

text \<open>What the code reads of a parsed image reference.\<close>

record named_ref =
  nr_Domain :: string
  nr_Path :: string
  nr_Tag :: "string option"
  nr_Digest :: "string option"

type_synonym docker_ref_parser = "string \<Rightarrow> named_ref result"

definition imageRewriteRule_rewrite :: "imageRewriteRule \<Rightarrow> string \<Rightarrow> string \<times> bool" where
  "imageRewriteRule_rewrite rule domainAndPath =
     (let (after, found) = CutPrefix domainAndPath (rule_SourcePrefix rule) in
      if \<not> found \<or> \<not> HasPrefix after ''/'' then (domainAndPath, False)
      else (rule_TargetPrefix rule @ after, True))"

text \<open>The loop of \<^verbatim>\<open>ruleBasedRewriter.Rewrite\<close> over the rules.\<close>

fun rewrite_loop :: "string \<Rightarrow> string \<Rightarrow> named_ref \<Rightarrow> imageRewriteRule list \<Rightarrow> string" where
  "rewrite_loop img domainAndPath named [] = img"
| "rewrite_loop img domainAndPath named (rule # rules) =
     (if rule_SourcePrefix rule = [] \<or> rule_TargetPrefix rule = []
      then rewrite_loop img domainAndPath named rules
      else
        (let (res, matched) = imageRewriteRule_rewrite rule domainAndPath in
         if matched then
           (case (nr_Tag named, nr_Digest named) of
              (Some tag, Some digest) \<Rightarrow> res @ '':'' @ tag @ ''@'' @ digest
            | (Some tag, None) \<Rightarrow> res @ '':'' @ tag
            | (None, Some digest) \<Rightarrow> res @ ''@'' @ digest
            | (None, None) \<Rightarrow> domainAndPath)
         else rewrite_loop img domainAndPath named rules))"

definition Rewrite ::
  "docker_ref_parser \<Rightarrow> imageRewriteRule list \<Rightarrow> string \<Rightarrow> string result" where
  "Rewrite ParseDockerRef rules img =
     bindE (ParseDockerRef img) (\<lambda>named.
       Inr (rewrite_loop img (nr_Domain named @ ''/'' @ nr_Path named) named rules))"

definition parseImageRewriteRules ::
  "(string \<Rightarrow> imageRewriteRule list result) \<Rightarrow> string \<Rightarrow> imageRewriteRule list result" where
  "parseImageRewriteRules json_Unmarshal rulesStr = json_Unmarshal rulesStr"

text \<open>A rewriter is its rules; \<open>None\<close> is the nil interface.\<close>

definition GetImageFieldRewriter ::
  "(string \<Rightarrow> imageRewriteRule list result) \<Rightarrow> (string \<Rightarrow> string)
   \<Rightarrow> imageRewriteRule list option result" where
  "GetImageFieldRewriter json_Unmarshal env =
     (let rulesStr = env ''AMALTHEA_IMAGE_REWRITE_RULES'' in
      if rulesStr = [] then Inr None
      else bindE (parseImageRewriteRules json_Unmarshal rulesStr) (\<lambda>rules.
        if rules = [] then Inr None else Inr (Some rules)))"

record AmaltheaSessionConfiguration =
  cfg_ClusterType :: ClusterType
  cfg_ImageFieldRewriter :: "imageRewriteRule list option"

definition GetAmaltheaSessionConfiguration ::
  "go_error option \<Rightarrow> string list result \<Rightarrow> (string \<Rightarrow> imageRewriteRule list result)
   \<Rightarrow> (string \<Rightarrow> string) \<Rightarrow> AmaltheaSessionConfiguration result" where
  "GetAmaltheaSessionConfiguration newClient serverGroups json_Unmarshal env =
     bindE (DetectClusterType newClient serverGroups) (\<lambda>clusterType.
     bindE (GetImageFieldRewriter json_Unmarshal env) (\<lambda>rewriter.
       Inr \<lparr> cfg_ClusterType = clusterType, cfg_ImageFieldRewriter = rewriter \<rparr>))"

section \<open>What the rules do\<close>

text \<open>
  A rule applies to a repository when it is well formed and its source prefix is the
  repository's leading path components.
\<close>

definition rule_applies :: "string \<Rightarrow> imageRewriteRule \<Rightarrow> bool" where
  "rule_applies repo rule \<longleftrightarrow>
     rule_SourcePrefix rule \<noteq> [] \<and> rule_TargetPrefix rule \<noteq> []
     \<and> HasPrefix repo (rule_SourcePrefix rule @ ''/'')"

definition ref_suffix :: "named_ref \<Rightarrow> string" where
  "ref_suffix n = (case nr_Tag n of Some t \<Rightarrow> '':'' @ t | None \<Rightarrow> [])
                @ (case nr_Digest n of Some d \<Rightarrow> ''@'' @ d | None \<Rightarrow> [])"

lemma rewrite_result:
  "imageRewriteRule_rewrite rule repo =
     (if HasPrefix repo (rule_SourcePrefix rule @ ''/'')
      then (rule_TargetPrefix rule @ drop (length (rule_SourcePrefix rule)) repo, True)
      else (repo, False))"
proof -
  have "HasPrefix repo (p @ ''/'') \<longleftrightarrow> HasPrefix repo p \<and> HasPrefix (drop (length p) repo) ''/''" for p
    by (auto simp: HasPrefix_iff)
  then show ?thesis
    by (auto simp: imageRewriteRule_rewrite_def CutPrefix_def)
qed

lemma rewrite_loop_eq:
  "nr_Tag named \<noteq> None \<or> nr_Digest named \<noteq> None \<Longrightarrow>
   rewrite_loop img repo named rules =
     (case find (rule_applies repo) rules of
        None \<Rightarrow> img
      | Some rule \<Rightarrow> rule_TargetPrefix rule @ drop (length (rule_SourcePrefix rule)) repo
                     @ ref_suffix named)"
  by (induction rules) (auto simp: rule_applies_def rewrite_result ref_suffix_def split: option.splits)

text \<open>Rewriting an image follows the first rule that is well formed and whose source prefix is
  a prefix of the image's registry and path that ends at a path boundary: the prefix is
  replaced by the target and the tag and digest are kept. If no rule applies, the image is
  returned as it was written. The parser is assumed, as documented, to give every reference
  a tag or a digest.\<close>

lemma Rewrite_first_rule:
  assumes "ParseDockerRef img = Inr named" "nr_Tag named \<noteq> None \<or> nr_Digest named \<noteq> None"
  shows "Rewrite ParseDockerRef rules img = Inr
    (let repo = nr_Domain named @ ''/'' @ nr_Path named in
     case find (rule_applies repo) rules of
       None \<Rightarrow> img
     | Some rule \<Rightarrow> rule_TargetPrefix rule @ drop (length (rule_SourcePrefix rule)) repo
                    @ ref_suffix named)"
  using assms by (simp add: Rewrite_def rewrite_loop_eq Let_def)

end
