(* ===== verification/Session_Templates.thy ===== *)
theory Session_Templates
  imports Session_Types Operator_Config
begin

text \<open>
  The pod of a session: the constants, volumes, containers and the pod template of
  \<^verbatim>\<open>src/api/v1alpha1/amaltheasession_children.go\<close>, the cloning init containers of
  \<^verbatim>\<open>code_repo_templates.go\<close> and the authentication containers of \<^verbatim>\<open>auth_templates.go\<close>.
  Package variables read from the environment are functions of the environment.
\<close>

named_theorems template_defs \<open>the definitions of the container and volume templates\<close>

section \<open>Library code the templates call\<close>

datatype yaml = YStr string | YBool bool | YList "yaml list" | YMap "(string \<times> yaml) list"

record golib =
  lib_q_IsZero :: "quantity \<Rightarrow> bool"
  lib_q_Value :: "quantity \<Rightarrow> int"
  lib_q_Cmp :: "quantity \<Rightarrow> quantity \<Rightarrow> int"
  lib_parseAuthority :: authority_parser
  lib_yaml_Marshal :: "yaml \<Rightarrow> string result"
  lib_ParseDockerRef :: docker_ref_parser
  lib_sort_Slice :: "Event list \<Rightarrow> Event list"
  lib_map_order :: "string list \<Rightarrow> string list"

text \<open>
  \<open>lib_sort_Slice\<close> is \<^verbatim>\<open>sort.Slice\<close> on events, which does not fix the order of events with
  equal keys; \<open>lib_map_order\<close> is the order in which the runtime visits the keys of a map.
\<close>

section \<open>Constants\<close>

definition prefix :: string where "prefix = ''amalthea-''"
definition SessionContainerName :: string where "SessionContainerName = prefix @ ''session''"
definition servicePortName :: string where "servicePortName = prefix @ ''http''"
definition serviceMetaPortName :: string where "serviceMetaPortName = prefix @ ''http-meta''"
definition servicePort :: int where "servicePort = 80"
definition sessionVolumeName :: string where "sessionVolumeName = prefix @ ''volume''"
definition shmVolumeName :: string where "shmVolumeName = prefix @ ''dev-shm''"
definition tunnelContainerName :: string where "tunnelContainerName = ''tunnel''"
definition tunnelServiceName :: string where "tunnelServiceName = prefix @ ''tunnel''"
definition TunnelIngressPathSuffix :: string where
  "TunnelIngressPathSuffix = ''__amalthea__/tunnel''"
definition authenticatedPort :: int where "authenticatedPort = 65535"
definition AuthProxyMetaPort :: int where "AuthProxyMetaPort = 65534"
definition secondProxyPort :: int where "secondProxyPort = 65533"
definition RemoteSessionControllerPort :: int where "RemoteSessionControllerPort = 65532"
definition TunnelPort :: int where "TunnelPort = 65531"
definition rcloneDefaultStorage :: quantity where "rcloneDefaultStorage = ''1Gi''"
definition rcloneStorageSecretNameAnnotation :: string where
  "rcloneStorageSecretNameAnnotation = ''csi-rclone.dev/secretName''"
definition oneMebiByte :: int where "oneMebiByte = 1024 * 1024"
definition authproxyImage :: string where
  "authproxyImage = ''harbor.renkulab.io/bitnami-mirror/oauth2-proxy:7.6.0''"

definition getStorageClass :: "environ \<Rightarrow> string" where
  "getStorageClass env =
     (let sc = env ''RCLONE_STORAGE_CLASS'' in
      if sc = [] then ''csi-rclone-secret-annotation'' else sc)"

definition getSidecarsImage :: "environ \<Rightarrow> string" where
  "getSidecarsImage env =
     (let sc = env ''SIDECARS_IMAGE'' in if sc = [] then ''renku/sidecars:latest'' else sc)"

definition getUseNoneSameSiteSessionCookie :: "environ \<Rightarrow> bool" where
  "getUseNoneSameSiteSessionCookie env \<longleftrightarrow>
     ToLower (env ''USE_NONE_SAME_SITE_SESSION_COOKIE'') = ''true''"

section \<open>Labels\<close>

definition selectorLabels :: "string \<Rightarrow> strmap" where
  "selectorLabels name = fmap_of_list
     [(''app.kubernetes.io/name'', ''AmaltheaSession''),
      (''app.kubernetes.io/instance'', name),
      (''app.kubernetes.io/part-of'', ''amaltheasession-operator''),
      (''app.kubernetes.io/created-by'', ''controller-manager'')]"

text \<open>
  The keys of \<open>source\<close> found in \<open>destination\<close>, in the order in which the keys of
  \<open>source\<close> are visited; only its length is used, for a log line.
\<close>

definition findConflicts :: "strmap \<Rightarrow> (string \<times> string) list \<Rightarrow> string list" where
  "findConflicts destination source =
     filter (\<lambda>k. fmlookup destination k \<noteq> None) (map fst source)"

definition childLabels :: "AmaltheaSession \<Rightarrow> strmap" where
  "childLabels cr =
     maps_Copy (maps_Copy fmempty (tm_Labels (sp_Template (as_Spec cr))))
               (selectorLabels (as_Name cr))"

definition template_annotations :: "AmaltheaSession \<Rightarrow> strmap" where
  "template_annotations cr = tm_Annotations (sp_Template (as_Spec cr))"

section \<open>The session's claim and volumes\<close>

definition PVC :: "AmaltheaSession \<Rightarrow> PersistentVolumeClaim" where
  "PVC cr =
     (let requests = (case stg_Size (ses_Storage (as_Session cr)) of
            None \<Rightarrow> fmap_of_list [(''storage'', ''1Gi'')]
          | Some sz \<Rightarrow> fmap_of_list [(''storage'', sz)]) in
      \<lparr> pvc_Meta = empty_meta\<lparr> om_Name := as_Name cr, om_Namespace := as_Namespace cr,
          om_Labels := childLabels cr, om_Annotations := template_annotations cr \<rparr>,
        pvc_Spec = \<lparr> pvs_AccessModes = [ReadWriteOnce], pvs_Requests = requests,
          pvs_StorageClassName = stg_ClassName (ses_Storage (as_Session cr)),
          pvs_VolumeName = [] \<rparr>,
        pvc_Phase = [], pvc_AllocatedResourceStatuses = [], pvc_Conditions = [] \<rparr>)"

definition SessionVolumes :: "AmaltheaSession \<Rightarrow> Volume list \<times> VolumeMount list" where
  "SessionVolumes cr =
     (let pvc = PVC cr;
          volumes = [\<lparr> vol_Name = sessionVolumeName,
            vol_Source = PersistentVolumeClaimSource (om_Name (pvc_Meta pvc)) False \<rparr>];
          volumeMounts = [mount sessionVolumeName (stg_MountPath (ses_Storage (as_Session cr)))] in
      case ses_ShmSize (as_Session cr) of
        None \<Rightarrow> (volumes, volumeMounts)
      | Some shm \<Rightarrow>
          (volumes @ [\<lparr> vol_Name = shmVolumeName,
                        vol_Source = EmptyDirSource ''Memory'' (Some shm) \<rparr>],
           volumeMounts @ [mount shmVolumeName ''/dev/shm'']))"

section \<open>Data sources\<close>

definition ds_pvc_name :: "AmaltheaSession \<Rightarrow> nat \<Rightarrow> string" where
  "ds_pvc_name as ids = prefix @ as_Name as @ ''-ds-'' @ show_nat ids"

definition ds_pvc :: "environ \<Rightarrow> AmaltheaSession \<Rightarrow> nat \<Rightarrow> DataSource \<Rightarrow> string
    \<Rightarrow> PersistentVolumeClaim" where
  "ds_pvc env as ids ds secretName =
     \<lparr> pvc_Meta = empty_meta\<lparr> om_Name := ds_pvc_name as ids, om_Namespace := as_Namespace as,
         om_Annotations := fmupd rcloneStorageSecretNameAnnotation secretName
           (maps_Copy fmempty (template_annotations as)),
         om_Labels := childLabels as \<rparr>,
       pvc_Spec = \<lparr> pvs_AccessModes = [ds_AccessMode ds],
         pvs_Requests = fmap_of_list [(''storage'', rcloneDefaultStorage)],
         pvs_StorageClassName = Some (getStorageClass env), pvs_VolumeName = [] \<rparr>,
       pvc_Phase = [], pvc_AllocatedResourceStatuses = [], pvc_Conditions = [] \<rparr>"

type_synonym data_source_manifests =
  "PersistentVolumeClaim list \<times> Volume list \<times> VolumeMount list"

text \<open>
  \<^verbatim>\<open>ds.SecretRef.Name\<close> dereferences a pointer: a data source without a secret reference
  panics.
\<close>

fun DataSources_loop ::
  "environ \<Rightarrow> AmaltheaSession \<Rightarrow> nat \<Rightarrow> DataSource list \<Rightarrow> data_source_manifests result" where
  "DataSources_loop env as ids [] = Inr ([], [], [])"
| "DataSources_loop env as ids (ds # dss) =
     (case ds_Type ds of
        Rclone \<Rightarrow>
          bindE (deref (ds_SecretRef ds)) (\<lambda>ref.
          bindE (DataSources_loop env as (Suc ids) dss) (\<lambda>(pvcs, vols, volMounts).
            let pvcName = ds_pvc_name as ids;
                readOnly = (ds_AccessMode ds = ReadOnlyMany) in
            Inr (ds_pvc env as ids ds (sr_Name ref) # pvcs,
                 \<lparr> vol_Name = pvcName,
                   vol_Source = PersistentVolumeClaimSource pvcName readOnly \<rparr> # vols,
                 (mount pvcName (ds_MountPath ds))\<lparr> vm_ReadOnly := readOnly \<rparr> # volMounts)))
      | OtherStorageType _ \<Rightarrow> DataSources_loop env as (Suc ids) dss)"

definition DataSources ::
  "environ \<Rightarrow> AmaltheaSession \<Rightarrow> data_source_manifests result" where
  "DataSources env as =
     (if sp_SessionLocation (as_Spec as) = Remote then Inr ([], [], [])
      else DataSources_loop env as 0 (sp_DataSources (as_Spec as)))"

section \<open>Cloning the code repositories\<close>

record manifests =
  mf_Containers :: "Container list"
  mf_Volumes :: "Volume list"

definition no_manifests :: manifests where
  "no_manifests = \<lparr> mf_Containers = [], mf_Volumes = [] \<rparr>"

definition clone_secret_volume :: "nat \<Rightarrow> string" where
  "clone_secret_volume irepo = prefix @ ''git-clone-cred-volume-'' @ show_nat irepo"

definition clone_args :: "AmaltheaSession \<Rightarrow> CodeRepository \<Rightarrow> string list" where
  "clone_args as repo =
     [''cloner'', ''clone'', ''--strategy'', ''notifexist'', ''--remote'', cr_Remote repo,
      ''--path'', stg_MountPath (ses_Storage (as_Session as)) @ ''/'' @ cr_ClonePath repo]
     @ (case cr_CloningConfigSecretRef repo of
          None \<Rightarrow> []
        | Some ref \<Rightarrow> [''--config'', ''/git-clone-secrets/'' @ skr_Key ref])
     @ (if cr_Revision repo = [] then [] else [''--revision'', cr_Revision repo])"

definition clone_container ::
  "environ \<Rightarrow> AmaltheaSession \<Rightarrow> nat \<Rightarrow> VolumeMount list \<Rightarrow> CodeRepository \<Rightarrow> Container" where
  "clone_container env as irepo volMounts repo =
     empty_container\<lparr> c_Name := ''git-clone-'' @ show_nat irepo,
       c_Image := getSidecarsImage env,
       c_VolumeMounts := volMounts,
       c_WorkingDir := stg_MountPath (ses_Storage (as_Session as)),
       c_Env := [],
       c_SecurityContext := Some \<lparr> sc_RunAsNonRoot = None,
         sc_RunAsUser = Some (ses_RunAsUser (as_Session as)),
         sc_RunAsGroup = Some (ses_RunAsGroup (as_Session as)),
         sc_AllowPrivilegeEscalation = None, sc_CapabilitiesDrop = [''ALL''] \<rparr>,
       c_Args := clone_args as repo \<rparr>"

text \<open>
  The mounts accumulate over the repositories: a container also mounts the secrets of
  the repositories before its own.
\<close>

fun cloneInit_loop ::
  "environ \<Rightarrow> AmaltheaSession \<Rightarrow> nat \<Rightarrow> VolumeMount list \<Rightarrow> CodeRepository list \<Rightarrow> manifests" where
  "cloneInit_loop env as irepo volMounts [] = no_manifests"
| "cloneInit_loop env as irepo volMounts (repo # repos) =
     (let (vols, volMounts') =
        (case cr_CloningConfigSecretRef repo of
           None \<Rightarrow> ([], volMounts)
         | Some ref \<Rightarrow>
             ([\<lparr> vol_Name = clone_secret_volume irepo,
                 vol_Source = SecretSource (skr_Name ref) None \<rparr>],
              volMounts @ [mount (clone_secret_volume irepo) ''/git-clone-secrets'']));
          rest = cloneInit_loop env as (Suc irepo) volMounts' repos in
      \<lparr> mf_Containers = clone_container env as irepo volMounts' repo # mf_Containers rest,
        mf_Volumes = vols @ mf_Volumes rest \<rparr>)"

definition cloneInit :: "environ \<Rightarrow> AmaltheaSession \<Rightarrow> manifests" where
  "cloneInit env as =
     cloneInit_loop env as 0
       [mount sessionVolumeName (stg_MountPath (ses_Storage (as_Session as)))]
       (sp_CodeRepositories (as_Spec as))"

section \<open>Authentication\<close>

definition urlPath :: "AmaltheaSession \<Rightarrow> string" where
  "urlPath cr = (let path = ses_URLPath (as_Session cr) in
     if HasSuffix path ''/'' then path else path @ ''/'')"

definition ingressPathPrefix :: "AmaltheaSession \<Rightarrow> string" where
  "ingressPathPrefix cr =
     (case sp_Ingress (as_Spec cr) of
        None \<Rightarrow> ''/''
      | Some ingress \<Rightarrow>
          (let path = igc_PathPrefix ingress in
           if HasSuffix path ''/'' then path else path @ ''/''))"

definition local_url :: "int \<Rightarrow> string" where
  "local_url port = ''http://127.0.0.1:'' @ show_int port"

definition proxy_resources :: ResourceRequirements where
  "proxy_resources =
     \<lparr> rr_Requests = fmap_of_list [(''memory'', ''16Mi''), (''cpu'', ''20m'')],
       rr_Limits = fmap_of_list [(''memory'', ''16Mi'')] \<rparr>"

definition sidecar_resources :: ResourceRequirements where
  "sidecar_resources =
     \<lparr> rr_Requests = fmap_of_list [(''memory'', ''64Mi''), (''cpu'', ''100m'')],
       rr_Limits = fmap_of_list [(''memory'', ''64Mi'')] \<rparr>"

definition restricted_context :: SecurityContext where
  "restricted_context = \<lparr> sc_RunAsNonRoot = Some True, sc_RunAsUser = None,
     sc_RunAsGroup = None, sc_AllowPrivilegeEscalation = Some False,
     sc_CapabilitiesDrop = [''ALL''] \<rparr>"

definition http_probe :: "string \<Rightarrow> int \<Rightarrow> Probe" where
  "http_probe path port = \<lparr> pr_Handler = HTTPGet path (FromInt32 port),
     pr_SuccessThreshold = 0, pr_PeriodSeconds = 0, pr_InitialDelaySeconds = 0 \<rparr>"

definition tcp_probe :: "int \<Rightarrow> Probe" where
  "tcp_probe port = \<lparr> pr_Handler = TCPSocket (FromInt32 port),
     pr_SuccessThreshold = 0, pr_PeriodSeconds = 0, pr_InitialDelaySeconds = 0 \<rparr>"

definition get_rewrite_authn_proxy ::
  "environ \<Rightarrow> AmaltheaSession \<Rightarrow> int \<Rightarrow> int \<Rightarrow> int \<Rightarrow> Container" where
  "get_rewrite_authn_proxy env as listenPort metaListenPort remotePort =
     (let probe = http_probe ''/__amalthea__/health'' listenPort in
      empty_container\<lparr> c_Image := getSidecarsImage env,
        c_Name := ''authproxy'',
        c_SecurityContext := Some (restricted_context\<lparr>
          sc_RunAsUser := Some 1000, sc_RunAsGroup := Some 1000 \<rparr>),
        c_Args := [''proxy'', ''serve'', ''--verbose''],
        c_Env := [env_value ''AUTHPROXY_PORT'' (show_int listenPort),
                  env_value ''AUTHPROXY_META_PORT'' (show_int metaListenPort),
                  env_value ''AUTHPROXY_REMOTE'' (local_url remotePort)]
                 @ (if ses_StripURLPath (as_Session as)
                    then [env_value ''AUTHPROXY_STRIP_PATH_PREFIX'' (urlPath as)] else []),
        c_ReadinessProbe := Some probe,
        c_LivenessProbe := Some probe,
        c_Resources := proxy_resources \<rparr>)"

text \<open>The \<^verbatim>\<open>oauth2-proxy\<close> container, of which the two branches differ in the fields given.\<close>

definition oauth2ProxyContainer ::
  "string list \<Rightarrow> EnvFromSource list \<Rightarrow> VolumeMount list \<Rightarrow> Container" where
  "oauth2ProxyContainer args envFrom volumeMounts =
     empty_container\<lparr> c_Image := authproxyImage,
       c_Name := ''oauth2-proxy'',
       c_SecurityContext := Some restricted_context,
       c_Args := args,
       c_EnvFrom := envFrom,
       c_VolumeMounts := volumeMounts,
       c_ReadinessProbe := Some (http_probe ''/ping'' authenticatedPort),
       c_LivenessProbe := Some (http_probe ''/ping'' authenticatedPort),
       c_Resources := proxy_resources \<rparr>"

definition sameSiteCookieFlag :: "environ \<Rightarrow> string" where
  "sameSiteCookieFlag env = (if getUseNoneSameSiteSessionCookie env then ''none'' else ''strict'')"

definition auth :: "environ \<Rightarrow> AmaltheaSession \<Rightarrow> manifests result" where
  "auth env as =
     (case sp_Authentication (as_Spec as) of
        None \<Rightarrow> Inr no_manifests
      | Some a \<Rightarrow>
          if \<not> auth_Enabled a then Inr no_manifests
          else if (auth_Type a = OauthProxy \<or> auth_Type a = Token)
                  \<and> length (sr_Key (auth_SecretRef a)) = 0
          then Inl (Err (''the authentication secret key has to be defined when using ''
                         @ AuthenticationType_string (auth_Type a) @ '' authentication''))
          else
            (let volumeMounts = auth_ExtraVolumeMounts a;
                 port = ses_Port (as_Session as);
                 volName = prefix @ ''proxy-configuration-secret'';
                 secretVol = \<lparr> vol_Name = volName,
                   vol_Source = SecretSource (sr_Name (auth_SecretRef a)) (Some False) \<rparr> in
             case auth_Type a of
               OauthProxy \<Rightarrow>
                 Inr \<lparr> mf_Containers =
                   [oauth2ProxyContainer
                      [''--upstream='' @ local_url secondProxyPort,
                       ''--http-address=:'' @ show_int authenticatedPort,
                       ''--silence-ping-logging'',
                       ''--config=/etc/oauth2-proxy/'' @ sr_Key (auth_SecretRef a),
                       ''--cookie-samesite='' @ sameSiteCookieFlag env]
                      []
                      (mount volName ''/etc/oauth2-proxy'' # volumeMounts),
                    get_rewrite_authn_proxy env as secondProxyPort AuthProxyMetaPort port],
                   mf_Volumes = [secretVol] \<rparr>
             | Token \<Rightarrow>
                 if getUseNoneSameSiteSessionCookie env
                 then Inl (Err ''cannot set the same site cookie parameter for anonymous sessions'')
                 else
                   Inr \<lparr> mf_Containers =
                     [(get_rewrite_authn_proxy env as authenticatedPort AuthProxyMetaPort port)\<lparr>
                        c_Args := [''proxy'', ''serve'', ''--config'',
                                   ''/etc/authproxy/'' @ sr_Key (auth_SecretRef a)],
                        c_VolumeMounts := mount volName ''/etc/authproxy'' # volumeMounts \<rparr>],
                     mf_Volumes = [secretVol] \<rparr>
             | Oidc \<Rightarrow>
                 (let volNameFixedConfig = prefix @ ''-fixed-proxy-configuration-secret'';
                      volNameAuthorizedEmails = prefix @ ''-authorized-emails-secret'' in
                  Inr \<lparr> mf_Containers =
                    [oauth2ProxyContainer
                       [''--silence-ping-logging'',
                        ''--alpha-config=/etc/oauth2-proxy/oauth2-proxy-alpha-config.yaml'',
                        ''--config=/etc/oauth2-proxy/oauth2-proxy-config.yaml'',
                        ''--cookie-samesite='' @ sameSiteCookieFlag env]
                       [EnvFromSecret (sr_Name (auth_SecretRef a))]
                       (mount volNameFixedConfig ''/etc/oauth2-proxy''
                        # (mount volNameAuthorizedEmails ''/authorized_emails'')\<lparr>
                             vm_SubPath := ''AUTHORIZED_EMAILS'' \<rparr>
                        # volumeMounts),
                     get_rewrite_authn_proxy env as secondProxyPort AuthProxyMetaPort port],
                    mf_Volumes =
                      [\<lparr> vol_Name = volNameFixedConfig,
                         vol_Source = SecretSource (as_Name as) (Some False) \<rparr>,
                       \<lparr> vol_Name = volNameAuthorizedEmails,
                         vol_Source = SecretSource (sr_Name (auth_SecretRef a)) (Some False) \<rparr>] \<rparr>)
             | OtherAuthenticationType t \<Rightarrow>
                 Inl (Err (''unexpected authentication type '' @ t
                      @ '' when trying to template authentication containers''))))"

section \<open>The session container\<close>

definition InternalSecretName :: "AmaltheaSession \<Rightarrow> string" where
  "InternalSecretName as = as_Name as @ ''---internal''"

definition session_image ::
  "golib \<Rightarrow> AmaltheaSessionConfiguration \<Rightarrow> AmaltheaSession \<Rightarrow> string" where
  "session_image lib cfg cr =
     (let img = ses_Image (as_Session cr) in
      if length (sp_ImagePullSecrets (as_Spec cr)) = 0 then
        (case cfg_ImageFieldRewriter cfg of
           None \<Rightarrow> img
         | Some rules \<Rightarrow>
             (case Rewrite (lib_ParseDockerRef lib) rules img of
                Inl _ \<Rightarrow> img
              | Inr newImage \<Rightarrow> newImage))
      else img)"

definition session_probe :: "ProbeHandler \<Rightarrow> Probe" where
  "session_probe h = \<lparr> pr_Handler = h, pr_SuccessThreshold = 5, pr_PeriodSeconds = 5,
     pr_InitialDelaySeconds = 10 \<rparr>"

definition sessionContainerLocal ::
  "golib \<Rightarrow> AmaltheaSession \<Rightarrow> VolumeMount list \<Rightarrow> AmaltheaSessionConfiguration \<Rightarrow> Container" where
  "sessionContainerLocal lib cr volumeMounts cfg =
     (let session = as_Session cr in
      empty_container\<lparr> c_Image := session_image lib cfg cr,
        c_Name := SessionContainerName,
        c_ImagePullPolicy := ses_ImagePullPolicy session,
        c_Args := ses_Args session,
        c_Command := ses_Command session,
        c_Env := ses_Env session,
        c_Resources := ses_Resources session,
        c_VolumeMounts := volumeMounts,
        c_TerminationMessagePath := ''/dev/termination-log'',
        c_TerminationMessagePolicy := ''File'',
        c_WorkingDir := ses_WorkingDir session,
        c_ReadinessProbe :=
          (case ses_ReadinessProbe session of
             ProbeHTTP \<Rightarrow> Some (session_probe
               (HTTPGet (ses_URLPath session) (FromInt32 (ses_Port session))))
           | ProbeTCP \<Rightarrow> Some (session_probe (TCPSocket (FromInt32 (ses_Port session))))
           | ProbeNone \<Rightarrow> None),
        c_SecurityContext := Some \<lparr>
          sc_RunAsNonRoot = Some (ses_RunAsUser session \<noteq> 0),
          sc_RunAsUser = Some (ses_RunAsUser session),
          sc_RunAsGroup = Some (ses_RunAsGroup session),
          sc_AllowPrivilegeEscalation = None,
          sc_CapabilitiesDrop = [''ALL''] \<rparr> \<rparr>)"

definition resourceValue :: "golib \<Rightarrow> ResourceRequirements \<Rightarrow> string \<Rightarrow> quantity" where
  "resourceValue lib res name =
     (case fmlookup (rr_Requests res) name of
        Some q \<Rightarrow>
          if \<not> lib_q_IsZero lib q then q
          else (case fmlookup (rr_Limits res) name of
                  Some l \<Rightarrow> if \<not> lib_q_IsZero lib l then l else zero_quantity
                | None \<Rightarrow> zero_quantity)
      | None \<Rightarrow> (case fmlookup (rr_Limits res) name of
                  Some l \<Rightarrow> if \<not> lib_q_IsZero lib l then l else zero_quantity
                | None \<Rightarrow> zero_quantity))"

definition remote_env_var :: "EnvVar \<Rightarrow> EnvVar" where
  "remote_env_var item =
     (if HasPrefix (ev_Name item) ''RENKU_'' \<or> HasPrefix (ev_Name item) ''RSC_'' then item
      else item\<lparr> ev_Name := ''USER_ENV_'' @ ev_Name item \<rparr>)"

definition resource_env :: "golib \<Rightarrow> ResourceRequirements \<Rightarrow> string \<Rightarrow> int \<Rightarrow> string" where
  "resource_env lib res name scale =
     (let q = resourceValue lib res name in
      if \<not> lib_q_IsZero lib q then show_int (go_quo (lib_q_Value lib q) scale) else [])"

definition sessionContainerRemote ::
  "golib \<Rightarrow> environ \<Rightarrow> AmaltheaSession \<Rightarrow> VolumeMount list \<Rightarrow> Container" where
  "sessionContainerRemote lib env cr volumeMounts =
     (let session = as_Session cr; res = ses_Resources session in
      empty_container\<lparr> c_Image := getSidecarsImage env,
        c_Name := SessionContainerName,
        c_SecurityContext := Some restricted_context,
        c_Args := [''remote-session-controller'', ''run''],
        c_Env := map remote_env_var (ses_Env session)
          @ [env_value ''REMOTE_SESSION_IMAGE'' (ses_Image session),
             env_value ''RSC_SERVER_PORT'' (show_int RemoteSessionControllerPort),
             env_value ''RSC_SESSION_PORT'' (show_int (ses_Port session)),
             env_value ''RSC_SESSION_URL_PATH'' (ses_URLPath session),
             env_value ''RSC_READINESS_PROBE_TYPE''
               (ReadinessProbeType_string (ses_ReadinessProbe session)),
             env_secret ''RSC_WSTUNNEL_SECRET'' (InternalSecretName cr) ''WSTUNNEL_SECRET'']
          @ [env_value ''RSC_SESSION_CPU'' (resource_env lib res ''cpu'' 1),
             env_value ''RSC_SESSION_MEMORY'' (resource_env lib res ''memory'' oneMebiByte),
             env_value ''RSC_SESSION_GPUS'' (resource_env lib res ''nvidia.com/gpu'' 1)],
        c_Resources := sidecar_resources,
        c_VolumeMounts := volumeMounts,
        c_TerminationMessagePath := ''/dev/termination-log'',
        c_TerminationMessagePolicy := ''File'',
        c_Ports := [\<lparr> cp_Name = servicePortName,
                      cp_ContainerPort = RemoteSessionControllerPort \<rparr>],
        c_EnvFrom := (case ses_RemoteSecretRef session of
            None \<Rightarrow> [] | Some ref \<Rightarrow> [EnvFromSecret (sr_Name ref)]),
        c_LivenessProbe := Some ((http_probe ''/live'' RemoteSessionControllerPort)\<lparr>
          pr_PeriodSeconds := 1, pr_InitialDelaySeconds := 10 \<rparr>),
        c_ReadinessProbe := Some (session_probe
          (HTTPGet ''/ready'' (FromInt32 RemoteSessionControllerPort))) \<rparr>)"

definition sessionContainer ::
  "golib \<Rightarrow> environ \<Rightarrow> AmaltheaSession \<Rightarrow> VolumeMount list \<Rightarrow> AmaltheaSessionConfiguration
   \<Rightarrow> Container" where
  "sessionContainer lib env cr volumeMounts cfg =
     (if sp_SessionLocation (as_Spec cr) = Remote then sessionContainerRemote lib env cr volumeMounts
      else sessionContainerLocal lib cr volumeMounts cfg)"

definition tunnelContainer :: "environ \<Rightarrow> AmaltheaSession \<Rightarrow> Container" where
  "tunnelContainer env cr =
     empty_container\<lparr> c_Image := getSidecarsImage env,
       c_Name := tunnelContainerName,
       c_SecurityContext := Some restricted_context,
       c_Args := [''tunnel'', ''listen''],
       c_Env := [env_value ''WSTUNNEL_PORT'' (show_int TunnelPort),
                 env_secret ''WSTUNNEL_SECRET'' (InternalSecretName cr) ''WSTUNNEL_SECRET''],
       c_Resources := sidecar_resources,
       c_Ports := [\<lparr> cp_Name = tunnelServiceName, cp_ContainerPort = TunnelPort \<rparr>],
       c_ReadinessProbe := Some ((tcp_probe TunnelPort)\<lparr> pr_SuccessThreshold := 3,
         pr_PeriodSeconds := 1, pr_InitialDelaySeconds := 5 \<rparr>) \<rparr>"

section \<open>The pod\<close>

definition Pod ::
  "golib \<Rightarrow> environ \<Rightarrow> AmaltheaSession \<Rightarrow> AmaltheaSessionConfiguration \<Rightarrow> PodSpec result" where
  "Pod lib env cr cfg =
     bindE (DataSources env cr) (\<lambda>(_, dsVols, dsVolMounts).
       let clone = cloneInit env cr; (sessionVols, sessionMounts) = SessionVolumes cr;
           spec = as_Spec cr in
       bindE (if sp_SessionType spec \<noteq> SessionTypeNonInteractive then auth env cr
              else Inr no_manifests) (\<lambda>au.
         let volumes = sessionVols @ mf_Volumes clone @ sp_ExtraVolumes spec @ dsVols
                       @ mf_Volumes au;
             volumeMounts = sessionMounts @ ses_ExtraVolumeMounts (as_Session cr) @ dsVolMounts;
             initContainers = mf_Containers clone @ sp_ExtraInitContainers spec;
             containers = [sessionContainer lib env cr volumeMounts cfg] @ mf_Containers au
               @ (if sp_SessionLocation spec = Remote then [tunnelContainer env cr] else [])
               @ sp_ExtraContainers spec in
         Inr \<lparr> ps_ServiceAccountName = sp_ServiceAccountName spec,
           ps_DeprecatedServiceAccount =
             (if cfg_ClusterType cfg = OpenShift then sp_ServiceAccountName spec else []),
           ps_EnableServiceLinks = Some False,
           ps_AutomountServiceAccountToken = Some False,
           ps_FSGroup = Some (ses_RunAsGroup (as_Session cr)),
           ps_Containers = containers,
           ps_InitContainers = initContainers,
           ps_Volumes = volumes,
           ps_Tolerations = sp_Tolerations spec,
           ps_NodeSelector = sp_NodeSelector spec,
           ps_Affinity = sp_Affinity spec,
           ps_PriorityClassName = sp_PriorityClassName spec,
           ps_ImagePullSecrets = map sr_Name (sp_ImagePullSecrets spec),
           ps_RestartPolicy = [],
           ps_TerminationGracePeriodSeconds = None \<rparr>))"

end
