(* ===== verification/K8s_Client.thy ===== *)
theory K8s_Client
  imports Session_Types
begin

text \<open>
  What the operator asks of the cluster: the methods of the controller-runtime client,
  of the metrics client and of \<^verbatim>\<open>controllerutil\<close> that \<^verbatim>\<open>src/\<close> calls, as the fields of a
  record over an arbitrary type \<open>'w\<close> of cluster states. Reads take the state, writes
  return the new one. The record is an argument of every operation that talks to the
  cluster; what a property needs of it is a hypothesis of that property.
\<close>

type_synonym OperationResult = string

abbreviation (input) OperationResultNone :: OperationResult where
  "OperationResultNone \<equiv> ''unchanged''"

text \<open>
  The function value \<^verbatim>\<open>statusCallback\<close> of \<^verbatim>\<open>ChildResourceUpdate\<close>: the code makes two of
  them, one for a session that resumes and one for a session that hibernates.
\<close>

datatype status_callback = OnResume | OnHibernate

text \<open>
  The argument of \<^verbatim>\<open>controllerutil.CreateOrPatch\<close>: it mutates the current object, may set
  the callback, and returns an error. The object is changed even when it returns one.
\<close>

type_synonym 'a mutator = "'a \<Rightarrow> 'a \<times> status_callback option \<times> go_error option"

type_synonym ('w, 'a) create_or_patch =
  "'a \<Rightarrow> 'a mutator \<Rightarrow> 'w
   \<Rightarrow> 'w \<times> 'a \<times> OperationResult \<times> status_callback option \<times> go_error option"

record 'w client =
  cl_GetSession :: "string \<Rightarrow> string \<Rightarrow> 'w \<Rightarrow> AmaltheaSession result"
  cl_GetPod :: "string \<Rightarrow> string \<Rightarrow> 'w \<Rightarrow> Pod result"
  cl_GetJob :: "string \<Rightarrow> string \<Rightarrow> 'w \<Rightarrow> Job result"
  cl_GetIngress :: "string \<Rightarrow> string \<Rightarrow> 'w \<Rightarrow> NetIngress result"
  cl_ListPods :: "string \<Rightarrow> strmap \<Rightarrow> 'w \<Rightarrow> Pod list result"
  cl_ListEvents :: "string \<Rightarrow> string \<Rightarrow> string \<Rightarrow> 'w \<Rightarrow> Event list result"
  cl_PodMetricses :: "string \<Rightarrow> string \<Rightarrow> 'w \<Rightarrow> (string \<times> resource_list) list list result"
  cl_Update :: "AmaltheaSession \<Rightarrow> 'w \<Rightarrow> 'w \<times> AmaltheaSession result"
  cl_StatusUpdate :: "AmaltheaSession \<Rightarrow> 'w \<Rightarrow> 'w \<times> AmaltheaSession result"
  cl_Delete :: "AmaltheaSession \<Rightarrow> 'w \<Rightarrow> 'w \<times> go_error option"
  cl_DeleteSecret :: "SecretObject \<Rightarrow> 'w \<Rightarrow> 'w \<times> go_error option"
  cl_DeleteIngress :: "NetIngress \<Rightarrow> 'w \<Rightarrow> 'w \<times> go_error option"
  cl_SetControllerReference :: "AmaltheaSession \<Rightarrow> ObjectMeta \<Rightarrow> ObjectMeta result"
  cl_CreateOrPatch_Ingress :: "('w, NetIngress) create_or_patch"
  cl_CreateOrPatch_StatefulSet :: "('w, StatefulSet) create_or_patch"
  cl_CreateOrPatch_PVC :: "('w, PersistentVolumeClaim) create_or_patch"
  cl_CreateOrPatch_Service :: "('w, Service) create_or_patch"
  cl_CreateOrPatch_Secret :: "('w, SecretObject) create_or_patch"
  cl_CreateOrPatch_Job :: "('w, Job) create_or_patch"

end
