(* ===== verification/Session_Children.thy ===== *)
theory Session_Children
  imports Session_Templates K8s_Client "HOL-Library.Multiset"
begin

text \<open>
  The children that a session asks for and the queries on a session:
  \<^verbatim>\<open>src/api/v1alpha1/amaltheasession_children.go\<close>. Randomness (the bytes of the tunnel
  and cookie secrets, the run ID) is an argument.
\<close>

record randomness =
  rnd_tunnel :: "string result"
  rnd_cookie :: "string result"
  rnd_ulid :: string

section \<open>Workloads\<close>

definition run_annotations :: "AmaltheaSession \<Rightarrow> strmap" where
  "run_annotations cr =
     (let annotations0 = maps_Copy fmempty (template_annotations cr);
          runID = st_RunID (as_Status cr);
          annotations1 = (if runID \<noteq> [] then fmupd ''renku.io/run_id'' runID annotations0
                          else annotations0);
          uid = om_UID (as_Meta cr) in
      if uid \<noteq> [] then fmupd ''renku.io/session_uid'' uid annotations1 else annotations1)"

definition Job ::
  "golib \<Rightarrow> environ \<Rightarrow> AmaltheaSession \<Rightarrow> AmaltheaSessionConfiguration \<Rightarrow> Job result" where
  "Job lib env cr cfg =
     bindE (Pod lib env cr cfg) (\<lambda>pod.
       let maxAge = cul_MaxAge (sp_Culling (as_Spec cr));
           activeTTL = (if maxAge > 0 then Some (maxAge div second) else None);
           jobLabels = childLabels cr;
           annotations = run_annotations cr in
       Inr \<lparr> job_Meta = empty_meta\<lparr> om_Name := JobName cr, om_Namespace := as_Namespace cr,
               om_Labels := jobLabels, om_Annotations := annotations \<rparr>,
             job_Spec = \<lparr> js_Parallelism = Some 1, js_Completions = Some 1,
               js_BackoffLimit = Some 0, js_ActiveDeadlineSeconds = activeTTL,
               js_TTLSecondsAfterFinished = None,
               js_Suspend = Some (sp_Hibernated (as_Spec cr)),
               js_Template = \<lparr> pt_Labels = jobLabels, pt_Annotations = annotations,
                 pt_Spec = pod\<lparr> ps_RestartPolicy := ''Never'' \<rparr> \<rparr> \<rparr>,
             job_Status = \<lparr> jst_Conditions = [], jst_Active = 0, jst_Ready = None,
               jst_Failed = 0 \<rparr> \<rparr>)"

definition StatefulSet ::
  "golib \<Rightarrow> environ \<Rightarrow> AmaltheaSession \<Rightarrow> AmaltheaSessionConfiguration \<Rightarrow> StatefulSet result" where
  "StatefulSet lib env cr cfg =
     (let replicas = (if sp_Hibernated (as_Spec cr) then 0 else 1) in
      bindE (Pod lib env cr cfg) (\<lambda>pod.
        let stsLabels = childLabels cr;
            annotations = run_annotations cr in
        Inr \<lparr> sts_Meta = empty_meta\<lparr> om_Name := as_Name cr, om_Namespace := as_Namespace cr,
                om_Labels := stsLabels, om_Annotations := annotations \<rparr>,
              sts_Spec = \<lparr> sss_PodManagementPolicy = ''Parallel'',
                sss_Replicas = Some replicas,
                sss_Selector = Some (selectorLabels (as_Name cr)),
                sss_Template = \<lparr> pt_Labels = stsLabels, pt_Annotations = annotations,
                  pt_Spec = (if sp_SessionLocation (as_Spec cr) = Remote
                    then pod\<lparr> ps_TerminationGracePeriodSeconds := Some 60 \<rparr> else pod) \<rparr> \<rparr>,
              sts_ReadyReplicas = 0, sts_StatusReplicas = 0 \<rparr>))"

section \<open>Routing\<close>

definition Service :: "AmaltheaSession \<Rightarrow> Service" where
  "Service cr =
     (let targetPort = (case sp_Authentication (as_Spec cr) of
            Some a \<Rightarrow> if auth_Enabled a then authenticatedPort else ses_Port (as_Session cr)
          | None \<Rightarrow> ses_Port (as_Session cr));
          remote = (sp_SessionLocation (as_Spec cr) = Remote) in
      \<lparr> svc_Meta = empty_meta\<lparr> om_Name := as_Name cr, om_Namespace := as_Namespace cr,
          om_Labels := childLabels cr, om_Annotations := template_annotations cr \<rparr>,
        svc_Spec = \<lparr> svs_Selector = selectorLabels (as_Name cr),
          svs_Ports =
            [\<lparr> svp_Protocol = ''TCP'', svp_Name = servicePortName, svp_Port = servicePort,
               svp_TargetPort = FromInt32 targetPort \<rparr>,
             \<lparr> svp_Protocol = ''TCP'', svp_Name = serviceMetaPortName,
               svp_Port = AuthProxyMetaPort, svp_TargetPort = FromInt32 AuthProxyMetaPort \<rparr>]
            @ (if remote then
                [\<lparr> svp_Protocol = ''TCP'', svp_Name = tunnelServiceName, svp_Port = TunnelPort,
                   svp_TargetPort = FromString tunnelServiceName \<rparr>] else []),
          svs_PublishNotReadyAddresses = remote, svs_ClusterIP = [] \<rparr>,
        svc_LoadBalancer = [] \<rparr>)"

definition GetHealthcheckURL ::
  "authority_parser \<Rightarrow> environ \<Rightarrow> AmaltheaSession \<Rightarrow> url" where
  "GetHealthcheckURL pa env a =
     (case GetURL pa env a of
        Some u \<Rightarrow> u
      | None \<Rightarrow> empty_url\<lparr>
          u_Host := om_Name (svc_Meta (Service a)) @ '':'' @ show_int servicePort,
          u_Scheme := ''http'', u_Path := ses_URLPath (as_Session a) \<rparr>)"

definition ingress_path :: "AmaltheaSession \<Rightarrow> string \<Rightarrow> string \<Rightarrow> HTTPIngressPath" where
  "ingress_path cr path portName = \<lparr> hip_Path = path, hip_PathType = ''Prefix'',
     hip_ServiceName = as_Name cr, hip_ServicePortName = portName \<rparr>"

definition Ingress :: "AmaltheaSession \<Rightarrow> NetIngress option" where
  "Ingress cr =
     (case sp_Ingress (as_Spec cr) of
        None \<Rightarrow> None
      | Some ingress \<Rightarrow>
          (let annotations = maps_Copy (maps_Copy fmempty (template_annotations cr))
                                       (igc_Annotations ingress);
               tls0 = (case igc_TLSSecret ingress of
                   Some s \<Rightarrow>
                     if sr_Name s \<noteq> []
                     then [\<lparr> tls_Hosts = [igc_Host ingress], tls_SecretName = sr_Name s \<rparr>]
                     else []
                 | None \<Rightarrow> []);
               tls = (if igc_TLSSecret ingress = None \<and> igc_UseDefaultClusterTLSCert ingress
                      then [\<lparr> tls_Hosts = [], tls_SecretName = [] \<rparr>] else tls0) in
           Some \<lparr> ing_Meta = empty_meta\<lparr> om_Name := as_Name cr,
               om_Namespace := as_Namespace cr, om_Labels := childLabels cr,
               om_Annotations := annotations \<rparr>,
             ing_Spec = \<lparr> igs_IngressClassName = igc_IngressClassName ingress,
               igs_Rules = [\<lparr> igr_Host = igc_Host ingress,
                 igr_Paths = [ingress_path cr (ingressPathPrefix cr) servicePortName]
                   @ (if sp_SessionLocation (as_Spec cr) = Remote
                      then [ingress_path cr (ingressPathPrefix cr @ TunnelIngressPathSuffix)
                              tunnelServiceName]
                      else []) \<rparr>],
               igs_TLS = tls \<rparr>,
             ing_LoadBalancer = [] \<rparr>))"

section \<open>Secrets\<close>

definition secret_named :: "string \<Rightarrow> string \<Rightarrow> SecretObject" where
  "secret_named ns name =
     \<lparr> sec_Meta = empty_meta\<lparr> om_Namespace := ns, om_Name := name \<rparr>,
       sec_Data = fmempty, sec_StringData = fmempty \<rparr>"

definition adopted_ref :: "AmaltheaSession \<Rightarrow> SessionSecretRef option \<Rightarrow> SecretObject list" where
  "adopted_ref cr r =
     (if SessionSecretRef_isAdopted r
      then (case r of Some s \<Rightarrow> [secret_named (as_Namespace cr) (sr_Name s)] | None \<Rightarrow> [])
      else [])"

definition adopted_key_ref ::
  "AmaltheaSession \<Rightarrow> SessionSecretKeyRef option \<Rightarrow> SecretObject list" where
  "adopted_key_ref cr r =
     (if SessionSecretKeyRef_isAdopted r
      then (case r of Some s \<Rightarrow> [secret_named (as_Namespace cr) (skr_Name s)] | None \<Rightarrow> [])
      else [])"

definition AdoptedSecrets :: "AmaltheaSession \<Rightarrow> SecretObject list" where
  "AdoptedSecrets cr =
     (let spec = as_Spec cr in
      (case sp_Ingress spec of Some i \<Rightarrow> adopted_ref cr (igc_TLSSecret i) | None \<Rightarrow> [])
      @ (case sp_Authentication spec of
           Some a \<Rightarrow> if auth_Enabled a then adopted_ref cr (Some (auth_SecretRef a)) else []
         | None \<Rightarrow> [])
      @ (case ses_RemoteSecretRef (sp_Session spec) of
           Some r \<Rightarrow> adopted_ref cr (Some r) | None \<Rightarrow> [])
      @ concat (map (\<lambda>pv. adopted_ref cr (ds_SecretRef pv)) (sp_DataSources spec))
      @ concat (map (\<lambda>repo. adopted_key_ref cr (cr_CloningConfigSecretRef repo)
                          @ adopted_key_ref cr (cr_ConfigSecretRef repo))
                    (sp_CodeRepositories spec))
      @ concat (map (\<lambda>r. adopted_ref cr (Some r)) (sp_ImagePullSecrets spec)))"

text \<open>\<open>bytes\<close> is what \<^verbatim>\<open>io.ReadFull(rand.Reader, b)\<close> fills \<^verbatim>\<open>b\<close> with.\<close>

definition makeTunnelSecret :: "string result \<Rightarrow> string result" where
  "makeTunnelSecret bytes = bindE bytes (\<lambda>b. Inr (RawURLEncoding_EncodeToString b))"

definition as_panic :: "'a result \<Rightarrow> 'a result" where
  "as_panic r = (case r of Inl e \<Rightarrow> Inl (Panicked (err_msg e)) | Inr x \<Rightarrow> Inr x)"

definition quoted :: "string \<Rightarrow> string \<Rightarrow> string" where
  "quoted key v = key @ '' = '' @ [CHR 0x22] @ v @ [CHR 0x22]"

definition oidc_old_config_lines :: "string \<Rightarrow> url \<Rightarrow> string \<Rightarrow> string list" where
  "oidc_old_config_lines pathPrefix sessionURL cookieSecret =
     (let pathPrefixURL = empty_url\<lparr> u_Host := u_Host sessionURL, u_Path := pathPrefix,
                                    u_Scheme := u_Scheme sessionURL \<rparr> in
      [''session_cookie_minimal = true'',
       ''skip_provider_button = true'',
       quoted ''redirect_url'' (url_String (url_JoinPath pathPrefixURL ''oauth2/callback'')),
       quoted ''cookie_path'' pathPrefix,
       quoted ''proxy_prefix'' (pathPrefix @ ''oauth2''),
       quoted ''authenticated_emails_file'' ''/authorized_emails'',
       quoted ''cookie_secret'' (URLEncoding_EncodeToString cookieSecret)])"

definition oidc_new_config :: "string \<Rightarrow> yaml" where
  "oidc_new_config pathPrefix =
     YMap [(''providers'', YList [YMap
              [(''clientID'', YStr ''${OIDC_CLIENT_ID}''),
               (''clientSecret'', YStr ''${OIDC_CLIENT_SECRET}''),
               (''id'', YStr ''amalthea-oidc''),
               (''provider'', YStr ''oidc''),
               (''oidcConfig'', YMap
                 [(''insecureSkipNonce'', YBool False),
                  (''issuerURL'', YStr ''${OIDC_ISSUER_URL}''),
                  (''insecureAllowUnverifiedEmail'', YStr ''${ALLOW_UNVERIFIED_EMAILS}''),
                  (''emailClaim'', YStr ''email''),
                  (''audienceClaims'', YList [YStr ''aud''])])]]),
           (''server'', YMap
              [(''bindAddress'', YStr (''0.0.0.0:'' @ show_int authenticatedPort))]),
           (''upstreamConfig'', YMap
              [(''upstreams'', YList [YMap
                 [(''id'', YStr ''amalthea-upstream''),
                  (''path'', YStr pathPrefix),
                  (''uri'', YStr (local_url secondProxyPort)),
                  (''insecureSkipTLSVerify'', YBool True),
                  (''passHostHeader'', YBool True),
                  (''proxyWebSockets'', YBool True)]])])]"

definition Secret ::
  "golib \<Rightarrow> environ \<Rightarrow> randomness \<Rightarrow> AmaltheaSession \<Rightarrow> SecretObject result" where
  "Secret lib env rnd as =
     (let secret = \<lparr> sec_Meta = empty_meta\<lparr> om_Name := InternalSecretName as,
            om_Namespace := as_Namespace as, om_Labels := childLabels as,
            om_Annotations := template_annotations as \<rparr>,
            sec_Data = fmempty, sec_StringData = fmempty \<rparr> in
      bindE (if sp_SessionLocation (as_Spec as) = Remote
             then as_panic (makeTunnelSecret (rnd_tunnel rnd)) else Inr []) (\<lambda>tunnelSecret.
      let withTunnel = (\<lambda>m. if tunnelSecret \<noteq> []
                            then fmupd ''WSTUNNEL_SECRET'' tunnelSecret m else m) in
      if (case sp_Authentication (as_Spec as) of
            None \<Rightarrow> True | Some a \<Rightarrow> auth_Type a \<noteq> Oidc)
      then Inr (secret\<lparr> sec_StringData := withTunnel fmempty \<rparr>)
      else
        bindE (deref (GetURL (lib_parseAuthority lib) env as)) (\<lambda>sessionURL.
        bindE (as_panic (rnd_cookie rnd)) (\<lambda>cookieSecret.
        bindE (as_panic (lib_yaml_Marshal lib (oidc_new_config (ingressPathPrefix as))))
          (\<lambda>newConfigStr.
          Inr (secret\<lparr> sec_StringData := withTunnel
            (fmap_of_list
              [(''oauth2-proxy-alpha-config.yaml'', newConfigStr),
               (''oauth2-proxy-config.yaml'',
                str_Join (oidc_old_config_lines (ingressPathPrefix as) sessionURL cookieSecret)
                         [CHR 0x0A])]) \<rparr>))))))"

section \<open>Conditions and deletion\<close>

definition NewConditions :: "time \<Rightarrow> AmaltheaSessionCondition list" where
  "NewConditions now =
     [\<lparr> cond_Type = AmaltheaSessionReady, cond_Status = ConditionFalse,
        cond_LastTransitionTime = now, cond_Reason = ''SessionCreated'',
        cond_Message = ''The custom resource was created just now'' \<rparr>,
      \<lparr> cond_Type = AmaltheaSessionRoutingReady, cond_Status = ConditionFalse,
        cond_LastTransitionTime = now, cond_Reason = ''SessionCreated'',
        cond_Message = ''The custom resource was created just now'' \<rparr>]"

definition NeedsDeletion :: "time \<Rightarrow> AmaltheaSession \<Rightarrow> bool" where
  "NeedsDeletion now cr =
     (let status = as_Status cr; culling = sp_Culling (as_Spec cr) in
      case sp_SessionType (as_Spec cr) of
        SessionTypeNonInteractive \<Rightarrow>
          (let doneSince0 = st_IdleSince status;
               doneSince = (if \<not> IsZero (st_FailingSince status) \<and> \<not> IsZero doneSince0
                               \<and> st_FailingSince status < doneSince0
                            then st_FailingSince status else doneSince0);
               hibernatedDuration = time_since now doneSince in
           \<not> IsZero doneSince \<and> (st_State status = Failed \<or> st_State status = Succeeded)
           \<and> hibernatedDuration > cul_MaxHibernatedDuration culling)
      | SessionTypeInteractive \<Rightarrow>
          (let hibernatedDuration = time_since now (st_HibernatedSince status);
               durationIsZero = (cul_MaxHibernatedDuration culling = 0) in
           st_State status = Hibernated \<and> \<not> durationIsZero
           \<and> hibernatedDuration > cul_MaxHibernatedDuration culling))"

section \<open>Queries on the cluster\<close>

text \<open>A pod pointer and an error: \<open>Inr None\<close> is \<^verbatim>\<open>nil, nil\<close>.\<close>

definition GetPod :: "'w client \<Rightarrow> AmaltheaSession \<Rightarrow> 'w \<Rightarrow> Pod option result" where
  "GetPod clnt cr w =
     (if sp_SessionType (as_Spec cr) = SessionTypeNonInteractive then
        bindE (cl_ListPods clnt (as_Namespace cr)
                 (fmap_of_list [(''job-name'', JobName cr)]) w) (\<lambda>items.
          if length items > 1 then Inl (Err ''more than one pod found for job'')
          else case items of p # _ \<Rightarrow> Inr (Some p) | [] \<Rightarrow> Inr None)
      else bindE (cl_GetPod clnt (as_Namespace cr) (PodName cr) w) (\<lambda>p. Inr (Some p)))"

definition GetJob :: "'w client \<Rightarrow> AmaltheaSession \<Rightarrow> 'w \<Rightarrow> Job result" where
  "GetJob clnt cr w = cl_GetJob clnt (as_Namespace cr) (JobName cr) w"

definition eventTimestamp :: "Event \<Rightarrow> time" where
  "eventTimestamp ev = (let t = evt_EventTime ev in if IsZero t then evt_FirstTimestamp ev else t)"

definition GetPodEvents ::
  "golib \<Rightarrow> 'w client \<Rightarrow> AmaltheaSession \<Rightarrow> 'w \<Rightarrow> Event list result" where
  "GetPodEvents lib c as w =
     (case cl_ListEvents c (as_Namespace as) ''Pod'' (PodName as) w of
        Inl e \<Rightarrow> Inl (Err (''cannot get pod events: '' @ err_msg e))
      | Inr items \<Rightarrow> Inr (lib_sort_Slice lib items))"

end
