(* ===== verification/Sample.thy ===== *)
theory Sample
  imports Session_Children
begin

text \<open>
  A concrete session, library, environment and configuration, at which the witnesses of
  the properties evaluate the model. The session has an ingress, token authentication, two
  code repositories and one rclone data source, and it asks for culling.
\<close>

definition sample_lib :: golib where
  "sample_lib = \<lparr> lib_q_IsZero = (\<lambda>q. q = ''0''), lib_q_Value = (\<lambda>q. int (length q)),
     lib_q_Cmp = (\<lambda>a b. if length a < length b then -1 else if length a = length b then 0 else 1),
     lib_parseAuthority = (\<lambda>a. Inr (None, a)), lib_yaml_Marshal = (\<lambda>_. Inr ''yaml''),
     lib_ParseDockerRef = (\<lambda>s. Inr \<lparr> nr_Domain = ''docker.io'', nr_Path = ''library/'' @ s,
       nr_Tag = Some ''latest'', nr_Digest = None \<rparr>),
     lib_sort_Slice = sort_key eventTimestamp, lib_map_order = (\<lambda>ks. ks) \<rparr>"

definition sample_env :: environ where
  "sample_env = (\<lambda>_. [])"

definition sample_cfg :: AmaltheaSessionConfiguration where
  "sample_cfg = \<lparr> cfg_ClusterType = Kubernetes, cfg_ImageFieldRewriter = None \<rparr>"

definition sample_secret_ref :: SessionSecretRef where
  "sample_secret_ref = \<lparr> sr_Name = ''cred'', sr_Key = ''auth'', sr_Adopt = True \<rparr>"

definition sample_auth :: Authentication where
  "sample_auth = \<lparr> auth_Enabled = True, auth_Type = Token,
     auth_SecretRef = sample_secret_ref, auth_ExtraVolumeMounts = [] \<rparr>"

definition sample_repo :: "string \<Rightarrow> CodeRepository" where
  "sample_repo n = \<lparr> cr_Type = Git, cr_ClonePath = n, cr_Remote = ''https://git.example/'' @ n,
     cr_Revision = [],
     cr_CloningConfigSecretRef = Some \<lparr> skr_Name = ''git'', skr_Key = ''k'', skr_Adopt = False \<rparr>,
     cr_ConfigSecretRef = None \<rparr>"

definition sample_ingress :: Ingress where
  "sample_ingress = \<lparr> igc_Annotations = fmempty, igc_IngressClassName = None,
     igc_Host = ''example.org'', igc_TLSSecret = None, igc_PathPrefix = ''/s'',
     igc_UseDefaultClusterTLSCert = True, igc_AssumeHttps = False \<rparr>"

definition sample_Session :: Session where
  "sample_Session = \<lparr> ses_Image = ''renku'', ses_ImagePullPolicy = ''Always'', ses_Command = [],
     ses_Args = [], ses_Env = [], ses_Resources = no_resources, ses_Port = 8000,
     ses_Storage = \<lparr> stg_ClassName = None, stg_Size = None, stg_MountPath = ''/work'' \<rparr>,
     ses_ShmSize = None, ses_WorkingDir = [], ses_RunAsUser = 1000, ses_RunAsGroup = 1000,
     ses_URLPath = ''/s'', ses_StripURLPath = False, ses_ExtraVolumeMounts = [],
     ses_ReadinessProbe = ProbeTCP, ses_RemoteSecretRef = None \<rparr>"

definition sample_culling :: Culling where
  "sample_culling = \<lparr> cul_MaxAge = 100, cul_MaxIdleDuration = 20, cul_MaxStartingDuration = 10,
     cul_MaxFailedDuration = 5, cul_MaxHibernatedDuration = 50, cul_LastInteraction = 0,
     cul_CPUIdleThreshold = ''300m'' \<rparr>"

definition sample_spec :: AmaltheaSessionSpec where
  "sample_spec = \<lparr> sp_SessionLocation = Local, sp_Session = sample_Session,
     sp_CodeRepositories = [sample_repo ''a'', sample_repo ''b''],
     sp_DataSources = [\<lparr> ds_Type = Rclone, ds_MountPath = ''data'', ds_AccessMode = ReadOnlyMany,
       ds_SecretRef = Some sample_secret_ref \<rparr>],
     sp_Authentication = Some sample_auth,
     sp_Culling = sample_culling, sp_Hibernated = False, sp_ExtraContainers = [],
     sp_ExtraInitContainers = [], sp_ExtraVolumes = [], sp_Ingress = Some sample_ingress,
     sp_NodeSelector = fmempty, sp_Affinity = None, sp_Tolerations = [],
     sp_ReconcileStrategy = Always, sp_PriorityClassName = [], sp_ImagePullSecrets = [],
     sp_ServiceAccountName = [],
     sp_Template = \<lparr> tm_Annotations = fmempty, tm_Labels = fmempty \<rparr>,
     sp_SessionType = SessionTypeInteractive \<rparr>"

definition sample_session :: AmaltheaSession where
  "sample_session = \<lparr> as_Meta = empty_meta\<lparr> om_Name := ''alice'', om_Namespace := ''renku'',
       om_CreationTimestamp := 1000 \<rparr>,
     as_Spec = sample_spec, as_Status = initial_status \<rparr>"

definition sample_remote :: AmaltheaSession where
  "sample_remote = sample_session\<lparr> as_Spec := sample_spec\<lparr> sp_SessionLocation := Remote \<rparr> \<rparr>"

definition sample_job :: AmaltheaSession where
  "sample_job = sample_session\<lparr> as_Spec := sample_spec\<lparr>
     sp_SessionType := SessionTypeNonInteractive \<rparr> \<rparr>"

definition sample_rnd :: randomness where
  "sample_rnd = \<lparr> rnd_tunnel = Inr ''0123456789abcdef'', rnd_cookie = Inr ''cookie'',
     rnd_ulid = ''01RUN'' \<rparr>"

text \<open>
  A cluster that is empty, accepts every write and remembers none; \<open>create_always\<close> is
  \<^verbatim>\<open>CreateOrPatch\<close> for an object that does not exist yet.
\<close>

definition create_always :: "('w, 'a) create_or_patch" where
  "create_always ob f w = (let (x, cb, e) = f ob in (w, x, ''created'', cb, e))"

definition empty_client :: "'w client" where
  "empty_client = \<lparr> cl_GetSession = \<lambda>_ _ _. Inl (NotFound []),
     cl_GetPod = \<lambda>_ _ _. Inl (NotFound []), cl_GetJob = \<lambda>_ _ _. Inl (NotFound []),
     cl_GetIngress = \<lambda>_ _ _. Inl (NotFound []), cl_ListPods = \<lambda>_ _ _. Inr [],
     cl_ListEvents = \<lambda>_ _ _ _. Inr [], cl_PodMetricses = \<lambda>_ _ _. Inr [],
     cl_Update = \<lambda>s w. (w, Inr s), cl_StatusUpdate = \<lambda>s w. (w, Inr s),
     cl_Delete = \<lambda>_ w. (w, None), cl_DeleteSecret = \<lambda>_ w. (w, None),
     cl_DeleteIngress = \<lambda>_ w. (w, None), cl_SetControllerReference = \<lambda>_ m. Inr m,
     cl_CreateOrPatch_Ingress = create_always, cl_CreateOrPatch_StatefulSet = create_always,
     cl_CreateOrPatch_PVC = create_always, cl_CreateOrPatch_Service = create_always,
     cl_CreateOrPatch_Secret = create_always, cl_CreateOrPatch_Job = create_always \<rparr>"

lemmas sample_defs = sample_lib_def sample_env_def sample_cfg_def sample_secret_ref_def
  sample_auth_def sample_repo_def sample_ingress_def sample_Session_def sample_culling_def sample_spec_def
  sample_session_def sample_remote_def sample_job_def sample_rnd_def

lemma sample_Pod: "\<exists>p. Pod sample_lib sample_env sample_session sample_cfg = Inr p"
  by (simp add: Pod_def DataSources_def auth_def sample_defs SessionVolumes_def Let_def
      getUseNoneSameSiteSessionCookie_def ToLower_def)

lemma sample_StatefulSet:
  "\<exists>sts. StatefulSet sample_lib sample_env sample_session sample_cfg = Inr sts"
  using sample_Pod by (auto simp: StatefulSet_def Let_def)

end
