(* ===== verification/Template_Props.thy ===== *)
theory Template_Props
  imports Sample
begin

text \<open>
  What holds of the templates: labels and selectors agree, mounts refer to declared
  volumes, generated names do not collide, routes lead to existing service ports, and the
  secrets that containers refer to are the ones that the operator creates.
\<close>

lemmas constant_defs =
  prefix_def SessionContainerName_def servicePortName_def serviceMetaPortName_def
  servicePort_def sessionVolumeName_def shmVolumeName_def tunnelContainerName_def
  tunnelServiceName_def authenticatedPort_def AuthProxyMetaPort_def secondProxyPort_def
  RemoteSessionControllerPort_def TunnelPort_def

section \<open>Labels\<close>

lemma childLabels_selector: "sub_map (selectorLabels (as_Name cr)) (childLabels cr)"
  by (simp add: childLabels_def)

lemma StatefulSet_labels:
  "StatefulSet lib env cr cfg = Inr sts \<Longrightarrow>
     sss_Selector (sts_Spec sts) = Some (selectorLabels (as_Name cr))
     \<and> pt_Labels (sss_Template (sts_Spec sts)) = childLabels cr"
  by (auto simp: StatefulSet_def bindE_Inr_iff Let_def)

text \<open>The selector of the session's StatefulSet and the selector of its Service both
  match the labels of the pods that the StatefulSet creates, whatever labels the user
  puts into the template metadata: a user label never displaces a selector label.\<close>

lemma selectors_match_pod_labels:
  assumes "StatefulSet lib env cr cfg = Inr sts"
  shows "(\<exists>sel. sss_Selector (sts_Spec sts) = Some sel
            \<and> sub_map sel (pt_Labels (sss_Template (sts_Spec sts))))
       \<and> sub_map (svs_Selector (svc_Spec (Service cr))) (pt_Labels (sss_Template (sts_Spec sts)))"
  using StatefulSet_labels [OF assms] childLabels_selector [of cr]
  by (simp add: Service_def Let_def)

section \<open>Data sources\<close>

lemma DataSources_loop_names:
  "DataSources_loop env as n dss = Inr (pvcs, vols, mounts) \<Longrightarrow>
     map vol_Name vols = map (\<lambda>p. om_Name (pvc_Meta p)) pvcs
     \<and> map vm_Name mounts = map vol_Name vols
     \<and> (\<forall>v\<in>set vols. \<exists>i \<ge> n. vol_Name v = ds_pvc_name as i)
     \<and> distinct (map vol_Name vols)"
proof (induction env as n dss arbitrary: pvcs vols mounts rule: DataSources_loop.induct)
  case (1 env as ids)
  then show ?case by simp
next
  case (2 env as ids ds dss)
  show ?case
  proof (cases "ds_Type ds")
    case Rclone
    with "2.prems" obtain ref pv vo mo where
      r: "ds_SecretRef ds = Some ref"
      and l: "DataSources_loop env as (Suc ids) dss = Inr (pv, vo, mo)"
      and eq: "pvcs = ds_pvc env as ids ds (sr_Name ref) # pv"
        "map vol_Name vols = ds_pvc_name as ids # map vol_Name vo"
        "map vm_Name mounts = ds_pvc_name as ids # map vm_Name mo"
      by (auto simp: bindE_Inr_iff deref_Inr_iff Let_def)
    have IH: "map vol_Name vo = map (\<lambda>p. om_Name (pvc_Meta p)) pv"
      "map vm_Name mo = map vol_Name vo"
      "\<forall>v\<in>set vo. \<exists>i \<ge> Suc ids. vol_Name v = ds_pvc_name as i"
      "distinct (map vol_Name vo)"
      using "2.IH"(1) [OF Rclone l] by auto
    have "ds_pvc_name as ids \<notin> set (map vol_Name vo)"
      using IH(3) by (fastforce simp: ds_pvc_name_def)
    moreover have "\<forall>x \<in> set (map vol_Name vols). \<exists>i \<ge> ids. x = ds_pvc_name as i"
      using IH(3) unfolding eq(2) by (auto dest: Suc_leD)
    then have "\<forall>v \<in> set vols. \<exists>i \<ge> ids. vol_Name v = ds_pvc_name as i" by simp
    ultimately show ?thesis
      using IH by (simp add: eq ds_pvc_def)
  next
    case (OtherStorageType x)
    with 2 show ?thesis by (fastforce dest: Suc_leD)
  qed
qed

lemma DataSources_names:
  assumes "DataSources env as = Inr (pvcs, vols, mounts)"
  shows "map vol_Name vols = map (\<lambda>p. om_Name (pvc_Meta p)) pvcs"
    "map vm_Name mounts = map vol_Name vols"
    "v \<in> set vols \<Longrightarrow> \<exists>i. vol_Name v = ds_pvc_name as i"
    "distinct (map vol_Name vols)"
  using assms DataSources_loop_names [of env as 0 "sp_DataSources (as_Spec as)" pvcs vols mounts]
  by (auto simp: DataSources_def split: if_splits)

lemma DataSources_loop_defined:
  "(\<exists>r. DataSources_loop env as n dss = Inr r) \<longleftrightarrow>
     (\<forall>ds \<in> set dss. ds_Type ds = Rclone \<longrightarrow> ds_SecretRef ds \<noteq> None)"
proof (induction env as n dss rule: DataSources_loop.induct)
  case (1 env as ids)
  then show ?case by simp
next
  case (2 env as ids ds dss)
  then show ?case
    by (cases "ds_Type ds"; cases "ds_SecretRef ds")
      (auto simp: bindE_Inr_iff Let_def split: prod.splits)
qed

text \<open>The data sources of a session are templated exactly when the session is remote or
  every rclone data source has a secret reference; otherwise the template dereferences a
  nil pointer. When they are templated, the claims have pairwise distinct names, each
  claim has one volume of its name and each volume one mount.\<close>

lemma DataSources_spec:
  "(\<exists>pvcs vols mounts. DataSources env as = Inr (pvcs, vols, mounts)
      \<and> map vol_Name vols = map (\<lambda>p. om_Name (pvc_Meta p)) pvcs
      \<and> map vm_Name mounts = map vol_Name vols \<and> distinct (map vol_Name vols))
   = (sp_SessionLocation (as_Spec as) = Remote
      \<or> list_all (\<lambda>ds. case ds_Type ds of Rclone \<Rightarrow> ds_SecretRef ds \<noteq> None | _ \<Rightarrow> True)
                 (sp_DataSources (as_Spec as)))"
proof -
  have "(\<exists>pvcs vols mounts. DataSources env as = Inr (pvcs, vols, mounts)
      \<and> map vol_Name vols = map (\<lambda>p. om_Name (pvc_Meta p)) pvcs
      \<and> map vm_Name mounts = map vol_Name vols \<and> distinct (map vol_Name vols))
    = (\<exists>r. DataSources env as = Inr r)"
    using DataSources_names by (metis surj_pair)
  also have "\<dots> = (sp_SessionLocation (as_Spec as) = Remote
      \<or> (\<forall>ds \<in> set (sp_DataSources (as_Spec as)). ds_Type ds = Rclone \<longrightarrow> ds_SecretRef ds \<noteq> None))"
    using DataSources_loop_defined [of env as 0] by (simp add: DataSources_def)
  also have "(\<forall>ds \<in> set dss. ds_Type ds = Rclone \<longrightarrow> ds_SecretRef ds \<noteq> None)
      = list_all (\<lambda>ds. case ds_Type ds of Rclone \<Rightarrow> ds_SecretRef ds \<noteq> None | _ \<Rightarrow> True) dss" for dss
    by (auto simp: list_all_iff split: StorageType.splits)
  finally show ?thesis .
qed

section \<open>Volumes and mounts\<close>

definition mounts_in :: "Volume list \<Rightarrow> VolumeMount list \<Rightarrow> bool" where
  "mounts_in vols ms \<longleftrightarrow> vm_Name ` set ms \<subseteq> vol_Name ` set vols"

lemma mounts_in_append [simp]:
  "mounts_in vols (ms @ ns) \<longleftrightarrow> mounts_in vols ms \<and> mounts_in vols ns"
  by (auto simp: mounts_in_def)

lemma mounts_in_Cons [simp]:
  "mounts_in vols (m # ms) \<longleftrightarrow> vm_Name m \<in> vol_Name ` set vols \<and> mounts_in vols ms"
  by (auto simp: mounts_in_def)

lemma mounts_in_Nil [simp]: "mounts_in vols []"
  by (simp add: mounts_in_def)

lemma mounts_in_mono: "mounts_in vols ms \<Longrightarrow> set vols \<subseteq> set vols' \<Longrightarrow> mounts_in vols' ms"
  by (auto simp: mounts_in_def)

lemma clone_container_mounts [simp]: "c_VolumeMounts (clone_container env as i ms repo) = ms"
  by (simp add: clone_container_def)

text \<open>
  The volumes a cloning container mounts are those it was given and the cloning secrets
  declared so far.
\<close>

lemma cloneInit_loop_mounts:
  "c \<in> set (mf_Containers (cloneInit_loop env as i ms repos)) \<Longrightarrow>
   mounts_in vols ms \<Longrightarrow>
   mounts_in (vols @ mf_Volumes (cloneInit_loop env as i ms repos)) (c_VolumeMounts c)"
proof (induction repos arbitrary: i ms vols)
  case Nil
  then show ?case by (simp add: no_manifests_def)
next
  case (Cons repo repos)
  show ?case
  proof (cases "cr_CloningConfigSecretRef repo")
    case None
    have "mounts_in (vols @ mf_Volumes (cloneInit_loop env as (Suc i) ms repos)) ms"
      using Cons.prems(2) by (rule mounts_in_mono) auto
    with Cons.prems Cons.IH [of "Suc i" ms vols] None show ?thesis by (auto simp: Let_def)
  next
    case (Some ref)
    let ?v = "\<lparr> vol_Name = clone_secret_volume i, vol_Source = SecretSource (skr_Name ref) None \<rparr>"
    let ?ms = "ms @ [mount (clone_secret_volume i) ''/git-clone-secrets'']"
    have ms: "mounts_in (vols @ [?v]) ?ms"
      using Cons.prems(2) by (auto simp: mounts_in_def)
    then have "mounts_in ((vols @ [?v]) @ mf_Volumes (cloneInit_loop env as (Suc i) ?ms repos)) ?ms"
      by (rule mounts_in_mono) auto
    with Cons.prems(1) Some Cons.IH [of "Suc i" ?ms "vols @ [?v]", OF _ ms]
    show ?thesis by (auto simp: Let_def)
  qed
qed

lemma auth_mounts:
  assumes "auth env as = Inr m" "c \<in> set (mf_Containers m)"
  shows "\<exists>own. mounts_in (mf_Volumes m) own \<and> (c_VolumeMounts c = own
     \<or> (\<exists>a. sp_Authentication (as_Spec as) = Some a
          \<and> c_VolumeMounts c = own @ auth_ExtraVolumeMounts a))"
proof -
  have g: "c_VolumeMounts (get_rewrite_authn_proxy env as p q r) = []" for p q r
    by (simp add: get_rewrite_authn_proxy_def Let_def)
  have o: "c_VolumeMounts (oauth2ProxyContainer args ef ms) = ms" for args ef ms
    by (simp add: oauth2ProxyContainer_def)
  have one: "mounts_in [v] [mount (vol_Name v) p]" for v p by simp
  consider "m = no_manifests"
    | a v p where "sp_Authentication (as_Spec as) = Some a" "mf_Volumes m = [v]"
        "c_VolumeMounts c = [] \<or> c_VolumeMounts c = mount (vol_Name v) p # auth_ExtraVolumeMounts a"
    | a v w p where "sp_Authentication (as_Spec as) = Some a" "mf_Volumes m = [v, w]"
        "c_VolumeMounts c = [] \<or>
         (\<exists>mw. vm_Name mw = vol_Name w
            \<and> c_VolumeMounts c = mount (vol_Name v) p # mw # auth_ExtraVolumeMounts a)"
    using assms
    by (fastforce simp: auth_def Let_def g o split: option.splits if_splits AuthenticationType.splits)
  then show ?thesis
  proof cases
    case 1
    with assms(2) show ?thesis by (simp add: no_manifests_def)
  next
    case (2 a v p)
    then show ?thesis
      by (elim disjE) (auto intro: exI [of _ "[]"] exI [of _ "[mount (vol_Name v) p]"])
  next
    case (3 a v w p)
    then show ?thesis
      by (elim disjE exE)
        (auto intro: exI [of _ "[]"] exI [of _ "[mount (vol_Name v) p, mw]" for mw])
  qed
qed

lemma Pod_InrE:
  assumes "Pod lib env cr cfg = Inr p"
  obtains pvcs dsVols dsMounts au where
    "DataSources env cr = Inr (pvcs, dsVols, dsMounts)"
    "au = no_manifests \<or> auth env cr = Inr au"
    "ps_Volumes p = fst (SessionVolumes cr) @ mf_Volumes (cloneInit env cr)
       @ sp_ExtraVolumes (as_Spec cr) @ dsVols @ mf_Volumes au"
    "ps_Containers p = [sessionContainer lib env cr (snd (SessionVolumes cr)
         @ ses_ExtraVolumeMounts (as_Session cr) @ dsMounts) cfg] @ mf_Containers au
       @ (if sp_SessionLocation (as_Spec cr) = Remote then [tunnelContainer env cr] else [])
       @ sp_ExtraContainers (as_Spec cr)"
    "ps_InitContainers p = mf_Containers (cloneInit env cr) @ sp_ExtraInitContainers (as_Spec cr)"
proof -
  obtain sv sm where sv: "SessionVolumes cr = (sv, sm)" by fastforce
  let ?auth = "if sp_SessionType (as_Spec cr) \<noteq> SessionTypeNonInteractive then auth env cr
    else Inr no_manifests"
  from assms obtain r where ds: "DataSources env cr = Inr r"
    by (auto simp: Pod_def bindE_Inr_iff)
  obtain pvcs dv dm where r: "r = (pvcs, dv, dm)" by (cases r)
  from assms ds obtain au where au: "?auth = Inr au"
    by (auto simp: Pod_def Let_def sv r bindE_Inr_iff split del: if_split)
  then have "au = no_manifests \<or> auth env cr = Inr au" by (auto split: if_splits)
  with assms au show ?thesis
    by (intro that [OF ds [unfolded r]]) (auto simp: Pod_def Let_def sv ds r split del: if_split)
qed

text \<open>The mounts that a user writes into the specification.\<close>

definition user_mounts :: "AmaltheaSession \<Rightarrow> VolumeMount list" where
  "user_mounts cr = ses_ExtraVolumeMounts (as_Session cr)
     @ (case sp_Authentication (as_Spec cr) of Some a \<Rightarrow> auth_ExtraVolumeMounts a | None \<Rightarrow> [])"

lemma SessionVolumes_mounts: "mounts_in (fst (SessionVolumes cr)) (snd (SessionVolumes cr))"
  by (simp add: SessionVolumes_def Let_def split: option.splits)

lemma sessionVolumeName_in: "sessionVolumeName \<in> vol_Name ` set (fst (SessionVolumes cr))"
  by (simp add: SessionVolumes_def Let_def split: option.splits)

lemma sessionContainer_mounts [simp]:
  "c_VolumeMounts (sessionContainer lib env cr ms cfg) = ms"
  by (simp add: sessionContainer_def sessionContainerRemote_def sessionContainerLocal_def Let_def)

lemma tunnelContainer_mounts [simp]: "c_VolumeMounts (tunnelContainer env cr) = []"
  by (simp add: tunnelContainer_def)

text \<open>In the pod of a session, every mount of a container that the operator itself
  templates (the session, cloning, authentication and tunnel containers) names a volume
  that the pod declares, unless the mount is one of the extra mounts of the specification.\<close>

lemma pod_mounts_declared:
  assumes p: "Pod lib env cr cfg = Inr p"
    and c: "c \<in> set (ps_Containers p @ ps_InitContainers p)"
    and own: "c \<notin> set (sp_ExtraContainers (as_Spec cr) @ sp_ExtraInitContainers (as_Spec cr))"
    and m: "m \<in> set (c_VolumeMounts c)" "m \<notin> set (user_mounts cr)"
  shows "vm_Name m \<in> vol_Name ` set (ps_Volumes p)"
proof -
  from p obtain pvcs dv dm au where ds: "DataSources env cr = Inr (pvcs, dv, dm)"
    and au: "au = no_manifests \<or> auth env cr = Inr au"
    and V: "ps_Volumes p = fst (SessionVolumes cr) @ mf_Volumes (cloneInit env cr)
       @ sp_ExtraVolumes (as_Spec cr) @ dv @ mf_Volumes au"
    and C: "ps_Containers p = [sessionContainer lib env cr (snd (SessionVolumes cr)
         @ ses_ExtraVolumeMounts (as_Session cr) @ dm) cfg] @ mf_Containers au
       @ (if sp_SessionLocation (as_Spec cr) = Remote then [tunnelContainer env cr] else [])
       @ sp_ExtraContainers (as_Spec cr)"
    and I: "ps_InitContainers p = mf_Containers (cloneInit env cr)
       @ sp_ExtraInitContainers (as_Spec cr)"
    by (rule Pod_InrE)
  have dm: "mounts_in dv dm"
    using DataSources_names(2) [OF ds] by (metis mounts_in_def set_map subset_refl)
  from c own consider (ses) "c_VolumeMounts c = snd (SessionVolumes cr)
      @ ses_ExtraVolumeMounts (as_Session cr) @ dm"
    | (auth) "c \<in> set (mf_Containers au)" | (tun) "c_VolumeMounts c = []"
    | (clone) "c \<in> set (mf_Containers (cloneInit env cr))"
    by (auto simp: C I split: if_splits)
  then show ?thesis
  proof cases
    case ses
    with m dm SessionVolumes_mounts [of cr] show ?thesis
      by (auto simp: V user_mounts_def mounts_in_def)
  next
    case auth
    with au have "auth env cr = Inr au" by (auto simp: no_manifests_def)
    from auth_mounts [OF this auth] obtain ms where ms: "mounts_in (mf_Volumes au) ms"
      and "c_VolumeMounts c = ms \<or> (\<exists>a. sp_Authentication (as_Spec cr) = Some a
          \<and> c_VolumeMounts c = ms @ auth_ExtraVolumeMounts a)"
      by blast
    with m have "m \<in> set ms" by (auto simp: user_mounts_def)
    with ms show ?thesis by (auto simp: V mounts_in_def)
  next
    case tun
    with m show ?thesis by simp
  next
    case clone
    have "mounts_in (fst (SessionVolumes cr) @ mf_Volumes (cloneInit env cr)) (c_VolumeMounts c)"
      using clone sessionVolumeName_in [of cr]
      unfolding cloneInit_def by (intro cloneInit_loop_mounts) simp_all
    with m show ?thesis by (auto simp: V mounts_in_def)
  qed
qed

section \<open>Volume names\<close>

lemma show_nat_no_dash: "CHR ''-'' \<notin> set (show_nat n)"
  using show_nat_digits by fastforce

lemma dash_number_inj:
  assumes "a @ CHR ''-'' # show_nat i = b @ CHR ''-'' # show_nat j"
  shows "a = b \<and> i = j"
proof -
  have tw: "takeWhile (\<lambda>x. x \<noteq> CHR ''-'') (rev (c @ CHR ''-'' # show_nat k)) = rev (show_nat k)"
    for c k
  proof -
    have "\<forall>x \<in> set (rev (show_nat k)). x \<noteq> CHR ''-''" using show_nat_no_dash by auto
    then show ?thesis by (simp add: takeWhile_tail)
  qed
  have "show_nat i = show_nat j" using assms tw [of a i] tw [of b j] by (metis rev_is_rev_conv)
  with assms show ?thesis by simp
qed

lemma last_show_nat_digit: "is_digit (last (show_nat n))"
  using show_nat_digits [of "last (show_nat n)" n] by (simp add: is_digit_def)

lemma clone_secret_volume_inj: "clone_secret_volume i = clone_secret_volume j \<longleftrightarrow> i = j"
  by (simp add: clone_secret_volume_def)

lemma clone_ds_disjoint: "clone_secret_volume i \<noteq> ds_pvc_name as j"
proof
  assume "clone_secret_volume i = ds_pvc_name as j"
  then have "(prefix @ ''git-clone-cred-volume'') @ CHR ''-'' # show_nat i
           = (prefix @ as_Name as @ ''-ds'') @ CHR ''-'' # show_nat j"
    by (simp add: clone_secret_volume_def ds_pvc_name_def)
  then have "prefix @ ''git-clone-cred-volume'' = prefix @ as_Name as @ ''-ds''"
    using dash_number_inj by blast
  then have "last ''git-clone-cred-volume'' = last (as_Name as @ ''-ds'')" by simp
  then show False by simp
qed

definition numbered :: "string \<Rightarrow> bool" where
  "numbered s \<longleftrightarrow> s \<noteq> [] \<and> is_digit (last s)"

lemma numbered_names [simp]: "numbered (clone_secret_volume i)" "numbered (ds_pvc_name as i)"
  by (simp_all add: numbered_def clone_secret_volume_def ds_pvc_name_def last_show_nat_digit)

lemma cloneInit_loop_volumes:
  "distinct (map vol_Name (mf_Volumes (cloneInit_loop env as i ms repos)))
   \<and> (\<forall>v \<in> set (mf_Volumes (cloneInit_loop env as i ms repos)).
        \<exists>j \<ge> i. vol_Name v = clone_secret_volume j)"
proof (induction repos arbitrary: i ms)
  case Nil
  then show ?case by (simp add: no_manifests_def)
next
  case (Cons repo repos)
  show ?case
  proof (cases "cr_CloningConfigSecretRef repo")
    case None
    then show ?thesis using Cons [of "Suc i" ms] by (auto simp: Let_def dest: Suc_leD)
  next
    case (Some ref)
    let ?ms = "ms @ [mount (clone_secret_volume i) ''/git-clone-secrets'']"
    show ?thesis
      using Cons [of "Suc i" ?ms] Some
      by (fastforce simp: Let_def clone_secret_volume_inj dest: Suc_leD)
  qed
qed

lemma cloneInit_volumes:
  "distinct (map vol_Name (mf_Volumes (cloneInit env as)))"
  "v \<in> set (mf_Volumes (cloneInit env as)) \<Longrightarrow> \<exists>j. vol_Name v = clone_secret_volume j"
  unfolding cloneInit_def using cloneInit_loop_volumes by blast+

lemma SessionVolumes_volumes:
  "distinct (map vol_Name (fst (SessionVolumes cr)))"
  "v \<in> set (fst (SessionVolumes cr)) \<Longrightarrow> vol_Name v \<in> {sessionVolumeName, shmVolumeName}"
  by (auto simp: SessionVolumes_def Let_def constant_defs split: option.splits)

definition auth_volume_names :: "string set" where
  "auth_volume_names = {prefix @ ''proxy-configuration-secret'',
     prefix @ ''-fixed-proxy-configuration-secret'', prefix @ ''-authorized-emails-secret''}"

lemma auth_volumes:
  assumes "au = no_manifests \<or> auth env cr = Inr au"
  shows "distinct (map vol_Name (mf_Volumes au))"
    "v \<in> set (mf_Volumes au) \<Longrightarrow> vol_Name v \<in> auth_volume_names"
  using assms
  by (auto simp: auth_def no_manifests_def Let_def auth_volume_names_def
      split: option.splits if_splits AuthenticationType.splits)

lemma fixed_names_unnumbered:
  "x \<in> {sessionVolumeName, shmVolumeName} \<union> auth_volume_names \<Longrightarrow> \<not> numbered x"
  by (auto simp: auth_volume_names_def constant_defs numbered_def is_digit_def)

lemma fixed_names_disjoint: "{sessionVolumeName, shmVolumeName} \<inter> auth_volume_names = {}"
  by (auto simp: auth_volume_names_def constant_defs)

lemma operator_names_prefixed:
  "x \<in> {sessionVolumeName, shmVolumeName} \<union> auth_volume_names \<Longrightarrow> HasPrefix x prefix"
  "HasPrefix (clone_secret_volume i) prefix" "HasPrefix (ds_pvc_name as i) prefix"
  by (auto simp: auth_volume_names_def sessionVolumeName_def shmVolumeName_def
      clone_secret_volume_def ds_pvc_name_def)

lemma disjoint_by: "(\<And>x. x \<in> A \<Longrightarrow> P x) \<Longrightarrow> (\<And>x. x \<in> B \<Longrightarrow> \<not> P x) \<Longrightarrow> A \<inter> B = {}"
  by blast

text \<open>C16: As the specification's documentation promises, a user who keeps clear of volume names
  that start with \<open>amalthea-\<close> never collides with the operator: if the extra volumes have
  distinct names without that prefix, all the volumes of the pod have distinct names, for
  every session name and every number of repositories and data sources.\<close>

theorem pod_volume_names_distinct:
  assumes p: "Pod lib env cr cfg = Inr p"
    and extra: "distinct (map vol_Name (sp_ExtraVolumes (as_Spec cr)))"
      "list_all (\<lambda>v. \<not> HasPrefix (vol_Name v) ''amalthea-'') (sp_ExtraVolumes (as_Spec cr))"
  shows "distinct (map vol_Name (ps_Volumes p))"
proof -
  from p obtain pvcs dv dm au where ds: "DataSources env cr = Inr (pvcs, dv, dm)"
    and au: "au = no_manifests \<or> auth env cr = Inr au"
    and V: "ps_Volumes p = fst (SessionVolumes cr) @ mf_Volumes (cloneInit env cr)
       @ sp_ExtraVolumes (as_Spec cr) @ dv @ mf_Volumes au"
    by (rule Pod_InrE)
  let ?S = "vol_Name ` set (fst (SessionVolumes cr))"
  let ?C = "vol_Name ` set (mf_Volumes (cloneInit env cr))"
  let ?E = "vol_Name ` set (sp_ExtraVolumes (as_Spec cr))"
  let ?D = "vol_Name ` set dv" and ?A = "vol_Name ` set (mf_Volumes au)"
  have S: "?S \<subseteq> {sessionVolumeName, shmVolumeName}" using SessionVolumes_volumes(2) by blast
  have C: "?C \<subseteq> range clone_secret_volume" using cloneInit_volumes(2) by fastforce
  have D: "?D \<subseteq> range (ds_pvc_name cr)" using DataSources_names(3) [OF ds] by fastforce
  have A: "?A \<subseteq> auth_volume_names" using auth_volumes(2) [OF au] by blast
  have E: "x \<in> ?E \<Longrightarrow> \<not> HasPrefix x prefix" for x
    using extra(2) by (auto simp: list_all_iff prefix_def)
  have num: "numbered x" if "x \<in> ?C \<union> ?D" for x
    using that subsetD [OF C, of x] subsetD [OF D, of x] by auto
  have unnum: "\<not> numbered x" if "x \<in> ?S \<union> ?A" for x
    using that fixed_names_unnumbered [of x] subsetD [OF S, of x] subsetD [OF A, of x] by blast
  have pre: "HasPrefix x prefix" if "x \<in> ?S \<union> ?C \<union> ?D \<union> ?A" for x
  proof (cases "x \<in> ?S \<union> ?A")
    case True
    then show ?thesis using operator_names_prefixed(1) [of x] S A by blast
  next
    case False
    with that C D show ?thesis using operator_names_prefixed(2,3) by auto
  qed
  have "?S \<inter> ?C = {}" "?S \<inter> ?D = {}"
    by (rule disjoint_by [where P = "\<lambda>x. \<not> numbered x"]; simp add: num unnum)+
  moreover have "?C \<inter> ?A = {}" "?D \<inter> ?A = {}"
    by (rule disjoint_by [where P = numbered]; simp add: num unnum)+
  moreover have "?S \<inter> ?A = {}" using S A fixed_names_disjoint by blast
  moreover have "?C \<inter> ?D = {}"
    by (rule disjoint_by [where P = "\<lambda>x. x \<in> range clone_secret_volume"])
      (use subsetD [OF C] subsetD [OF D] clone_ds_disjoint in fastforce)+
  moreover have "?S \<inter> ?E = {}" "?C \<inter> ?E = {}"
    by (rule disjoint_by [where P = "\<lambda>x. HasPrefix x prefix"]; simp add: pre E)+
  moreover have "?E \<inter> ?D = {}" "?E \<inter> ?A = {}"
    by (rule disjoint_by [where P = "\<lambda>x. \<not> HasPrefix x prefix"]; simp add: pre E)+
  ultimately show ?thesis
    unfolding V
    using extra(1) SessionVolumes_volumes(1) cloneInit_volumes(1) DataSources_names(4) [OF ds]
      auth_volumes(1) [OF au]
    by (simp add: Int_Un_distrib image_Un)
qed

theorem pod_volume_names_distinct_witness:
  "\<exists>p. Pod sample_lib sample_env sample_session sample_cfg = Inr p
     \<and> distinct (map vol_Name (ps_Volumes p))"
proof -
  obtain p where p: "Pod sample_lib sample_env sample_session sample_cfg = Inr p"
    using sample_Pod by blast
  with pod_volume_names_distinct [OF p] show ?thesis by (simp add: sample_defs)
qed

text \<open>When two consecutive code repositories both have a cloning secret, the second cloning
  container mounts two volumes at one path, because the mounts accumulate over the
  repositories and every secret goes to the same directory. Kubernetes requires the mount
  paths of a container to be unique.\<close>

lemma clone_mount_paths_clash:
  assumes "sp_CodeRepositories (as_Spec as) = r1 # r2 # rs"
    and "cr_CloningConfigSecretRef r1 \<noteq> None" "cr_CloningConfigSecretRef r2 \<noteq> None"
  shows "\<exists>c. mf_Containers (cloneInit env as) ! 1 = c
     \<and> \<not> distinct (map vm_MountPath (c_VolumeMounts c))"
  using assms by (auto simp: cloneInit_def Let_def)

end
