(* ===== verification/Children_Props.thy ===== *)
theory Children_Props
  imports Sample
begin

text \<open>
  What holds of the children and of the queries on a session: routes lead to service
  ports, authentication hides the session port, the tunnel secret is shared, sessions are
  deleted when their time is over, and the address of a session is what its ingress says.
\<close>

lemmas port_defs = servicePortName_def serviceMetaPortName_def tunnelServiceName_def
  prefix_def servicePort_def AuthProxyMetaPort_def TunnelPort_def authenticatedPort_def

section \<open>Routing\<close>

lemma Service_ports_distinct:
  "distinct (map svp_Name (svs_Ports (svc_Spec (Service cr))))"
  "distinct (map svp_Port (svs_Ports (svc_Spec (Service cr))))"
  by (simp_all add: Service_def Let_def port_defs)

text \<open>C29: Every route of a session's Ingress leads to the session's Service, by a port name
  that the Service declares, and it declares each port name and number only once. This
  includes the tunnel route of a remote session.\<close>

theorem ingress_routes_reach_service:
  assumes "Ingress cr = Some ing" "rule \<in> set (igs_Rules (ing_Spec ing))"
    "path \<in> set (igr_Paths rule)"
  shows "hip_ServiceName path = om_Name (svc_Meta (Service cr))
     \<and> hip_ServicePortName path \<in> svp_Name ` set (svs_Ports (svc_Spec (Service cr)))
     \<and> distinct (map svp_Name (svs_Ports (svc_Spec (Service cr))))
     \<and> distinct (map svp_Port (svs_Ports (svc_Spec (Service cr))))"
  using assms Service_ports_distinct [of cr]
  by (auto simp: Ingress_def Service_def Let_def ingress_path_def split: option.splits if_splits)

theorem ingress_routes_reach_service_witness:
  "\<exists>ing rule path. Ingress sample_remote = Some ing \<and> rule \<in> set (igs_Rules (ing_Spec ing))
     \<and> path \<in> set (igr_Paths rule) \<and> hip_ServicePortName path = tunnelServiceName
     \<and> hip_ServicePortName path \<in> svp_Name ` set (svs_Ports (svc_Spec (Service sample_remote)))"
proof -
  let ?ing = "the (Ingress sample_remote)"
  let ?rule = "hd (igs_Rules (ing_Spec ?ing))"
  let ?path = "last (igr_Paths ?rule)"
  have i: "Ingress sample_remote = Some ?ing"
    by (simp add: Ingress_def Let_def sample_defs)
  have r: "?rule \<in> set (igs_Rules (ing_Spec ?ing))" "?path \<in> set (igr_Paths ?rule)"
    "hip_ServicePortName ?path = tunnelServiceName"
    by (simp_all add: Ingress_def Let_def sample_defs ingress_path_def)
  from ingress_routes_reach_service [OF i r(1,2)] i r show ?thesis by blast
qed

text \<open>When authentication is enabled, no port of the session's Service leads to the port of
  the session itself, given that the session port is in the range that the CRD admits:
  all traffic goes through the authentication proxy.\<close>

lemma authentication_hides_session_port:
  assumes "sp_Authentication (as_Spec cr) = Some a" "auth_Enabled a"
    and "ses_Port (as_Session cr) < 65530"
    and "port \<in> set (svs_Ports (svc_Spec (Service cr)))"
  shows "svp_TargetPort port \<noteq> FromInt32 (ses_Port (as_Session cr))"
  using assms by (auto simp: Service_def Let_def port_defs split: if_splits)

section \<open>Secrets\<close>

lemma Secret_name: "Secret lib env rnd cr = Inr sec \<Longrightarrow> om_Name (sec_Meta sec) = InternalSecretName cr"
  by (auto simp: Secret_def bindE_Inr_iff Let_def split: if_splits option.splits)

lemma Secret_tunnel:
  assumes "Secret lib env rnd cr = Inr sec" "sp_SessionLocation (as_Spec cr) = Remote"
    "rnd_tunnel rnd = Inr b" "b \<noteq> []"
  shows "fmlookup (sec_StringData sec) ''WSTUNNEL_SECRET'' = Some (RawURLEncoding_EncodeToString b)"
  using assms
  by (auto simp: Secret_def bindE_Inr_iff Let_def makeTunnelSecret_def as_panic_def
      RawURLEncoding_EncodeToString_def split: if_splits option.splits)

text \<open>For a remote session the operator's secret holds a non-empty tunnel secret, the
  22-character encoding of 16 random bytes, and both the tunnel container and the remote
  session controller read exactly this key of exactly this secret.\<close>

lemma tunnel_secret_shared:
  assumes "Secret lib env rnd cr = Inr sec" "sp_SessionLocation (as_Spec cr) = Remote"
    "rnd_tunnel rnd = Inr b" "length b = 16"
  shows "(\<exists>v. fmlookup (sec_StringData sec) ''WSTUNNEL_SECRET'' = Some v \<and> length v = 22)
     \<and> env_secret ''WSTUNNEL_SECRET'' (om_Name (sec_Meta sec)) ''WSTUNNEL_SECRET''
         \<in> set (c_Env (tunnelContainer env cr))
     \<and> env_secret ''RSC_WSTUNNEL_SECRET'' (om_Name (sec_Meta sec)) ''WSTUNNEL_SECRET''
         \<in> set (c_Env (sessionContainer lib env cr ms cfg))"
proof -
  have "b \<noteq> []" using assms(4) by auto
  then have "fmlookup (sec_StringData sec) ''WSTUNNEL_SECRET'' = Some (RawURLEncoding_EncodeToString b)"
    using Secret_tunnel assms(1-3) by blast
  moreover have "length (RawURLEncoding_EncodeToString b) = 22"
    by (simp add: RawURLEncoding_EncodeToString_def length_b64_raw assms(4))
  ultimately show ?thesis
    using assms(2) Secret_name [OF assms(1)]
    by (simp add: tunnelContainer_def sessionContainer_def sessionContainerRemote_def Let_def)
qed

text \<open>With \<open>oidc\<close> authentication, the volume that should give the proxy its configuration
  files reads a secret that is never the operator's own secret, which holds these files:
  the volume uses the session's name and the secret has a suffix.\<close>

lemma oidc_config_volume_misses_secret:
  assumes "sp_Authentication (as_Spec cr) = Some a" "auth_Enabled a" "auth_Type a = Oidc"
    and "auth env cr = Inr m" "Secret lib env rnd cr = Inr sec"
  shows "\<exists>v. hd (mf_Volumes m) = v
     \<and> vol_Source v = SecretSource (as_Name cr) (Some False)
     \<and> secret_name (vol_Source v) \<noteq> om_Name (sec_Meta sec)
     \<and> fmlookup (sec_StringData sec) ''oauth2-proxy-config.yaml'' \<noteq> None"
proof -
  have "hd (mf_Volumes m) = \<lparr> vol_Name = prefix @ ''-fixed-proxy-configuration-secret'',
      vol_Source = SecretSource (as_Name cr) (Some False) \<rparr>"
    using assms by (auto simp: auth_def Let_def)
  moreover have "as_Name cr \<noteq> InternalSecretName cr"
    by (simp add: InternalSecretName_def)
  moreover have "fmlookup (sec_StringData sec) ''oauth2-proxy-config.yaml'' \<noteq> None"
    using assms by (auto simp: Secret_def bindE_Inr_iff Let_def split: if_splits)
  ultimately show ?thesis using Secret_name [OF assms(5)] by simp
qed

section \<open>Deletion\<close>

text \<open>When a finished job was done: its idle mark, or its failure mark if that is older.\<close>

definition job_done_since :: "AmaltheaSessionStatus \<Rightarrow> time" where
  "job_done_since st =
     (if st_FailingSince st = 0 then st_IdleSince st else min (st_FailingSince st) (st_IdleSince st))"

text \<open>A session is deleted automatically exactly when it has been over for longer than the
  configured duration: for an interactive session, when it is hibernated, the duration is
  not zero and has passed since the hibernation mark; for a job, when it has succeeded or
  failed, its end is known and the duration has passed since then.\<close>

lemma NeedsDeletion_iff:
  assumes "0 \<le> cul_MaxHibernatedDuration (sp_Culling (as_Spec cr))"
    and "cul_MaxHibernatedDuration (sp_Culling (as_Spec cr)) < max_duration"
    and "0 \<le> st_FailingSince (as_Status cr)" "0 \<le> st_IdleSince (as_Status cr)"
  shows "NeedsDeletion now cr =
    (case sp_SessionType (as_Spec cr) of
       SessionTypeInteractive \<Rightarrow>
         st_State (as_Status cr) = Hibernated
         \<and> 0 < cul_MaxHibernatedDuration (sp_Culling (as_Spec cr))
         \<and> now > st_HibernatedSince (as_Status cr)
                 + cul_MaxHibernatedDuration (sp_Culling (as_Spec cr))
     | SessionTypeNonInteractive \<Rightarrow>
         st_State (as_Status cr) \<in> {Failed, Succeeded} \<and> st_IdleSince (as_Status cr) \<noteq> 0
         \<and> now > job_done_since (as_Status cr)
                 + cul_MaxHibernatedDuration (sp_Culling (as_Spec cr)))"
proof -
  let ?d = "cul_MaxHibernatedDuration (sp_Culling (as_Spec cr))"
  have gt: "time_since now t > ?d \<longleftrightarrow> now > t + ?d" for t
    using assms by (intro time_since_gt_iff) (simp_all add: min_duration_def)
  show ?thesis
    using assms
    by (cases "sp_SessionType (as_Spec cr)")
      (auto simp: NeedsDeletion_def Let_def gt job_done_since_def min_def)
qed

text \<open>A finished job whose maximum hibernated duration is zero is deleted as soon as any time
  has passed, although the documentation of the field says that zero means that jobs are
  not deleted automatically.\<close>

lemma zero_duration_deletes_jobs:
  assumes "sp_SessionType (as_Spec cr) = SessionTypeNonInteractive"
    and "cul_MaxHibernatedDuration (sp_Culling (as_Spec cr)) = 0"
    and "st_State (as_Status cr) = Succeeded" "st_FailingSince (as_Status cr) = 0"
    and "0 < st_IdleSince (as_Status cr)" "st_IdleSince (as_Status cr) < now"
  shows "NeedsDeletion now cr"
  using assms time_since_gt_iff [of 0 now "st_IdleSince (as_Status cr)"]
  by (simp add: NeedsDeletion_def Let_def min_duration_def max_duration_def)

section \<open>The address of a session\<close>

text \<open>For a session whose URL path is rooted and made of characters that need no
  encoding, the address in the status is the scheme, host and path of the specification,
  with exactly one slash at the end.\<close>

lemma GetURLString_plain:
  assumes "sp_Ingress (as_Spec a) = Some i" "igc_Host i \<noteq> []"
    and "list_all (\<lambda>c. \<not> shouldEscape encodeHost c) (igc_Host i)"
    and "ses_URLPath (as_Session a) = CHR ''/'' # p" "list_all plain_char (CHR ''/'' # p)"
    and "\<not> HasPrefix p ''/''"
  shows "GetURLString pa env a = UrlScheme env i @ ''://'' @ igc_Host i @ urlPath a"
proof -
  have "\<exists>q. urlPath a = CHR ''/'' # q \<and> list_all plain_char (CHR ''/'' # q) \<and> \<not> HasPrefix q ''/''"
    using assms(4-6)
    by (cases "p = []") (auto simp: urlPath_def Let_def HasSuffix_def HasPrefix_def plain_char_def
        list_all_iff take_Cons')
  then obtain q where q: "urlPath a = CHR ''/'' # q" "list_all plain_char (CHR ''/'' # q)"
    "\<not> HasPrefix q ''/''" by blast
  have parse: "url_Parse pa (urlPath a) = Inr (empty_url\<lparr> u_Path := urlPath a \<rparr>)"
    unfolding q(1) using q(2,3) by (intro url_Parse_plain) (auto simp: list_all_iff)
  have "GetURL pa env a
      = Some (empty_url\<lparr> u_Scheme := UrlScheme env i, u_Host := igc_Host i, u_Path := urlPath a \<rparr>)"
    using assms(1,2) parse by (simp add: GetURL_def Let_def urlPath_def empty_url_def)
  moreover have "url_String (empty_url\<lparr> u_Scheme := UrlScheme env i, u_Host := igc_Host i,
        u_Path := CHR ''/'' # q \<rparr>) = UrlScheme env i @ ''://'' @ igc_Host i @ CHR ''/'' # q"
    using assms(2,3) q(2) UrlScheme_cases [of env i]
    by (intro url_String_plain) (auto simp: list_all_iff)
  ultimately show ?thesis by (simp add: GetURLString_def q(1))
qed

end
