(* ===== verification/Pod_Status.thy ===== *)
theory Pod_Status
  imports K8s_Types Session_Types
begin

text \<open>
  Reading the state of the children: the failure reasons of
  \<^verbatim>\<open>src/internal/controller/children_conditions.go\<close> and the pod and job predicates of
  \<^verbatim>\<open>src/internal/controller/status.go\<close>. A failure reason is a message; the empty message
  means that nothing failed. A nil pointer is \<open>None\<close>.
\<close>

section \<open>Failure reasons\<close>

definition handleBadWaitingState :: "string \<Rightarrow> WaitingState \<Rightarrow> string" where
  "handleBadWaitingState name waitingState =
     (if ws_Reason waitingState = ''ErrImagePull'' \<or> ws_Reason waitingState = ''ImagePullBackOff''
      then ''failure to retrieve image for container '' @ name @ '': '' @ ws_Message waitingState
      else if ws_Reason waitingState = ''CrashLoopBackOff''
      then ''the command in container '' @ name @ '' is crashing, this can occur when you run out of disk space, this is the best reason for the crash we could extract: '' @ go_quote (ws_Message waitingState)
      else if ws_Message waitingState \<noteq> []
      then ''the container '' @ name @ '' is failing because '' @ ws_Message waitingState
      else ''the container '' @ name @ '' is failing because '' @ ws_Reason waitingState)"

definition jobFailureReason :: "Job option \<Rightarrow> string" where
  "jobFailureReason job =
     (case job of
        None \<Rightarrow> []
      | Some j \<Rightarrow>
          if jst_Failed (job_Status j) > 0 then
            (case first_some (\<lambda>cond.
                if (jc_Type cond = JobFailed \<or> jc_Type cond = JobFailureTarget)
                   \<and> jc_Status cond = ConditionTrue
                then Some (jc_Reason cond @ '': '' @ jc_Message cond) else None)
                (jst_Conditions (job_Status j)) of
               Some msg \<Rightarrow> msg
             | None \<Rightarrow> ''The job failed.'')
          else [])"

definition valid_waiting_reasons :: "string list" where
  "valid_waiting_reasons = [''ContainerCreating'', ''PodInitializing'']"

text \<open>One turn of the loop over the container statuses: \<open>None\<close> is \<^verbatim>\<open>continue\<close>.\<close>

definition container_failure :: "ContainerStatus \<Rightarrow> string option" where
  "container_failure contStatus =
     (if cs_Started contStatus = Some True \<and> cs_Ready contStatus then None
      else case cst_Waiting (cs_State contStatus) of
        Some waiting \<Rightarrow>
          if ws_Reason waiting \<in> set valid_waiting_reasons then None
          else Some (handleBadWaitingState (cs_Name contStatus) waiting)
      | None \<Rightarrow>
          (case cst_Terminated (cs_State contStatus) of
             Some t \<Rightarrow>
               if ts_ExitCode t \<noteq> 0 then
                 (if ts_Message t \<noteq> []
                  then Some (''the container '' @ cs_Name contStatus
                             @ '' terminated with an error '' @ ts_Message t)
                  else Some (''the command in container '' @ cs_Name contStatus @ '' terminated with an error exit code, this could be because you are running out of disk space''))
               else None
           | None \<Rightarrow> None))"

text \<open>One turn of the loop over the pod conditions; it may return an empty message.\<close>

definition condition_failure :: "PodCondition \<Rightarrow> string option" where
  "condition_failure condition =
     (if pc_Type condition = DisruptionTarget then
        (if pc_Status condition \<noteq> ConditionTrue then None
         else if pc_Message condition \<noteq> [] then Some (pc_Message condition)
         else Some (pc_Reason condition))
      else None)"

definition podFailureReason :: "Pod option \<Rightarrow> string" where
  "podFailureReason pod =
     (case pod of
        None \<Rightarrow> []
      | Some p \<Rightarrow>
          if om_DeletionTimestamp (pod_Meta p) \<noteq> None then []
          else
            (case first_some container_failure
                    (pod_InitContainerStatuses p @ pod_ContainerStatuses p) of
               Some msg \<Rightarrow> msg
             | None \<Rightarrow>
                 (case first_some condition_failure (pod_Conditions p) of
                    Some msg \<Rightarrow> msg
                  | None \<Rightarrow> [])))"

definition load_balancer_failure :: "load_balancer_status \<Rightarrow> string" where
  "load_balancer_failure lb =
     (case first_some (first_some (\<lambda>err. err)) lb of Some msg \<Rightarrow> msg | None \<Rightarrow> [])"

definition ingressFailureReason :: "NetIngress option \<Rightarrow> string" where
  "ingressFailureReason ing =
     (case ing of
        None \<Rightarrow> []
      | Some i \<Rightarrow>
          if om_DeletionTimestamp (ing_Meta i) \<noteq> None then []
          else load_balancer_failure (ing_LoadBalancer i))"

definition serviceFailureReason :: "Service option \<Rightarrow> string" where
  "serviceFailureReason svc =
     (case svc of
        None \<Rightarrow> []
      | Some s \<Rightarrow>
          if om_DeletionTimestamp (svc_Meta s) \<noteq> None then []
          else load_balancer_failure (svc_LoadBalancer s))"

definition pvcFailureReason :: "PersistentVolumeClaim option \<Rightarrow> string" where
  "pvcFailureReason pvc =
     (case pvc of
        None \<Rightarrow> []
      | Some p \<Rightarrow>
          if om_DeletionTimestamp (pvc_Meta p) \<noteq> None then []
          else if pvc_Phase p = ClaimBound then []
          else
            (case first_some (\<lambda>(resName, resStatus).
                if resStatus = NodeResizeInfeasible \<or> resStatus = ControllerResizeInfeasible
                then Some (''the PVC '' @ go_quote (om_Name (pvc_Meta p)) @ '' failed with status ''
                           @ go_quote resStatus @ '' for resource '' @ resName)
                else None) (pvc_AllocatedResourceStatuses p) of
               Some msg \<Rightarrow> msg
             | None \<Rightarrow>
                 (case first_some (\<lambda>condition.
                     if (pvcc_Type condition = PVCResizing
                         \<or> pvcc_Type condition = PVCFileSystemResizePending)
                        \<and> pvcc_Status condition = ConditionFalse
                     then Some (pvcc_Message condition) else None) (pvc_Conditions p) of
                    Some msg \<Rightarrow> msg
                  | None \<Rightarrow> [])))"

section \<open>Container counts\<close>

definition containerRestartPolicy :: "ContainerStatus \<Rightarrow> Pod \<Rightarrow> string option" where
  "containerRestartPolicy status pod =
     (case find (\<lambda>c. c_Name c = cs_Name status) (ps_Containers (pod_Spec pod)) of
        Some c \<Rightarrow> c_RestartPolicy c
      | None \<Rightarrow> None)"

definition isContainerSidecar :: "ContainerStatus \<Rightarrow> Pod \<Rightarrow> bool" where
  "isContainerSidecar status pod =
     (case containerRestartPolicy status pod of
        Some p \<Rightarrow> p = ContainerRestartPolicyAlways
      | None \<Rightarrow> False)"

definition container_completed :: "ContainerStatus \<Rightarrow> bool" where
  "container_completed c =
     (case cst_Terminated (cs_State c) of
        Some t \<Rightarrow> ts_ExitCode t = 0 \<and> ts_Reason t = ''Completed''
      | None \<Rightarrow> False)"

definition container_running :: "ContainerStatus \<Rightarrow> bool" where
  "container_running c \<longleftrightarrow> cs_Ready c \<and> cst_Running (cs_State c) \<noteq> None"

fun count_ok :: "(ContainerStatus \<Rightarrow> bool) \<Rightarrow> ContainerCounts \<Rightarrow> ContainerStatus list \<Rightarrow> ContainerCounts" where
  "count_ok ok counts [] = counts"
| "count_ok ok counts (c # cs) =
     (let counts1 = counts\<lparr> cc_Total := cc_Total counts + 1 \<rparr> in
      count_ok ok (if ok c then counts1\<lparr> cc_Ready := cc_Ready counts1 + 1 \<rparr> else counts1) cs)"

definition containerCounts :: "Pod option \<Rightarrow> ContainerCounts \<times> ContainerCounts" where
  "containerCounts pod =
     (case pod of
        None \<Rightarrow> (no_counts, no_counts)
      | Some p \<Rightarrow>
          (count_ok (\<lambda>c. if isContainerSidecar c p then container_running c
                         else container_completed c) no_counts (pod_InitContainerStatuses p),
           count_ok (\<lambda>c. container_running c \<or> container_completed c) no_counts
             (pod_ContainerStatuses p)))"

section \<open>Readiness and completion\<close>

definition podIsReady :: "Pod option \<Rightarrow> bool" where
  "podIsReady pod =
     (case pod of
        None \<Rightarrow> False
      | Some p \<Rightarrow>
          om_DeletionTimestamp (pod_Meta p) = None
          \<and> (pod_Phase p = PodSucceeded \<or> pod_Phase p = PodRunning)
          \<and> list_ex (\<lambda>c. pc_Type c = PodReady \<and> pc_Status c = ConditionTrue) (pod_Conditions p))"

definition jobIsSuccess :: "Job option \<Rightarrow> bool" where
  "jobIsSuccess job =
     (case job of
        None \<Rightarrow> False
      | Some j \<Rightarrow> list_ex (\<lambda>c. jc_Type c = JobComplete \<and> jc_Status c = ConditionTrue)
                          (jst_Conditions (job_Status j)))"

definition podIsCompleted :: "Pod option \<Rightarrow> bool" where
  "podIsCompleted pod =
     (case pod of
        None \<Rightarrow> False
      | Some p \<Rightarrow>
          om_DeletionTimestamp (pod_Meta p) = None
          \<and> (pod_Phase p = PodSucceeded \<or> pod_Phase p = PodFailed)
          \<and> length (pod_ContainerStatuses p)
            = length (filter (\<lambda>c. cst_Terminated (cs_State c) \<noteq> None) (pod_ContainerStatuses p)))"

definition jobIsFinished :: "JobStatus \<Rightarrow> bool" where
  "jobIsFinished job =
     list_ex (\<lambda>c. (jc_Type c = JobComplete \<or> jc_Type c = JobFailed) \<and> jc_Status c = ConditionTrue)
             (jst_Conditions job)"

section \<open>The contract of a failure check\<close>

text \<open>
  What the status computation relies on: a check finds nothing wrong with a child that is
  absent or that is being deleted.
\<close>

locale failure_check =
  fixes meta :: "'a \<Rightarrow> ObjectMeta" and check :: "'a option \<Rightarrow> string"
  assumes absent: "check None = []"
    and deleting: "om_DeletionTimestamp (meta x) \<noteq> None \<Longrightarrow> check (Some x) = []"
begin

lemma failing_is_live:
  "check x \<noteq> [] \<Longrightarrow> \<exists>y. x = Some y \<and> om_DeletionTimestamp (meta y) = None"
  using absent deleting by (metis not_None_eq)

end

interpretation pod_check: failure_check pod_Meta podFailureReason
  by unfold_locales (simp_all add: podFailureReason_def)

interpretation ingress_check: failure_check ing_Meta ingressFailureReason
  by unfold_locales (simp_all add: ingressFailureReason_def)

interpretation service_check: failure_check svc_Meta serviceFailureReason
  by unfold_locales (simp_all add: serviceFailureReason_def)

interpretation pvc_check: failure_check pvc_Meta pvcFailureReason
  by unfold_locales (simp_all add: pvcFailureReason_def)

section \<open>Lemmas\<close>

lemma handleBadWaitingState_nonempty [simp]: "handleBadWaitingState n w \<noteq> []"
  by (simp add: handleBadWaitingState_def)

lemma container_failure_nonempty: "container_failure c = Some msg \<Longrightarrow> msg \<noteq> []"
  by (auto simp: container_failure_def split: if_splits option.splits)

lemma first_some_nonempty:
  "(\<And>x. f x = Some m \<Longrightarrow> m \<noteq> []) \<Longrightarrow> first_some f xs = Some m \<Longrightarrow> m \<noteq> []"
  using first_some_SomeD by fastforce

lemma count_ok_bounds:
  "cc_Ready (count_ok ok n cs) = cc_Ready n + int (length (filter ok cs))
   \<and> cc_Total (count_ok ok n cs) = cc_Total n + int (length cs)"
  by (induction cs arbitrary: n) (simp_all add: Let_def)

lemma containerCounts_eq:
  "containerCounts (Some p) = (i, c) \<Longrightarrow>
     cc_Total i = int (length (pod_InitContainerStatuses p))
     \<and> cc_Total c = int (length (pod_ContainerStatuses p))
     \<and> 0 \<le> cc_Ready i \<and> cc_Ready i \<le> cc_Total i \<and> 0 \<le> cc_Ready c \<and> cc_Ready c \<le> cc_Total c"
  using count_ok_bounds by (auto simp: containerCounts_def no_counts_def)

lemma podIsReady_live: "podIsReady p \<Longrightarrow> \<exists>q. p = Some q \<and> om_DeletionTimestamp (pod_Meta q) = None"
  by (auto simp: podIsReady_def split: option.splits)

end
