(* ===== verification/Child_Reconcile.thy ===== *)
theory Child_Reconcile
  imports Session_Children Pod_Status
begin

text \<open>
  Reconciling the children: \<^verbatim>\<open>src/internal/controller/children.go\<close>, lines 24 to 505 and
  \<^verbatim>\<open>combineErrors\<close>. Each branch of \<^verbatim>\<open>ChildResource.Reconcile\<close> hands a function to
  \<^verbatim>\<open>CreateOrPatch\<close> that changes the object read from the cluster; these functions are the
  six \<open>..._mutate\<close> definitions. The strategy switch that they share is
  \<open>reconcile_allowed\<close>.
\<close>

section \<open>Types\<close>

record 'a ChildResource =
  ch_Current :: "'a option"
  ch_Desired :: "'a option"

definition no_child :: "'a ChildResource" where
  "no_child = \<lparr> ch_Current = None, ch_Desired = None \<rparr>"

record 'a ChildResourceUpdate =
  cu_Manifest :: "'a option"
  cu_UpdateResult :: OperationResult
  cu_Error :: "go_error option"
  cu_statusCallback :: "status_callback option"

definition no_update :: "'a ChildResourceUpdate" where
  "no_update = \<lparr> cu_Manifest = None, cu_UpdateResult = [], cu_Error = None,
     cu_statusCallback = None \<rparr>"

record ChildResources =
  crs_Ingress :: "NetIngress ChildResource"
  crs_Service :: "Service ChildResource"
  crs_StatefulSet :: "StatefulSet ChildResource"
  crs_PVC :: "PersistentVolumeClaim ChildResource"
  crs_DataSourcesPVCs :: "PersistentVolumeClaim ChildResource list"
  crs_Secret :: "SecretObject ChildResource"
  crs_Job :: "Job ChildResource"

record ChildResourceUpdates =
  cru_Ingress :: "NetIngress ChildResourceUpdate"
  cru_Service :: "Service ChildResourceUpdate"
  cru_StatefulSet :: "StatefulSet ChildResourceUpdate"
  cru_PVC :: "PersistentVolumeClaim ChildResourceUpdate"
  cru_DataSourcesPVCs :: "PersistentVolumeClaim ChildResourceUpdate list"
  cru_Secret :: "SecretObject ChildResourceUpdate"
  cru_Job :: "Job ChildResourceUpdate"

section \<open>Helpers\<close>

definition isFailedOrHibernated :: "AmaltheaSession \<Rightarrow> bool" where
  "isFailedOrHibernated as \<longleftrightarrow>
     st_State (as_Status as) = Failed \<or> st_State (as_Status as) = Hibernated"

definition well_known :: "string \<Rightarrow> bool" where
  "well_known key =
     (let domain = fst (Cut key ''/'') in
      domain = ''kubernetes.io'' \<or> domain = ''k8s.io'' \<or> HasSuffix domain ''.kubernetes.io''
      \<or> HasSuffix domain ''.k8s.io'')"

definition cleanWellKnown :: "strmap \<Rightarrow> strmap \<Rightarrow> strmap" where
  "cleanWellKnown current desired =
     (let preserved = fmfilter well_known current in desired ++\<^sub>f preserved)"

text \<open>
  The switch on \<^verbatim>\<open>cr.Spec.ReconcileStrategy\<close>: \<open>Inr False\<close> is the early \<^verbatim>\<open>return nil\<close>,
  \<open>Inr True\<close> the branch of \<^verbatim>\<open>Always\<close>, and an unknown strategy is an error that names the
  kind of child.
\<close>

definition reconcile_allowed :: "string \<Rightarrow> AmaltheaSession \<Rightarrow> bool result" where
  "reconcile_allowed kind cr =
     (case sp_ReconcileStrategy (as_Spec cr) of
        Never \<Rightarrow> Inr False
      | WhenFailedOrHibernated \<Rightarrow> Inr (isFailedOrHibernated cr)
      | Always \<Rightarrow> Inr True
      | OtherStrategy s \<Rightarrow>
          Inl (Err (''attempting to reconcile '' @ kind @ '' with unknown strategy '' @ s)))"

definition clean_meta :: "ObjectMeta \<Rightarrow> ObjectMeta \<Rightarrow> ObjectMeta" where
  "clean_meta current desired =
     current\<lparr> om_Labels := cleanWellKnown (om_Labels current) (om_Labels desired),
              om_Annotations := cleanWellKnown (om_Annotations current) (om_Annotations desired) \<rparr>"

type_synonym owner_setter = "AmaltheaSession \<Rightarrow> ObjectMeta \<Rightarrow> ObjectMeta result"

text \<open>
  Creation: the object takes the desired metadata and then gets its controller reference;
  if that fails, the error is returned and the metadata stays without it.
\<close>

definition owned_meta ::
  "owner_setter \<Rightarrow> AmaltheaSession \<Rightarrow> ObjectMeta \<Rightarrow> ObjectMeta \<times> go_error option" where
  "owned_meta setRef cr desired =
     (case setRef cr desired of Inl e \<Rightarrow> (desired, Some e) | Inr m \<Rightarrow> (m, None))"

section \<open>Mutating the current object\<close>

definition ingress_mutate ::
  "owner_setter \<Rightarrow> AmaltheaSession \<Rightarrow> NetIngress \<Rightarrow> NetIngress mutator" where
  "ingress_mutate setRef cr desired current =
     (if IsZero (om_CreationTimestamp (ing_Meta current)) then
        (let (m, err) = owned_meta setRef cr (ing_Meta desired) in
         (current\<lparr> ing_Spec := ing_Spec desired, ing_Meta := m \<rparr>, None, err))
      else case reconcile_allowed ''ingress'' cr of
        Inl e \<Rightarrow> (current, None, Some e)
      | Inr False \<Rightarrow> (current, None, None)
      | Inr True \<Rightarrow>
          (current\<lparr> ing_Spec := ing_Spec desired,
                    ing_Meta := clean_meta (ing_Meta current) (ing_Meta desired) \<rparr>, None, None))"

text \<open>The fields of the pod template that follow the specification under every strategy.\<close>

definition sync_scheduling :: "PodTemplateSpec \<Rightarrow> PodTemplateSpec \<Rightarrow> PodTemplateSpec" where
  "sync_scheduling current desired =
     current\<lparr> pt_Spec := (pt_Spec current)\<lparr>
       ps_Tolerations := ps_Tolerations (pt_Spec desired),
       ps_Affinity := ps_Affinity (pt_Spec desired),
       ps_NodeSelector := ps_NodeSelector (pt_Spec desired),
       ps_PriorityClassName := ps_PriorityClassName (pt_Spec desired) \<rparr> \<rparr>"

definition sync_containers :: "PodTemplateSpec \<Rightarrow> PodTemplateSpec \<Rightarrow> PodTemplateSpec" where
  "sync_containers current desired =
     current\<lparr> pt_Spec := (pt_Spec current)\<lparr>
       ps_Containers := ps_Containers (pt_Spec desired),
       ps_InitContainers := ps_InitContainers (pt_Spec desired),
       ps_Volumes := ps_Volumes (pt_Spec desired) \<rparr> \<rparr>"

definition replicas_callback :: "int option \<Rightarrow> int option \<Rightarrow> status_callback option" where
  "replicas_callback current desired =
     (case (current, desired) of
        (Some c, Some d) \<Rightarrow>
          if c = 0 \<and> d = 1 then Some OnResume
          else if c = 1 \<and> d = 0 then Some OnHibernate
          else None
      | _ \<Rightarrow> None)"

definition statefulset_mutate ::
  "owner_setter \<Rightarrow> AmaltheaSession \<Rightarrow> StatefulSet \<Rightarrow> StatefulSet mutator" where
  "statefulset_mutate setRef cr desired current =
     (if IsZero (om_CreationTimestamp (sts_Meta current)) then
        (let (m, err) = owned_meta setRef cr (sts_Meta desired) in
         (current\<lparr> sts_Spec := sts_Spec desired, sts_Meta := m \<rparr>, None, err))
      else
        (let cspec = sts_Spec current; dspec = sts_Spec desired;
             cb = replicas_callback (sss_Replicas cspec) (sss_Replicas dspec);
             spec1 = cspec\<lparr>
               sss_Template := sync_scheduling (sss_Template cspec) (sss_Template dspec),
               sss_Replicas := sss_Replicas dspec \<rparr>;
             current1 = current\<lparr> sts_Spec := spec1 \<rparr> in
         case reconcile_allowed ''ingress'' cr of
           Inl e \<Rightarrow> (current1, cb, Some e)
         | Inr False \<Rightarrow> (current1, cb, None)
         | Inr True \<Rightarrow>
             (current1\<lparr> sts_Spec := spec1\<lparr>
                sss_Template := (sync_containers (sss_Template spec1) (sss_Template dspec))\<lparr>
                  pt_Labels := pt_Labels (sss_Template dspec),
                  pt_Annotations := pt_Annotations (sss_Template dspec) \<rparr>,
                sss_Selector := sss_Selector dspec \<rparr>,
              sts_Meta := clean_meta (sts_Meta current) (sts_Meta desired) \<rparr>, cb, None)))"

definition pvc_mutate ::
  "owner_setter \<Rightarrow> AmaltheaSession \<Rightarrow> PersistentVolumeClaim \<Rightarrow> PersistentVolumeClaim mutator" where
  "pvc_mutate setRef cr desired current =
     (if IsZero (om_CreationTimestamp (pvc_Meta current)) then
        (let (m, err) = owned_meta setRef cr (pvc_Meta desired) in
         (current\<lparr> pvc_Spec := pvc_Spec desired, pvc_Meta := m \<rparr>, None, err))
      else case reconcile_allowed ''PVC'' cr of
        Inl e \<Rightarrow> (current, None, Some e)
      | Inr False \<Rightarrow> (current, None, None)
      | Inr True \<Rightarrow>
          (let spec1 = (pvc_Spec current)\<lparr> pvs_Requests := pvs_Requests (pvc_Spec desired) \<rparr>;
               spec2 = (if pvs_StorageClassName (pvc_Spec desired) \<noteq> None
                        then spec1\<lparr> pvs_StorageClassName := pvs_StorageClassName (pvc_Spec desired) \<rparr>
                        else spec1) in
           (current\<lparr> pvc_Spec := spec2,
                     pvc_Meta := clean_meta (pvc_Meta current) (pvc_Meta desired) \<rparr>, None, None)))"

definition service_mutate ::
  "owner_setter \<Rightarrow> AmaltheaSession \<Rightarrow> Service \<Rightarrow> Service mutator" where
  "service_mutate setRef cr desired current =
     (if IsZero (om_CreationTimestamp (svc_Meta current)) then
        (let (m, err) = owned_meta setRef cr (svc_Meta desired) in
         (current\<lparr> svc_Spec := svc_Spec desired, svc_Meta := m \<rparr>, None, err))
      else case reconcile_allowed ''service'' cr of
        Inl e \<Rightarrow> (current, None, Some e)
      | Inr False \<Rightarrow> (current, None, None)
      | Inr True \<Rightarrow>
          (current\<lparr> svc_Spec := (svc_Spec current)\<lparr> svs_Ports := svs_Ports (svc_Spec desired),
                      svs_Selector := svs_Selector (svc_Spec desired) \<rparr>,
                    svc_Meta := clean_meta (svc_Meta current) (svc_Meta desired) \<rparr>, None, None))"

definition preserve_tunnel :: "strmap \<Rightarrow> strmap \<Rightarrow> strmap" where
  "preserve_tunnel currentData desiredStringData =
     (case fmlookup currentData ''WSTUNNEL_SECRET'' of
        Some existingTunnel \<Rightarrow> fmupd ''WSTUNNEL_SECRET'' existingTunnel desiredStringData
      | None \<Rightarrow> desiredStringData)"

definition secret_mutate ::
  "owner_setter \<Rightarrow> AmaltheaSession \<Rightarrow> SecretObject \<Rightarrow> SecretObject mutator" where
  "secret_mutate setRef cr desired current =
     (if IsZero (om_CreationTimestamp (sec_Meta current)) then
        (let (m, err) = owned_meta setRef cr (sec_Meta desired) in
         (current\<lparr> sec_Data := sec_Data desired, sec_StringData := sec_StringData desired,
                   sec_Meta := m \<rparr>, None, err))
      else case reconcile_allowed ''secret'' cr of
        Inl e \<Rightarrow> (current, None, Some e)
      | Inr False \<Rightarrow> (current, None, None)
      | Inr True \<Rightarrow>
          (current\<lparr> sec_Data := sec_Data desired,
                    sec_StringData := preserve_tunnel (sec_Data current) (sec_StringData desired),
                    sec_Meta := clean_meta (sec_Meta current) (sec_Meta desired) \<rparr>, None, None))"

definition suspend_callback :: "bool option \<Rightarrow> bool option \<Rightarrow> status_callback option" where
  "suspend_callback current desired =
     (if current = Some True \<and> desired = Some False then Some OnResume
      else if (current = None \<or> current = Some False) \<and> desired = Some True then Some OnHibernate
      else None)"

definition job_mutate :: "owner_setter \<Rightarrow> AmaltheaSession \<Rightarrow> Job \<Rightarrow> Job mutator" where
  "job_mutate setRef cr desired current =
     (if jobIsFinished (job_Status current) then (current, None, None)
      else if IsZero (om_CreationTimestamp (job_Meta current)) then
        (let (m, err) = owned_meta setRef cr (job_Meta desired) in
         (current\<lparr> job_Spec := job_Spec desired, job_Meta := m \<rparr>, None, err))
      else
        (let cspec = job_Spec current; dspec = job_Spec desired;
             cb = suspend_callback (js_Suspend cspec) (js_Suspend dspec);
             spec1 = cspec\<lparr>
               js_Template := sync_scheduling (js_Template cspec) (js_Template dspec),
               js_Suspend := js_Suspend dspec,
               js_ActiveDeadlineSeconds := js_ActiveDeadlineSeconds dspec,
               js_TTLSecondsAfterFinished := js_TTLSecondsAfterFinished dspec \<rparr>;
             current1 = current\<lparr> job_Spec := spec1 \<rparr> in
         case reconcile_allowed ''batchjob'' cr of
           Inl e \<Rightarrow> (current1, cb, Some e)
         | Inr False \<Rightarrow> (current1, cb, None)
         | Inr True \<Rightarrow>
             (current1\<lparr> job_Spec := spec1\<lparr>
                js_Template := (sync_containers (js_Template spec1) (js_Template dspec))\<lparr>
                  pt_Annotations := pt_Annotations (js_Template dspec) \<rparr> \<rparr>,
              job_Meta := clean_meta (job_Meta current) (job_Meta desired) \<rparr>, cb, None)))"

section \<open>Reconciling one child\<close>

text \<open>
  A child with a current and no desired object would dereference nil in the mutator;
  \<^verbatim>\<open>NewChildResources\<close> makes none.
\<close>

definition reconcile_with ::
  "('w, 'a) create_or_patch \<Rightarrow> ('a \<Rightarrow> 'a mutator) \<Rightarrow> 'a ChildResource \<Rightarrow> 'w
   \<Rightarrow> 'w \<times> 'a ChildResourceUpdate" where
  "reconcile_with cop mutate c w =
     (case ch_Current c of
        None \<Rightarrow> (w, no_update)
      | Some current \<Rightarrow>
          (let f = (case ch_Desired c of
                 Some desired \<Rightarrow> mutate desired
               | None \<Rightarrow> (\<lambda>cur. (cur, None, Some (Panicked ''nil pointer dereference''))));
               (w', manifest, res, cb, err) = cop current f w in
           (w', \<lparr> cu_Manifest = Some manifest, cu_UpdateResult = res, cu_Error = err,
                  cu_statusCallback = cb \<rparr>)))"

definition Reconcile_Ingress ::
  "'w client \<Rightarrow> AmaltheaSession \<Rightarrow> NetIngress ChildResource \<Rightarrow> 'w
   \<Rightarrow> 'w \<times> NetIngress ChildResourceUpdate" where
  "Reconcile_Ingress clnt cr c w =
     (case ch_Current c of
        None \<Rightarrow> (w, no_update)
      | Some current \<Rightarrow>
          if sp_Hibernated (as_Spec cr) then
            (let (w', err) = cl_DeleteIngress clnt current w in
             if (case err of Some e \<Rightarrow> IsNotFound e | None \<Rightarrow> False)
             then (w', \<lparr> cu_Manifest = Some current, cu_UpdateResult = OperationResultNone,
                         cu_Error = None, cu_statusCallback = None \<rparr>)
             else (w', \<lparr> cu_Manifest = Some current, cu_UpdateResult = ''deleted'',
                         cu_Error = err, cu_statusCallback = None \<rparr>))
          else reconcile_with (cl_CreateOrPatch_Ingress clnt)
                 (ingress_mutate (cl_SetControllerReference clnt) cr) c w)"

definition Reconcile_StatefulSet ::
  "'w client \<Rightarrow> AmaltheaSession \<Rightarrow> StatefulSet ChildResource \<Rightarrow> 'w
   \<Rightarrow> 'w \<times> StatefulSet ChildResourceUpdate" where
  "Reconcile_StatefulSet clnt cr =
     reconcile_with (cl_CreateOrPatch_StatefulSet clnt)
       (statefulset_mutate (cl_SetControllerReference clnt) cr)"

definition Reconcile_PVC ::
  "'w client \<Rightarrow> AmaltheaSession \<Rightarrow> PersistentVolumeClaim ChildResource \<Rightarrow> 'w
   \<Rightarrow> 'w \<times> PersistentVolumeClaim ChildResourceUpdate" where
  "Reconcile_PVC clnt cr =
     reconcile_with (cl_CreateOrPatch_PVC clnt) (pvc_mutate (cl_SetControllerReference clnt) cr)"

definition Reconcile_Service ::
  "'w client \<Rightarrow> AmaltheaSession \<Rightarrow> Service ChildResource \<Rightarrow> 'w
   \<Rightarrow> 'w \<times> Service ChildResourceUpdate" where
  "Reconcile_Service clnt cr =
     reconcile_with (cl_CreateOrPatch_Service clnt)
       (service_mutate (cl_SetControllerReference clnt) cr)"

definition Reconcile_Secret ::
  "'w client \<Rightarrow> AmaltheaSession \<Rightarrow> SecretObject ChildResource \<Rightarrow> 'w
   \<Rightarrow> 'w \<times> SecretObject ChildResourceUpdate" where
  "Reconcile_Secret clnt cr =
     reconcile_with (cl_CreateOrPatch_Secret clnt)
       (secret_mutate (cl_SetControllerReference clnt) cr)"

definition Reconcile_Job ::
  "'w client \<Rightarrow> AmaltheaSession \<Rightarrow> Job ChildResource \<Rightarrow> 'w \<Rightarrow> 'w \<times> Job ChildResourceUpdate" where
  "Reconcile_Job clnt cr =
     reconcile_with (cl_CreateOrPatch_Job clnt) (job_mutate (cl_SetControllerReference clnt) cr)"

section \<open>The children of a session\<close>

definition child_meta :: "AmaltheaSession \<Rightarrow> string \<Rightarrow> ObjectMeta" where
  "child_meta cr name = empty_meta\<lparr> om_Name := name, om_Namespace := as_Namespace cr \<rparr>"

definition empty_pvc :: "ObjectMeta \<Rightarrow> PersistentVolumeClaim" where
  "empty_pvc m = \<lparr> pvc_Meta = m,
     pvc_Spec = \<lparr> pvs_AccessModes = [], pvs_Requests = fmempty, pvs_StorageClassName = None,
       pvs_VolumeName = [] \<rparr>,
     pvc_Phase = [], pvc_AllocatedResourceStatuses = [], pvc_Conditions = [] \<rparr>"

definition empty_service :: "ObjectMeta \<Rightarrow> Service" where
  "empty_service m = \<lparr> svc_Meta = m,
     svc_Spec = \<lparr> svs_Selector = fmempty, svs_Ports = [], svs_PublishNotReadyAddresses = False,
       svs_ClusterIP = [] \<rparr>,
     svc_LoadBalancer = [] \<rparr>"

definition empty_ingress :: "ObjectMeta \<Rightarrow> NetIngress" where
  "empty_ingress m = \<lparr> ing_Meta = m,
     ing_Spec = \<lparr> igs_IngressClassName = None, igs_Rules = [], igs_TLS = [] \<rparr>,
     ing_LoadBalancer = [] \<rparr>"

definition empty_pod_template :: PodTemplateSpec where
  "empty_pod_template = \<lparr> pt_Labels = fmempty, pt_Annotations = fmempty,
     pt_Spec = \<lparr> ps_ServiceAccountName = [], ps_DeprecatedServiceAccount = [],
       ps_EnableServiceLinks = None, ps_AutomountServiceAccountToken = None, ps_FSGroup = None,
       ps_Containers = [], ps_InitContainers = [], ps_Volumes = [], ps_Tolerations = [],
       ps_NodeSelector = fmempty, ps_Affinity = None, ps_PriorityClassName = [],
       ps_ImagePullSecrets = [], ps_RestartPolicy = [],
       ps_TerminationGracePeriodSeconds = None \<rparr> \<rparr>"

definition empty_statefulset :: "ObjectMeta \<Rightarrow> StatefulSet" where
  "empty_statefulset m = \<lparr> sts_Meta = m,
     sts_Spec = \<lparr> sss_PodManagementPolicy = [], sss_Replicas = None, sss_Selector = None,
       sss_Template = empty_pod_template \<rparr>,
     sts_ReadyReplicas = 0, sts_StatusReplicas = 0 \<rparr>"

definition empty_job :: "ObjectMeta \<Rightarrow> Job" where
  "empty_job m = \<lparr> job_Meta = m,
     job_Spec = \<lparr> js_Parallelism = None, js_Completions = None, js_BackoffLimit = None,
       js_ActiveDeadlineSeconds = None, js_TTLSecondsAfterFinished = None, js_Suspend = None,
       js_Template = empty_pod_template \<rparr>,
     job_Status = \<lparr> jst_Conditions = [], jst_Active = 0, jst_Ready = None, jst_Failed = 0 \<rparr> \<rparr>"

definition child :: "'a \<Rightarrow> 'a \<Rightarrow> 'a ChildResource" where
  "child current desired = \<lparr> ch_Current = Some current, ch_Desired = Some desired \<rparr>"

definition ds_children ::
  "PersistentVolumeClaim list \<Rightarrow> PersistentVolumeClaim ChildResource list" where
  "ds_children specPVCs = map (\<lambda>desired. child (empty_pvc (pvc_Meta desired)) desired) specPVCs"

definition NewNonInteractiveChildResources ::
  "golib \<Rightarrow> environ \<Rightarrow> randomness \<Rightarrow> AmaltheaSession \<Rightarrow> AmaltheaSessionConfiguration
   \<Rightarrow> ChildResources result" where
  "NewNonInteractiveChildResources lib env rnd cr cfg =
     (let metadata = child_meta cr (as_Name cr);
          secretMetadata = child_meta cr (InternalSecretName cr) in
      bindE (Job lib env cr cfg) (\<lambda>desiredJob.
      bindE (Secret lib env rnd cr) (\<lambda>desiredSecret.
      bindE (DataSources env cr) (\<lambda>(specPVCs, _, _).
        Inr \<lparr> crs_Ingress = no_child, crs_Service = no_child, crs_StatefulSet = no_child,
          crs_PVC = child (empty_pvc metadata) (PVC cr),
          crs_DataSourcesPVCs = ds_children specPVCs,
          crs_Secret = child \<lparr> sec_Meta = secretMetadata, sec_Data = fmempty,
            sec_StringData = fmempty \<rparr> desiredSecret,
          crs_Job = child (empty_job metadata) desiredJob \<rparr>))))"

definition NewInteractiveChildResources ::
  "golib \<Rightarrow> environ \<Rightarrow> randomness \<Rightarrow> AmaltheaSession \<Rightarrow> AmaltheaSessionConfiguration
   \<Rightarrow> ChildResources result" where
  "NewInteractiveChildResources lib env rnd cr cfg =
     (let metadata = child_meta cr (as_Name cr);
          secretMetadata = child_meta cr (InternalSecretName cr) in
      bindE (StatefulSet lib env cr cfg) (\<lambda>desiredStatefulSet.
      bindE (Secret lib env rnd cr) (\<lambda>desiredSecret.
      bindE (DataSources env cr) (\<lambda>(specPVCs, _, _).
        Inr \<lparr> crs_Ingress = (case Ingress cr of
              Some desiredIngress \<Rightarrow> child (empty_ingress metadata) desiredIngress
            | None \<Rightarrow> no_child),
          crs_Service = child (empty_service metadata) (Service cr),
          crs_StatefulSet = child (empty_statefulset metadata) desiredStatefulSet,
          crs_PVC = child (empty_pvc metadata) (PVC cr),
          crs_DataSourcesPVCs = ds_children specPVCs,
          crs_Secret = child \<lparr> sec_Meta = secretMetadata, sec_Data = fmempty,
            sec_StringData = fmempty \<rparr> desiredSecret,
          crs_Job = no_child \<rparr>))))"

definition NewChildResources ::
  "golib \<Rightarrow> environ \<Rightarrow> randomness \<Rightarrow> AmaltheaSession \<Rightarrow> AmaltheaSessionConfiguration
   \<Rightarrow> ChildResources result" where
  "NewChildResources lib env rnd cr cfg =
     (case sp_SessionType (as_Spec cr) of
        SessionTypeNonInteractive \<Rightarrow> NewNonInteractiveChildResources lib env rnd cr cfg
      | SessionTypeInteractive \<Rightarrow> NewInteractiveChildResources lib env rnd cr cfg)"

section \<open>Reconciling all children\<close>

text \<open>
  The errors are collected in a Go map, whose keys the runtime visits in an order of its
  own; the Job's error is not among them.
\<close>

definition child_errors :: "ChildResourceUpdates \<Rightarrow> (string \<times> go_error option) list" where
  "child_errors c =
     [(''Ingress'', cu_Error (cru_Ingress c)), (''Service'', cu_Error (cru_Service c)),
      (''PVC'', cu_Error (cru_PVC c)), (''StatefulSet'', cu_Error (cru_StatefulSet c)),
      (''Secret'', cu_Error (cru_Secret c))]
     @ map (\<lambda>pvc. (''DataSourcesPVCs/''
            @ (case cu_Manifest pvc of Some m \<Rightarrow> om_Name (pvc_Meta m) | None \<Rightarrow> []), cu_Error pvc))
        (filter (\<lambda>pvc. cu_Error pvc \<noteq> None) (cru_DataSourcesPVCs c))"

definition combineErrors :: "golib \<Rightarrow> ChildResourceUpdates \<Rightarrow> go_error option" where
  "combineErrors lib c =
     (let errors = fmap_of_list (rev (child_errors c));
          names = lib_map_order lib (remdups (map fst (child_errors c)));
          errorMsgs = concat (map (\<lambda>name. case fmlookup errors name of
              Some (Some err) \<Rightarrow> [name @ '': '' @ err_msg err]
            | _ \<Rightarrow> []) names) in
      if length errorMsgs = 0 then None
      else Some (Err (''error in reconciling children '' @ str_Join errorMsgs '', '')))"

fun reconcile_list ::
  "('c \<Rightarrow> 'w \<Rightarrow> 'w \<times> 'u) \<Rightarrow> 'c list \<Rightarrow> 'w \<Rightarrow> 'w \<times> 'u list" where
  "reconcile_list f [] w = (w, [])"
| "reconcile_list f (c # cs) w =
     (let (w1, u) = f c w; (w2, us) = reconcile_list f cs w1 in (w2, u # us))"

definition ChildResources_Reconcile ::
  "golib \<Rightarrow> 'w client \<Rightarrow> AmaltheaSession \<Rightarrow> ChildResources \<Rightarrow> 'w
   \<Rightarrow> 'w \<times> ChildResourceUpdates \<times> go_error option" where
  "ChildResources_Reconcile lib clnt cr c w0 =
     (let (w1, sts) = Reconcile_StatefulSet clnt cr (crs_StatefulSet c) w0;
          (w2, pvc) = Reconcile_PVC clnt cr (crs_PVC c) w1;
          (w3, svc) = Reconcile_Service clnt cr (crs_Service c) w2;
          (w4, ing) = Reconcile_Ingress clnt cr (crs_Ingress c) w3;
          (w5, sec) = Reconcile_Secret clnt cr (crs_Secret c) w4;
          (w6, job) = Reconcile_Job clnt cr (crs_Job c) w5;
          (w7, dss) = reconcile_list (Reconcile_PVC clnt cr) (crs_DataSourcesPVCs c) w6;
          output = \<lparr> cru_Ingress = ing, cru_Service = svc, cru_StatefulSet = sts, cru_PVC = pvc,
            cru_DataSourcesPVCs = dss, cru_Secret = sec, cru_Job = job \<rparr> in
      (w7, output, combineErrors lib output))"

definition AllEqual :: "ChildResourceUpdates \<Rightarrow> OperationResult \<Rightarrow> bool" where
  "AllEqual c op =
     (let ingressOK = (cu_Manifest (cru_Ingress c) = None
            \<or> (cu_Manifest (cru_Ingress c) \<noteq> None \<and> cu_UpdateResult (cru_Ingress c) = op));
          dataSourcesOK = list_all (\<lambda>ds. cu_UpdateResult ds = op) (cru_DataSourcesPVCs c) in
      ingressOK \<and> cu_UpdateResult (cru_Service c) = op \<and> cu_UpdateResult (cru_PVC c) = op
      \<and> cu_UpdateResult (cru_StatefulSet c) = op \<and> dataSourcesOK
      \<and> cu_UpdateResult (cru_Secret c) = op)"

end
