(* ===== verification/Reconcile_Props.thy ===== *)
theory Reconcile_Props
  imports Child_Reconcile Sample
begin

text \<open>
  What holds of the reconciliation of children. The six mutators share a contract, the
  locale \<open>child_mutator\<close>; its consequences are proved once and hold of each of them.
\<close>

section \<open>Well-known labels and annotations\<close>

lemma cleanWellKnown_get:
  "fmlookup (cleanWellKnown current desired) k =
     (if well_known k \<and> fmlookup current k \<noteq> None then fmlookup current k
      else fmlookup desired k)"
  by (auto simp: cleanWellKnown_def fmdom_notI fmdomI)

lemma cleanWellKnown_idem [simp]:
  "cleanWellKnown (cleanWellKnown current desired) desired = cleanWellKnown current desired"
  by (rule fmap_ext) (auto simp: cleanWellKnown_get)

lemma clean_meta_simps [simp]:
  "om_Name (clean_meta c d) = om_Name c" "om_Namespace (clean_meta c d) = om_Namespace c"
  "om_UID (clean_meta c d) = om_UID c"
  "om_CreationTimestamp (clean_meta c d) = om_CreationTimestamp c"
  "om_DeletionTimestamp (clean_meta c d) = om_DeletionTimestamp c"
  "om_Finalizers (clean_meta c d) = om_Finalizers c"
  "om_OwnerReferences (clean_meta c d) = om_OwnerReferences c"
  "om_Labels (clean_meta c d) = cleanWellKnown (om_Labels c) (om_Labels d)"
  "om_Annotations (clean_meta c d) = cleanWellKnown (om_Annotations c) (om_Annotations d)"
  by (simp_all add: clean_meta_def)

lemma clean_meta_idem [simp]: "clean_meta (clean_meta c d) d = clean_meta c d"
  by (simp add: clean_meta_def)

section \<open>The contract of a mutator\<close>

text \<open>\<open>finished\<close> are the objects the mutator leaves alone.\<close>

locale child_mutator =
  fixes meta :: "'a \<Rightarrow> ObjectMeta"
    and mutate :: "owner_setter \<Rightarrow> AmaltheaSession \<Rightarrow> 'a \<Rightarrow> 'a mutator"
    and kind :: string
    and finished :: "'a \<Rightarrow> bool"
  assumes create: "om_CreationTimestamp (meta cur) = 0 \<Longrightarrow> \<not> finished cur \<Longrightarrow>
      meta (fst (mutate sr cr d cur)) = fst (owned_meta sr cr (meta d))
      \<and> snd (snd (mutate sr cr d cur)) = snd (owned_meta sr cr (meta d))"
    and leave: "finished cur \<Longrightarrow> mutate sr cr d cur = (cur, None, None)"
    and keep: "om_CreationTimestamp (meta cur) \<noteq> 0 \<Longrightarrow> \<not> finished cur \<Longrightarrow>
      reconcile_allowed kind cr = Inr False \<Longrightarrow>
      meta (fst (mutate sr cr d cur)) = meta cur \<and> snd (snd (mutate sr cr d cur)) = None"
    and overwrite: "om_CreationTimestamp (meta cur) \<noteq> 0 \<Longrightarrow> \<not> finished cur \<Longrightarrow>
      reconcile_allowed kind cr = Inr True \<Longrightarrow>
      meta (fst (mutate sr cr d cur)) = clean_meta (meta cur) (meta d)
      \<and> snd (snd (mutate sr cr d cur)) = None"
    and unknown: "om_CreationTimestamp (meta cur) \<noteq> 0 \<Longrightarrow> \<not> finished cur \<Longrightarrow>
      reconcile_allowed kind cr = Inl e \<Longrightarrow>
      meta (fst (mutate sr cr d cur)) = meta cur \<and> snd (snd (mutate sr cr d cur)) = Some e"
begin

lemma meta_cases:
  assumes "om_CreationTimestamp (meta cur) \<noteq> 0"
  shows "meta (fst (mutate sr cr d cur)) = meta cur
       \<or> meta (fst (mutate sr cr d cur)) = clean_meta (meta cur) (meta d)"
proof (cases "finished cur")
  case True
  then show ?thesis by (simp add: leave)
next
  case False
  then show ?thesis
    using assms keep overwrite unknown by (cases "reconcile_allowed kind cr") (metis (full_types))+
qed

lemma well_known_kept:
  assumes "om_CreationTimestamp (meta cur) \<noteq> 0" "well_known k"
  shows "fmlookup (om_Labels (meta cur)) k = Some v \<Longrightarrow>
      fmlookup (om_Labels (meta (fst (mutate sr cr d cur)))) k = Some v"
    and "fmlookup (om_Annotations (meta cur)) k = Some w \<Longrightarrow>
      fmlookup (om_Annotations (meta (fst (mutate sr cr d cur)))) k = Some w"
  using meta_cases [OF assms(1), of sr cr d] assms(2) by (auto simp: cleanWellKnown_get)

lemma identity_kept:
  assumes "om_CreationTimestamp (meta cur) \<noteq> 0"
  shows "om_Name (meta (fst (mutate sr cr d cur))) = om_Name (meta cur)
       \<and> om_UID (meta (fst (mutate sr cr d cur))) = om_UID (meta cur)
       \<and> om_OwnerReferences (meta (fst (mutate sr cr d cur))) = om_OwnerReferences (meta cur)
       \<and> om_Finalizers (meta (fst (mutate sr cr d cur))) = om_Finalizers (meta cur)
       \<and> om_CreationTimestamp (meta (fst (mutate sr cr d cur))) = om_CreationTimestamp (meta cur)"
  using meta_cases [OF assms, of sr cr d] by auto

lemma error_only_unknown_strategy:
  assumes "om_CreationTimestamp (meta cur) \<noteq> 0" "snd (snd (mutate sr cr d cur)) = Some e"
  shows "\<exists>s. sp_ReconcileStrategy (as_Spec cr) = OtherStrategy s"
proof (cases "finished cur")
  case True
  with assms show ?thesis by (simp add: leave)
next
  case False
  then have "\<exists>e. reconcile_allowed kind cr = Inl e"
    using assms keep overwrite
    by (cases "reconcile_allowed kind cr") (metis (full_types) option.distinct(1))+
  then show ?thesis
    by (auto simp: reconcile_allowed_def split: ReconcileStrategy.splits)
qed

end

lemmas mutator_defs = owned_meta_def Let_def sync_scheduling_def sync_containers_def

interpretation ingress_child:
  child_mutator ing_Meta ingress_mutate "''ingress''" "\<lambda>_. False"
  by unfold_locales
    (auto simp: ingress_mutate_def mutator_defs split: sum.splits bool.splits)

lemma reconcile_allowed_cases:
  obtains "reconcile_allowed kind cr = Inr True" | "reconcile_allowed kind cr = Inr False"
    | e where "reconcile_allowed kind cr = Inl e"
  by (cases "reconcile_allowed kind cr") auto

interpretation statefulset_child:
  child_mutator sts_Meta statefulset_mutate "''ingress''" "\<lambda>_. False"
  by unfold_locales
    (simp_all add: statefulset_mutate_def owned_meta_def Let_def split: sum.splits)

interpretation pvc_child: child_mutator pvc_Meta pvc_mutate "''PVC''" "\<lambda>_. False"
  by unfold_locales
    (auto simp: pvc_mutate_def mutator_defs split: sum.splits bool.splits)

interpretation service_child: child_mutator svc_Meta service_mutate "''service''" "\<lambda>_. False"
  by unfold_locales
    (auto simp: service_mutate_def mutator_defs split: sum.splits bool.splits)

interpretation secret_child: child_mutator sec_Meta secret_mutate "''secret''" "\<lambda>_. False"
  by unfold_locales
    (auto simp: secret_mutate_def mutator_defs split: sum.splits bool.splits)

interpretation job_child:
  child_mutator job_Meta job_mutate "''batchjob''" "\<lambda>j. jobIsFinished (job_Status j)"
  by unfold_locales (simp_all add: job_mutate_def owned_meta_def Let_def split: sum.splits)

section \<open>Properties of every child\<close>

definition keeps_well_known :: "ObjectMeta \<Rightarrow> ObjectMeta \<Rightarrow> bool" where
  "keeps_well_known m m' \<longleftrightarrow> (\<forall>k v. well_known k \<longrightarrow>
     (fmlookup (om_Labels m) k = Some v \<longrightarrow> fmlookup (om_Labels m') k = Some v)
     \<and> (fmlookup (om_Annotations m) k = Some v \<longrightarrow> fmlookup (om_Annotations m') k = Some v))
   \<and> om_Name m' = om_Name m \<and> om_UID m' = om_UID m
   \<and> om_OwnerReferences m' = om_OwnerReferences m"

text \<open>C21: Updating an existing child, under every reconcile strategy, keeps its identity (name,
  UID, owner references) and keeps the value of every label and annotation in a Kubernetes
  domain: ingress, StatefulSet, claim, service, secret and job.\<close>

theorem updates_keep_well_known:
  assumes "om_CreationTimestamp (ing_Meta i) \<noteq> 0" "om_CreationTimestamp (sts_Meta s) \<noteq> 0"
    "om_CreationTimestamp (pvc_Meta p) \<noteq> 0" "om_CreationTimestamp (svc_Meta v) \<noteq> 0"
    "om_CreationTimestamp (sec_Meta t) \<noteq> 0" "om_CreationTimestamp (job_Meta j) \<noteq> 0"
  shows "keeps_well_known (ing_Meta i) (ing_Meta (fst (ingress_mutate sr cr di i)))
    \<and> keeps_well_known (sts_Meta s) (sts_Meta (fst (statefulset_mutate sr cr ds s)))
    \<and> keeps_well_known (pvc_Meta p) (pvc_Meta (fst (pvc_mutate sr cr dp p)))
    \<and> keeps_well_known (svc_Meta v) (svc_Meta (fst (service_mutate sr cr dv v)))
    \<and> keeps_well_known (sec_Meta t) (sec_Meta (fst (secret_mutate sr cr dt t)))
    \<and> keeps_well_known (job_Meta j) (job_Meta (fst (job_mutate sr cr dj j)))"
  unfolding keeps_well_known_def
  using ingress_child.well_known_kept [OF assms(1)] ingress_child.identity_kept [OF assms(1)]
    statefulset_child.well_known_kept [OF assms(2)] statefulset_child.identity_kept [OF assms(2)]
    pvc_child.well_known_kept [OF assms(3)] pvc_child.identity_kept [OF assms(3)]
    service_child.well_known_kept [OF assms(4)] service_child.identity_kept [OF assms(4)]
    secret_child.well_known_kept [OF assms(5)] secret_child.identity_kept [OF assms(5)]
    job_child.well_known_kept [OF assms(6)] job_child.identity_kept [OF assms(6)]
  by simp

definition sample_live_meta :: ObjectMeta where
  "sample_live_meta = empty_meta\<lparr> om_Name := ''alice'', om_CreationTimestamp := 5,
     om_Labels := fmap_of_list [(''a.k8s.io/x'', ''1'')] \<rparr>"

theorem updates_keep_well_known_witness:
  "keeps_well_known sample_live_meta (svc_Meta (fst (service_mutate (\<lambda>_. Inr) sample_session
     (Service sample_session) (empty_service sample_live_meta))))"
  using updates_keep_well_known [of "empty_ingress sample_live_meta"
      "empty_statefulset sample_live_meta" "empty_pvc sample_live_meta"
      "empty_service sample_live_meta" "secret_named [] []\<lparr> sec_Meta := sample_live_meta \<rparr>"
      "empty_job sample_live_meta"]
  by (simp add: sample_live_meta_def empty_ingress_def empty_statefulset_def empty_pvc_def
      empty_service_def empty_job_def)

section \<open>Strategies\<close>

text \<open>C2: Hibernating works as expected regardless of the strategy, as the documentation of the
  field says: after the update of the StatefulSet its replicas are zero exactly when the
  specification asks for hibernation and one otherwise, and an unfinished job is suspended
  exactly then, whatever the object in the cluster was and even under an unknown strategy.\<close>

theorem hibernation_follows_spec:
  assumes "StatefulSet lib env cr cfg = Inr ds" "Job lib env cr cfg = Inr dj"
    and "\<not> jobIsFinished (job_Status j)"
  shows "sss_Replicas (sts_Spec (fst (statefulset_mutate sr cr ds s)))
           = Some (if sp_Hibernated (as_Spec cr) then 0 else 1)
       \<and> js_Suspend (job_Spec (fst (job_mutate sr cr dj j))) = Some (sp_Hibernated (as_Spec cr))"
proof -
  have s: "sss_Replicas (sts_Spec (fst (statefulset_mutate sr cr ds s))) = sss_Replicas (sts_Spec ds)"
    by (rule reconcile_allowed_cases [of "''ingress''" cr])
      (simp_all add: statefulset_mutate_def owned_meta_def Let_def split: sum.splits)
  have j: "js_Suspend (job_Spec (fst (job_mutate sr cr dj j))) = js_Suspend (job_Spec dj)"
    by (rule reconcile_allowed_cases [of "''batchjob''" cr])
      (simp_all add: assms(3) job_mutate_def owned_meta_def Let_def split: sum.splits)
  show ?thesis
    using assms(1,2) unfolding s j by (auto simp: StatefulSet_def Job_def bindE_Inr_iff Let_def)
qed

theorem hibernation_follows_spec_witness:
  "\<exists>ds. StatefulSet sample_lib sample_env sample_session sample_cfg = Inr ds
     \<and> sss_Replicas (sts_Spec (fst (statefulset_mutate (\<lambda>_. Inr) sample_session ds
          (empty_statefulset sample_live_meta)))) = Some 1"
proof -
  obtain ds where s: "StatefulSet sample_lib sample_env sample_session sample_cfg = Inr ds"
    using sample_StatefulSet by blast
  obtain dj where j: "Job sample_lib sample_env sample_session sample_cfg = Inr dj"
    using sample_Pod by (auto simp: Job_def Let_def)
  have "\<not> jobIsFinished (job_Status (empty_job sample_live_meta))"
    by (simp add: jobIsFinished_def empty_job_def)
  from hibernation_follows_spec [OF s j this] s show ?thesis
    by (auto simp: sample_session_def sample_spec_def)
qed

text \<open>Under the strategy \<open>never\<close> an existing ingress, claim, service or secret is left
  exactly as it is; of an existing StatefulSet the containers, volumes, selector, labels,
  annotations and metadata are left and only the replicas and the scheduling fields change.\<close>

lemma never_strategy_leaves_children:
  assumes "sp_ReconcileStrategy (as_Spec cr) = Never"
    and "om_CreationTimestamp (ing_Meta i) \<noteq> 0" "om_CreationTimestamp (sts_Meta s) \<noteq> 0"
    "om_CreationTimestamp (pvc_Meta p) \<noteq> 0" "om_CreationTimestamp (svc_Meta v) \<noteq> 0"
    "om_CreationTimestamp (sec_Meta t) \<noteq> 0"
  shows "ingress_mutate sr cr di i = (i, None, None) \<and> pvc_mutate sr cr dp p = (p, None, None)
    \<and> service_mutate sr cr dv v = (v, None, None) \<and> secret_mutate sr cr dt t = (t, None, None)
    \<and> (\<exists>s' cb. statefulset_mutate sr cr ds s = (s', cb, None) \<and> sts_Meta s' = sts_Meta s
         \<and> sss_Selector (sts_Spec s') = sss_Selector (sts_Spec s)
         \<and> pt_Labels (sss_Template (sts_Spec s')) = pt_Labels (sss_Template (sts_Spec s))
         \<and> pt_Annotations (sss_Template (sts_Spec s')) = pt_Annotations (sss_Template (sts_Spec s))
         \<and> ps_Containers (pt_Spec (sss_Template (sts_Spec s')))
             = ps_Containers (pt_Spec (sss_Template (sts_Spec s)))
         \<and> ps_InitContainers (pt_Spec (sss_Template (sts_Spec s')))
             = ps_InitContainers (pt_Spec (sss_Template (sts_Spec s)))
         \<and> ps_Volumes (pt_Spec (sss_Template (sts_Spec s')))
             = ps_Volumes (pt_Spec (sss_Template (sts_Spec s))))"
proof -
  have "reconcile_allowed kind cr = Inr False" for kind
    by (simp add: reconcile_allowed_def assms(1))
  then show ?thesis
    using assms(2-)
    by (simp add: ingress_mutate_def pvc_mutate_def service_mutate_def secret_mutate_def
        statefulset_mutate_def Let_def sync_scheduling_def)
qed

section \<open>Errors\<close>

text \<open>The children whose errors stop the reconciliation.\<close>

definition watched_errors :: "ChildResourceUpdates \<Rightarrow> go_error option list" where
  "watched_errors c = [cu_Error (cru_Ingress c), cu_Error (cru_Service c), cu_Error (cru_PVC c),
     cu_Error (cru_StatefulSet c), cu_Error (cru_Secret c)] @ map cu_Error (cru_DataSourcesPVCs c)"

lemma child_errors_same_key:
  "(n, None) \<in> set (child_errors c) \<Longrightarrow> (n, y) \<in> set (child_errors c) \<Longrightarrow> y = None"
  by (auto simp: child_errors_def)

lemma child_errors_lookup:
  "(\<exists>n e. fmlookup (fmap_of_list (rev (child_errors c))) n = Some (Some e))
   \<longleftrightarrow> (\<exists>n e. (n, Some e) \<in> set (child_errors c))"
proof
  assume "\<exists>n e. fmlookup (fmap_of_list (rev (child_errors c))) n = Some (Some e)"
  then show "\<exists>n e. (n, Some e) \<in> set (child_errors c)"
    by (metis fmlookup_of_list map_of_SomeD set_rev)
next
  assume "\<exists>n e. (n, Some e) \<in> set (child_errors c)"
  then obtain n e where ne: "(n, Some e) \<in> set (child_errors c)" by blast
  then obtain x where x: "map_of (rev (child_errors c)) n = Some x"
    by (metis set_rev weak_map_of_SomeI)
  then have "(n, x) \<in> set (child_errors c)" by (metis map_of_SomeD set_rev)
  with ne have "x \<noteq> None" using child_errors_same_key by (metis option.distinct(1))
  with x show "\<exists>n e. fmlookup (fmap_of_list (rev (child_errors c))) n = Some (Some e)"
    by (auto simp: fmlookup_of_list)
qed

lemma child_errors_watched:
  "(\<exists>n e. (n, Some e) \<in> set (child_errors c)) \<longleftrightarrow> list_ex (\<lambda>x. x \<noteq> None) (watched_errors c)"
proof -
  have ex: "(\<exists>n e. (n, Some e) \<in> set xs) \<longleftrightarrow> list_ex (\<lambda>p. snd p \<noteq> None) xs"
    for xs :: "('x \<times> 'y option) list"
    by (induction xs) auto
  have ds: "list_ex (\<lambda>p. snd p \<noteq> None) (map (\<lambda>u. (g u, cu_Error u)) (filter (\<lambda>u. cu_Error u \<noteq> None) us))
      = list_ex (\<lambda>e. e \<noteq> None) (map cu_Error us)"
    for g :: "PersistentVolumeClaim ChildResourceUpdate \<Rightarrow> string" and us
    by (induction us) auto
  show ?thesis
    unfolding ex by (simp add: child_errors_def watched_errors_def ds del: not_None_eq)
qed

text \<open>The reconciliation of the children reports an error exactly when one of the watched
  children failed: ingress, service, claim, StatefulSet, secret or a data source's claim,
  in whatever order the runtime visits the map of errors.\<close>

lemma combineErrors_iff:
  assumes "\<And>ks. set (lib_map_order lib ks) = set ks"
  shows "combineErrors lib c \<noteq> None \<longleftrightarrow> list_ex (\<lambda>e. e \<noteq> None) (watched_errors c)"
proof -
  let ?m = "fmap_of_list (rev (child_errors c))"
  have dom: "n \<in> set (map fst (child_errors c))" if "fmlookup ?m n = Some x" for n x
    using that by (metis fmlookup_of_list fst_conv image_eqI map_of_SomeD set_map set_rev)
  have "combineErrors lib c \<noteq> None \<longleftrightarrow>
      (\<exists>n \<in> set (map fst (child_errors c)). \<exists>e. fmlookup ?m n = Some (Some e))"
    unfolding combineErrors_def Let_def by (force simp: assms split: option.splits)
  also have "\<dots> \<longleftrightarrow> (\<exists>n e. fmlookup ?m n = Some (Some e))"
    using dom by blast
  finally show ?thesis
    using child_errors_lookup child_errors_watched by simp
qed

text \<open>
  An error in reconciling the job of a non-interactive session never reaches the caller:
  whatever the update of the job returned, the combined error is the same.
\<close>

lemma job_errors_are_dropped:
  "combineErrors lib (c\<lparr> cru_Job := u \<rparr>) = combineErrors lib c"
  by (simp add: combineErrors_def child_errors_def)

section \<open>Which children there are\<close>

lemma child_eq_iff [simp]: "child a b = child c d \<longleftrightarrow> a = c \<and> b = d"
  by (simp add: child_def)

text \<open>An interactive session has a StatefulSet, a Service, and an Ingress exactly when its
  specification has one, and no Job; a non-interactive session has a Job and none of these.
  Both have the session's claim and the operator's secret, and a child for
  the claim of each data source.\<close>

lemma children_of_session_type:
  assumes "NewChildResources lib env rnd cr cfg = Inr c"
  shows "(case sp_SessionType (as_Spec cr) of
      SessionTypeInteractive \<Rightarrow>
        (\<exists>x y. crs_StatefulSet c = child x y) \<and> (\<exists>x y. crs_Service c = child x y)
        \<and> crs_Job c = no_child
        \<and> (crs_Ingress c = no_child \<longleftrightarrow> sp_Ingress (as_Spec cr) = None)
    | SessionTypeNonInteractive \<Rightarrow>
        (\<exists>x y. crs_Job c = child x y) \<and> crs_StatefulSet c = no_child
        \<and> crs_Service c = no_child \<and> crs_Ingress c = no_child)
    \<and> (\<exists>x. crs_PVC c = child x (PVC cr))
    \<and> (\<exists>y. crs_Secret c = child \<lparr> sec_Meta = child_meta cr (InternalSecretName cr),
            sec_Data = fmempty, sec_StringData = fmempty \<rparr> y \<and> Secret lib env rnd cr = Inr y)
    \<and> (\<exists>ps vs ms. DataSources env cr = Inr (ps, vs, ms) \<and> crs_DataSourcesPVCs c = ds_children ps)"
proof -
  have ing: "Ingress cr = None \<longleftrightarrow> sp_Ingress (as_Spec cr) = None"
    by (simp add: Ingress_def Let_def split: option.splits)
  have nc: "child x y \<noteq> no_child" for x y :: 'z
    by (simp add: child_def no_child_def)
  show ?thesis
    using assms ing
    by (auto simp: NewChildResources_def NewInteractiveChildResources_def
        NewNonInteractiveChildResources_def bindE_Inr_iff Let_def nc
        split: SessionType.splits option.splits)
qed

end
