(* ===== verification/Pod_Props.thy ===== *)
theory Pod_Props
  imports Pod_Status Sample
begin

text \<open>
  What the pod predicates mean: which pods are reported as failing, and which init
  containers are counted as ready.
\<close>

section \<open>Failing pods\<close>

lemma container_failure_iff:
  "container_failure c \<noteq> None \<longleftrightarrow>
     \<not> (cs_Started c = Some True \<and> cs_Ready c)
     \<and> ((\<exists>ws. cst_Waiting (cs_State c) = Some ws
           \<and> ws_Reason ws \<noteq> ''ContainerCreating'' \<and> ws_Reason ws \<noteq> ''PodInitializing'')
        \<or> (cst_Waiting (cs_State c) = None
           \<and> (\<exists>t. cst_Terminated (cs_State c) = Some t \<and> ts_ExitCode t \<noteq> 0)))"
  by (auto simp: container_failure_def valid_waiting_reasons_def split: option.splits)

lemma condition_failures:
  "(case first_some condition_failure cs of Some msg \<Rightarrow> msg | None \<Rightarrow> []) \<noteq> [] \<longleftrightarrow>
     (\<exists>c. find (\<lambda>c. pc_Type c = DisruptionTarget \<and> pc_Status c = ConditionTrue) cs = Some c
        \<and> \<not> (pc_Message c = [] \<and> pc_Reason c = []))"
  by (induction cs) (auto simp: condition_failure_def)

text \<open>A live pod has a failure message exactly when one of its init or regular containers is
  not up and waits for a reason other than the two of a normal start, or has terminated
  with a nonzero exit code; or when its first disruption condition that is true carries a
  message or a reason.\<close>

lemma podFailureReason_iff:
  assumes "om_DeletionTimestamp (pod_Meta p) = None"
  shows "(podFailureReason (Some p) \<noteq> []) =
    ((\<exists>c. c \<in> set (pod_InitContainerStatuses p) \<union> set (pod_ContainerStatuses p)
       \<and> \<not> (cs_Started c = Some True \<and> cs_Ready c)
       \<and> ((\<exists>ws. cst_Waiting (cs_State c) = Some ws
             \<and> ws_Reason ws \<noteq> ''ContainerCreating'' \<and> ws_Reason ws \<noteq> ''PodInitializing'')
          \<or> (cst_Waiting (cs_State c) = None
             \<and> (\<exists>t. cst_Terminated (cs_State c) = Some t \<and> ts_ExitCode t \<noteq> 0))))
     \<or> (\<exists>c. find (\<lambda>c. pc_Type c = DisruptionTarget \<and> pc_Status c = ConditionTrue)
               (pod_Conditions p) = Some c \<and> \<not> (pc_Message c = [] \<and> pc_Reason c = [])))"
    (is "?lhs = (?cont \<or> ?cond)")
proof -
  let ?cs = "pod_InitContainerStatuses p @ pod_ContainerStatuses p"
  have cont: "?cont \<longleftrightarrow> (\<exists>c\<in>set ?cs. container_failure c \<noteq> None)"
    by (simp only: container_failure_iff set_append Bex_def)
  show ?thesis
  proof (cases "first_some container_failure ?cs")
    case None
    then have "\<not> ?cont" using cont by (auto simp: first_some_None)
    with None assms show ?thesis
      by (simp only: podFailureReason_def option.case condition_failures simp_thms if_False)
  next
    case (Some msg)
    then have "msg \<noteq> []" using container_failure_nonempty first_some_SomeD by metis
    moreover have "?cont" using Some cont first_some_SomeD by fastforce
    ultimately show ?thesis using Some assms by (simp add: podFailureReason_def)
  qed
qed

section \<open>Container counts\<close>

text \<open>An init container that is not among the regular containers of the pod, and has not
  completed, keeps the init counts from being complete, whatever its restart policy:
  in particular a sidecar init container that runs and is ready is never counted, since its
  restart policy is looked up among the regular containers.\<close>

lemma init_sidecar_not_counted:
  assumes "c \<in> set (pod_InitContainerStatuses p)" and "\<not> container_completed c"
    and "cs_Name c \<notin> c_Name ` set (ps_Containers (pod_Spec p))"
  shows "\<not> ContainerCounts_Ok (fst (containerCounts (Some p)))"
proof -
  let ?ok = "\<lambda>c. if isContainerSidecar c p then container_running c else container_completed c"
  have "find (\<lambda>x. c_Name x = cs_Name c) (ps_Containers (pod_Spec p)) = None"
    using assms(3) by (metis (mono_tags, lifting) find_None_iff image_eqI)
  then have "\<not> ?ok c" using assms(2) by (simp add: isContainerSidecar_def containerRestartPolicy_def)
  then have "length (filter ?ok (pod_InitContainerStatuses p)) < length (pod_InitContainerStatuses p)"
    using assms(1) by (intro length_filter_less) auto
  then show ?thesis
    using count_ok_bounds [of ?ok no_counts "pod_InitContainerStatuses p"]
    by (simp add: containerCounts_def ContainerCounts_Ok_def no_counts_def)
qed

end
