(* ===== verification/Culling.thy ===== *)
theory Culling
  imports Sample
begin

text \<open>
  When an interactive session is hibernated: \<^verbatim>\<open>src/internal/controller/cull.go\<close>. Four rules
  give a date each, the earliest one decides. \<^verbatim>\<open>time.Now()\<close> is the argument \<open>now\<close>.
\<close>

section \<open>The four rules\<close>

definition hibernationDateByMaxAge :: "time \<Rightarrow> Culling \<Rightarrow> time" where
  "hibernationDateByMaxAge creationTimestamp culling =
     (let maxAge = cul_MaxAge culling in
      if maxAge > 0 then creationTimestamp + maxAge else zero_time)"

definition hibernationDateByStartingDuration ::
  "time \<Rightarrow> AmaltheaSessionStatus \<Rightarrow> Culling \<Rightarrow> time" where
  "hibernationDateByStartingDuration creationTimestamp status culling =
     (let maxStartingDuration = cul_MaxStartingDuration culling;
          starting = (st_State status = NotReady) in
      if maxStartingDuration > 0 \<and> starting then creationTimestamp + maxStartingDuration
      else zero_time)"

definition hibernationDateByFailingSince :: "AmaltheaSessionStatus \<Rightarrow> Culling \<Rightarrow> time" where
  "hibernationDateByFailingSince status culling =
     (let failingSince = st_FailingSince status;
          maxFailedDuration = cul_MaxFailedDuration culling in
      if \<not> IsZero failingSince \<and> maxFailedDuration > 0 then failingSince + maxFailedDuration
      else zero_time)"

definition last_idle_since :: "AmaltheaSessionStatus \<Rightarrow> Culling \<Rightarrow> time" where
  "last_idle_since status culling =
     (let idleSince = st_IdleSince status; lastInteraction = cul_LastInteraction culling in
      if \<not> IsZero lastInteraction \<and> \<not> IsZero idleSince \<and> lastInteraction > idleSince
      then lastInteraction else idleSince)"

definition hibernationDateByIdleSince :: "AmaltheaSessionStatus \<Rightarrow> Culling \<Rightarrow> time" where
  "hibernationDateByIdleSince status culling =
     (let lastIdleSince = last_idle_since status culling;
          maxIdleDuration = cul_MaxIdleDuration culling in
      if \<not> IsZero lastIdleSince \<and> maxIdleDuration > 0 then lastIdleSince + maxIdleDuration
      else zero_time)"

section \<open>The earliest date\<close>

fun earliest_loop :: "time \<Rightarrow> (string \<times> time) list \<Rightarrow> time" where
  "earliest_loop res [] = res"
| "earliest_loop res (h # hds) =
     earliest_loop (if IsZero res \<or> (\<not> IsZero (snd h) \<and> snd h < res) then snd h else res) hds"

definition hibernationDates ::
  "time \<Rightarrow> AmaltheaSessionStatus \<Rightarrow> Culling \<Rightarrow> (string \<times> time) list" where
  "hibernationDates creationTimestamp status culling =
     [(''MaxAge'', hibernationDateByMaxAge creationTimestamp culling),
      (''StartDuration'', hibernationDateByStartingDuration creationTimestamp status culling),
      (''FailingDuration'', hibernationDateByFailingSince status culling),
      (''IdleDuration'', hibernationDateByIdleSince status culling)]"

definition calculateHibernationDate ::
  "time \<Rightarrow> AmaltheaSessionStatus \<Rightarrow> Culling \<Rightarrow> time" where
  "calculateHibernationDate creationTimestamp status culling =
     earliest_loop zero_time (hibernationDates creationTimestamp status culling)"

definition needsScaleDown :: "time \<Rightarrow> time \<Rightarrow> bool" where
  "needsScaleDown now hibernationDate \<longleftrightarrow> \<not> IsZero hibernationDate \<and> hibernationDate < now"

text \<open>The session is changed in place and then written; a failed write returns its error.\<close>

definition updateHibernationState ::
  "'w client \<Rightarrow> time \<Rightarrow> AmaltheaSession \<Rightarrow> 'w \<Rightarrow> 'w \<times> AmaltheaSession \<times> go_error option" where
  "updateHibernationState r now session w =
     (if sp_SessionType (as_Spec session) = SessionTypeNonInteractive then (w, session, None)
      else if \<not> sp_Hibernated (as_Spec session) then
        (let status = as_Status session in
         if st_State status \<noteq> Hibernated \<and> needsScaleDown now (st_WillHibernateAt status) then
           (let session1 = session\<lparr> as_Spec := (as_Spec session)\<lparr> sp_Hibernated := True \<rparr> \<rparr> in
            case cl_Update r session1 w of
              (w', Inl e) \<Rightarrow> (w', session1, Some e)
            | (w', Inr session2) \<Rightarrow> (w', session2, None))
         else (w, session, None))
      else (w, session, None))"

section \<open>The contract of a rule\<close>

text \<open>
  Each rule is a function of the status and the limits; it counts a limit from a starting
  point, and a limit of zero (or less) switches it off.
\<close>

locale deadline_rule =
  fixes rule :: "AmaltheaSessionStatus \<Rightarrow> Culling \<Rightarrow> time"
    and limit :: "Culling \<Rightarrow> duration"
    and start :: "AmaltheaSessionStatus \<Rightarrow> Culling \<Rightarrow> time"
  assumes off: "limit c \<le> 0 \<Longrightarrow> rule s c = 0"
    and date: "rule s c = 0 \<or> rule s c = start s c + limit c"
begin

lemma date_after_start: "rule s c \<noteq> 0 \<Longrightarrow> 0 < limit c \<and> start s c < rule s c"
  using off [of c s] date [of s c] by force

lemma longer_limit_later:
  "rule s c \<noteq> 0 \<Longrightarrow> rule s c' \<noteq> 0 \<Longrightarrow> start s c = start s c' \<Longrightarrow> limit c \<le> limit c'
   \<Longrightarrow> rule s c \<le> rule s c'"
  using date [of s c] date [of s c'] by force

end

interpretation by_age: deadline_rule "\<lambda>s. hibernationDateByMaxAge created" cul_MaxAge
  "\<lambda>s c. created" for created
  by unfold_locales (auto simp: hibernationDateByMaxAge_def Let_def)

interpretation by_starting: deadline_rule "hibernationDateByStartingDuration created"
  cul_MaxStartingDuration "\<lambda>s c. created" for created
  by unfold_locales (auto simp: hibernationDateByStartingDuration_def Let_def)

interpretation by_failing: deadline_rule hibernationDateByFailingSince cul_MaxFailedDuration
  "\<lambda>s c. st_FailingSince s"
  by unfold_locales (auto simp: hibernationDateByFailingSince_def Let_def)

interpretation by_idle: deadline_rule hibernationDateByIdleSince cul_MaxIdleDuration
  last_idle_since
  by unfold_locales (auto simp: hibernationDateByIdleSince_def Let_def)

section \<open>Lemmas\<close>

lemma earliest_loop_in: "earliest_loop res ds \<in> insert res (snd ` set ds)"
  by (induction ds arbitrary: res) auto

lemma earliest_loop_zero_iff: "earliest_loop res ds = 0 \<longleftrightarrow> res = 0 \<and> (\<forall>d \<in> snd ` set ds. d = 0)"
  by (induction ds arbitrary: res) auto

lemma earliest_loop_le:
  "d \<in> insert res (snd ` set ds) \<Longrightarrow> d \<noteq> 0 \<Longrightarrow> earliest_loop res ds \<le> d"
proof (induction ds arbitrary: d res)
  case Nil
  then show ?case by simp
next
  case (Cons p ds)
  let ?r = "if IsZero res \<or> (\<not> IsZero (snd p) \<and> snd p < res) then snd p else res"
  from Cons.prems have "?r \<noteq> 0 \<and> ?r \<le> d \<or> d \<in> snd ` set ds" by (auto split: if_splits)
  then have "earliest_loop ?r ds \<le> d"
    using Cons.IH [of ?r ?r] Cons.IH [of d ?r] Cons.prems(2) by fastforce
  then show ?case by simp
qed

section \<open>Properties\<close>

text \<open>C10: The hibernation date of a session is the earliest of the dates that the four rules
  give, ignoring the rules that give none; it is unset exactly when no rule gives a date.\<close>

theorem calculateHibernationDate_earliest:
  "(let ds = {hibernationDateByMaxAge created c, hibernationDateByStartingDuration created s c,
              hibernationDateByFailingSince s c, hibernationDateByIdleSince s c} - {0}
    in calculateHibernationDate created s c = (if ds = {} then 0 else Min ds))"
proof -
  let ?all = "{hibernationDateByMaxAge created c, hibernationDateByStartingDuration created s c,
     hibernationDateByFailingSince s c, hibernationDateByIdleSince s c}"
  let ?r = "calculateHibernationDate created s c"
  have all: "snd ` set (hibernationDates created s c) = ?all"
    by (simp add: hibernationDates_def)
  have zero: "?r = 0 \<longleftrightarrow> ?all - {0} = {}"
    using earliest_loop_zero_iff [of 0 "hibernationDates created s c"]
    by (auto simp: calculateHibernationDate_def all)
  show ?thesis
  proof (cases "?all - {0} = {}")
    case True
    then show ?thesis using zero by (simp add: Let_def)
  next
    case False
    with zero have nz: "?r \<noteq> 0" by blast
    with earliest_loop_in [of 0 "hibernationDates created s c"] have "?r \<in> ?all - {0}"
      by (auto simp: calculateHibernationDate_def all)
    moreover have "?r \<le> d" if "d \<in> ?all - {0}" for d
      using that earliest_loop_le [of d 0 "hibernationDates created s c"]
      by (auto simp: calculateHibernationDate_def all)
    ultimately have "Min (?all - {0}) = ?r" by (intro Min_eqI) auto
    with False show ?thesis by (simp only: Let_def if_False)
  qed
qed

text \<open>A session that is neither idle nor failing nor starting and has no maximum age has no
  hibernation date, and neither has a session whose four limits are all zero; so a limit of
  zero means, as documented, that the operator does not hibernate for that reason.\<close>

lemma no_limits_no_hibernation:
  assumes "cul_MaxAge c \<le> 0"
    and "cul_MaxStartingDuration c \<le> 0 \<or> st_State s \<noteq> NotReady"
    and "cul_MaxFailedDuration c \<le> 0 \<or> st_FailingSince s = 0"
    and "cul_MaxIdleDuration c \<le> 0 \<or> st_IdleSince s = 0"
  shows "calculateHibernationDate created s c = 0"
proof -
  have "hibernationDateByMaxAge created c = 0" by (rule by_age.off [OF assms(1)])
  moreover have "hibernationDateByStartingDuration created s c = 0"
    using assms(2) by (auto simp: hibernationDateByStartingDuration_def)
  moreover have "hibernationDateByFailingSince s c = 0"
    using assms(3) by (auto simp: hibernationDateByFailingSince_def)
  moreover have "hibernationDateByIdleSince s c = 0"
    using assms(4) by (auto simp: hibernationDateByIdleSince_def last_idle_since_def Let_def)
  ultimately show ?thesis
    by (simp add: calculateHibernationDate_def hibernationDates_def)
qed

text \<open>The idle countdown starts at the later of the idle mark and the user's last
  interaction: a session is not hibernated for idleness before the idle limit has passed
  since both, and only when it is idle.\<close>

lemma idle_countdown_from_last_interaction:
  assumes "hibernationDateByIdleSince s c \<noteq> 0"
  shows "st_IdleSince s \<noteq> 0
    \<and> hibernationDateByIdleSince s c \<ge> st_IdleSince s + cul_MaxIdleDuration c
    \<and> (cul_LastInteraction c \<noteq> 0 \<longrightarrow>
        hibernationDateByIdleSince s c \<ge> cul_LastInteraction c + cul_MaxIdleDuration c)"
  using assms
  by (auto simp: hibernationDateByIdleSince_def last_idle_since_def Let_def split: if_splits)

lemma updateHibernationState_cases:
  "updateHibernationState r now session w =
     (if sp_SessionType (as_Spec session) = SessionTypeInteractive
         \<and> \<not> sp_Hibernated (as_Spec session) \<and> st_State (as_Status session) \<noteq> Hibernated
         \<and> st_WillHibernateAt (as_Status session) \<noteq> 0
         \<and> st_WillHibernateAt (as_Status session) < now
      then (let session1 = session\<lparr> as_Spec := (as_Spec session)\<lparr> sp_Hibernated := True \<rparr> \<rparr>
            in case cl_Update r session1 w of
                 (w', Inl e) \<Rightarrow> (w', session1, Some e)
               | (w', Inr session2) \<Rightarrow> (w', session2, None))
      else (w, session, None))"
  by (cases "sp_SessionType (as_Spec session)")
    (simp_all add: updateHibernationState_def needsScaleDown_def Let_def)

lemma earliest_passed_iff:
  "calculateHibernationDate created s c \<noteq> 0 \<and> calculateHibernationDate created s c < now
   \<longleftrightarrow> (\<exists>d \<in> snd ` set (hibernationDates created s c). d \<noteq> 0 \<and> d < now)"
  (is "?r \<noteq> 0 \<and> ?r < now \<longleftrightarrow> ?passed")
proof
  have "?r \<in> insert 0 (snd ` set (hibernationDates created s c))"
    unfolding calculateHibernationDate_def IsZero_iff by (rule earliest_loop_in)
  then show "?r \<noteq> 0 \<and> ?r < now \<Longrightarrow> ?passed" by blast
next
  assume ?passed
  then obtain d where d: "d \<in> snd ` set (hibernationDates created s c)" "d \<noteq> 0" "d < now" by blast
  then have "?r \<le> d" unfolding calculateHibernationDate_def by (intro earliest_loop_le) simp_all
  moreover have "?r \<noteq> 0"
    unfolding calculateHibernationDate_def earliest_loop_zero_iff using d by blast
  ultimately show "?r \<noteq> 0 \<and> ?r < now" using d(3) by simp
qed

end
