(* ===== verification/Session_Status.thy ===== *)
theory Session_Status
  imports Child_Reconcile Culling
begin

text \<open>
  Computing the status of a session: \<^verbatim>\<open>src/internal/controller/children.go\<close>, lines 507 to
  954, and the idleness check of \<^verbatim>\<open>src/internal/controller/status.go\<close>. All the calls of
  \<^verbatim>\<open>time.Now()\<close> during one computation give the argument \<open>now\<close>.
\<close>

section \<open>The state\<close>

definition IsRunning :: "ChildResourceUpdates \<Rightarrow> Pod option \<Rightarrow> bool" where
  "IsRunning c pod =
     (let stsReady = (case cu_Manifest (cru_StatefulSet c) of
            Some s \<Rightarrow> sts_ReadyReplicas s = 1 \<and> sts_StatusReplicas s = 1
          | None \<Rightarrow> False);
          jobReady = (case cu_Manifest (cru_Job c) of
            Some j \<Rightarrow> jst_Ready (job_Status j) = Some 1 \<or> jst_Active (job_Status j) = 1
          | None \<Rightarrow> False);
          podReady = (pod \<noteq> None \<and> podIsReady pod) in
      (stsReady \<or> jobReady) \<and> podReady)"

definition failureMessage ::
  "ChildResourceUpdates \<Rightarrow> Pod option \<Rightarrow> Job option \<Rightarrow> string" where
  "failureMessage c pod job =
     (case first_some (\<lambda>msg. if msg \<noteq> [] then Some msg else None)
        ([podFailureReason pod, pvcFailureReason (cu_Manifest (cru_PVC c))]
         @ map (\<lambda>u. pvcFailureReason (cu_Manifest u)) (cru_DataSourcesPVCs c)
         @ [serviceFailureReason (cu_Manifest (cru_Service c)),
            ingressFailureReason (cu_Manifest (cru_Ingress c)),
            jobFailureReason job]) of
        Some msg \<Rightarrow> msg
      | None \<Rightarrow> [])"

definition State ::
  "ChildResourceUpdates \<Rightarrow> AmaltheaSession \<Rightarrow> Pod option \<Rightarrow> Job option \<Rightarrow> State \<times> string" where
  "State c cr pod job =
     (let msg = failureMessage c pod job in
      if om_DeletionTimestamp (as_Meta cr) \<noteq> None then (NotReady, [])
      else if sp_Hibernated (as_Spec cr)
        \<and> (case cu_Manifest (cru_StatefulSet c) of
             Some s \<Rightarrow> sss_Replicas (sts_Spec s) = Some 0 | None \<Rightarrow> False)
      then (Hibernated, [])
      else if sp_Hibernated (as_Spec cr)
        \<and> (case cu_Manifest (cru_Job c) of
             Some j \<Rightarrow> js_Suspend (job_Spec j) = Some True | None \<Rightarrow> False)
      then (Hibernated, [])
      else if msg \<noteq> [] then (Failed, msg)
      else if IsRunning c pod then (Running, [])
      else if podIsCompleted pod then (Succeeded, [])
      else if jobIsSuccess job then (Succeeded, [])
      else (NotReady, []))"

section \<open>Scheduling events\<close>

datatype EventsInferedStateResult =
  EisrNone | EisrInitiallyFailed | EisrTemporaryFailed | EisrFinallyFailed | EisrScheduled

definition freshContainerMinimalAge :: duration where
  "freshContainerMinimalAge = 15 * second"

definition maxWaitForClearFailedScheduling :: duration where
  "maxWaitForClearFailedScheduling = 10 * minute"

definition getEventTime :: "Event option \<Rightarrow> time" where
  "getEventTime event =
     (case event of
        None \<Rightarrow> zero_time
      | Some e \<Rightarrow>
          if \<not> IsZero (evt_LastTimestamp e) then evt_LastTimestamp e
          else if \<not> IsZero (evt_EventTime e) then evt_EventTime e
          else if \<not> IsZero (evt_FirstTimestamp e) then evt_FirstTimestamp e
          else zero_time)"

definition last_event :: "string \<Rightarrow> Event list \<Rightarrow> Event option" where
  "last_event reason items = last_some (\<lambda>v. if evt_Reason v = reason then Some v else None) items"

definition EventsInferedState ::
  "golib \<Rightarrow> 'w client \<Rightarrow> time \<Rightarrow> AmaltheaSession \<Rightarrow> 'w
   \<Rightarrow> EventsInferedStateResult \<times> go_error option" where
  "EventsInferedState lib clnt now cr w =
     (case GetPodEvents lib clnt cr w of
        Inl e \<Rightarrow> (EisrNone, Some (Err (err_msg e)))
      | Inr items \<Rightarrow>
          (let since = st_FailedSchedulingSince (as_Status cr);
               waitedTime = (if \<not> IsZero since then time_since now since else 0);
               scheduledEvent = last_event ''Scheduled'' items;
               failedSchedulingEvent = last_event ''FailedScheduling'' items;
               scheduledTime = getEventTime scheduledEvent;
               failedSchedulingTime = getEventTime failedSchedulingEvent in
           if \<not> IsZero scheduledTime \<and> scheduledTime > failedSchedulingTime
           then (EisrScheduled, None)
           else case failedSchedulingEvent of
             Some ev \<Rightarrow>
               if IsZero since then (EisrInitiallyFailed, None)
               else if waitedTime \<ge> maxWaitForClearFailedScheduling
               then (EisrFinallyFailed, Some (Err (''failed scheduling: '' @ evt_Message ev)))
               else (EisrTemporaryFailed, None)
           | None \<Rightarrow> (EisrNone, None)))"

definition checkEventsInferedState ::
  "golib \<Rightarrow> 'w client \<Rightarrow> time \<Rightarrow> AmaltheaSession \<Rightarrow> State \<Rightarrow> 'w
   \<Rightarrow> time \<times> State \<times> go_error option" where
  "checkEventsInferedState lib r now cr currentState w =
     (let failedSchedulingSince = st_FailedSchedulingSince (as_Status cr) in
      if currentState = NotReady then
        (let (res, err) = EventsInferedState lib r now cr w in
         case res of
           EisrFinallyFailed \<Rightarrow> (failedSchedulingSince, Failed, err)
         | EisrInitiallyFailed \<Rightarrow> (now, currentState, err)
         | EisrScheduled \<Rightarrow> (zero_time, currentState, err)
         | _ \<Rightarrow> (failedSchedulingSince, currentState, err))
      else (failedSchedulingSince, currentState, None))"

definition warningMessage :: "Pod option \<Rightarrow> string" where
  "warningMessage pod =
     (case pod of
        None \<Rightarrow> []
      | Some p \<Rightarrow>
          (case first_some (\<lambda>condition.
              if pc_Reason condition = ''Unschedulable''
              then Some (''the session cannot be scheduled due to: '' @ pc_Message condition
                         @ ''. Please contact an administrator.'')
              else None) (pod_Conditions p) of
             Some msg \<Rightarrow> msg
           | None \<Rightarrow> []))"

section \<open>Conditions\<close>

definition ready_condition ::
  "time \<Rightarrow> State \<Rightarrow> AmaltheaSessionCondition \<Rightarrow> AmaltheaSessionCondition" where
  "ready_condition now state condition =
     (let stateIsRunning = (state = Running);
          changed = (\<lambda>st. condition\<lparr> cond_Status := st, cond_LastTransitionTime := now,
             cond_Reason := State_string state,
             cond_Message := ''The session is '' @ ToLower (State_string state) \<rparr>) in
      if stateIsRunning \<and> cond_Status condition = ConditionFalse then changed ConditionTrue
      else if \<not> stateIsRunning \<and> cond_Status condition = ConditionTrue then changed ConditionFalse
      else condition)"

definition routing_condition ::
  "'w client \<Rightarrow> time \<Rightarrow> AmaltheaSession \<Rightarrow> 'w \<Rightarrow> AmaltheaSessionCondition
   \<Rightarrow> AmaltheaSessionCondition" where
  "routing_condition r now cr w condition =
     (let ingressExists = (case cl_GetIngress r (as_Namespace cr) (as_Name cr) w of
            Inr _ \<Rightarrow> True | Inl _ \<Rightarrow> False) in
      if sp_Ingress (as_Spec cr) = None \<and> cond_Status condition = ConditionTrue then
        condition\<lparr> cond_Status := ConditionFalse, cond_LastTransitionTime := now,
          cond_Reason := ''IngressDeleted'',
          cond_Message := ''The ingress information was not specified or was deleted from custom resource '' @ as_Name cr \<rparr>
      else if sp_Ingress (as_Spec cr) \<noteq> None \<and> cond_Status condition = ConditionFalse
              \<and> ingressExists then
        condition\<lparr> cond_Status := ConditionTrue, cond_LastTransitionTime := now,
          cond_Reason := ''IngressOperational'',
          cond_Message := ''The ingress is setup and operational'' \<rparr>
      else condition)"

definition Conditions ::
  "'w client \<Rightarrow> time \<Rightarrow> State \<Rightarrow> AmaltheaSession \<Rightarrow> 'w \<Rightarrow> AmaltheaSessionCondition list" where
  "Conditions r now state cr w =
     (let conditions = st_Conditions (as_Status cr);
          conditions1 = (if length conditions = 0 then NewConditions now else conditions) in
      map (\<lambda>condition. case cond_Type condition of
             AmaltheaSessionReady \<Rightarrow> ready_condition now state condition
           | AmaltheaSessionRoutingReady \<Rightarrow> routing_condition r now cr w condition
           | OtherConditionType _ \<Rightarrow> condition) conditions1)"

section \<open>Callbacks of the children\<close>

fun run_callback ::
  "time \<Rightarrow> status_callback option \<Rightarrow> AmaltheaSessionStatus \<Rightarrow> AmaltheaSessionStatus" where
  "run_callback now None status = status"
| "run_callback now (Some OnResume) status =
     status\<lparr> st_IdleSince := zero_time, st_FailingSince := zero_time,
             st_FailedSchedulingSince := zero_time, st_HibernatedSince := zero_time \<rparr>"
| "run_callback now (Some OnHibernate) status =
     status\<lparr> st_IdleSince := zero_time, st_FailingSince := zero_time,
             st_FailedSchedulingSince := zero_time, st_HibernatedSince := now \<rparr>"

text \<open>The callback of the Job is not among those that are run.\<close>

definition statusCallback ::
  "time \<Rightarrow> ChildResourceUpdates \<Rightarrow> AmaltheaSessionStatus \<Rightarrow> AmaltheaSessionStatus" where
  "statusCallback now c status =
     fold (run_callback now)
       ([cu_statusCallback (cru_Ingress c), cu_statusCallback (cru_Service c),
         cu_statusCallback (cru_Secret c), cu_statusCallback (cru_PVC c)]
        @ map cu_statusCallback (cru_DataSourcesPVCs c)
        @ [cu_statusCallback (cru_StatefulSet c)]) status"

section \<open>Idleness\<close>

datatype IdleDecision = Unknown | Idle | NotIdle

fun IdleDecision_value :: "IdleDecision \<Rightarrow> nat" where
  "IdleDecision_value Unknown = 0"
| "IdleDecision_value Idle = 1"
| "IdleDecision_value NotIdle = 2"

instantiation IdleDecision :: linorder
begin

definition less_eq_IdleDecision :: "IdleDecision \<Rightarrow> IdleDecision \<Rightarrow> bool" where
  "less_eq_IdleDecision a b \<longleftrightarrow> IdleDecision_value a \<le> IdleDecision_value b"

definition less_IdleDecision :: "IdleDecision \<Rightarrow> IdleDecision \<Rightarrow> bool" where
  "less_IdleDecision a b \<longleftrightarrow> IdleDecision_value a < IdleDecision_value b"

instance
proof
  fix x y z :: IdleDecision
  show "(x < y) = (x \<le> y \<and> \<not> y \<le> x)"
    by (auto simp: less_eq_IdleDecision_def less_IdleDecision_def)
  show "x \<le> x" by (simp add: less_eq_IdleDecision_def)
  show "x \<le> y \<Longrightarrow> y \<le> z \<Longrightarrow> x \<le> z" by (simp add: less_eq_IdleDecision_def)
  show "x \<le> y \<Longrightarrow> y \<le> x \<Longrightarrow> x = y"
    by (cases x; cases y) (simp_all add: less_eq_IdleDecision_def)
  show "x \<le> y \<or> y \<le> x" by (auto simp: less_eq_IdleDecision_def)
qed

end

definition metrics :: "'w client \<Rightarrow> AmaltheaSession \<Rightarrow> 'w \<Rightarrow> resource_list result" where
  "metrics clnt cr w =
     (let podName = as_Name cr @ ''-0'' in
      bindE (cl_PodMetricses clnt (as_Namespace cr) podName w) (\<lambda>items.
        case items of
          [] \<Rightarrow> Inl (Err (''pod '' @ podName @ '' not found''))
        | podMetrics # _ \<Rightarrow>
            (case find (\<lambda>(name, _). name = SessionContainerName) podMetrics of
               Some (_, usage) \<Rightarrow> Inr usage
             | None \<Rightarrow> Inl (Err (''could not find the metrics for the session container ''
                                @ SessionContainerName)))))"

text \<open>\<^verbatim>\<open>ResourceList.Cpu()\<close> is zero when the list has no entry for it.\<close>

definition rl_Cpu :: "resource_list \<Rightarrow> quantity" where
  "rl_Cpu m = (case fmlookup m ''cpu'' of Some q \<Rightarrow> q | None \<Rightarrow> zero_quantity)"

definition getIdleState ::
  "golib \<Rightarrow> 'w client \<Rightarrow> time \<Rightarrow> AmaltheaSession \<Rightarrow> 'w \<Rightarrow> time \<times> bool" where
  "getIdleState lib r now cr w =
     (let idleSince = st_IdleSince (as_Status cr);
          cpuUsage = (case metrics r cr w of Inl _ \<Rightarrow> None | Inr m \<Rightarrow> Some (rl_Cpu m));
          threshold = cul_CPUIdleThreshold (sp_Culling (as_Spec cr));
          cpuIdle = (case cpuUsage of
              None \<Rightarrow> Unknown
            | Some q \<Rightarrow> if lib_q_Cmp lib q threshold = -1 then Idle else NotIdle);
          idle = (cpuIdle = Idle) in
      (if idle \<and> IsZero idleSince then now
       else if \<not> idle \<and> \<not> IsZero idleSince then zero_time
       else idleSince, idle))"

section \<open>The status\<close>

definition session_old_enough :: "time \<Rightarrow> Pod \<Rightarrow> bool" where
  "session_old_enough now pod =
     (case find (\<lambda>s. cs_Name s = SessionContainerName) (pod_ContainerStatuses pod) of
        Some s \<Rightarrow>
          (case cst_Running (cs_State s) of
             Some startedAt \<Rightarrow> time_since now startedAt \<ge> freshContainerMinimalAge
           | None \<Rightarrow> False)
      | None \<Rightarrow> False)"

text \<open>The branch of \<^verbatim>\<open>Status\<close> for a session that has a pod: \<open>idleSince\<close> and \<open>idle\<close>.\<close>

definition idle_marks ::
  "golib \<Rightarrow> 'w client \<Rightarrow> time \<Rightarrow> AmaltheaSession \<Rightarrow> State \<Rightarrow> Pod \<Rightarrow> 'w \<Rightarrow> time \<times> bool" where
  "idle_marks lib r now cr state pod w =
     (let (idleSince, idle) =
        (if state = Running \<and> session_old_enough now pod then getIdleState lib r now cr w
         else (st_IdleSince (as_Status cr), False)) in
      if sp_SessionType (as_Spec cr) = SessionTypeNonInteractive then
        (let finished = (state = Succeeded \<or> state = Failed) in
         (if finished \<and> IsZero idleSince then now else idleSince,
          if \<not> idle then finished else idle))
      else (idleSince, idle))"

definition quota_message :: string where
  "quota_message = ''Quota exceeded: Your resource pool does not contain enough free resources (CPU / Memory / GPU / Storage) to schedule the session''"

text \<open>The branch without a pod: a quota event on the StatefulSet makes the session fail.\<close>

definition quota_exceeded :: "'w client \<Rightarrow> AmaltheaSession \<Rightarrow> 'w \<Rightarrow> bool" where
  "quota_exceeded r cr w =
     (case cl_ListEvents r (as_Namespace cr) ''StatefulSet'' (as_Name cr) w of
        Inr events \<Rightarrow> list_ex (\<lambda>event. evt_Reason event = ''FailedCreate''
            \<and> str_Contains (evt_Message event) ''exceeded quota'') events
      | Inl _ \<Rightarrow> False)"

definition since_mark :: "time \<Rightarrow> bool \<Rightarrow> time \<Rightarrow> time" where
  "since_mark now active since =
     (let since1 = (if active \<and> IsZero since then now else since) in
      if \<not> active \<and> \<not> IsZero since1 then zero_time else since1)"

text \<open>The children's pods and jobs as \<^verbatim>\<open>Status\<close> reads them: any error reads as nil.\<close>

definition read_pod :: "'w client \<Rightarrow> AmaltheaSession \<Rightarrow> 'w \<Rightarrow> Pod option" where
  "read_pod r cr w = (case GetPod r cr w of Inl _ \<Rightarrow> None | Inr p \<Rightarrow> p)"

definition read_job :: "'w client \<Rightarrow> AmaltheaSession \<Rightarrow> 'w \<Rightarrow> Job option" where
  "read_job r cr w = (case GetJob r cr w of Inl _ \<Rightarrow> None | Inr j \<Rightarrow> Some j)"

text \<open>
  The decision on the state: what the children say, then what the scheduling events say
  about a session that is not ready, then what the quota events say about a session
  without a pod. The result is the state, the failure message and the scheduling mark.
\<close>

definition decide_state ::
  "golib \<Rightarrow> 'w client \<Rightarrow> time \<Rightarrow> ChildResourceUpdates \<Rightarrow> AmaltheaSession \<Rightarrow> 'w
   \<Rightarrow> State \<times> string \<times> time" where
  "decide_state lib r now c cr w =
     (let pod = read_pod r cr w; job = read_job r cr w;
          (state0, failMsg0) = State c cr pod job;
          (failedSchedulingSince, state1, err) = checkEventsInferedState lib r now cr state0 w;
          failMsg1 = (case err of Some e \<Rightarrow> err_msg e | None \<Rightarrow> failMsg0) in
      if pod = None \<and> quota_exceeded r cr w then (Failed, quota_message, failedSchedulingSince)
      else (state1, failMsg1, failedSchedulingSince))"

text \<open>The status before the callbacks of the children have their say.\<close>

definition derived_status ::
  "golib \<Rightarrow> environ \<Rightarrow> 'w client \<Rightarrow> time \<Rightarrow> ChildResourceUpdates \<Rightarrow> AmaltheaSession \<Rightarrow> 'w
   \<Rightarrow> AmaltheaSessionStatus" where
  "derived_status lib env r now c cr w =
     (let pod = read_pod r cr w;
          (state, failMsg, failedSchedulingSince) = decide_state lib r now c cr w;
          (idleSince, idle) = (case pod of
             Some p \<Rightarrow> idle_marks lib r now cr state p w
           | None \<Rightarrow> (st_IdleSince (as_Status cr), False));
          hibernatedSince = since_mark now (sp_Hibernated (as_Spec cr))
                              (st_HibernatedSince (as_Status cr));
          failingSince = since_mark now (state = Failed) (st_FailingSince (as_Status cr));
          hibernationDate = calculateHibernationDate (om_CreationTimestamp (as_Meta cr))
                              (as_Status cr) (sp_Culling (as_Spec cr));
          warning = warningMessage pod;
          (initCounts, counts) = (case pod of
             Some p \<Rightarrow> containerCounts (Some p) | None \<Rightarrow> (no_counts, no_counts));
          hideReady = (state = Hibernated \<or> om_DeletionTimestamp (as_Meta cr) \<noteq> None) in
          \<lparr> st_Conditions = Conditions r now state cr w,
            st_State = state,
            st_URL = GetURLString (lib_parseAuthority lib) env cr,
            st_ContainerCounts = (if hideReady then counts\<lparr> cc_Ready := 0 \<rparr> else counts),
            st_InitContainerCounts =
              (if hideReady then initCounts\<lparr> cc_Ready := 0 \<rparr> else initCounts),
            st_Idle = idle,
            st_IdleSince = idleSince,
            st_FailingSince = failingSince,
            st_FailedSchedulingSince =
              (if state = Hibernated \<or> state = Running \<or> state = Succeeded then zero_time
               else failedSchedulingSince),
            st_HibernatedSince = hibernatedSince,
            st_WillHibernateAt = hibernationDate,
            st_RunID = st_RunID (as_Status cr),
            st_Error = (if failMsg = [] \<and> warning \<noteq> [] then warning else failMsg) \<rparr>)"

definition Status ::
  "golib \<Rightarrow> environ \<Rightarrow> 'w client \<Rightarrow> time \<Rightarrow> ChildResourceUpdates \<Rightarrow> AmaltheaSession \<Rightarrow> 'w
   \<Rightarrow> AmaltheaSessionStatus" where
  "Status lib env r now c cr w = statusCallback now c (derived_status lib env r now c cr w)"

end
