(* ===== verification/Session_Metrics.thy ===== *)
theory Session_Metrics
  imports Sample
begin

text \<open>
  The Prometheus gauges of the sessions: \<^verbatim>\<open>src/internal/controller/metrics.go\<close>. A gauge
  vector is a finite map from label values to a value. A value is a number or the seconds
  of a duration (\<open>Secs d\<close> is \<^verbatim>\<open>d.Seconds()\<close>), which avoids floating point.
\<close>

datatype gauge_value = Num int | Secs duration

type_synonym session_gauge = "(string \<times> string, gauge_value) fmap"

record gauges =
  amaltheaSessionState :: "(string \<times> string \<times> string, gauge_value) fmap"
  amaltheaSessionIdle :: session_gauge
  amaltheaSessionContainerReady :: session_gauge
  amaltheaSessionContainerTotal :: session_gauge
  amaltheaSessionIdleDuration :: session_gauge
  amaltheaSessionFailingDuration :: session_gauge
  amaltheaSessionHibernatedDuration :: session_gauge
  amaltheaSessionFailedSchedulingDuration :: session_gauge
  amaltheaSessionsTotal :: "(string, gauge_value) fmap"
  amaltheaSessionWillHibernateAt :: session_gauge

definition no_gauges :: gauges where
  "no_gauges = \<lparr> amaltheaSessionState = fmempty, amaltheaSessionIdle = fmempty,
     amaltheaSessionContainerReady = fmempty, amaltheaSessionContainerTotal = fmempty,
     amaltheaSessionIdleDuration = fmempty, amaltheaSessionFailingDuration = fmempty,
     amaltheaSessionHibernatedDuration = fmempty,
     amaltheaSessionFailedSchedulingDuration = fmempty, amaltheaSessionsTotal = fmempty,
     amaltheaSessionWillHibernateAt = fmempty \<rparr>"

text \<open>The states that the loops of the source enumerate.\<close>

definition recorded_states :: "State list" where
  "recorded_states = [NotReady, Running, RunningDegraded, Failed, Hibernated]"

definition since_value :: "time \<Rightarrow> time \<Rightarrow> gauge_value" where
  "since_value now t = (if \<not> IsZero t then Secs (time_since now t) else Num 0)"

text \<open>\<^verbatim>\<open>Time.Unix()\<close>: seconds since 1970; the zero time is 62135596800 seconds before.\<close>

definition time_Unix :: "time \<Rightarrow> int" where
  "time_Unix t = t div second - 62135596800"

definition RecordAmaltheaSessionMetrics ::
  "time \<Rightarrow> AmaltheaSession \<Rightarrow> gauges \<Rightarrow> gauges" where
  "RecordAmaltheaSessionMetrics now session g =
     (let ns = as_Namespace session; name = as_Name session; status = as_Status session;
          key = (ns, name) in
      g\<lparr> amaltheaSessionState := fold (\<lambda>state m.
            fmupd (ns, name, State_string state) (Num (if st_State status = state then 1 else 0)) m)
            recorded_states (amaltheaSessionState g),
         amaltheaSessionIdle :=
           fmupd key (Num (if st_Idle status then 1 else 0)) (amaltheaSessionIdle g),
         amaltheaSessionContainerReady := fmupd key
           (Num (cc_Ready (st_ContainerCounts status))) (amaltheaSessionContainerReady g),
         amaltheaSessionContainerTotal := fmupd key
           (Num (cc_Total (st_ContainerCounts status))) (amaltheaSessionContainerTotal g),
         amaltheaSessionIdleDuration := fmupd key
           (since_value now (st_IdleSince status)) (amaltheaSessionIdleDuration g),
         amaltheaSessionFailingDuration := fmupd key
           (since_value now (st_FailingSince status)) (amaltheaSessionFailingDuration g),
         amaltheaSessionHibernatedDuration := fmupd key
           (since_value now (st_HibernatedSince status)) (amaltheaSessionHibernatedDuration g),
         amaltheaSessionFailedSchedulingDuration := fmupd key
           (since_value now (st_FailedSchedulingSince status))
           (amaltheaSessionFailedSchedulingDuration g),
         amaltheaSessionWillHibernateAt := fmupd key
           (Num (if \<not> IsZero (st_WillHibernateAt status)
                 then time_Unix (st_WillHibernateAt status) else 0))
           (amaltheaSessionWillHibernateAt g) \<rparr>)"

definition RemoveAmaltheaSessionMetrics :: "AmaltheaSession \<Rightarrow> gauges \<Rightarrow> gauges" where
  "RemoveAmaltheaSessionMetrics session g =
     (let ns = as_Namespace session; name = as_Name session; key = (ns, name) in
      g\<lparr> amaltheaSessionState :=
           fmfilter (\<lambda>(n, m, _). \<not> (n = ns \<and> m = name)) (amaltheaSessionState g),
         amaltheaSessionIdle := fmdrop key (amaltheaSessionIdle g),
         amaltheaSessionContainerReady := fmdrop key (amaltheaSessionContainerReady g),
         amaltheaSessionContainerTotal := fmdrop key (amaltheaSessionContainerTotal g),
         amaltheaSessionIdleDuration := fmdrop key (amaltheaSessionIdleDuration g),
         amaltheaSessionFailingDuration := fmdrop key (amaltheaSessionFailingDuration g),
         amaltheaSessionHibernatedDuration := fmdrop key (amaltheaSessionHibernatedDuration g),
         amaltheaSessionFailedSchedulingDuration :=
           fmdrop key (amaltheaSessionFailedSchedulingDuration g),
         amaltheaSessionWillHibernateAt := fmdrop key (amaltheaSessionWillHibernateAt g) \<rparr>)"

text \<open>A state missing from the Go map reads as zero.\<close>

definition UpdateSessionStateCounter :: "(State, int) fmap \<Rightarrow> gauges \<Rightarrow> gauges" where
  "UpdateSessionStateCounter sessionsByState g =
     g\<lparr> amaltheaSessionsTotal := fold (\<lambda>state m.
           fmupd (State_string state)
             (Num (case fmlookup sessionsByState state of Some n \<Rightarrow> n | None \<Rightarrow> 0)) m)
           recorded_states (amaltheaSessionsTotal g) \<rparr>"

section \<open>Properties\<close>

text \<open>The series of one session, and what is left without them.\<close>

definition has_no_series :: "string \<Rightarrow> string \<Rightarrow> gauges \<Rightarrow> bool" where
  "has_no_series ns name g \<longleftrightarrow>
     (\<forall>s. fmlookup (amaltheaSessionState g) (ns, name, s) = None)
     \<and> (\<forall>sel \<in> {amaltheaSessionIdle, amaltheaSessionContainerReady, amaltheaSessionContainerTotal,
          amaltheaSessionIdleDuration, amaltheaSessionFailingDuration,
          amaltheaSessionHibernatedDuration, amaltheaSessionFailedSchedulingDuration,
          amaltheaSessionWillHibernateAt}. fmlookup (sel g) (ns, name) = None)"

lemma fmdrop_upd_absent: "fmlookup m k = None \<Longrightarrow> fmdrop k (fmupd k v m) = m"
  by (rule fmap_ext) auto

lemma fold_upd_other:
  "\<not> (n = ns \<and> m = name) \<Longrightarrow>
   fmlookup (fold (\<lambda>s. fmupd (ns, name, f s) (v s)) xs M) (n, m, t) = fmlookup M (n, m, t)"
  by (induction xs arbitrary: M) auto

lemma recorded_state_lookup:
  "fmlookup (amaltheaSessionState (RecordAmaltheaSessionMetrics now session g))
     (as_Namespace session, as_Name session, State_string s) =
     (if s \<in> set recorded_states then Some (Num (if st_State (as_Status session) = s then 1 else 0))
      else fmlookup (amaltheaSessionState g) (as_Namespace session, as_Name session, State_string s))"
  by (cases s) (auto simp: RecordAmaltheaSessionMetrics_def Let_def recorded_states_def)

text \<open>After recording a session, each of the five recorded states has a gauge for the session,
  which is one for the session's state and zero for the others; so exactly one is set,
  unless the session has succeeded, when none is. The idle gauge and the container gauges
  show the status.\<close>

lemma recorded_gauges:
  "(let g' = RecordAmaltheaSessionMetrics now session g; status = as_Status session;
        key = (as_Namespace session, as_Name session) in
    filter (\<lambda>s. fmlookup (amaltheaSessionState g')
        (as_Namespace session, as_Name session, State_string s) = Some (Num 1)) recorded_states
      = (if st_State status = Succeeded then [] else [st_State status])
    \<and> fmlookup (amaltheaSessionIdle g') key = Some (Num (if st_Idle status then 1 else 0))
    \<and> fmlookup (amaltheaSessionContainerReady g') key
        = Some (Num (cc_Ready (st_ContainerCounts status)))
    \<and> fmlookup (amaltheaSessionContainerTotal g') key
        = Some (Num (cc_Total (st_ContainerCounts status))))"
proof -
  have "filter (\<lambda>s. fmlookup (amaltheaSessionState (RecordAmaltheaSessionMetrics now session g))
          (as_Namespace session, as_Name session, State_string s) = Some (Num 1)) recorded_states
      = filter (\<lambda>s. st_State (as_Status session) = s) recorded_states"
    by (rule filter_cong [OF refl]) (simp add: recorded_state_lookup)
  also have "\<dots> = (if st_State (as_Status session) = Succeeded then [] else [st_State (as_Status session)])"
    by (cases "st_State (as_Status session)") (simp_all add: recorded_states_def)
  finally show ?thesis
    by (simp add: Let_def) (simp add: RecordAmaltheaSessionMetrics_def Let_def)
qed

text \<open>Removing the metrics of a session undoes recording them: no series of the session is
  left, and starting from gauges without series of the session everything else is as
  before, so the series of other sessions are never touched.\<close>

lemma remove_undoes_record:
  assumes "has_no_series (as_Namespace session) (as_Name session) g"
  shows "RemoveAmaltheaSessionMetrics session (RecordAmaltheaSessionMetrics now session g) = g"
proof -
  let ?ns = "as_Namespace session" and ?n = "as_Name session"
  have "fmlookup (amaltheaSessionState (RemoveAmaltheaSessionMetrics session
      (RecordAmaltheaSessionMetrics now session g))) k = fmlookup (amaltheaSessionState g) k" for k
  proof (cases k)
    case (fields n m t)
    show ?thesis
    proof (cases "n = ?ns \<and> m = ?n")
      case True
      with assms fields show ?thesis
        by (simp add: has_no_series_def RemoveAmaltheaSessionMetrics_def Let_def)
    next
      case False
      with fields show ?thesis
        by (simp add: RemoveAmaltheaSessionMetrics_def RecordAmaltheaSessionMetrics_def Let_def
            fold_upd_other)
    qed
  qed
  then have "amaltheaSessionState (RemoveAmaltheaSessionMetrics session
      (RecordAmaltheaSessionMetrics now session g)) = amaltheaSessionState g"
    by (rule fmap_ext)
  then show ?thesis
    using assms
    by (intro gauges.equality)
      (simp_all add: RemoveAmaltheaSessionMetrics_def RecordAmaltheaSessionMetrics_def Let_def
        has_no_series_def fmdrop_upd_absent)
qed

end
