(* ===== verification/Reconciler.thy ===== *)
theory Reconciler
  imports Session_Status Session_Metrics
begin

text \<open>
  One pass of the reconciler: \<^verbatim>\<open>src/internal/controller/amaltheasession_controller.go\<close>. The
  cluster state and the gauges are threaded through the calls. A write returns the object
  as the API server stores it, which replaces the local one, as the client does. The
  tracing and the re-raised panic of \<^verbatim>\<open>Reconcile\<close> around \<^verbatim>\<open>reconcileInner\<close> are left out.
\<close>

section \<open>Types and helpers\<close>

record Result =
  res_Requeue :: bool
  res_RequeueAfter :: duration

definition no_result :: Result where
  "no_result = \<lparr> res_Requeue = False, res_RequeueAfter = 0 \<rparr>"

type_synonym request = "string \<times> string"

definition secretCleanupFinalizerName :: string where
  "secretCleanupFinalizerName = ''amalthea.dev/secrets-finalizer''"

text \<open>\<^verbatim>\<open>controllerutil\<close>'s operations on the list of finalizers of an object.\<close>

definition ContainsFinalizer :: "AmaltheaSession \<Rightarrow> string \<Rightarrow> bool" where
  "ContainsFinalizer s f \<longleftrightarrow> f \<in> set (om_Finalizers (as_Meta s))"

definition AddFinalizer :: "AmaltheaSession \<Rightarrow> string \<Rightarrow> AmaltheaSession" where
  "AddFinalizer s f =
     (if ContainsFinalizer s f then s
      else s\<lparr> as_Meta := (as_Meta s)\<lparr> om_Finalizers := om_Finalizers (as_Meta s) @ [f] \<rparr> \<rparr>)"

definition RemoveFinalizer :: "AmaltheaSession \<Rightarrow> string \<Rightarrow> AmaltheaSession" where
  "RemoveFinalizer s f =
     s\<lparr> as_Meta := (as_Meta s)\<lparr> om_Finalizers := filter (\<lambda>x. x \<noteq> f) (om_Finalizers (as_Meta s)) \<rparr> \<rparr>"

section \<open>Deleting the adopted secrets\<close>

text \<open>Every secret is tried; the errors other than "not found" are joined.\<close>

fun deleteSecrets_loop ::
  "'w client \<Rightarrow> SecretObject list \<Rightarrow> string list \<Rightarrow> 'w \<Rightarrow> 'w \<times> string list" where
  "deleteSecrets_loop r [] error_list w = (w, error_list)"
| "deleteSecrets_loop r (item # items) error_list w =
     (case cl_DeleteSecret r item w of
        (w', Some err) \<Rightarrow>
          if \<not> IsNotFound err then deleteSecrets_loop r items (error_list @ [err_msg err]) w'
          else deleteSecrets_loop r items error_list w'
      | (w', None) \<Rightarrow> deleteSecrets_loop r items error_list w')"

definition deleteSecrets ::
  "'w client \<Rightarrow> AmaltheaSession \<Rightarrow> 'w \<Rightarrow> 'w \<times> go_error option" where
  "deleteSecrets r cr w =
     (let adoptedSecrets = AdoptedSecrets cr in
      if length adoptedSecrets = 0 then (w, None)
      else (let (w', error_list) = deleteSecrets_loop r adoptedSecrets [] w in
            (w', if error_list = [] then None else Some (Err (str_Join error_list [CHR 0x0A])))))"

section \<open>Writing the status\<close>

text \<open>
  A status write that fails is retried once on a fresh copy of the session, changed by
  \<open>again\<close>.
\<close>

definition write_status ::
  "'w client \<Rightarrow> request \<Rightarrow> (AmaltheaSession \<Rightarrow> AmaltheaSession) \<Rightarrow> AmaltheaSession \<Rightarrow> 'w
   \<Rightarrow> 'w \<times> AmaltheaSession result" where
  "write_status r req again session w =
     (case cl_StatusUpdate r session w of
        (w1, Inr s1) \<Rightarrow> (w1, Inr s1)
      | (w1, Inl _) \<Rightarrow>
          (case cl_GetSession r (fst req) (snd req) w1 of
             Inl e \<Rightarrow> (w1, Inl e)
           | Inr fresh \<Rightarrow> cl_StatusUpdate r (again fresh) w1))"

section \<open>The stages of a pass\<close>

text \<open>A session that is not being deleted: its first status and the finalizer.\<close>

definition prepare_session ::
  "golib \<Rightarrow> environ \<Rightarrow> 'w client \<Rightarrow> time \<Rightarrow> request \<Rightarrow> AmaltheaSession \<Rightarrow> 'w \<times> gauges
   \<Rightarrow> ('w \<times> gauges) \<times> AmaltheaSession result" where
  "prepare_session lib env r now req session wg =
     (let (w, g) = wg;
          (w1, g1, s1) =
            (if as_Status session = initial_status then
               (let rendered = session\<lparr> as_Status := (as_Status session)\<lparr>
                      st_URL := GetURLString (lib_parseAuthority lib) env session \<rparr> \<rparr> in
                case write_status r req (\<lambda>s. s) rendered w of
                  (w', Inl e) \<Rightarrow> (w', g, Inl e)
                | (w', Inr s) \<Rightarrow> (w', RecordAmaltheaSessionMetrics now s g, Inr s))
             else (w, g, Inr session)) in
      case s1 of
        Inl e \<Rightarrow> ((w1, g1), Inl e)
      | Inr s \<Rightarrow>
          if length (AdoptedSecrets s) > 0 \<and> \<not> ContainsFinalizer s secretCleanupFinalizerName then
            (let (w2, s2) = cl_Update r (AddFinalizer s secretCleanupFinalizerName) w1 in
             ((w2, g1), s2))
          else ((w1, g1), Inr s))"

text \<open>A session that is being deleted.\<close>

definition set_not_ready :: "AmaltheaSession \<Rightarrow> AmaltheaSession" where
  "set_not_ready s = s\<lparr> as_Status := (as_Status s)\<lparr> st_State := NotReady \<rparr> \<rparr>"

definition finalize_session ::
  "'w client \<Rightarrow> request \<Rightarrow> AmaltheaSession \<Rightarrow> 'w \<Rightarrow> 'w \<times> Result \<times> go_error option" where
  "finalize_session r req session w =
     (case write_status r req set_not_ready (set_not_ready session) w of
        (w1, Inl e) \<Rightarrow> (w1, no_result, Some e)
      | (w1, Inr s) \<Rightarrow>
          if ContainsFinalizer s secretCleanupFinalizerName then
            (case deleteSecrets r s w1 of
               (w2, Some e) \<Rightarrow> (w2, no_result, Some e)
             | (w2, None) \<Rightarrow>
                 (case cl_Update r (RemoveFinalizer s secretCleanupFinalizerName) w2 of
                    (w3, Inl e) \<Rightarrow> (w3, no_result, Some e)
                  | (w3, Inr _) \<Rightarrow> (w3, no_result\<lparr> res_Requeue := True \<rparr>, None)))
          else (w1, no_result\<lparr> res_Requeue := True \<rparr>, None))"

definition next_run_id :: "randomness \<Rightarrow> AmaltheaSession \<Rightarrow> string" where
  "next_run_id rnd session =
     (let runID = st_RunID (as_Status session) in
      if sp_Hibernated (as_Spec session) then []
      else if runID = [] then rnd_ulid rnd
      else runID)"

definition with_run_id :: "randomness \<Rightarrow> AmaltheaSession \<Rightarrow> AmaltheaSession" where
  "with_run_id rnd session =
     session\<lparr> as_Status := (as_Status session)\<lparr> st_RunID := next_run_id rnd session \<rparr> \<rparr>"

text \<open>
  \<^verbatim>\<open>Conditions\<close> writes into the array that the session's old status shares, so the old status
  has the new conditions when it is compared with the new one, unless it had none.
\<close>

definition status_changed :: "AmaltheaSessionStatus \<Rightarrow> AmaltheaSessionStatus \<Rightarrow> bool" where
  "status_changed old new \<longleftrightarrow>
     (if st_Conditions old = [] then old else old\<lparr> st_Conditions := st_Conditions new \<rparr>) \<noteq> new"

definition merge_status :: "AmaltheaSessionStatus \<Rightarrow> AmaltheaSession \<Rightarrow> AmaltheaSession" where
  "merge_status newStatus fresh =
     fresh\<lparr> as_Status :=
       (if st_RunID newStatus \<noteq> [] \<and> st_RunID (as_Status fresh) \<noteq> []
        then newStatus\<lparr> st_RunID := st_RunID (as_Status fresh) \<rparr> else newStatus) \<rparr>"

text \<open>After the status is written: metrics, deletion, hibernation, and the next pass.\<close>

definition finish_pass ::
  "'w client \<Rightarrow> time \<Rightarrow> bool \<Rightarrow> AmaltheaSession \<Rightarrow> 'w \<times> gauges
   \<Rightarrow> ('w \<times> gauges) \<times> Result \<times> go_error option" where
  "finish_pass r now statusChanged session wg =
     (let (w, g) = wg; g1 = RecordAmaltheaSessionMetrics now session g in
      if NeedsDeletion now session then
        (let g2 = RemoveAmaltheaSessionMetrics session g1; (w1, err) = cl_Delete r session w in
         ((w1, g2), no_result, err))
      else
        (let (w1, _, err) = updateHibernationState r now session w in
         case err of
           Some e \<Rightarrow> ((w1, g1), no_result, Some e)
         | None \<Rightarrow>
             if statusChanged then ((w1, g1), no_result\<lparr> res_Requeue := True \<rparr>, None)
             else ((w1, g1), no_result\<lparr> res_RequeueAfter := 10 * second \<rparr>, None)))"

definition reconcile_children ::
  "golib \<Rightarrow> environ \<Rightarrow> 'w client \<Rightarrow> AmaltheaSessionConfiguration \<Rightarrow> time \<Rightarrow> randomness \<Rightarrow> request
   \<Rightarrow> AmaltheaSession \<Rightarrow> 'w \<times> gauges \<Rightarrow> ('w \<times> gauges) \<times> Result \<times> go_error option" where
  "reconcile_children lib env r cfg now rnd req session0 wg =
     (let (w, g) = wg; session = with_run_id rnd session0 in
      case NewChildResources lib env rnd session cfg of
        Inl e \<Rightarrow> ((w, g), no_result, Some e)
      | Inr children \<Rightarrow>
          (case ChildResources_Reconcile lib r session children w of
             (w1, _, Some e) \<Rightarrow> ((w1, g), no_result, Some e)
           | (w1, updates, None) \<Rightarrow>
               (let newStatus = Status lib env r now updates session w1;
                    statusChanged = status_changed (as_Status session) newStatus in
                case write_status r req (merge_status newStatus)
                       (session\<lparr> as_Status := newStatus \<rparr>) w1 of
                  (w2, Inl e) \<Rightarrow> ((w2, g), no_result, Some e)
                | (w2, Inr s2) \<Rightarrow> finish_pass r now statusChanged s2 (w2, g))))"

definition reconcileInner ::
  "golib \<Rightarrow> environ \<Rightarrow> 'w client \<Rightarrow> AmaltheaSessionConfiguration \<Rightarrow> time \<Rightarrow> randomness \<Rightarrow> request
   \<Rightarrow> 'w \<times> gauges \<Rightarrow> ('w \<times> gauges) \<times> Result \<times> go_error option" where
  "reconcileInner lib env r cfg now rnd req wg =
     (case cl_GetSession r (fst req) (snd req) (fst wg) of
        Inl e \<Rightarrow> if IsNotFound e then (wg, no_result, None) else (wg, no_result, Some e)
      | Inr session \<Rightarrow>
          if om_DeletionTimestamp (as_Meta session) = None then
            (case prepare_session lib env r now req session wg of
               (wg1, Inl e) \<Rightarrow> (wg1, no_result, Some e)
             | (wg1, Inr s1) \<Rightarrow> reconcile_children lib env r cfg now rnd req s1 wg1)
          else
            (let (w1, res, err) = finalize_session r req session (fst wg) in
             ((w1, snd wg), res, err)))"

text \<open>
  The pass as the manager runs it, with what is reported of it: the status of the transaction, whether
  and when the session is due again, and the errors and panics that are captured. A panic goes on
  before the results are set.
\<close>

record transaction =
  tx_OK :: "bool option"
  tx_requeue :: bool
  tx_requeue_after :: "duration option"
  tx_captured :: "go_error list"

definition transaction_of :: "Result \<Rightarrow> go_error option \<Rightarrow> transaction" where
  "transaction_of res err =
     (case err of
        Some (Panicked m) \<Rightarrow> \<lparr> tx_OK = None, tx_requeue = False, tx_requeue_after = None, tx_captured = [Panicked m] \<rparr>
      | _ \<Rightarrow> \<lparr> tx_OK = Some (err = None),
              tx_requeue = (res_Requeue res \<or> res_RequeueAfter res > 0),
              tx_requeue_after = (if res_RequeueAfter res \<noteq> 0 then Some (res_RequeueAfter res) else None),
              tx_captured = (case err of None \<Rightarrow> [] | Some e \<Rightarrow> [e]) \<rparr>)"

definition Reconcile ::
  "golib \<Rightarrow> environ \<Rightarrow> 'w client \<Rightarrow> AmaltheaSessionConfiguration \<Rightarrow> time \<Rightarrow> randomness \<Rightarrow> request
   \<Rightarrow> 'w \<times> gauges \<Rightarrow> (('w \<times> gauges) \<times> Result \<times> go_error option) \<times> transaction" where
  "Reconcile lib env r cfg now rnd req wg =
     (let (wg', res, err) = reconcileInner lib env r cfg now rnd req wg in
      ((wg', res, err), transaction_of res err))"

end
