(* ===== verification/Status_Props.thy ===== *)
theory Status_Props
  imports Session_Status
begin

text \<open>
  What holds of the status: when each state is reported, what the scheduling events mean,
  and that the marks, counts and conditions of a status agree with its state.
\<close>

section \<open>The state\<close>

lemma failureMessage_eq_Nil:
  "failureMessage c pod job = [] \<longleftrightarrow>
     podFailureReason pod = [] \<and> pvcFailureReason (cu_Manifest (cru_PVC c)) = []
     \<and> (\<forall>u \<in> set (cru_DataSourcesPVCs c). pvcFailureReason (cu_Manifest u) = [])
     \<and> serviceFailureReason (cu_Manifest (cru_Service c)) = []
     \<and> ingressFailureReason (cu_Manifest (cru_Ingress c)) = [] \<and> jobFailureReason job = []"
proof -
  have "(case first_some (\<lambda>msg. if msg \<noteq> [] then Some msg else None) xs of
          Some msg \<Rightarrow> msg | None \<Rightarrow> []) = [] \<longleftrightarrow> (\<forall>x \<in> set xs. x = [])" for xs :: "string list"
    by (induction xs) auto
  then show ?thesis by (auto simp: failureMessage_def)
qed

lemma IsRunning_pod: "IsRunning c pod \<Longrightarrow> podIsReady pod"
  by (simp add: IsRunning_def Let_def)

text \<open>C22: A session is reported as running only when it is not being deleted, no child reports a
  failure, its pod exists, is not being deleted, is in phase Running or Succeeded and has
  the condition Ready, and its StatefulSet or Job counts a ready replica; and when the
  specification asks for hibernation, only as long as the workload is not scaled down yet.\<close>

theorem State_Running_sound:
  assumes "State c cr pod job = (Running, msg)"
  shows "om_DeletionTimestamp (as_Meta cr) = None \<and> msg = [] \<and> failureMessage c pod job = []
    \<and> (\<exists>p. pod = Some p \<and> om_DeletionTimestamp (pod_Meta p) = None
         \<and> pod_Phase p \<in> {PodRunning, PodSucceeded}
         \<and> list_ex (\<lambda>c. pc_Type c = PodReady \<and> pc_Status c = ConditionTrue) (pod_Conditions p))
    \<and> ((\<exists>s. cu_Manifest (cru_StatefulSet c) = Some s \<and> sts_ReadyReplicas s = 1
           \<and> \<not> (sp_Hibernated (as_Spec cr) \<and> sss_Replicas (sts_Spec s) = Some 0))
       \<or> (\<exists>j. cu_Manifest (cru_Job c) = Some j
           \<and> (jst_Ready (job_Status j) = Some 1 \<or> jst_Active (job_Status j) = 1)
           \<and> \<not> (sp_Hibernated (as_Spec cr) \<and> js_Suspend (job_Spec j) = Some True)))"
proof -
  have "IsRunning c pod" using assms by (auto simp: State_def Let_def split: if_splits)
  then have "podIsReady pod" "(\<exists>s. cu_Manifest (cru_StatefulSet c) = Some s \<and> sts_ReadyReplicas s = 1)
      \<or> (\<exists>j. cu_Manifest (cru_Job c) = Some j
           \<and> (jst_Ready (job_Status j) = Some 1 \<or> jst_Active (job_Status j) = 1))"
    by (auto simp: IsRunning_def Let_def split: option.splits)
  with assms show ?thesis
    by (auto simp: State_def Let_def podIsReady_def split: if_splits option.splits)
qed

definition sample_pod :: Pod where
  "sample_pod = \<lparr> pod_Meta = empty_meta\<lparr> om_Name := ''alice-0'' \<rparr>,
     pod_Spec = pt_Spec empty_pod_template, pod_Phase = PodRunning,
     pod_Conditions = [\<lparr> pc_Type = PodReady, pc_Status = ConditionTrue, pc_Reason = [],
       pc_Message = [] \<rparr>],
     pod_InitContainerStatuses = [],
     pod_ContainerStatuses = [\<lparr> cs_Name = SessionContainerName, cs_Ready = True,
       cs_Started = Some True,
       cs_State = \<lparr> cst_Waiting = None, cst_Running = Some 1, cst_Terminated = None \<rparr> \<rparr>] \<rparr>"

definition no_updates :: ChildResourceUpdates where
  "no_updates = \<lparr> cru_Ingress = no_update, cru_Service = no_update, cru_StatefulSet = no_update,
     cru_PVC = no_update, cru_DataSourcesPVCs = [], cru_Secret = no_update, cru_Job = no_update \<rparr>"

definition sample_updates :: ChildResourceUpdates where
  "sample_updates = no_updates\<lparr> cru_StatefulSet := no_update\<lparr> cu_Manifest :=
     Some ((empty_statefulset empty_meta)\<lparr> sts_ReadyReplicas := 1, sts_StatusReplicas := 1 \<rparr>) \<rparr> \<rparr>"

lemma sample_updates_quiet: "failureMessage sample_updates (Some sample_pod) None = []"
  by (simp add: failureMessage_eq_Nil sample_updates_def no_updates_def no_update_def
      pvc_check.absent service_check.absent ingress_check.absent jobFailureReason_def
      podFailureReason_def sample_pod_def container_failure_def condition_failure_def)

theorem State_Running_sound_witness:
  "State sample_updates sample_session (Some sample_pod) None = (Running, [])
   \<and> om_DeletionTimestamp (pod_Meta sample_pod) = None"
proof -
  have "IsRunning sample_updates (Some sample_pod)"
    by (simp add: IsRunning_def podIsReady_def sample_pod_def sample_updates_def no_updates_def
        no_update_def)
  moreover have "om_DeletionTimestamp (as_Meta sample_session) = None"
    "\<not> sp_Hibernated (as_Spec sample_session)"
    by (simp_all add: sample_session_def sample_spec_def)
  ultimately have "State sample_updates sample_session (Some sample_pod) None = (Running, [])"
    by (simp add: State_def Let_def sample_updates_quiet)
  with State_Running_sound [OF this] show ?thesis by simp
qed

lemma State_message_iff_failed:
  "(snd (State c cr pod job) \<noteq> []) = (fst (State c cr pod job) = Failed)"
  by (auto simp: State_def Let_def)

section \<open>Scheduling events\<close>

text \<open>A session fails for scheduling exactly when its last FailedScheduling event is not older
  than its last Scheduled event, the failure was noted before, and ten minutes have passed
  since then.\<close>

lemma EventsInferedState_finally:
  "(fst (EventsInferedState lib clnt now cr w) = EisrFinallyFailed) =
    (\<exists>items ev. GetPodEvents lib clnt cr w = Inr items
       \<and> last_event ''FailedScheduling'' items = Some ev
       \<and> (getEventTime (last_event ''Scheduled'' items) = 0
          \<or> getEventTime (last_event ''Scheduled'' items) \<le> getEventTime (Some ev))
       \<and> st_FailedSchedulingSince (as_Status cr) \<noteq> 0
       \<and> now \<ge> st_FailedSchedulingSince (as_Status cr) + 600 * second)"
proof -
  have "time_since now t \<ge> maxWaitForClearFailedScheduling \<longleftrightarrow> now \<ge> t + 600 * second" for t
    unfolding maxWaitForClearFailedScheduling_def
    using time_since_ge_iff [of "10 * minute" now t]
    by (simp add: minute_def second_def min_duration_def max_duration_def)
  then show ?thesis
    by (auto simp: EventsInferedState_def Let_def split: sum.splits option.splits)
qed

lemma last_event_in: "last_event reason items = Some e \<Longrightarrow> e \<in> set items \<and> evt_Reason e = reason"
  unfolding last_event_def by (auto dest: last_some_SomeD split: if_splits)

section \<open>Conditions\<close>

text \<open>A condition of the session changes its transition time only when its status changes, and
  then to the present; for the condition Ready the status becomes True when the state is
  Running and False otherwise, provided it was one of these before.\<close>

lemma condition_transitions:
  assumes "cond_Status k = ConditionTrue \<or> cond_Status k = ConditionFalse"
  shows "(cond_Status (ready_condition now state k) = ConditionTrue) = (state = Running)
    \<and> (cond_Status (ready_condition now state k) = cond_Status k
        \<and> ready_condition now state k = k
       \<or> cond_Status (ready_condition now state k) \<noteq> cond_Status k
        \<and> cond_LastTransitionTime (ready_condition now state k) = now)
    \<and> (cond_Status (routing_condition r now cr w k) = cond_Status k
        \<and> routing_condition r now cr w k = k
       \<or> cond_Status (routing_condition r now cr w k) \<noteq> cond_Status k
        \<and> cond_LastTransitionTime (routing_condition r now cr w k) = now)"
  using assms by (auto simp: ready_condition_def routing_condition_def Let_def)

lemma Conditions_Ready:
  assumes "\<forall>k \<in> set (st_Conditions (as_Status cr)).
      cond_Status k = ConditionTrue \<or> cond_Status k = ConditionFalse"
    and "k \<in> set (Conditions r now state cr w)"
  shows "cond_Status k = ConditionTrue \<or> cond_Status k = ConditionFalse"
    and "cond_Type k = AmaltheaSessionReady \<Longrightarrow> (cond_Status k = ConditionTrue) = (state = Running)"
proof -
  let ?cs = "if length (st_Conditions (as_Status cr)) = 0 then NewConditions now
             else st_Conditions (as_Status cr)"
  have tf: "\<forall>k \<in> set ?cs. cond_Status k = ConditionTrue \<or> cond_Status k = ConditionFalse"
    using assms(1) by (auto simp: NewConditions_def)
  have rt: "cond_Type (ready_condition now state k) = cond_Type k"
    "cond_Type (routing_condition r now cr w k) = cond_Type k" for k
    by (simp_all add: ready_condition_def routing_condition_def Let_def)
  obtain j where j: "j \<in> set ?cs" and k: "k = (case cond_Type j of
       AmaltheaSessionReady \<Rightarrow> ready_condition now state j
     | AmaltheaSessionRoutingReady \<Rightarrow> routing_condition r now cr w j
     | OtherConditionType _ \<Rightarrow> j)"
    using assms(2) unfolding Conditions_def Let_def by auto
  from tf j have js: "cond_Status j = ConditionTrue \<or> cond_Status j = ConditionFalse" by blast
  then show "cond_Status k = ConditionTrue \<or> cond_Status k = ConditionFalse"
    by (cases "cond_Type j") (auto simp: k ready_condition_def routing_condition_def Let_def)
  show "cond_Type k = AmaltheaSessionReady \<Longrightarrow> (cond_Status k = ConditionTrue) = (state = Running)"
    using js by (cases "cond_Type j") (auto simp: k rt ready_condition_def Let_def)
qed

section \<open>Callbacks\<close>

lemma run_callback_fields [simp]:
  "st_State (run_callback now cb st) = st_State st"
  "st_Conditions (run_callback now cb st) = st_Conditions st"
  "st_ContainerCounts (run_callback now cb st) = st_ContainerCounts st"
  "st_InitContainerCounts (run_callback now cb st) = st_InitContainerCounts st"
  "st_RunID (run_callback now cb st) = st_RunID st"
  "st_WillHibernateAt (run_callback now cb st) = st_WillHibernateAt st"
  "st_Error (run_callback now cb st) = st_Error st"
  "st_Idle (run_callback now cb st) = st_Idle st"
  by (cases "(now, cb, st)" rule: run_callback.cases; simp)+

lemma fold_callback_fields:
  "st_State (fold (run_callback now) cbs st) = st_State st
   \<and> st_Conditions (fold (run_callback now) cbs st) = st_Conditions st
   \<and> st_ContainerCounts (fold (run_callback now) cbs st) = st_ContainerCounts st
   \<and> st_InitContainerCounts (fold (run_callback now) cbs st) = st_InitContainerCounts st
   \<and> st_RunID (fold (run_callback now) cbs st) = st_RunID st
   \<and> st_WillHibernateAt (fold (run_callback now) cbs st) = st_WillHibernateAt st
   \<and> st_Error (fold (run_callback now) cbs st) = st_Error st
   \<and> st_Idle (fold (run_callback now) cbs st) = st_Idle st"
  by (induction cbs arbitrary: st) simp_all

lemma statusCallback_fields [simp]:
  "st_State (statusCallback now c st) = st_State st"
  "st_Conditions (statusCallback now c st) = st_Conditions st"
  "st_ContainerCounts (statusCallback now c st) = st_ContainerCounts st"
  "st_InitContainerCounts (statusCallback now c st) = st_InitContainerCounts st"
  "st_RunID (statusCallback now c st) = st_RunID st"
  "st_WillHibernateAt (statusCallback now c st) = st_WillHibernateAt st"
  "st_Error (statusCallback now c st) = st_Error st"
  "st_Idle (statusCallback now c st) = st_Idle st"
  unfolding statusCallback_def using fold_callback_fields by blast+

lemma run_callback_marks:
  "st_FailingSince (run_callback now cb st) \<in> {0, st_FailingSince st}
   \<and> st_FailedSchedulingSince (run_callback now cb st) \<in> {0, st_FailedSchedulingSince st}"
  by (cases "(now, cb, st)" rule: run_callback.cases) simp_all

lemma fold_callback_marks:
  "st_FailingSince (fold (run_callback now) cbs st) \<in> {0, st_FailingSince st}
   \<and> st_FailedSchedulingSince (fold (run_callback now) cbs st) \<in> {0, st_FailedSchedulingSince st}"
proof (induction cbs arbitrary: st)
  case Nil
  then show ?case by simp
next
  case (Cons cb cbs)
  from Cons [of "run_callback now cb st"] run_callback_marks [of now cb st] show ?case by auto
qed

lemma statusCallback_marks:
  "st_FailingSince (statusCallback now c st) \<in> {0, st_FailingSince st}"
  "st_FailedSchedulingSince (statusCallback now c st) \<in> {0, st_FailedSchedulingSince st}"
  unfolding statusCallback_def using fold_callback_marks by blast+

text \<open>Only the StatefulSet has a callback that is run.\<close>

definition only_statefulset_callback :: "ChildResourceUpdates \<Rightarrow> bool" where
  "only_statefulset_callback c \<longleftrightarrow>
     list_all (\<lambda>cb. cb = None)
       ([cu_statusCallback (cru_Ingress c), cu_statusCallback (cru_Service c),
         cu_statusCallback (cru_Secret c), cu_statusCallback (cru_PVC c)]
        @ map cu_statusCallback (cru_DataSourcesPVCs c))"

lemma fold_None_callbacks: "list_all (\<lambda>cb. cb = None) cbs \<Longrightarrow> fold (run_callback now) cbs st = st"
  by (induction cbs) auto

lemma statusCallback_only:
  "only_statefulset_callback c \<Longrightarrow>
   statusCallback now c st = run_callback now (cu_statusCallback (cru_StatefulSet c)) st"
  by (auto simp: statusCallback_def only_statefulset_callback_def fold_None_callbacks)

section \<open>The fields of a status\<close>

lemma since_mark_simps [simp]:
  "since_mark now True s = (if s = 0 then now else s)"
  "since_mark now False s = 0"
  by (simp_all add: since_mark_def)

lemma since_mark_nonzero_iff: "now \<noteq> 0 \<Longrightarrow> since_mark now active s \<noteq> 0 \<longleftrightarrow> active"
  by (cases active) simp_all

lemma derived_status_fields:
  "st_State (derived_status lib env r now c cr w) = fst (decide_state lib r now c cr w)"
  "st_Conditions (derived_status lib env r now c cr w)
     = Conditions r now (fst (decide_state lib r now c cr w)) cr w"
  "st_RunID (derived_status lib env r now c cr w) = st_RunID (as_Status cr)"
  "st_WillHibernateAt (derived_status lib env r now c cr w)
     = calculateHibernationDate (om_CreationTimestamp (as_Meta cr)) (as_Status cr)
         (sp_Culling (as_Spec cr))"
  "st_FailingSince (derived_status lib env r now c cr w)
     = since_mark now (fst (decide_state lib r now c cr w) = Failed) (st_FailingSince (as_Status cr))"
  "st_HibernatedSince (derived_status lib env r now c cr w)
     = since_mark now (sp_Hibernated (as_Spec cr)) (st_HibernatedSince (as_Status cr))"
  "st_FailedSchedulingSince (derived_status lib env r now c cr w)
     = (if fst (decide_state lib r now c cr w) \<in> {Hibernated, Running, Succeeded} then 0
        else snd (snd (decide_state lib r now c cr w)))"
  by (simp_all add: derived_status_def Let_def split: prod.splits)

lemma Status_fields:
  "st_State (Status lib env r now c cr w) = fst (decide_state lib r now c cr w)"
  "st_Conditions (Status lib env r now c cr w)
     = Conditions r now (fst (decide_state lib r now c cr w)) cr w"
  "st_RunID (Status lib env r now c cr w) = st_RunID (as_Status cr)"
  "st_WillHibernateAt (Status lib env r now c cr w)
     = calculateHibernationDate (om_CreationTimestamp (as_Meta cr)) (as_Status cr)
         (sp_Culling (as_Spec cr))"
  by (simp_all add: Status_def derived_status_fields)

lemma Status_failing:
  "st_FailingSince (Status lib env r now c cr w) \<in>
     {0, since_mark now (fst (decide_state lib r now c cr w) = Failed)
           (st_FailingSince (as_Status cr))}"
  using statusCallback_marks(1) [of now c "derived_status lib env r now c cr w"]
  by (simp add: Status_def derived_status_fields)

lemma Status_scheduling:
  "fst (decide_state lib r now c cr w) \<in> {Hibernated, Running, Succeeded} \<Longrightarrow>
   st_FailedSchedulingSince (Status lib env r now c cr w) = 0"
  using statusCallback_marks(2) [of now c "derived_status lib env r now c cr w"]
  by (simp add: Status_def derived_status_fields)

definition counts_ok :: "ContainerCounts \<Rightarrow> bool" where
  "counts_ok c \<longleftrightarrow> 0 \<le> cc_Ready c \<and> cc_Ready c \<le> cc_Total c"

lemma counts_ok_pod:
  "containerCounts pod = (i, c) \<Longrightarrow> counts_ok i \<and> counts_ok c"
  using containerCounts_eq
  by (cases pod) (auto simp: counts_ok_def containerCounts_def no_counts_def)

lemma derived_status_counts:
  "counts_ok (st_ContainerCounts (derived_status lib env r now c cr w))
   \<and> counts_ok (st_InitContainerCounts (derived_status lib env r now c cr w))"
proof -
  obtain i n where p: "(case read_pod r cr w of Some p \<Rightarrow> containerCounts (Some p)
      | None \<Rightarrow> (no_counts, no_counts)) = (i, n)"
    by (metis surj_pair)
  then have "counts_ok i" "counts_ok n"
    using counts_ok_pod [of "read_pod r cr w" i n]
    by (auto simp: containerCounts_def split: option.splits)
  then show ?thesis
    by (simp add: derived_status_def Let_def p counts_ok_def split: prod.splits)
qed

lemma State_not_degraded: "fst (State c cr pod job) \<noteq> RunningDegraded"
  by (auto simp: State_def Let_def)

lemma decide_state_cases:
  "fst (decide_state lib r now c cr w)
     \<in> {Failed, fst (State c cr (read_pod r cr w) (read_job r cr w))}"
  by (auto simp: decide_state_def checkEventsInferedState_def Let_def
      split: prod.splits EventsInferedStateResult.splits)

text \<open>What every status that the operator computes satisfies.\<close>

definition conditions_ok :: "AmaltheaSessionStatus \<Rightarrow> bool" where
  "conditions_ok st \<longleftrightarrow> list_all (\<lambda>k. cond_Status k = ConditionTrue \<or> cond_Status k = ConditionFalse)
     (st_Conditions st)"

definition status_coherent :: "AmaltheaSessionStatus \<Rightarrow> bool" where
  "status_coherent st \<longleftrightarrow>
     conditions_ok st
     \<and> list_all (\<lambda>k. cond_Type k = AmaltheaSessionReady
          \<longrightarrow> (cond_Status k = ConditionTrue) = (st_State st = Running)) (st_Conditions st)
     \<and> st_State st \<noteq> RunningDegraded
     \<and> counts_ok (st_ContainerCounts st) \<and> counts_ok (st_InitContainerCounts st)
     \<and> (st_FailingSince st \<noteq> 0 \<longrightarrow> st_State st = Failed)
     \<and> (st_State st \<in> {Hibernated, Running, Succeeded} \<longrightarrow> st_FailedSchedulingSince st = 0)"

lemma Status_coherent:
  assumes "conditions_ok (as_Status cr)"
  shows "status_coherent (Status lib env r now c cr w)"
proof -
  let ?st = "Status lib env r now c cr w"
  have tf: "\<forall>k \<in> set (st_Conditions (as_Status cr)).
      cond_Status k = ConditionTrue \<or> cond_Status k = ConditionFalse"
    using assms by (simp add: conditions_ok_def list_all_iff)
  have "conditions_ok ?st"
    unfolding conditions_ok_def list_all_iff Status_fields using Conditions_Ready(1) [OF tf, of _ r now _ w] by blast
  moreover have "list_all (\<lambda>k. cond_Type k = AmaltheaSessionReady
      \<longrightarrow> (cond_Status k = ConditionTrue) = (st_State ?st = Running)) (st_Conditions ?st)"
    unfolding list_all_iff Status_fields using Conditions_Ready(2) [OF tf, of _ r now _ w] by blast
  moreover have "st_State ?st \<noteq> RunningDegraded"
    using decide_state_cases [of lib r now c cr w] State_not_degraded
    by (metis State.distinct(15) Status_fields(1) insertE singletonD)
  moreover have "st_FailingSince ?st \<noteq> 0 \<longrightarrow> st_State ?st = Failed"
    using Status_failing [of lib env r now c cr w]
    by (cases "fst (decide_state lib r now c cr w) = Failed") (simp_all add: Status_fields)
  moreover have "st_State ?st \<in> {Hibernated, Running, Succeeded} \<longrightarrow> st_FailedSchedulingSince ?st = 0"
    using Status_scheduling [of lib r now c cr w env] by (simp only: Status_fields(1)) blast
  ultimately show ?thesis
    using derived_status_counts by (simp add: status_coherent_def) (simp add: Status_def)
qed

section \<open>Properties of the computed status\<close>

text \<open>C7: Every status the operator computes is coherent: its conditions are True or False and
  Ready is True exactly in the state Running; ready containers are at most all containers;
  the failing mark is set only in the state Failed; the scheduling mark is clear in the
  states Running, Hibernated and Succeeded; and the state is never \<open>RunningDegraded\<close>. This
  holds whatever the cluster returns, as long as the stored conditions were True or False.\<close>

theorem computed_status_coherent:
  assumes "conditions_ok (as_Status cr)"
  shows "status_coherent (Status lib env r now c cr w)"
  using assms by (rule Status_coherent)

theorem computed_status_coherent_witness:
  "status_coherent (Status sample_lib sample_env (empty_client :: unit client) 2000 no_updates sample_session ())"
  by (rule computed_status_coherent)
    (simp add: sample_session_def initial_status_def conditions_ok_def)

text \<open>When no child was just hibernated or resumed, the marks of the computed status are
  exact: the failing mark is set exactly in the state Failed and the hibernation mark is set
  exactly when the specification asks for hibernation; a mark that was set keeps its
  instant for as long as its cause lasts, so durations are counted from the beginning.\<close>

lemma since_marks_exact:
  assumes "only_statefulset_callback c" "cu_statusCallback (cru_StatefulSet c) = None" "now \<noteq> 0"
  shows "(let st = Status lib env r now c cr w in
    (st_FailingSince st \<noteq> 0) = (st_State st = Failed)
    \<and> (st_HibernatedSince st \<noteq> 0) = sp_Hibernated (as_Spec cr)
    \<and> (st_FailingSince (as_Status cr) \<noteq> 0 \<and> st_State st = Failed
        \<longrightarrow> st_FailingSince st = st_FailingSince (as_Status cr))
    \<and> (st_HibernatedSince (as_Status cr) \<noteq> 0 \<and> sp_Hibernated (as_Spec cr)
        \<longrightarrow> st_HibernatedSince st = st_HibernatedSince (as_Status cr)))"
proof -
  have "Status lib env r now c cr w = derived_status lib env r now c cr w"
    by (simp add: Status_def statusCallback_only [OF assms(1)] assms(2))
  then show ?thesis
    by (simp add: derived_status_fields since_mark_nonzero_iff [OF assms(3)])
qed

text \<open>When the StatefulSet goes from one replica to none, the status loses its idle, failing
  and scheduling marks and is marked as hibernated now; when it goes from none to one, the
  hibernation mark is cleared as well.\<close>

lemma callbacks_reset_marks:
  assumes "only_statefulset_callback c"
    and "cu_statusCallback (cru_StatefulSet c) = replicas_callback (Some a) (Some b)"
    and "a = 1 \<and> b = 0 \<or> a = 0 \<and> b = 1"
  shows "(let st = Status lib env r now c cr w in
    st_IdleSince st = 0 \<and> st_FailingSince st = 0 \<and> st_FailedSchedulingSince st = 0
    \<and> st_HibernatedSince st = (if b = 0 then now else 0))"
  using assms(3)
  by (elim disjE)
    (simp_all add: Let_def Status_def statusCallback_only [OF assms(1)] assms(2) replicas_callback_def)

text \<open>A session without a pod whose StatefulSet has a quota event is reported as failed, also
  when it is hibernated: the state decision is overridden.\<close>

lemma quota_overrides_hibernation:
  assumes "read_pod r cr w = None" "quota_exceeded r cr w"
  shows "st_State (Status lib env r now c cr w) = Failed"
  using assms by (simp add: Status_fields decide_state_def Let_def split: prod.splits)

end
