(* ===== verification/Reconciler_Props.thy ===== *)
theory Reconciler_Props
  imports Reconciler Status_Props
begin

text \<open>
  What holds of a pass of the reconciler: secrets go before the finalizer does, run IDs
  follow the hibernation of the session, and every status that is written is coherent.
  What is assumed of the cluster is written into each property.
\<close>

section \<open>A cluster that stores one session\<close>

definition store_client :: "AmaltheaSession option client" where
  "store_client = empty_client\<lparr>
     cl_GetSession := (\<lambda>_ _ w. case w of Some s \<Rightarrow> Inr s | None \<Rightarrow> Inl (NotFound [])),
     cl_Update := (\<lambda>s w. (Some s, Inr s)),
     cl_StatusUpdate := (\<lambda>s w. (Some s, Inr s)),
     cl_Delete := (\<lambda>_ w. (None, None)) \<rparr>"

section \<open>Deleting secrets\<close>

text \<open>
  What the API documents of deleting a secret: after a deletion that succeeded or found
  nothing, the secret is gone, and deleting one secret does not bring another into being.
\<close>

definition deletes_secrets :: "'w client \<Rightarrow> (SecretObject \<Rightarrow> 'w \<Rightarrow> bool) \<Rightarrow> bool" where
  "deletes_secrets r present \<longleftrightarrow>
     (\<forall>s w w' e. cl_DeleteSecret r s w = (w', e)
        \<longrightarrow> (case e of None \<Rightarrow> True | Some x \<Rightarrow> IsNotFound x) \<longrightarrow> \<not> present s w')
     \<and> (\<forall>s t w. present t (fst (cl_DeleteSecret r s w)) \<longrightarrow> present t w)"

lemma deleteSecrets_loop_errors:
  "deleteSecrets_loop r items errs w = (w', errs') \<Longrightarrow> \<exists>more. errs' = errs @ more"
proof (induction items arbitrary: errs w)
  case Nil
  then show ?case by simp
next
  case (Cons item items)
  show ?case
    using Cons.prems Cons.IH
    by (auto split: prod.splits option.splits if_splits) (metis append_assoc)
qed

lemma deleteSecrets_loop_mono:
  "deletes_secrets r present \<Longrightarrow> deleteSecrets_loop r items errs w = (w', errs')
   \<Longrightarrow> present t w' \<Longrightarrow> present t w"
proof (induction items arbitrary: errs w)
  case Nil
  then show ?case by simp
next
  case (Cons item items)
  have "present t (fst (cl_DeleteSecret r item w))"
    using Cons by (auto split: prod.splits option.splits if_splits)
  with Cons.prems(1) show ?case unfolding deletes_secrets_def by blast
qed

lemma deleteSecrets_loop_gone:
  "deletes_secrets r present \<Longrightarrow> deleteSecrets_loop r items errs w = (w', errs)
   \<Longrightarrow> t \<in> set items \<Longrightarrow> \<not> present t w'"
proof (induction items arbitrary: w)
  case Nil
  then show ?case by simp
next
  case (Cons item items)
  obtain w1 e where d: "cl_DeleteSecret r item w = (w1, e)" by fastforce
  have ok: "case e of None \<Rightarrow> True | Some x \<Rightarrow> IsNotFound x"
    and l: "deleteSecrets_loop r items errs w1 = (w', errs)"
    using Cons.prems(2) deleteSecrets_loop_errors [of r items] d
    by (fastforce split: option.splits if_splits)+
  have "\<not> present item w1"
    using Cons.prems(1) d ok unfolding deletes_secrets_def by blast
  then have "\<not> present item w'"
    using deleteSecrets_loop_mono [OF Cons.prems(1) l] by blast
  then show ?case
    using Cons.IH [OF Cons.prems(1) l] Cons.prems(3) by auto
qed

lemma deleteSecrets_gone:
  assumes "deletes_secrets r present" "deleteSecrets r cr w = (w', None)"
    "t \<in> set (AdoptedSecrets cr)"
  shows "\<not> present t w'"
proof -
  have "deleteSecrets_loop r (AdoptedSecrets cr) [] w = (w', [])"
    using assms(2,3)
    by (auto simp: deleteSecrets_def Let_def split: prod.splits if_splits)
  from deleteSecrets_loop_gone [OF assms(1) this assms(3)] show ?thesis .
qed

text \<open>C5: A session that is being deleted loses the operator's finalizer only after all its
  adopted secrets are gone from the cluster. If deleting a secret fails for another reason
  than that it does not exist, the pass returns the error and does not touch the finalizer,
  so the next pass tries again.\<close>

theorem secrets_deleted_before_finalizer:
  assumes "deletes_secrets r present"
    and "write_status r req set_not_ready (set_not_ready session) w = (w1, Inr s)"
    and "ContainsFinalizer s secretCleanupFinalizerName"
  shows "(\<exists>w2 e. deleteSecrets r s w1 = (w2, Some e)
            \<and> finalize_session r req session w = (w2, no_result, Some e))
       \<or> (\<exists>w2. deleteSecrets r s w1 = (w2, None) \<and> list_all (\<lambda>t. \<not> present t w2) (AdoptedSecrets s)
            \<and> fst (finalize_session r req session w)
                = fst (cl_Update r (RemoveFinalizer s secretCleanupFinalizerName) w2)
            \<and> \<not> ContainsFinalizer (RemoveFinalizer s secretCleanupFinalizerName)
                  secretCleanupFinalizerName)"
proof -
  obtain w2 e where d: "deleteSecrets r s w1 = (w2, e)" by fastforce
  show ?thesis
  proof (cases e)
    case (Some x)
    then show ?thesis using assms(2,3) d by (simp add: finalize_session_def)
  next
    case None
    with d deleteSecrets_gone [OF assms(1)] have "list_all (\<lambda>t. \<not> present t w2) (AdoptedSecrets s)"
      by (auto simp: list_all_iff)
    with None assms(2,3) d show ?thesis
      by (simp add: finalize_session_def ContainsFinalizer_def RemoveFinalizer_def
          split: prod.splits sum.splits)
  qed
qed

text \<open>For the witness: a cluster whose state is the set of existing secrets.\<close>

definition secrets_client :: "SecretObject list client" where
  "secrets_client = empty_client\<lparr>
     cl_DeleteSecret := (\<lambda>s w. (removeAll s w, if s \<in> set w then None else Some (NotFound []))) \<rparr>"

definition sample_deleting :: AmaltheaSession where
  "sample_deleting = AddFinalizer (sample_session\<lparr> as_Meta := (as_Meta sample_session)\<lparr>
     om_DeletionTimestamp := Some 7 \<rparr> \<rparr>) secretCleanupFinalizerName"

theorem secrets_deleted_before_finalizer_witness:
  "\<exists>w2. deleteSecrets secrets_client (set_not_ready sample_deleting)
       [secret_named ''renku'' ''cred''] = (w2, None)
     \<and> list_all (\<lambda>t. t \<notin> set w2) (AdoptedSecrets (set_not_ready sample_deleting))"
proof -
  let ?s = "set_not_ready sample_deleting" and ?w = "[secret_named ''renku'' ''cred'']"
  have law: "deletes_secrets secrets_client (\<lambda>t w. t \<in> set w)"
    by (auto simp: deletes_secrets_def secrets_client_def split: if_splits)
  have ws: "write_status secrets_client (''renku'', ''alice'') set_not_ready ?s ?w = (?w, Inr ?s)"
    by (simp add: write_status_def secrets_client_def empty_client_def)
  have fin: "ContainsFinalizer ?s secretCleanupFinalizerName"
    by (simp add: ContainsFinalizer_def sample_deleting_def AddFinalizer_def set_not_ready_def)
  have "snd (deleteSecrets secrets_client ?s ?w) = None"
    by (simp add: deleteSecrets_def sample_deleting_def AddFinalizer_def ContainsFinalizer_def
        set_not_ready_def AdoptedSecrets_def adopted_ref_def adopted_key_ref_def sample_defs
        SessionSecretRef_isAdopted_def SessionSecretKeyRef_isAdopted_def secrets_client_def Let_def
        split: prod.splits)
  with secrets_deleted_before_finalizer [OF law ws fin] show ?thesis by auto
qed

section \<open>The finalizer\<close>

text \<open>The API server stores the finalizers and the specification it is given.\<close>

definition stores_sessions :: "'w client \<Rightarrow> bool" where
  "stores_sessions r \<longleftrightarrow>
     (\<forall>s w w' s'. cl_Update r s w = (w', Inr s')
        \<longrightarrow> as_Spec s' = as_Spec s \<and> om_Finalizers (as_Meta s') = om_Finalizers (as_Meta s))"

text \<open>Children are created only for sessions whose secrets are protected: whenever the
  preparation of a session succeeds, the session it returns either adopts no secret or
  carries the operator's finalizer, so its adopted secrets will be cleaned up.\<close>

lemma prepared_session_has_finalizer:
  assumes "stores_sessions r" "prepare_session lib env r now req session wg = (wg1, Inr s)"
  shows "AdoptedSecrets s = [] \<or> ContainsFinalizer s secretCleanupFinalizerName"
proof -
  have "ContainsFinalizer s2 secretCleanupFinalizerName"
    if "cl_Update r (AddFinalizer s1 secretCleanupFinalizerName) w1 = (w2, Inr s2)" for s1 w1 w2 s2
    using assms(1) that
    by (fastforce simp: stores_sessions_def ContainsFinalizer_def AddFinalizer_def)
  with assms(2) show ?thesis
    by (auto simp: prepare_session_def Let_def split: prod.splits sum.splits if_splits)
qed

section \<open>Run IDs\<close>

lemma with_run_id_simps [simp]:
  "as_Meta (with_run_id rnd s) = as_Meta s" "as_Spec (with_run_id rnd s) = as_Spec s"
  "st_RunID (as_Status (with_run_id rnd s)) = next_run_id rnd s"
  "st_Conditions (as_Status (with_run_id rnd s)) = st_Conditions (as_Status s)"
  by (simp_all add: with_run_id_def)

lemma StatefulSet_run_annotation:
  assumes "StatefulSet lib env cr cfg = Inr sts" "st_RunID (as_Status cr) \<noteq> []"
  shows "fmlookup (pt_Annotations (sss_Template (sts_Spec sts))) ''renku.io/run_id''
       = Some (st_RunID (as_Status cr))"
  using assms by (auto simp: StatefulSet_def bindE_Inr_iff Let_def run_annotations_def)

text \<open>In a pass, a session that is hibernated has no run ID; a session that runs keeps its run
  ID, or gets the fresh one if it had none, as after its creation and after being resumed.
  The new status carries the same run ID as the annotation on the pods that the pass asks
  for, so the two never disagree.\<close>

lemma run_id_rules:
  assumes "StatefulSet lib env (with_run_id rnd session) cfg = Inr sts" "rnd_ulid rnd \<noteq> []"
  shows "(let newStatus = Status lib env r now c (with_run_id rnd session) w in
     st_RunID newStatus =
       (if sp_Hibernated (as_Spec session) then []
        else if st_RunID (as_Status session) = [] then rnd_ulid rnd
        else st_RunID (as_Status session))
     \<and> (sp_Hibernated (as_Spec session)
        \<or> fmlookup (pt_Annotations (sss_Template (sts_Spec sts))) ''renku.io/run_id''
            = Some (st_RunID newStatus)))"
  using StatefulSet_run_annotation [OF assms(1)] assms(2)
  by (simp add: Let_def Status_fields next_run_id_def)

section \<open>The next pass\<close>

definition due_again :: "Result \<Rightarrow> bool" where
  "due_again res \<longleftrightarrow> res_Requeue res \<or> res_RequeueAfter res > 0"

text \<open>The last call of the pass deleted a session whose time was over.\<close>

definition deleted_last :: "'w client \<Rightarrow> time \<Rightarrow> 'w \<Rightarrow> bool" where
  "deleted_last r now w' \<longleftrightarrow> (\<exists>s w. NeedsDeletion now s \<and> cl_Delete r s w = (w', None))"

lemma finish_pass_due:
  assumes "finish_pass r now statusChanged s wg = (wg', res, None)"
  shows "due_again res \<or> deleted_last r now (fst wg')"
proof (cases "NeedsDeletion now s")
  case True
  obtain w g where wg: "wg = (w, g)" by (cases wg)
  obtain w' err where del: "cl_Delete r s w = (w', err)" by fastforce
  have "err = None" "fst wg' = w'" using assms True wg del by (auto simp: finish_pass_def)
  with True del show ?thesis unfolding deleted_last_def by blast
next
  case False
  then show ?thesis
    using assms by (auto simp: finish_pass_def due_again_def Let_def second_def split: prod.splits option.splits if_splits)
qed

lemma reconcile_children_due:
  assumes "reconcile_children lib env r cfg now rnd req s wg = (wg', res, None)"
  shows "due_again res \<or> deleted_last r now (fst wg')"
  using assms unfolding reconcile_children_def Let_def
  by (auto split: prod.splits sum.splits option.splits dest: finish_pass_due)

lemma finalize_session_due:
  assumes "finalize_session r req s w = (w', res, None)"
  shows "due_again res"
  using assms unfolding finalize_session_def
  by (auto simp: due_again_def split: prod.splits sum.splits option.splits if_splits)

lemma reconcileInner_due:
  assumes "reconcileInner lib env r cfg now rnd req wg = (wg', res, None)"
  shows "due_again res \<or> deleted_last r now (fst wg')
    \<or> (\<exists>e. cl_GetSession r (fst req) (snd req) (fst wg) = Inl e \<and> IsNotFound e)"
  using assms unfolding reconcileInner_def Let_def
  by (auto split: prod.splits sum.splits if_splits dest: reconcile_children_due finalize_session_due)

text \<open>C8: A session is looked after until it is gone. A pass that ends without an error asks for another
  pass, at once or after ten seconds, unless it found no session or has just deleted one whose time was
  over; so a child that the controller does not watch is looked at again all the same. What is
  reported of the pass says the same: the transaction is marked as successful exactly when there was no
  error, and errors and panics are captured.\<close>

theorem session_looked_after:
  assumes "Reconcile lib env r cfg now rnd req wg = ((wg', res, err), tx)"
  shows "(err = None \<longrightarrow> tx_requeue tx \<or> deleted_last r now (fst wg')
      \<or> (\<exists>e. cl_GetSession r (fst req) (snd req) (fst wg) = Inl e \<and> IsNotFound e))
    \<and> (tx_OK tx = Some True \<longleftrightarrow> err = None)
    \<and> tx_captured tx = (case err of None \<Rightarrow> [] | Some e \<Rightarrow> [e])"
proof -
  have inner: "reconcileInner lib env r cfg now rnd req wg = (wg', res, err)" and tx: "tx = transaction_of res err"
    using assms by (auto simp: Reconcile_def split: prod.splits)
  have "tx_OK tx = Some True \<longleftrightarrow> err = None" "tx_captured tx = (case err of None \<Rightarrow> [] | Some e \<Rightarrow> [e])"
    unfolding tx transaction_of_def by (auto split: option.splits go_error.splits)
  moreover have "tx_requeue tx \<longleftrightarrow> due_again res" if "err = None"
    using that by (simp add: tx transaction_of_def due_again_def)
  ultimately show ?thesis using reconcileInner_due [of lib env r cfg now rnd req wg wg' res] inner by auto
qed

text \<open>A session that is being deleted and waits for its secrets.\<close>

definition deleting_client :: "SecretObject list client" where
  "deleting_client = secrets_client\<lparr> cl_GetSession := (\<lambda>_ _ _. Inr sample_deleting) \<rparr>"

theorem session_looked_after_witness:
  "\<exists>wg' res tx. Reconcile sample_lib sample_env deleting_client sample_cfg 9 sample_rnd (''renku'', ''alice'')
       ([secret_named ''renku'' ''cred''], no_gauges) = ((wg', res, None), tx) \<and> tx_OK tx = Some True \<and> tx_captured tx = []"
proof -
  let ?s = "set_not_ready sample_deleting" and ?w = "[secret_named ''renku'' ''cred'']"
  have ws: "write_status deleting_client (''renku'', ''alice'') set_not_ready ?s ?w = (?w, Inr ?s)"
    by (simp add: write_status_def deleting_client_def secrets_client_def empty_client_def)
  have fin: "ContainsFinalizer ?s secretCleanupFinalizerName"
    by (simp add: ContainsFinalizer_def sample_deleting_def AddFinalizer_def set_not_ready_def)
  have del: "snd (deleteSecrets deleting_client ?s ?w) = None"
    by (simp add: deleteSecrets_def sample_deleting_def AddFinalizer_def ContainsFinalizer_def
        set_not_ready_def AdoptedSecrets_def adopted_ref_def adopted_key_ref_def sample_defs deleting_client_def
        SessionSecretRef_isAdopted_def SessionSecretKeyRef_isAdopted_def secrets_client_def Let_def
        split: prod.splits)
  have upd: "cl_Update deleting_client t w = (w, Inr t)" for t w
    by (simp add: deleting_client_def secrets_client_def empty_client_def)
  have "snd (snd (finalize_session deleting_client (''renku'', ''alice'') sample_deleting ?w)) = None"
    using ws fin del by (auto simp: finalize_session_def upd split: prod.splits option.splits)
  moreover have "om_DeletionTimestamp (as_Meta sample_deleting) \<noteq> None"
    by (simp add: sample_deleting_def AddFinalizer_def ContainsFinalizer_def)
  moreover have "cl_GetSession deleting_client n m w = Inr sample_deleting" for n m w
    by (simp add: deleting_client_def)
  ultimately obtain wg' res where "Reconcile sample_lib sample_env deleting_client sample_cfg 9 sample_rnd
      (''renku'', ''alice'') (?w, no_gauges) = ((wg', res, None), transaction_of res None)"
    by (cases "finalize_session deleting_client (''renku'', ''alice'') sample_deleting ?w")
       (auto simp: Reconcile_def reconcileInner_def Let_def)
  from this session_looked_after [OF this] show ?thesis by auto
qed

end
