(* ===== verification/Session_Lifecycle.thy ===== *)
theory Session_Lifecycle
  imports Reconciler_Props
begin

text \<open>
  The life of sessions in a cluster: passes of the reconciler, interleaved in any order
  with the changes that users and the cluster make. The invariant is that the status of
  every stored session is sound; it is shown for each stage of a pass and then, by rule
  induction, for every reachable state.
\<close>

section \<open>Definitions\<close>

text \<open>
  What stays true of a status also while its session is being deleted, when only the state
  is overwritten with \<open>NotReady\<close>.
\<close>

definition status_sound :: "AmaltheaSessionStatus \<Rightarrow> bool" where
  "status_sound st \<longleftrightarrow>
     conditions_ok st
     \<and> (st_State st = Running \<longrightarrow> list_all (\<lambda>k. cond_Type k = AmaltheaSessionReady
          \<longrightarrow> cond_Status k = ConditionTrue) (st_Conditions st))
     \<and> st_State st \<noteq> RunningDegraded
     \<and> counts_ok (st_ContainerCounts st) \<and> counts_ok (st_InitContainerCounts st)
     \<and> (st_FailingSince st \<noteq> 0 \<longrightarrow> st_State st \<in> {Failed, NotReady})
     \<and> (st_State st \<in> {Hibernated, Running, Succeeded} \<longrightarrow> st_FailedSchedulingSince st = 0)"

abbreviation sound_session :: "AmaltheaSession \<Rightarrow> bool" where
  "sound_session s \<equiv> status_sound (as_Status s)"

text \<open>
  An invariant \<open>I\<close> of the cluster that says of the stored sessions that they are sound, and
  that every operation of the client keeps as long as it is given sound sessions.
\<close>

definition keeps_sound :: "'w client \<Rightarrow> ('w \<Rightarrow> bool) \<Rightarrow> bool" where
  "keeps_sound r I \<longleftrightarrow>
     (\<forall>ns n w s. I w \<longrightarrow> cl_GetSession r ns n w = Inr s \<longrightarrow> sound_session s)
     \<and> (\<forall>upd \<in> {cl_StatusUpdate r, cl_Update r}. \<forall>s w. I w \<longrightarrow> sound_session s
          \<longrightarrow> I (fst (upd s w)) \<and> (\<forall>s'. snd (upd s w) = Inr s' \<longrightarrow> sound_session s'))
     \<and> (\<forall>s w. I w \<longrightarrow> I (fst (cl_Delete r s w)))
     \<and> (\<forall>s w. I w \<longrightarrow> I (fst (cl_DeleteSecret r s w)))
     \<and> (\<forall>s w. I w \<longrightarrow> I (fst (cl_DeleteIngress r s w)))
     \<and> (\<forall>x f w. I w \<longrightarrow> I (fst (cl_CreateOrPatch_Ingress r x f w)))
     \<and> (\<forall>x f w. I w \<longrightarrow> I (fst (cl_CreateOrPatch_StatefulSet r x f w)))
     \<and> (\<forall>x f w. I w \<longrightarrow> I (fst (cl_CreateOrPatch_PVC r x f w)))
     \<and> (\<forall>x f w. I w \<longrightarrow> I (fst (cl_CreateOrPatch_Service r x f w)))
     \<and> (\<forall>x f w. I w \<longrightarrow> I (fst (cl_CreateOrPatch_Secret r x f w)))
     \<and> (\<forall>x f w. I w \<longrightarrow> I (fst (cl_CreateOrPatch_Job r x f w)))"

text \<open>
  The states that can be reached from a state with the invariant: a pass of the reconciler
  on any session, at any time, or a step of somebody else.
\<close>

inductive reachable ::
  "golib \<Rightarrow> environ \<Rightarrow> 'w client \<Rightarrow> AmaltheaSessionConfiguration \<Rightarrow> ('w \<Rightarrow> bool)
   \<Rightarrow> ('w \<Rightarrow> 'w \<Rightarrow> bool) \<Rightarrow> 'w \<times> gauges \<Rightarrow> bool"
  for lib env r cfg I others where
  start: "I w \<Longrightarrow> reachable lib env r cfg I others (w, no_gauges)"
| pass: "reachable lib env r cfg I others wg
    \<Longrightarrow> reconcileInner lib env r cfg now rnd req wg = (wg', res, err)
    \<Longrightarrow> reachable lib env r cfg I others wg'"
| other: "reachable lib env r cfg I others (w, g) \<Longrightarrow> others w w'
    \<Longrightarrow> reachable lib env r cfg I others (w', g)"

inductive_cases reachableE: "reachable lib env r cfg I others wg"

section \<open>Sound statuses\<close>

lemma initial_status_sound: "status_sound initial_status"
  by (simp add: status_sound_def initial_status_def conditions_ok_def counts_ok_def no_counts_def)

lemma coherent_sound: "status_coherent st \<Longrightarrow> status_sound st"
  by (auto simp: status_coherent_def status_sound_def list_all_iff)

lemma sound_conditions: "status_sound st \<Longrightarrow> conditions_ok st"
  by (simp add: status_sound_def)

lemma sound_URL: "status_sound (st\<lparr> st_URL := u \<rparr>) = status_sound st"
  by (simp add: status_sound_def conditions_ok_def)

lemma sound_RunID: "status_sound (st\<lparr> st_RunID := u \<rparr>) = status_sound st"
  by (simp add: status_sound_def conditions_ok_def)

lemma sound_NotReady: "status_sound st \<Longrightarrow> status_sound (st\<lparr> st_State := NotReady \<rparr>)"
  by (auto simp: status_sound_def conditions_ok_def)

lemma Status_sound:
  "status_sound (as_Status cr) \<Longrightarrow> status_sound (Status lib env r now c cr w)"
  by (rule coherent_sound, rule Status_coherent, rule sound_conditions)

section \<open>The stages keep the invariant\<close>

lemma keeps_soundD:
  assumes "keeps_sound r I" "I w"
  shows "cl_GetSession r ns n w = Inr s \<Longrightarrow> sound_session s"
    "sound_session s \<Longrightarrow> cl_StatusUpdate r s w = (w', x) \<Longrightarrow> I w' \<and> (\<forall>s'. x = Inr s' \<longrightarrow> sound_session s')"
    "sound_session s \<Longrightarrow> cl_Update r s w = (w', x) \<Longrightarrow> I w' \<and> (\<forall>s'. x = Inr s' \<longrightarrow> sound_session s')"
    "cl_Delete r s w = (w', e) \<Longrightarrow> I w'"
    "cl_DeleteSecret r t w = (w', e) \<Longrightarrow> I w'"
    "cl_DeleteIngress r i w = (w', e) \<Longrightarrow> I w'"
  using assms unfolding keeps_sound_def by (metis fst_conv snd_conv insertI1 insertI2)+

lemma keeps_soundP:
  assumes "keeps_sound r I" "I w"
  shows "I (fst (cl_CreateOrPatch_Ingress r x1 f1 w))"
    "I (fst (cl_CreateOrPatch_StatefulSet r x2 f2 w))" "I (fst (cl_CreateOrPatch_PVC r x3 f3 w))"
    "I (fst (cl_CreateOrPatch_Service r x4 f4 w))" "I (fst (cl_CreateOrPatch_Secret r x5 f5 w))"
    "I (fst (cl_CreateOrPatch_Job r x6 f6 w))"
  using assms by (simp_all add: keeps_sound_def)

lemma reconcile_with_keeps:
  "(\<And>x f w. I w \<Longrightarrow> I (fst (cop x f w))) \<Longrightarrow> I w \<Longrightarrow> I (fst (reconcile_with cop m c w))"
  by (simp add: reconcile_with_def Let_def split: option.splits prod.splits) (metis fst_conv)

lemma reconcile_list_keeps:
  "(\<And>c w. I w \<Longrightarrow> I (fst (f c w))) \<Longrightarrow> I w \<Longrightarrow> I (fst (reconcile_list f cs w))"
  by (induction cs arbitrary: w) (auto split: prod.splits, metis fst_conv)

lemma child_reconcile_keeps:
  assumes "keeps_sound r I" "I w"
  shows "I (fst (Reconcile_StatefulSet r cr c1 w))" "I (fst (Reconcile_PVC r cr c2 w))"
    "I (fst (Reconcile_Service r cr c3 w))" "I (fst (Reconcile_Ingress r cr c4 w))"
    "I (fst (Reconcile_Secret r cr c5 w))" "I (fst (Reconcile_Job r cr c6 w))"
proof -
  note k = keeps_soundP [OF assms(1)]
  show "I (fst (Reconcile_StatefulSet r cr c1 w))" "I (fst (Reconcile_PVC r cr c2 w))"
    "I (fst (Reconcile_Service r cr c3 w))" "I (fst (Reconcile_Secret r cr c5 w))"
    "I (fst (Reconcile_Job r cr c6 w))"
    unfolding Reconcile_StatefulSet_def Reconcile_PVC_def Reconcile_Service_def
      Reconcile_Secret_def Reconcile_Job_def
    by (rule reconcile_with_keeps [of I], rule k, assumption, rule assms(2))+
  have "I (fst (reconcile_with (cl_CreateOrPatch_Ingress r) m c w))" for m c
    by (rule reconcile_with_keeps [of I], rule k, assumption, rule assms(2))
  then show "I (fst (Reconcile_Ingress r cr c4 w))"
    using keeps_soundD(6) [OF assms] assms(2)
    by (auto simp: Reconcile_Ingress_def split: option.splits prod.splits)
qed

lemma ChildResources_Reconcile_keeps:
  assumes "keeps_sound r I" "I w"
  shows "I (fst (ChildResources_Reconcile lib r cr c w))"
proof -
  note step = child_reconcile_keeps [OF assms(1)]
  have ds: "I w \<Longrightarrow> I (fst (reconcile_list (Reconcile_PVC r cr) cs w))" for cs w
    by (rule reconcile_list_keeps) (rule step(2))
  obtain w1 a1 where 1: "Reconcile_StatefulSet r cr (crs_StatefulSet c) w = (w1, a1)" by fastforce
  obtain w2 a2 where 2: "Reconcile_PVC r cr (crs_PVC c) w1 = (w2, a2)" by fastforce
  obtain w3 a3 where 3: "Reconcile_Service r cr (crs_Service c) w2 = (w3, a3)" by fastforce
  obtain w4 a4 where 4: "Reconcile_Ingress r cr (crs_Ingress c) w3 = (w4, a4)" by fastforce
  obtain w5 a5 where 5: "Reconcile_Secret r cr (crs_Secret c) w4 = (w5, a5)" by fastforce
  obtain w6 a6 where 6: "Reconcile_Job r cr (crs_Job c) w5 = (w6, a6)" by fastforce
  have "I w6"
    using assms(2) step 1 2 3 4 5 6 by (metis fst_conv)
  then show ?thesis
    using ds by (simp add: ChildResources_Reconcile_def 1 2 3 4 5 6 split: prod.splits) (metis fst_conv)
qed

lemma write_status_keeps:
  assumes "keeps_sound r I" "I w" "sound_session s" "\<And>x. sound_session x \<Longrightarrow> sound_session (again x)"
    and "write_status r req again s w = (w', x)"
  shows "I w' \<and> (\<forall>s'. x = Inr s' \<longrightarrow> sound_session s')"
proof -
  obtain w1 y where u: "cl_StatusUpdate r s w = (w1, y)" by fastforce
  note u' = keeps_soundD(2) [OF assms(1,2,3) u]
  show ?thesis
  proof (cases y)
    case (Inr s1)
    with u u' assms(5) show ?thesis by (auto simp: write_status_def)
  next
    case (Inl e)
    show ?thesis
    proof (cases "cl_GetSession r (fst req) (snd req) w1")
      case (Inl e')
      with u u' \<open>y = Inl e\<close> assms(5) show ?thesis by (auto simp: write_status_def)
    next
      case (Inr fresh)
      then have "sound_session (again fresh)"
        using keeps_soundD(1) [OF assms(1)] u' assms(4) by blast
      moreover have "cl_StatusUpdate r (again fresh) w1 = (w', x)"
        using Inr u \<open>y = Inl e\<close> assms(5) by (simp add: write_status_def)
      ultimately show ?thesis using keeps_soundD(2) [OF assms(1)] u' by blast
    qed
  qed
qed

lemma prepare_session_keeps:
  assumes "keeps_sound r I" "I w" "sound_session s"
    and "prepare_session lib env r now req s (w, g) = ((w', g'), x)"
  shows "I w' \<and> (\<forall>s'. x = Inr s' \<longrightarrow> sound_session s')"
proof -
  have up: "I w2 \<and> (\<forall>s'. y = Inr s' \<longrightarrow> sound_session s')"
    if "I w1" "sound_session s1" "cl_Update r (AddFinalizer s1 f) w1 = (w2, y)" for w1 s1 f w2 y
    using keeps_soundD(3) [OF assms(1) that(1) _ that(3)] that(2) by (simp add: AddFinalizer_def)
  have ws: "I w1 \<and> (\<forall>s'. y = Inr s' \<longrightarrow> sound_session s')"
    if "write_status r req (\<lambda>s. s) (s\<lparr> as_Status := (as_Status s)\<lparr> st_URL := u \<rparr> \<rparr>) w = (w1, y)" for u w1 y
    using that assms(3) by (intro write_status_keeps [OF assms(1,2)]) (simp_all add: sound_URL)
  let ?u = "s\<lparr> as_Status := (as_Status s)\<lparr>
    st_URL := GetURLString (lib_parseAuthority lib) env s \<rparr> \<rparr>"
  have fin: "I w' \<and> (\<forall>s'. x = Inr s' \<longrightarrow> sound_session s')"
    if "I w1" "sound_session s1"
      "(if length (AdoptedSecrets s1) > 0 \<and> \<not> ContainsFinalizer s1 secretCleanupFinalizerName then
            (let (w2, s2) = cl_Update r (AddFinalizer s1 secretCleanupFinalizerName) w1 in
             ((w2, g1), s2))
          else ((w1, g1), Inr s1)) = ((w', g'), x)" for w1 s1 g1
    using that up [OF that(1,2)] by (auto split: prod.splits if_splits)
  show ?thesis
  proof (cases "as_Status s = initial_status")
    case False
    with assms(4) show ?thesis by (intro fin [OF assms(2,3)]) (simp add: prepare_session_def)
  next
    case True
    obtain w1 y where w: "write_status r req (\<lambda>s. s) ?u w = (w1, y)" by fastforce
    show ?thesis
    proof (cases y)
      case (Inl e)
      with True w ws [OF w] assms(4) show ?thesis by (auto simp: prepare_session_def Let_def)
    next
      case (Inr s1)
      with ws [OF w] have "I w1" "sound_session s1" by auto
      with True w Inr assms(4) show ?thesis
        by (intro fin [of w1 s1 "RecordAmaltheaSessionMetrics now s1 g"])
          (simp_all add: prepare_session_def Let_def)
    qed
  qed
qed

lemma deleteSecrets_loop_keeps:
  assumes "keeps_sound r I"
  shows "I w \<Longrightarrow> deleteSecrets_loop r items errs w = (w', errs') \<Longrightarrow> I w'"
proof (induction items arbitrary: errs w)
  case Nil
  then show ?case by simp
next
  case (Cons item items)
  obtain w1 e where d: "cl_DeleteSecret r item w = (w1, e)" by fastforce
  with keeps_soundD(5) [OF assms Cons.prems(1)] have "I w1" by blast
  with Cons d show ?case by (auto split: option.splits if_splits)
qed

lemma deleteSecrets_keeps:
  assumes "keeps_sound r I" "I w" "deleteSecrets r s w = (w', e)"
  shows "I w'"
  using assms(2,3) deleteSecrets_loop_keeps [OF assms(1,2)]
  by (auto simp: deleteSecrets_def Let_def split: prod.splits if_splits)

lemma finalize_session_keeps:
  assumes "keeps_sound r I" "I w" "sound_session s"
    and "finalize_session r req s w = (w', res, e)"
  shows "I w'"
proof -
  obtain w1 y where w: "write_status r req set_not_ready (set_not_ready s) w = (w1, y)" by fastforce
  have 1: "I w1 \<and> (\<forall>s'. y = Inr s' \<longrightarrow> sound_session s')"
    using assms(3) by (intro write_status_keeps [OF assms(1,2) _ _ w])
      (simp_all add: set_not_ready_def sound_NotReady)
  show ?thesis
  proof (cases y)
    case (Inl x)
    with assms(4) w 1 show ?thesis by (simp add: finalize_session_def)
  next
    case (Inr s1)
    obtain w2 d where d: "deleteSecrets r s1 w1 = (w2, d)" by fastforce
    have 2: "I w2" using deleteSecrets_keeps [OF assms(1) _ d] 1 by blast
    obtain w3 z where u: "cl_Update r (RemoveFinalizer s1 secretCleanupFinalizerName) w2 = (w3, z)"
      by fastforce
    have "I w3"
      using keeps_soundD(3) [OF assms(1) 2 _ u] 1 Inr by (simp add: RemoveFinalizer_def)
    with assms(4) w Inr 1 2 d u show ?thesis
      by (auto simp: finalize_session_def split: sum.splits if_splits option.splits)
  qed
qed

lemma updateHibernationState_keeps:
  assumes "keeps_sound r I" "I w" "sound_session s"
    and "updateHibernationState r now s w = (w', s', e)"
  shows "I w'"
proof -
  let ?s = "s\<lparr> as_Spec := (as_Spec s)\<lparr> sp_Hibernated := True \<rparr> \<rparr>"
  obtain w1 y where u: "cl_Update r ?s w = (w1, y)" by fastforce
  have "I w1" using keeps_soundD(3) [OF assms(1,2) _ u] assms(3) by simp
  with assms(2,4) u show ?thesis
    by (auto simp: updateHibernationState_def Let_def split: if_splits sum.splits)
qed

lemma finish_pass_keeps:
  assumes "keeps_sound r I" "I w" "sound_session s"
    and "finish_pass r now ch s (w, g) = ((w', g'), res, e)"
  shows "I w'"
  using assms(4) keeps_soundD(4) [OF assms(1,2)] updateHibernationState_keeps [OF assms(1-3)]
  by (auto simp: finish_pass_def Let_def split: if_splits option.splits prod.splits)

lemma reconcile_children_keeps:
  assumes "keeps_sound r I" "I w" "sound_session s"
    and "reconcile_children lib env r cfg now rnd req s (w, g) = ((w', g'), res, e)"
  shows "I w'"
proof (cases "NewChildResources lib env rnd (with_run_id rnd s) cfg")
  case (Inl x)
  with assms(2,4) show ?thesis by (simp add: reconcile_children_def)
next
  case (Inr children)
  let ?s = "with_run_id rnd s"
  have s: "sound_session ?s" using assms(3) by (simp add: with_run_id_def sound_RunID)
  obtain w1 u err where c: "ChildResources_Reconcile lib r ?s children w = (w1, u, err)"
    by (metis surj_pair)
  then have w1: "I w1"
    using ChildResources_Reconcile_keeps [OF assms(1,2), of lib ?s children] by simp
  let ?n = "Status lib env r now u ?s w1"
  have n: "status_sound ?n" using s by (rule Status_sound)
  obtain w2 y where w: "write_status r req (merge_status ?n) (?s\<lparr> as_Status := ?n \<rparr>) w1 = (w2, y)"
    by fastforce
  have 2: "I w2 \<and> (\<forall>s'. y = Inr s' \<longrightarrow> sound_session s')"
    using n by (intro write_status_keeps [OF assms(1) w1 _ _ w])
      (simp_all add: merge_status_def sound_RunID)
  show ?thesis
  proof (cases err)
    case (Some x)
    with assms(4) Inr c w1 show ?thesis by (simp add: reconcile_children_def)
  next
    case None
    with assms(4) Inr c w 2 finish_pass_keeps [OF assms(1)] show ?thesis
      by (auto simp: reconcile_children_def Let_def split: sum.splits)
  qed
qed

lemma reconcileInner_keeps:
  assumes "keeps_sound r I" "I (fst wg)"
    and "reconcileInner lib env r cfg now rnd req wg = (wg', res, e)"
  shows "I (fst wg')"
proof (cases "cl_GetSession r (fst req) (snd req) (fst wg)")
  case (Inl x)
  with assms show ?thesis by (auto simp: reconcileInner_def split: if_splits)
next
  case (Inr s)
  then have s: "sound_session s" using keeps_soundD(1) [OF assms(1,2)] by blast
  obtain w g where wg: "wg = (w, g)" by fastforce
  obtain w1 g1 y where p: "prepare_session lib env r now req s (w, g) = ((w1, g1), y)"
    by (metis surj_pair)
  obtain w2 a b where f: "finalize_session r req s w = (w2, a, b)" by (metis surj_pair)
  have "I w2" using finalize_session_keeps [OF assms(1) _ s f] assms(2) wg by simp
  moreover have 1: "I w1 \<and> (\<forall>s'. y = Inr s' \<longrightarrow> sound_session s')"
    using prepare_session_keeps [OF assms(1) _ s p] assms(2) wg by simp
  ultimately show ?thesis
    using assms(3) Inr p f wg reconcile_children_keeps [OF assms(1)]
    by (cases wg') (auto simp: reconcileInner_def split: sum.splits if_splits)
qed

section \<open>Every reachable state\<close>

text \<open>C1: In every state that the cluster can reach by passes of the reconciler and by changes of
  others, in any order and with any errors of the API server, the status of every stored
  session is sound: conditions True or False, Ready true while the state is Running, ready
  containers at most all containers, the failing mark only on failed sessions (or sessions
  being deleted), no scheduling mark on running, hibernated or succeeded sessions. The
  changes of others and the API server are assumed to keep stored sessions sound when the
  operator writes sound ones.\<close>

theorem reachable_sessions_sound:
  assumes "keeps_sound r I" "\<And>w w'. I w \<Longrightarrow> others w w' \<Longrightarrow> I w'"
    and "reachable lib env r cfg I others wg"
    and "cl_GetSession r ns name (fst wg) = Inr s"
  shows "status_sound (as_Status s)"
proof -
  from assms(3) have "I (fst wg)"
  proof (induction rule: reachable.induct)
    case (start w)
    then show ?case by simp
  next
    case (pass wg now rnd req wg' res err)
    then show ?case using reconcileInner_keeps [OF assms(1)] by blast
  next
    case (other w g w')
    then show ?case using assms(2) by simp
  qed
  then show ?thesis using keeps_soundD(1) [OF assms(1)] assms(4) by blast
qed

definition store_sound :: "AmaltheaSession option \<Rightarrow> bool" where
  "store_sound w \<longleftrightarrow> (case w of None \<Rightarrow> True | Some s \<Rightarrow> status_sound (as_Status s))"

theorem reachable_sessions_sound_witness:
  "\<exists>wg. reachable sample_lib sample_env store_client sample_cfg store_sound (\<lambda>_ _. False) wg
     \<and> cl_GetSession store_client ''renku'' ''alice'' (fst wg) = Inr sample_session
     \<and> status_sound (as_Status sample_session)"
proof -
  have law: "keeps_sound store_client store_sound"
    by (auto simp: keeps_sound_def store_client_def empty_client_def store_sound_def
        create_always_def Let_def split: option.splits prod.splits)
  have i: "store_sound (Some sample_session)"
    by (simp add: store_sound_def sample_session_def initial_status_sound)
  have r: "reachable sample_lib sample_env store_client sample_cfg store_sound (\<lambda>_ _. False)
      (Some sample_session, no_gauges)"
    by (rule reachable.start) (rule i)
  have g: "cl_GetSession store_client ''renku'' ''alice'' (fst (Some sample_session, no_gauges))
      = Inr sample_session"
    by (simp add: store_client_def)
  from reachable_sessions_sound [OF law _ r g] r g show ?thesis by blast
qed

end
