(* ===== verification/Git_Proxy.thy ===== *)
theory Git_Proxy
  imports Go_URL
begin

text \<open>
  The git proxy, a helper program in the session's pod that adds the user's git credentials
  to requests for the session's repositories: \<^verbatim>\<open>src/internal/utils/token.go\<close> and
  \<^verbatim>\<open>config/config.go\<close>, \<^verbatim>\<open>tokenstore/tokenstore.go\<close> and \<^verbatim>\<open>proxy/proxy.go\<close> of
  \<^verbatim>\<open>src/internal/git-https-proxy/\<close>.

  The network, the JSON decoder of the two responses and the JWT parser are the fields of the
  argument of type \<open>net\<close>. An operation on the token store takes and returns the pair of
  the world and the store; each runs under the locks of the source, whose granularity is
  that of the step relation at the end. Logging is left out.
\<close>

section \<open>64-bit arithmetic and clock\<close>

definition wrap64 :: "int \<Rightarrow> int" where
  "wrap64 n = (n + 2 ^ 63) mod 2 ^ 64 - 2 ^ 63"

text \<open>\<^verbatim>\<open>time.Unix(sec, 0)\<close>.\<close>

definition from_Unix :: "int \<Rightarrow> time" where
  "from_Unix sec = wrap64 (sec + 62135596800) * second"

definition IsNotExpired :: "time \<Rightarrow> time \<Rightarrow> duration \<Rightarrow> bool \<Rightarrow> bool" where
  "IsNotExpired now expiresAt margin required =
     (let deadline = now + margin in
      if IsZero expiresAt then \<not> required else deadline < expiresAt)"

section \<open>HTTP\<close>

text \<open>A header has a list of values for each of its canonical keys.\<close>

type_synonym http_header = "(string, string list) fmap"

definition header_get :: "http_header \<Rightarrow> string \<Rightarrow> string" where
  "header_get h k = (case fmlookup h k of Some (v # _) \<Rightarrow> v | _ \<Rightarrow> [])"

definition header_set :: "string \<Rightarrow> string \<Rightarrow> http_header \<Rightarrow> http_header" where
  "header_set k v h = fmupd k [v] h"

definition header_add :: "string \<Rightarrow> string \<Rightarrow> http_header \<Rightarrow> http_header" where
  "header_add k v h = fmupd k ((case fmlookup h k of Some vs \<Rightarrow> vs | None \<Rightarrow> []) @ [v]) h"

record http_request =
  rq_Method :: string
  rq_URL :: string
  rq_Header :: http_header
  rq_Body :: string

record http_response =
  rs_StatusCode :: int
  rs_Body :: string

record TokenSet =
  tok_AccessToken :: string
  tok_ExpiresAt :: int

record renkuTokenRefreshResponse =
  rr_AccessToken :: string
  rr_RefreshToken :: string

record 'w net =
  net_Do :: "http_request \<Rightarrow> 'w \<Rightarrow> 'w \<times> http_response result"
  net_decode_git :: "string \<Rightarrow> TokenSet result"
  net_decode_renku :: "string \<Rightarrow> renkuTokenRefreshResponse result"
  net_jwt_expiry :: "string \<Rightarrow> time option result"
  net_parseAuthority :: authority_parser

text \<open>
  \<^verbatim>\<open>http.NewRequest\<close> with a constant method fails exactly when the URL does not parse.
\<close>

definition http_NewRequest ::
  "authority_parser \<Rightarrow> string \<Rightarrow> string \<Rightarrow> string \<Rightarrow> http_request result" where
  "http_NewRequest pa meth address body =
     bindE (url_Parse pa address) (\<lambda>u.
       Inr \<lparr> rq_Method = meth, rq_URL = url_String u, rq_Header = fmempty, rq_Body = body \<rparr>)"

definition Header_Set :: "string \<Rightarrow> string \<Rightarrow> http_request \<Rightarrow> http_request" where
  "Header_Set k v req = req\<lparr> rq_Header := header_set k v (rq_Header req) \<rparr>"

definition Header_Add :: "string \<Rightarrow> string \<Rightarrow> http_request \<Rightarrow> http_request" where
  "Header_Add k v req = req\<lparr> rq_Header := header_add k v (rq_Header req) \<rparr>"

definition SetBasicAuth :: "string \<Rightarrow> string \<Rightarrow> http_request \<Rightarrow> http_request" where
  "SetBasicAuth user password =
     Header_Set ''Authorization''
       (''Basic '' @ StdEncoding_EncodeToString (user @ '':'' @ password))"

text \<open>\<^verbatim>\<open>url.Values.Encode\<close> of the two fields of a refresh, which it sorts by key.\<close>

definition refresh_payload :: "string \<Rightarrow> string" where
  "refresh_payload token = ''grant_type=refresh_token&refresh_token='' @ QueryEscape token"

section \<open>Expiry of JSON web tokens\<close>

definition VerifyExpiresAtClaim ::
  "time \<Rightarrow> time option \<Rightarrow> duration \<Rightarrow> bool \<Rightarrow> bool" where
  "VerifyExpiresAtClaim now expiresAt margin required =
     (case expiresAt of
        None \<Rightarrow> \<not> required
      | Some t \<Rightarrow> IsNotExpired now t margin required)"

definition VerifyJWTExpiresAt ::
  "'w net \<Rightarrow> time \<Rightarrow> string \<Rightarrow> duration \<Rightarrow> bool \<Rightarrow> bool \<times> go_error option" where
  "VerifyJWTExpiresAt net now token margin required =
     (case net_jwt_expiry net token of
        Inl e \<Rightarrow> (False, Some e)
      | Inr claim \<Rightarrow> (VerifyExpiresAtClaim now claim margin required, None))"

section \<open>Configuration\<close>

record GitRepository =
  repo_Url :: string
  repo_Provider :: string

record GitProvider =
  gp_Id :: string
  gp_AccessTokenUrl :: string

record GitProxyConfig =
  gc_ProxyPort :: int
  gc_HealthPort :: int
  gc_AnonymousSession :: bool
  gc_RenkuAuthenticationVersion :: string
  gc_RenkuAccessToken :: string
  gc_RenkuRefreshToken :: string
  gc_RenkuURL :: "url option"
  gc_RenkuRealm :: string
  gc_RenkuClientID :: string
  gc_RenkuClientSecret :: string
  gc_RenkuTokenURL :: string
  gc_Repositories :: "GitRepository list"
  gc_Providers :: "GitProvider list"
  gc_RefreshCheckPeriodSeconds :: int

definition validateRenkuAuthenticationV2 ::
  "authority_parser \<Rightarrow> GitProxyConfig \<Rightarrow> go_error option" where
  "validateRenkuAuthenticationV2 pa c =
     (if gc_RenkuAccessToken c = [] then Some (Err ''the renku access token is not defined'')
      else if gc_RenkuRefreshToken c = [] then Some (Err ''the renku refresh token is not defined'')
      else if gc_RenkuTokenURL c = [] then Some (Err ''the renku token URL is not defined'')
      else case url_Parse pa (gc_RenkuTokenURL c) of
        Inl e \<Rightarrow> Some (Err (''cannot parse renku token URL: '' @ err_msg e))
      | Inr _ \<Rightarrow> None)"

definition Validate :: "authority_parser \<Rightarrow> GitProxyConfig \<Rightarrow> go_error option" where
  "Validate pa c =
     (if gc_AnonymousSession c then None
      else if gc_RenkuAuthenticationVersion c = ''v2'' then validateRenkuAuthenticationV2 pa c
      else if gc_RenkuAccessToken c = [] then Some (Err ''the renku access token is not defined'')
      else if gc_RenkuRefreshToken c = [] then Some (Err ''the renku refresh token is not defined'')
      else if gc_RenkuURL c = None then Some (Err ''the renku URL is not defined'')
      else if gc_RenkuRealm c = [] then Some (Err ''the renku realm is not defined'')
      else if gc_RenkuClientID c = [] then Some (Err ''the renku client id is not defined'')
      else if gc_RenkuClientSecret c = [] then Some (Err ''the renku client secret is not defined'')
      else if gc_RefreshCheckPeriodSeconds c \<le> 0 then Some (Err ''the refresh token period is invalid'')
      else None)"

definition GetRefreshCheckPeriod :: "GitProxyConfig \<Rightarrow> duration" where
  "GetRefreshCheckPeriod c = wrap64 (gc_RefreshCheckPeriodSeconds c * second)"

definition GetExpirationLeeway :: "GitProxyConfig \<Rightarrow> duration" where
  "GetExpirationLeeway c = wrap64 (4 * GetRefreshCheckPeriod c)"

section \<open>Token store\<close>

record TokenStore =
  ts_Config :: GitProxyConfig
  ts_Providers :: "(string, GitProvider) fmap"
  ts_RefreshTickerPeriod :: duration
  ts_ExpirationLeeway :: duration
  ts_renkuAccessToken :: string
  ts_renkuRefreshToken :: string
  ts_gitAccessTokens :: "(string, TokenSet) fmap"

definition providers_by_id :: "GitProvider list \<Rightarrow> (string, GitProvider) fmap" where
  "providers_by_id ps = foldl (\<lambda>m p. fmupd (gp_Id p) p m) fmempty ps"

text \<open>\<^verbatim>\<open>time.NewTicker\<close> panics when the period is not positive.\<close>

definition New :: "GitProxyConfig \<Rightarrow> TokenStore result" where
  "New c =
     (if GetRefreshCheckPeriod c \<le> 0 then Inl (Panicked ''non-positive interval for NewTicker'')
      else Inr \<lparr> ts_Config = c, ts_Providers = providers_by_id (gc_Providers c),
        ts_RefreshTickerPeriod = GetRefreshCheckPeriod c,
        ts_ExpirationLeeway = GetExpirationLeeway c,
        ts_renkuAccessToken = gc_RenkuAccessToken c,
        ts_renkuRefreshToken = gc_RenkuRefreshToken c, ts_gitAccessTokens = fmempty \<rparr>)"

type_synonym 'w ts_state = "'w \<times> TokenStore"

text \<open>
  Sending a request whose response must have the status 200 and decode: what both refreshes
  and the exchange share.
\<close>

definition fetch ::
  "'w net \<Rightarrow> (string \<Rightarrow> 'a result) \<Rightarrow> string \<Rightarrow> http_request \<Rightarrow> 'w \<Rightarrow> 'w \<times> 'a result" where
  "fetch net decode msg req w =
     (case net_Do net req w of
        (w', Inl e) \<Rightarrow> (w', Inl e)
      | (w', Inr res) \<Rightarrow>
          (w', if rs_StatusCode res \<noteq> 200 then Inl (Err (msg @ show_int (rs_StatusCode res)))
               else decode (rs_Body res)))"

definition refresh_failed :: string where
  "refresh_failed = ''cannot refresh renku access token, failed with status code: ''"

definition form_header :: "http_request \<Rightarrow> http_request" where
  "form_header = Header_Set ''Content-Type'' ''application/x-www-form-urlencoded''"

text \<open>The request is used before the error is looked at, so a nil request panics.\<close>

definition use_request :: "http_request result \<Rightarrow> http_request result" where
  "use_request req = (case req of Inl _ \<Rightarrow> deref None | Inr r \<Rightarrow> Inr r)"

definition refreshRenkuAccessTokenV2 ::
  "'w net \<Rightarrow> 'w ts_state \<Rightarrow> 'w ts_state \<times> go_error option" where
  "refreshRenkuAccessTokenV2 net ws =
     (let (w, s) = ws in
      case bindE (url_Parse (net_parseAuthority net) (gc_RenkuTokenURL (ts_Config s))) (\<lambda>u.
             use_request (http_NewRequest (net_parseAuthority net) ''POST'' (url_String u)
               (refresh_payload (ts_renkuRefreshToken s)))) of
        Inl e \<Rightarrow> (ws, Some e)
      | Inr req \<Rightarrow>
          (case fetch net (net_decode_renku net) refresh_failed (form_header req) w of
             (w', Inl e) \<Rightarrow> ((w', s), Some e)
           | (w', Inr r) \<Rightarrow>
               ((w', s\<lparr> ts_renkuAccessToken := rr_AccessToken r,
                        ts_renkuRefreshToken := rr_RefreshToken r \<rparr>), None)))"

definition refresh_request :: "'w net \<Rightarrow> TokenStore \<Rightarrow> http_request result" where
  "refresh_request net s =
     (let c = ts_Config s in
      bindE (deref (gc_RenkuURL c)) (\<lambda>renku.
      bindE (http_NewRequest (net_parseAuthority net) ''POST''
               (url_String (url_JoinPath renku
                  (''auth/realms/'' @ gc_RenkuRealm c @ ''/protocol/openid-connect/token'')))
               (refresh_payload (ts_renkuRefreshToken s))) (\<lambda>req.
        Inr (form_header (SetBasicAuth (gc_RenkuClientID c) (gc_RenkuClientSecret c) req)))))"

definition refreshRenkuAccessToken ::
  "'w net \<Rightarrow> 'w ts_state \<Rightarrow> 'w ts_state \<times> go_error option" where
  "refreshRenkuAccessToken net ws =
     (let (w, s) = ws in
      if gc_RenkuAuthenticationVersion (ts_Config s) = ''v2'' then refreshRenkuAccessTokenV2 net ws
      else case refresh_request net s of
        Inl e \<Rightarrow> (ws, Some e)
      | Inr req \<Rightarrow>
          (case fetch net (net_decode_renku net) refresh_failed req w of
             (w', Inl e) \<Rightarrow> ((w', s), Some e)
           | (w', Inr r) \<Rightarrow>
               ((w', s\<lparr> ts_renkuAccessToken := rr_AccessToken r,
                        ts_renkuRefreshToken :=
                          (if rr_RefreshToken r \<noteq> [] then rr_RefreshToken r
                           else ts_renkuRefreshToken s) \<rparr>), None)))"

definition getRenkuAccessToken :: "TokenStore \<Rightarrow> string" where
  "getRenkuAccessToken s = ts_renkuAccessToken s"

definition getValidRenkuAccessToken ::
  "'w net \<Rightarrow> time \<Rightarrow> 'w ts_state \<Rightarrow> 'w ts_state \<times> string result" where
  "getValidRenkuAccessToken net now ws =
     (case VerifyJWTExpiresAt net now (getRenkuAccessToken (snd ws))
             (ts_ExpirationLeeway (snd ws)) False of
        (_, Some e) \<Rightarrow> (ws, Inl e)
      | (isValid, None) \<Rightarrow>
          if isValid then (ws, Inr (getRenkuAccessToken (snd ws)))
          else (case refreshRenkuAccessToken net ws of
                  (ws', Some e) \<Rightarrow> (ws', Inl e)
                | (ws', None) \<Rightarrow> (ws', Inr (getRenkuAccessToken (snd ws')))))"

text \<open>The URL of the provider, empty when the provider is not configured.\<close>

definition provider_url :: "TokenStore \<Rightarrow> string \<Rightarrow> string" where
  "provider_url s provider =
     (case fmlookup (ts_Providers s) provider of Some p \<Rightarrow> gp_AccessTokenUrl p | None \<Rightarrow> [])"

text \<open>
  Exchanging the renku token for a token of the provider. Redirects are followed by the
  network with the same authorization header.
\<close>

definition exchange ::
  "'w net \<Rightarrow> string \<Rightarrow> http_request \<Rightarrow> string \<Rightarrow> 'w ts_state \<Rightarrow> 'w ts_state \<times> go_error option" where
  "exchange net provider req renkuAccessToken ws =
     (let (w, s) = ws in
      case fetch net (net_decode_git net)
             ''cannot exchange renku token for git token, failed with staus code: ''
             (Header_Set ''Authorization'' (''Bearer '' @ renkuAccessToken) req) w of
        (w', Inl e) \<Rightarrow> ((w', s), Some e)
      | (w', Inr tok) \<Rightarrow>
          ((w', s\<lparr> ts_gitAccessTokens := fmupd provider tok (ts_gitAccessTokens s) \<rparr>), None))"

definition refreshGitAccessToken ::
  "'w net \<Rightarrow> time \<Rightarrow> string \<Rightarrow> 'w ts_state \<Rightarrow> 'w ts_state \<times> go_error option" where
  "refreshGitAccessToken net now provider ws =
     (case http_NewRequest (net_parseAuthority net) ''GET'' (provider_url (snd ws) provider) [] of
        Inl e \<Rightarrow> (ws, Some e)
      | Inr req \<Rightarrow>
          (case getValidRenkuAccessToken net now ws of
             (ws', Inl e) \<Rightarrow> (ws', Some e)
           | (ws', Inr renkuAccessToken) \<Rightarrow> exchange net provider req renkuAccessToken ws'))"

definition encodeGitCredentials :: "string \<Rightarrow> string" where
  "encodeGitCredentials token = StdEncoding_EncodeToString (''oauth2:'' @ token)"

definition cached_valid :: "time \<Rightarrow> TokenStore \<Rightarrow> string \<Rightarrow> bool" where
  "cached_valid now s provider =
     (case fmlookup (ts_gitAccessTokens s) provider of
        None \<Rightarrow> False
      | Some t \<Rightarrow> IsNotExpired now (from_Unix (tok_ExpiresAt t)) (ts_ExpirationLeeway s) False)"

definition read_git_token :: "TokenStore \<Rightarrow> string \<Rightarrow> string" where
  "read_git_token s provider =
     (case fmlookup (ts_gitAccessTokens s) provider of Some t \<Rightarrow> tok_AccessToken t | None \<Rightarrow> [])"

definition GetGitAccessToken ::
  "'w net \<Rightarrow> time \<Rightarrow> string \<Rightarrow> bool \<Rightarrow> 'w ts_state \<Rightarrow> 'w ts_state \<times> string result" where
  "GetGitAccessToken net now provider enc ws =
     (case (if \<not> cached_valid now (snd ws) provider then refreshGitAccessToken net now provider ws
            else (ws, None)) of
        (ws', Some e) \<Rightarrow> (ws', Inl e)
      | (ws', None) \<Rightarrow>
          (let tok = read_git_token (snd ws') provider in
           (ws', Inr (if enc then encodeGitCredentials tok else tok))))"

text \<open>One turn of the loop of \<^verbatim>\<open>periodicTokenRefresh\<close>, after a tick.\<close>

definition periodicTokenRefresh_tick :: "'w net \<Rightarrow> time \<Rightarrow> 'w ts_state \<Rightarrow> 'w ts_state" where
  "periodicTokenRefresh_tick net now ws =
     (let (refreshTokenIsValid, _) = VerifyJWTExpiresAt net now (ts_renkuRefreshToken (snd ws))
            (ts_ExpirationLeeway (snd ws)) False in
      if \<not> refreshTokenIsValid then fst (refreshRenkuAccessToken net ws) else ws)"

section \<open>Proxy\<close>

definition hostsMatch :: "url \<Rightarrow> url \<Rightarrow> bool" where
  "hostsMatch url1 url2 =
     (let url1ContainsWww = HasPrefix (url_Hostname url1) ''www.'';
          url2ContainsWww = HasPrefix (url_Hostname url2) ''www.'' in
      if url1ContainsWww \<and> \<not> url2ContainsWww then url_Hostname url1 = ''www.'' @ url_Hostname url2
      else if \<not> url1ContainsWww \<and> url2ContainsWww
      then ''www.'' @ url_Hostname url1 = url_Hostname url2
      else url_Hostname url1 = url_Hostname url2)"

definition getPort :: "url \<Rightarrow> string" where
  "getPort urlAddress =
     (let port = url_Port urlAddress in
      if port = [] then
        (if u_Scheme urlAddress = ''http'' then ''80''
         else if u_Scheme urlAddress = ''https'' then ''443'' else port)
      else port)"

definition TrimLeft :: "string \<Rightarrow> char \<Rightarrow> string" where
  "TrimLeft s c = dropWhile (\<lambda>x. x = c) s"

record git_request =
  gr_URL :: url
  gr_Header :: http_header

definition validGitRequest :: "url \<Rightarrow> git_request \<Rightarrow> bool" where
  "validGitRequest repoURL r \<longleftrightarrow>
     u_Scheme (gr_URL r) = u_Scheme repoURL \<and> hostsMatch (gr_URL r) repoURL
     \<and> getPort (gr_URL r) = getPort repoURL
     \<and> HasPrefix (TrimLeft (u_Path (gr_URL r)) (CHR ''/'')) (TrimLeft (u_Path repoURL) (CHR ''/''))"

text \<open>The response, if any, is its status and text.\<close>

definition handlerFunc ::
  "'w net \<Rightarrow> time \<Rightarrow> url \<Rightarrow> string \<Rightarrow> git_request \<Rightarrow> 'w ts_state
   \<Rightarrow> 'w ts_state \<times> git_request \<times> (int \<times> string) option" where
  "handlerFunc net now repoURL provider r ws =
     (if \<not> validGitRequest repoURL r then (ws, r, None)
      else case GetGitAccessToken net now provider True ws of
        (ws', Inl _) \<Rightarrow> (ws', r, Some (401, ''The git token could not be refreshed''))
      | (ws', Inr gitToken) \<Rightarrow>
          (ws', r\<lparr> gr_Header := header_set ''Authorization'' (''Basic '' @ gitToken) (gr_Header r) \<rparr>, None))"

text \<open>A handler that is registered with the proxy: its hosts, its repository and its provider.\<close>

record registration =
  reg_Hosts :: "string list"
  reg_RepoURL :: url
  reg_Provider :: string

fun register_repos ::
  "authority_parser \<Rightarrow> (string, GitProvider) fmap \<Rightarrow> GitRepository list \<Rightarrow> registration list" where
  "register_repos pa providers [] = []"
| "register_repos pa providers (repo # repos) =
     (case url_Parse pa (repo_Url repo) of
        Inl _ \<Rightarrow> register_repos pa providers repos
      | Inr repoURL \<Rightarrow>
          if repo_Provider repo = [] then register_repos pa providers repos
          else if fmlookup providers (repo_Provider repo) = None
          then register_repos pa providers repos
          else
            (let host = url_Hostname repoURL; www = ''www.'' @ host in
             \<lparr> reg_Hosts = [host, www, host @ '':443'', www @ '':443''], reg_RepoURL = repoURL,
               reg_Provider = repo_Provider repo \<rparr> # register_repos pa providers repos))"

definition GetProxyHandler ::
  "authority_parser \<Rightarrow> GitProxyConfig \<Rightarrow> (TokenStore option \<times> registration list) result" where
  "GetProxyHandler pa config =
     (if gc_AnonymousSession config then Inr (None, [])
      else bindE (New config) (\<lambda>tokenStore.
        Inr (Some tokenStore,
             register_repos pa (providers_by_id (gc_Providers config)) (gc_Repositories config))))"

section \<open>Interleaving\<close>

text \<open>
  The handlers run concurrently with each other and with the periodic refresh. The locks make
  two kinds of sections atomic for what they write: a refresh of the renku tokens, and the
  exchange for a git token, with a renku token that was read before. Between them the world
  may change.
\<close>

inductive ts_step :: "'w net \<Rightarrow> 'w ts_state \<Rightarrow> 'w ts_state \<Rightarrow> bool" for net where
  renku: "ts_step net ws (fst (refreshRenkuAccessToken net ws))"
| git: "http_NewRequest (net_parseAuthority net) ''GET'' (provider_url (snd ws) provider) [] = Inr req
    \<Longrightarrow> ts_step net ws (fst (exchange net provider req renkuAccessToken ws))"
| world: "ts_step net (w, s) (w', s)"

inductive_cases ts_stepE: "ts_step net ws ws'"

end
