(* ===== verification/Git_Proxy_Props.thy ===== *)
theory Git_Proxy_Props
  imports Git_Proxy
begin

text \<open>
  What holds of the git proxy: credentials go only to the repository's host and are those of
  its provider, under every interleaving of requests and refreshes; tokens are cached while
  they are valid; and which configurations start.
\<close>

section \<open>Specification\<close>

text \<open>
  What the token endpoints promise: a token that a successful \<^verbatim>\<open>GET\<close> of an address returns
  has been issued at that address.
\<close>

definition issues_tokens :: "'w net \<Rightarrow> (string \<Rightarrow> string \<Rightarrow> bool) \<Rightarrow> bool" where
  "issues_tokens net issued \<longleftrightarrow>
     (\<forall>req w w' res tok. rq_Method req = ''GET'' \<and> net_Do net req w = (w', Inr res)
        \<and> rs_StatusCode res = 200 \<and> net_decode_git net (rs_Body res) = Inr tok
        \<longrightarrow> issued (rq_URL req) (tok_AccessToken tok))"

definition provider_issued ::
  "'w net \<Rightarrow> (string \<Rightarrow> string \<Rightarrow> bool) \<Rightarrow> TokenStore \<Rightarrow> string \<Rightarrow> string \<Rightarrow> bool" where
  "provider_issued net issued s provider tok \<longleftrightarrow>
     (\<exists>req. http_NewRequest (net_parseAuthority net) ''GET'' (provider_url s provider) [] = Inr req
        \<and> issued (rq_URL req) tok)"

text \<open>The invariant: every token in the store was issued at the address of its provider.\<close>

definition store_ok :: "'w net \<Rightarrow> (string \<Rightarrow> string \<Rightarrow> bool) \<Rightarrow> TokenStore \<Rightarrow> bool" where
  "store_ok net issued s \<longleftrightarrow> issues_tokens net issued
     \<and> fmpred (\<lambda>p t. provider_issued net issued s p (tok_AccessToken t)) (ts_gitAccessTokens s)"

text \<open>What the operations never change.\<close>

definition same_setup :: "TokenStore \<Rightarrow> TokenStore \<Rightarrow> bool" where
  "same_setup s s' \<longleftrightarrow> ts_Config s' = ts_Config s \<and> ts_Providers s' = ts_Providers s
     \<and> ts_ExpirationLeeway s' = ts_ExpirationLeeway s"

section \<open>A source of credentials\<close>

text \<open>
  What the handlers rely on: getting a credential keeps the invariant of the source, and a
  credential that is returned is the encoding of a token issued for the asked key.
\<close>

locale credential_source =
  fixes get :: "'k \<Rightarrow> 's \<Rightarrow> 's \<times> string result" and inv :: "'s \<Rightarrow> bool"
    and issued_for :: "'s \<Rightarrow> 'k \<Rightarrow> string \<Rightarrow> bool" and encode :: "string \<Rightarrow> string"
  assumes get_inv: "inv s \<Longrightarrow> get k s = (s', r) \<Longrightarrow> inv s'"
    and get_issued: "inv s \<Longrightarrow> get k s = (s', Inr v) \<Longrightarrow> \<exists>t. v = encode t \<and> issued_for s' k t"
begin

text \<open>Getting credentials for a list of keys, one after the other.\<close>

lemma get_list_inv: "inv s \<Longrightarrow> inv (fold (\<lambda>k s. fst (get k s)) ks s)"
  by (induction ks arbitrary: s) (simp_all, metis get_inv prod.collapse)

lemma get_after_list:
  "inv s \<Longrightarrow> get k (fold (\<lambda>k s. fst (get k s)) ks s) = (s', Inr v)
   \<Longrightarrow> \<exists>t. v = encode t \<and> issued_for s' k t"
  using get_list_inv get_issued by blast

end

section \<open>The operations of the store\<close>

lemma http_NewRequest_method:
  "http_NewRequest pa m a b = Inr req \<Longrightarrow> rq_Method req = m"
  by (auto simp: http_NewRequest_def bindE_Inr_iff)

lemma Header_Set_simps [simp]:
  "rq_Method (Header_Set k v req) = rq_Method req" "rq_URL (Header_Set k v req) = rq_URL req"
  by (simp_all add: Header_Set_def)

lemma refreshRenku_keeps:
  assumes "refreshRenkuAccessToken net ws = (ws', e)"
  shows "same_setup (snd ws) (snd ws') \<and> ts_gitAccessTokens (snd ws') = ts_gitAccessTokens (snd ws)"
  using assms unfolding refreshRenkuAccessToken_def refreshRenkuAccessTokenV2_def Let_def
  by (auto simp: same_setup_def split: if_splits sum.splits prod.splits)

lemma getValid_keeps:
  assumes "getValidRenkuAccessToken net now ws = (ws', r)"
  shows "same_setup (snd ws) (snd ws') \<and> ts_gitAccessTokens (snd ws') = ts_gitAccessTokens (snd ws)"
  using assms unfolding getValidRenkuAccessToken_def
  by (auto simp: same_setup_def dest!: refreshRenku_keeps split: if_splits prod.splits option.splits)

lemma exchange_result:
  assumes "exchange net p req rt ws = (ws', e)"
  shows "same_setup (snd ws) (snd ws')
    \<and> (e \<noteq> None \<and> ts_gitAccessTokens (snd ws') = ts_gitAccessTokens (snd ws)
       \<or> e = None \<and> (\<exists>tok res. ts_gitAccessTokens (snd ws') = fmupd p tok (ts_gitAccessTokens (snd ws))
            \<and> net_Do net (Header_Set ''Authorization'' (''Bearer '' @ rt) req) (fst ws) = (fst ws', Inr res)
            \<and> rs_StatusCode res = 200 \<and> net_decode_git net (rs_Body res) = Inr tok))"
  using assms unfolding exchange_def fetch_def Let_def
  by (auto simp: same_setup_def split: if_splits sum.splits prod.splits)

lemma provider_url_setup: "same_setup s s' \<Longrightarrow> provider_url s' p = provider_url s p"
  by (simp add: same_setup_def provider_url_def)

lemma provider_issued_setup:
  "same_setup s s' \<Longrightarrow> provider_issued net issued s' p t = provider_issued net issued s p t"
  by (simp add: provider_issued_def provider_url_setup)

lemma same_setup_trans: "same_setup a b \<Longrightarrow> same_setup b c \<Longrightarrow> same_setup a c"
  by (simp add: same_setup_def)

lemma store_ok_same_tokens:
  "store_ok net issued s \<Longrightarrow> same_setup s s' \<Longrightarrow> ts_gitAccessTokens s' = ts_gitAccessTokens s
   \<Longrightarrow> store_ok net issued s'"
  using provider_issued_setup [of s s' net] by (simp add: store_ok_def)

lemma exchange_ok:
  assumes ok: "store_ok net issued (snd ws)" and ex: "exchange net p req rt ws = (ws', e)"
    and req: "http_NewRequest (net_parseAuthority net) ''GET'' (provider_url (snd ws) p) [] = Inr req"
  shows "store_ok net issued (snd ws')"
proof (cases e)
  case (Some x)
  with exchange_result [OF ex] ok show ?thesis using store_ok_same_tokens by blast
next
  case None
  with exchange_result [OF ex] obtain tok res where
    su: "same_setup (snd ws) (snd ws')"
    and toks: "ts_gitAccessTokens (snd ws') = fmupd p tok (ts_gitAccessTokens (snd ws))"
    and net: "net_Do net (Header_Set ''Authorization'' (''Bearer '' @ rt) req) (fst ws) = (fst ws', Inr res)"
      "rs_StatusCode res = 200" "net_decode_git net (rs_Body res) = Inr tok"
    by auto
  have "issues_tokens net issued" using ok by (simp add: store_ok_def)
  moreover have "rq_Method (Header_Set ''Authorization'' (''Bearer '' @ rt) req) = ''GET''"
    using http_NewRequest_method [OF req] by simp
  ultimately have "issued (rq_URL req) (tok_AccessToken tok)"
    using net unfolding issues_tokens_def by (metis Header_Set_simps(2))
  then have "provider_issued net issued (snd ws) p (tok_AccessToken tok)"
    using req by (auto simp: provider_issued_def)
  with ok show ?thesis
    using provider_issued_setup [OF su]
    by (auto simp: store_ok_def toks fmpred_iff split: if_splits)
qed

lemma ts_step_ok:
  "ts_step net ws ws' \<Longrightarrow> store_ok net issued (snd ws)
   \<Longrightarrow> store_ok net issued (snd ws') \<and> same_setup (snd ws) (snd ws')"
proof (induction rule: ts_step.induct)
  case (renku ws)
  then show ?case using refreshRenku_keeps [OF prod.collapse [symmetric]] store_ok_same_tokens by blast
next
  case (git ws p req rt)
  then show ?case
    using exchange_ok [OF _ prod.collapse [symmetric] git.hyps]
      exchange_result [OF prod.collapse [symmetric]] by blast
next
  case (world w s w')
  then show ?case by (simp add: same_setup_def)
qed

lemma ts_steps_ok:
  "(ts_step net)\<^sup>*\<^sup>* ws ws' \<Longrightarrow> store_ok net issued (snd ws)
   \<Longrightarrow> store_ok net issued (snd ws') \<and> same_setup (snd ws) (snd ws')"
proof (induction rule: rtranclp_induct)
  case base
  then show ?case by (simp add: same_setup_def)
next
  case (step y z)
  then show ?case using ts_step_ok same_setup_trans by blast
qed

section \<open>Getting a token\<close>

lemma refreshGit_cases:
  assumes "refreshGitAccessToken net now p ws = (ws', e)"
  obtains "ws' = ws" "e \<noteq> None"
  | x where "getValidRenkuAccessToken net now ws = (ws', Inl x)" "e = Some x"
  | ws1 rt req where "getValidRenkuAccessToken net now ws = (ws1, Inr rt)"
      "http_NewRequest (net_parseAuthority net) ''GET'' (provider_url (snd ws) p) [] = Inr req"
      "exchange net p req rt ws1 = (ws', e)"
  using assms unfolding refreshGitAccessToken_def by (auto split: sum.splits prod.splits)

lemma refreshGit_result:
  assumes "refreshGitAccessToken net now p ws = (ws', e)"
  shows "same_setup (snd ws) (snd ws')
    \<and> (e \<noteq> None \<and> ts_gitAccessTokens (snd ws') = ts_gitAccessTokens (snd ws)
       \<or> e = None \<and> (\<exists>tok. ts_gitAccessTokens (snd ws') = fmupd p tok (ts_gitAccessTokens (snd ws))))"
  using assms
proof (cases rule: refreshGit_cases)
  case 1
  then show ?thesis by (simp add: same_setup_def)
next
  case (2 x)
  then show ?thesis using getValid_keeps by blast
next
  case (3 ws1 rt req)
  then show ?thesis using getValid_keeps [OF 3(1)] exchange_result [OF 3(3)] same_setup_trans
    by metis
qed

lemma getValid_steps:
  assumes "getValidRenkuAccessToken net now ws = (ws', r)"
  shows "(ts_step net)\<^sup>*\<^sup>* ws ws'"
proof -
  have "ws' = ws \<or> ws' = fst (refreshRenkuAccessToken net ws)"
    using assms unfolding getValidRenkuAccessToken_def
    by (auto split: if_splits prod.splits option.splits)
  then show ?thesis using r_into_rtranclp [of "ts_step net", OF ts_step.renku [of net ws]] by auto
qed

lemma refreshGit_steps:
  assumes "refreshGitAccessToken net now p ws = (ws', e)"
  shows "(ts_step net)\<^sup>*\<^sup>* ws ws'"
  using assms
proof (cases rule: refreshGit_cases)
  case 1
  then show ?thesis by simp
next
  case (2 x)
  then show ?thesis using getValid_steps by blast
next
  case (3 ws1 rt req)
  have "http_NewRequest (net_parseAuthority net) ''GET'' (provider_url (snd ws1) p) [] = Inr req"
    using 3(2) getValid_keeps [OF 3(1)] provider_url_setup by metis
  then have "ts_step net ws1 ws'" using ts_step.git 3(3) by (metis fst_conv)
  with getValid_steps [OF 3(1)] show ?thesis by (rule rtranclp.rtrancl_into_rtrancl)
qed

lemma GetGit_steps:
  assumes "GetGitAccessToken net now p enc ws = (ws', r)"
  shows "(ts_step net)\<^sup>*\<^sup>* ws ws'"
  using assms refreshGit_steps [of net now p ws] unfolding GetGitAccessToken_def
  by (auto simp: Let_def split: if_splits option.splits prod.splits)

lemma periodic_steps: "(ts_step net)\<^sup>*\<^sup>* ws (periodicTokenRefresh_tick net now ws)"
  using ts_step.renku [of net ws] by (auto simp: periodicTokenRefresh_tick_def split: prod.splits)

text \<open>After success the store holds the token that is returned.\<close>

lemma GetGit_stored:
  assumes "GetGitAccessToken net now p enc ws = (ws', Inr v)"
  shows "\<exists>tok. fmlookup (ts_gitAccessTokens (snd ws')) p = Some tok
    \<and> v = (if enc then encodeGitCredentials (tok_AccessToken tok) else tok_AccessToken tok)"
proof (cases "cached_valid now (snd ws) p")
  case True
  then show ?thesis using assms
    by (auto simp: GetGitAccessToken_def cached_valid_def read_git_token_def Let_def split: option.splits)
next
  case False
  then have r: "refreshGitAccessToken net now p ws = (ws', None)"
    and v: "v = (if enc then encodeGitCredentials (read_git_token (snd ws') p) else read_git_token (snd ws') p)"
    using assms by (auto simp: GetGitAccessToken_def Let_def split: option.splits prod.splits)
  from refreshGit_result [OF r] obtain tok where
    "ts_gitAccessTokens (snd ws') = fmupd p tok (ts_gitAccessTokens (snd ws))" by auto
  with v show ?thesis by (simp add: read_git_token_def)
qed

interpretation tokens: credential_source "\<lambda>p. GetGitAccessToken net now p True"
  "\<lambda>ws. store_ok net issued (snd ws)" "\<lambda>ws. provider_issued net issued (snd ws)" encodeGitCredentials
  for net now issued
proof unfold_locales
  fix k ws ws' and r :: "string result"
  assume "store_ok net issued (snd ws)" "GetGitAccessToken net now k True ws = (ws', r)"
  then show "store_ok net issued (snd ws')" using GetGit_steps ts_steps_ok by blast
next
  fix k ws ws' v
  assume ok: "store_ok net issued (snd ws)" and g: "GetGitAccessToken net now k True ws = (ws', Inr v)"
  have "store_ok net issued (snd ws')" using GetGit_steps [OF g] ts_steps_ok ok by blast
  with GetGit_stored [OF g] show "\<exists>t. v = encodeGitCredentials t \<and> provider_issued net issued (snd ws') k t"
    by (auto simp: store_ok_def fmpred_iff)
qed

section \<open>Registered handlers\<close>

lemma foldl_fmupd_lookup:
  "fmlookup (foldl (\<lambda>m p. fmupd (gp_Id p) p m) m ps) i = Some p
   \<Longrightarrow> fmlookup m i = Some p \<or> p \<in> set ps \<and> gp_Id p = i"
  by (induction ps arbitrary: m) (fastforce split: if_splits)+

lemma providers_by_id_lookup:
  "fmlookup (providers_by_id ps) i = Some p \<Longrightarrow> p \<in> set ps \<and> gp_Id p = i"
  using foldl_fmupd_lookup [of fmempty] by (fastforce simp: providers_by_id_def)

lemma register_repos_sound:
  "reg \<in> set (register_repos pa ps repos) \<Longrightarrow>
     \<exists>repo \<in> set repos. url_Parse pa (repo_Url repo) = Inr (reg_RepoURL reg)
       \<and> reg_Provider reg = repo_Provider repo \<and> fmlookup ps (reg_Provider reg) \<noteq> None"
  by (induction repos) (auto simp: Let_def split: sum.splits if_splits)

lemma GetProxyHandler_Some:
  assumes "GetProxyHandler pa c = Inr (Some s, regs)"
  shows "New c = Inr s \<and> regs = register_repos pa (ts_Providers s) (gc_Repositories c)
    \<and> ts_Providers s = providers_by_id (gc_Providers c) \<and> ts_gitAccessTokens s = fmempty"
  using assms
  by (auto simp: GetProxyHandler_def bindE_Inr_iff New_def split: if_splits)

section \<open>Samples\<close>

definition sample_provider :: GitProvider where
  "sample_provider = \<lparr> gp_Id = ''gl'', gp_AccessTokenUrl = ''/token'' \<rparr>"

definition sample_git_config :: GitProxyConfig where
  "sample_git_config = \<lparr> gc_ProxyPort = 8080, gc_HealthPort = 8081, gc_AnonymousSession = False,
     gc_RenkuAuthenticationVersion = [], gc_RenkuAccessToken = ''a'', gc_RenkuRefreshToken = ''r'',
     gc_RenkuURL = Some empty_url, gc_RenkuRealm = ''Renku'', gc_RenkuClientID = ''id'',
     gc_RenkuClientSecret = ''secret'', gc_RenkuTokenURL = [],
     gc_Repositories = [\<lparr> repo_Url = ''/repo'', repo_Provider = ''gl'' \<rparr>],
     gc_Providers = [sample_provider], gc_RefreshCheckPeriodSeconds = 600 \<rparr>"

text \<open>A network that answers every request with the token \<open>tok\<close>, which never expires.\<close>

definition sample_net :: "unit net" where
  "sample_net = \<lparr> net_Do = (\<lambda>_ w. (w, Inr \<lparr> rs_StatusCode = 200, rs_Body = [] \<rparr>)),
     net_decode_git = (\<lambda>_. Inr \<lparr> tok_AccessToken = ''tok'', tok_ExpiresAt = 2000000000 \<rparr>),
     net_decode_renku = (\<lambda>_. Inr \<lparr> rr_AccessToken = ''b'', rr_RefreshToken = ''s'' \<rparr>),
     net_jwt_expiry = (\<lambda>_. Inr None), net_parseAuthority = (\<lambda>a. Inr (None, a)) \<rparr>"

definition sample_git_request :: git_request where
  "sample_git_request = \<lparr> gr_URL = empty_url\<lparr> u_Path := ''/repo/info'' \<rparr>, gr_Header = fmempty \<rparr>"

definition sample_store :: TokenStore where
  "sample_store = \<lparr> ts_Config = sample_git_config,
     ts_Providers = fmupd ''gl'' sample_provider fmempty,
     ts_RefreshTickerPeriod = 600 * second, ts_ExpirationLeeway = 2400 * second,
     ts_renkuAccessToken = ''a'', ts_renkuRefreshToken = ''r'', ts_gitAccessTokens = fmempty \<rparr>"

lemma wrap64_id: "- (2 ^ 63) \<le> n \<Longrightarrow> n < 2 ^ 63 \<Longrightarrow> wrap64 n = n"
  by (simp add: wrap64_def)

lemma sample_New: "New sample_git_config = Inr sample_store"
  by (simp add: New_def GetRefreshCheckPeriod_def GetExpirationLeeway_def sample_git_config_def
      sample_store_def wrap64_id second_def providers_by_id_def sample_provider_def)

lemmas url_eval = url_Parse_def parse_ref_def getScheme_def Cut_def containsCTLByte_def
  split_query_def HasPrefix_def HasSuffix_def is_alpha_def is_digit_def setPath_def url_escape.simps
  shouldEscape_def is_alnum_def str_Contains_def

lemma sample_parse:
  "url_Parse pa ''/token'' = Inr (empty_url\<lparr> u_Path := ''/token'' \<rparr>)"
  "url_Parse pa ''/repo'' = Inr (empty_url\<lparr> u_Path := ''/repo'' \<rparr>)"
  by (simp_all add: url_eval empty_url_def ToLower_def)

lemma sample_get:
  "GetGitAccessToken sample_net 1 ''gl'' enc ((), sample_store) =
     (((), sample_store\<lparr> ts_gitAccessTokens :=
             fmupd ''gl'' \<lparr> tok_AccessToken = ''tok'', tok_ExpiresAt = 2000000000 \<rparr> fmempty \<rparr>),
      Inr (if enc then encodeGitCredentials ''tok'' else ''tok''))"
proof -
  have "getValidRenkuAccessToken sample_net 1 ((), sample_store) = (((), sample_store), Inr ''a'')"
    by (simp add: getValidRenkuAccessToken_def VerifyJWTExpiresAt_def VerifyExpiresAtClaim_def
        sample_net_def getRenkuAccessToken_def sample_store_def)
  then show ?thesis
    by (simp add: GetGitAccessToken_def refreshGitAccessToken_def cached_valid_def exchange_def
        fetch_def sample_parse http_NewRequest_def provider_url_def sample_store_def
        sample_provider_def read_git_token_def Let_def sample_net_def)
qed

section \<open>Properties\<close>

text \<open>
  Where the credentials of a repository may go. A port may be left out when it is that of the
  scheme; a leading \<^verbatim>\<open>www.\<close> of one of the two hosts does not count.
\<close>

definition same_host :: "url \<Rightarrow> url \<Rightarrow> bool" where
  "same_host u v \<longleftrightarrow> url_Hostname u = url_Hostname v
     \<or> url_Hostname u = ''www.'' @ url_Hostname v \<or> url_Hostname v = ''www.'' @ url_Hostname u"

definition same_port :: "url \<Rightarrow> url \<Rightarrow> bool" where
  "same_port u v \<longleftrightarrow> url_Port u = url_Port v
     \<or> (\<exists>(scheme, port) \<in> {(''http'', ''80''), (''https'', ''443'')}.
          u_Scheme u = scheme \<and> {url_Port u, url_Port v} = {[], port})"

definition path_extends :: "url \<Rightarrow> url \<Rightarrow> bool" where
  "path_extends u v \<longleftrightarrow> (\<exists>rest. dropWhile (\<lambda>c. c = CHR ''/'') (u_Path u)
     = dropWhile (\<lambda>c. c = CHR ''/'') (u_Path v) @ rest)"

lemma hostsMatch_same_host: "hostsMatch u v \<Longrightarrow> same_host u v"
  by (auto simp: hostsMatch_def same_host_def Let_def split: if_splits)

lemma getPort_same_port: "getPort u = getPort v \<Longrightarrow> u_Scheme u = u_Scheme v \<Longrightarrow> same_port u v"
  by (auto simp: getPort_def same_port_def Let_def split: if_splits)

lemma validGitRequest_confined:
  assumes "validGitRequest u r"
  shows "u_Scheme (gr_URL r) = u_Scheme u" "same_host (gr_URL r) u" "same_port (gr_URL r) u"
    "path_extends (gr_URL r) u"
  using assms hostsMatch_same_host getPort_same_port
  by (auto simp: validGitRequest_def path_extends_def HasPrefix_def TrimLeft_def)
    (metis append_take_drop_id)

text \<open>C23: The git proxy hands out credentials only where they belong. From any state that the
  token store reaches by any interleaving of refreshes and exchanges, a registered handler
  either passes the request on unchanged, or there is a configured repository such that the
  request has its scheme, its host (up to a leading \<^verbatim>\<open>www.\<close> of one of them), its port (where
  80 and 443 may be left out with their scheme) and a path that begins with its path; then only
  the header \<^verbatim>\<open>Authorization\<close> is set, to the encoding of a token that was issued at the address
  of that repository's own provider. The path is compared as a text, so the path
  \<^verbatim>\<open>/group/repo-other\<close> counts as one of the repository \<^verbatim>\<open>/group/repo\<close>.\<close>

theorem git_credentials_confined:
  assumes "issues_tokens net issued"
    and "GetProxyHandler (net_parseAuthority net) c = Inr (Some s0, regs)" "reg \<in> set regs"
    and "(ts_step net)\<^sup>*\<^sup>* (w0, s0) ws"
    and "handlerFunc net now (reg_RepoURL reg) (reg_Provider reg) r ws = (ws', r', resp)"
  shows "r' = r
    \<or> resp = None
      \<and> (\<exists>repo \<in> set (gc_Repositories c). \<exists>p \<in> set (gc_Providers c). \<exists>u req t.
           url_Parse (net_parseAuthority net) (repo_Url repo) = Inr u
           \<and> u_Scheme (gr_URL r) = u_Scheme u \<and> same_host (gr_URL r) u \<and> same_port (gr_URL r) u
           \<and> path_extends (gr_URL r) u
           \<and> gp_Id p = repo_Provider repo
           \<and> http_NewRequest (net_parseAuthority net) ''GET'' (gp_AccessTokenUrl p) [] = Inr req
           \<and> issued (rq_URL req) t
           \<and> r' = r\<lparr> gr_Header := header_set ''Authorization'' (''Basic '' @ encodeGitCredentials t)
                      (gr_Header r) \<rparr>)"
proof (cases "r' = r")
  case False
  note h = GetProxyHandler_Some [OF assms(2)]
  have "store_ok net issued (snd (w0, s0))" using h assms(1) by (simp add: store_ok_def)
  with ts_steps_ok [OF assms(4)] have ok: "store_ok net issued (snd ws)"
    and su: "same_setup s0 (snd ws)" by auto
  from False assms(5) obtain v where valid: "validGitRequest (reg_RepoURL reg) r" "resp = None"
    and g: "GetGitAccessToken net now (reg_Provider reg) True ws = (ws', Inr v)"
    and r': "r' = r\<lparr> gr_Header := header_set ''Authorization'' (''Basic '' @ v) (gr_Header r) \<rparr>"
    by (auto simp: handlerFunc_def split: if_splits prod.splits sum.splits)
  obtain t where t: "v = encodeGitCredentials t"
    "provider_issued net issued (snd ws') (reg_Provider reg) t"
    using tokens.get_issued [OF ok g] by blast
  have "same_setup (snd ws) (snd ws')" using ts_steps_ok [OF GetGit_steps [OF g] ok] by simp
  with su have su': "same_setup s0 (snd ws')" by (rule same_setup_trans)
  obtain repo where repo: "repo \<in> set (gc_Repositories c)"
    "url_Parse (net_parseAuthority net) (repo_Url repo) = Inr (reg_RepoURL reg)"
    "reg_Provider reg = repo_Provider repo" "fmlookup (ts_Providers s0) (reg_Provider reg) \<noteq> None"
    using register_repos_sound assms(3) h by metis
  then obtain p where p: "fmlookup (ts_Providers s0) (reg_Provider reg) = Some p" by blast
  then have p': "p \<in> set (gc_Providers c)" "gp_Id p = repo_Provider repo"
    using providers_by_id_lookup h repo(3) by auto
  have "provider_issued net issued s0 (reg_Provider reg) t"
    using t(2) provider_issued_setup [OF su', of net] by simp
  then obtain req where "http_NewRequest (net_parseAuthority net) ''GET'' (gp_AccessTokenUrl p) [] = Inr req"
    "issued (rq_URL req) t" using p by (auto simp: provider_issued_def provider_url_def)
  with validGitRequest_confined [OF valid(1)] valid(2) r' t(1) repo(1,2) p' show ?thesis by blast
qed simp

theorem git_credentials_confined_witness:
  "\<exists>regs reg ws' r' t. GetProxyHandler (net_parseAuthority sample_net) sample_git_config
       = Inr (Some sample_store, regs) \<and> reg \<in> set regs
     \<and> handlerFunc sample_net 1 (reg_RepoURL reg) (reg_Provider reg) sample_git_request
         ((), sample_store) = (ws', r', None)
     \<and> same_host (gr_URL sample_git_request) (reg_RepoURL reg) \<and> t = ''tok''
     \<and> r' = sample_git_request\<lparr> gr_Header := header_set ''Authorization''
         (''Basic '' @ encodeGitCredentials t) (gr_Header sample_git_request) \<rparr>"
proof -
  let ?u = "empty_url\<lparr> u_Path := ''/repo'' \<rparr>"
  let ?reg = "\<lparr> reg_Hosts = [[], ''www.'', '':443'', ''www.:443''], reg_RepoURL = ?u, reg_Provider = ''gl'' \<rparr>"
  have i: "issues_tokens sample_net (\<lambda>u t. t = ''tok'')" by (simp add: issues_tokens_def sample_net_def)
  have host: "url_Hostname ?u = []" "url_Hostname (gr_URL sample_git_request) = []"
    "url_Port ?u = []" "url_Port (gr_URL sample_git_request) = []"
    by (simp_all add: url_Hostname_def url_Port_def splitHostPort_def empty_url_def HasPrefix_def
        sample_git_request_def)
  have g: "GetProxyHandler (net_parseAuthority sample_net) sample_git_config = Inr (Some sample_store, [?reg])"
    by (simp add: GetProxyHandler_def sample_New bindE_def host(1) sample_parse)
       (simp add: sample_git_config_def sample_parse host(1) Let_def providers_by_id_def sample_provider_def)
  have valid: "validGitRequest ?u sample_git_request"
    by (simp add: validGitRequest_def hostsMatch_def getPort_def host TrimLeft_def HasPrefix_def)
       (simp add: sample_git_request_def empty_url_def)
  let ?r' = "sample_git_request\<lparr> gr_Header := header_set ''Authorization''
    (''Basic '' @ encodeGitCredentials ''tok'') (gr_Header sample_git_request) \<rparr>"
  obtain ws' r' where h: "handlerFunc sample_net 1 ?u ''gl'' sample_git_request ((), sample_store)
      = (ws', r', None)" and eq: "r' = ?r'"
    by (simp add: handlerFunc_def valid sample_get)
  have "gr_Header r' \<noteq> fmempty"
    unfolding eq by (simp add: header_set_def)
  then have r': "r' \<noteq> sample_git_request" by (auto simp: sample_git_request_def)
  from git_credentials_confined [OF i g _ rtranclp.rtrancl_refl, where reg = ?reg and now = 1
      and r = sample_git_request and ws' = ws' and r' = r' and resp = None] h r' obtain t where "t = ''tok''" "r' = sample_git_request\<lparr> gr_Header := header_set ''Authorization''
         (''Basic '' @ encodeGitCredentials t) (gr_Header sample_git_request) \<rparr>" by auto
  with g h validGitRequest_confined [OF valid] show ?thesis
    by (intro exI [of _ "[?reg]"] exI [of _ ?reg] exI [of _ ws'] exI [of _ r'] exI [of _ t]) simp
qed

text \<open>Tokens are cached. While the stored token of a provider is valid for longer than the
  leeway, asking again changes nothing, sends nothing and returns the same token; and an
  attempt that fails leaves all stored git tokens as they were.\<close>

lemma git_token_cached:
  assumes "GetGitAccessToken net now provider enc ws = (ws', r)"
  shows "case r of
      Inl e \<Rightarrow> ts_gitAccessTokens (snd ws') = ts_gitAccessTokens (snd ws)
    | Inr v \<Rightarrow> (\<exists>tok. fmlookup (ts_gitAccessTokens (snd ws')) provider = Some tok
        \<and> (from_Unix (tok_ExpiresAt tok) \<le> later + ts_ExpirationLeeway (snd ws')
            \<and> from_Unix (tok_ExpiresAt tok) \<noteq> 0
           \<or> GetGitAccessToken net later provider enc ws' = (ws', Inr v)))"
proof (cases r)
  case (Inl e)
  then have "refreshGitAccessToken net now provider ws = (ws', Some e)"
    using assms by (auto simp: GetGitAccessToken_def Let_def split: if_splits prod.splits option.splits)
  then show ?thesis using Inl refreshGit_result by fastforce
next
  case (Inr v)
  then obtain tok where tok: "fmlookup (ts_gitAccessTokens (snd ws')) provider = Some tok"
    "v = (if enc then encodeGitCredentials (tok_AccessToken tok) else tok_AccessToken tok)"
    using GetGit_stored assms by blast
  show ?thesis
  proof (cases "cached_valid later (snd ws') provider")
    case True
    then have "GetGitAccessToken net later provider enc ws' = (ws', Inr v)"
      using tok by (simp add: GetGitAccessToken_def read_git_token_def)
    with tok(1) Inr show ?thesis by simp
  next
    case False
    then have "from_Unix (tok_ExpiresAt tok) \<le> later + ts_ExpirationLeeway (snd ws')
        \<and> from_Unix (tok_ExpiresAt tok) \<noteq> 0"
      using tok(1) by (auto simp: cached_valid_def IsNotExpired_def Let_def split: if_splits)
    with tok(1) Inr show ?thesis by simp
  qed
qed

text \<open>For a configuration that passes validation and whose refresh period does not exceed the
  range of durations, the proxy starts exactly when the session is anonymous, or the
  authentication version is not \<open>v2\<close>, or the period is positive: the validation of
  \<open>v2\<close> does not check the period, and a period that is not positive panics at the start.\<close>

lemma validated_config_starts:
  assumes "Validate pa c = None"
    and "- (2 ^ 63) \<le> gc_RefreshCheckPeriodSeconds c * second"
        "gc_RefreshCheckPeriodSeconds c * second < 2 ^ 63"
  shows "(\<exists>h. GetProxyHandler pa c = Inr h) =
    (gc_AnonymousSession c \<or> gc_RenkuAuthenticationVersion c \<noteq> ''v2''
     \<or> 0 < gc_RefreshCheckPeriodSeconds c)"
proof -
  have "GetRefreshCheckPeriod c = gc_RefreshCheckPeriodSeconds c * second"
    using assms(2,3) by (simp add: GetRefreshCheckPeriod_def wrap64_id)
  then have "GetRefreshCheckPeriod c \<le> 0 \<longleftrightarrow> gc_RefreshCheckPeriodSeconds c \<le> 0"
    by (simp add: second_def mult_le_0_iff)
  moreover have "gc_AnonymousSession c \<or> gc_RenkuAuthenticationVersion c = ''v2''
      \<or> 0 < gc_RefreshCheckPeriodSeconds c"
    using assms(1) by (auto simp: Validate_def split: if_splits)
  ultimately show ?thesis by (auto simp: GetProxyHandler_def bindE_Inr_iff New_def)
qed

end
