(* ===== verification/Go_Action.thy ===== *)
theory Go_Action
  imports Go_Prelude
begin

text \<open>
  Code with effects: an action takes the world and returns the new world with a result. The
  type of the world is left open, so that what the operating system, the network and the
  remote services do is a parameter of the code that uses them.
\<close>

section \<open>Actions\<close>

type_synonym ('w, 'a) action = "'w \<Rightarrow> 'w \<times> 'a result"

definition returnA :: "'a \<Rightarrow> ('w, 'a) action" where
  "returnA x w = (w, Inr x)"

definition failA :: "go_error \<Rightarrow> ('w, 'a) action" where
  "failA e w = (w, Inl e)"

definition bindA :: "('w, 'a) action \<Rightarrow> ('a \<Rightarrow> ('w, 'b) action) \<Rightarrow> ('w, 'b) action" where
  "bindA m f w = (case m w of (w', Inl e) \<Rightarrow> (w', Inl e) | (w', Inr x) \<Rightarrow> f x w')"

text \<open>Looking at the error: the action never fails.\<close>

definition tryA :: "('w, 'a) action \<Rightarrow> ('w, go_error + 'a) action" where
  "tryA m w = (let (w', r) = m w in (w', Inr r))"

text \<open>
  A method of an object: an action on the pair of the world and the object. Actions of the
  world alone are lifted to it.
\<close>

definition liftA :: "('w, 'a) action \<Rightarrow> ('w \<times> 'c, 'a) action" where
  "liftA m = (\<lambda>(w, c). let (w', r) = m w in ((w', c), r))"

definition getA :: "('w \<times> 'c, 'c) action" where
  "getA = (\<lambda>(w, c). ((w, c), Inr c))"

definition modifyA :: "('c \<Rightarrow> 'c) \<Rightarrow> ('w \<times> 'c, unit) action" where
  "modifyA f = (\<lambda>(w, c). ((w, f c), Inr ()))"

text \<open>A loop that stops at the first error, and a result as an action.\<close>

fun forA :: "'a list \<Rightarrow> ('a \<Rightarrow> ('w, unit) action) \<Rightarrow> ('w, unit) action" where
  "forA [] f = returnA ()"
| "forA (x # xs) f = bindA (f x) (\<lambda>_. forA xs f)"

definition liftE :: "'a result \<Rightarrow> ('w, 'a) action" where
  "liftE r = (case r of Inl e \<Rightarrow> failA e | Inr x \<Rightarrow> returnA x)"

text \<open>An action that succeeds in every world, and one that keeps a property of the world.\<close>

definition succeeds :: "('w, 'a) action \<Rightarrow> bool" where
  "succeeds m \<longleftrightarrow> (\<forall>w. \<exists>w' x. m w = (w', Inr x))"

definition preserves :: "('w \<Rightarrow> bool) \<Rightarrow> ('w, 'a) action \<Rightarrow> bool" where
  "preserves P m \<longleftrightarrow> (\<forall>w. P w \<longrightarrow> P (fst (m w)))"

section \<open>Rules\<close>

lemma bindA_returnA [simp]: "bindA (returnA x) f = f x"
  by (simp add: bindA_def returnA_def fun_eq_iff)

lemma bindA_step: "m s = (s', Inr x) \<Longrightarrow> bindA m f s = f x s'"
  by (simp add: bindA_def)

lemma bindA_Inr_iff:
  "bindA m f s = (s', Inr y) \<longleftrightarrow> (\<exists>s1 x. m s = (s1, Inr x) \<and> f x s1 = (s', Inr y))"
  by (auto simp: bindA_def split: prod.splits sum.splits)

lemma liftA_eq_iff: "liftA m (w, c) = ((w', c'), r) \<longleftrightarrow> m w = (w', r) \<and> c' = c"
  by (auto simp: liftA_def split: prod.splits)

lemma object_simps [simp]:
  "getA (w, c) = ((w, c), Inr c)"
  "modifyA f (w, c) = ((w, f c), Inr ())"
  by (simp_all add: getA_def modifyA_def)

lemma tryA_eq_iff: "tryA m w = (w', Inr r) \<longleftrightarrow> m w = (w', r)"
  by (auto simp: tryA_def split: prod.splits)

lemma succeeds_bindA:
  assumes "succeeds m" "\<And>x. succeeds (f x)"
  shows "succeeds (bindA m f)"
  unfolding succeeds_def
proof
  fix w
  obtain w' x where "m w = (w', Inr x)" using assms(1) unfolding succeeds_def by blast
  then show "\<exists>w' x. bindA m f w = (w', Inr x)"
    using assms(2) by (simp add: bindA_def succeeds_def)
qed

lemma succeeds_rules [intro]:
  "succeeds (returnA x)"
  "succeeds (tryA m)"
  "(b \<Longrightarrow> succeeds m) \<Longrightarrow> (\<not> b \<Longrightarrow> succeeds m') \<Longrightarrow> succeeds (if b then m else m')"
  by (auto simp: succeeds_def returnA_def tryA_def split: prod.splits)

lemmas succeeds_intros = succeeds_rules succeeds_bindA

lemma preserves_rules [intro]:
  "preserves P (returnA x)"
  "preserves P (failA e)"
  "preserves P m \<Longrightarrow> (\<And>x. preserves P (f x)) \<Longrightarrow> preserves P (bindA m f)"
  "preserves P m \<Longrightarrow> preserves P (tryA m)"
  "preserves P m \<Longrightarrow> preserves P m' \<Longrightarrow> preserves P (if b then m else m')"
  by (auto simp: preserves_def returnA_def failA_def bindA_def tryA_def Let_def
      split: prod.splits sum.splits)

text \<open>A method that leaves a part of its object as it is.\<close>

definition keeps :: "('c \<Rightarrow> 'b) \<Rightarrow> ('w \<times> 'c, 'a) action \<Rightarrow> bool" where
  "keeps f m \<longleftrightarrow> (\<forall>w c. f (snd (fst (m (w, c)))) = f c)"

lemma keepsD: "keeps f m \<Longrightarrow> m (w, c) = ((w', c'), r) \<Longrightarrow> f c' = f c"
  unfolding keeps_def by (metis fst_conv snd_conv)

lemma keeps_bindA:
  assumes "keeps f m" "\<And>x. keeps f (g x)"
  shows "keeps f (bindA m g)"
  unfolding keeps_def
proof (intro allI)
  fix w c
  obtain w' c' r where m: "m (w, c) = ((w', c'), r)" by (metis surj_pair)
  show "f (snd (fst (bindA m g (w, c)))) = f c"
    using keepsD [OF assms(1) m] assms(2) m by (cases r) (simp_all add: bindA_def keeps_def)
qed

lemma keeps_rules:
  "keeps f (returnA x)"
  "keeps f (failA e)"
  "keeps f (liftA k)"
  "keeps f getA"
  "(\<And>c. f (g c) = f c) \<Longrightarrow> keeps f (modifyA g)"
  "keeps f (liftE r)"
  "(b \<Longrightarrow> keeps f m) \<Longrightarrow> (\<not> b \<Longrightarrow> keeps f m') \<Longrightarrow> keeps f (if b then m else m')"
  by (auto simp: keeps_def returnA_def failA_def liftA_def liftE_def Let_def
      split: prod.splits sum.splits)

lemma keeps_tryA: "keeps f m \<Longrightarrow> keeps f (tryA m)"
  unfolding keeps_def tryA_def by (simp add: split_beta Let_def)

lemma keeps_forA: "(\<And>x. keeps f (g x)) \<Longrightarrow> keeps f (forA xs g)"
  by (induction xs) (simp_all add: keeps_rules keeps_bindA)

lemma keeps_case:
  "(\<And>e. keeps f (g e)) \<Longrightarrow> (\<And>x. keeps f (k x)) \<Longrightarrow> keeps f (case r of Inl e \<Rightarrow> g e | Inr x \<Rightarrow> k x)"
  "keeps f m \<Longrightarrow> (\<And>x. keeps f (m' x)) \<Longrightarrow> keeps f (case y of None \<Rightarrow> m | Some x \<Rightarrow> m' x)"
  "(\<And>a b. keeps f (n a b)) \<Longrightarrow> keeps f (case z of (a, b) \<Rightarrow> n a b)"
  by (auto split: sum.split option.split prod.split)

lemmas keeps_intros = keeps_rules keeps_tryA keeps_bindA keeps_forA keeps_case

end
