(* ===== verification/Cloner.thy ===== *)
theory Cloner
  imports Git_Proxy Go_Action "HOL-Library.Word"
begin

text \<open>
  The repository cloner, \<^verbatim>\<open>src/internal/cloner/\<close>: the command \<^verbatim>\<open>cloner clone\<close> that the
  operator's init containers run (\<^verbatim>\<open>clone.go\<close>, \<^verbatim>\<open>root.go\<close>, \<^verbatim>\<open>enum_flag.go\<close>), and the command
  \<^verbatim>\<open>cloner shellclone\<close> that drives the git program (\<^verbatim>\<open>shellclone.go\<close>, \<^verbatim>\<open>cloner.go\<close>,
  \<^verbatim>\<open>repository.go\<close>, \<^verbatim>\<open>gitcli.go\<close>).

  The operating system, the git program, the go-git library and the decoders are the fields
  of the argument of type \<open>host\<close>. An action takes the world and returns the new world
  with a result; \<^verbatim>\<open>log.Fatal\<close> ends the program with the error as its result.
\<close>

section \<open>The host\<close>

record git_call =
  call_Dir :: string
  call_Args :: "string list"
  call_Env :: "string list"

datatype auth_method = PublicKeys string string string | BasicAuth string string

record CloneOptions =
  co_URL :: string
  co_SingleBranch :: bool
  co_ReferenceName :: string
  co_Auth :: "auth_method option"

record CloneFonfig =
  cfg_Username :: "string option"
  cfg_PrivateKey :: "string option"
  cfg_Password :: string

record GitCli =
  cli_repoDirectory :: string
  cli_username :: string
  cli_password :: string

record Repository =
  rep_URL :: string
  rep_Provider :: string
  rep_Branch :: "string option"
  rep_CommitSha :: "string option"
  rep_clonePath :: string
  rep_Cli :: GitCli

record 'w host =
  os_git :: "git_call \<Rightarrow> ('w, string) action"
  os_Stat :: "string \<Rightarrow> ('w, unit) action"
  os_MkdirAll :: "string \<Rightarrow> ('w, unit) action"
  os_RemoveAll :: "string \<Rightarrow> ('w, unit) action"
  os_ReadFile :: "string \<Rightarrow> ('w, string) action"
  os_WriteFile :: "string \<Rightarrow> string \<Rightarrow> ('w, unit) action"
  os_Getwd :: "('w, string) action"
  os_Statfs :: "string \<Rightarrow> ('w, 64 word \<times> 64 word) action"
  os_net :: "'w net"
  os_decode_lsfiles :: "string \<Rightarrow> 64 word list result"
  os_decode_repository :: "string \<Rightarrow> Repository result"
  os_decode_provider :: "string \<Rightarrow> GitProvider result"
  os_decode_config :: "string \<Rightarrow> CloneFonfig result"
  os_NewPublicKeys :: "string \<Rightarrow> string \<Rightarrow> string \<Rightarrow> auth_method result"
  os_NewEndpoint_Path :: "string \<Rightarrow> string result"
  os_PlainClone :: "string \<Rightarrow> CloneOptions \<Rightarrow> ('w, unit) action"

section \<open>The git command line\<close>

definition askpass :: string where "askpass = ''env-pass.sh''"

definition SetCredentials :: "string \<Rightarrow> string \<Rightarrow> GitCli \<Rightarrow> GitCli" where
  "SetCredentials username password g = g\<lparr> cli_username := username, cli_password := password \<rparr>"

definition cli_env :: "GitCli \<Rightarrow> string option \<Rightarrow> string list" where
  "cli_env g wd =
     (if cli_username g \<noteq> [] then [''GIT_USERNAME='' @ cli_username g] else [])
     @ (if cli_password g \<noteq> [] then [''GIT_PASSWORD='' @ cli_password g] else [])
     @ (case wd of Some path \<Rightarrow> [''GIT_ASKPASS='' @ filepath_Join [path, askpass]] | None \<Rightarrow> [])"

definition git_exec ::
  "'w host \<Rightarrow> GitCli \<Rightarrow> string \<Rightarrow> string list \<Rightarrow> string option \<Rightarrow> ('w, string) action" where
  "git_exec h g cmd args wd =
     bindA (tryA (os_git h \<lparr> call_Dir = cli_repoDirectory g, call_Args = cmd # args,
                              call_Env = cli_env g wd \<rparr>)) (\<lambda>r.
       case r of
         Inl e \<Rightarrow> failA (Err (''git failed: '' @ err_msg e))
       | Inr out \<Rightarrow> returnA out)"

definition git_run :: "'w host \<Rightarrow> GitCli \<Rightarrow> string \<Rightarrow> string list \<Rightarrow> ('w, string) action" where
  "git_run h g cmd args =
     (if cli_username g \<noteq> [] \<and> cli_password g \<noteq> []
      then bindA (os_Getwd h) (\<lambda>path. git_exec h g cmd args (Some path))
      else git_exec h g cmd args None)"

text \<open>The commands, one method each.\<close>

definition git_Config :: "'w host \<Rightarrow> GitCli \<Rightarrow> string list \<Rightarrow> ('w, string) action" where
  "git_Config h g args = git_run h g ''config'' args"

definition git_Push :: "'w host \<Rightarrow> GitCli \<Rightarrow> string list \<Rightarrow> ('w, string) action" where
  "git_Push h g args = git_run h g ''push'' args"

definition git_Submodule :: "'w host \<Rightarrow> GitCli \<Rightarrow> string list \<Rightarrow> ('w, string) action" where
  "git_Submodule h g args = git_run h g ''submodule'' args"

definition git_Checkout :: "'w host \<Rightarrow> GitCli \<Rightarrow> string list \<Rightarrow> ('w, string) action" where
  "git_Checkout h g args = git_run h g ''checkout'' args"

definition git_Lfs :: "'w host \<Rightarrow> GitCli \<Rightarrow> string list \<Rightarrow> ('w, string) action" where
  "git_Lfs h g args = git_run h g ''lfs'' args"

definition git_Branch :: "'w host \<Rightarrow> GitCli \<Rightarrow> string list \<Rightarrow> ('w, string) action" where
  "git_Branch h g args = git_run h g ''branch'' args"

definition git_Remote :: "'w host \<Rightarrow> GitCli \<Rightarrow> string list \<Rightarrow> ('w, string) action" where
  "git_Remote h g args = git_run h g ''remote'' args"

definition git_Reset :: "'w host \<Rightarrow> GitCli \<Rightarrow> string list \<Rightarrow> ('w, string) action" where
  "git_Reset h g args = git_run h g ''reset'' args"

definition git_Fetch :: "'w host \<Rightarrow> GitCli \<Rightarrow> string list \<Rightarrow> ('w, string) action" where
  "git_Fetch h g args = git_run h g ''fetch'' args"

definition git_RevParse :: "'w host \<Rightarrow> GitCli \<Rightarrow> string list \<Rightarrow> ('w, string) action" where
  "git_RevParse h g args = git_run h g ''rev-parse'' args"

definition git_Init :: "'w host \<Rightarrow> GitCli \<Rightarrow> string list \<Rightarrow> ('w, string) action" where
  "git_Init h g args = git_run h g ''init'' args"

definition git_Status :: "'w host \<Rightarrow> GitCli \<Rightarrow> string list \<Rightarrow> ('w, string) action" where
  "git_Status h g args = git_run h g ''status'' args"

definition git_Add :: "'w host \<Rightarrow> GitCli \<Rightarrow> string list \<Rightarrow> ('w, string) action" where
  "git_Add h g args = git_run h g ''add'' args"

definition git_Commit :: "'w host \<Rightarrow> GitCli \<Rightarrow> string list \<Rightarrow> ('w, string) action" where
  "git_Commit h g args = git_run h g ''commit'' args"

definition git_Clean :: "'w host \<Rightarrow> GitCli \<Rightarrow> string list \<Rightarrow> ('w, string) action" where
  "git_Clean h g args = git_run h g ''clean'' args"

definition git_Pull :: "'w host \<Rightarrow> GitCli \<Rightarrow> string list \<Rightarrow> ('w, string) action" where
  "git_Pull h g args = git_run h g ''pull'' args"

definition git_Clone :: "'w host \<Rightarrow> GitCli \<Rightarrow> string list \<Rightarrow> ('w, string) action" where
  "git_Clone h g args = git_run h g ''clone'' args"

definition git_Diff :: "'w host \<Rightarrow> GitCli \<Rightarrow> string list \<Rightarrow> ('w, string) action" where
  "git_Diff h g args = git_run h g ''diff'' args"

definition git_SymbolicRef :: "'w host \<Rightarrow> GitCli \<Rightarrow> string list \<Rightarrow> ('w, string) action" where
  "git_SymbolicRef h g args = git_run h g ''symbolic-ref'' args"

lemmas git_commands = git_Config_def git_Push_def git_Submodule_def git_Checkout_def git_Lfs_def
  git_Branch_def git_Remote_def git_Reset_def git_Fetch_def git_RevParse_def
  git_Init_def git_Status_def git_Add_def git_Commit_def git_Clean_def
  git_Pull_def git_Clone_def git_Diff_def git_SymbolicRef_def

definition NewGitCli :: "'w host \<Rightarrow> string \<Rightarrow> ('w, GitCli) action" where
  "NewGitCli h repoDirectory =
     bindA (os_Stat h repoDirectory) (\<lambda>_.
       returnA \<lparr> cli_repoDirectory = repoDirectory, cli_username = [], cli_password = [] \<rparr>)"

section \<open>Repositories\<close>

definition SetClonePath :: "'w host \<Rightarrow> string \<Rightarrow> Repository \<Rightarrow> ('w, Repository) action" where
  "SetClonePath h clonePath r =
     bindA (tryA (os_Stat h clonePath)) (\<lambda>st.
     bindA (case st of
              Inr _ \<Rightarrow> returnA ()
            | Inl e \<Rightarrow> if IsNotFound e then os_MkdirAll h clonePath else failA e) (\<lambda>_.
     bindA (NewGitCli h clonePath) (\<lambda>cli.
       returnA (r\<lparr> rep_clonePath := clonePath, rep_Cli := cli \<rparr>))))"

definition Exists :: "'w host \<Rightarrow> Repository \<Rightarrow> ('w, bool) action" where
  "Exists h r =
     bindA (tryA (git_RevParse h (rep_Cli r) [''--is-inside-work-tree''])) (\<lambda>res.
       returnA (case res of Inl _ \<Rightarrow> False | Inr out \<Rightarrow> str_Contains (ToLower out) ''true''))"

text \<open>
  The first match of \<^verbatim>\<open>refs/remotes/<name>/(?P<branch>.*)\<close>, for a remote name without
  special characters: the rest of the line after the first occurrence of the prefix.
\<close>

definition match_branch :: "string \<Rightarrow> string \<Rightarrow> string option" where
  "match_branch remoteName ref =
     (let p = ''refs/remotes/'' @ remoteName @ ''/'' in
      case str_Index ref p of
        None \<Rightarrow> None
      | Some i \<Rightarrow> Some (takeWhile (\<lambda>c. c \<noteq> CHR 0x0A) (drop (i + length p) ref)))"

definition DefaultBranch :: "'w host \<Rightarrow> string \<Rightarrow> Repository \<Rightarrow> ('w, string) action" where
  "DefaultBranch h remoteName r =
     bindA (tryA (git_Remote h (rep_Cli r) [''set-head'', remoteName, ''--auto''])) (\<lambda>res.
       case res of
         Inl _ \<Rightarrow> returnA []
       | Inr _ \<Rightarrow>
           bindA (git_SymbolicRef h (rep_Cli r) [''refs/remotes/'' @ remoteName @ ''/HEAD'']) (\<lambda>ref.
             case match_branch remoteName ref of
               None \<Rightarrow> failA (Err ''default branch does not exist'')
             | Some branch \<Rightarrow> returnA branch))"

definition GetLFSTotalSizeBytes :: "'w host \<Rightarrow> Repository \<Rightarrow> ('w, 64 word) action" where
  "GetLFSTotalSizeBytes h r =
     bindA (tryA (git_Lfs h (rep_Cli r) [''ls-files'', ''--json''])) (\<lambda>res.
       returnA (case res of
         Inl _ \<Rightarrow> 0
       | Inr out \<Rightarrow> (case os_decode_lsfiles h out of
            Inl _ \<Rightarrow> 0
          | Inr sizes \<Rightarrow> foldl (+) 0 sizes)))"

section \<open>Configuration of the shell cloner\<close>

record User =
  usr_Username :: string
  usr_Email :: string
  usr_FullName :: string
  usr_RenkuToken :: string

definition IsAnonymous :: "User \<Rightarrow> bool" where
  "IsAnonymous u \<longleftrightarrow> usr_RenkuToken u = []"

record CloneConfig =
  cc_MountPath :: string
  cc_LfsAutoFetch :: bool
  cc_IsGitProxyEnabled :: bool
  cc_GitProxyPort :: int
  cc_Repositories :: "Repository list"
  cc_GitProviders :: "GitProvider list"

definition repository_var :: "nat \<Rightarrow> string" where
  "repository_var i = ''GIT_CLONE_REPOSITORIES_'' @ show_nat i @ ''_''"

definition provider_var :: "nat \<Rightarrow> string" where
  "provider_var i = ''GIT_CLONE_GIT_PROVIDERS_'' @ show_nat i @ ''_''"

definition project_name :: "string \<Rightarrow> string result" where
  "project_name path =
     (let splittedRepo = FieldsFunc (CHR ''/'') path in
      if splittedRepo = [] then Inl (Err (''expecting repo in url path, received: '' @ path))
      else Inr (TrimSuffix (last splittedRepo) ''.git''))"

definition loadRepository :: "'w host \<Rightarrow> string \<Rightarrow> string \<Rightarrow> ('w, Repository) action" where
  "loadRepository h mountPath val =
     (case bindE (os_decode_repository h val) (\<lambda>repository.
           bindE (url_Parse (net_parseAuthority (os_net h)) (rep_URL repository)) (\<lambda>endpoint.
           bindE (project_name (u_Path endpoint)) (\<lambda>name. Inr (repository, name)))) of
        Inl e \<Rightarrow> failA e
      | Inr (repository, name) \<Rightarrow> SetClonePath h (filepath_Join [mountPath, name]) repository)"

text \<open>The variables that are set at an index from \<open>i\<close> on are finitely many, so the loops end.\<close>

definition set_from :: "(nat \<Rightarrow> string) \<Rightarrow> strmap \<Rightarrow> nat \<Rightarrow> string set" where
  "set_from var env i = {k. k \<in> fmdom' env \<and> (\<exists>j\<ge>i. k = var j)}"

lemma set_from_less:
  assumes "inj var" "fmlookup env (var i) \<noteq> None"
  shows "card (set_from var env (Suc i)) < card (set_from var env i)"
proof (rule psubset_card_mono)
  show "finite (set_from var env i)" by (simp add: set_from_def)
  have "var i \<in> set_from var env i" using assms(2) by (auto simp: set_from_def fmlookup_dom'_iff)
  moreover have "var i \<notin> set_from var env (Suc i)"
    using injD [OF assms(1)] by (fastforce simp: set_from_def)
  moreover have "set_from var env (Suc i) \<subseteq> set_from var env i"
    by (auto simp: set_from_def intro: Suc_leD)
  ultimately show "set_from var env (Suc i) \<subset> set_from var env i" by blast
qed

lemma inj_vars: "inj repository_var" "inj provider_var"
  by (simp_all add: inj_def repository_var_def provider_var_def)

function loadRepositories_loop ::
  "'w host \<Rightarrow> string \<Rightarrow> strmap \<Rightarrow> nat \<Rightarrow> Repository list \<Rightarrow> ('w, Repository list) action" where
  "loadRepositories_loop h mountPath env i repositories w =
     (case fmlookup env (repository_var i) of
        None \<Rightarrow> (w, Inr repositories)
      | Some val \<Rightarrow>
          (case loadRepository h mountPath val w of
             (w', Inl e) \<Rightarrow> (w', Inl e)
           | (w', Inr repository) \<Rightarrow>
               loadRepositories_loop h mountPath env (Suc i) (repositories @ [repository]) w'))"
  by pat_completeness auto
termination
  by (relation "measure (\<lambda>(h, p, env, i, rs, w). card (set_from repository_var env i))")
     (auto intro!: set_from_less inj_vars)

definition loadRepositories ::
  "'w host \<Rightarrow> string \<Rightarrow> strmap \<Rightarrow> ('w, Repository list) action" where
  "loadRepositories h mountPath env = loadRepositories_loop h mountPath env 0 []"

function loadGitProviders_loop ::
  "(string \<Rightarrow> GitProvider result) \<Rightarrow> strmap \<Rightarrow> nat \<Rightarrow> GitProvider list \<Rightarrow> GitProvider list result" where
  "loadGitProviders_loop decode env i providers =
     (case fmlookup env (provider_var i) of
        None \<Rightarrow> Inr providers
      | Some val \<Rightarrow>
          (case decode val of
             Inl e \<Rightarrow> Inl e
           | Inr provider \<Rightarrow> loadGitProviders_loop decode env (Suc i) (providers @ [provider])))"
  by pat_completeness auto
termination
  by (relation "measure (\<lambda>(d, env, i, ps). card (set_from provider_var env i))")
     (auto intro!: set_from_less inj_vars)

definition loadGitProviders :: "(string \<Rightarrow> GitProvider result) \<Rightarrow> strmap \<Rightarrow> GitProvider list result" where
  "loadGitProviders decode env = loadGitProviders_loop decode env 0 []"

declare loadRepositories_loop.simps [simp del] loadGitProviders_loop.simps [simp del]

section \<open>Cloning with the git program\<close>

record Cloner =
  cln_config :: CloneConfig
  cln_user :: User
  cln_remoteName :: string

definition proxyURL :: "Cloner \<Rightarrow> string" where
  "proxyURL c = ''http://localhost:'' @ show_int (cc_GitProxyPort (cln_config c))"

definition setupProxy :: "'w host \<Rightarrow> Cloner \<Rightarrow> Repository \<Rightarrow> ('w, unit) action" where
  "setupProxy h c repository =
     (if \<not> cc_IsGitProxyEnabled (cln_config c) then returnA ()
      else bindA (git_Config h (rep_Cli repository) [''http.proxy'', proxyURL c]) (\<lambda>_.
           bindA (git_Config h (rep_Cli repository) [''http.sslVerify'', ''false'']) (\<lambda>_.
             returnA ())))"

definition getAccessToken :: "'w host \<Rightarrow> Cloner \<Rightarrow> string \<Rightarrow> ('w, string) action" where
  "getAccessToken h c providerId =
     (case find (\<lambda>p. gp_Id p = providerId) (cc_GitProviders (cln_config c)) of
        None \<Rightarrow> returnA []
      | Some provider \<Rightarrow>
          (case http_NewRequest (net_parseAuthority (os_net h)) ''GET'' (gp_AccessTokenUrl provider) [] of
             Inl e \<Rightarrow> failA e
           | Inr req \<Rightarrow>
               bindA (fetch (os_net h) (net_decode_git (os_net h))
                  ''cannot exchange renku token for git token, failed with status code: ''
                  (Header_Set ''Authorization'' (''Bearer '' @ usr_RenkuToken (cln_user c)) req))
                 (\<lambda>parsed. returnA (tok_AccessToken parsed))))"

definition initializeRepository :: "'w host \<Rightarrow> Cloner \<Rightarrow> Repository \<Rightarrow> ('w, unit) action" where
  "initializeRepository h c repository =
     (let config = git_Config h (rep_Cli repository) in
      bindA (git_Init h (rep_Cli repository) [''--initial-branch'', ''main'']) (\<lambda>_.
      bindA (if usr_Email (cln_user c) \<noteq> []
             then config [''user.email'', usr_Email (cln_user c)] else returnA []) (\<lambda>_.
      bindA (if usr_FullName (cln_user c) \<noteq> []
             then config [''user.name'', usr_FullName (cln_user c)] else returnA []) (\<lambda>_.
      bindA (config [''push.default'', ''simple'']) (\<lambda>_. returnA ())))))"

definition fetch_lfs :: "'w host \<Rightarrow> Repository \<Rightarrow> ('w, unit) action" where
  "fetch_lfs h repository =
     bindA (GetLFSTotalSizeBytes h repository) (\<lambda>totalLfsSize.
     bindA (os_Statfs h (rep_clonePath repository)) (\<lambda>(bavail, bsize).
       let availableSpace = bavail * bsize in
       if availableSpace < totalLfsSize then failA (Err ''not enough free space'')
       else bindA (git_Lfs h (rep_Cli repository) [''install'', ''--local'']) (\<lambda>_.
            bindA (git_Lfs h (rep_Cli repository) [''pull'']) (\<lambda>_. returnA ()))))"

definition Cloner_clone :: "'w host \<Rightarrow> Cloner \<Rightarrow> Repository \<Rightarrow> ('w, unit) action" where
  "Cloner_clone h c repository =
     (let g = rep_Cli repository; lfs = cc_LfsAutoFetch (cln_config c) in
      bindA (git_Lfs h g ([''install''] @ (if \<not> lfs then [''--skip-smudge''] else []) @ [''--local''])) (\<lambda>_.
      bindA (git_Remote h g [''add'', cln_remoteName c, rep_URL repository]) (\<lambda>_.
      bindA (git_Fetch h g [cln_remoteName c]) (\<lambda>_.
      bindA (case rep_Branch repository of
               None \<Rightarrow> DefaultBranch h (cln_remoteName c) repository
             | Some b \<Rightarrow> returnA b) (\<lambda>branch.
      bindA (if branch \<noteq> [] then git_Checkout h g [branch] else returnA []) (\<lambda>_.
      bindA (if lfs then fetch_lfs h repository else returnA ()) (\<lambda>_.
      bindA (tryA (git_Submodule h g [''update'', ''--init''])) (\<lambda>r.
        case r of
          Inl e \<Rightarrow> failA (Err (''failed to inialize submodules: '' @ err_msg e))
        | Inr _ \<Rightarrow> returnA ()))))))))"

definition Cloner_execute :: "'w host \<Rightarrow> Cloner \<Rightarrow> Repository \<Rightarrow> ('w, unit) action" where
  "Cloner_execute h c repository =
     bindA (Exists h repository) (\<lambda>exists.
       if exists then setupProxy h c repository
       else
         bindA (if rep_Provider repository \<noteq> [] then
                  bindA (tryA (getAccessToken h c (rep_Provider repository))) (\<lambda>r.
                    returnA (case r of Inl _ \<Rightarrow> [] | Inr tok \<Rightarrow> tok))
                else returnA []) (\<lambda>gitAccessToken.
         bindA (initializeRepository h c repository) (\<lambda>_.
           let gitUser = (if IsAnonymous (cln_user c) \<or> gitAccessToken = [] then [] else ''oauth2'');
               repository1 = repository\<lparr> rep_Cli :=
                 SetCredentials gitUser gitAccessToken (rep_Cli repository) \<rparr> in
           bindA (tryA (Cloner_clone h c repository1)) (\<lambda>r.
             case r of
               Inl e \<Rightarrow> os_WriteFile h (filepath_Join [rep_clonePath repository, ''ERROR''])
                 (''Cannot clone '' @ rep_URL repository @ '':'' @ [CHR 0x0A] @ '' '' @ err_msg e)
             | Inr _ \<Rightarrow> setupProxy h c repository1))))"

fun Cloner_Run_loop :: "'w host \<Rightarrow> Cloner \<Rightarrow> Repository list \<Rightarrow> ('w, unit) action" where
  "Cloner_Run_loop h c [] = returnA ()"
| "Cloner_Run_loop h c (repository # repositories) =
     bindA (Cloner_execute h c repository) (\<lambda>_. Cloner_Run_loop h c repositories)"

definition Cloner_Run :: "'w host \<Rightarrow> Cloner \<Rightarrow> ('w, unit) action" where
  "Cloner_Run h c = Cloner_Run_loop h c (cc_Repositories (cln_config c))"

text \<open>The command \<^verbatim>\<open>shellclone\<close>, after its configuration has been read.\<close>

definition shellClone :: "'w host \<Rightarrow> CloneConfig \<Rightarrow> User \<Rightarrow> strmap \<Rightarrow> ('w, unit) action" where
  "shellClone h config user env =
     bindA (loadRepositories h (cc_MountPath config) env) (\<lambda>repositories.
       case loadGitProviders (os_decode_provider h) env of
         Inl e \<Rightarrow> failA e
       | Inr providers \<Rightarrow>
           Cloner_Run h \<lparr> cln_config = config\<lparr> cc_Repositories := repositories,
             cc_GitProviders := providers \<rparr>, cln_user = user, cln_remoteName = ''origin'' \<rparr>)"

section \<open>Cloning with the library\<close>

record enum =
  enum_Allowed :: "string list"
  enum_Value :: string

definition newEnum :: "string list \<Rightarrow> string \<Rightarrow> enum" where
  "newEnum allowed def = \<lparr> enum_Allowed = allowed, enum_Value = def \<rparr>"

definition enum_Set :: "string \<Rightarrow> enum \<Rightarrow> enum result" where
  "enum_Set value flag =
     (if value \<notin> set (enum_Allowed flag)
      then Inl (Err (value @ '' is not included in '' @ str_Join (enum_Allowed flag) '',''))
      else Inr (flag\<lparr> enum_Value := value \<rparr>))"

definition enum_Equal :: "enum \<Rightarrow> string \<Rightarrow> bool" where
  "enum_Equal flag value \<longleftrightarrow> enum_Value flag = value"

definition NotIfExist :: string where "NotIfExist = ''notifexist''"
definition Overwrite :: string where "Overwrite = ''overwrite''"
definition NoStrategy :: string where "NoStrategy = ''nostrategy''"

definition PreCloningStrategies :: "string list" where
  "PreCloningStrategies = [NotIfExist, Overwrite, NoStrategy]"

text \<open>The flags of the command as the command line sets them.\<close>

record clone_flags =
  fl_configPath :: string
  fl_remote :: string
  fl_revision :: string
  fl_path :: string
  fl_strategy :: "string option"

text \<open>The result is whether the program goes on; otherwise it exits with success.\<close>

definition applyPreCloningStrategy :: "'w host \<Rightarrow> enum \<Rightarrow> string \<Rightarrow> ('w, bool) action" where
  "applyPreCloningStrategy h preCloningStrategy clonePath =
     (if enum_Equal preCloningStrategy NoStrategy then returnA True
      else bindA (tryA (os_Stat h clonePath)) (\<lambda>st.
        case st of
          Inl e \<Rightarrow> if IsNotFound e then returnA True else failA e
        | Inr _ \<Rightarrow>
            if enum_Equal preCloningStrategy NotIfExist then returnA False
            else if enum_Equal preCloningStrategy Overwrite
            then bindA (os_RemoveAll h (clonePath @ ''/'')) (\<lambda>_. returnA True)
            else returnA True))"

definition clone_auth :: "'w host \<Rightarrow> string \<Rightarrow> auth_method option result" where
  "clone_auth h buf =
     bindE (os_decode_config h buf) (\<lambda>cfg.
       case cfg_PrivateKey cfg of
         Some key \<Rightarrow> bindE (os_NewPublicKeys h ''git'' key (cfg_Password cfg)) (\<lambda>k. Inr (Some k))
       | None \<Rightarrow>
           (case cfg_Username cfg of
              Some user \<Rightarrow> Inr (Some (BasicAuth user (cfg_Password cfg)))
            | None \<Rightarrow> Inl (Err ''Invalid authentication configuration one username or privateKey must be set'')))"

definition clone :: "'w host \<Rightarrow> enum \<Rightarrow> clone_flags \<Rightarrow> ('w, unit) action" where
  "clone h preCloningStrategy flags =
     (case bindE (os_NewEndpoint_Path h (fl_remote flags)) project_name of
        Inl e \<Rightarrow> failA e
      | Inr projectName \<Rightarrow>
          (let clonePath = (if fl_path flags \<noteq> [] then fl_path flags @ ''/'' @ projectName
                            else projectName);
               opts = \<lparr> co_URL = fl_remote flags, co_SingleBranch = True,
                        co_ReferenceName = fl_revision flags, co_Auth = None \<rparr> in
           bindA (applyPreCloningStrategy h preCloningStrategy clonePath) (\<lambda>goon.
             if \<not> goon then returnA ()
             else
               bindA (if fl_configPath flags \<noteq> [] then
                        bindA (os_ReadFile h (fl_configPath flags)) (\<lambda>buf.
                          case clone_auth h buf of
                            Inl e \<Rightarrow> failA e
                          | Inr a \<Rightarrow> returnA (opts\<lparr> co_Auth := a \<rparr>))
                      else returnA opts) (\<lambda>cloneOptions.
               os_PlainClone h clonePath cloneOptions))))"

text \<open>
  \<^verbatim>\<open>root.go\<close>: the flag \<^verbatim>\<open>--strategy\<close> sets a local variable of \<^verbatim>\<open>Command\<close>, which hides the
  package variable of the same name; \<open>clone\<close> reads the package variable, and nothing sets it.
\<close>

definition package_preCloningStrategy :: enum where
  "package_preCloningStrategy = newEnum PreCloningStrategies NoStrategy"

definition Command :: "'w host \<Rightarrow> clone_flags \<Rightarrow> ('w, unit) action" where
  "Command h flags =
     (let preCloningStrategy = newEnum PreCloningStrategies NoStrategy in
      case (case fl_strategy flags of
              None \<Rightarrow> Inr preCloningStrategy | Some v \<Rightarrow> enum_Set v preCloningStrategy) of
        Inl e \<Rightarrow> failA e
      | Inr _ \<Rightarrow> clone h package_preCloningStrategy flags)"

end
