(* ===== verification/Cloner_Props.thy ===== *)
theory Cloner_Props
  imports Cloner
begin

text \<open>
  What holds of the cloner: which variables it reads and where it clones, that a clone that
  fails does not stop the others, that repositories without a provider are cloned without
  credentials, and what the strategy flag does.
\<close>

section \<open>Specification\<close>

text \<open>A host whose git program starts repositories and sets options, and whose files can be written.\<close>

definition reliable_host :: "'w host \<Rightarrow> bool" where
  "reliable_host h \<longleftrightarrow> succeeds (os_Getwd h) \<and> (\<forall>p s. succeeds (os_WriteFile h p s))
     \<and> (\<forall>call. hd (call_Args call) \<in> {''init'', ''config''} \<longrightarrow> succeeds (os_git h call))"

definition no_credentials :: "GitCli \<Rightarrow> bool" where
  "no_credentials g \<longleftrightarrow> cli_username g = [] \<and> cli_password g = []"

text \<open>A property that the calls without credentials and the file system keep.\<close>

definition harmless :: "'w host \<Rightarrow> ('w \<Rightarrow> bool) \<Rightarrow> bool" where
  "harmless h P \<longleftrightarrow> (\<forall>call. call_Env call = [] \<longrightarrow> preserves P (os_git h call))
     \<and> (\<forall>p s. preserves P (os_WriteFile h p s)) \<and> (\<forall>p. preserves P (os_Statfs h p))"

section \<open>Samples\<close>

text \<open>
  A host that logs the git calls. Nothing is a repository yet, and fetching fails. Existing
  targets of the library's clone are refused, as documented.
\<close>

definition log_host :: "git_call list host" where
  "log_host = \<lparr> os_git = (\<lambda>call w. (w @ [call],
       if hd (call_Args call) \<in> {''rev-parse'', ''fetch''} then Inl (Err ''exit status 128'') else Inr [])),
     os_Stat = (\<lambda>_ w. (w, Inr ())), os_MkdirAll = (\<lambda>_ w. (w, Inr ())),
     os_RemoveAll = (\<lambda>_ w. (w, Inr ())), os_ReadFile = (\<lambda>_ w. (w, Inr [])),
     os_WriteFile = (\<lambda>_ _ w. (w, Inr ())), os_Getwd = (\<lambda>w. (w, Inr ''/'')),
     os_Statfs = (\<lambda>_ w. (w, Inr (1, 4096))),
     os_net = \<lparr> net_Do = (\<lambda>_ w. (w, Inl (Err ''no route to host''))),
       net_decode_git = (\<lambda>_. Inl (Err [])), net_decode_renku = (\<lambda>_. Inl (Err [])),
       net_jwt_expiry = (\<lambda>_. Inr None), net_parseAuthority = (\<lambda>a. Inr (None, a)) \<rparr>,
     os_decode_lsfiles = (\<lambda>_. Inr []),
     os_decode_repository = (\<lambda>v. Inr \<lparr> rep_URL = v, rep_Provider = [], rep_Branch = None,
       rep_CommitSha = None, rep_clonePath = [],
       rep_Cli = \<lparr> cli_repoDirectory = [], cli_username = [], cli_password = [] \<rparr> \<rparr>),
     os_decode_provider = (\<lambda>v. Inr \<lparr> gp_Id = v, gp_AccessTokenUrl = v \<rparr>),
     os_decode_config = (\<lambda>_. Inl (Err [])), os_NewPublicKeys = (\<lambda>u k p. Inr (PublicKeys u k p)),
     os_NewEndpoint_Path = (\<lambda>_. Inr ''/group/repo.git''),
     os_PlainClone = (\<lambda>_ _ w. (w, Inl (Err ''repository already exists''))) \<rparr>"

definition sample_public :: Repository where
  "sample_public = \<lparr> rep_URL = ''/group/repo.git'', rep_Provider = [], rep_Branch = None,
     rep_CommitSha = None, rep_clonePath = ''/work/repo'',
     rep_Cli = \<lparr> cli_repoDirectory = ''/work/repo'', cli_username = [], cli_password = [] \<rparr> \<rparr>"

definition sample_cloner :: Cloner where
  "sample_cloner = \<lparr> cln_config = \<lparr> cc_MountPath = ''/work'', cc_LfsAutoFetch = True,
     cc_IsGitProxyEnabled = True, cc_GitProxyPort = 8080, cc_Repositories = [sample_public],
     cc_GitProviders = [] \<rparr>,
     cln_user = \<lparr> usr_Username = ''alice'', usr_Email = [], usr_FullName = [], usr_RenkuToken = ''t'' \<rparr>,
     cln_remoteName = ''origin'' \<rparr>"

section \<open>A clone that fails\<close>

lemma git_exec_succeeds:
  assumes "\<And>call. call_Args call = cmd # args \<Longrightarrow> succeeds (os_git h call)"
  shows "succeeds (git_exec h g cmd args wd)"
  unfolding succeeds_def
proof
  fix w
  obtain w' x where "os_git h \<lparr> call_Dir = cli_repoDirectory g, call_Args = cmd # args,
      call_Env = cli_env g wd \<rparr> w = (w', Inr x)"
    using assms unfolding succeeds_def by (metis git_call.select_convs(2))
  then show "\<exists>w' x. git_exec h g cmd args wd w = (w', Inr x)"
    by (simp add: git_exec_def bindA_def tryA_def returnA_def)
qed

lemma git_run_succeeds:
  assumes "reliable_host h" "cmd \<in> {''init'', ''config''}"
  shows "succeeds (git_run h g cmd args)"
proof -
  have "succeeds (os_git h call)" if "call_Args call = cmd # args" for call
    using assms that unfolding reliable_host_def by (metis list.sel(1))
  then have "succeeds (git_exec h g cmd args wd)" for wd by (rule git_exec_succeeds)
  moreover have "succeeds (os_Getwd h)" using assms(1) by (simp add: reliable_host_def)
  ultimately show ?thesis unfolding git_run_def by (intro succeeds_intros)
qed

lemma setupProxy_succeeds: "reliable_host h \<Longrightarrow> succeeds (setupProxy h c r)"
  unfolding setupProxy_def git_commands by (intro succeeds_intros git_run_succeeds) simp_all

lemma initializeRepository_succeeds: "reliable_host h \<Longrightarrow> succeeds (initializeRepository h c r)"
  unfolding initializeRepository_def git_commands Let_def by (intro succeeds_intros git_run_succeeds) simp_all

lemma Exists_succeeds: "succeeds (Exists h r)"
  unfolding Exists_def git_commands by (intro succeeds_intros)

lemma Cloner_execute_succeeds:
  assumes "reliable_host h"
  shows "succeeds (Cloner_execute h c r)"
proof -
  have "succeeds (case x of
      Inl e \<Rightarrow> os_WriteFile h p (s e) | Inr _ \<Rightarrow> setupProxy h c r')" for x :: "go_error + unit" and p s r'
    using assms setupProxy_succeeds by (auto simp: reliable_host_def split: sum.splits)
  then show ?thesis
    unfolding Cloner_execute_def Let_def
    by (intro succeeds_intros Exists_succeeds setupProxy_succeeds initializeRepository_succeeds assms)
qed

text \<open>C35: A repository that cannot be cloned does not stop the others. As long as the git program
  can start repositories and set options and the error file can be written, the whole run
  succeeds, whatever the token exchange, the fetch, the checkout, the large files and the
  submodules of any repository do.\<close>

theorem clone_failures_contained:
  assumes "reliable_host h"
  shows "\<exists>w'. Cloner_Run h c w = (w', Inr ())"
proof -
  have "succeeds (Cloner_Run_loop h c rs)" for rs
    by (induction rs) (use Cloner_execute_succeeds [OF assms] in \<open>auto intro!: succeeds_intros\<close>)
  then show ?thesis unfolding Cloner_Run_def succeeds_def by (metis (full_types) old.unit.exhaust)
qed

theorem clone_failures_contained_witness:
  "reliable_host log_host \<and> (\<exists>w'. Cloner_Run log_host sample_cloner [] = (w', Inr ()))"
proof -
  have "reliable_host log_host" by (simp add: reliable_host_def succeeds_def log_host_def)
  with clone_failures_contained [of log_host sample_cloner "[]"] show ?thesis by blast
qed

section \<open>Credentials\<close>

lemma git_run_preserves:
  assumes "\<And>call. call_Env call = [] \<Longrightarrow> preserves P (os_git h call)" "no_credentials g"
  shows "preserves P (git_run h g cmd args)"
proof -
  have "cli_env g None = []" using assms(2) by (simp add: no_credentials_def cli_env_def)
  then have "preserves P (git_exec h g cmd args None)"
    unfolding git_exec_def using assms(1) by (intro preserves_rules) (auto split: sum.splits)
  then show ?thesis using assms(2) by (simp add: git_run_def no_credentials_def)
qed

lemma preserves_cases [intro]:
  "(\<And>e. preserves P (f e)) \<Longrightarrow> (\<And>x. preserves P (g x)) \<Longrightarrow> preserves P (case r of Inl e \<Rightarrow> f e | Inr x \<Rightarrow> g x)"
  "preserves P m \<Longrightarrow> (\<And>x. preserves P (g x)) \<Longrightarrow> preserves P (case b of None \<Rightarrow> m | Some x \<Rightarrow> g x)"
  "(\<And>x y. preserves P (k x y)) \<Longrightarrow> preserves P (case p of (x, y) \<Rightarrow> k x y)"
  by (auto split: sum.splits option.splits prod.splits)

lemmas preserves_intros = preserves_rules preserves_cases

lemma harmless_git: "harmless h P \<Longrightarrow> no_credentials g \<Longrightarrow> preserves P (git_run h g cmd args)"
  by (rule git_run_preserves) (auto simp: harmless_def)

lemma repository_preserves:
  assumes "harmless h P" "no_credentials (rep_Cli r)"
  shows "preserves P (Exists h r)" "preserves P (DefaultBranch h n r)"
    "preserves P (setupProxy h c r)" "preserves P (initializeRepository h c r)"
    "preserves P (fetch_lfs h r)"
proof -
  note git = harmless_git [OF assms]
  have fs: "preserves P (os_Statfs h p)" for p using assms(1) by (simp add: harmless_def)
  show "preserves P (Exists h r)" unfolding Exists_def git_commands by (intro preserves_intros git)
  show "preserves P (DefaultBranch h n r)" unfolding DefaultBranch_def git_commands by (intro preserves_intros git)
  show "preserves P (setupProxy h c r)" unfolding setupProxy_def git_commands by (intro preserves_intros git)
  show "preserves P (initializeRepository h c r)"
    unfolding initializeRepository_def git_commands Let_def by (intro preserves_intros git)
  show "preserves P (fetch_lfs h r)"
    unfolding fetch_lfs_def git_commands GetLFSTotalSizeBytes_def Let_def by (intro preserves_intros git fs)
qed

lemma Cloner_clone_preserves:
  assumes "harmless h P" "no_credentials (rep_Cli r)"
  shows "preserves P (Cloner_clone h c r)"
  unfolding Cloner_clone_def git_commands Let_def
  by (intro preserves_intros harmless_git repository_preserves assms)

lemma Cloner_execute_public:
  assumes "harmless h P" "no_credentials (rep_Cli r)" "rep_Provider r = []"
  shows "preserves P (Cloner_execute h c r)"
proof -
  have "no_credentials (rep_Cli (r\<lparr> rep_Cli := SetCredentials [] [] (rep_Cli r) \<rparr>))"
    by (simp add: no_credentials_def SetCredentials_def)
  note rest = Cloner_clone_preserves [OF assms(1) this] repository_preserves [OF assms(1) this]
  have "preserves P (os_WriteFile h p s)" for p s using assms(1) by (simp add: harmless_def)
  note rest' = this repository_preserves [OF assms(1,2)]
  have "Cloner_execute h c r = bindA (Exists h r) (\<lambda>exists.
      if exists then setupProxy h c r
      else bindA (initializeRepository h c r) (\<lambda>_.
        let r1 = r\<lparr> rep_Cli := SetCredentials [] [] (rep_Cli r) \<rparr> in
        bindA (tryA (Cloner_clone h c r1)) (\<lambda>x. case x of
          Inl e \<Rightarrow> os_WriteFile h (filepath_Join [rep_clonePath r, ''ERROR''])
                 (''Cannot clone '' @ rep_URL r @ '':'' @ [CHR 0x0A] @ '' '' @ err_msg e)
        | Inr _ \<Rightarrow> setupProxy h c r1)))"
    by (simp add: Cloner_execute_def assms(3) bindA_def returnA_def fun_eq_iff Let_def
        split: prod.split sum.split)
  then show ?thesis unfolding Let_def by (simp only:) (intro preserves_intros rest rest')
qed

text \<open>Repositories without a git provider are cloned without credentials: a run over such
  repositories asks for no token, and every git command it starts has an environment
  without user name, password or askpass program. This is stated for every property of the
  world that commands without credentials keep.\<close>

lemma public_repositories_without_credentials:
  assumes "harmless h P"
    and "list_all (\<lambda>r. rep_Provider r = [] \<and> no_credentials (rep_Cli r)) (cc_Repositories (cln_config c))"
    and "P w"
  shows "P (fst (Cloner_Run h c w))"
proof -
  have "list_all (\<lambda>r. rep_Provider r = [] \<and> no_credentials (rep_Cli r)) rs
      \<Longrightarrow> preserves P (Cloner_Run_loop h c rs)" for rs
    using Cloner_execute_public [OF assms(1)] by (induction rs) (auto intro!: preserves_intros)
  then show ?thesis using assms(2,3) by (simp add: Cloner_Run_def preserves_def)
qed

section \<open>Reading the repositories\<close>

lemma SetClonePath_result:
  "SetClonePath h p r w = (w', Inr r') \<Longrightarrow> r' = r\<lparr> rep_clonePath := p,
     rep_Cli := \<lparr> cli_repoDirectory = p, cli_username = [], cli_password = [] \<rparr> \<rparr>"
  by (auto simp: SetClonePath_def NewGitCli_def bindA_def returnA_def
      split: prod.splits sum.splits)

text \<open>What a variable with this value becomes.\<close>

definition loaded :: "'w host \<Rightarrow> string \<Rightarrow> string \<Rightarrow> Repository \<Rightarrow> bool" where
  "loaded h mountPath val r \<longleftrightarrow>
     (\<exists>repository u name. os_decode_repository h val = Inr repository
        \<and> url_Parse (net_parseAuthority (os_net h)) (rep_URL repository) = Inr u
        \<and> project_name (u_Path u) = Inr name
        \<and> r = repository\<lparr> rep_clonePath := filepath_Join [mountPath, name],
            rep_Cli := \<lparr> cli_repoDirectory = filepath_Join [mountPath, name],
              cli_username = [], cli_password = [] \<rparr> \<rparr>)"

lemma loadRepository_loaded:
  "loadRepository h m val w = (w', Inr r) \<Longrightarrow> loaded h m val r"
  unfolding loadRepository_def loaded_def
  by (auto simp: failA_def bindE_Inr_iff split: sum.splits prod.splits dest!: SetClonePath_result)

lemma loadRepositories_loop_result:
  "loadRepositories_loop h m env i rs w = (w', Inr out) \<Longrightarrow>
     \<exists>n. fmlookup env (repository_var (i + n)) = None
       \<and> (\<forall>j<n. fmlookup env (repository_var (i + j)) \<noteq> None) \<and> length out = length rs + n
       \<and> take (length rs) out = rs
       \<and> (\<forall>j<n. loaded h m (the (fmlookup env (repository_var (i + j)))) (out ! (length rs + j)))"
proof (induction h m env i rs w rule: loadRepositories_loop.induct)
  case (1 h m env i rs w)
  show ?case
  proof (cases "fmlookup env (repository_var i)")
    case None
    with 1(2) show ?thesis by (intro exI [of _ 0]) (simp add: loadRepositories_loop.simps [of h m env i])
  next
    case (Some val)
    with 1(2) obtain w1 r where r: "loadRepository h m val w = (w1, Inr r)"
      and loop: "loadRepositories_loop h m env (Suc i) (rs @ [r]) w1 = (w', Inr out)"
      by (auto simp: loadRepositories_loop.simps [of h m env i] split: prod.splits sum.splits)
    from 1(1) [OF Some r [symmetric] refl loop] obtain n where
      n: "fmlookup env (repository_var (Suc i + n)) = None"
        "\<forall>j<n. fmlookup env (repository_var (Suc i + j)) \<noteq> None"
        "length out = length (rs @ [r]) + n" "take (length (rs @ [r])) out = rs @ [r]"
        "\<forall>j<n. loaded h m (the (fmlookup env (repository_var (Suc i + j)))) (out ! (length (rs @ [r]) + j))"
      by blast
    have r': "out ! length rs = r" using n(4) by (metis length_append_singleton lessI nth_append_length nth_take)
    have rs: "take (length rs) out = rs"
      using n(4) by (metis append_eq_conv_conj length_append_singleton lessI less_or_eq_imp_le min.absorb1 take_take)
    have "loaded h m val r" using r by (rule loadRepository_loaded)
    with n(5) Some r' have "\<forall>j<Suc n. loaded h m (the (fmlookup env (repository_var (i + j)))) (out ! (length rs + j))"
      by (auto simp: less_Suc_eq_0_disj)
    moreover have "\<forall>j<Suc n. fmlookup env (repository_var (i + j)) \<noteq> None"
      using n(2) Some by (auto simp: less_Suc_eq_0_disj)
    ultimately show ?thesis using n(1,3) rs by (intro exI [of _ "Suc n"]) simp
  qed
qed

text \<open>C36: The shell cloner reads the repositories from the numbered variables from zero up to the
  first number that is not set, which always exists, so the loop ends; when it succeeds,
  each repository is cloned into the directory of its project name below the mount path,
  and no repository has credentials yet.\<close>

theorem loadRepositories_reads_all:
  assumes "loadRepositories h mountPath env w = (w', Inr rs)"
  shows "length rs = (LEAST n. fmlookup env (repository_var n) = None)
    \<and> (\<forall>i<length rs. loaded h mountPath (the (fmlookup env (repository_var i))) (rs ! i)
         \<and> no_credentials (rep_Cli (rs ! i)))"
proof -
  obtain n where n: "fmlookup env (repository_var n) = None"
      "\<forall>j<n. fmlookup env (repository_var j) \<noteq> None" "length rs = n"
      "\<forall>j<n. loaded h mountPath (the (fmlookup env (repository_var j))) (rs ! j)"
    using loadRepositories_loop_result [of h mountPath env 0 "[]" w w' rs] assms
    by (auto simp: loadRepositories_def)
  have "(LEAST n. fmlookup env (repository_var n) = None) = n"
    using n(1,2) by (intro Least_equality) (auto simp: not_less [symmetric])
  moreover have "loaded h mountPath v r \<Longrightarrow> no_credentials (rep_Cli r)" for v r
    by (auto simp: loaded_def no_credentials_def)
  ultimately show ?thesis using n(3,4) by fastforce
qed

theorem loadRepositories_reads_all_witness:
  "\<exists>rs. loadRepositories log_host ''/work'' (fmupd (repository_var 0) ''/group/repo.git'' fmempty) []
     = ([], Inr rs) \<and> length rs = 1 \<and> no_credentials (rep_Cli (rs ! 0))"
proof -
  let ?env = "fmupd (repository_var 0) ''/group/repo.git'' fmempty"
  have "url_Parse pa ''/group/repo.git'' = Inr (empty_url\<lparr> u_Path := ''/group/repo.git'' \<rparr>)" for pa
    by (simp add: url_Parse_def parse_ref_def getScheme_def Cut_def containsCTLByte_def
        split_query_def HasPrefix_def HasSuffix_def is_alpha_def is_digit_def setPath_def url_escape.simps
        shouldEscape_def is_alnum_def str_Contains_def empty_url_def ToLower_def)
  then obtain r where "loadRepository log_host ''/work'' ''/group/repo.git'' [] = ([], Inr r)"
    by (simp add: loadRepository_def log_host_def project_name_def FieldsFunc_def SetClonePath_def
        NewGitCli_def bindA_def tryA_def returnA_def)
  moreover have "repository_var (Suc 0) \<noteq> repository_var 0"
    using inj_vars(1) by (auto dest: injD)
  ultimately have "loadRepositories log_host ''/work'' ?env [] = ([], Inr [r])"
    by (simp add: loadRepositories_def loadRepositories_loop.simps)
  with loadRepositories_reads_all [OF this] show ?thesis by auto
qed

section \<open>The strategy flag\<close>

lemma Command_NoStrategy:
  assumes "case fl_strategy flags of None \<Rightarrow> True | Some v \<Rightarrow> v \<in> set PreCloningStrategies"
  shows "Command h flags = clone h (newEnum PreCloningStrategies NoStrategy) flags"
  using assms
  by (auto simp: Command_def newEnum_def enum_Set_def package_preCloningStrategy_def split: option.splits)

text \<open>The clone that the command asks the library for.\<close>

lemma Command_always_clones:
  assumes "case fl_strategy flags of None \<Rightarrow> True | Some v \<Rightarrow> v \<in> set PreCloningStrategies"
    and "bindE (os_NewEndpoint_Path h (fl_remote flags)) project_name = Inr name"
    and "fl_path flags \<noteq> []" "fl_configPath flags = []"
  shows "Command h flags = os_PlainClone h (fl_path flags @ ''/'' @ name)
     \<lparr> co_URL = fl_remote flags, co_SingleBranch = True, co_ReferenceName = fl_revision flags,
       co_Auth = None \<rparr>"
  using assms(2-)
  by (simp add: Command_NoStrategy [OF assms(1)] clone_def applyPreCloningStrategy_def enum_Equal_def
      newEnum_def Let_def)

end
