(* ===== verification/Clone_Container.thy ===== *)
theory Clone_Container
  imports Cloner_Props Sample
begin

text \<open>
  The operator and the cloner together: the init containers that \<^verbatim>\<open>cloneInit\<close> templates run
  the command \<^verbatim>\<open>cloner clone\<close> with flags that the cloner parses.
\<close>

section \<open>The flags of a cloning container\<close>

definition container_flags :: "AmaltheaSession \<Rightarrow> CodeRepository \<Rightarrow> clone_flags" where
  "container_flags as repo =
     \<lparr> fl_configPath = (case cr_CloningConfigSecretRef repo of
         None \<Rightarrow> [] | Some ref \<Rightarrow> ''/git-clone-secrets/'' @ skr_Key ref),
       fl_remote = cr_Remote repo, fl_revision = cr_Revision repo,
       fl_path = stg_MountPath (ses_Storage (as_Session as)) @ ''/'' @ cr_ClonePath repo,
       fl_strategy = Some NotIfExist \<rparr>"

text \<open>The command line that sets the flags, a flag with the empty value left out.\<close>

definition flag_args :: "clone_flags \<Rightarrow> string list" where
  "flag_args fl =
     (case fl_strategy fl of None \<Rightarrow> [] | Some s \<Rightarrow> [''--strategy'', s])
     @ [''--remote'', fl_remote fl, ''--path'', fl_path fl]
     @ (if fl_configPath fl = [] then [] else [''--config'', fl_configPath fl])
     @ (if fl_revision fl = [] then [] else [''--revision'', fl_revision fl])"

lemma clone_args_flags:
  "clone_args as repo = [''cloner'', ''clone''] @ flag_args (container_flags as repo)"
  by (simp add: clone_args_def flag_args_def container_flags_def NotIfExist_def split: option.splits)

lemma cloneInit_loop_args:
  "map c_Args (mf_Containers (cloneInit_loop env as n ms repos)) = map (clone_args as) repos"
  by (induction repos arbitrary: n ms) (auto simp: Let_def no_manifests_def clone_container_def
      split: prod.splits)

section \<open>Starting a session again\<close>

lemma clone_refused:
  assumes "fl_strategy flags = Some NotIfExist" "fl_path flags \<noteq> []"
    and "bindE (os_NewEndpoint_Path h (fl_remote flags)) project_name = Inr name"
    and "\<And>opts w. \<exists>e. snd (os_PlainClone h (fl_path flags @ ''/'' @ name) opts w) = Inl e"
  shows "\<exists>e. snd (Command h flags w) = Inl e"
proof -
  have "Command h flags = clone h (newEnum PreCloningStrategies NoStrategy) flags"
    by (rule Command_NoStrategy) (simp add: assms(1) PreCloningStrategies_def)
  moreover have "\<exists>e. snd (bindA m (os_PlainClone h (fl_path flags @ ''/'' @ name)) w) = Inl e"
    for m :: "('a, CloneOptions) action"
    using assms(4) by (auto simp: bindA_def split: prod.splits sum.splits)
  ultimately show ?thesis
    using assms(2,3)
    by (simp add: clone_def applyPreCloningStrategy_def enum_Equal_def newEnum_def Let_def)
qed

text \<open>C39: Each repository of a session gets an init container that runs the cloner with the
  strategy \<open>notifexist\<close>, which should succeed without cloning when the target exists.
  The cloner ignores the strategy: when the library refuses to clone into the target, as it
  does when a repository is already there after the session was hibernated and
  resumed, the container fails, whether or not the target exists.\<close>

theorem resumed_clone_container_fails:
  assumes "repo \<in> set (sp_CodeRepositories (as_Spec as))"
    and "bindE (os_NewEndpoint_Path h (cr_Remote repo)) project_name = Inr name"
    and "\<And>opts w. \<exists>e. snd (os_PlainClone h
          (stg_MountPath (ses_Storage (as_Session as)) @ ''/'' @ cr_ClonePath repo @ ''/'' @ name) opts w)
          = Inl e"
  shows "\<exists>c flags. c \<in> set (mf_Containers (cloneInit env as))
     \<and> c_Args c = [''cloner'', ''clone''] @ flag_args flags \<and> fl_strategy flags = Some NotIfExist
     \<and> (\<exists>e. snd (Command h flags w) = Inl e)"
proof -
  let ?flags = "container_flags as repo"
  have "clone_args as repo \<in> set (map c_Args (mf_Containers (cloneInit env as)))"
    using assms(1) by (simp add: cloneInit_def cloneInit_loop_args del: set_map) simp
  then obtain c where c: "c \<in> set (mf_Containers (cloneInit env as))" "c_Args c = clone_args as repo"
    by auto
  have "\<exists>e. snd (Command h ?flags w) = Inl e"
    by (rule clone_refused [where name = name])
       (use assms(2,3) in \<open>simp_all add: container_flags_def\<close>)
  with c clone_args_flags show ?thesis
    by (intro exI [of _ c] exI [of _ ?flags]) (simp add: container_flags_def)
qed

theorem resumed_clone_container_fails_witness:
  "\<exists>c flags. c \<in> set (mf_Containers (cloneInit sample_env sample_session))
     \<and> c_Args c = [''cloner'', ''clone''] @ flag_args flags \<and> fl_strategy flags = Some NotIfExist
     \<and> os_Stat log_host (fl_path flags) [] = ([], Inr ())
     \<and> (\<exists>e. snd (Command log_host flags []) = Inl e)"
proof -
  have "sample_repo ''a'' \<in> set (sp_CodeRepositories (as_Spec sample_session))"
    by (simp add: sample_session_def sample_spec_def)
  moreover have "\<exists>name. bindE (os_NewEndpoint_Path log_host (cr_Remote (sample_repo ''a''))) project_name = Inr name"
    by (simp add: log_host_def project_name_def FieldsFunc_def)
  moreover have "\<exists>e. snd (os_PlainClone log_host p opts w) = Inl e" for p opts w
    by (simp add: log_host_def)
  moreover have "os_Stat log_host p [] = ([], Inr ())" for p by (simp add: log_host_def)
  ultimately show ?thesis using resumed_clone_container_fails [of "sample_repo ''a''" sample_session log_host]
    by metis
qed

end
