(* ===== verification/Go_JSON.thy ===== *)
theory Go_JSON
  imports Go_Prelude
begin

text \<open>
  The package \<^verbatim>\<open>encoding/json\<close> as far as the programs use it: the compact text that
  \<^verbatim>\<open>json.Marshal\<close> writes, the reader of \<^verbatim>\<open>json.Unmarshal\<close>, and the decoding of an object's
  fields into a struct. Reading back what was written gives the value again.

  Bytes of multi-byte characters are kept as they are, which is what the package does for
  valid UTF-8 (apart from U+2028 and U+2029, which it escapes).
\<close>

datatype json =
    JNull | JBool bool | JNum string | JStr string
  | JArr "json list" | JObj "(string \<times> json) list"

section \<open>Writing\<close>

definition json_escape :: "char \<Rightarrow> string" where
  "json_escape c =
     (let n = (of_char c :: nat) in
      if n = 34 \<or> n = 92 then [CHR 0x5C, c]
      else if n = 8 then [CHR 0x5C, CHR ''b'']
      else if n = 9 then [CHR 0x5C, CHR ''t'']
      else if n = 10 then [CHR 0x5C, CHR ''n'']
      else if n = 12 then [CHR 0x5C, CHR ''f'']
      else if n = 13 then [CHR 0x5C, CHR ''r'']
      else if n < 32 \<or> n = 38 \<or> n = 60 \<or> n = 62
      then [CHR 0x5C, CHR ''u'', CHR ''0'', CHR ''0'', lower_hex (n div 16), lower_hex (n mod 16)]
      else [c])"

definition json_quote :: "string \<Rightarrow> string" where
  "json_quote s = [CHR 0x22] @ concat (map json_escape s) @ [CHR 0x22]"

fun json_Marshal :: "json \<Rightarrow> string"
  and marshal_elems :: "json list \<Rightarrow> string"
  and marshal_members :: "(string \<times> json) list \<Rightarrow> string" where
  "json_Marshal JNull = ''null''"
| "json_Marshal (JBool b) = (if b then ''true'' else ''false'')"
| "json_Marshal (JNum n) = n"
| "json_Marshal (JStr s) = json_quote s"
| "json_Marshal (JArr xs) = ''['' @ marshal_elems xs @ '']''"
| "json_Marshal (JObj ms) = ''{'' @ marshal_members ms @ ''}''"
| "marshal_elems [] = []"
| "marshal_elems [x] = json_Marshal x"
| "marshal_elems (x # y # xs) = json_Marshal x @ '','' @ marshal_elems (y # xs)"
| "marshal_members [] = []"
| "marshal_members [(k, v)] = json_quote k @ '':'' @ json_Marshal v"
| "marshal_members ((k, v) # m # ms) =
     json_quote k @ '':'' @ json_Marshal v @ '','' @ marshal_members (m # ms)"

section \<open>Reading\<close>

definition json_space :: "char \<Rightarrow> bool" where
  "json_space c \<longleftrightarrow> (of_char c :: nat) \<in> {9, 10, 13, 32}"

definition skip_space :: "string \<Rightarrow> string" where
  "skip_space s = dropWhile json_space s"

definition hex_val :: "char \<Rightarrow> nat option" where
  "hex_val c =
     (let n = (of_char c :: nat) in
      if 48 \<le> n \<and> n \<le> 57 then Some (n - 48)
      else if 97 \<le> n \<and> n \<le> 102 then Some (n - 87)
      else if 65 \<le> n \<and> n \<le> 70 then Some (n - 55)
      else None)"

definition hex4 :: "char \<Rightarrow> char \<Rightarrow> char \<Rightarrow> char \<Rightarrow> nat option" where
  "hex4 a b c d = (case (hex_val a, hex_val b, hex_val c, hex_val d) of
      (Some p, Some q, Some r, Some s) \<Rightarrow> Some (((p * 16 + q) * 16 + r) * 16 + s)
    | _ \<Rightarrow> None)"

definition utf8_encode :: "nat \<Rightarrow> string" where
  "utf8_encode u =
     (if u < 0x80 then [char_of u]
      else if u < 0x800 then [char_of (0xC0 + u div 64), char_of (0x80 + u mod 64)]
      else if u < 0x10000
      then [char_of (0xE0 + u div 4096), char_of (0x80 + u div 64 mod 64), char_of (0x80 + u mod 64)]
      else [char_of (0xF0 + u div 262144), char_of (0x80 + u div 4096 mod 64),
            char_of (0x80 + u div 64 mod 64), char_of (0x80 + u mod 64)])"

text \<open>A surrogate: the second half of a pair, when it follows, and the rest of the text.\<close>

definition surrogate :: "nat \<Rightarrow> string \<Rightarrow> (nat \<times> nat) option" where
  "surrogate u s =
     (case s of
        p # q # a # b # c # d # _ \<Rightarrow>
          if p = CHR 0x5C \<and> q = CHR ''u'' \<and> u < 0xDC00 then
            (case hex4 a b c d of
               Some v \<Rightarrow> if 0xDC00 \<le> v \<and> v < 0xE000
                 then Some (0x10000 + (u - 0xD800) * 0x400 + (v - 0xDC00), 6) else None
             | None \<Rightarrow> None)
          else None
      | _ \<Rightarrow> None)"

definition escape_char :: "char \<Rightarrow> char option" where
  "escape_char e =
     (if e = CHR 0x22 \<or> e = CHR 0x5C \<or> e = CHR ''/'' then Some e
      else if e = CHR ''b'' then Some (char_of (8 :: nat))
      else if e = CHR ''f'' then Some (char_of (12 :: nat))
      else if e = CHR ''n'' then Some (char_of (10 :: nat))
      else if e = CHR ''r'' then Some (char_of (13 :: nat))
      else if e = CHR ''t'' then Some (char_of (9 :: nat))
      else None)"

text \<open>The text of a string after its opening quote, and what follows the closing one.\<close>

definition prepend :: "string \<Rightarrow> (string \<times> string) option \<Rightarrow> (string \<times> string) option" where
  "prepend x r = map_option (\<lambda>(s, rest). (x @ s, rest)) r"

fun parse_chars :: "string \<Rightarrow> (string \<times> string) option" where
  "parse_chars [] = None"
| "parse_chars (c # s) =
     (if c = CHR 0x22 then Some ([], s)
      else if (of_char c :: nat) < 32 then None
      else if c \<noteq> CHR 0x5C then prepend [c] (parse_chars s)
      else case s of
        [] \<Rightarrow> None
      | e # t \<Rightarrow>
          if e \<noteq> CHR ''u'' then
            (case escape_char e of Some x \<Rightarrow> prepend [x] (parse_chars t) | None \<Rightarrow> None)
          else (case t of
            a # b # c # d # r \<Rightarrow>
              (case hex4 a b c d of
                 None \<Rightarrow> None
               | Some u \<Rightarrow>
                   if u < 0xD800 \<or> 0xE000 \<le> u then prepend (utf8_encode u) (parse_chars r)
                   else (case surrogate u r of
                     Some (v, k) \<Rightarrow> prepend (utf8_encode v) (parse_chars (drop k r))
                   | None \<Rightarrow> prepend (utf8_encode 0xFFFD) (parse_chars r)))
          | _ \<Rightarrow> None))"

definition num_char :: "char \<Rightarrow> bool" where
  "num_char c \<longleftrightarrow> (let n = (of_char c :: nat) in 48 \<le> n \<and> n \<le> 57)
     \<or> c \<in> {CHR ''-'', CHR ''+'', CHR ''.'', CHR ''e'', CHR ''E''}"

definition digit :: "char \<Rightarrow> bool" where
  "digit c \<longleftrightarrow> 48 \<le> (of_char c :: nat) \<and> (of_char c :: nat) \<le> 57"

definition valid_int :: "string \<Rightarrow> bool" where
  "valid_int s \<longleftrightarrow> s \<noteq> [] \<and> list_all digit s \<and> (hd s = CHR ''0'' \<longrightarrow> s = ''0'')"

definition valid_exponent :: "string \<Rightarrow> bool" where
  "valid_exponent s \<longleftrightarrow> s = [] \<or> ((hd s = CHR ''e'' \<or> hd s = CHR ''E'')
     \<and> (let t = tl s; u = (if t \<noteq> [] \<and> hd t \<in> {CHR ''+'', CHR ''-''} then tl t else t)
        in u \<noteq> [] \<and> list_all digit u))"

definition valid_fraction :: "string \<Rightarrow> bool" where
  "valid_fraction s \<longleftrightarrow>
     (if s \<noteq> [] \<and> hd s = CHR ''.''
      then takeWhile digit (tl s) \<noteq> [] \<and> valid_exponent (dropWhile digit (tl s))
      else valid_exponent s)"

definition valid_number :: "string \<Rightarrow> bool" where
  "valid_number s \<longleftrightarrow>
     (let t = (if s \<noteq> [] \<and> hd s = CHR ''-'' then tl s else s)
      in valid_int (takeWhile digit t) \<and> valid_fraction (dropWhile digit t))"

definition parse_number :: "string \<Rightarrow> (json \<times> string) option" where
  "parse_number s =
     (let lit = takeWhile num_char s in
      if valid_number lit then Some (JNum lit, dropWhile num_char s) else None)"

definition parse_literal :: "string \<Rightarrow> (json \<times> string) option" where
  "parse_literal s =
     (if HasPrefix s ''null'' then Some (JNull, drop 4 s)
      else if HasPrefix s ''true'' then Some (JBool True, drop 4 s)
      else if HasPrefix s ''false'' then Some (JBool False, drop 5 s)
      else parse_number s)"

text \<open>
  Values, the elements of an array and the members of an object. The first argument bounds
  the number of nested calls; every two calls consume a character, so twice the length of the
  text is enough.
\<close>

fun parse_value :: "nat \<Rightarrow> string \<Rightarrow> (json \<times> string) option"
  and parse_elems :: "nat \<Rightarrow> string \<Rightarrow> (json list \<times> string) option"
  and parse_members :: "nat \<Rightarrow> string \<Rightarrow> ((string \<times> json) list \<times> string) option" where
  "parse_value 0 s = None"
| "parse_value (Suc n) s =
     (case skip_space s of
        [] \<Rightarrow> None
      | c # r \<Rightarrow>
          if c = CHR 0x22 then map_option (\<lambda>(x, t). (JStr x, t)) (parse_chars r)
          else if c = CHR ''['' then
            (case skip_space r of
               [] \<Rightarrow> None
             | d # t \<Rightarrow> if d = CHR '']'' then Some (JArr [], t)
                 else map_option (\<lambda>(xs, u). (JArr xs, u)) (parse_elems n (d # t)))
          else if c = CHR ''{'' then
            (case skip_space r of
               [] \<Rightarrow> None
             | d # t \<Rightarrow> if d = CHR ''}'' then Some (JObj [], t)
                 else map_option (\<lambda>(ms, u). (JObj ms, u)) (parse_members n (d # t)))
          else parse_literal (c # r))"
| "parse_elems 0 s = None"
| "parse_elems (Suc n) s =
     (case parse_value n s of
        None \<Rightarrow> None
      | Some (x, r) \<Rightarrow>
          (case skip_space r of
             [] \<Rightarrow> None
           | c # t \<Rightarrow>
               if c = CHR '']'' then Some ([x], t)
               else if c = CHR '','' then map_option (\<lambda>(xs, u). (x # xs, u)) (parse_elems n t)
               else None))"
| "parse_members 0 s = None"
| "parse_members (Suc n) s =
     (case skip_space s of
        [] \<Rightarrow> None
      | c # r \<Rightarrow>
          if c \<noteq> CHR 0x22 then None
          else (case parse_chars r of
            None \<Rightarrow> None
          | Some (k, t) \<Rightarrow>
              (case skip_space t of
                 [] \<Rightarrow> None
               | d # u \<Rightarrow>
                   if d \<noteq> CHR '':'' then None
                   else (case parse_value n u of
                     None \<Rightarrow> None
                   | Some (v, w) \<Rightarrow>
                       (case skip_space w of
                          [] \<Rightarrow> None
                        | e # x \<Rightarrow>
                            if e = CHR ''}'' then Some ([(k, v)], x)
                            else if e = CHR '',''
                            then map_option (\<lambda>(ms, y). ((k, v) # ms, y)) (parse_members n x)
                            else None)))))"

definition json_parse :: "string \<Rightarrow> json result" where
  "json_parse s =
     (case parse_value (2 * length s + 1) s of
        Some (v, r) \<Rightarrow> if skip_space r = [] then Inr v else Inl (Err ''invalid character after top-level value'')
      | None \<Rightarrow> Inl (Err ''invalid character or unexpected end of JSON input''))"

text \<open>\<^verbatim>\<open>json.NewDecoder(r).Decode\<close> reads one value and leaves what follows it.\<close>

definition json_Decode :: "string \<Rightarrow> json result" where
  "json_Decode s =
     (case parse_value (2 * length s + 1) s of
        Some (v, _) \<Rightarrow> Inr v
      | None \<Rightarrow> Inl (Err ''invalid character or unexpected end of JSON input''))"

section \<open>Decoding the fields of a struct\<close>

text \<open>
  A field takes the last member whose name is the same up to case; a member that is null or
  missing leaves the zero value, one of another type is an error.
\<close>

definition json_member :: "string \<Rightarrow> (string \<times> json) list \<Rightarrow> json" where
  "json_member k ms =
     (case filter (\<lambda>(k', v). ToLower k' = ToLower k \<and> v \<noteq> JNull) ms of
        [] \<Rightarrow> JNull | m # ms' \<Rightarrow> snd (last (m # ms')))"

fun json_object :: "json \<Rightarrow> (string \<times> json) list result" where
  "json_object JNull = Inr []"
| "json_object (JObj ms) = Inr ms"
| "json_object _ = Inl (Err ''cannot unmarshal into Go value of type struct'')"

fun decode_string :: "json \<Rightarrow> string result" where
  "decode_string JNull = Inr []"
| "decode_string (JStr s) = Inr s"
| "decode_string _ = Inl (Err ''cannot unmarshal into Go value of type string'')"

fun digits_val :: "nat \<Rightarrow> string \<Rightarrow> nat" where
  "digits_val acc [] = acc"
| "digits_val acc (c # s) = digits_val (10 * acc + (of_char c - 48)) s"

definition int_literal :: "string \<Rightarrow> int option" where
  "int_literal s =
     (let neg = s \<noteq> [] \<and> hd s = CHR ''-''; t = (if neg then tl s else s) in
      if t \<noteq> [] \<and> list_all digit t
      then let n = int (digits_val 0 t); v = (if neg then - n else n)
           in if - (2 ^ 63) \<le> v \<and> v < 2 ^ 63 then Some v else None
      else None)"

fun decode_int :: "json \<Rightarrow> int result" where
  "decode_int JNull = Inr 0"
| "decode_int (JNum s) = (case int_literal s of
      Some n \<Rightarrow> Inr n
    | None \<Rightarrow> Inl (Err ''cannot unmarshal number into Go value of type int''))"
| "decode_int _ = Inl (Err ''cannot unmarshal into Go value of type int'')"

section \<open>Round trip\<close>

lemma of_char_less [simp]: "(of_char c :: nat) < 256"
  by (metis of_char_mod_256 mod_less_divisor zero_less_numeral)

lemma char_of_of_char [simp]: "char_of (of_char c :: nat) = c"
  by (rule char_of_char)

lemma of_char_lower_hex:
  "d < 16 \<Longrightarrow> (of_char (lower_hex d) :: nat) = (if d < 10 then 48 + d else 87 + d)"
  by (simp add: lower_hex_def of_char_of)

lemma hex_val_lower_hex [simp]: "d < 16 \<Longrightarrow> hex_val (lower_hex d) = Some d"
  by (auto simp: hex_val_def of_char_lower_hex)

lemma hex_val_zero [simp]: "hex_val CHR ''0'' = Some 0"
  by (simp add: hex_val_def)

lemma escaped_code:
  "n < 256 \<Longrightarrow> hex4 CHR ''0'' CHR ''0'' (lower_hex (n div 16)) (lower_hex (n mod 16)) = Some n"
proof -
  assume "n < 256"
  then have "n div 16 < 16" by (simp add: less_mult_imp_div_less)
  then show ?thesis by (simp add: hex4_def)
qed

lemma of_char_eq_iff [simp]: "(of_char c :: nat) = of_char d \<longleftrightarrow> c = d"
  by (metis char_of_of_char)

lemma special_chars:
  "(c = CHR 0x22) \<longleftrightarrow> (of_char c :: nat) = 34"
  "(c = CHR 0x5C) \<longleftrightarrow> (of_char c :: nat) = 92"
proof -
  have "(of_char CHR 0x22 :: nat) = 34" "(of_char CHR 0x5C :: nat) = 92" by simp_all
  then show "(c = CHR 0x22) \<longleftrightarrow> (of_char c :: nat) = 34"
    "(c = CHR 0x5C) \<longleftrightarrow> (of_char c :: nat) = 92"
    by (metis of_char_eq_iff)+
qed

lemma parse_chars_escape:
  "parse_chars (json_escape c @ s) = prepend [c] (parse_chars s)"
proof -
  have code: "char_of n = c" if "(of_char c :: nat) = n" for n
    using that by auto
  consider "(of_char c :: nat) \<in> {34, 92, 8, 9, 10, 12, 13}"
    | "(of_char c :: nat) \<notin> {34, 92, 8, 9, 10, 12, 13}"
      "(of_char c :: nat) < 32 \<or> (of_char c :: nat) \<in> {38, 60, 62}"
    | "(of_char c :: nat) \<notin> {34, 92, 8, 9, 10, 12, 13, 38, 60, 62}" "32 \<le> (of_char c :: nat)"
    by (cases "(of_char c :: nat) < 32") auto
  then show ?thesis
  proof cases
    case 1
    then show ?thesis by (auto simp: json_escape_def escape_char_def special_chars code)
  next
    case 2
    then have "json_escape c = [CHR 0x5C, CHR ''u'', CHR ''0'', CHR ''0'',
        lower_hex (of_char c div 16), lower_hex (of_char c mod 16)]"
      by (auto simp: json_escape_def Let_def)
    moreover have "(of_char c :: nat) < 128" using 2 by auto
    ultimately show ?thesis by (simp add: escaped_code utf8_encode_def)
  next
    case 3
    then show ?thesis by (simp add: json_escape_def Let_def special_chars)
  qed
qed

lemma parse_chars_quote:
  "parse_chars (concat (map json_escape s) @ CHR 0x22 # r) = Some (s, r)"
  by (induction s) (simp_all only: list.map concat.simps append_assoc parse_chars_escape,
      simp_all add: prepend_def)

text \<open>What may follow a value: no text that continues a number.\<close>

definition ends_value :: "string \<Rightarrow> bool" where
  "ends_value r \<longleftrightarrow> r = [] \<or> \<not> num_char (hd r)"

fun json_ok :: "json \<Rightarrow> bool" where
  "json_ok (JNum s) \<longleftrightarrow> valid_number s \<and> list_all num_char s"
| "json_ok (JArr xs) \<longleftrightarrow> (\<forall>x\<in>set xs. json_ok x)"
| "json_ok (JObj ms) \<longleftrightarrow> (\<forall>m\<in>set ms. json_ok (snd m))"
| "json_ok _ \<longleftrightarrow> True"

text \<open>The number of nested calls that reading a value takes.\<close>

fun json_fuel :: "json \<Rightarrow> nat"
  and elems_fuel :: "json list \<Rightarrow> nat"
  and members_fuel :: "(string \<times> json) list \<Rightarrow> nat" where
  "json_fuel (JArr xs) = Suc (elems_fuel xs)"
| "json_fuel (JObj ms) = Suc (members_fuel ms)"
| "json_fuel _ = 1"
| "elems_fuel [] = 0"
| "elems_fuel (x # xs) = Suc (json_fuel x + elems_fuel xs)"
| "members_fuel [] = 0"
| "members_fuel ((k, v) # ms) = Suc (json_fuel v + members_fuel ms)"

lemma valid_number_nonempty: "valid_number s \<Longrightarrow> s \<noteq> []"
  by (auto simp: valid_number_def valid_int_def)

lemma parse_number_app:
  assumes "valid_number s" "list_all num_char s" "ends_value r"
  shows "parse_number (s @ r) = Some (JNum s, r)"
proof -
  have "takeWhile num_char (s @ r) = s" "dropWhile num_char (s @ r) = r"
    using assms(2,3) by (cases r; simp add: ends_value_def list_all_iff)+
  then show ?thesis using assms(1) by (simp add: parse_number_def)
qed

lemma num_char_plain:
  assumes "num_char c"
  shows "\<not> json_space c" "c \<noteq> CHR 0x22" "c \<noteq> CHR ''[''" "c \<noteq> CHR ''{''"
    "c \<noteq> CHR ''n''" "c \<noteq> CHR ''t''" "c \<noteq> CHR ''f''" "c \<noteq> CHR '']''" "c \<noteq> CHR ''}''"
  using assms by (auto simp: num_char_def json_space_def)

lemma skip_space_plain [simp]: "\<not> json_space c \<Longrightarrow> skip_space (c # s) = c # s"
  by (simp add: skip_space_def)

lemma punctuation_plain [simp]:
  "\<not> json_space CHR 0x22" "\<not> json_space CHR ''[''" "\<not> json_space CHR '']''"
  "\<not> json_space CHR ''{''" "\<not> json_space CHR ''}''" "\<not> json_space CHR '',''"
  "\<not> json_space CHR '':''" "\<not> json_space CHR ''n''" "\<not> json_space CHR ''t''"
  "\<not> json_space CHR ''f''"
  by (simp_all add: json_space_def)

lemma ends_value_punctuation [simp]:
  "ends_value (CHR '','' # r)" "ends_value (CHR '']'' # r)" "ends_value (CHR ''}'' # r)"
  "ends_value []"
  by (simp_all add: ends_value_def num_char_def)

text \<open>A written value starts with a character that is no space and closes nothing.\<close>

lemma json_Marshal_start:
  assumes "json_ok v"
  obtains c t where "json_Marshal v = c # t" "\<not> json_space c" "c \<noteq> CHR '']''"
proof (cases v)
  case (JNum s)
  with assms show ?thesis
    by (cases s) (auto dest: valid_number_nonempty num_char_plain intro: that)
next
  case (JBool b)
  with that show ?thesis by (cases b) auto
qed (auto simp: json_quote_def intro: that)

lemma parse_JNum:
  assumes "json_ok (JNum s)" "ends_value r"
  shows "parse_value (Suc n) (s @ r) = Some (JNum s, r)"
proof -
  obtain c t where s: "s = c # t" using assms(1) valid_number_nonempty by (cases s) auto
  then have "num_char c" using assms(1) by simp
  note plain = num_char_plain [OF this]
  have "parse_literal (s @ r) = parse_number (s @ r)"
    using plain by (simp add: s parse_literal_def HasPrefix_def)
  also have "\<dots> = Some (JNum s, r)" using assms by (intro parse_number_app) simp_all
  finally show ?thesis using plain by (simp add: s)
qed

lemma parse_Marshal:
  "json_ok v \<Longrightarrow> json_fuel v \<le> n \<Longrightarrow> ends_value r
   \<Longrightarrow> parse_value n (json_Marshal v @ r) = Some (v, r)"
  "xs \<noteq> [] \<Longrightarrow> \<forall>x\<in>set xs. json_ok x \<Longrightarrow> elems_fuel xs \<le> n
   \<Longrightarrow> parse_elems n (marshal_elems xs @ CHR '']'' # r) = Some (xs, r)"
  "ms \<noteq> [] \<Longrightarrow> \<forall>m\<in>set ms. json_ok (snd m) \<Longrightarrow> members_fuel ms \<le> n
   \<Longrightarrow> parse_members n (marshal_members ms @ CHR ''}'' # r) = Some (ms, r)"
proof (induction v and xs and ms arbitrary: n r and n r and n r
    rule: json_Marshal_marshal_elems_marshal_members.induct)
  case 1
  then show ?case by (cases n) (simp_all add: parse_literal_def HasPrefix_def)
next
  case (2 b)
  then show ?case by (cases n; cases b) (simp_all add: parse_literal_def HasPrefix_def)
next
  case (3 s)
  then show ?case by (cases n) (simp_all add: parse_JNum del: parse_value.simps(2))
next
  case (4 s)
  then show ?case by (cases n) (simp_all add: json_quote_def parse_chars_quote)
next
  case (5 xs)
  then obtain m where n: "n = Suc m" by (cases n) auto
  show ?case
  proof (cases xs)
    case Nil
    then show ?thesis by (simp add: n)
  next
    case (Cons x ys)
    with "5.prems" have "json_ok x" by simp
    then obtain c t where "json_Marshal x = c # t" "\<not> json_space c" "c \<noteq> CHR '']''"
      by (rule json_Marshal_start)
    moreover obtain u where "marshal_elems xs = json_Marshal x @ u" by (cases ys) (auto simp: Cons)
    ultimately have start: "marshal_elems xs = c # t @ u" "\<not> json_space c" "c \<noteq> CHR '']''"
      by simp_all
    have "parse_elems m (marshal_elems xs @ CHR '']'' # r) = Some (xs, r)"
      using "5.prems" by (intro "5.IH") (simp_all add: n Cons)
    then show ?thesis using start by (simp add: n)
  qed
next
  case (6 ms)
  then obtain m where n: "n = Suc m" by (cases n) auto
  show ?case
  proof (cases ms)
    case Nil
    then show ?thesis by (simp add: n)
  next
    case (Cons x ys)
    obtain t where start: "marshal_members ms = CHR 0x22 # t"
      by (cases x; cases ys) (auto simp: Cons json_quote_def)
    have "parse_members m (marshal_members ms @ CHR ''}'' # r) = Some (ms, r)"
      using "6.prems" by (intro "6.IH") (simp_all add: n Cons)
    then show ?thesis using start by (simp add: n)
  qed
next
  case 7
  then show ?case by simp
next
  case (8 x)
  then obtain m where "n = Suc m" by (cases n) auto
  with 8 show ?case by simp
next
  case (9 x y xs)
  then obtain m where "n = Suc m" by (cases n) auto
  with 9 show ?case by simp
next
  case 10
  then show ?case by simp
next
  case (11 k v)
  then obtain m where "n = Suc m" by (cases n) auto
  with 11 show ?case by (simp add: json_quote_def parse_chars_quote)
next
  case (12 k v m ms)
  then obtain m where "n = Suc m" by (cases n) auto
  with 12 show ?case by (simp add: json_quote_def parse_chars_quote)
qed

lemma json_fuel_bound:
  "json_ok v \<Longrightarrow> json_fuel v < 2 * length (json_Marshal v)"
  "\<forall>x\<in>set xs. json_ok x \<Longrightarrow> elems_fuel xs \<le> 2 * length (marshal_elems xs) + 1"
  "\<forall>m\<in>set ms. json_ok (snd m) \<Longrightarrow> members_fuel ms \<le> 2 * length (marshal_members ms) + 1"
proof (induction v and xs and ms rule: json_Marshal_marshal_elems_marshal_members.induct)
  case (3 s)
  then have "0 < length s" using valid_number_nonempty by auto
  then show ?case unfolding json_fuel.simps json_Marshal.simps by linarith
qed (auto simp: json_quote_def)

lemma json_parse_Marshal: "json_ok v \<Longrightarrow> json_parse (json_Marshal v) = Inr v"
  using parse_Marshal(1) [of v "2 * length (json_Marshal v) + 1" "[]"] json_fuel_bound(1) [of v]
  by (simp add: json_parse_def skip_space_def)

lemma json_Decode_Marshal: "json_ok v \<Longrightarrow> json_Decode (json_Marshal v) = Inr v"
  using parse_Marshal(1) [of v "2 * length (json_Marshal v) + 1" "[]"] json_fuel_bound(1) [of v]
  by (simp add: json_Decode_def)

section \<open>Integers\<close>

lemma digit_digit_char: "d < 10 \<Longrightarrow> digit (digit_char d)" "d < 10 \<Longrightarrow> of_char (digit_char d) - 48 = d"
  by (simp_all add: digit_def digit_char_def of_char_of)

lemma digits_val_append: "digits_val a (s @ [c]) = 10 * digits_val a s + (of_char c - 48)"
  by (induction a s rule: digits_val.induct) simp_all

lemma digits_val_show_nat: "digits_val 0 (show_nat n) = n"
proof (induction n rule: show_nat.induct)
  case (1 n)
  then show ?case
    by (cases "n < 10") (simp_all add: show_nat.simps [of n] digits_val_append digit_digit_char)
qed

lemma show_nat_digit: "list_all digit (show_nat n)"
  using show_nat_digits [of _ n] by (auto simp: list_all_iff digit_def)

lemma show_nat_leading: "hd (show_nat n) = CHR ''0'' \<Longrightarrow> n = 0"
proof (induction n rule: show_nat.induct)
  case (1 n)
  have zero: "digit_char 0 = CHR ''0''" by (simp add: digit_char_def) code_simp
  show ?case
  proof (cases "n < 10")
    case True
    then have "digit_char n = digit_char 0" using "1.prems" by (simp add: show_nat.simps [of n] zero)
    then show ?thesis using True digit_char_inj [of n 0] by simp
  next
    case False
    then have "hd (show_nat (n div 10)) = CHR ''0''"
      using "1.prems" by (simp add: show_nat.simps [of n])
    then have "n div 10 = 0" using "1.IH" False by blast
    then show ?thesis using False by simp
  qed
qed

lemma show_nat_not_sign: "hd (show_nat n) \<noteq> CHR ''-''"
  using show_nat_digit [of n] by (cases "show_nat n") (auto simp: digit_def)

lemma takeWhile_show_nat [simp]:
  "takeWhile digit (show_nat n) = show_nat n" "dropWhile digit (show_nat n) = []"
  using show_nat_digit [of n] by (auto simp: list_all_iff)

lemma json_ok_int: "json_ok (JNum (show_int i))"
proof -
  have "valid_int (show_nat n)" for n
    using show_nat_digit [of n] show_nat_leading [of n]
    by (auto simp: valid_int_def show_nat.simps [of 0] digit_char_def char_of_def)
  moreover have "list_all num_char (show_nat n)" for n
    using show_nat_digit [of n] by (auto simp: list_all_iff digit_def num_char_def Let_def)
  moreover have "num_char CHR ''-''" by (simp add: num_char_def)
  ultimately show ?thesis
    using show_nat_not_sign
    by (simp add: show_int_def valid_number_def valid_fraction_def valid_exponent_def Let_def
        del: dropWhile_eq_Nil_conv)
qed

lemma decode_show_int:
  assumes "- (2 ^ 63) \<le> i" "i < 2 ^ 63"
  shows "decode_int (JNum (show_int i)) = Inr i"
  using assms show_nat_digit show_nat_not_sign
  by (auto simp: int_literal_def show_int_def digits_val_show_nat Let_def)

end
