(* ===== verification/Go_JSON_Struct.thy ===== *)
theory Go_JSON_Struct
  imports Go_JSON "HOL-Library.Finite_Map"
begin

text \<open>
  Decoding into structs with \<^verbatim>\<open>encoding/json\<close>: Booleans, slices, maps, times, pointers and raw
  messages; and the contract between the encoder and the decoder of a type.
\<close>

section \<open>Values\<close>

fun decode_bool :: "json \<Rightarrow> bool result" where
  "decode_bool JNull = Inr False"
| "decode_bool (JBool b) = Inr b"
| "decode_bool _ = Inl (Err ''cannot unmarshal into Go value of type bool'')"

fun decode_list :: "(json \<Rightarrow> 'a result) \<Rightarrow> json \<Rightarrow> 'a list result" where
  "decode_list f JNull = Inr []"
| "decode_list f (JArr xs) =
     foldr (\<lambda>x acc. bindE (f x) (\<lambda>y. bindE acc (\<lambda>ys. Inr (y # ys)))) xs (Inr [])"
| "decode_list f _ = Inl (Err ''cannot unmarshal into Go value of type slice'')"

text \<open>Of members with the same key the last one stays in a map.\<close>

fun decode_map :: "(json \<Rightarrow> 'a result) \<Rightarrow> json \<Rightarrow> (string, 'a) fmap result" where
  "decode_map f JNull = Inr fmempty"
| "decode_map f (JObj ms) =
     bindE (traverseE (\<lambda>(k, v). bindE (f v) (\<lambda>x. Inr (k, x))) ms) (\<lambda>kvs. Inr (fmap_of_list (rev kvs)))"
| "decode_map f _ = Inl (Err ''cannot unmarshal into Go value of type map'')"

text \<open>The reader of timestamps is a parameter.\<close>

definition decode_time_option :: "(string \<Rightarrow> time result) \<Rightarrow> json \<Rightarrow> time option result" where
  "decode_time_option unmarshalTime j =
     (case j of
        JNull \<Rightarrow> Inr None
      | JStr s \<Rightarrow> bindE (unmarshalTime s) (\<lambda>t. Inr (Some t))
      | _ \<Rightarrow> Inl (Err ''Time.UnmarshalJSON: input is not a JSON string''))"

definition decode_time :: "(string \<Rightarrow> time result) \<Rightarrow> json \<Rightarrow> time result" where
  "decode_time unmarshalTime j =
     bindE (decode_time_option unmarshalTime j) (\<lambda>t.
       Inr (case t of None \<Rightarrow> zero_time | Some t \<Rightarrow> t))"

text \<open>A 32-bit floating point number is kept as the text of its literal.\<close>

type_synonym float32 = string

fun decode_float :: "json \<Rightarrow> float32 result" where
  "decode_float JNull = Inr ''0''"
| "decode_float (JNum s) = Inr s"
| "decode_float _ = Inl (Err ''cannot unmarshal into Go value of type float32'')"

text \<open>A value of type \<^verbatim>\<open>interface{}\<close> is what was read.\<close>

definition decode_any :: "json \<Rightarrow> json result" where "decode_any j = Inr j"

section \<open>Fields\<close>

text \<open>
  A pointer takes the last member of its name, and null makes it nil. A raw message is the member
  as it is, null included; the zero value has no bytes.
\<close>

definition json_lookup :: "string \<Rightarrow> (string \<times> json) list \<Rightarrow> json option" where
  "json_lookup k ms =
     (case filter (\<lambda>(k', _). ToLower k' = ToLower k) ms of [] \<Rightarrow> None | m # ms' \<Rightarrow> Some (snd (last (m # ms'))))"

definition decode_pointer :: "(json \<Rightarrow> 'a result) \<Rightarrow> json option \<Rightarrow> 'a option result" where
  "decode_pointer f m =
     (case m of
        None \<Rightarrow> Inr None
      | Some j \<Rightarrow> if j = JNull then Inr None else bindE (f j) (\<lambda>x. Inr (Some x)))"

definition pointer_field ::
  "(json \<Rightarrow> 'a result) \<Rightarrow> string \<Rightarrow> (string \<times> json) list \<Rightarrow> 'a option result" where
  "pointer_field f k ms = decode_pointer f (json_lookup k ms)"

type_synonym raw_message = "json option"

definition raw_json :: "raw_message \<Rightarrow> json" where
  "raw_json u = (case u of None \<Rightarrow> JNull | Some j \<Rightarrow> j)"

definition decode_raw :: "json \<Rightarrow> raw_message result" where "decode_raw j = Inr (Some j)"

definition pointer_member :: "('a \<Rightarrow> json) \<Rightarrow> string \<Rightarrow> 'a option \<Rightarrow> (string \<times> json) list" where
  "pointer_member f k v = (case v of None \<Rightarrow> [] | Some x \<Rightarrow> [(k, f x)])"

definition encode_int :: "int \<Rightarrow> json" where "encode_int n = JNum (show_int n)"

text \<open>\<^verbatim>\<open>json.Unmarshal\<close> of a text.\<close>

definition unmarshal :: "(json \<Rightarrow> 'a result) \<Rightarrow> string \<Rightarrow> 'a result" where
  "unmarshal f s = bindE (json_parse s) f"

section \<open>Encoders and decoders\<close>

named_theorems json_fields

text \<open>The later of two members.\<close>

definition latest :: "'a option \<Rightarrow> 'a option \<Rightarrow> 'a option" where
  "latest x y = (case y of None \<Rightarrow> x | Some _ \<Rightarrow> y)"

lemma latest_simps [simp]: "latest x None = x" "latest None y = y" "latest x (Some z) = Some z"
  by (simp_all add: latest_def split: option.splits)

lemma json_member_append [json_fields]:
  "json_member k (xs @ ys) = (if json_member k ys = JNull then json_member k xs else json_member k ys)"
proof -
  let ?P = "\<lambda>(k', v). ToLower k' = ToLower k \<and> v \<noteq> JNull"
  have eq: "json_member k zs = (if filter ?P zs = [] then JNull else snd (last (filter ?P zs)))" for zs
    by (simp add: json_member_def split: list.splits)
  have "snd (last (filter ?P zs)) \<noteq> JNull" if "filter ?P zs \<noteq> []" for zs
    using last_in_set [OF that] by auto
  then show ?thesis unfolding eq filter_append by (simp add: last_append)
qed

lemma json_member_fields [json_fields]:
  "json_member k [] = JNull"
  "json_member k ((k', v) # ms) =
     (if json_member k ms = JNull then if ToLower k' = ToLower k then v else JNull else json_member k ms)"
  "json_member k (pointer_member f k' x) =
     (if ToLower k' = ToLower k then (case x of None \<Rightarrow> JNull | Some y \<Rightarrow> f y) else JNull)"
  using json_member_append [of k "[(k', v)]" ms]
  by (auto simp: json_member_def pointer_member_def split: option.splits)

lemma json_lookup_append [json_fields]:
  "json_lookup k (xs @ ys) = latest (json_lookup k xs) (json_lookup k ys)"
proof -
  let ?P = "\<lambda>(k', v). ToLower k' = ToLower k"
  have "json_lookup k zs = (if filter ?P zs = [] then None else Some (snd (last (filter ?P zs))))" for zs
    by (simp add: json_lookup_def split: list.splits)
  then show ?thesis unfolding filter_append by (simp add: last_append latest_def)
qed

lemma json_lookup_fields [json_fields]:
  "json_lookup k [] = None"
  "json_lookup k ((k', v) # ms) =
     latest (if ToLower k' = ToLower k then Some v else None) (json_lookup k ms)"
  "json_lookup k (pointer_member f k' x) = (if ToLower k' = ToLower k then map_option f x else None)"
  using json_lookup_append [of k "[(k', v)]" ms]
  by (auto simp: json_lookup_def pointer_member_def split: option.splits)

definition members_ok :: "(string \<times> json) list \<Rightarrow> bool" where
  "members_ok ms \<longleftrightarrow> (\<forall>m\<in>set ms. json_ok (snd m))"

lemma members_ok_fields [json_fields]:
  "json_ok (JObj ms) = members_ok ms"
  "members_ok []" "members_ok ((k, v) # ms) \<longleftrightarrow> json_ok v \<and> members_ok ms"
  "members_ok (xs @ ys) \<longleftrightarrow> members_ok xs \<and> members_ok ys"
  by (auto simp: members_ok_def)

text \<open>
  What an encoder and a decoder of a type promise: a value that is written is read back, from the
  JSON value and from its text, and is no null.
\<close>

locale json_codec =
  fixes enc :: "'a \<Rightarrow> json" and dec :: "json \<Rightarrow> 'a result" and valid :: "'a \<Rightarrow> bool"
  assumes dec_enc: "valid x \<Longrightarrow> dec (enc x) = Inr x"
    and enc_ok: "valid x \<Longrightarrow> json_ok (enc x)"
    and enc_value: "valid x \<Longrightarrow> enc x \<noteq> JNull"
begin

lemma read_back: "valid x \<Longrightarrow> unmarshal dec (json_Marshal (enc x)) = Inr x"
  by (simp add: unmarshal_def json_parse_Marshal enc_ok dec_enc)

lemma pointer_read_back: "pred_option valid v \<Longrightarrow> decode_pointer dec (map_option enc v) = Inr v"
  by (cases v) (simp_all add: decode_pointer_def dec_enc enc_value)

lemma pointer_member_ok: "pred_option valid v \<Longrightarrow> members_ok (pointer_member enc k v)"
  by (cases v) (auto simp: pointer_member_def members_ok_def enc_ok)

lemma list_read_back: "list_all valid xs \<Longrightarrow> decode_list dec (JArr (map enc xs)) = Inr xs"
  by (induction xs) (auto simp: dec_enc)

lemma list_codec:
  "json_codec (\<lambda>xs. JArr (map enc xs)) (decode_list dec) (list_all valid)"
  by unfold_locales (auto simp: list_read_back enc_ok simp del: decode_list.simps, simp add: list_all_iff enc_ok)

end

text \<open>The codecs of plain values.\<close>

definition int64 :: "int \<Rightarrow> bool" where
  "int64 n \<longleftrightarrow> - (2 ^ 63) \<le> n \<and> n < 2 ^ 63"

definition any_value :: "json \<Rightarrow> bool" where
  "any_value j \<longleftrightarrow> json_ok j \<and> j \<noteq> JNull"

interpretation string_codec: json_codec JStr decode_string "\<lambda>_. True"
  by unfold_locales simp_all

interpretation bool_codec: json_codec JBool decode_bool "\<lambda>_. True"
  by unfold_locales simp_all

lemma encode_int_value [simp]: "encode_int n \<noteq> JNull"
  by (simp add: encode_int_def)

interpretation int_codec: json_codec encode_int decode_int int64
  by unfold_locales
    (simp_all add: encode_int_def int64_def decode_show_int json_ok_int del: decode_int.simps json_ok.simps)

interpretation any_codec: json_codec "\<lambda>j. j" decode_any any_value
  by unfold_locales (simp_all add: decode_any_def any_value_def)

text \<open>A union that holds a message.\<close>

definition holds_message :: "raw_message \<Rightarrow> bool" where
  "holds_message u \<longleftrightarrow> (\<exists>j. u = Some j \<and> json_ok j)"

lemma holds_message_simps:
  "holds_message u \<Longrightarrow> Some (raw_json u) = u" "holds_message u \<Longrightarrow> json_ok (raw_json u)"
  by (auto simp: holds_message_def raw_json_def)

end
