(* ===== verification/Git_Proxy_Server.thy ===== *)
theory Git_Proxy_Server
  imports Git_Proxy Go_JSON_Struct Go_Action
begin

text \<open>
  The git proxy as a command: reading its configuration from the environment
  (\<^verbatim>\<open>GetConfig\<close> and the decode hooks of \<^verbatim>\<open>src/internal/git-https-proxy/config/config.go\<close>), the
  health endpoints and the two servers (\<^verbatim>\<open>src/internal/git-https-proxy/root.go\<close>).

  The value that viper finds in the environment for a key, and how \<^verbatim>\<open>mapstructure\<close> converts a
  text to a number, a Boolean or a list, are parameters.
\<close>

section \<open>Decode hooks\<close>

datatype go_type = StringType | IntType | BoolType | URLType | SliceType | RepositoryType | ProviderType

text \<open>
  The data that passes through the hooks. The texts of the elements of a JSON list are given by
  their canonical form.
\<close>

datatype go_value =
    GoString string
  | GoInt int
  | GoBool bool
  | GoNil
  | GoURL url
  | GoStrings "string list"
  | GoRepository GitRepository
  | GoProvider GitProvider

type_synonym decode_hook = "go_type \<Rightarrow> go_value \<Rightarrow> go_value result"

definition parseStringAsURL :: "authority_parser \<Rightarrow> decode_hook" where
  "parseStringAsURL pa t d =
     (case d of
        GoString s \<Rightarrow>
          if t \<noteq> URLType then Inr d
          else if s = [] then Inl (Err ''empty values are not allowed for URLs'')
          else bindE (url_Parse pa s) (\<lambda>u. Inr (GoURL u))
      | _ \<Rightarrow> Inr d)"

definition parseJsonArray :: decode_hook where
  "parseJsonArray t d =
     (case d of
        GoString raw \<Rightarrow>
          if t \<noteq> SliceType then Inr d
          else if raw = [] then Inl (Err ''cannot parse empty string as a slice'')
          else (case json_parse raw of
                  Inr (JArr vs) \<Rightarrow> Inr (GoStrings (map json_Marshal vs))
                | Inr JNull \<Rightarrow> Inr (GoStrings [])
                | _ \<Rightarrow> Inr d)
      | _ \<Rightarrow> Inr d)"

definition decode_repository :: "json \<Rightarrow> GitRepository result" where
  "decode_repository j =
     bindE (json_object j) (\<lambda>ms.
     bindE (decode_string (json_member ''url'' ms)) (\<lambda>u.
     bindE (decode_string (json_member ''provider'' ms)) (\<lambda>p.
     Inr \<lparr> repo_Url = u, repo_Provider = p \<rparr>)))"

definition decode_provider :: "json \<Rightarrow> GitProvider result" where
  "decode_provider j =
     bindE (json_object j) (\<lambda>ms.
     bindE (decode_string (json_member ''id'' ms)) (\<lambda>i.
     bindE (decode_string (json_member ''access_token_url'' ms)) (\<lambda>u.
     Inr \<lparr> gp_Id = i, gp_AccessTokenUrl = u \<rparr>)))"

text \<open>\<^verbatim>\<open>json.Unmarshal\<close> into a new value of the target type; a text that is none stays a text.\<close>

definition unmarshal_struct :: "go_type \<Rightarrow> string \<Rightarrow> go_value result" where
  "unmarshal_struct t raw =
     bindE (json_parse raw) (\<lambda>j.
     case t of
       RepositoryType \<Rightarrow> bindE (decode_repository j) (\<lambda>r. Inr (GoRepository r))
     | ProviderType \<Rightarrow> bindE (decode_provider j) (\<lambda>p. Inr (GoProvider p))
     | _ \<Rightarrow> Inl (Err ''no struct''))"

definition parseJsonVariable :: decode_hook where
  "parseJsonVariable t d =
     (case d of
        GoString raw \<Rightarrow>
          if t \<notin> {RepositoryType, ProviderType, URLType} then Inr d
          else if raw = [] then Inl (Err ''cannot parse empty string as a struct'')
          else (case unmarshal_struct t raw of Inl _ \<Rightarrow> Inr d | Inr v \<Rightarrow> Inr v)
      | _ \<Rightarrow> Inr d)"

definition decode_hooks :: "authority_parser \<Rightarrow> decode_hook" where
  "decode_hooks pa t d =
     bindE (parseStringAsURL pa t d) (\<lambda>d.
     bindE (parseJsonArray t d) (parseJsonVariable t))"

section \<open>Reading the configuration\<close>

text \<open>
  What viper and mapstructure do: \<open>cs_env\<close> is the value of the variable of a key, if it is set and
  not empty; \<open>cs_list\<close> is what a text becomes where a list is expected.
\<close>

record config_source =
  cs_env :: "string \<Rightarrow> string option"
  cs_int :: "string \<Rightarrow> int result"
  cs_bool :: "string \<Rightarrow> bool result"
  cs_list :: "string \<Rightarrow> string list"
  cs_parseAuthority :: authority_parser

definition setting :: "config_source \<Rightarrow> string \<Rightarrow> go_value \<Rightarrow> go_value" where
  "setting S key d = (case cs_env S key of Some s \<Rightarrow> GoString s | None \<Rightarrow> d)"

fun as_int :: "config_source \<Rightarrow> go_value \<Rightarrow> int result" where
  "as_int S (GoInt n) = Inr n"
| "as_int S (GoString s) = cs_int S s"
| "as_int S _ = Inl (Err ''expected type int'')"

fun as_bool :: "config_source \<Rightarrow> go_value \<Rightarrow> bool result" where
  "as_bool S (GoBool b) = Inr b"
| "as_bool S (GoString s) = cs_bool S s"
| "as_bool S _ = Inl (Err ''expected type bool'')"

fun as_string :: "go_value \<Rightarrow> string result" where
  "as_string (GoString s) = Inr s"
| "as_string _ = Inl (Err ''expected type string'')"

fun as_url :: "go_value \<Rightarrow> url option result" where
  "as_url (GoURL u) = Inr (Some u)"
| "as_url GoNil = Inr None"
| "as_url _ = Inl (Err ''expected a map'')"

fun as_texts :: "config_source \<Rightarrow> go_value \<Rightarrow> string list result" where
  "as_texts S (GoStrings ts) = Inr ts"
| "as_texts S GoNil = Inr []"
| "as_texts S (GoString s) = Inr (cs_list S s)"
| "as_texts S _ = Inl (Err ''expected a slice'')"

fun as_repository :: "go_value \<Rightarrow> GitRepository result" where
  "as_repository (GoRepository r) = Inr r"
| "as_repository _ = Inl (Err ''expected a map'')"

fun as_provider :: "go_value \<Rightarrow> GitProvider result" where
  "as_provider (GoProvider p) = Inr p"
| "as_provider _ = Inl (Err ''expected a map'')"

text \<open>A field of a type, and one that is a list of structs: the hooks see the list and each element.\<close>

definition field :: "config_source \<Rightarrow> go_type \<Rightarrow> (go_value \<Rightarrow> 'a result) \<Rightarrow> string \<Rightarrow> go_value \<Rightarrow> 'a result" where
  "field S t as key d = bindE (decode_hooks (cs_parseAuthority S) t (setting S key d)) as"

definition list_field ::
  "config_source \<Rightarrow> go_type \<Rightarrow> (go_value \<Rightarrow> 'a result) \<Rightarrow> string \<Rightarrow> 'a list result" where
  "list_field S t as key =
     bindE (field S SliceType (as_texts S) key GoNil) (\<lambda>texts.
     traverseE (\<lambda>s. bindE (decode_hooks (cs_parseAuthority S) t (GoString s)) as) texts)"

text \<open>Of several fields that cannot be decoded, the error of the first is kept.\<close>

definition GetConfig :: "config_source \<Rightarrow> GitProxyConfig result" where
  "GetConfig S =
     (let text = (\<lambda>key. field S StringType as_string key (GoString [])) in
      bindE (field S IntType (as_int S) ''port'' (GoInt 8080)) (\<lambda>port.
      bindE (field S IntType (as_int S) ''health_port'' (GoInt 8081)) (\<lambda>health_port.
      bindE (field S BoolType (as_bool S) ''anonymous_session'' (GoBool True)) (\<lambda>anonymous_session.
      bindE (text ''renku_authentication_version'') (\<lambda>version.
      bindE (text ''renku_access_token'') (\<lambda>access_token.
      bindE (text ''renku_refresh_token'') (\<lambda>refresh_token.
      bindE (field S URLType as_url ''renku_url'' GoNil) (\<lambda>renku_url.
      bindE (text ''renku_realm'') (\<lambda>realm.
      bindE (text ''renku_client_id'') (\<lambda>client_id.
      bindE (text ''renku_client_secret'') (\<lambda>client_secret.
      bindE (text ''renku_token_url'') (\<lambda>token_url.
      bindE (list_field S RepositoryType as_repository ''repositories'') (\<lambda>repositories.
      bindE (list_field S ProviderType as_provider ''providers'') (\<lambda>providers.
      bindE (field S IntType (as_int S) ''refresh_check_period_seconds'' (GoInt 600)) (\<lambda>refresh_period.
      Inr \<lparr> gc_ProxyPort = port, gc_HealthPort = health_port, gc_AnonymousSession = anonymous_session,
        gc_RenkuAuthenticationVersion = version, gc_RenkuAccessToken = access_token,
        gc_RenkuRefreshToken = refresh_token, gc_RenkuURL = renku_url, gc_RenkuRealm = realm,
        gc_RenkuClientID = client_id, gc_RenkuClientSecret = client_secret, gc_RenkuTokenURL = token_url,
        gc_Repositories = repositories, gc_Providers = providers,
        gc_RefreshCheckPeriodSeconds = refresh_period \<rparr>)))))))))))))))"

section \<open>Health\<close>

text \<open>\<^verbatim>\<open>client.Get\<close> through a proxy, of which the code looks at the status.\<close>

record 'w health_net =
  hn_Get :: "url \<Rightarrow> string \<Rightarrow> ('w, int) action"
  hn_parseAuthority :: authority_parser

definition ping_response :: "int \<times> json" where
  "ping_response = (200, JObj [(''message'', JStr ''pong'')])"

text \<open>
  When the request fails, the status 400 is written and the handler goes on with the missing
  response, so it panics. A URL that does not parse ends the process.
\<close>

definition health_handler :: "'w health_net \<Rightarrow> GitProxyConfig \<Rightarrow> ('w, int) action" where
  "health_handler hn config =
     (case url_Parse (hn_parseAuthority hn) (''http://localhost:'' @ show_int (gc_ProxyPort config)) of
        Inl e \<Rightarrow> failA e
      | Inr proxyUrl \<Rightarrow>
          bindA (tryA (hn_Get hn proxyUrl (''http://localhost:'' @ show_int (gc_HealthPort config) @ ''/ping''))) (\<lambda>r.
          case r of
            Inl _ \<Rightarrow> failA (Panicked ''invalid memory address or nil pointer dereference'')
          | Inr code \<Rightarrow> returnA (if code \<ge> 200 \<and> code \<le> 400 then 200 else 400)))"

definition health_mux ::
  "'w health_net \<Rightarrow> GitProxyConfig \<Rightarrow> string \<Rightarrow> ('w, int \<times> json option) action" where
  "health_mux hn config path =
     (if path = ''/ping'' then returnA (fst ping_response, Some (snd ping_response))
      else if path = ''/health'' then bindA (health_handler hn config) (\<lambda>code. returnA (code, None))
      else returnA (404, None))"

section \<open>The command\<close>

text \<open>What runs after the configuration was read and found valid.\<close>

record gitproxy_servers =
  gs_ProxyAddr :: string
  gs_HealthAddr :: string
  gs_Config :: GitProxyConfig
  gs_Handler :: "TokenStore option \<times> registration list"

definition gitproxy_load :: "config_source \<Rightarrow> gitproxy_servers result" where
  "gitproxy_load S =
     bindE (GetConfig S) (\<lambda>config.
     case Validate (cs_parseAuthority S) config of
       Some e \<Rightarrow> Inl e
     | None \<Rightarrow>
         bindE (GetProxyHandler (cs_parseAuthority S) config) (\<lambda>handler.
         Inr \<lparr> gs_ProxyAddr = '':'' @ show_int (gc_ProxyPort config),
               gs_HealthAddr = '':'' @ show_int (gc_HealthPort config),
               gs_Config = config, gs_Handler = handler \<rparr>))"

text \<open>The shutdown after a signal: the health server goes first, and errors are only logged.\<close>

definition gitproxy_shutdown :: "('w, unit) action \<Rightarrow> ('w, unit) action \<Rightarrow> ('w, unit) action" where
  "gitproxy_shutdown shutdownHealth shutdownProxy =
     bindA (tryA shutdownHealth) (\<lambda>_.
     bindA (tryA shutdownProxy) (\<lambda>_.
     returnA ()))"

end
