(* ===== verification/Git_Proxy_Server_Props.thy ===== *)
theory Git_Proxy_Server_Props
  imports Git_Proxy_Server
begin

text \<open>
  The git proxy as a command: every configuration can be given through the environment and is
  read back, the configuration without any variable, and what the health endpoint answers.
\<close>

section \<open>Configurations as variables\<close>

definition encode_repository :: "GitRepository \<Rightarrow> json" where
  "encode_repository r = JObj [(''url'', JStr (repo_Url r)), (''provider'', JStr (repo_Provider r))]"

definition encode_provider :: "GitProvider \<Rightarrow> json" where
  "encode_provider p = JObj [(''id'', JStr (gp_Id p)), (''access_token_url'', JStr (gp_AccessTokenUrl p))]"

text \<open>The variables for a configuration, by key; an empty text needs none.\<close>

definition nonempty :: "string \<Rightarrow> string option" where
  "nonempty s = (if s = [] then None else Some s)"

definition show_bool :: "bool \<Rightarrow> string" where
  "show_bool b = (if b then ''true'' else ''false'')"

definition config_vars :: "string option \<Rightarrow> GitProxyConfig \<Rightarrow> (string \<times> string option) list" where
  "config_vars renku_url c =
     [(''port'', Some (show_int (gc_ProxyPort c))),
      (''health_port'', Some (show_int (gc_HealthPort c))),
      (''anonymous_session'', Some (show_bool (gc_AnonymousSession c))),
      (''renku_authentication_version'', nonempty (gc_RenkuAuthenticationVersion c)),
      (''renku_access_token'', nonempty (gc_RenkuAccessToken c)),
      (''renku_refresh_token'', nonempty (gc_RenkuRefreshToken c)),
      (''renku_url'', renku_url),
      (''renku_realm'', nonempty (gc_RenkuRealm c)),
      (''renku_client_id'', nonempty (gc_RenkuClientID c)),
      (''renku_client_secret'', nonempty (gc_RenkuClientSecret c)),
      (''renku_token_url'', nonempty (gc_RenkuTokenURL c)),
      (''repositories'', Some (json_Marshal (JArr (map encode_repository (gc_Repositories c))))),
      (''providers'', Some (json_Marshal (JArr (map encode_provider (gc_Providers c))))),
      (''refresh_check_period_seconds'', Some (show_int (gc_RefreshCheckPeriodSeconds c)))]"

section \<open>Fields\<close>

lemma string_field:
  assumes "cs_env S key = nonempty s"
  shows "field S StringType as_string key (GoString []) = Inr s"
  using assms by (auto simp: field_def setting_def decode_hooks_def parseStringAsURL_def parseJsonArray_def
      parseJsonVariable_def nonempty_def)

lemma int_field:
  assumes "cs_env S key = Some s" "cs_int S s = Inr n"
  shows "field S IntType (as_int S) key d = Inr n"
  using assms by (simp add: field_def setting_def decode_hooks_def parseStringAsURL_def parseJsonArray_def
      parseJsonVariable_def)

lemma bool_field:
  assumes "cs_env S key = Some s" "cs_bool S s = Inr b"
  shows "field S BoolType (as_bool S) key d = Inr b"
  using assms by (simp add: field_def setting_def decode_hooks_def parseStringAsURL_def parseJsonArray_def
      parseJsonVariable_def)

lemma url_field:
  assumes "cs_env S key = Some s" "s \<noteq> []" "url_Parse (cs_parseAuthority S) s = Inr u"
  shows "field S URLType as_url key GoNil = Inr (Some u)"
  using assms by (simp add: field_def setting_def decode_hooks_def parseStringAsURL_def parseJsonArray_def
      parseJsonVariable_def)

lemma unset_field:
  assumes "cs_env S key = None" "\<And>s. d \<noteq> GoString s"
  shows "field S t as key d = as d"
proof (cases d)
  case (GoString s)
  with assms(2) show ?thesis by blast
qed (use assms(1) in \<open>simp_all add: field_def setting_def decode_hooks_def parseStringAsURL_def
      parseJsonArray_def parseJsonVariable_def\<close>)

text \<open>A list of values whose texts are read back one by one.\<close>

lemma json_Marshal_nonempty: "json_Marshal (JArr xs) \<noteq> []" "json_Marshal (JObj ms) \<noteq> []"
  by simp_all

lemma list_field_roundtrip:
  assumes "cs_env S key = Some (json_Marshal (JArr (map enc xs)))"
    and "t \<in> {RepositoryType, ProviderType}" "\<And>x. json_ok (enc x)" "\<And>x. json_Marshal (enc x) \<noteq> []"
    and "\<And>x. unmarshal_struct t (json_Marshal (enc x)) = Inr (val x)" "\<And>x. as (val x) = Inr x"
  shows "list_field S t as key = Inr xs"
proof -
  have "json_ok (JArr (map enc xs))" using assms(3) by auto
  note parsed = json_parse_Marshal [OF this]
  have "field S SliceType (as_texts S) key GoNil = Inr (map (\<lambda>x. json_Marshal (enc x)) xs)"
    using assms(1) parsed json_Marshal_nonempty(1) [of "map enc xs"]
    by (simp add: field_def setting_def decode_hooks_def parseStringAsURL_def parseJsonArray_def
        parseJsonVariable_def comp_def del: json_Marshal.simps)
  moreover have "bindE (decode_hooks (cs_parseAuthority S) t (GoString (json_Marshal (enc x)))) as = Inr x" for x
    using assms(2,4-6) by (auto simp: decode_hooks_def parseStringAsURL_def parseJsonArray_def parseJsonVariable_def)
  then have "traverseE (\<lambda>s. bindE (decode_hooks (cs_parseAuthority S) t (GoString s)) as)
      (map (\<lambda>x. json_Marshal (enc x)) xs) = Inr xs"
    by (induction xs) simp_all
  ultimately show ?thesis by (simp add: list_field_def)
qed

lemma repositories_field:
  assumes "cs_env S key = Some (json_Marshal (JArr (map encode_repository rs)))"
  shows "list_field S RepositoryType as_repository key = Inr rs"
proof (rule list_field_roundtrip [OF assms, where val = GoRepository])
  fix r
  have ok: "json_ok (encode_repository r)" by (simp add: encode_repository_def)
  have "decode_repository (encode_repository r) = Inr r"
    by (simp add: decode_repository_def encode_repository_def json_member_def ToLower_def)
  then show "unmarshal_struct RepositoryType (json_Marshal (encode_repository r)) = Inr (GoRepository r)"
    by (simp add: unmarshal_struct_def json_parse_Marshal [OF ok])
qed (simp_all add: encode_repository_def)

lemma providers_field:
  assumes "cs_env S key = Some (json_Marshal (JArr (map encode_provider ps)))"
  shows "list_field S ProviderType as_provider key = Inr ps"
proof (rule list_field_roundtrip [OF assms, where val = GoProvider])
  fix p
  have ok: "json_ok (encode_provider p)" by (simp add: encode_provider_def)
  have "decode_provider (encode_provider p) = Inr p"
    by (simp add: decode_provider_def encode_provider_def json_member_def ToLower_def)
  then show "unmarshal_struct ProviderType (json_Marshal (encode_provider p)) = Inr (GoProvider p)"
    by (simp add: unmarshal_struct_def json_parse_Marshal [OF ok])
qed (simp_all add: encode_provider_def)

section \<open>The configuration\<close>

text \<open>How mapstructure reads the numbers and Booleans of the configuration.\<close>

definition reads_scalars :: "config_source \<Rightarrow> bool" where
  "reads_scalars S \<longleftrightarrow> (\<forall>n. - (2 ^ 63) \<le> n \<and> n < 2 ^ 63 \<longrightarrow> cs_int S (show_int n) = Inr n)
     \<and> (\<forall>b. cs_bool S (show_bool b) = Inr b)"

text \<open>C31: Every configuration of the git proxy can be given to it through the environment: with the
  numbers and Booleans printed, the repositories and providers as JSON lists of objects, the URL
  as a text that parses to it, and no variable for an empty text, reading the environment gives
  back the configuration.\<close>

theorem GetConfig_roundtrip:
  assumes "reads_scalars S" "\<And>key. cs_env S key = (case map_of (config_vars url_text c) key of Some v \<Rightarrow> v | None \<Rightarrow> None)"
    and "int64 (gc_ProxyPort c)" "int64 (gc_HealthPort c)" "int64 (gc_RefreshCheckPeriodSeconds c)"
    and "case gc_RenkuURL c of
           None \<Rightarrow> url_text = None
         | Some u \<Rightarrow> \<exists>s. url_text = Some s \<and> s \<noteq> [] \<and> url_Parse (cs_parseAuthority S) s = Inr u"
  shows "GetConfig S = Inr c"
proof -
  have ints: "cs_int S (show_int n) = Inr n" if "int64 n" for n
    using assms(1) that by (simp add: reads_scalars_def int64_def)
  have bools: "cs_bool S (show_bool b) = Inr b" for b
    using assms(1) by (simp add: reads_scalars_def)
  have env: "map_of (config_vars url_text c) key = Some v \<Longrightarrow> cs_env S key = v" for key v
    by (simp add: assms(2))
  have url: "field S URLType as_url ''renku_url'' GoNil = Inr (gc_RenkuURL c)"
  proof -
    have key: "cs_env S ''renku_url'' = url_text" by (rule env) (simp add: config_vars_def)
    show ?thesis
      using assms(6) key url_field [of S "''renku_url''"] unset_field [of S "''renku_url''" GoNil URLType as_url]
      by (auto split: option.splits)
  qed
  have "field S IntType (as_int S) ''port'' (GoInt 8080) = Inr (gc_ProxyPort c)"
    "field S IntType (as_int S) ''health_port'' (GoInt 8081) = Inr (gc_HealthPort c)"
    "field S IntType (as_int S) ''refresh_check_period_seconds'' (GoInt 600) = Inr (gc_RefreshCheckPeriodSeconds c)"
    "field S BoolType (as_bool S) ''anonymous_session'' (GoBool True) = Inr (gc_AnonymousSession c)"
    by (rule int_field [OF env ints [OF assms(3)]] int_field [OF env ints [OF assms(4)]]
        int_field [OF env ints [OF assms(5)]] bool_field [OF env bools]; simp add: config_vars_def)+
  moreover have text_field: "field S StringType as_string key (GoString []) = Inr s"
    if "map_of (config_vars url_text c) key = Some (nonempty s)" for key s
    by (rule string_field [OF env [OF that]])
  moreover have "list_field S RepositoryType as_repository ''repositories'' = Inr (gc_Repositories c)"
    by (rule repositories_field [OF env]) (simp add: config_vars_def)
  moreover have "list_field S ProviderType as_provider ''providers'' = Inr (gc_Providers c)"
    by (rule providers_field [OF env]) (simp add: config_vars_def)
  ultimately show ?thesis
    using url by (simp add: GetConfig_def Let_def config_vars_def)
qed


text \<open>A source over an environment given by key.\<close>

definition plain_source :: "(string \<Rightarrow> string option) \<Rightarrow> config_source" where
  "plain_source env = \<lparr> cs_env = env,
     cs_int = (\<lambda>s. case int_literal s of Some n \<Rightarrow> Inr n | None \<Rightarrow> Inl (Err s)),
     cs_bool = (\<lambda>s. Inr (s = ''true'')), cs_list = (\<lambda>s. [s]), cs_parseAuthority = (\<lambda>a. Inr (None, a)) \<rparr>"

lemma plain_source_reads: "reads_scalars (plain_source env)"
proof -
  have "cs_int (plain_source env) (show_int n) = Inr n" if "- (2 ^ 63) \<le> n" "n < 2 ^ 63" for n
    using decode_show_int [OF that] by (simp add: plain_source_def split: option.splits)
  then show ?thesis by (simp add: reads_scalars_def) (simp add: plain_source_def show_bool_def)
qed

definition two_repositories :: GitProxyConfig where
  "two_repositories = \<lparr> gc_ProxyPort = 65480, gc_HealthPort = 65481, gc_AnonymousSession = False,
     gc_RenkuAuthenticationVersion = ''v2'', gc_RenkuAccessToken = ''a'', gc_RenkuRefreshToken = ''r'',
     gc_RenkuURL = Some (empty_url\<lparr> u_Scheme := ''https'', u_Host := ''renku.io'' \<rparr>), gc_RenkuRealm = [],
     gc_RenkuClientID = [], gc_RenkuClientSecret = [], gc_RenkuTokenURL = ''https://renku.io/t'',
     gc_Repositories = [\<lparr> repo_Url = ''https://git.io/a'', repo_Provider = ''g'' \<rparr>,
                        \<lparr> repo_Url = ''https://git.io/b'', repo_Provider = [] \<rparr>],
     gc_Providers = [\<lparr> gp_Id = ''g'', gp_AccessTokenUrl = ''https://renku.io/p'' \<rparr>],
     gc_RefreshCheckPeriodSeconds = 600 \<rparr>"

definition two_repositories_env :: "string \<Rightarrow> string option" where
  "two_repositories_env key =
     (case map_of (config_vars (Some ''https://renku.io'') two_repositories) key of Some v \<Rightarrow> v | None \<Rightarrow> None)"

lemma renku_io_parses:
  "url_Parse (\<lambda>a. Inr (None, a)) ''https://renku.io'' = Inr (empty_url\<lparr> u_Scheme := ''https'', u_Host := ''renku.io'' \<rparr>)"
  by code_simp

theorem GetConfig_roundtrip_witness: "GetConfig (plain_source two_repositories_env) = Inr two_repositories"
proof (rule GetConfig_roundtrip [OF plain_source_reads])
  show "cs_env (plain_source two_repositories_env) key =
    (case map_of (config_vars (Some ''https://renku.io'') two_repositories) key of Some v \<Rightarrow> v | None \<Rightarrow> None)" for key
    by (simp add: plain_source_def two_repositories_env_def)
qed (simp_all add: two_repositories_def int64_def plain_source_def renku_io_parses)

text \<open>
  Without any variable the session is taken for an anonymous one: the command starts and passes
  all requests through without credentials.
\<close>

definition default_config :: GitProxyConfig where
  "default_config = \<lparr> gc_ProxyPort = 8080, gc_HealthPort = 8081, gc_AnonymousSession = True,
     gc_RenkuAuthenticationVersion = [], gc_RenkuAccessToken = [], gc_RenkuRefreshToken = [],
     gc_RenkuURL = None, gc_RenkuRealm = [], gc_RenkuClientID = [], gc_RenkuClientSecret = [],
     gc_RenkuTokenURL = [], gc_Repositories = [], gc_Providers = [], gc_RefreshCheckPeriodSeconds = 600 \<rparr>"

lemma unset_starts_anonymous:
  assumes "\<And>key. cs_env S key = None"
  shows "GetConfig S = Inr default_config"
    "gitproxy_load S = Inr \<lparr> gs_ProxyAddr = '':'' @ show_int 8080, gs_HealthAddr = '':'' @ show_int 8081,
       gs_Config = default_config, gs_Handler = (None, []) \<rparr>"
proof -
  have text_field: "field S StringType as_string key (GoString []) = Inr []" for key
    by (rule string_field) (simp add: assms nonempty_def)
  have "list_field S t as key = Inr []" for t and as :: "go_value \<Rightarrow> 'a result" and key
    by (simp add: list_field_def unset_field [OF assms])
  then show config: "GetConfig S = Inr default_config"
    by (simp add: GetConfig_def Let_def text_field unset_field [OF assms] default_config_def list_field_def)
  then show "gitproxy_load S = Inr \<lparr> gs_ProxyAddr = '':'' @ show_int 8080, gs_HealthAddr = '':'' @ show_int 8081,
       gs_Config = default_config, gs_Handler = (None, []) \<rparr>"
    by (simp add: gitproxy_load_def Validate_def GetProxyHandler_def default_config_def)
qed

section \<open>Health\<close>

text \<open>The health endpoint of the git proxy tells whether a request for \<^verbatim>\<open>/ping\<close> gets through the
  proxy: it answers 200 when the status that comes back is between 200 and 400, the latter included, and 400
  for any other; when the request fails, as it does while the proxy is down, the handler does not
  answer 400 as it means to but dereferences the missing response and panics.\<close>

lemma health_follows_ping:
  assumes "url_Parse (hn_parseAuthority hn) (''http://localhost:'' @ show_int (gc_ProxyPort config)) = Inr proxyUrl"
  shows "health_mux hn config ''/health'' w =
    (case hn_Get hn proxyUrl (''http://localhost:'' @ show_int (gc_HealthPort config) @ ''/ping'') w of
       (w', Inr code) \<Rightarrow> (w', Inr (if 200 \<le> code \<and> code \<le> 400 then 200 else 400, None))
     | (w', Inl e) \<Rightarrow> (w', Inl (Panicked ''invalid memory address or nil pointer dereference'')))"
  using assms
  by (auto simp: health_mux_def health_handler_def bindA_def tryA_def failA_def returnA_def
      split: prod.splits sum.splits)

end
