(* ===== verification/Cloner_Config.thy ===== *)
theory Cloner_Config
  imports Cloner Git_Proxy_Server_Props
begin

text \<open>
  How the command \<^verbatim>\<open>cloner shellclone\<close> reads its configuration from the environment
  (\<^verbatim>\<open>shellClone\<close> of \<^verbatim>\<open>src/internal/cloner/shellclone.go\<close>), and that it looks for the git proxy
  where the git proxy listens.
\<close>

section \<open>Reading the configuration\<close>

definition clone_config :: "config_source \<Rightarrow> CloneConfig result" where
  "clone_config S =
     bindE (as_string (setting S ''mount_path'' (GoString []))) (\<lambda>mount_path.
     bindE (as_bool S (setting S ''lfs_auto_fetch'' (GoBool False))) (\<lambda>lfs_auto_fetch.
     bindE (as_bool S (setting S ''is_git_proxy_enabled'' (GoBool False))) (\<lambda>is_git_proxy_enabled.
     bindE (as_int S (setting S ''git_proxy_port'' (GoInt 8080))) (\<lambda>git_proxy_port.
     Inr \<lparr> cc_MountPath = mount_path, cc_LfsAutoFetch = lfs_auto_fetch,
           cc_IsGitProxyEnabled = is_git_proxy_enabled, cc_GitProxyPort = git_proxy_port,
           cc_Repositories = [], cc_GitProviders = [] \<rparr>))))"

definition clone_user :: "config_source \<Rightarrow> User result" where
  "clone_user S =
     bindE (as_string (setting S ''user__username'' (GoString []))) (\<lambda>username.
     bindE (as_string (setting S ''user__email'' (GoString []))) (\<lambda>email.
     bindE (as_string (setting S ''user__full_name'' (GoString []))) (\<lambda>full_name.
     bindE (as_string (setting S ''user__renku_token'' (GoString []))) (\<lambda>renku_token.
     Inr \<lparr> usr_Username = username, usr_Email = email, usr_FullName = full_name,
           usr_RenkuToken = renku_token \<rparr>))))"

text \<open>
  The configuration file is looked for by the shared instance of viper and not by the one that
  is configured; only a file that is missing is no error.
\<close>

definition shellclone_main ::
  "'w host \<Rightarrow> unit result \<Rightarrow> config_source \<Rightarrow> strmap \<Rightarrow> ('w, unit) action" where
  "shellclone_main h readInConfig S env =
     bindA (case readInConfig of
        Inl e \<Rightarrow> if IsNotFound e then returnA () else failA e
      | Inr _ \<Rightarrow> returnA ()) (\<lambda>_.
     bindA (liftE (clone_config S)) (\<lambda>config.
     bindA (liftE (clone_user S)) (\<lambda>user.
     shellClone h config user env)))"

section \<open>Defaults\<close>

lemma clone_config_defaults:
  assumes "\<And>key. cs_env S key = None"
  shows "clone_config S = Inr \<lparr> cc_MountPath = [], cc_LfsAutoFetch = False, cc_IsGitProxyEnabled = False,
      cc_GitProxyPort = 8080, cc_Repositories = [], cc_GitProviders = [] \<rparr>"
    "clone_user S = Inr \<lparr> usr_Username = [], usr_Email = [], usr_FullName = [], usr_RenkuToken = [] \<rparr>"
  by (simp_all add: clone_config_def clone_user_def setting_def assms)

text \<open>Where neither port is configured, the proxy that the cloner sets for git is the git proxy.\<close>

lemma default_proxy_port:
  assumes "cs_env S ''git_proxy_port'' = None" "\<And>key. cs_env P key = None"
    and "clone_config S = Inr config" "GetConfig P = Inr proxy"
  shows "proxyURL \<lparr> cln_config = config, cln_user = user, cln_remoteName = name \<rparr> =
    ''http://localhost:'' @ show_int (gc_ProxyPort proxy)"
proof -
  have "cc_GitProxyPort config = 8080"
    using assms(1,3) by (auto simp: clone_config_def setting_def bindE_Inr_iff)
  moreover have "gc_ProxyPort proxy = 8080"
    using assms(4) unset_starts_anonymous(1) [OF assms(2)] by (auto simp: default_config_def)
  ultimately show ?thesis by (simp add: proxyURL_def)
qed

end
