(* ===== verification/Cloner_Exclude.thy ===== *)
theory Cloner_Exclude
  imports Cloner
begin

text \<open>
  Keeping paths out of a repository (\<^verbatim>\<open>parents\<close> and \<^verbatim>\<open>ExcludePathFromGit\<close> of
  \<^verbatim>\<open>src/internal/cloner/repository.go\<close>): the paths below the clone are appended to the file
  \<^verbatim>\<open>.git/info/exclude\<close>, relative to the clone. Opening, appending to and closing the file
  are parameters.
\<close>

section \<open>Directories\<close>

text \<open>\<^verbatim>\<open>filepath.Dir\<close>: everything up to the last slash, cleaned.\<close>

definition dir_part :: "string \<Rightarrow> string" where
  "dir_part p = rev (dropWhile (\<lambda>c. c \<noteq> CHR ''/'') (rev p))"

definition filepath_Dir :: "string \<Rightarrow> string" where
  "filepath_Dir p = path_Clean (dir_part p)"

text \<open>
  The walk ends, because the directory of a path is shorter than the path: a list of segments that
  are joined again needs at most the room they took, and the slash at the end goes.
\<close>

definition room :: "string list \<Rightarrow> nat" where
  "room ss = sum_list (map (\<lambda>s. Suc (length s)) ss)"

lemma room_simps [simp]: "room [] = 0" "room (s # ss) = Suc (length s) + room ss" "room (xs @ ys) = room xs + room ys"
  by (simp_all add: room_def)

lemma room_butlast: "room (butlast ss) \<le> room ss"
  by (induction ss) auto

lemma length_str_Join: "ss \<noteq> [] \<Longrightarrow> Suc (length (str_Join ss ''/'')) = room ss"
  by (induction ss "''/''" rule: str_Join.induct) auto

lemma room_clean_segs: "room (clean_segs out ss) \<le> room out + room ss"
proof (induction out ss rule: clean_segs.induct)
  case (2 out s ss)
  then show ?case using room_butlast [of out] by fastforce
qed simp

lemma room_clean_rel: "room (clean_rel out ss) \<le> room out + room ss"
proof (induction out ss rule: clean_rel.induct)
  case (2 out s ss)
  then show ?case
    using room_butlast [of out] by (cases "s = ''..'' \<and> out \<noteq> [] \<and> last out \<noteq> ''..''") auto
qed simp

lemma room_fields: "room (fields_acc c acc (s @ [c])) \<le> length acc + Suc (length s)"
  by (induction c acc s rule: fields_acc.induct) auto

lemma room_FieldsFunc: "room (FieldsFunc c (s @ [c])) \<le> Suc (length s)"
  using room_fields [of c "[]" s] by (simp add: FieldsFunc_def)

lemma dir_part_cases: "dir_part p = [] \<or> (\<exists>s. dir_part p = s @ ''/'')"
proof (cases "dropWhile (\<lambda>c. c \<noteq> CHR ''/'') (rev p)")
  case (Cons c cs)
  then have "c = CHR ''/''" by (simp add: dropWhile_eq_Cons_conv)
  with Cons show ?thesis by (simp add: dir_part_def)
qed (simp add: dir_part_def)

lemma length_dir_part: "length (dir_part p) \<le> length p"
  unfolding dir_part_def by (metis length_dropWhile_le length_rev)

lemma path_Clean_shorter:
  "path_Clean (s @ ''/'') \<in> {''/'', ''.''} \<or> length (path_Clean (s @ ''/'')) < Suc (length s)"
proof (cases "HasPrefix (s @ ''/'') ''/''")
  case rooted: True
  define ss where "ss = clean_segs [] (FieldsFunc (CHR ''/'') (s @ ''/''))"
  have clean: "path_Clean (s @ ''/'') = ''/'' @ str_Join ss ''/''"
    using rooted by (simp add: path_Clean_def path_Clean_rooted_def ss_def)
  show ?thesis
  proof (cases "s = [] \<or> ss = []")
    case True
    then show ?thesis using clean by (auto simp: ss_def FieldsFunc_def)
  next
    case False
    then obtain t where t: "s = CHR ''/'' # t" using rooted by (cases s) (auto simp: HasPrefix_def)
    then have "room ss \<le> Suc (length t)"
      using room_clean_segs [of "[]" "FieldsFunc (CHR ''/'') (s @ ''/'')"] room_FieldsFunc [of "CHR ''/''" t]
      by (simp add: ss_def FieldsFunc_def)
    then show ?thesis using length_str_Join [of ss] False clean t by simp
  qed
next
  case False
  define ss where "ss = clean_rel [] (FieldsFunc (CHR ''/'') (s @ ''/''))"
  have "room ss \<le> Suc (length s)"
    using room_clean_rel [of "[]" "FieldsFunc (CHR ''/'') (s @ ''/'')"] room_FieldsFunc [of "CHR ''/''" s]
    by (simp add: ss_def)
  then show ?thesis using length_str_Join [of ss] False by (auto simp: path_Clean_def ss_def [symmetric])
qed

lemma filepath_Dir_shorter: "filepath_Dir p \<in> {''/'', ''.''} \<or> length (filepath_Dir p) < length p"
proof (cases "dir_part p = []")
  case True
  then show ?thesis by (simp add: filepath_Dir_def path_Clean_def HasPrefix_def FieldsFunc_def)
next
  case False
  then obtain s where "dir_part p = s @ ''/''" using dir_part_cases by blast
  then show ?thesis using path_Clean_shorter [of s] length_dir_part [of p] by (auto simp: filepath_Dir_def)
qed

function parents_from :: "string \<Rightarrow> string list" where
  "parents_from parent =
     (if parent = ''/'' \<or> parent = ''.'' then [] else parent # parents_from (filepath_Dir parent))"
  by pat_completeness auto

termination
proof (relation "measure (\<lambda>p. if p = ''/'' \<or> p = ''.'' then 0 else Suc (length p))")
  fix p :: string
  assume "\<not> (p = ''/'' \<or> p = ''.'')"
  with filepath_Dir_shorter [of p]
  show "(filepath_Dir p, p) \<in> measure (\<lambda>p. if p = ''/'' \<or> p = ''.'' then 0 else Suc (length p))" by auto
qed simp

declare parents_from.simps [simp del]

definition parents :: "string \<Rightarrow> string list" where
  "parents p = parents_from (filepath_Dir p)"

section \<open>Relative paths\<close>

text \<open>
  \<^verbatim>\<open>filepath.Rel\<close>: the elements of both cleaned paths are compared from the left; what is left of the
  base is left through its parents, and what is left of the target is entered.
\<close>

fun strip_common :: "string list \<Rightarrow> string list \<Rightarrow> string list \<times> string list" where
  "strip_common (b # bs) (t # ts) = (if b = t then strip_common bs ts else (b # bs, t # ts))"
| "strip_common bs ts = (bs, ts)"

definition filepath_Rel :: "string \<Rightarrow> string \<Rightarrow> string result" where
  "filepath_Rel basepath targpath =
     (let base = path_Clean basepath; targ = path_Clean targpath in
      if targ = base then Inr ''.''
      else
        (let base = (if base = ''.'' then [] else base) in
         if HasPrefix base ''/'' \<noteq> HasPrefix targ ''/''
         then Inl (Err (''Rel: can't make '' @ targpath @ '' relative to '' @ basepath))
         else
           (let (bs, ts) = strip_common (FieldsFunc (CHR ''/'') base) (FieldsFunc (CHR ''/'') targ) in
            if bs \<noteq> [] \<and> hd bs = ''..''
            then Inl (Err (''Rel: can't make '' @ targpath @ '' relative to '' @ basepath))
            else Inr (str_Join (map (\<lambda>_. ''..'') bs @ ts) ''/''))))"

section \<open>The exclude file\<close>

record 'w append_host =
  ah_OpenFile :: "string \<Rightarrow> ('w, unit) action"
  ah_Append :: "string \<Rightarrow> string \<Rightarrow> ('w, unit) action"
  ah_Close :: "string \<Rightarrow> ('w, unit) action"

definition exclude_path :: "'w append_host \<Rightarrow> Repository \<Rightarrow> string \<Rightarrow> string \<Rightarrow> ('w, unit) action" where
  "exclude_path h r excludesPath path =
     (if rep_clonePath r \<in> set (parents path)
      then bindA (liftE (filepath_Rel (rep_clonePath r) path)) (\<lambda>excludePath.
           ah_Append h excludesPath (excludePath @ [CHR 0x0A]))
      else returnA ())"

definition ExcludePathFromGit :: "'w append_host \<Rightarrow> Repository \<Rightarrow> string list \<Rightarrow> ('w, unit) action" where
  "ExcludePathFromGit h r paths =
     (if length paths = 0 then returnA ()
      else
        (let excludesPath = filepath_Join [rep_clonePath r, ''.git'', ''info'', ''exclude''] in
         bindA (ah_OpenFile h excludesPath) (\<lambda>_.
         bindA (forA paths (exclude_path h r excludesPath)) (\<lambda>_.
         ah_Close h excludesPath))))"

section \<open>What is excluded\<close>

text \<open>Absolute paths by their segments.\<close>

definition segment :: "string \<Rightarrow> bool" where
  "segment s \<longleftrightarrow> s \<noteq> [] \<and> CHR ''/'' \<notin> set s \<and> s \<noteq> ''.'' \<and> s \<noteq> ''..''"

definition abs_path :: "string list \<Rightarrow> string" where
  "abs_path ss = ''/'' @ str_Join ss ''/''"

lemma fields_slash_free: "c \<notin> set s \<Longrightarrow> fields_acc c acc (s @ r) = fields_acc c (acc @ s) r"
  by (induction s arbitrary: acc) auto

lemma fields_str_Join:
  assumes "\<forall>s\<in>set ss. s \<noteq> [] \<and> c \<notin> set s"
  shows "FieldsFunc c (str_Join ss [c]) = ss" "FieldsFunc c (str_Join ss [c] @ [c]) = ss"
  using assms unfolding FieldsFunc_def
  by (induction ss "[c]" rule: str_Join.induct)
    (auto simp: fields_slash_free fields_slash_free [where r = "[]", simplified])

lemma clean_segments: "list_all segment ss \<Longrightarrow> clean_segs out ss = out @ ss"
  by (induction ss arbitrary: out) (auto simp: segment_def)

lemma segments_slash_free: "list_all segment ss \<Longrightarrow> \<forall>s\<in>set ss. s \<noteq> [] \<and> CHR ''/'' \<notin> set s"
  by (auto simp: list_all_iff segment_def)

lemma path_Clean_abs:
  assumes "list_all segment ss"
  shows "path_Clean (abs_path ss) = abs_path ss" "path_Clean (abs_path ss @ ''/'') = abs_path ss"
  using clean_segments [OF assms, of "[]"] fields_str_Join [OF segments_slash_free [OF assms]]
  by (simp_all add: abs_path_def path_Clean_def path_Clean_rooted_def HasPrefix_def FieldsFunc_def)

lemma str_Join_snoc: "str_Join (ss @ [x]) ''/'' = (if ss = [] then [] else str_Join ss ''/'' @ ''/'') @ x"
  by (induction ss "''/''" rule: str_Join.induct) auto

lemma dir_part_append: "CHR ''/'' \<notin> set x \<Longrightarrow> dir_part (p @ ''/'' @ x) = p @ ''/''"
  unfolding dir_part_def by (induction x rule: rev_induct) auto

lemma filepath_Dir_abs:
  assumes "list_all segment (ss @ [x])"
  shows "filepath_Dir (abs_path (ss @ [x])) = abs_path ss"
proof (cases "ss = []")
  case True
  then show ?thesis
    using dir_part_append [of x "[]"] assms
    by (simp add: abs_path_def filepath_Dir_def segment_def path_Clean_def path_Clean_rooted_def
        HasPrefix_def FieldsFunc_def)
next
  case False
  then have "abs_path (ss @ [x]) = abs_path ss @ ''/'' @ x" by (simp add: abs_path_def str_Join_snoc)
  then show ?thesis
    using dir_part_append [of x "abs_path ss"] path_Clean_abs(2) [of ss] assms
    by (simp add: filepath_Dir_def segment_def)
qed

text \<open>The parents of an absolute path are the directories on the way to it, the root left out.\<close>

lemma parents_abs:
  assumes "list_all segment (ss @ [x])"
  shows "parents (abs_path (ss @ [x])) = (if ss = [] then [] else abs_path ss # parents (abs_path ss))"
proof -
  have "parents (abs_path (ss @ [x])) = parents_from (abs_path ss)"
    by (simp add: parents_def filepath_Dir_abs [OF assms])
  also have "\<dots> = (if ss = [] then [] else abs_path ss # parents (abs_path ss))"
  proof (cases ss)
    case (Cons y ys)
    then have "str_Join ss ''/'' \<noteq> []" using assms by (cases ys) (auto simp: segment_def)
    then have "abs_path ss \<noteq> ''/''" "abs_path ss \<noteq> ''.''" by (simp_all add: abs_path_def)
    with Cons show ?thesis by (subst parents_from.simps) (simp add: parents_def)
  qed (simp add: parents_from.simps abs_path_def)
  finally show ?thesis .
qed

lemma abs_path_inj:
  assumes "list_all segment ss" "list_all segment ts" "abs_path ss = abs_path ts"
  shows "ss = ts"
proof -
  have "str_Join ss ''/'' = str_Join ts ''/''" using assms(3) by (simp add: abs_path_def)
  then show ?thesis
    using fields_str_Join(1) [OF segments_slash_free [OF assms(1)]]
      fields_str_Join(1) [OF segments_slash_free [OF assms(2)]] by metis
qed

lemma in_parents_abs:
  assumes "list_all segment q" "list_all segment a" "a \<noteq> []"
  shows "abs_path a \<in> set (parents (abs_path q)) \<longleftrightarrow> (\<exists>b. b \<noteq> [] \<and> q = a @ b)"
  using assms(1)
proof (induction q rule: rev_induct)
  case Nil
  have "parents (abs_path []) = []"
    by (simp add: parents_def parents_from.simps filepath_Dir_def dir_part_def path_Clean_def
        path_Clean_rooted_def abs_path_def HasPrefix_def FieldsFunc_def)
  then show ?case by simp
next
  case (snoc x ss)
  have "abs_path a = abs_path ss \<longleftrightarrow> a = ss" using abs_path_inj assms(2) snoc.prems by auto
  moreover have "(\<exists>b. b \<noteq> [] \<and> ss @ [x] = a @ b) \<longleftrightarrow> a = ss \<or> (\<exists>b. b \<noteq> [] \<and> ss = a @ b)"
    by (metis append_Nil2 append_is_Nil_conv append_assoc butlast_append butlast_snoc not_Cons_self2)
  ultimately show ?case using snoc assms(3) by (auto simp: parents_abs [OF snoc.prems])
qed

lemma strip_common_append: "strip_common a (a @ b) = ([], b)"
  by (induction a) (cases b; simp)+

lemma filepath_Rel_below:
  assumes "list_all segment (a @ b)" "b \<noteq> []"
  shows "filepath_Rel (abs_path a) (abs_path (a @ b)) = Inr (str_Join b ''/'')"
proof -
  have seg: "list_all segment a" using assms(1) by simp
  have fields: "FieldsFunc (CHR ''/'') (abs_path ss) = ss" if "list_all segment ss" for ss
    using fields_str_Join(1) [OF segments_slash_free [OF that]] by (simp add: abs_path_def FieldsFunc_def)
  have rooted: "HasPrefix (abs_path ss) ''/''" "abs_path ss \<noteq> ''.''" for ss
    by (simp_all add: abs_path_def HasPrefix_def)
  have "abs_path (a @ b) \<noteq> abs_path a" using abs_path_inj [OF assms(1) seg] assms(2) by auto
  then show ?thesis
    by (simp add: filepath_Rel_def Let_def path_Clean_abs(1) [OF assms(1)] path_Clean_abs(1) [OF seg]
        fields [OF assms(1)] fields [OF seg] rooted strip_common_append)
qed

text \<open>
  Of the given paths, exactly those strictly below the clone are written to the file, in their
  order, each on a line of its own and without the path of the clone; the others are passed over
  and no path is an error.
\<close>

definition below :: "string list \<Rightarrow> string list \<Rightarrow> string list option" where
  "below a q = (if length a < length q \<and> take (length a) q = a then Some (drop (length a) q) else None)"

lemma below_iff: "below a q = Some b \<longleftrightarrow> b \<noteq> [] \<and> q = a @ b"
  by (auto simp: below_def) (metis append_take_drop_id)+

lemma exclude_path_abs:
  assumes "rep_clonePath r = abs_path a" "list_all segment a" "a \<noteq> []" "list_all segment q"
  shows "exclude_path h r f (abs_path q) =
    (case below a q of Some b \<Rightarrow> ah_Append h f (str_Join b ''/'' @ [CHR 0x0A]) | None \<Rightarrow> returnA ())"
proof (cases "below a q")
  case None
  then have "abs_path a \<notin> set (parents (abs_path q))"
    using in_parents_abs [OF assms(4,2,3)] below_iff by (metis option.distinct(1))
  with None show ?thesis by (simp add: exclude_path_def assms(1))
next
  case (Some b)
  then have b: "b \<noteq> []" "q = a @ b" by (simp_all add: below_iff)
  then have "abs_path a \<in> set (parents (abs_path q))" using in_parents_abs [OF assms(4,2,3)] by blast
  with Some b assms filepath_Rel_below [of a b] show ?thesis
    by (simp add: exclude_path_def bindA_def liftE_def returnA_def fun_eq_iff)
qed

lemma ExcludePathFromGit_writes:
  assumes "rep_clonePath r = abs_path a" "list_all segment a" "a \<noteq> []" "list_all (list_all segment) qs" "qs \<noteq> []"
  shows "ExcludePathFromGit h r (map abs_path qs) =
    (let f = filepath_Join [abs_path a, ''.git'', ''info'', ''exclude''] in
     bindA (ah_OpenFile h f) (\<lambda>_.
     bindA (forA (List.map_filter (below a) qs) (\<lambda>b. ah_Append h f (str_Join b ''/'' @ [CHR 0x0A]))) (\<lambda>_.
     ah_Close h f)))"
proof -
  have skip: "bindA (returnA ()) m = m ()" for m :: "unit \<Rightarrow> ('a, unit) action"
    by (simp add: bindA_def returnA_def fun_eq_iff)
  have "forA (map abs_path qs) (exclude_path h r f) =
      forA (List.map_filter (below a) qs) (\<lambda>b. ah_Append h f (str_Join b ''/'' @ [CHR 0x0A]))" for f
    using assms(4) by (induction qs)
      (auto simp: map_filter_simps skip exclude_path_abs [OF assms(1-3)] split: option.splits)
  then show ?thesis using assms(1,5) by (simp add: ExcludePathFromGit_def)
qed

text \<open>A clone path that ends with a slash is not among the parents of any path, so nothing is excluded.\<close>

lemma trailing_slash_excludes_nothing:
  "parents ''/work/repo/data'' = [''/work/repo'', ''/work'']"
  "exclude_path h (r\<lparr> rep_clonePath := ''/work/repo/'' \<rparr>) f ''/work/repo/data'' = returnA ()"
proof -
  have "parents (abs_path ([''work'', ''repo''] @ [''data''])) = [abs_path [''work'', ''repo''], abs_path [''work'']]"
    using parents_abs [of "[''work'', ''repo'']" "''data''"] parents_abs [of "[''work'']" "''repo''"] parents_abs [of "[]" "''work''"]
    by (simp add: segment_def)
  then show parents: "parents ''/work/repo/data'' = [''/work/repo'', ''/work'']" by (simp add: abs_path_def)
  then show "exclude_path h (r\<lparr> rep_clonePath := ''/work/repo/'' \<rparr>) f ''/work/repo/data'' = returnA ()"
    by (simp add: exclude_path_def)
qed

end
