(* ===== verification/Remote_Config.thy ===== *)
theory Remote_Config
  imports Go_URL Session_Templates
begin

text \<open>
  The configuration of the remote session controller, a program that the operator runs in
  place of the session's container when the session runs on a remote cluster:
  \<^verbatim>\<open>src/internal/remote/config/\<close>.

  The flags that the command declares are a list of bindings; declaring a flag twice panics, as
  \<^verbatim>\<open>pflag\<close> does. Where the values come from (viper: flags, then the environment, then
  the defaults) is the argument of type \<open>viper\<close>.
\<close>

section \<open>Flags and environment variables\<close>

definition RemoteSessionControllerPrefix :: string where
  "RemoteSessionControllerPrefix = ''RSC''"

definition AsEnvVarFlag :: "string \<Rightarrow> string" where
  "AsEnvVarFlag flag =
     (let withUnderscores =
        ReplaceAll (RemoteSessionControllerPrefix @ ''_'' @ flag) ''-'' ''_''
      in ToUpper withUnderscores)"

datatype flag_value = Int32Flag int | BoolFlag bool | StringFlag string

record flag_binding =
  fb_Flag :: string
  fb_Default :: flag_value
  fb_Key :: string
  fb_Env :: string

text \<open>
  One flag: \<^verbatim>\<open>cmd.Flags()\<close> declares it, \<^verbatim>\<open>viper.BindPFlag\<close> and \<^verbatim>\<open>viper.BindEnv\<close> bind the
  key to it and to its environment variable.
\<close>

definition bind_flag ::
  "string \<Rightarrow> flag_value \<Rightarrow> string \<Rightarrow> flag_binding list \<Rightarrow> flag_binding list result" where
  "bind_flag flag d key bs =
     (if flag \<in> fb_Flag ` set bs then Inl (Panicked (''run flag redefined: '' @ flag))
      else Inr (bs @ [\<lparr> fb_Flag = flag, fb_Default = d, fb_Key = key,
                         fb_Env = AsEnvVarFlag flag \<rparr>]))"

record viper =
  vp_GetString :: "string \<Rightarrow> string"
  vp_GetInt32 :: "string \<Rightarrow> int"
  vp_GetBool :: "string \<Rightarrow> bool"

section \<open>Redacted strings\<close>

type_synonym RedactedString = string

definition RedactedString_String :: "RedactedString \<Rightarrow> string" where
  "RedactedString_String r = ''<redacted-'' @ show_nat (length r) @ ''-chars>''"

definition RedactedString_MarshalJSON :: "RedactedString \<Rightarrow> string" where
  "RedactedString_MarshalJSON r = [CHR 0x22] @ RedactedString_String r @ [CHR 0x22]"

definition RedactedString_MarshalText :: "RedactedString \<Rightarrow> string" where
  "RedactedString_MarshalText r = RedactedString_String r"

definition RedactedString_MarshalBinary :: "RedactedString \<Rightarrow> string" where
  "RedactedString_MarshalBinary r = RedactedString_String r"

section \<open>Shared flags\<close>

definition AuthKindFlag :: string where "AuthKindFlag = ''auth-kind''"
definition AuthPrefix :: string where "AuthPrefix = ''auth''"
definition TokenURIFlag :: string where "TokenURIFlag = ''token-uri''"

text \<open>The keys below \<^verbatim>\<open>auth\<close> and the flags that set them.\<close>

definition auth_key :: "string \<Rightarrow> string" where "auth_key name = AuthPrefix @ ''.'' @ name"
definition auth_flag :: "string \<Rightarrow> string" where "auth_flag name = AuthPrefix @ ''-'' @ name"

definition utils_SetFlags :: "flag_binding list \<Rightarrow> flag_binding list result" where
  "utils_SetFlags bs =
     bindE (bind_flag AuthKindFlag (StringFlag []) AuthKindFlag bs) (\<lambda>bs.
     bind_flag (auth_flag TokenURIFlag) (StringFlag []) (auth_key TokenURIFlag) bs)"

section \<open>FirecREST\<close>

definition renkuAccessTokenFlag :: string where "renkuAccessTokenFlag = ''renku-access-token''"
definition renkuRefreshTokenFlag :: string where "renkuRefreshTokenFlag = ''renku-refresh-token''"
definition renkuTokenURIFlag :: string where "renkuTokenURIFlag = ''renku-token-uri''"
definition renkuClientIDFlag :: string where "renkuClientIDFlag = ''renku-client-id''"
definition renkuClientSecretFlag :: string where "renkuClientSecretFlag = ''renku-client-secret''"
definition firecrestClientIDFlag :: string where "firecrestClientIDFlag = ''firecrest-client-id''"
definition firecrestClientSecretFlag :: string where
  "firecrestClientSecretFlag = ''firecrest-client-secret''"

record FirecrestAuthConfig =
  fa_Kind :: string
  fa_TokenURI :: string
  fa_RenkuAccessToken :: RedactedString
  fa_RenkuRefreshToken :: RedactedString
  fa_RenkuTokenURI :: string
  fa_RenkuClientID :: string
  fa_RenkuClientSecret :: RedactedString
  fa_FirecrestClientID :: string
  fa_FirecrestClientSecret :: RedactedString

definition FirecrestAuthConfigKindRenku :: string where
  "FirecrestAuthConfigKindRenku = ''renku''"
definition FirecrestAuthConfigKindRenkuV2 :: string where
  "FirecrestAuthConfigKindRenkuV2 = ''renku_v2''"
definition FirecrestAuthConfigKindClientCredentials :: string where
  "FirecrestAuthConfigKindClientCredentials = ''client_credentials''"

definition validateRenku :: "authority_parser \<Rightarrow> FirecrestAuthConfig \<Rightarrow> go_error option" where
  "validateRenku pa c =
     (if fa_TokenURI c = [] then Some (Err ''tokenURI is not defined'')
      else case url_Parse pa (fa_TokenURI c) of
        Inl e \<Rightarrow> Some (Err (''tokenURI is not valid: '' @ err_msg e))
      | Inr _ \<Rightarrow>
      if fa_RenkuRefreshToken c = [] then Some (Err ''renkuRefreshToken is not defined'')
      else if fa_RenkuTokenURI c = [] then Some (Err ''renkuTokenURI is not defined'')
      else case url_Parse pa (fa_RenkuTokenURI c) of
        Inl e \<Rightarrow> Some (Err (''renkuTokenURI is not valid: '' @ err_msg e))
      | Inr _ \<Rightarrow>
      if fa_RenkuClientID c = [] then Some (Err ''renkuClientID is not defined'')
      else if fa_RenkuClientSecret c = [] then Some (Err ''renkuClientSecret is not defined'')
      else None)"

definition validateRenkuV2 :: "authority_parser \<Rightarrow> FirecrestAuthConfig \<Rightarrow> go_error option" where
  "validateRenkuV2 pa c =
     (if fa_TokenURI c = [] then Some (Err ''tokenURI is not defined'')
      else case url_Parse pa (fa_TokenURI c) of
        Inl e \<Rightarrow> Some (Err (''tokenURI is not valid: '' @ err_msg e))
      | Inr _ \<Rightarrow>
      if fa_RenkuAccessToken c = [] then Some (Err ''renkuAccessToken is not defined'')
      else if fa_RenkuRefreshToken c = [] then Some (Err ''renkuRefreshToken is not defined'')
      else if fa_RenkuTokenURI c = [] then Some (Err ''renkuTokenURI is not defined'')
      else case url_Parse pa (fa_RenkuTokenURI c) of
        Inl e \<Rightarrow> Some (Err (''renkuTokenURI is not valid: '' @ err_msg e))
      | Inr _ \<Rightarrow> None)"

definition validateClientCredentials ::
  "authority_parser \<Rightarrow> FirecrestAuthConfig \<Rightarrow> go_error option" where
  "validateClientCredentials pa c =
     (if fa_TokenURI c = [] then Some (Err ''tokenURI is not defined'')
      else case url_Parse pa (fa_TokenURI c) of
        Inl e \<Rightarrow> Some (Err (''tokenURI is not valid: '' @ err_msg e))
      | Inr _ \<Rightarrow>
      if fa_FirecrestClientID c = [] then Some (Err ''firecrestClientID is not defined'')
      else if fa_FirecrestClientSecret c = []
      then Some (Err ''firecrestClientSecret is not defined'')
      else None)"

definition FirecrestAuthConfig_Validate ::
  "authority_parser \<Rightarrow> FirecrestAuthConfig \<Rightarrow> go_error option" where
  "FirecrestAuthConfig_Validate pa c =
     (if fa_Kind c = [] then Some (Err ''kind is not defined'')
      else if fa_Kind c = FirecrestAuthConfigKindRenku then validateRenku pa c
      else if fa_Kind c = FirecrestAuthConfigKindRenkuV2 then validateRenkuV2 pa c
      else if fa_Kind c = FirecrestAuthConfigKindClientCredentials
      then validateClientCredentials pa c
      else Some (Err (''auth '' @ [CHR 0x27] @ fa_Kind c @ [CHR 0x27] @ '' is not supported'')))"

definition firecrest_SetAuthFlags :: "flag_binding list \<Rightarrow> flag_binding list result" where
  "firecrest_SetAuthFlags bs =
     bindE (bind_flag (auth_flag renkuAccessTokenFlag) (StringFlag []) (auth_key renkuAccessTokenFlag) bs) (\<lambda>bs.
     bindE (bind_flag (auth_flag renkuRefreshTokenFlag) (StringFlag []) (auth_key renkuRefreshTokenFlag) bs) (\<lambda>bs.
     bindE (bind_flag (auth_flag renkuTokenURIFlag) (StringFlag []) (auth_key renkuTokenURIFlag) bs) (\<lambda>bs.
     bindE (bind_flag (auth_flag renkuClientIDFlag) (StringFlag []) (auth_key renkuClientIDFlag) bs) (\<lambda>bs.
     bindE (bind_flag (auth_flag renkuClientSecretFlag) (StringFlag []) (auth_key renkuClientSecretFlag) bs) (\<lambda>bs.
     bindE (bind_flag (auth_flag firecrestClientIDFlag) (StringFlag []) (auth_key firecrestClientIDFlag) bs) (\<lambda>bs.
     bind_flag (auth_flag firecrestClientSecretFlag) (StringFlag []) (auth_key firecrestClientSecretFlag) bs))))))"

definition firecrest_GetAuthConfig :: "viper \<Rightarrow> FirecrestAuthConfig" where
  "firecrest_GetAuthConfig v = \<lparr>
     fa_Kind = vp_GetString v AuthKindFlag,
     fa_TokenURI = vp_GetString v (auth_key TokenURIFlag),
     fa_RenkuAccessToken = vp_GetString v (auth_key renkuAccessTokenFlag),
     fa_RenkuRefreshToken = vp_GetString v (auth_key renkuRefreshTokenFlag),
     fa_RenkuTokenURI = vp_GetString v (auth_key renkuTokenURIFlag),
     fa_RenkuClientID = vp_GetString v (auth_key renkuClientIDFlag),
     fa_RenkuClientSecret = vp_GetString v (auth_key renkuClientSecretFlag),
     fa_FirecrestClientID = vp_GetString v (auth_key firecrestClientIDFlag),
     fa_FirecrestClientSecret = vp_GetString v (auth_key firecrestClientSecretFlag) \<rparr>"

definition firecrestAPIURLFlag :: string where "firecrestAPIURLFlag = ''firecrest-api-url''"
definition firecrestSystemNameFlag :: string where
  "firecrestSystemNameFlag = ''firecrest-system-name''"
definition firecrestPartitionFlag :: string where
  "firecrestPartitionFlag = ''firecrest-partition''"

record FirecrestConfig =
  fc_APIURL :: string
  fc_SystemName :: string
  fc_Partition :: string
  fc_AuthConfig :: FirecrestAuthConfig

definition firecrest_SetFlags :: "flag_binding list \<Rightarrow> flag_binding list result" where
  "firecrest_SetFlags bs =
     bindE (bind_flag firecrestAPIURLFlag (StringFlag []) firecrestAPIURLFlag bs) (\<lambda>bs.
     bindE (bind_flag firecrestSystemNameFlag (StringFlag []) firecrestSystemNameFlag bs) (\<lambda>bs.
     bindE (bind_flag firecrestPartitionFlag (StringFlag []) firecrestPartitionFlag bs) (\<lambda>bs.
     firecrest_SetAuthFlags bs)))"

definition firecrest_GetConfig :: "viper \<Rightarrow> FirecrestConfig" where
  "firecrest_GetConfig v = \<lparr>
     fc_APIURL = vp_GetString v firecrestAPIURLFlag,
     fc_SystemName = vp_GetString v firecrestSystemNameFlag,
     fc_Partition = vp_GetString v firecrestPartitionFlag,
     fc_AuthConfig = firecrest_GetAuthConfig v \<rparr>"

definition FirecrestConfig_Validate :: "authority_parser \<Rightarrow> FirecrestConfig \<Rightarrow> go_error option" where
  "FirecrestConfig_Validate pa c =
     (if fc_APIURL c = [] then Some (Err ''firecrest.APIURL is not defined'')
      else case url_Parse pa (fc_APIURL c) of
        Inl e \<Rightarrow> Some (Err (''firecrest.APIURL is not valid: '' @ err_msg e))
      | Inr _ \<Rightarrow>
      if fc_SystemName c = [] then Some (Err ''firecrest.SystemName is not defined'')
      else FirecrestAuthConfig_Validate pa (fc_AuthConfig c))"

section \<open>RunAI\<close>

definition runaiClientIDFlag :: string where "runaiClientIDFlag = ''runai-client-id''"
definition runaiClientSecretFlag :: string where "runaiClientSecretFlag = ''runai-client-secret''"

record RunaiAuthConfig =
  ra_Kind :: string
  ra_TokenURI :: string
  ra_RunaiClientID :: string
  ra_RunaiClientSecret :: RedactedString

definition RunaiAuthConfigKindClientCredentials :: string where
  "RunaiAuthConfigKindClientCredentials = ''client_credentials''"

definition runai_validateClientCredentials :: "RunaiAuthConfig \<Rightarrow> go_error option" where
  "runai_validateClientCredentials c =
     (if ra_RunaiClientID c = [] then Some (Err ''RunaiClientID is not defined'')
      else if ra_RunaiClientSecret c = [] then Some (Err ''RunaiClientSecret is not defined'')
      else None)"

definition RunaiAuthConfig_Validate :: "RunaiAuthConfig \<Rightarrow> go_error option" where
  "RunaiAuthConfig_Validate c =
     (if ra_Kind c = [] then Some (Err ''kind is not defined'')
      else if ra_Kind c = RunaiAuthConfigKindClientCredentials
      then runai_validateClientCredentials c
      else Some (Err (''auth '' @ [CHR 0x27] @ ra_Kind c @ [CHR 0x27] @ '' is not supported'')))"

definition runai_SetAuthFlags :: "flag_binding list \<Rightarrow> flag_binding list result" where
  "runai_SetAuthFlags bs =
     bindE (bind_flag (auth_flag runaiClientIDFlag) (StringFlag []) (auth_key runaiClientIDFlag) bs) (\<lambda>bs.
     bind_flag (auth_flag runaiClientSecretFlag) (StringFlag []) (auth_key runaiClientSecretFlag) bs)"

definition runai_GetAuthConfig :: "viper \<Rightarrow> string \<Rightarrow> RunaiAuthConfig" where
  "runai_GetAuthConfig v apiUrl = \<lparr>
     ra_Kind = vp_GetString v AuthKindFlag,
     ra_TokenURI = apiUrl @ ''/api/v1/token'',
     ra_RunaiClientID = vp_GetString v (auth_key runaiClientIDFlag),
     ra_RunaiClientSecret = vp_GetString v (auth_key runaiClientSecretFlag) \<rparr>"

definition runaiBaseURLFlag :: string where "runaiBaseURLFlag = ''runai-base-url''"
definition runaiProjectFlag :: string where "runaiProjectFlag = ''runai-project''"

record RunaiConfig =
  rc_BaseURL :: string
  rc_AuthConfig :: RunaiAuthConfig
  rc_Project :: string

definition runai_SetFlags :: "flag_binding list \<Rightarrow> flag_binding list result" where
  "runai_SetFlags bs =
     bindE (bind_flag runaiBaseURLFlag (StringFlag []) runaiBaseURLFlag bs) (\<lambda>bs.
     bindE (bind_flag runaiProjectFlag (StringFlag []) runaiProjectFlag bs) (\<lambda>bs.
     runai_SetAuthFlags bs))"

definition runai_GetConfig :: "viper \<Rightarrow> RunaiConfig" where
  "runai_GetConfig v =
     (let base = vp_GetString v runaiBaseURLFlag in
      \<lparr> rc_BaseURL = base, rc_AuthConfig = runai_GetAuthConfig v base,
        rc_Project = vp_GetString v runaiProjectFlag \<rparr>)"

definition RunaiConfig_Validate :: "authority_parser \<Rightarrow> RunaiConfig \<Rightarrow> go_error option" where
  "RunaiConfig_Validate pa c =
     (if rc_BaseURL c = [] then Some (Err ''runai.BaseURL is not defined'')
      else case url_Parse pa (rc_BaseURL c) of
        Inl e \<Rightarrow> Some (Err (''runai.BaseURL is not valid: '' @ err_msg e))
      | Inr _ \<Rightarrow> RunaiAuthConfig_Validate (rc_AuthConfig c))"

section \<open>The controller's configuration\<close>

definition RemoteKindFirecrest :: string where "RemoteKindFirecrest = ''firecrest''"
definition RemoteKindRunai :: string where "RemoteKindRunai = ''runai''"

definition serverPortFlag :: string where "serverPortFlag = ''server-port''"
definition fakeStartFlag :: string where "fakeStartFlag = ''fake-start''"
definition sessionPortFlag :: string where "sessionPortFlag = ''session-port''"
definition sessionURLPathFlag :: string where "sessionURLPathFlag = ''session-url-path''"
definition readinessProbeTypeFlag :: string where
  "readinessProbeTypeFlag = ''readiness-probe-type''"

record RemoteSessionControllerConfig =
  rs_RemoteKind :: string
  rs_Firecrest :: FirecrestConfig
  rs_Runai :: RunaiConfig
  rs_ServerPort :: int
  rs_FakeStart :: bool
  rs_SessionPort :: int
  rs_SessionURLPath :: string
  rs_ReadinessProbeType :: string

definition remote_SetFlags :: "flag_binding list \<Rightarrow> flag_binding list result" where
  "remote_SetFlags bs =
     bindE (bind_flag serverPortFlag (Int32Flag RemoteSessionControllerPort) serverPortFlag bs) (\<lambda>bs.
     bindE (bind_flag fakeStartFlag (BoolFlag False) fakeStartFlag bs) (\<lambda>bs.
     bindE (bind_flag sessionPortFlag (Int32Flag 0) sessionPortFlag bs) (\<lambda>bs.
     bindE (bind_flag sessionURLPathFlag (StringFlag ''/'') sessionURLPathFlag bs) (\<lambda>bs.
     bindE (bind_flag readinessProbeTypeFlag (StringFlag ''none'') readinessProbeTypeFlag bs) (\<lambda>bs.
     bindE (utils_SetFlags bs) (\<lambda>bs.
     bindE (firecrest_SetFlags bs) (\<lambda>bs.
     runai_SetFlags bs)))))))"

definition remote_GetConfig :: "viper \<Rightarrow> RemoteSessionControllerConfig" where
  "remote_GetConfig v = \<lparr>
     rs_RemoteKind = [],
     rs_Firecrest = firecrest_GetConfig v,
     rs_Runai = runai_GetConfig v,
     rs_ServerPort = vp_GetInt32 v serverPortFlag,
     rs_FakeStart = vp_GetBool v fakeStartFlag,
     rs_SessionPort = vp_GetInt32 v sessionPortFlag,
     rs_SessionURLPath = vp_GetString v sessionURLPathFlag,
     rs_ReadinessProbeType = vp_GetString v readinessProbeTypeFlag \<rparr>"

text \<open>The check also sets the kind of the remote cluster.\<close>

definition remote_Validate ::
  "authority_parser \<Rightarrow> RemoteSessionControllerConfig
   \<Rightarrow> RemoteSessionControllerConfig \<times> go_error option" where
  "remote_Validate pa cfg =
     (if rs_ReadinessProbeType cfg \<noteq> ReadinessProbeType_string ProbeNone
       \<and> rs_ReadinessProbeType cfg \<noteq> ReadinessProbeType_string ProbeTCP
       \<and> rs_ReadinessProbeType cfg \<noteq> ReadinessProbeType_string ProbeHTTP
      then (cfg, Some (Err (''invalid readiness probe type: '' @ rs_ReadinessProbeType cfg)))
      else
        let cfg = cfg\<lparr> rs_RemoteKind := RemoteKindFirecrest \<rparr> in
        case FirecrestConfig_Validate pa (rs_Firecrest cfg) of
          None \<Rightarrow> (cfg, None)
        | Some firecrestConfigErr \<Rightarrow>
          (case RunaiConfig_Validate pa (rs_Runai cfg) of
             Some _ \<Rightarrow> (cfg, Some firecrestConfigErr)
           | None \<Rightarrow> (cfg\<lparr> rs_RemoteKind := RemoteKindRunai \<rparr>, None)))"

end
