(* ===== verification/Remote_Auth.thy ===== *)
theory Remote_Auth
  imports Git_Proxy Go_Action Go_JSON Remote_Config
begin

text \<open>
  How the remote session controller authenticates against the remote cluster's API:
  \<^verbatim>\<open>src/internal/remote/auth/shared/\<close>, \<^verbatim>\<open>src/internal/remote/firecrest/auth/\<close> and
  \<^verbatim>\<open>src/internal/remote/runai/auth/\<close>.

  An authentication object is a record; its operations are actions on the pair of the world
  and the object, one per critical section. The HTTP client, the clock and the JWT parser are
  the fields of the argument of type \<open>auth_net\<close>, so the options that replace the HTTP
  client are the choice of that argument. Contexts show only as requests that fail.
\<close>

section \<open>HTTP\<close>

text \<open>A reply; reading its body may fail.\<close>

record http_reply =
  rp_StatusCode :: int
  rp_Status :: string
  rp_ContentType :: string
  rp_Body :: "string result"

record 'w auth_net =
  an_Do :: "http_request \<Rightarrow> ('w, http_reply) action"
  an_now :: "'w \<Rightarrow> time"
  an_jwt_expiry :: "string \<Rightarrow> time option result"
  an_parseAuthority :: authority_parser

section \<open>OAuth 2.0 requests\<close>

record tokenResult =
  tr_AccessToken :: string
  tr_ExpiresAt :: time
  tr_RefreshToken :: string

record tokenResponse =
  tp_AccessToken :: string
  tp_ExpiresIn :: int
  tp_RefreshToken :: string

definition parseTokenResponse :: "http_reply \<Rightarrow> tokenResponse result" where
  "parseTokenResponse res =
     bindE (rp_Body res) (\<lambda>bodyBytes.
     bindE (bindE (json_parse bodyBytes) json_object) (\<lambda>ms.
     bindE (decode_string (json_member ''access_token'' ms)) (\<lambda>at.
     bindE (decode_int (json_member ''expires_in'' ms)) (\<lambda>n.
     bindE (decode_string (json_member ''refresh_token'' ms)) (\<lambda>rt.
     Inr \<lparr> tp_AccessToken = at, tp_ExpiresIn = n, tp_RefreshToken = rt \<rparr>)))))"

text \<open>
  The outer result is a panic: the expiry of a token that has none is read through a nil
  pointer. The inner one is the error that the callers look at.
\<close>

definition getJWTExpiresAt :: "'w auth_net \<Rightarrow> string \<Rightarrow> (go_error + time) result" where
  "getJWTExpiresAt net token =
     (case an_jwt_expiry net token of
        Inl e \<Rightarrow> Inr (Inl e)
      | Inr claim \<Rightarrow> bindE (deref claim) (\<lambda>t. Inr (Inr t)))"

text \<open>\<^verbatim>\<open>time.Now().Add(time.Second * time.Duration(n))\<close>.\<close>

definition expires_in :: "time \<Rightarrow> int \<Rightarrow> time" where
  "expires_in now n = now + wrap64 (second * n)"

text \<open>The rest of both token requests: the reply's status, body and expiry.\<close>

definition token_result :: "'w auth_net \<Rightarrow> http_reply \<Rightarrow> ('w, tokenResult) action" where
  "token_result net res w =
     (w, if rp_StatusCode res < 200 \<or> rp_StatusCode res \<ge> 300
         then Inl (Err (''token request failed: '' @ rp_Status res))
         else bindE (parseTokenResponse res) (\<lambda>tp.
           bindE (getJWTExpiresAt net (tp_AccessToken tp)) (\<lambda>exp.
             Inr \<lparr> tr_AccessToken = tp_AccessToken tp,
               tr_ExpiresAt = (case exp of Inr t \<Rightarrow> t
                 | Inl _ \<Rightarrow> expires_in (an_now net w) (tp_ExpiresIn tp)),
               tr_RefreshToken = tp_RefreshToken tp \<rparr>)))"

definition requestNewAccessToken ::
  "'w auth_net \<Rightarrow> string \<Rightarrow> string \<Rightarrow> string \<Rightarrow> string \<Rightarrow> string \<Rightarrow> ('w, tokenResult) action" where
  "requestNewAccessToken net tokenURI grantType clientID clientSecret refreshToken =
     (let postData = Values_Set ''grant_type'' grantType [];
          postData = Values_Set ''client_id'' clientID postData;
          postData = Values_Set ''client_secret'' clientSecret postData;
          postData = (if refreshToken \<noteq> [] then Values_Set ''refresh_token'' refreshToken postData
                      else postData)
      in case http_NewRequest (an_parseAuthority net) ''POST'' tokenURI (Values_Encode postData) of
           Inl e \<Rightarrow> failA e
         | Inr req \<Rightarrow> bindA (an_Do net (form_header req)) (token_result net))"

section \<open>The interface\<close>

text \<open>\<^verbatim>\<open>RequestEditorInjectAccessToken\<close>, for an authentication whose state is part of \<open>'s\<close>.\<close>

definition RequestEditorInjectAccessToken ::
  "('s, string) action \<Rightarrow> http_request \<Rightarrow> ('s, http_request) action" where
  "RequestEditorInjectAccessToken GetAccessToken req =
     (if header_get (rq_Header req) ''Authorization'' \<noteq> [] then returnA req
      else bindA GetAccessToken (\<lambda>token.
        returnA (Header_Add ''Authorization'' (''Bearer '' @ token) req)))"

section \<open>FirecREST: client credentials\<close>

record FirecrestClientCredentialsAuth =
  fcc_tokenURI :: string
  fcc_clientID :: string
  fcc_clientSecret :: string
  fcc_accessToken :: string
  fcc_accessTokenExpiresAt :: time

definition newFirecrestClientCredentialsAuth ::
  "string \<Rightarrow> string \<Rightarrow> string \<Rightarrow> FirecrestClientCredentialsAuth result" where
  "newFirecrestClientCredentialsAuth tokenURI clientID clientSecret =
     (if tokenURI = [] then Inl (Err ''tokenURI is not set'')
      else if clientID = [] then Inl (Err ''clientID is not set'')
      else if clientSecret = [] then Inl (Err ''clientSecret is not set'')
      else Inr \<lparr> fcc_tokenURI = tokenURI, fcc_clientID = clientID,
        fcc_clientSecret = clientSecret, fcc_accessToken = [],
        fcc_accessTokenExpiresAt = zero_time \<rparr>)"

definition fcc_refreshAccessToken ::
  "'w auth_net \<Rightarrow> ('w \<times> FirecrestClientCredentialsAuth, unit) action" where
  "fcc_refreshAccessToken net = (\<lambda>(w, a).
     case requestNewAccessToken net (fcc_tokenURI a) ''client_credentials'' (fcc_clientID a)
            (fcc_clientSecret a) [] w of
       (w', Inl e) \<Rightarrow> ((w', a), Inl e)
     | (w', Inr result) \<Rightarrow>
         ((w', a\<lparr> fcc_accessToken := tr_AccessToken result,
                  fcc_accessTokenExpiresAt := tr_ExpiresAt result \<rparr>), Inr ()))"

definition fcc_GetAccessToken ::
  "'w auth_net \<Rightarrow> ('w \<times> FirecrestClientCredentialsAuth, string) action" where
  "fcc_GetAccessToken net = (\<lambda>(w, a).
     if fcc_accessToken a \<noteq> []
       \<and> IsNotExpired (an_now net w) (fcc_accessTokenExpiresAt a) (10 * second) False
     then ((w, a), Inr (fcc_accessToken a))
     else bindA (fcc_refreshAccessToken net) (\<lambda>_ (w', a'). ((w', a'), Inr (fcc_accessToken a'))) (w, a))"

section \<open>FirecREST: Renku\<close>

record RenkuAuth =
  ren_firecrestTokenURI :: string
  ren_renkuAuthenticationVersion :: string
  ren_renkuAccessToken :: string
  ren_renkuAccessTokenExpiresAt :: time
  ren_renkuRefreshToken :: string
  ren_renkuTokenURI :: string
  ren_renkuClientID :: string
  ren_renkuClientSecret :: string
  ren_accessToken :: string
  ren_accessTokenExpiresAt :: time

definition newRenkuAuth ::
  "'w auth_net \<Rightarrow> string \<Rightarrow> string \<Rightarrow> string \<Rightarrow> string \<Rightarrow> string \<Rightarrow> string \<Rightarrow> string
   \<Rightarrow> RenkuAuth result" where
  "newRenkuAuth net firecrestTokenURI version accessToken refreshToken tokenURI clientID clientSecret =
     (if firecrestTokenURI = [] then Inl (Err ''firecrestTokenURI is not set'')
      else if refreshToken = [] then Inl (Err ''renkuRefreshToken is not set'')
      else if tokenURI = [] then Inl (Err ''renkuTokenURI is not set'')
      else if version \<noteq> ''v2'' \<and> clientID = [] then Inl (Err ''renkuClientID is not set'')
      else if version \<noteq> ''v2'' \<and> clientSecret = [] then Inl (Err ''renkuClientSecret is not set'')
      else bindE
        (if version = ''v2'' then
           (case an_jwt_expiry net accessToken of
              Inl _ \<Rightarrow> Inr zero_time
            | Inr claim \<Rightarrow> deref claim)
         else Inr zero_time) (\<lambda>expiresAt.
        Inr \<lparr> ren_firecrestTokenURI = firecrestTokenURI, ren_renkuAuthenticationVersion = version,
          ren_renkuAccessToken = accessToken, ren_renkuAccessTokenExpiresAt = expiresAt,
          ren_renkuRefreshToken = refreshToken, ren_renkuTokenURI = tokenURI,
          ren_renkuClientID = clientID, ren_renkuClientSecret = clientSecret,
          ren_accessToken = [], ren_accessTokenExpiresAt = zero_time \<rparr>))"

definition decode_renkuTokenRefreshResponse :: "string \<Rightarrow> renkuTokenRefreshResponse result" where
  "decode_renkuTokenRefreshResponse body =
     bindE (bindE (json_Decode body) json_object) (\<lambda>ms.
     bindE (decode_string (json_member ''access_token'' ms)) (\<lambda>at.
     bindE (decode_string (json_member ''refresh_token'' ms)) (\<lambda>rt.
     Inr \<lparr> rr_AccessToken = at, rr_RefreshToken = rt \<rparr>)))"

text \<open>
  What a reply to the second version's refresh changes: the tokens are stored before the
  expiry of the new one is read.
\<close>

definition store_v2 :: "'w auth_net \<Rightarrow> http_reply \<Rightarrow> RenkuAuth \<Rightarrow> RenkuAuth \<times> unit result" where
  "store_v2 net res a =
     (if rp_StatusCode res \<noteq> 200 then (a, Inl (Err (refresh_failed @ show_int (rp_StatusCode res))))
      else case bindE (rp_Body res) decode_renkuTokenRefreshResponse of
        Inl e \<Rightarrow> (a, Inl e)
      | Inr resParsed \<Rightarrow>
          let a = a\<lparr> ren_renkuAccessToken := rr_AccessToken resParsed,
                     ren_renkuRefreshToken := rr_RefreshToken resParsed \<rparr>
          in case bindE (an_jwt_expiry net (ren_renkuAccessToken a)) deref of
               Inl e \<Rightarrow> (a, Inl e)
             | Inr t \<Rightarrow> (a\<lparr> ren_renkuAccessTokenExpiresAt := t \<rparr>, Inr ()))"

text \<open>The request is used before the error is looked at, so a nil request panics.\<close>

definition refreshRenkuAccessTokenV2 :: "'w auth_net \<Rightarrow> ('w \<times> RenkuAuth, unit) action" where
  "refreshRenkuAccessTokenV2 net = (\<lambda>(w, a).
     case url_Parse (an_parseAuthority net) (ren_renkuTokenURI a) of
       Inl e \<Rightarrow> ((w, a), Inl e)
     | Inr renkuTokenURL \<Rightarrow>
       (case http_NewRequest (an_parseAuthority net) ''POST'' (url_String renkuTokenURL)
               (refresh_payload (ren_renkuRefreshToken a)) of
          Inl _ \<Rightarrow> ((w, a), Inl (Panicked ''invalid memory address or nil pointer dereference''))
        | Inr req \<Rightarrow>
          (case an_Do net (form_header req) w of
             (w', Inl e) \<Rightarrow> ((w', a), Inl e)
           | (w', Inr res) \<Rightarrow> (let (a', r) = store_v2 net res a in ((w', a'), r)))))"

definition refreshRenkuAccessToken :: "'w auth_net \<Rightarrow> ('w \<times> RenkuAuth, unit) action" where
  "refreshRenkuAccessToken net = (\<lambda>(w, a).
     if ren_renkuAuthenticationVersion a = ''v2'' then refreshRenkuAccessTokenV2 net (w, a)
     else case requestNewAccessToken net (ren_renkuTokenURI a) ''refresh_token'' (ren_renkuClientID a)
            (ren_renkuClientSecret a) (ren_renkuRefreshToken a) w of
       (w', Inl e) \<Rightarrow> ((w', a), Inl e)
     | (w', Inr result) \<Rightarrow>
         ((w', a\<lparr> ren_renkuAccessToken := tr_AccessToken result,
                  ren_renkuAccessTokenExpiresAt := tr_ExpiresAt result \<rparr>), Inr ()))"

definition getRenkuAccessToken :: "'w auth_net \<Rightarrow> ('w \<times> RenkuAuth, string) action" where
  "getRenkuAccessToken net = (\<lambda>(w, a).
     if ren_renkuAccessToken a \<noteq> []
       \<and> IsNotExpired (an_now net w) (ren_renkuAccessTokenExpiresAt a) (10 * second) False
     then ((w, a), Inr (ren_renkuAccessToken a))
     else bindA (refreshRenkuAccessToken net)
       (\<lambda>_ (w', a'). ((w', a'), Inr (ren_renkuAccessToken a'))) (w, a))"

definition requestNewAccessTokenFromRenku ::
  "'w auth_net \<Rightarrow> string \<Rightarrow> string \<Rightarrow> ('w, tokenResult) action" where
  "requestNewAccessTokenFromRenku net tokenURI renkuAccessToken =
     (case http_NewRequest (an_parseAuthority net) ''GET'' tokenURI [] of
        Inl e \<Rightarrow> failA e
      | Inr req \<Rightarrow>
          bindA (an_Do net (Header_Set ''Authorization'' (''Bearer '' @ renkuAccessToken) req))
            (token_result net))"

definition ren_refreshAccessToken :: "'w auth_net \<Rightarrow> ('w \<times> RenkuAuth, unit) action" where
  "ren_refreshAccessToken net =
     bindA (getRenkuAccessToken net) (\<lambda>renkuAccessToken (w, a).
       case requestNewAccessTokenFromRenku net (ren_firecrestTokenURI a) renkuAccessToken w of
         (w', Inl e) \<Rightarrow> ((w', a), Inl e)
       | (w', Inr result) \<Rightarrow>
           ((w', a\<lparr> ren_accessToken := tr_AccessToken result,
                    ren_accessTokenExpiresAt := tr_ExpiresAt result \<rparr>), Inr ()))"

definition ren_GetAccessToken :: "'w auth_net \<Rightarrow> ('w \<times> RenkuAuth, string) action" where
  "ren_GetAccessToken net = (\<lambda>(w, a).
     if ren_accessToken a \<noteq> []
       \<and> IsNotExpired (an_now net w) (ren_accessTokenExpiresAt a) (10 * second) False
     then ((w, a), Inr (ren_accessToken a))
     else bindA (ren_refreshAccessToken net)
       (\<lambda>_ (w', a'). ((w', a'), Inr (ren_accessToken a'))) (w, a))"

text \<open>One turn of the loop that keeps the refresh token valid; its errors are only logged.\<close>

definition periodicTokenRefresh_turn :: "'w auth_net \<Rightarrow> ('w \<times> RenkuAuth, unit) action" where
  "periodicTokenRefresh_turn net = (\<lambda>(w, a).
     let valid = (case an_jwt_expiry net (ren_renkuRefreshToken a) of
           Inl e \<Rightarrow> False
         | Inr claim \<Rightarrow> VerifyExpiresAtClaim (an_now net w) claim (4 * minute) False)
     in if valid then ((w, a), Inr ())
        else case refreshRenkuAccessToken net (w, a) of
          (s, Inl (Panicked m)) \<Rightarrow> (s, Inl (Panicked m))
        | (s, _) \<Rightarrow> (s, Inr ()))"

section \<open>FirecREST: the choice of the scheme\<close>

datatype FirecrestAuth =
    FirecrestAuthRenku RenkuAuth
  | FirecrestAuthClientCredentials FirecrestClientCredentialsAuth

definition NewFirecrestAuth :: "'w auth_net \<Rightarrow> FirecrestAuthConfig \<Rightarrow> FirecrestAuth result" where
  "NewFirecrestAuth net cfg =
     (if fa_Kind cfg = FirecrestAuthConfigKindRenku then
        bindE (newRenkuAuth net (fa_TokenURI cfg) [] (fa_RenkuAccessToken cfg)
          (fa_RenkuRefreshToken cfg) (fa_RenkuTokenURI cfg) (fa_RenkuClientID cfg)
          (fa_RenkuClientSecret cfg)) (\<lambda>a. Inr (FirecrestAuthRenku a))
      else if fa_Kind cfg = FirecrestAuthConfigKindRenkuV2 then
        bindE (newRenkuAuth net (fa_TokenURI cfg) ''v2'' (fa_RenkuAccessToken cfg)
          (fa_RenkuRefreshToken cfg) (fa_RenkuTokenURI cfg) (fa_RenkuClientID cfg)
          (fa_RenkuClientSecret cfg)) (\<lambda>a. Inr (FirecrestAuthRenku a))
      else if fa_Kind cfg = FirecrestAuthConfigKindClientCredentials then
        bindE (newFirecrestClientCredentialsAuth (fa_TokenURI cfg) (fa_FirecrestClientID cfg)
          (fa_FirecrestClientSecret cfg)) (\<lambda>a. Inr (FirecrestAuthClientCredentials a))
      else Inl (Err (''auth '' @ [CHR 0x27] @ fa_Kind cfg @ [CHR 0x27] @ '' is not supported'')))"

text \<open>Calling the method of the object behind the interface.\<close>

fun FirecrestAuth_GetAccessToken :: "'w auth_net \<Rightarrow> ('w \<times> FirecrestAuth, string) action" where
  "FirecrestAuth_GetAccessToken net (w, FirecrestAuthRenku a) =
     (let ((w', a'), r) = ren_GetAccessToken net (w, a) in ((w', FirecrestAuthRenku a'), r))"
| "FirecrestAuth_GetAccessToken net (w, FirecrestAuthClientCredentials a) =
     (let ((w', a'), r) = fcc_GetAccessToken net (w, a)
      in ((w', FirecrestAuthClientCredentials a'), r))"

section \<open>RunAI: client credentials\<close>

record RunaiClientCredentialsAuth =
  rca_tokenURI :: string
  rca_clientID :: string
  rca_clientSecret :: string
  rca_accessToken :: string
  rca_accessTokenExpiresAt :: time

definition newRunaiClientCredentialsAuth ::
  "string \<Rightarrow> string \<Rightarrow> string \<Rightarrow> RunaiClientCredentialsAuth result" where
  "newRunaiClientCredentialsAuth tokenURI clientID clientSecret =
     (if tokenURI = [] then Inl (Err ''tokenURI is not set'')
      else if clientID = [] then Inl (Err ''clientID is not set'')
      else if clientSecret = [] then Inl (Err ''clientSecret is not set'')
      else Inr \<lparr> rca_tokenURI = tokenURI, rca_clientID = clientID,
        rca_clientSecret = clientSecret, rca_accessToken = [],
        rca_accessTokenExpiresAt = zero_time \<rparr>)"

record runai_tokenResponse =
  rtp_AccessToken :: string
  rtp_ExpiresIn :: int

definition runai_parseTokenResponse :: "http_reply \<Rightarrow> runai_tokenResponse result" where
  "runai_parseTokenResponse res =
     bindE (rp_Body res) (\<lambda>body.
     bindE (bindE (json_Decode body) json_object) (\<lambda>ms.
     bindE (decode_string (json_member ''accessToken'' ms)) (\<lambda>at.
     bindE (decode_int (json_member ''expiresIn'' ms)) (\<lambda>n.
     Inr \<lparr> rtp_AccessToken = at, rtp_ExpiresIn = n \<rparr>))))"

definition runai_tokenRequest :: "string \<Rightarrow> string \<Rightarrow> string \<Rightarrow> json" where
  "runai_tokenRequest grantType clientID clientSecret =
     JObj [(''grantType'', JStr grantType), (''clientId'', JStr clientID),
           (''clientSecret'', JStr clientSecret)]"

text \<open>The token and its expiry.\<close>

definition runai_requestNewAccessToken ::
  "'w auth_net \<Rightarrow> string \<Rightarrow> string \<Rightarrow> string \<Rightarrow> string \<Rightarrow> ('w, string \<times> time) action" where
  "runai_requestNewAccessToken net tokenURI grantType clientID clientSecret =
     (case http_NewRequest (an_parseAuthority net) ''POST'' tokenURI
             (json_Marshal (runai_tokenRequest grantType clientID clientSecret)) of
        Inl e \<Rightarrow> failA e
      | Inr req \<Rightarrow>
          bindA (an_Do net (Header_Set ''Content-Type'' ''application/json'' req)) (\<lambda>res w.
            (w, if rp_StatusCode res \<noteq> 200
                then Inl (Err (''token request failed: '' @ rp_Status res))
                else bindE (runai_parseTokenResponse res) (\<lambda>tp.
                  Inr (rtp_AccessToken tp, expires_in (an_now net w) (rtp_ExpiresIn tp))))))"

text \<open>The lock is taken, and the token is looked at again before it is replaced.\<close>

definition rca_refreshAccessToken ::
  "'w auth_net \<Rightarrow> ('w \<times> RunaiClientCredentialsAuth, string) action" where
  "rca_refreshAccessToken net = (\<lambda>(w, a).
     if rca_accessToken a \<noteq> []
       \<and> IsNotExpired (an_now net w) (rca_accessTokenExpiresAt a) (10 * second) False
     then ((w, a), Inr (rca_accessToken a))
     else case runai_requestNewAccessToken net (rca_tokenURI a) ''client_credentials''
            (rca_clientID a) (rca_clientSecret a) w of
       (w', Inl e) \<Rightarrow> ((w', a), Inl e)
     | (w', Inr (token, expiresAt)) \<Rightarrow>
         ((w', a\<lparr> rca_accessToken := token, rca_accessTokenExpiresAt := expiresAt \<rparr>), Inr token))"

definition rca_GetAccessToken ::
  "'w auth_net \<Rightarrow> ('w \<times> RunaiClientCredentialsAuth, string) action" where
  "rca_GetAccessToken net = (\<lambda>(w, a).
     if rca_accessToken a \<noteq> []
       \<and> IsNotExpired (an_now net w) (rca_accessTokenExpiresAt a) (10 * second) False
     then ((w, a), Inr (rca_accessToken a))
     else rca_refreshAccessToken net (w, a))"

definition NewRunaiAuth :: "RunaiAuthConfig \<Rightarrow> RunaiClientCredentialsAuth result" where
  "NewRunaiAuth cfg =
     (if ra_Kind cfg = RunaiAuthConfigKindClientCredentials
      then newRunaiClientCredentialsAuth (ra_TokenURI cfg) (ra_RunaiClientID cfg)
             (ra_RunaiClientSecret cfg)
      else Inl (Err (''auth '' @ [CHR 0x27] @ ra_Kind cfg @ [CHR 0x27] @ '' is not supported'')))"

end
