(* ===== verification/Firecrest_Types.thy ===== *)
theory Firecrest_Types
  imports Go_JSON_Struct
begin

text \<open>
  The types of the FirecREST API, from \<^verbatim>\<open>src/internal/remote/firecrest/firecrest_gen.go\<close>: a
  record for each struct with the decoder that \<^verbatim>\<open>encoding/json\<close> derives from its tags, and the
  encoder where values of the type are written (the bodies of requests and the alternatives of
  unions). Enumerations are strings; \<^verbatim>\<open>Valid\<close> tells the known ones. A union is the raw message it
  holds. The reader of timestamps is the argument \<open>pt\<close>.
\<close>

section \<open>Enumerations\<close>

datatype FileSystemDataType = Apps | Archive | Project | Scratch | Store | Users | OtherDataType string

definition decode_FileSystemDataType :: "json \<Rightarrow> FileSystemDataType result" where
  "decode_FileSystemDataType j =
     bindE (decode_string j) (\<lambda>s.
     Inr (if s = ''apps'' then Apps else if s = ''archive'' then Archive else if s = ''project'' then Project
          else if s = ''scratch'' then Scratch else if s = ''store'' then Store else if s = ''users'' then Users
          else OtherDataType s))"

definition FileSystemDataType_Valid :: "FileSystemDataType \<Rightarrow> bool" where
  "FileSystemDataType_Valid e \<longleftrightarrow> (case e of OtherDataType _ \<Rightarrow> False | _ \<Rightarrow> True)"

type_synonym ApResponseErrorType = string

definition ApResponseErrorType_Valid :: "ApResponseErrorType \<Rightarrow> bool" where
  "ApResponseErrorType_Valid e \<longleftrightarrow> e \<in> set [''error'', ''validation'']"

type_synonym CompressionType = string

definition CompressionType_Valid :: "CompressionType \<Rightarrow> bool" where
  "CompressionType_Valid e \<longleftrightarrow> e \<in> set [''bzip2'', ''gzip'', ''none'', ''xz'']"

type_synonym ContentUnit = string

definition ContentUnit_Valid :: "ContentUnit \<Rightarrow> bool" where
  "ContentUnit_Valid e \<longleftrightarrow> e \<in> set [''bytes'', ''lines'']"

type_synonym HealthCheckType = string

definition HealthCheckType_Valid :: "HealthCheckType \<Rightarrow> bool" where
  "HealthCheckType_Valid e \<longleftrightarrow> e \<in> set [''exception'', ''filesystem'', ''s3'', ''scheduler'', ''ssh'']"

type_synonym S3DataTransferServiceType = string

definition S3DataTransferServiceType_Valid :: "S3DataTransferServiceType \<Rightarrow> bool" where
  "S3DataTransferServiceType_Valid e \<longleftrightarrow> e \<in> set [''s3'']"

type_synonym S3TransferRequestTransferMethod = string

definition S3TransferRequestTransferMethod_Valid :: "S3TransferRequestTransferMethod \<Rightarrow> bool" where
  "S3TransferRequestTransferMethod_Valid e \<longleftrightarrow> e \<in> set [''s3'']"

type_synonym S3TransferResponseTransferMethod = string

definition S3TransferResponseTransferMethod_Valid :: "S3TransferResponseTransferMethod \<Rightarrow> bool" where
  "S3TransferResponseTransferMethod_Valid e \<longleftrightarrow> e \<in> set [''s3'']"

type_synonym SchedulerConnectionMode = string

definition SchedulerConnectionMode_Valid :: "SchedulerConnectionMode \<Rightarrow> bool" where
  "SchedulerConnectionMode_Valid e \<longleftrightarrow> e \<in> set [''hybrid'', ''rest'', ''ssh'']"

type_synonym SchedulerType = string

definition SchedulerType_Valid :: "SchedulerType \<Rightarrow> bool" where
  "SchedulerType_Valid e \<longleftrightarrow> e \<in> set [''pbs'', ''slurm'']"

type_synonym StreamerDataTransferServiceType = string

definition StreamerDataTransferServiceType_Valid :: "StreamerDataTransferServiceType \<Rightarrow> bool" where
  "StreamerDataTransferServiceType_Valid e \<longleftrightarrow> e \<in> set [''streamer'']"

type_synonym StreamerTransferRequestTransferMethod = string

definition StreamerTransferRequestTransferMethod_Valid :: "StreamerTransferRequestTransferMethod \<Rightarrow> bool" where
  "StreamerTransferRequestTransferMethod_Valid e \<longleftrightarrow> e \<in> set [''streamer'']"

type_synonym StreamerTransferResponseTransferMethod = string

definition StreamerTransferResponseTransferMethod_Valid :: "StreamerTransferResponseTransferMethod \<Rightarrow> bool" where
  "StreamerTransferResponseTransferMethod_Valid e \<longleftrightarrow> e \<in> set [''streamer'']"

type_synonym WormholeDataTransferServiceType = string

definition WormholeDataTransferServiceType_Valid :: "WormholeDataTransferServiceType \<Rightarrow> bool" where
  "WormholeDataTransferServiceType_Valid e \<longleftrightarrow> e \<in> set [''wormhole'']"

type_synonym WormholeTransferRequestTransferMethod = string

definition WormholeTransferRequestTransferMethod_Valid :: "WormholeTransferRequestTransferMethod \<Rightarrow> bool" where
  "WormholeTransferRequestTransferMethod_Valid e \<longleftrightarrow> e \<in> set [''wormhole'']"

type_synonym WormholeTransferResponseTransferMethod = string

definition WormholeTransferResponseTransferMethod_Valid :: "WormholeTransferResponseTransferMethod \<Rightarrow> bool" where
  "WormholeTransferResponseTransferMethod_Valid e \<longleftrightarrow> e \<in> set [''wormhole'']"

type_synonym WormholeTransferUploadRequestTransferMethod = string

definition WormholeTransferUploadRequestTransferMethod_Valid :: "WormholeTransferUploadRequestTransferMethod \<Rightarrow> bool" where
  "WormholeTransferUploadRequestTransferMethod_Valid e \<longleftrightarrow> e \<in> set [''wormhole'']"

section \<open>Structs\<close>

record ApiResponseError =
  ae_Data :: "(string, json) fmap option"
  ae_ErrorType :: "ApResponseErrorType option"
  ae_Message :: string
  ae_User :: "string option"

definition decode_ApiResponseError :: "json \<Rightarrow> ApiResponseError result" where
  "decode_ApiResponseError j =
     bindE (json_object j) (\<lambda>ms.
     bindE (pointer_field (decode_map decode_any) ''data'' ms) (\<lambda>data.
     bindE (pointer_field decode_string ''errorType'' ms) (\<lambda>errorType.
     bindE (decode_string (json_member ''message'' ms)) (\<lambda>message.
     bindE (pointer_field decode_string ''user'' ms) (\<lambda>user.
     Inr \<lparr> ae_Data = data, ae_ErrorType = errorType, ae_Message = message, ae_User = user \<rparr>)))))"

record BucketLifecycleConfiguration =
  BucketLifecycleConfiguration_Days :: "int option"

definition decode_BucketLifecycleConfiguration :: "json \<Rightarrow> BucketLifecycleConfiguration result" where
  "decode_BucketLifecycleConfiguration j =
     bindE (json_object j) (\<lambda>ms.
     bindE (pointer_field decode_int ''days'' ms) (\<lambda>days.
     Inr \<lparr> BucketLifecycleConfiguration_Days = days \<rparr>))"

definition encode_BucketLifecycleConfiguration :: "BucketLifecycleConfiguration \<Rightarrow> json" where
  "encode_BucketLifecycleConfiguration b = JObj
     (pointer_member encode_int ''days'' (BucketLifecycleConfiguration_Days b))"

record CompressRequest =
  CompressRequest_Account :: "string option"
  CompressRequest_Compression :: "CompressionType option"
  CompressRequest_Dereference :: "bool option"
  CompressRequest_MatchPattern :: "string option"
  CompressRequest_SourcePath :: string
  CompressRequest_TargetPath :: string

definition decode_CompressRequest :: "json \<Rightarrow> CompressRequest result" where
  "decode_CompressRequest j =
     bindE (json_object j) (\<lambda>ms.
     bindE (pointer_field decode_string ''account'' ms) (\<lambda>account.
     bindE (pointer_field decode_string ''compression'' ms) (\<lambda>compression.
     bindE (pointer_field decode_bool ''dereference'' ms) (\<lambda>dereference.
     bindE (pointer_field decode_string ''matchPattern'' ms) (\<lambda>matchPattern.
     bindE (decode_string (json_member ''sourcePath'' ms)) (\<lambda>sourcePath.
     bindE (decode_string (json_member ''targetPath'' ms)) (\<lambda>targetPath.
     Inr \<lparr> CompressRequest_Account = account, CompressRequest_Compression = compression,
           CompressRequest_Dereference = dereference, CompressRequest_MatchPattern = matchPattern,
           CompressRequest_SourcePath = sourcePath, CompressRequest_TargetPath = targetPath \<rparr>)))))))"

definition encode_CompressRequest :: "CompressRequest \<Rightarrow> json" where
  "encode_CompressRequest b = JObj
     (pointer_member JStr ''account'' (CompressRequest_Account b)
      @ pointer_member JStr ''compression'' (CompressRequest_Compression b)
      @ pointer_member JBool ''dereference'' (CompressRequest_Dereference b)
      @ pointer_member JStr ''matchPattern'' (CompressRequest_MatchPattern b)
      @ [(''sourcePath'', JStr (CompressRequest_SourcePath b))]
      @ [(''targetPath'', JStr (CompressRequest_TargetPath b))])"

record TransferJobLogs =
  TransferJobLogs_ErrorLog :: string
  TransferJobLogs_OutputLog :: string

definition decode_TransferJobLogs :: "json \<Rightarrow> TransferJobLogs result" where
  "decode_TransferJobLogs j =
     bindE (json_object j) (\<lambda>ms.
     bindE (decode_string (json_member ''errorLog'' ms)) (\<lambda>errorLog.
     bindE (decode_string (json_member ''outputLog'' ms)) (\<lambda>outputLog.
     Inr \<lparr> TransferJobLogs_ErrorLog = errorLog, TransferJobLogs_OutputLog = outputLog \<rparr>)))"

record TransferJob =
  TransferJob_JobId :: string
  TransferJob_Logs :: TransferJobLogs
  TransferJob_System :: string
  TransferJob_WorkingDirectory :: string

definition decode_TransferJob :: "json \<Rightarrow> TransferJob result" where
  "decode_TransferJob j =
     bindE (json_object j) (\<lambda>ms.
     bindE (decode_string (json_member ''jobId'' ms)) (\<lambda>jobId.
     bindE (decode_TransferJobLogs (json_member ''logs'' ms)) (\<lambda>logs.
     bindE (decode_string (json_member ''system'' ms)) (\<lambda>system.
     bindE (decode_string (json_member ''workingDirectory'' ms)) (\<lambda>workingDirectory.
     Inr \<lparr> TransferJob_JobId = jobId, TransferJob_Logs = logs, TransferJob_System = system,
           TransferJob_WorkingDirectory = workingDirectory \<rparr>)))))"

record CompressResponse =
  CompressResponse_TransferJob :: TransferJob

definition decode_CompressResponse :: "json \<Rightarrow> CompressResponse result" where
  "decode_CompressResponse j =
     bindE (json_object j) (\<lambda>ms.
     bindE (decode_TransferJob (json_member ''transferJob'' ms)) (\<lambda>transferJob.
     Inr \<lparr> CompressResponse_TransferJob = transferJob \<rparr>))"

record CopyRequest =
  CopyRequest_Account :: "string option"
  CopyRequest_Dereference :: "bool option"
  CopyRequest_SourcePath :: string
  CopyRequest_TargetPath :: string

definition decode_CopyRequest :: "json \<Rightarrow> CopyRequest result" where
  "decode_CopyRequest j =
     bindE (json_object j) (\<lambda>ms.
     bindE (pointer_field decode_string ''account'' ms) (\<lambda>account.
     bindE (pointer_field decode_bool ''dereference'' ms) (\<lambda>dereference.
     bindE (decode_string (json_member ''sourcePath'' ms)) (\<lambda>sourcePath.
     bindE (decode_string (json_member ''targetPath'' ms)) (\<lambda>targetPath.
     Inr \<lparr> CopyRequest_Account = account, CopyRequest_Dereference = dereference,
           CopyRequest_SourcePath = sourcePath, CopyRequest_TargetPath = targetPath \<rparr>)))))"

definition encode_CopyRequest :: "CopyRequest \<Rightarrow> json" where
  "encode_CopyRequest b = JObj
     (pointer_member JStr ''account'' (CopyRequest_Account b)
      @ pointer_member JBool ''dereference'' (CopyRequest_Dereference b)
      @ [(''sourcePath'', JStr (CopyRequest_SourcePath b))]
      @ [(''targetPath'', JStr (CopyRequest_TargetPath b))])"

record CopyResponse =
  CopyResponse_TransferJob :: TransferJob

definition decode_CopyResponse :: "json \<Rightarrow> CopyResponse result" where
  "decode_CopyResponse j =
     bindE (json_object j) (\<lambda>ms.
     bindE (decode_TransferJob (json_member ''transferJob'' ms)) (\<lambda>transferJob.
     Inr \<lparr> CopyResponse_TransferJob = transferJob \<rparr>))"

record DataOperation =
  DataOperation_DataTransfer :: "raw_message option"
  DataOperation_DatatransferJobsDirectives :: "string list option"
  DataOperation_MaxOpsFileSize :: "int option"

definition decode_DataOperation :: "json \<Rightarrow> DataOperation result" where
  "decode_DataOperation j =
     bindE (json_object j) (\<lambda>ms.
     bindE (pointer_field decode_raw ''data_transfer'' ms) (\<lambda>dataTransfer.
     bindE (pointer_field (decode_list decode_string) ''datatransfer_jobs_directives'' ms) (\<lambda>datatransferJobsDirectives.
     bindE (pointer_field decode_int ''max_ops_file_size'' ms) (\<lambda>maxOpsFileSize.
     Inr \<lparr> DataOperation_DataTransfer = dataTransfer,
           DataOperation_DatatransferJobsDirectives = datatransferJobsDirectives,
           DataOperation_MaxOpsFileSize = maxOpsFileSize \<rparr>))))"

record DeleteResponse =
  DeleteResponse_TransferJob :: TransferJob

definition decode_DeleteResponse :: "json \<Rightarrow> DeleteResponse result" where
  "decode_DeleteResponse j =
     bindE (json_object j) (\<lambda>ms.
     bindE (decode_TransferJob (json_member ''transferJob'' ms)) (\<lambda>transferJob.
     Inr \<lparr> DeleteResponse_TransferJob = transferJob \<rparr>))"

record DownloadFileResponse =
  DownloadFileResponse_TransferDirectives :: raw_message
  DownloadFileResponse_TransferJob :: TransferJob

definition decode_DownloadFileResponse :: "json \<Rightarrow> DownloadFileResponse result" where
  "decode_DownloadFileResponse j =
     bindE (json_object j) (\<lambda>ms.
     bindE (Inr (json_lookup ''transferDirectives'' ms)) (\<lambda>transferDirectives.
     bindE (decode_TransferJob (json_member ''transferJob'' ms)) (\<lambda>transferJob.
     Inr \<lparr> DownloadFileResponse_TransferDirectives = transferDirectives,
           DownloadFileResponse_TransferJob = transferJob \<rparr>)))"

record ExtractRequest =
  ExtractRequest_Account :: "string option"
  ExtractRequest_Compression :: "CompressionType option"
  ExtractRequest_SourcePath :: string
  ExtractRequest_TargetPath :: string

definition decode_ExtractRequest :: "json \<Rightarrow> ExtractRequest result" where
  "decode_ExtractRequest j =
     bindE (json_object j) (\<lambda>ms.
     bindE (pointer_field decode_string ''account'' ms) (\<lambda>account.
     bindE (pointer_field decode_string ''compression'' ms) (\<lambda>compression.
     bindE (decode_string (json_member ''sourcePath'' ms)) (\<lambda>sourcePath.
     bindE (decode_string (json_member ''targetPath'' ms)) (\<lambda>targetPath.
     Inr \<lparr> ExtractRequest_Account = account, ExtractRequest_Compression = compression,
           ExtractRequest_SourcePath = sourcePath, ExtractRequest_TargetPath = targetPath \<rparr>)))))"

definition encode_ExtractRequest :: "ExtractRequest \<Rightarrow> json" where
  "encode_ExtractRequest b = JObj
     (pointer_member JStr ''account'' (ExtractRequest_Account b)
      @ pointer_member JStr ''compression'' (ExtractRequest_Compression b)
      @ [(''sourcePath'', JStr (ExtractRequest_SourcePath b))]
      @ [(''targetPath'', JStr (ExtractRequest_TargetPath b))])"

record ExtractResponse =
  ExtractResponse_TransferJob :: TransferJob

definition decode_ExtractResponse :: "json \<Rightarrow> ExtractResponse result" where
  "decode_ExtractResponse j =
     bindE (json_object j) (\<lambda>ms.
     bindE (decode_TransferJob (json_member ''transferJob'' ms)) (\<lambda>transferJob.
     Inr \<lparr> ExtractResponse_TransferJob = transferJob \<rparr>))"

record File =
  File_Group :: string
  File_LastModified :: string
  File_LinkTarget :: "string option"
  File_Name :: string
  File_Permissions :: string
  File_Size :: string
  File_Type :: string
  File_User :: string

definition decode_File :: "json \<Rightarrow> File result" where
  "decode_File j =
     bindE (json_object j) (\<lambda>ms.
     bindE (decode_string (json_member ''group'' ms)) (\<lambda>group.
     bindE (decode_string (json_member ''lastModified'' ms)) (\<lambda>lastModified.
     bindE (pointer_field decode_string ''linkTarget'' ms) (\<lambda>linkTarget.
     bindE (decode_string (json_member ''name'' ms)) (\<lambda>name.
     bindE (decode_string (json_member ''permissions'' ms)) (\<lambda>permissions.
     bindE (decode_string (json_member ''size'' ms)) (\<lambda>size.
     bindE (decode_string (json_member ''type'' ms)) (\<lambda>kind.
     bindE (decode_string (json_member ''user'' ms)) (\<lambda>user.
     Inr \<lparr> File_Group = group, File_LastModified = lastModified, File_LinkTarget = linkTarget,
           File_Name = name, File_Permissions = permissions, File_Size = size, File_Type = kind,
           File_User = user \<rparr>)))))))))"

record FileChecksum =
  FileChecksum_Algorithm :: "string option"
  FileChecksum_Checksum :: string

definition decode_FileChecksum :: "json \<Rightarrow> FileChecksum result" where
  "decode_FileChecksum j =
     bindE (json_object j) (\<lambda>ms.
     bindE (pointer_field decode_string ''algorithm'' ms) (\<lambda>algorithm.
     bindE (decode_string (json_member ''checksum'' ms)) (\<lambda>checksum.
     Inr \<lparr> FileChecksum_Algorithm = algorithm, FileChecksum_Checksum = checksum \<rparr>)))"

record FileContent =
  FileContent_Content :: string
  FileContent_ContentType :: ContentUnit
  FileContent_EndPosition :: int
  FileContent_StartPosition :: int

definition decode_FileContent :: "json \<Rightarrow> FileContent result" where
  "decode_FileContent j =
     bindE (json_object j) (\<lambda>ms.
     bindE (decode_string (json_member ''content'' ms)) (\<lambda>content.
     bindE (decode_string (json_member ''contentType'' ms)) (\<lambda>contentType.
     bindE (decode_int (json_member ''endPosition'' ms)) (\<lambda>endPosition.
     bindE (decode_int (json_member ''startPosition'' ms)) (\<lambda>startPosition.
     Inr \<lparr> FileContent_Content = content, FileContent_ContentType = contentType,
           FileContent_EndPosition = endPosition, FileContent_StartPosition = startPosition \<rparr>)))))"

record FileStat =
  FileStat_Atime :: int
  FileStat_Ctime :: int
  FileStat_Dev :: int
  FileStat_Gid :: int
  FileStat_Ino :: int
  FileStat_Mode :: int
  FileStat_Mtime :: int
  FileStat_Nlink :: int
  FileStat_Size :: int
  FileStat_Uid :: int

definition decode_FileStat :: "json \<Rightarrow> FileStat result" where
  "decode_FileStat j =
     bindE (json_object j) (\<lambda>ms.
     bindE (decode_int (json_member ''atime'' ms)) (\<lambda>atime.
     bindE (decode_int (json_member ''ctime'' ms)) (\<lambda>ctime.
     bindE (decode_int (json_member ''dev'' ms)) (\<lambda>dev.
     bindE (decode_int (json_member ''gid'' ms)) (\<lambda>gid.
     bindE (decode_int (json_member ''ino'' ms)) (\<lambda>ino.
     bindE (decode_int (json_member ''mode'' ms)) (\<lambda>mode.
     bindE (decode_int (json_member ''mtime'' ms)) (\<lambda>mtime.
     bindE (decode_int (json_member ''nlink'' ms)) (\<lambda>nlink.
     bindE (decode_int (json_member ''size'' ms)) (\<lambda>size.
     bindE (decode_int (json_member ''uid'' ms)) (\<lambda>uid.
     Inr \<lparr> FileStat_Atime = atime, FileStat_Ctime = ctime, FileStat_Dev = dev, FileStat_Gid = gid,
           FileStat_Ino = ino, FileStat_Mode = mode, FileStat_Mtime = mtime,
           FileStat_Nlink = nlink, FileStat_Size = size, FileStat_Uid = uid \<rparr>)))))))))))"

record FileSystem =
  fs_DataType :: FileSystemDataType
  fs_DefaultWorkDir :: "bool option"
  fs_Path :: string

definition decode_FileSystem :: "json \<Rightarrow> FileSystem result" where
  "decode_FileSystem j =
     bindE (json_object j) (\<lambda>ms.
     bindE (decode_FileSystemDataType (json_member ''dataType'' ms)) (\<lambda>dataType.
     bindE (pointer_field decode_bool ''defaultWorkDir'' ms) (\<lambda>defaultWorkDir.
     bindE (decode_string (json_member ''path'' ms)) (\<lambda>path.
     Inr \<lparr> fs_DataType = dataType, fs_DefaultWorkDir = defaultWorkDir, fs_Path = path \<rparr>))))"

record FilesystemServiceHealth =
  FilesystemServiceHealth_Healthy :: "bool option"
  FilesystemServiceHealth_LastChecked :: "time option"
  FilesystemServiceHealth_Latency :: "float32 option"
  FilesystemServiceHealth_Message :: "string option"
  FilesystemServiceHealth_Path :: "string option"
  FilesystemServiceHealth_ServiceType :: HealthCheckType

definition decode_FilesystemServiceHealth :: "(string \<Rightarrow> time result) \<Rightarrow> json \<Rightarrow> FilesystemServiceHealth result" where
  "decode_FilesystemServiceHealth pt j =
     bindE (json_object j) (\<lambda>ms.
     bindE (pointer_field decode_bool ''healthy'' ms) (\<lambda>healthy.
     bindE (pointer_field (decode_time pt) ''lastChecked'' ms) (\<lambda>lastChecked.
     bindE (pointer_field decode_float ''latency'' ms) (\<lambda>latency.
     bindE (pointer_field decode_string ''message'' ms) (\<lambda>message.
     bindE (pointer_field decode_string ''path'' ms) (\<lambda>path.
     bindE (decode_string (json_member ''serviceType'' ms)) (\<lambda>serviceType.
     Inr \<lparr> FilesystemServiceHealth_Healthy = healthy,
           FilesystemServiceHealth_LastChecked = lastChecked,
           FilesystemServiceHealth_Latency = latency, FilesystemServiceHealth_Message = message,
           FilesystemServiceHealth_Path = path, FilesystemServiceHealth_ServiceType = serviceType \<rparr>)))))))"

record GetDirectoryLsResponse =
  GetDirectoryLsResponse_Output :: "File list option"

definition decode_GetDirectoryLsResponse :: "json \<Rightarrow> GetDirectoryLsResponse result" where
  "decode_GetDirectoryLsResponse j =
     bindE (json_object j) (\<lambda>ms.
     bindE (pointer_field (decode_list decode_File) ''output'' ms) (\<lambda>output.
     Inr \<lparr> GetDirectoryLsResponse_Output = output \<rparr>))"

record GetFileChecksumResponse =
  GetFileChecksumResponse_Output :: "FileChecksum option"

definition decode_GetFileChecksumResponse :: "json \<Rightarrow> GetFileChecksumResponse result" where
  "decode_GetFileChecksumResponse j =
     bindE (json_object j) (\<lambda>ms.
     bindE (pointer_field decode_FileChecksum ''output'' ms) (\<lambda>output.
     Inr \<lparr> GetFileChecksumResponse_Output = output \<rparr>))"

record GetFileHeadResponse =
  GetFileHeadResponse_Output :: "FileContent option"

definition decode_GetFileHeadResponse :: "json \<Rightarrow> GetFileHeadResponse result" where
  "decode_GetFileHeadResponse j =
     bindE (json_object j) (\<lambda>ms.
     bindE (pointer_field decode_FileContent ''output'' ms) (\<lambda>output.
     Inr \<lparr> GetFileHeadResponse_Output = output \<rparr>))"

record GetFileStatResponse =
  GetFileStatResponse_Output :: "FileStat option"

definition decode_GetFileStatResponse :: "json \<Rightarrow> GetFileStatResponse result" where
  "decode_GetFileStatResponse j =
     bindE (json_object j) (\<lambda>ms.
     bindE (pointer_field decode_FileStat ''output'' ms) (\<lambda>output.
     Inr \<lparr> GetFileStatResponse_Output = output \<rparr>))"

record GetFileTailResponse =
  GetFileTailResponse_Output :: "FileContent option"

definition decode_GetFileTailResponse :: "json \<Rightarrow> GetFileTailResponse result" where
  "decode_GetFileTailResponse j =
     bindE (json_object j) (\<lambda>ms.
     bindE (pointer_field decode_FileContent ''output'' ms) (\<lambda>output.
     Inr \<lparr> GetFileTailResponse_Output = output \<rparr>))"

record GetFileTypeResponse =
  GetFileTypeResponse_Output :: "string option"

definition decode_GetFileTypeResponse :: "json \<Rightarrow> GetFileTypeResponse result" where
  "decode_GetFileTypeResponse j =
     bindE (json_object j) (\<lambda>ms.
     bindE (pointer_field decode_string ''output'' ms) (\<lambda>output.
     Inr \<lparr> GetFileTypeResponse_Output = output \<rparr>))"

record JobMetadataModel =
  jm_JobId :: string
  jm_Script :: "string option"
  jm_StandardError :: "string option"
  jm_StandardInput :: "string option"
  jm_StandardOutput :: "string option"

definition decode_JobMetadataModel :: "json \<Rightarrow> JobMetadataModel result" where
  "decode_JobMetadataModel j =
     bindE (json_object j) (\<lambda>ms.
     bindE (decode_string (json_member ''jobId'' ms)) (\<lambda>jobId.
     bindE (pointer_field decode_string ''script'' ms) (\<lambda>script.
     bindE (pointer_field decode_string ''standardError'' ms) (\<lambda>standardError.
     bindE (pointer_field decode_string ''standardInput'' ms) (\<lambda>standardInput.
     bindE (pointer_field decode_string ''standardOutput'' ms) (\<lambda>standardOutput.
     Inr \<lparr> jm_JobId = jobId, jm_Script = script, jm_StandardError = standardError,
           jm_StandardInput = standardInput, jm_StandardOutput = standardOutput \<rparr>))))))"

record GetJobMetadataResponse =
  GetJobMetadataResponse_Jobs :: "JobMetadataModel list option"

definition decode_GetJobMetadataResponse :: "json \<Rightarrow> GetJobMetadataResponse result" where
  "decode_GetJobMetadataResponse j =
     bindE (json_object j) (\<lambda>ms.
     bindE (pointer_field (decode_list decode_JobMetadataModel) ''jobs'' ms) (\<lambda>jobs.
     Inr \<lparr> GetJobMetadataResponse_Jobs = jobs \<rparr>))"

record JobStatus =
  JobStatus_ExitCode :: "int option"
  JobStatus_InterruptSignal :: "int option"
  JobStatus_State :: string
  JobStatus_StateReason :: "string option"

definition decode_JobStatus :: "json \<Rightarrow> JobStatus result" where
  "decode_JobStatus j =
     bindE (json_object j) (\<lambda>ms.
     bindE (pointer_field decode_int ''exitCode'' ms) (\<lambda>exitCode.
     bindE (pointer_field decode_int ''interruptSignal'' ms) (\<lambda>interruptSignal.
     bindE (decode_string (json_member ''state'' ms)) (\<lambda>state.
     bindE (pointer_field decode_string ''stateReason'' ms) (\<lambda>stateReason.
     Inr \<lparr> JobStatus_ExitCode = exitCode, JobStatus_InterruptSignal = interruptSignal,
           JobStatus_State = state, JobStatus_StateReason = stateReason \<rparr>)))))"

record JobTime =
  JobTime_Elapsed :: "int option"
  JobTime_End :: "int option"
  JobTime_Limit :: "int option"
  JobTime_Start :: "int option"
  JobTime_Suspended :: "int option"

definition decode_JobTime :: "json \<Rightarrow> JobTime result" where
  "decode_JobTime j =
     bindE (json_object j) (\<lambda>ms.
     bindE (pointer_field decode_int ''elapsed'' ms) (\<lambda>elapsed.
     bindE (pointer_field decode_int ''end'' ms) (\<lambda>endTime.
     bindE (pointer_field decode_int ''limit'' ms) (\<lambda>limit.
     bindE (pointer_field decode_int ''start'' ms) (\<lambda>start.
     bindE (pointer_field decode_int ''suspended'' ms) (\<lambda>suspended.
     Inr \<lparr> JobTime_Elapsed = elapsed, JobTime_End = endTime, JobTime_Limit = limit,
           JobTime_Start = start, JobTime_Suspended = suspended \<rparr>))))))"

record JobTask =
  JobTask_Id :: string
  JobTask_Name :: string
  JobTask_Status :: JobStatus
  JobTask_Time :: JobTime

definition decode_JobTask :: "json \<Rightarrow> JobTask result" where
  "decode_JobTask j =
     bindE (json_object j) (\<lambda>ms.
     bindE (decode_string (json_member ''id'' ms)) (\<lambda>id.
     bindE (decode_string (json_member ''name'' ms)) (\<lambda>name.
     bindE (decode_JobStatus (json_member ''status'' ms)) (\<lambda>status.
     bindE (decode_JobTime (json_member ''time'' ms)) (\<lambda>time.
     Inr \<lparr> JobTask_Id = id, JobTask_Name = name, JobTask_Status = status, JobTask_Time = time \<rparr>)))))"

record JobModel =
  JobModel_Account :: "string option"
  JobModel_AllocationNodes :: int
  JobModel_Cluster :: string
  JobModel_Group :: "string option"
  JobModel_JobId :: string
  JobModel_KillRequestUser :: "string option"
  JobModel_Name :: string
  JobModel_Nodes :: string
  JobModel_Partition :: string
  JobModel_Priority :: "int option"
  JobModel_Status :: JobStatus
  JobModel_Tasks :: "JobTask list option"
  JobModel_Time :: JobTime
  JobModel_User :: string
  JobModel_WorkingDirectory :: string

definition decode_JobModel :: "json \<Rightarrow> JobModel result" where
  "decode_JobModel j =
     bindE (json_object j) (\<lambda>ms.
     bindE (pointer_field decode_string ''account'' ms) (\<lambda>account.
     bindE (decode_int (json_member ''allocationNodes'' ms)) (\<lambda>allocationNodes.
     bindE (decode_string (json_member ''cluster'' ms)) (\<lambda>cluster.
     bindE (pointer_field decode_string ''group'' ms) (\<lambda>group.
     bindE (decode_string (json_member ''jobId'' ms)) (\<lambda>jobId.
     bindE (pointer_field decode_string ''killRequestUser'' ms) (\<lambda>killRequestUser.
     bindE (decode_string (json_member ''name'' ms)) (\<lambda>name.
     bindE (decode_string (json_member ''nodes'' ms)) (\<lambda>nodes.
     bindE (decode_string (json_member ''partition'' ms)) (\<lambda>partition.
     bindE (pointer_field decode_int ''priority'' ms) (\<lambda>priority.
     bindE (decode_JobStatus (json_member ''status'' ms)) (\<lambda>status.
     bindE (pointer_field (decode_list decode_JobTask) ''tasks'' ms) (\<lambda>tasks.
     bindE (decode_JobTime (json_member ''time'' ms)) (\<lambda>time.
     bindE (decode_string (json_member ''user'' ms)) (\<lambda>user.
     bindE (decode_string (json_member ''workingDirectory'' ms)) (\<lambda>workingDirectory.
     Inr \<lparr> JobModel_Account = account, JobModel_AllocationNodes = allocationNodes,
           JobModel_Cluster = cluster, JobModel_Group = group, JobModel_JobId = jobId,
           JobModel_KillRequestUser = killRequestUser, JobModel_Name = name,
           JobModel_Nodes = nodes, JobModel_Partition = partition, JobModel_Priority = priority,
           JobModel_Status = status, JobModel_Tasks = tasks, JobModel_Time = time,
           JobModel_User = user, JobModel_WorkingDirectory = workingDirectory \<rparr>))))))))))))))))"

record GetJobResponse =
  GetJobResponse_Jobs :: "JobModel list option"

definition decode_GetJobResponse :: "json \<Rightarrow> GetJobResponse result" where
  "decode_GetJobResponse j =
     bindE (json_object j) (\<lambda>ms.
     bindE (pointer_field (decode_list decode_JobModel) ''jobs'' ms) (\<lambda>jobs.
     Inr \<lparr> GetJobResponse_Jobs = jobs \<rparr>))"

record GetLiveness =
  GetLiveness_HealthcheckRuns :: "(string, time) fmap option"
  GetLiveness_LastUpdate :: "int option"

definition decode_GetLiveness :: "(string \<Rightarrow> time result) \<Rightarrow> json \<Rightarrow> GetLiveness result" where
  "decode_GetLiveness pt j =
     bindE (json_object j) (\<lambda>ms.
     bindE (pointer_field (decode_map (decode_time pt)) ''healthcheckRuns'' ms) (\<lambda>healthcheckRuns.
     bindE (pointer_field decode_int ''lastUpdate'' ms) (\<lambda>lastUpdate.
     Inr \<lparr> GetLiveness_HealthcheckRuns = healthcheckRuns, GetLiveness_LastUpdate = lastUpdate \<rparr>)))"

record NodeModel =
  NodeModel_Address :: "string option"
  NodeModel_AllocCpus :: "int option"
  NodeModel_AllocMemory :: "int option"
  NodeModel_Cores :: "int option"
  NodeModel_CpuLoad :: "float32 option"
  NodeModel_Cpus :: int
  NodeModel_Features :: "raw_message option"
  NodeModel_FreeMemory :: "int option"
  NodeModel_Hostname :: "string option"
  NodeModel_IdleCpus :: "int option"
  NodeModel_Name :: string
  NodeModel_Partitions :: "string list option"
  NodeModel_Sockets :: "int option"
  NodeModel_State :: raw_message
  NodeModel_Threads :: "int option"
  NodeModel_Weight :: "int option"

definition decode_NodeModel :: "json \<Rightarrow> NodeModel result" where
  "decode_NodeModel j =
     bindE (json_object j) (\<lambda>ms.
     bindE (pointer_field decode_string ''address'' ms) (\<lambda>address.
     bindE (pointer_field decode_int ''allocCpus'' ms) (\<lambda>allocCpus.
     bindE (pointer_field decode_int ''allocMemory'' ms) (\<lambda>allocMemory.
     bindE (pointer_field decode_int ''cores'' ms) (\<lambda>cores.
     bindE (pointer_field decode_float ''cpuLoad'' ms) (\<lambda>cpuLoad.
     bindE (decode_int (json_member ''cpus'' ms)) (\<lambda>cpus.
     bindE (pointer_field decode_raw ''features'' ms) (\<lambda>features.
     bindE (pointer_field decode_int ''freeMemory'' ms) (\<lambda>freeMemory.
     bindE (pointer_field decode_string ''hostname'' ms) (\<lambda>hostname.
     bindE (pointer_field decode_int ''idleCpus'' ms) (\<lambda>idleCpus.
     bindE (decode_string (json_member ''name'' ms)) (\<lambda>name.
     bindE (pointer_field (decode_list decode_string) ''partitions'' ms) (\<lambda>partitions.
     bindE (pointer_field decode_int ''sockets'' ms) (\<lambda>sockets.
     bindE (Inr (json_lookup ''state'' ms)) (\<lambda>state.
     bindE (pointer_field decode_int ''threads'' ms) (\<lambda>threads.
     bindE (pointer_field decode_int ''weight'' ms) (\<lambda>weight.
     Inr \<lparr> NodeModel_Address = address, NodeModel_AllocCpus = allocCpus,
           NodeModel_AllocMemory = allocMemory, NodeModel_Cores = cores,
           NodeModel_CpuLoad = cpuLoad, NodeModel_Cpus = cpus, NodeModel_Features = features,
           NodeModel_FreeMemory = freeMemory, NodeModel_Hostname = hostname,
           NodeModel_IdleCpus = idleCpus, NodeModel_Name = name, NodeModel_Partitions = partitions,
           NodeModel_Sockets = sockets, NodeModel_State = state, NodeModel_Threads = threads,
           NodeModel_Weight = weight \<rparr>)))))))))))))))))"

record GetNodesResponse =
  GetNodesResponse_Nodes :: "NodeModel list"

definition decode_GetNodesResponse :: "json \<Rightarrow> GetNodesResponse result" where
  "decode_GetNodesResponse j =
     bindE (json_object j) (\<lambda>ms.
     bindE (decode_list decode_NodeModel (json_member ''nodes'' ms)) (\<lambda>nodes.
     Inr \<lparr> GetNodesResponse_Nodes = nodes \<rparr>))"

record PartitionModel =
  PartitionModel_Cpus :: "int option"
  PartitionModel_Name :: string
  PartitionModel_Partition :: raw_message
  PartitionModel_TotalNodes :: "int option"

definition decode_PartitionModel :: "json \<Rightarrow> PartitionModel result" where
  "decode_PartitionModel j =
     bindE (json_object j) (\<lambda>ms.
     bindE (pointer_field decode_int ''cpus'' ms) (\<lambda>cpus.
     bindE (decode_string (json_member ''name'' ms)) (\<lambda>name.
     bindE (Inr (json_lookup ''partition'' ms)) (\<lambda>partition.
     bindE (pointer_field decode_int ''totalNodes'' ms) (\<lambda>totalNodes.
     Inr \<lparr> PartitionModel_Cpus = cpus, PartitionModel_Name = name,
           PartitionModel_Partition = partition, PartitionModel_TotalNodes = totalNodes \<rparr>)))))"

record GetPartitionsResponse =
  GetPartitionsResponse_Partitions :: "PartitionModel list"

definition decode_GetPartitionsResponse :: "json \<Rightarrow> GetPartitionsResponse result" where
  "decode_GetPartitionsResponse j =
     bindE (json_object j) (\<lambda>ms.
     bindE (decode_list decode_PartitionModel (json_member ''partitions'' ms)) (\<lambda>partitions.
     Inr \<lparr> GetPartitionsResponse_Partitions = partitions \<rparr>))"

record ReservationModel =
  ReservationModel_EndTime :: int
  ReservationModel_Features :: "string option"
  ReservationModel_Name :: string
  ReservationModel_NodeList :: string
  ReservationModel_StartTime :: int

definition decode_ReservationModel :: "json \<Rightarrow> ReservationModel result" where
  "decode_ReservationModel j =
     bindE (json_object j) (\<lambda>ms.
     bindE (decode_int (json_member ''endTime'' ms)) (\<lambda>endTime.
     bindE (pointer_field decode_string ''features'' ms) (\<lambda>features.
     bindE (decode_string (json_member ''name'' ms)) (\<lambda>name.
     bindE (decode_string (json_member ''nodeList'' ms)) (\<lambda>nodeList.
     bindE (decode_int (json_member ''startTime'' ms)) (\<lambda>startTime.
     Inr \<lparr> ReservationModel_EndTime = endTime, ReservationModel_Features = features,
           ReservationModel_Name = name, ReservationModel_NodeList = nodeList,
           ReservationModel_StartTime = startTime \<rparr>))))))"

record GetReservationsResponse =
  GetReservationsResponse_Reservations :: "ReservationModel list"

definition decode_GetReservationsResponse :: "json \<Rightarrow> GetReservationsResponse result" where
  "decode_GetReservationsResponse j =
     bindE (json_object j) (\<lambda>ms.
     bindE (decode_list decode_ReservationModel (json_member ''reservations'' ms)) (\<lambda>reservations.
     Inr \<lparr> GetReservationsResponse_Reservations = reservations \<rparr>))"

record ProbingService =
  ProbingService_Timeout :: "int option"

definition decode_ProbingService :: "json \<Rightarrow> ProbingService result" where
  "decode_ProbingService j =
     bindE (json_object j) (\<lambda>ms.
     bindE (pointer_field decode_int ''timeout'' ms) (\<lambda>timeout.
     Inr \<lparr> ProbingService_Timeout = timeout \<rparr>))"

record ProbingServices =
  ProbingServices_IntervalCheck :: "int option"
  ProbingServices_Services :: "(string, ProbingService) fmap option"

definition decode_ProbingServices :: "json \<Rightarrow> ProbingServices result" where
  "decode_ProbingServices j =
     bindE (json_object j) (\<lambda>ms.
     bindE (pointer_field decode_int ''intervalCheck'' ms) (\<lambda>intervalCheck.
     bindE (pointer_field (decode_map decode_ProbingService) ''services'' ms) (\<lambda>services.
     Inr \<lparr> ProbingServices_IntervalCheck = intervalCheck, ProbingServices_Services = services \<rparr>)))"

record Scheduler =
  Scheduler_ApiUrl :: "string option"
  Scheduler_ApiVersion :: "string option"
  Scheduler_ConnectionMode :: "SchedulerConnectionMode option"
  Scheduler_Timeout :: "int option"
  Scheduler_Type :: SchedulerType
  Scheduler_Version :: string

definition decode_Scheduler :: "json \<Rightarrow> Scheduler result" where
  "decode_Scheduler j =
     bindE (json_object j) (\<lambda>ms.
     bindE (pointer_field decode_string ''apiUrl'' ms) (\<lambda>apiUrl.
     bindE (pointer_field decode_string ''apiVersion'' ms) (\<lambda>apiVersion.
     bindE (pointer_field decode_string ''connectionMode'' ms) (\<lambda>connectionMode.
     bindE (pointer_field decode_int ''timeout'' ms) (\<lambda>timeout.
     bindE (decode_string (json_member ''type'' ms)) (\<lambda>kind.
     bindE (decode_string (json_member ''version'' ms)) (\<lambda>version.
     Inr \<lparr> Scheduler_ApiUrl = apiUrl, Scheduler_ApiVersion = apiVersion,
           Scheduler_ConnectionMode = connectionMode, Scheduler_Timeout = timeout,
           Scheduler_Type = kind, Scheduler_Version = version \<rparr>)))))))"

record SSHTimeouts =
  SSHTimeouts_CommandExecution :: "int option"
  SSHTimeouts_Connection :: "int option"
  SSHTimeouts_IdleTimeout :: "int option"
  SSHTimeouts_KeepAlive :: "int option"
  SSHTimeouts_Login :: "int option"

definition decode_SSHTimeouts :: "json \<Rightarrow> SSHTimeouts result" where
  "decode_SSHTimeouts j =
     bindE (json_object j) (\<lambda>ms.
     bindE (pointer_field decode_int ''commandExecution'' ms) (\<lambda>commandExecution.
     bindE (pointer_field decode_int ''connection'' ms) (\<lambda>connection.
     bindE (pointer_field decode_int ''idleTimeout'' ms) (\<lambda>idleTimeout.
     bindE (pointer_field decode_int ''keepAlive'' ms) (\<lambda>keepAlive.
     bindE (pointer_field decode_int ''login'' ms) (\<lambda>login.
     Inr \<lparr> SSHTimeouts_CommandExecution = commandExecution, SSHTimeouts_Connection = connection,
           SSHTimeouts_IdleTimeout = idleTimeout, SSHTimeouts_KeepAlive = keepAlive,
           SSHTimeouts_Login = login \<rparr>))))))"

record SSHClientPool =
  SSHClientPool_Host :: string
  SSHClientPool_MaxClients :: "int option"
  SSHClientPool_Port :: int
  SSHClientPool_ProxyHost :: "string option"
  SSHClientPool_ProxyPort :: "int option"
  SSHClientPool_Timeout :: "SSHTimeouts option"

definition decode_SSHClientPool :: "json \<Rightarrow> SSHClientPool result" where
  "decode_SSHClientPool j =
     bindE (json_object j) (\<lambda>ms.
     bindE (decode_string (json_member ''host'' ms)) (\<lambda>host.
     bindE (pointer_field decode_int ''maxClients'' ms) (\<lambda>maxClients.
     bindE (decode_int (json_member ''port'' ms)) (\<lambda>port.
     bindE (pointer_field decode_string ''proxyHost'' ms) (\<lambda>proxyHost.
     bindE (pointer_field decode_int ''proxyPort'' ms) (\<lambda>proxyPort.
     bindE (pointer_field decode_SSHTimeouts ''timeout'' ms) (\<lambda>timeout.
     Inr \<lparr> SSHClientPool_Host = host, SSHClientPool_MaxClients = maxClients,
           SSHClientPool_Port = port, SSHClientPool_ProxyHost = proxyHost,
           SSHClientPool_ProxyPort = proxyPort, SSHClientPool_Timeout = timeout \<rparr>)))))))"

record HPCCluster =
  hpc_DataOperation :: "DataOperation option"
  hpc_FileSystems :: "FileSystem list option"
  hpc_LastHealthCheck :: "time option"
  hpc_Name :: string
  hpc_Probing :: ProbingServices
  hpc_Scheduler :: Scheduler
  hpc_ServicesHealth :: "raw_message list option"
  hpc_Ssh :: SSHClientPool

definition decode_HPCCluster :: "(string \<Rightarrow> time result) \<Rightarrow> json \<Rightarrow> HPCCluster result" where
  "decode_HPCCluster pt j =
     bindE (json_object j) (\<lambda>ms.
     bindE (pointer_field decode_DataOperation ''dataOperation'' ms) (\<lambda>dataOperation.
     bindE (pointer_field (decode_list decode_FileSystem) ''fileSystems'' ms) (\<lambda>fileSystems.
     bindE (pointer_field (decode_time pt) ''lastHealthCheck'' ms) (\<lambda>lastHealthCheck.
     bindE (decode_string (json_member ''name'' ms)) (\<lambda>name.
     bindE (decode_ProbingServices (json_member ''probing'' ms)) (\<lambda>probing.
     bindE (decode_Scheduler (json_member ''scheduler'' ms)) (\<lambda>scheduler.
     bindE (pointer_field (decode_list decode_raw) ''servicesHealth'' ms) (\<lambda>servicesHealth.
     bindE (decode_SSHClientPool (json_member ''ssh'' ms)) (\<lambda>ssh.
     Inr \<lparr> hpc_DataOperation = dataOperation, hpc_FileSystems = fileSystems,
           hpc_LastHealthCheck = lastHealthCheck, hpc_Name = name, hpc_Probing = probing,
           hpc_Scheduler = scheduler, hpc_ServicesHealth = servicesHealth, hpc_Ssh = ssh \<rparr>)))))))))"

record GetSystemsResponse =
  GetSystemsResponse_Systems :: "HPCCluster list"

definition decode_GetSystemsResponse :: "(string \<Rightarrow> time result) \<Rightarrow> json \<Rightarrow> GetSystemsResponse result" where
  "decode_GetSystemsResponse pt j =
     bindE (json_object j) (\<lambda>ms.
     bindE (decode_list (decode_HPCCluster pt) (json_member ''systems'' ms)) (\<lambda>systems.
     Inr \<lparr> GetSystemsResponse_Systems = systems \<rparr>))"

record GetViewFileResponse =
  GetViewFileResponse_Output :: "string option"

definition decode_GetViewFileResponse :: "json \<Rightarrow> GetViewFileResponse result" where
  "decode_GetViewFileResponse j =
     bindE (json_object j) (\<lambda>ms.
     bindE (pointer_field decode_string ''output'' ms) (\<lambda>output.
     Inr \<lparr> GetViewFileResponse_Output = output \<rparr>))"

record HealthCheckException =
  HealthCheckException_Healthy :: "bool option"
  HealthCheckException_LastChecked :: "time option"
  HealthCheckException_Latency :: "float32 option"
  HealthCheckException_Message :: "string option"
  HealthCheckException_ServiceType :: HealthCheckType

definition decode_HealthCheckException :: "(string \<Rightarrow> time result) \<Rightarrow> json \<Rightarrow> HealthCheckException result" where
  "decode_HealthCheckException pt j =
     bindE (json_object j) (\<lambda>ms.
     bindE (pointer_field decode_bool ''healthy'' ms) (\<lambda>healthy.
     bindE (pointer_field (decode_time pt) ''lastChecked'' ms) (\<lambda>lastChecked.
     bindE (pointer_field decode_float ''latency'' ms) (\<lambda>latency.
     bindE (pointer_field decode_string ''message'' ms) (\<lambda>message.
     bindE (decode_string (json_member ''serviceType'' ms)) (\<lambda>serviceType.
     Inr \<lparr> HealthCheckException_Healthy = healthy, HealthCheckException_LastChecked = lastChecked,
           HealthCheckException_Latency = latency, HealthCheckException_Message = message,
           HealthCheckException_ServiceType = serviceType \<rparr>))))))"

record MoveRequest =
  MoveRequest_Account :: "string option"
  MoveRequest_SourcePath :: string
  MoveRequest_TargetPath :: string

definition decode_MoveRequest :: "json \<Rightarrow> MoveRequest result" where
  "decode_MoveRequest j =
     bindE (json_object j) (\<lambda>ms.
     bindE (pointer_field decode_string ''account'' ms) (\<lambda>account.
     bindE (decode_string (json_member ''sourcePath'' ms)) (\<lambda>sourcePath.
     bindE (decode_string (json_member ''targetPath'' ms)) (\<lambda>targetPath.
     Inr \<lparr> MoveRequest_Account = account, MoveRequest_SourcePath = sourcePath,
           MoveRequest_TargetPath = targetPath \<rparr>))))"

definition encode_MoveRequest :: "MoveRequest \<Rightarrow> json" where
  "encode_MoveRequest b = JObj
     (pointer_member JStr ''account'' (MoveRequest_Account b)
      @ [(''sourcePath'', JStr (MoveRequest_SourcePath b))]
      @ [(''targetPath'', JStr (MoveRequest_TargetPath b))])"

record MoveResponse =
  MoveResponse_TransferJob :: TransferJob

definition decode_MoveResponse :: "json \<Rightarrow> MoveResponse result" where
  "decode_MoveResponse j =
     bindE (json_object j) (\<lambda>ms.
     bindE (decode_TransferJob (json_member ''transferJob'' ms)) (\<lambda>transferJob.
     Inr \<lparr> MoveResponse_TransferJob = transferJob \<rparr>))"

record MultipartUpload =
  MultipartUpload_MaxPartSize :: "int option"
  MultipartUpload_ParallelRuns :: "int option"
  MultipartUpload_TmpFolder :: "string option"
  MultipartUpload_UseSplit :: "bool option"

definition decode_MultipartUpload :: "json \<Rightarrow> MultipartUpload result" where
  "decode_MultipartUpload j =
     bindE (json_object j) (\<lambda>ms.
     bindE (pointer_field decode_int ''max_part_size'' ms) (\<lambda>maxPartSize.
     bindE (pointer_field decode_int ''parallel_runs'' ms) (\<lambda>parallelRuns.
     bindE (pointer_field decode_string ''tmp_folder'' ms) (\<lambda>tmpFolder.
     bindE (pointer_field decode_bool ''use_split'' ms) (\<lambda>useSplit.
     Inr \<lparr> MultipartUpload_MaxPartSize = maxPartSize, MultipartUpload_ParallelRuns = parallelRuns,
           MultipartUpload_TmpFolder = tmpFolder, MultipartUpload_UseSplit = useSplit \<rparr>)))))"

definition encode_MultipartUpload :: "MultipartUpload \<Rightarrow> json" where
  "encode_MultipartUpload b = JObj
     (pointer_member encode_int ''max_part_size'' (MultipartUpload_MaxPartSize b)
      @ pointer_member encode_int ''parallel_runs'' (MultipartUpload_ParallelRuns b)
      @ pointer_member JStr ''tmp_folder'' (MultipartUpload_TmpFolder b)
      @ pointer_member JBool ''use_split'' (MultipartUpload_UseSplit b))"

record PosixIdentified =
  PosixIdentified_Id :: string
  PosixIdentified_Name :: string

definition decode_PosixIdentified :: "json \<Rightarrow> PosixIdentified result" where
  "decode_PosixIdentified j =
     bindE (json_object j) (\<lambda>ms.
     bindE (decode_string (json_member ''id'' ms)) (\<lambda>id.
     bindE (decode_string (json_member ''name'' ms)) (\<lambda>name.
     Inr \<lparr> PosixIdentified_Id = id, PosixIdentified_Name = name \<rparr>)))"

record PostCompressRequest =
  PostCompressRequest_Compression :: "CompressionType option"
  PostCompressRequest_Dereference :: "bool option"
  PostCompressRequest_MatchPattern :: "string option"
  PostCompressRequest_SourcePath :: string
  PostCompressRequest_TargetPath :: string

definition decode_PostCompressRequest :: "json \<Rightarrow> PostCompressRequest result" where
  "decode_PostCompressRequest j =
     bindE (json_object j) (\<lambda>ms.
     bindE (pointer_field decode_string ''compression'' ms) (\<lambda>compression.
     bindE (pointer_field decode_bool ''dereference'' ms) (\<lambda>dereference.
     bindE (pointer_field decode_string ''matchPattern'' ms) (\<lambda>matchPattern.
     bindE (decode_string (json_member ''sourcePath'' ms)) (\<lambda>sourcePath.
     bindE (decode_string (json_member ''targetPath'' ms)) (\<lambda>targetPath.
     Inr \<lparr> PostCompressRequest_Compression = compression,
           PostCompressRequest_Dereference = dereference,
           PostCompressRequest_MatchPattern = matchPattern,
           PostCompressRequest_SourcePath = sourcePath,
           PostCompressRequest_TargetPath = targetPath \<rparr>))))))"

definition encode_PostCompressRequest :: "PostCompressRequest \<Rightarrow> json" where
  "encode_PostCompressRequest b = JObj
     (pointer_member JStr ''compression'' (PostCompressRequest_Compression b)
      @ pointer_member JBool ''dereference'' (PostCompressRequest_Dereference b)
      @ pointer_member JStr ''matchPattern'' (PostCompressRequest_MatchPattern b)
      @ [(''sourcePath'', JStr (PostCompressRequest_SourcePath b))]
      @ [(''targetPath'', JStr (PostCompressRequest_TargetPath b))])"

record PostExtractRequest =
  PostExtractRequest_Compression :: "CompressionType option"
  PostExtractRequest_SourcePath :: string
  PostExtractRequest_TargetPath :: string

definition decode_PostExtractRequest :: "json \<Rightarrow> PostExtractRequest result" where
  "decode_PostExtractRequest j =
     bindE (json_object j) (\<lambda>ms.
     bindE (pointer_field decode_string ''compression'' ms) (\<lambda>compression.
     bindE (decode_string (json_member ''sourcePath'' ms)) (\<lambda>sourcePath.
     bindE (decode_string (json_member ''targetPath'' ms)) (\<lambda>targetPath.
     Inr \<lparr> PostExtractRequest_Compression = compression,
           PostExtractRequest_SourcePath = sourcePath, PostExtractRequest_TargetPath = targetPath \<rparr>))))"

definition encode_PostExtractRequest :: "PostExtractRequest \<Rightarrow> json" where
  "encode_PostExtractRequest b = JObj
     (pointer_member JStr ''compression'' (PostExtractRequest_Compression b)
      @ [(''sourcePath'', JStr (PostExtractRequest_SourcePath b))]
      @ [(''targetPath'', JStr (PostExtractRequest_TargetPath b))])"

record PostFileDownloadRequest =
  PostFileDownloadRequest_Account :: "string option"
  PostFileDownloadRequest_SourcePath :: string
  PostFileDownloadRequest_TransferDirectives :: raw_message

definition decode_PostFileDownloadRequest :: "json \<Rightarrow> PostFileDownloadRequest result" where
  "decode_PostFileDownloadRequest j =
     bindE (json_object j) (\<lambda>ms.
     bindE (pointer_field decode_string ''account'' ms) (\<lambda>account.
     bindE (decode_string (json_member ''sourcePath'' ms)) (\<lambda>sourcePath.
     bindE (Inr (json_lookup ''transferDirectives'' ms)) (\<lambda>transferDirectives.
     Inr \<lparr> PostFileDownloadRequest_Account = account,
           PostFileDownloadRequest_SourcePath = sourcePath,
           PostFileDownloadRequest_TransferDirectives = transferDirectives \<rparr>))))"

definition encode_PostFileDownloadRequest :: "PostFileDownloadRequest \<Rightarrow> json" where
  "encode_PostFileDownloadRequest b = JObj
     (pointer_member JStr ''account'' (PostFileDownloadRequest_Account b)
      @ [(''sourcePath'', JStr (PostFileDownloadRequest_SourcePath b))]
      @ [(''transferDirectives'', raw_json (PostFileDownloadRequest_TransferDirectives b))])"

record PostFileSymlinkRequest =
  PostFileSymlinkRequest_LinkPath :: string
  PostFileSymlinkRequest_SourcePath :: string

definition decode_PostFileSymlinkRequest :: "json \<Rightarrow> PostFileSymlinkRequest result" where
  "decode_PostFileSymlinkRequest j =
     bindE (json_object j) (\<lambda>ms.
     bindE (decode_string (json_member ''linkPath'' ms)) (\<lambda>linkPath.
     bindE (decode_string (json_member ''sourcePath'' ms)) (\<lambda>sourcePath.
     Inr \<lparr> PostFileSymlinkRequest_LinkPath = linkPath,
           PostFileSymlinkRequest_SourcePath = sourcePath \<rparr>)))"

definition encode_PostFileSymlinkRequest :: "PostFileSymlinkRequest \<Rightarrow> json" where
  "encode_PostFileSymlinkRequest b = JObj
     ([(''linkPath'', JStr (PostFileSymlinkRequest_LinkPath b))]
      @ [(''sourcePath'', JStr (PostFileSymlinkRequest_SourcePath b))])"

record PostFileSymlinkResponse =
  PostFileSymlinkResponse_Output :: "File option"

definition decode_PostFileSymlinkResponse :: "json \<Rightarrow> PostFileSymlinkResponse result" where
  "decode_PostFileSymlinkResponse j =
     bindE (json_object j) (\<lambda>ms.
     bindE (pointer_field decode_File ''output'' ms) (\<lambda>output.
     Inr \<lparr> PostFileSymlinkResponse_Output = output \<rparr>))"

record PostFileUploadRequest =
  PostFileUploadRequest_Account :: "string option"
  PostFileUploadRequest_SourcePath :: string
  PostFileUploadRequest_TransferDirectives :: raw_message

definition decode_PostFileUploadRequest :: "json \<Rightarrow> PostFileUploadRequest result" where
  "decode_PostFileUploadRequest j =
     bindE (json_object j) (\<lambda>ms.
     bindE (pointer_field decode_string ''account'' ms) (\<lambda>account.
     bindE (decode_string (json_member ''sourcePath'' ms)) (\<lambda>sourcePath.
     bindE (Inr (json_lookup ''transferDirectives'' ms)) (\<lambda>transferDirectives.
     Inr \<lparr> PostFileUploadRequest_Account = account, PostFileUploadRequest_SourcePath = sourcePath,
           PostFileUploadRequest_TransferDirectives = transferDirectives \<rparr>))))"

definition encode_PostFileUploadRequest :: "PostFileUploadRequest \<Rightarrow> json" where
  "encode_PostFileUploadRequest b = JObj
     (pointer_member JStr ''account'' (PostFileUploadRequest_Account b)
      @ [(''sourcePath'', JStr (PostFileUploadRequest_SourcePath b))]
      @ [(''transferDirectives'', raw_json (PostFileUploadRequest_TransferDirectives b))])"

record PostJobAttachRequest =
  PostJobAttachRequest_Command :: "string option"

definition decode_PostJobAttachRequest :: "json \<Rightarrow> PostJobAttachRequest result" where
  "decode_PostJobAttachRequest j =
     bindE (json_object j) (\<lambda>ms.
     bindE (pointer_field decode_string ''command'' ms) (\<lambda>command.
     Inr \<lparr> PostJobAttachRequest_Command = command \<rparr>))"

definition encode_PostJobAttachRequest :: "PostJobAttachRequest \<Rightarrow> json" where
  "encode_PostJobAttachRequest b = JObj
     (pointer_member JStr ''command'' (PostJobAttachRequest_Command b))"

record PostJobSubmissionResponse =
  PostJobSubmissionResponse_JobId :: "string option"

definition decode_PostJobSubmissionResponse :: "json \<Rightarrow> PostJobSubmissionResponse result" where
  "decode_PostJobSubmissionResponse j =
     bindE (json_object j) (\<lambda>ms.
     bindE (pointer_field decode_string ''jobId'' ms) (\<lambda>jobId.
     Inr \<lparr> PostJobSubmissionResponse_JobId = jobId \<rparr>))"

record PostMkdirResponse =
  PostMkdirResponse_Output :: "File option"

definition decode_PostMkdirResponse :: "json \<Rightarrow> PostMkdirResponse result" where
  "decode_PostMkdirResponse j =
     bindE (json_object j) (\<lambda>ms.
     bindE (pointer_field decode_File ''output'' ms) (\<lambda>output.
     Inr \<lparr> PostMkdirResponse_Output = output \<rparr>))"

record PutFileChmodResponse =
  PutFileChmodResponse_Output :: "File option"

definition decode_PutFileChmodResponse :: "json \<Rightarrow> PutFileChmodResponse result" where
  "decode_PutFileChmodResponse j =
     bindE (json_object j) (\<lambda>ms.
     bindE (pointer_field decode_File ''output'' ms) (\<lambda>output.
     Inr \<lparr> PutFileChmodResponse_Output = output \<rparr>))"

record PutFileChownRequest =
  PutFileChownRequest_Group :: "string option"
  PutFileChownRequest_Owner :: "string option"
  PutFileChownRequest_SourcePath :: string

definition decode_PutFileChownRequest :: "json \<Rightarrow> PutFileChownRequest result" where
  "decode_PutFileChownRequest j =
     bindE (json_object j) (\<lambda>ms.
     bindE (pointer_field decode_string ''group'' ms) (\<lambda>group.
     bindE (pointer_field decode_string ''owner'' ms) (\<lambda>owner.
     bindE (decode_string (json_member ''sourcePath'' ms)) (\<lambda>sourcePath.
     Inr \<lparr> PutFileChownRequest_Group = group, PutFileChownRequest_Owner = owner,
           PutFileChownRequest_SourcePath = sourcePath \<rparr>))))"

definition encode_PutFileChownRequest :: "PutFileChownRequest \<Rightarrow> json" where
  "encode_PutFileChownRequest b = JObj
     (pointer_member JStr ''group'' (PutFileChownRequest_Group b)
      @ pointer_member JStr ''owner'' (PutFileChownRequest_Owner b)
      @ [(''sourcePath'', JStr (PutFileChownRequest_SourcePath b))])"

record PutFileChownResponse =
  PutFileChownResponse_Output :: "File option"

definition decode_PutFileChownResponse :: "json \<Rightarrow> PutFileChownResponse result" where
  "decode_PutFileChownResponse j =
     bindE (json_object j) (\<lambda>ms.
     bindE (pointer_field decode_File ''output'' ms) (\<lambda>output.
     Inr \<lparr> PutFileChownResponse_Output = output \<rparr>))"

record S3DataTransfer =
  S3DataTransfer_AccessKeyId :: "string option"
  S3DataTransfer_BucketLifecycleConfiguration :: "BucketLifecycleConfiguration option"
  S3DataTransfer_Multipart :: "MultipartUpload option"
  S3DataTransfer_Name :: string
  S3DataTransfer_PrivateUrl :: "string option"
  S3DataTransfer_PublicUrl :: string
  S3DataTransfer_Region :: string
  S3DataTransfer_SecretAccessKey :: "string option"
  S3DataTransfer_ServiceType :: S3DataTransferServiceType
  S3DataTransfer_Tenant :: "string option"
  S3DataTransfer_Ttl :: int

definition decode_S3DataTransfer :: "json \<Rightarrow> S3DataTransfer result" where
  "decode_S3DataTransfer j =
     bindE (json_object j) (\<lambda>ms.
     bindE (pointer_field decode_string ''accessKeyId'' ms) (\<lambda>accessKeyId.
     bindE (pointer_field decode_BucketLifecycleConfiguration ''bucketLifecycleConfiguration'' ms) (\<lambda>bucketLifecycleConfiguration.
     bindE (pointer_field decode_MultipartUpload ''multipart'' ms) (\<lambda>multipart.
     bindE (decode_string (json_member ''name'' ms)) (\<lambda>name.
     bindE (pointer_field decode_string ''privateUrl'' ms) (\<lambda>privateUrl.
     bindE (decode_string (json_member ''publicUrl'' ms)) (\<lambda>publicUrl.
     bindE (decode_string (json_member ''region'' ms)) (\<lambda>region.
     bindE (pointer_field decode_string ''secretAccessKey'' ms) (\<lambda>secretAccessKey.
     bindE (decode_string (json_member ''serviceType'' ms)) (\<lambda>serviceType.
     bindE (pointer_field decode_string ''tenant'' ms) (\<lambda>tenant.
     bindE (decode_int (json_member ''ttl'' ms)) (\<lambda>ttl.
     Inr \<lparr> S3DataTransfer_AccessKeyId = accessKeyId,
           S3DataTransfer_BucketLifecycleConfiguration = bucketLifecycleConfiguration,
           S3DataTransfer_Multipart = multipart, S3DataTransfer_Name = name,
           S3DataTransfer_PrivateUrl = privateUrl, S3DataTransfer_PublicUrl = publicUrl,
           S3DataTransfer_Region = region, S3DataTransfer_SecretAccessKey = secretAccessKey,
           S3DataTransfer_ServiceType = serviceType, S3DataTransfer_Tenant = tenant,
           S3DataTransfer_Ttl = ttl \<rparr>))))))))))))"

definition encode_S3DataTransfer :: "S3DataTransfer \<Rightarrow> json" where
  "encode_S3DataTransfer b = JObj
     (pointer_member JStr ''accessKeyId'' (S3DataTransfer_AccessKeyId b)
      @ pointer_member encode_BucketLifecycleConfiguration ''bucketLifecycleConfiguration'' (S3DataTransfer_BucketLifecycleConfiguration b)
      @ pointer_member encode_MultipartUpload ''multipart'' (S3DataTransfer_Multipart b)
      @ [(''name'', JStr (S3DataTransfer_Name b))]
      @ pointer_member JStr ''privateUrl'' (S3DataTransfer_PrivateUrl b)
      @ [(''publicUrl'', JStr (S3DataTransfer_PublicUrl b))]
      @ [(''region'', JStr (S3DataTransfer_Region b))]
      @ pointer_member JStr ''secretAccessKey'' (S3DataTransfer_SecretAccessKey b)
      @ [(''serviceType'', JStr (S3DataTransfer_ServiceType b))]
      @ pointer_member JStr ''tenant'' (S3DataTransfer_Tenant b)
      @ [(''ttl'', encode_int (S3DataTransfer_Ttl b))])"

record S3ServiceHealth =
  S3ServiceHealth_Healthy :: "bool option"
  S3ServiceHealth_LastChecked :: "time option"
  S3ServiceHealth_Latency :: "float32 option"
  S3ServiceHealth_Message :: "string option"
  S3ServiceHealth_ServiceType :: HealthCheckType

definition decode_S3ServiceHealth :: "(string \<Rightarrow> time result) \<Rightarrow> json \<Rightarrow> S3ServiceHealth result" where
  "decode_S3ServiceHealth pt j =
     bindE (json_object j) (\<lambda>ms.
     bindE (pointer_field decode_bool ''healthy'' ms) (\<lambda>healthy.
     bindE (pointer_field (decode_time pt) ''lastChecked'' ms) (\<lambda>lastChecked.
     bindE (pointer_field decode_float ''latency'' ms) (\<lambda>latency.
     bindE (pointer_field decode_string ''message'' ms) (\<lambda>message.
     bindE (decode_string (json_member ''serviceType'' ms)) (\<lambda>serviceType.
     Inr \<lparr> S3ServiceHealth_Healthy = healthy, S3ServiceHealth_LastChecked = lastChecked,
           S3ServiceHealth_Latency = latency, S3ServiceHealth_Message = message,
           S3ServiceHealth_ServiceType = serviceType \<rparr>))))))"

record S3TransferRequest =
  S3TransferRequest_FileSize :: "int option"
  S3TransferRequest_TransferMethod :: S3TransferRequestTransferMethod

definition decode_S3TransferRequest :: "json \<Rightarrow> S3TransferRequest result" where
  "decode_S3TransferRequest j =
     bindE (json_object j) (\<lambda>ms.
     bindE (pointer_field decode_int ''fileSize'' ms) (\<lambda>fileSize.
     bindE (decode_string (json_member ''transferMethod'' ms)) (\<lambda>transferMethod.
     Inr \<lparr> S3TransferRequest_FileSize = fileSize,
           S3TransferRequest_TransferMethod = transferMethod \<rparr>)))"

definition encode_S3TransferRequest :: "S3TransferRequest \<Rightarrow> json" where
  "encode_S3TransferRequest b = JObj
     (pointer_member encode_int ''fileSize'' (S3TransferRequest_FileSize b)
      @ [(''transferMethod'', JStr (S3TransferRequest_TransferMethod b))])"

record S3TransferResponse =
  S3TransferResponse_CompleteUploadUrl :: "string option"
  S3TransferResponse_DownloadUrl :: "string option"
  S3TransferResponse_MaxPartSize :: "int option"
  S3TransferResponse_PartsUploadUrls :: "string list option"
  S3TransferResponse_TransferMethod :: S3TransferResponseTransferMethod

definition decode_S3TransferResponse :: "json \<Rightarrow> S3TransferResponse result" where
  "decode_S3TransferResponse j =
     bindE (json_object j) (\<lambda>ms.
     bindE (pointer_field decode_string ''completeUploadUrl'' ms) (\<lambda>completeUploadUrl.
     bindE (pointer_field decode_string ''downloadUrl'' ms) (\<lambda>downloadUrl.
     bindE (pointer_field decode_int ''maxPartSize'' ms) (\<lambda>maxPartSize.
     bindE (pointer_field (decode_list decode_string) ''partsUploadUrls'' ms) (\<lambda>partsUploadUrls.
     bindE (decode_string (json_member ''transferMethod'' ms)) (\<lambda>transferMethod.
     Inr \<lparr> S3TransferResponse_CompleteUploadUrl = completeUploadUrl,
           S3TransferResponse_DownloadUrl = downloadUrl,
           S3TransferResponse_MaxPartSize = maxPartSize,
           S3TransferResponse_PartsUploadUrls = partsUploadUrls,
           S3TransferResponse_TransferMethod = transferMethod \<rparr>))))))"

definition encode_S3TransferResponse :: "S3TransferResponse \<Rightarrow> json" where
  "encode_S3TransferResponse b = JObj
     (pointer_member JStr ''completeUploadUrl'' (S3TransferResponse_CompleteUploadUrl b)
      @ pointer_member JStr ''downloadUrl'' (S3TransferResponse_DownloadUrl b)
      @ pointer_member encode_int ''maxPartSize'' (S3TransferResponse_MaxPartSize b)
      @ pointer_member (\<lambda>xs. JArr (map JStr xs)) ''partsUploadUrls'' (S3TransferResponse_PartsUploadUrls b)
      @ [(''transferMethod'', JStr (S3TransferResponse_TransferMethod b))])"

record SSHServiceHealth =
  SSHServiceHealth_Healthy :: "bool option"
  SSHServiceHealth_LastChecked :: "time option"
  SSHServiceHealth_Latency :: "float32 option"
  SSHServiceHealth_Message :: "string option"
  SSHServiceHealth_ServiceType :: HealthCheckType

definition decode_SSHServiceHealth :: "(string \<Rightarrow> time result) \<Rightarrow> json \<Rightarrow> SSHServiceHealth result" where
  "decode_SSHServiceHealth pt j =
     bindE (json_object j) (\<lambda>ms.
     bindE (pointer_field decode_bool ''healthy'' ms) (\<lambda>healthy.
     bindE (pointer_field (decode_time pt) ''lastChecked'' ms) (\<lambda>lastChecked.
     bindE (pointer_field decode_float ''latency'' ms) (\<lambda>latency.
     bindE (pointer_field decode_string ''message'' ms) (\<lambda>message.
     bindE (decode_string (json_member ''serviceType'' ms)) (\<lambda>serviceType.
     Inr \<lparr> SSHServiceHealth_Healthy = healthy, SSHServiceHealth_LastChecked = lastChecked,
           SSHServiceHealth_Latency = latency, SSHServiceHealth_Message = message,
           SSHServiceHealth_ServiceType = serviceType \<rparr>))))))"

record SchedulerServiceHealth =
  SchedulerServiceHealth_Healthy :: "bool option"
  SchedulerServiceHealth_LastChecked :: "time option"
  SchedulerServiceHealth_Latency :: "float32 option"
  SchedulerServiceHealth_Message :: "string option"
  SchedulerServiceHealth_ServiceType :: HealthCheckType

definition decode_SchedulerServiceHealth :: "(string \<Rightarrow> time result) \<Rightarrow> json \<Rightarrow> SchedulerServiceHealth result" where
  "decode_SchedulerServiceHealth pt j =
     bindE (json_object j) (\<lambda>ms.
     bindE (pointer_field decode_bool ''healthy'' ms) (\<lambda>healthy.
     bindE (pointer_field (decode_time pt) ''lastChecked'' ms) (\<lambda>lastChecked.
     bindE (pointer_field decode_float ''latency'' ms) (\<lambda>latency.
     bindE (pointer_field decode_string ''message'' ms) (\<lambda>message.
     bindE (decode_string (json_member ''serviceType'' ms)) (\<lambda>serviceType.
     Inr \<lparr> SchedulerServiceHealth_Healthy = healthy,
           SchedulerServiceHealth_LastChecked = lastChecked,
           SchedulerServiceHealth_Latency = latency, SchedulerServiceHealth_Message = message,
           SchedulerServiceHealth_ServiceType = serviceType \<rparr>))))))"

record StreamerDataTransfer =
  StreamerDataTransfer_Host :: "string option"
  StreamerDataTransfer_InboundTransferLimit :: "int option"
  StreamerDataTransfer_PortRange :: "json list option"
  StreamerDataTransfer_PublicIps :: "string list option"
  StreamerDataTransfer_PypiIndexUrl :: "string option"
  StreamerDataTransfer_ServiceType :: StreamerDataTransferServiceType
  StreamerDataTransfer_WaitTimeout :: "int option"

definition decode_StreamerDataTransfer :: "json \<Rightarrow> StreamerDataTransfer result" where
  "decode_StreamerDataTransfer j =
     bindE (json_object j) (\<lambda>ms.
     bindE (pointer_field decode_string ''host'' ms) (\<lambda>host.
     bindE (pointer_field decode_int ''inboundTransferLimit'' ms) (\<lambda>inboundTransferLimit.
     bindE (pointer_field (decode_list decode_any) ''portRange'' ms) (\<lambda>portRange.
     bindE (pointer_field (decode_list decode_string) ''publicIps'' ms) (\<lambda>publicIps.
     bindE (pointer_field decode_string ''pypiIndexUrl'' ms) (\<lambda>pypiIndexUrl.
     bindE (decode_string (json_member ''serviceType'' ms)) (\<lambda>serviceType.
     bindE (pointer_field decode_int ''waitTimeout'' ms) (\<lambda>waitTimeout.
     Inr \<lparr> StreamerDataTransfer_Host = host,
           StreamerDataTransfer_InboundTransferLimit = inboundTransferLimit,
           StreamerDataTransfer_PortRange = portRange, StreamerDataTransfer_PublicIps = publicIps,
           StreamerDataTransfer_PypiIndexUrl = pypiIndexUrl,
           StreamerDataTransfer_ServiceType = serviceType,
           StreamerDataTransfer_WaitTimeout = waitTimeout \<rparr>))))))))"

definition encode_StreamerDataTransfer :: "StreamerDataTransfer \<Rightarrow> json" where
  "encode_StreamerDataTransfer b = JObj
     (pointer_member JStr ''host'' (StreamerDataTransfer_Host b)
      @ pointer_member encode_int ''inboundTransferLimit'' (StreamerDataTransfer_InboundTransferLimit b)
      @ pointer_member JArr ''portRange'' (StreamerDataTransfer_PortRange b)
      @ pointer_member (\<lambda>xs. JArr (map JStr xs)) ''publicIps'' (StreamerDataTransfer_PublicIps b)
      @ pointer_member JStr ''pypiIndexUrl'' (StreamerDataTransfer_PypiIndexUrl b)
      @ [(''serviceType'', JStr (StreamerDataTransfer_ServiceType b))]
      @ pointer_member encode_int ''waitTimeout'' (StreamerDataTransfer_WaitTimeout b))"

record StreamerTransferRequest =
  StreamerTransferRequest_TransferMethod :: StreamerTransferRequestTransferMethod

definition decode_StreamerTransferRequest :: "json \<Rightarrow> StreamerTransferRequest result" where
  "decode_StreamerTransferRequest j =
     bindE (json_object j) (\<lambda>ms.
     bindE (decode_string (json_member ''transferMethod'' ms)) (\<lambda>transferMethod.
     Inr \<lparr> StreamerTransferRequest_TransferMethod = transferMethod \<rparr>))"

definition encode_StreamerTransferRequest :: "StreamerTransferRequest \<Rightarrow> json" where
  "encode_StreamerTransferRequest b = JObj
     ([(''transferMethod'', JStr (StreamerTransferRequest_TransferMethod b))])"

record StreamerTransferResponse =
  StreamerTransferResponse_Coordinates :: "string option"
  StreamerTransferResponse_TransferMethod :: StreamerTransferResponseTransferMethod

definition decode_StreamerTransferResponse :: "json \<Rightarrow> StreamerTransferResponse result" where
  "decode_StreamerTransferResponse j =
     bindE (json_object j) (\<lambda>ms.
     bindE (pointer_field decode_string ''coordinates'' ms) (\<lambda>coordinates.
     bindE (decode_string (json_member ''transferMethod'' ms)) (\<lambda>transferMethod.
     Inr \<lparr> StreamerTransferResponse_Coordinates = coordinates,
           StreamerTransferResponse_TransferMethod = transferMethod \<rparr>)))"

definition encode_StreamerTransferResponse :: "StreamerTransferResponse \<Rightarrow> json" where
  "encode_StreamerTransferResponse b = JObj
     (pointer_member JStr ''coordinates'' (StreamerTransferResponse_Coordinates b)
      @ [(''transferMethod'', JStr (StreamerTransferResponse_TransferMethod b))])"

record UploadFileResponse =
  UploadFileResponse_TransferDirectives :: raw_message
  UploadFileResponse_TransferJob :: TransferJob

definition decode_UploadFileResponse :: "json \<Rightarrow> UploadFileResponse result" where
  "decode_UploadFileResponse j =
     bindE (json_object j) (\<lambda>ms.
     bindE (Inr (json_lookup ''transferDirectives'' ms)) (\<lambda>transferDirectives.
     bindE (decode_TransferJob (json_member ''transferJob'' ms)) (\<lambda>transferJob.
     Inr \<lparr> UploadFileResponse_TransferDirectives = transferDirectives,
           UploadFileResponse_TransferJob = transferJob \<rparr>)))"

record UserInfoResponse =
  UserInfoResponse_Group :: PosixIdentified
  UserInfoResponse_Groups :: "PosixIdentified list"
  UserInfoResponse_User :: PosixIdentified

definition decode_UserInfoResponse :: "json \<Rightarrow> UserInfoResponse result" where
  "decode_UserInfoResponse j =
     bindE (json_object j) (\<lambda>ms.
     bindE (decode_PosixIdentified (json_member ''group'' ms)) (\<lambda>group.
     bindE (decode_list decode_PosixIdentified (json_member ''groups'' ms)) (\<lambda>groups.
     bindE (decode_PosixIdentified (json_member ''user'' ms)) (\<lambda>user.
     Inr \<lparr> UserInfoResponse_Group = group, UserInfoResponse_Groups = groups,
           UserInfoResponse_User = user \<rparr>))))"

record WormholeDataTransfer =
  WormholeDataTransfer_PypiIndexUrl :: "string option"
  WormholeDataTransfer_ServiceType :: WormholeDataTransferServiceType

definition decode_WormholeDataTransfer :: "json \<Rightarrow> WormholeDataTransfer result" where
  "decode_WormholeDataTransfer j =
     bindE (json_object j) (\<lambda>ms.
     bindE (pointer_field decode_string ''pypiIndexUrl'' ms) (\<lambda>pypiIndexUrl.
     bindE (decode_string (json_member ''serviceType'' ms)) (\<lambda>serviceType.
     Inr \<lparr> WormholeDataTransfer_PypiIndexUrl = pypiIndexUrl,
           WormholeDataTransfer_ServiceType = serviceType \<rparr>)))"

definition encode_WormholeDataTransfer :: "WormholeDataTransfer \<Rightarrow> json" where
  "encode_WormholeDataTransfer b = JObj
     (pointer_member JStr ''pypiIndexUrl'' (WormholeDataTransfer_PypiIndexUrl b)
      @ [(''serviceType'', JStr (WormholeDataTransfer_ServiceType b))])"

record WormholeTransferRequest =
  WormholeTransferRequest_TransferMethod :: WormholeTransferRequestTransferMethod

definition decode_WormholeTransferRequest :: "json \<Rightarrow> WormholeTransferRequest result" where
  "decode_WormholeTransferRequest j =
     bindE (json_object j) (\<lambda>ms.
     bindE (decode_string (json_member ''transferMethod'' ms)) (\<lambda>transferMethod.
     Inr \<lparr> WormholeTransferRequest_TransferMethod = transferMethod \<rparr>))"

definition encode_WormholeTransferRequest :: "WormholeTransferRequest \<Rightarrow> json" where
  "encode_WormholeTransferRequest b = JObj
     ([(''transferMethod'', JStr (WormholeTransferRequest_TransferMethod b))])"

record WormholeTransferResponse =
  WormholeTransferResponse_TransferMethod :: WormholeTransferResponseTransferMethod
  WormholeTransferResponse_WormholeCode :: "string option"

definition decode_WormholeTransferResponse :: "json \<Rightarrow> WormholeTransferResponse result" where
  "decode_WormholeTransferResponse j =
     bindE (json_object j) (\<lambda>ms.
     bindE (decode_string (json_member ''transferMethod'' ms)) (\<lambda>transferMethod.
     bindE (pointer_field decode_string ''wormholeCode'' ms) (\<lambda>wormholeCode.
     Inr \<lparr> WormholeTransferResponse_TransferMethod = transferMethod,
           WormholeTransferResponse_WormholeCode = wormholeCode \<rparr>)))"

definition encode_WormholeTransferResponse :: "WormholeTransferResponse \<Rightarrow> json" where
  "encode_WormholeTransferResponse b = JObj
     ([(''transferMethod'', JStr (WormholeTransferResponse_TransferMethod b))]
      @ pointer_member JStr ''wormholeCode'' (WormholeTransferResponse_WormholeCode b))"

record WormholeTransferUploadRequest =
  WormholeTransferUploadRequest_TransferMethod :: WormholeTransferUploadRequestTransferMethod
  WormholeTransferUploadRequest_WormholeCode :: string

definition decode_WormholeTransferUploadRequest :: "json \<Rightarrow> WormholeTransferUploadRequest result" where
  "decode_WormholeTransferUploadRequest j =
     bindE (json_object j) (\<lambda>ms.
     bindE (decode_string (json_member ''transferMethod'' ms)) (\<lambda>transferMethod.
     bindE (decode_string (json_member ''wormholeCode'' ms)) (\<lambda>wormholeCode.
     Inr \<lparr> WormholeTransferUploadRequest_TransferMethod = transferMethod,
           WormholeTransferUploadRequest_WormholeCode = wormholeCode \<rparr>)))"

definition encode_WormholeTransferUploadRequest :: "WormholeTransferUploadRequest \<Rightarrow> json" where
  "encode_WormholeTransferUploadRequest b = JObj
     ([(''transferMethod'', JStr (WormholeTransferUploadRequest_TransferMethod b))]
      @ [(''wormholeCode'', JStr (WormholeTransferUploadRequest_WormholeCode b))])"

end
