(* ===== verification/Firecrest_Client.thy ===== *)
theory Firecrest_Client
  imports Remote_Auth Firecrest_Types
begin

text \<open>
  The client of the FirecREST API: \<^verbatim>\<open>src/internal/remote/firecrest/firecrest.go\<close> and, of the
  generated file \<^verbatim>\<open>firecrest_gen.go\<close>, the client and the ten operations that the session
  controller calls.

  The type \<open>'s\<close> of the world includes the state of the authentication, which the request
  editors change. Styling of parameters (a third-party package) and the reader of timestamps are
  parameters. Of a reply the operations here give the controller what it reads.
\<close>

section \<open>What is read of the replies\<close>

text \<open>
  The decoders into the generated types, followed by the fields that are read: the systems; the name of the user; the identifier of a submitted
  job; the states of the jobs; the metadata of the jobs; the text of a file.
\<close>

record api_decoders =
  dec_Systems :: "string \<Rightarrow> HPCCluster list result"
  dec_UserInfo :: "string \<Rightarrow> string result"
  dec_Mkdir :: "string \<Rightarrow> unit result"
  dec_Chmod :: "string \<Rightarrow> unit result"
  dec_JobSubmission :: "string \<Rightarrow> string option result"
  dec_Job :: "string \<Rightarrow> string list option result"
  dec_JobMetadata :: "string \<Rightarrow> JobMetadataModel list option result"
  dec_ViewFile :: "string \<Rightarrow> string option result"
  dec_Error :: "string \<Rightarrow> ApiResponseError result"
  dec_Time :: "string \<Rightarrow> time result"

definition firecrest_decoders :: "(string \<Rightarrow> time result) \<Rightarrow> api_decoders" where
  "firecrest_decoders pt = \<lparr>
     dec_Systems = (\<lambda>b. bindE (unmarshal (decode_GetSystemsResponse pt) b) (\<lambda>r. Inr (GetSystemsResponse_Systems r))),
     dec_UserInfo = (\<lambda>b. bindE (unmarshal decode_UserInfoResponse b) (\<lambda>r.
       Inr (PosixIdentified_Name (UserInfoResponse_User r)))),
     dec_Mkdir = (\<lambda>b. bindE (unmarshal decode_PostMkdirResponse b) (\<lambda>_. Inr ())),
     dec_Chmod = (\<lambda>b. bindE (unmarshal decode_PutFileChmodResponse b) (\<lambda>_. Inr ())),
     dec_JobSubmission = (\<lambda>b. bindE (unmarshal decode_PostJobSubmissionResponse b) (\<lambda>r.
       Inr (PostJobSubmissionResponse_JobId r))),
     dec_Job = (\<lambda>b. bindE (unmarshal decode_GetJobResponse b) (\<lambda>r.
       Inr (map_option (map (\<lambda>j. JobStatus_State (JobModel_Status j))) (GetJobResponse_Jobs r)))),
     dec_JobMetadata = (\<lambda>b. bindE (unmarshal decode_GetJobMetadataResponse b) (\<lambda>r.
       Inr (GetJobMetadataResponse_Jobs r))),
     dec_ViewFile = (\<lambda>b. bindE (unmarshal decode_GetViewFileResponse b) (\<lambda>r.
       Inr (GetViewFileResponse_Output r))),
     dec_Error = unmarshal decode_ApiResponseError,
     dec_Time = pt \<rparr>"

section \<open>The client\<close>

datatype param = PString string | PInt int | PBool bool

record api_runtime =
  rt_StyleParam :: "string \<Rightarrow> bool \<Rightarrow> string \<Rightarrow> param \<Rightarrow> string result"
  rt_parseAuthority :: authority_parser
  rt_unmarshalTime :: "string \<Rightarrow> time result"

record 's Client =
  cl_Server :: string
  cl_Do :: "http_request \<Rightarrow> ('s, http_reply) action"
  cl_RequestEditors :: "(http_request \<Rightarrow> ('s, http_request) action) list"
  cl_runtime :: api_runtime

definition NewClient ::
  "api_runtime \<Rightarrow> (http_request \<Rightarrow> ('s, http_reply) action)
   \<Rightarrow> (http_request \<Rightarrow> ('s, http_request) action) list \<Rightarrow> string \<Rightarrow> 's Client" where
  "NewClient rt doer editors server =
     \<lparr> cl_Server = (if HasSuffix server ''/'' then server else server @ ''/''),
       cl_Do = doer, cl_RequestEditors = editors, cl_runtime = rt \<rparr>"

text \<open>The extra request editors, which no caller sets, come before the one of the authentication.\<close>

definition NewFirecrestClient ::
  "api_runtime \<Rightarrow> (http_request \<Rightarrow> ('s, http_reply) action) \<Rightarrow> ('s, string) action option
   \<Rightarrow> url \<Rightarrow> 's Client" where
  "NewFirecrestClient rt doer fcAuth apiURL =
     NewClient rt doer
       (case fcAuth of None \<Rightarrow> [] | Some get \<Rightarrow> [RequestEditorInjectAccessToken get])
       (url_String apiURL)"

fun applyEditors ::
  "(http_request \<Rightarrow> ('s, http_request) action) list \<Rightarrow> http_request \<Rightarrow> ('s, http_request) action" where
  "applyEditors [] req = returnA req"
| "applyEditors (r # rs) req = bindA (r req) (applyEditors rs)"

text \<open>What every method of the client does with its request.\<close>

definition client_send :: "'s Client \<Rightarrow> http_request result \<Rightarrow> ('s, http_reply) action" where
  "client_send c req =
     (case req of
        Inl e \<Rightarrow> failA e
      | Inr req \<Rightarrow> bindA (applyEditors (cl_RequestEditors c) req) (cl_Do c))"

section \<open>Requests\<close>

definition operation_url :: "'s Client \<Rightarrow> string \<Rightarrow> url result" where
  "operation_url c operationPath =
     bindE (url_Parse (rt_parseAuthority (cl_runtime c)) (cl_Server c)) (\<lambda>serverURL.
       url_ParseRef (rt_parseAuthority (cl_runtime c)) serverURL
         (if HasPrefix operationPath ''/'' then ''.'' @ operationPath else operationPath))"

definition path_param :: "'s Client \<Rightarrow> string \<Rightarrow> string \<Rightarrow> string result" where
  "path_param c name v = rt_StyleParam (cl_runtime c) ''simple'' False name (PString v)"

definition query_param :: "'s Client \<Rightarrow> string \<Rightarrow> param \<Rightarrow> string result" where
  "query_param c name v = rt_StyleParam (cl_runtime c) ''form'' True name v"

text \<open>
  The fragments of the query; splitting each at \<^verbatim>\<open>&\<close> and joining all of them again is
  joining them.
\<close>

definition set_query :: "url \<Rightarrow> string list \<Rightarrow> url" where
  "set_query u frags =
     (let encoded = Values_Encode (url_Query u) in
      u\<lparr> u_RawQuery := str_Join (frags @ (if encoded \<noteq> [] then [encoded] else [])) ''&'' \<rparr>)"

definition new_request :: "'s Client \<Rightarrow> string \<Rightarrow> url \<Rightarrow> string \<Rightarrow> http_request result" where
  "new_request c meth u body = http_NewRequest (rt_parseAuthority (cl_runtime c)) meth (url_String u) body"

definition NewGetSystemsStatusSystemsGetRequest :: "'s Client \<Rightarrow> http_request result" where
  "NewGetSystemsStatusSystemsGetRequest c =
     bindE (operation_url c ''/status/systems'') (\<lambda>queryURL.
     new_request c ''GET'' queryURL [])"

definition NewGetUserinfoStatusSystemNameUserinfoGetRequest ::
  "'s Client \<Rightarrow> string \<Rightarrow> http_request result" where
  "NewGetUserinfoStatusSystemNameUserinfoGetRequest c systemName =
     bindE (path_param c ''system_name'' systemName) (\<lambda>p0.
     bindE (operation_url c (''/status/'' @ p0 @ ''/userinfo'')) (\<lambda>queryURL.
     new_request c ''GET'' queryURL []))"

definition NewPostUploadFilesystemSystemNameOpsUploadPostRequestWithBody ::
  "'s Client \<Rightarrow> string \<Rightarrow> string \<Rightarrow> string \<Rightarrow> string \<Rightarrow> http_request result" where
  "NewPostUploadFilesystemSystemNameOpsUploadPostRequestWithBody c systemName params_Path contentType body =
     bindE (path_param c ''system_name'' systemName) (\<lambda>p0.
     bindE (operation_url c (''/filesystem/'' @ p0 @ ''/ops/upload'')) (\<lambda>queryURL.
     bindE (query_param c ''path'' (PString params_Path)) (\<lambda>frag.
     bindE (new_request c ''POST'' (set_query queryURL [frag]) body) (\<lambda>req.
     Inr (Header_Set ''Content-Type'' contentType req)))))"

definition NewPostMkdirFilesystemSystemNameOpsMkdirPostRequestWithBody ::
  "'s Client \<Rightarrow> string \<Rightarrow> string \<Rightarrow> string \<Rightarrow> http_request result" where
  "NewPostMkdirFilesystemSystemNameOpsMkdirPostRequestWithBody c systemName contentType body =
     bindE (path_param c ''system_name'' systemName) (\<lambda>p0.
     bindE (operation_url c (''/filesystem/'' @ p0 @ ''/ops/mkdir'')) (\<lambda>queryURL.
     bindE (new_request c ''POST'' queryURL body) (\<lambda>req.
     Inr (Header_Set ''Content-Type'' contentType req))))"

definition NewPutChmodFilesystemSystemNameOpsChmodPutRequestWithBody ::
  "'s Client \<Rightarrow> string \<Rightarrow> string \<Rightarrow> string \<Rightarrow> http_request result" where
  "NewPutChmodFilesystemSystemNameOpsChmodPutRequestWithBody c systemName contentType body =
     bindE (path_param c ''system_name'' systemName) (\<lambda>p0.
     bindE (operation_url c (''/filesystem/'' @ p0 @ ''/ops/chmod'')) (\<lambda>queryURL.
     bindE (new_request c ''PUT'' queryURL body) (\<lambda>req.
     Inr (Header_Set ''Content-Type'' contentType req))))"

definition NewPostJobSubmitComputeSystemNameJobsPostRequestWithBody ::
  "'s Client \<Rightarrow> string \<Rightarrow> string \<Rightarrow> string \<Rightarrow> http_request result" where
  "NewPostJobSubmitComputeSystemNameJobsPostRequestWithBody c systemName contentType body =
     bindE (path_param c ''system_name'' systemName) (\<lambda>p0.
     bindE (operation_url c (''/compute/'' @ p0 @ ''/jobs'')) (\<lambda>queryURL.
     bindE (new_request c ''POST'' queryURL body) (\<lambda>req.
     Inr (Header_Set ''Content-Type'' contentType req))))"

definition NewGetJobComputeSystemNameJobsJobIdGetRequest ::
  "'s Client \<Rightarrow> string \<Rightarrow> string \<Rightarrow> http_request result" where
  "NewGetJobComputeSystemNameJobsJobIdGetRequest c systemName jobId =
     bindE (path_param c ''system_name'' systemName) (\<lambda>p0.
     bindE (path_param c ''job_id'' jobId) (\<lambda>p1.
     bindE (operation_url c (''/compute/'' @ p0 @ ''/jobs/'' @ p1)) (\<lambda>queryURL.
     new_request c ''GET'' queryURL [])))"

definition NewGetJobMetadataComputeSystemNameJobsJobIdMetadataGetRequest ::
  "'s Client \<Rightarrow> string \<Rightarrow> string \<Rightarrow> http_request result" where
  "NewGetJobMetadataComputeSystemNameJobsJobIdMetadataGetRequest c systemName jobId =
     bindE (path_param c ''system_name'' systemName) (\<lambda>p0.
     bindE (path_param c ''job_id'' jobId) (\<lambda>p1.
     bindE (operation_url c (''/compute/'' @ p0 @ ''/jobs/'' @ p1 @ ''/metadata'')) (\<lambda>queryURL.
     new_request c ''GET'' queryURL [])))"

definition NewDeleteJobCancelComputeSystemNameJobsJobIdDeleteRequest ::
  "'s Client \<Rightarrow> string \<Rightarrow> string \<Rightarrow> http_request result" where
  "NewDeleteJobCancelComputeSystemNameJobsJobIdDeleteRequest c systemName jobId =
     bindE (path_param c ''system_name'' systemName) (\<lambda>p0.
     bindE (path_param c ''job_id'' jobId) (\<lambda>p1.
     bindE (operation_url c (''/compute/'' @ p0 @ ''/jobs/'' @ p1)) (\<lambda>queryURL.
     new_request c ''DELETE'' queryURL [])))"

record GetViewFilesystemSystemNameOpsViewGetParams =
  gv_Path :: string
  gv_Size :: "int option"
  gv_Offset :: "int option"

definition optional_query :: "'s Client \<Rightarrow> string \<Rightarrow> int option \<Rightarrow> string list result" where
  "optional_query c name v =
     (case v of None \<Rightarrow> Inr [] | Some n \<Rightarrow> bindE (query_param c name (PInt n)) (\<lambda>f. Inr [f]))"

definition NewGetViewFilesystemSystemNameOpsViewGetRequest ::
  "'s Client \<Rightarrow> string \<Rightarrow> GetViewFilesystemSystemNameOpsViewGetParams \<Rightarrow> http_request result" where
  "NewGetViewFilesystemSystemNameOpsViewGetRequest c systemName params =
     bindE (path_param c ''system_name'' systemName) (\<lambda>p0.
     bindE (operation_url c (''/filesystem/'' @ p0 @ ''/ops/view'')) (\<lambda>queryURL.
     bindE (query_param c ''path'' (PString (gv_Path params))) (\<lambda>path.
     bindE (optional_query c ''size'' (gv_Size params)) (\<lambda>size.
     bindE (optional_query c ''offset'' (gv_Offset params)) (\<lambda>offset.
     new_request c ''GET'' (set_query queryURL ([path] @ size @ offset)) [])))))"

section \<open>Bodies\<close>

record PostMakeDirRequest =
  md_Parent :: "bool option"
  md_SourcePath :: string

definition encode_PostMakeDirRequest :: "PostMakeDirRequest \<Rightarrow> json" where
  "encode_PostMakeDirRequest b =
     JObj ((case md_Parent b of None \<Rightarrow> [] | Some p \<Rightarrow> [(''parent'', JBool p)])
       @ [(''sourcePath'', JStr (md_SourcePath b))])"

record PutFileChmodRequest =
  cm_Mode :: string
  cm_SourcePath :: string

definition encode_PutFileChmodRequest :: "PutFileChmodRequest \<Rightarrow> json" where
  "encode_PutFileChmodRequest b =
     JObj [(''mode'', JStr (cm_Mode b)), (''sourcePath'', JStr (cm_SourcePath b))]"

text \<open>
  The environment of a job is a map; \<^verbatim>\<open>json.Marshal\<close> writes its keys in order, so a list
  sorted by key stands for it.
\<close>

type_synonym job_env = "(string \<times> string) list"

definition FromJobDescriptionModelEnv0 :: "job_env \<Rightarrow> json" where
  "FromJobDescriptionModelEnv0 env = JObj (map (\<lambda>(k, v). (k, JStr v)) env)"

record JobDescriptionModel =
  jd_Account :: "string option"
  jd_Constraints :: "string option"
  jd_Env :: "json option"
  jd_Name :: "string option"
  jd_Script :: "string option"
  jd_ScriptPath :: "string option"
  jd_StandardError :: "string option"
  jd_StandardInput :: "string option"
  jd_StandardOutput :: "string option"
  jd_WorkingDirectory :: string

definition optional_member :: "string \<Rightarrow> string option \<Rightarrow> (string \<times> json) list" where
  "optional_member k v = (case v of None \<Rightarrow> [] | Some s \<Rightarrow> [(k, JStr s)])"

definition encode_JobDescriptionModel :: "JobDescriptionModel \<Rightarrow> json" where
  "encode_JobDescriptionModel j = JObj
     (optional_member ''account'' (jd_Account j)
      @ optional_member ''constraints'' (jd_Constraints j)
      @ (case jd_Env j of None \<Rightarrow> [] | Some e \<Rightarrow> [(''env'', e)])
      @ optional_member ''name'' (jd_Name j)
      @ optional_member ''script'' (jd_Script j)
      @ optional_member ''scriptPath'' (jd_ScriptPath j)
      @ optional_member ''standardError'' (jd_StandardError j)
      @ optional_member ''standardInput'' (jd_StandardInput j)
      @ optional_member ''standardOutput'' (jd_StandardOutput j)
      @ [(''workingDirectory'', JStr (jd_WorkingDirectory j))])"

definition encode_PostJobSubmitRequest :: "JobDescriptionModel \<Rightarrow> json" where
  "encode_PostJobSubmitRequest j = JObj [(''job'', encode_JobDescriptionModel j)]"

definition NewPostMkdirFilesystemSystemNameOpsMkdirPostRequest ::
  "'s Client \<Rightarrow> string \<Rightarrow> PostMakeDirRequest \<Rightarrow> http_request result" where
  "NewPostMkdirFilesystemSystemNameOpsMkdirPostRequest c systemName body =
     NewPostMkdirFilesystemSystemNameOpsMkdirPostRequestWithBody c systemName ''application/json''
       (json_Marshal (encode_PostMakeDirRequest body))"

definition NewPutChmodFilesystemSystemNameOpsChmodPutRequest ::
  "'s Client \<Rightarrow> string \<Rightarrow> PutFileChmodRequest \<Rightarrow> http_request result" where
  "NewPutChmodFilesystemSystemNameOpsChmodPutRequest c systemName body =
     NewPutChmodFilesystemSystemNameOpsChmodPutRequestWithBody c systemName ''application/json''
       (json_Marshal (encode_PutFileChmodRequest body))"

definition NewPostJobSubmitComputeSystemNameJobsPostRequest ::
  "'s Client \<Rightarrow> string \<Rightarrow> JobDescriptionModel \<Rightarrow> http_request result" where
  "NewPostJobSubmitComputeSystemNameJobsPostRequest c systemName body =
     NewPostJobSubmitComputeSystemNameJobsPostRequestWithBody c systemName ''application/json''
       (json_Marshal (encode_PostJobSubmitRequest body))"

section \<open>Replies\<close>

record 'a op_response =
  or_StatusCode :: int
  or_JSON :: "'a option"
  or_JSON4XX :: "ApiResponseError option"
  or_JSON5XX :: "ApiResponseError option"

text \<open>
  The parsers of the replies differ in the status code of success and its type; a code
  without a type (204, or the cancellation) leaves the payload nil.
\<close>

definition parse_reply ::
  "api_decoders \<Rightarrow> int \<Rightarrow> (string \<Rightarrow> 'a result) option \<Rightarrow> http_reply \<Rightarrow> 'a op_response result" where
  "parse_reply d code decode rsp =
     bindE (rp_Body rsp) (\<lambda>bodyBytes.
       let is_json = str_Contains (rp_ContentType rsp) ''json''; n = rp_StatusCode rsp;
           response = \<lparr> or_StatusCode = n, or_JSON = None, or_JSON4XX = None, or_JSON5XX = None \<rparr>
       in case decode of
            Some dec \<Rightarrow>
              if is_json \<and> n = code
              then bindE (dec bodyBytes) (\<lambda>dest. Inr (response\<lparr> or_JSON := Some dest \<rparr>))
              else if is_json \<and> go_quo n 100 = 4
              then bindE (dec_Error d bodyBytes) (\<lambda>dest. Inr (response\<lparr> or_JSON4XX := Some dest \<rparr>))
              else if is_json \<and> go_quo n 100 = 5
              then bindE (dec_Error d bodyBytes) (\<lambda>dest. Inr (response\<lparr> or_JSON5XX := Some dest \<rparr>))
              else Inr response
          | None \<Rightarrow>
              if n = code then Inr response
              else if is_json \<and> go_quo n 100 = 4
              then bindE (dec_Error d bodyBytes) (\<lambda>dest. Inr (response\<lparr> or_JSON4XX := Some dest \<rparr>))
              else if is_json \<and> go_quo n 100 = 5
              then bindE (dec_Error d bodyBytes) (\<lambda>dest. Inr (response\<lparr> or_JSON5XX := Some dest \<rparr>))
              else Inr response)"

definition with_response ::
  "(api_decoders \<Rightarrow> http_reply \<Rightarrow> 'a op_response result) \<Rightarrow> 's Client \<Rightarrow> ('s, http_reply) action
   \<Rightarrow> ('s, 'a op_response) action" where
  "with_response parse c m = bindA m (\<lambda>rsp w. (w, parse (firecrest_decoders (rt_unmarshalTime (cl_runtime c))) rsp))"

section \<open>Operations\<close>

definition GetSystemsStatusSystemsGet ::
  "'s Client \<Rightarrow> ('s, http_reply) action" where
  "GetSystemsStatusSystemsGet c =
     client_send c (NewGetSystemsStatusSystemsGetRequest c)"

definition ParseGetSystemsStatusSystemsGetResponse ::
  "api_decoders \<Rightarrow> http_reply \<Rightarrow> HPCCluster list op_response result" where
  "ParseGetSystemsStatusSystemsGetResponse d = parse_reply d 200 (Some (dec_Systems d))"

definition GetSystemsStatusSystemsGetWithResponse ::
  "'s Client \<Rightarrow> ('s, HPCCluster list op_response) action" where
  "GetSystemsStatusSystemsGetWithResponse c =
     with_response ParseGetSystemsStatusSystemsGetResponse c
       (GetSystemsStatusSystemsGet c)"

definition GetUserinfoStatusSystemNameUserinfoGet ::
  "'s Client \<Rightarrow> string \<Rightarrow> ('s, http_reply) action" where
  "GetUserinfoStatusSystemNameUserinfoGet c systemName =
     client_send c (NewGetUserinfoStatusSystemNameUserinfoGetRequest c systemName)"

definition ParseGetUserinfoStatusSystemNameUserinfoGetResponse ::
  "api_decoders \<Rightarrow> http_reply \<Rightarrow> string op_response result" where
  "ParseGetUserinfoStatusSystemNameUserinfoGetResponse d = parse_reply d 200 (Some (dec_UserInfo d))"

definition GetUserinfoStatusSystemNameUserinfoGetWithResponse ::
  "'s Client \<Rightarrow> string \<Rightarrow> ('s, string op_response) action" where
  "GetUserinfoStatusSystemNameUserinfoGetWithResponse c systemName =
     with_response ParseGetUserinfoStatusSystemNameUserinfoGetResponse c
       (GetUserinfoStatusSystemNameUserinfoGet c systemName)"

definition PostUploadFilesystemSystemNameOpsUploadPostWithBody ::
  "'s Client \<Rightarrow> string \<Rightarrow> string \<Rightarrow> string \<Rightarrow> string \<Rightarrow> ('s, http_reply) action" where
  "PostUploadFilesystemSystemNameOpsUploadPostWithBody c systemName params_Path contentType body =
     client_send c (NewPostUploadFilesystemSystemNameOpsUploadPostRequestWithBody c systemName params_Path contentType body)"

definition ParsePostUploadFilesystemSystemNameOpsUploadPostResponse ::
  "api_decoders \<Rightarrow> http_reply \<Rightarrow> unit op_response result" where
  "ParsePostUploadFilesystemSystemNameOpsUploadPostResponse d = parse_reply d 204 (None)"

definition PostUploadFilesystemSystemNameOpsUploadPostWithBodyWithResponse ::
  "'s Client \<Rightarrow> string \<Rightarrow> string \<Rightarrow> string \<Rightarrow> string \<Rightarrow> ('s, unit op_response) action" where
  "PostUploadFilesystemSystemNameOpsUploadPostWithBodyWithResponse c systemName params_Path contentType body =
     with_response ParsePostUploadFilesystemSystemNameOpsUploadPostResponse c
       (PostUploadFilesystemSystemNameOpsUploadPostWithBody c systemName params_Path contentType body)"

definition PostMkdirFilesystemSystemNameOpsMkdirPost ::
  "'s Client \<Rightarrow> string \<Rightarrow> PostMakeDirRequest \<Rightarrow> ('s, http_reply) action" where
  "PostMkdirFilesystemSystemNameOpsMkdirPost c systemName body =
     client_send c (NewPostMkdirFilesystemSystemNameOpsMkdirPostRequest c systemName body)"

definition ParsePostMkdirFilesystemSystemNameOpsMkdirPostResponse ::
  "api_decoders \<Rightarrow> http_reply \<Rightarrow> unit op_response result" where
  "ParsePostMkdirFilesystemSystemNameOpsMkdirPostResponse d = parse_reply d 201 (Some (dec_Mkdir d))"

definition PostMkdirFilesystemSystemNameOpsMkdirPostWithResponse ::
  "'s Client \<Rightarrow> string \<Rightarrow> PostMakeDirRequest \<Rightarrow> ('s, unit op_response) action" where
  "PostMkdirFilesystemSystemNameOpsMkdirPostWithResponse c systemName body =
     with_response ParsePostMkdirFilesystemSystemNameOpsMkdirPostResponse c
       (PostMkdirFilesystemSystemNameOpsMkdirPost c systemName body)"

definition PutChmodFilesystemSystemNameOpsChmodPut ::
  "'s Client \<Rightarrow> string \<Rightarrow> PutFileChmodRequest \<Rightarrow> ('s, http_reply) action" where
  "PutChmodFilesystemSystemNameOpsChmodPut c systemName body =
     client_send c (NewPutChmodFilesystemSystemNameOpsChmodPutRequest c systemName body)"

definition ParsePutChmodFilesystemSystemNameOpsChmodPutResponse ::
  "api_decoders \<Rightarrow> http_reply \<Rightarrow> unit op_response result" where
  "ParsePutChmodFilesystemSystemNameOpsChmodPutResponse d = parse_reply d 200 (Some (dec_Chmod d))"

definition PutChmodFilesystemSystemNameOpsChmodPutWithResponse ::
  "'s Client \<Rightarrow> string \<Rightarrow> PutFileChmodRequest \<Rightarrow> ('s, unit op_response) action" where
  "PutChmodFilesystemSystemNameOpsChmodPutWithResponse c systemName body =
     with_response ParsePutChmodFilesystemSystemNameOpsChmodPutResponse c
       (PutChmodFilesystemSystemNameOpsChmodPut c systemName body)"

definition PostJobSubmitComputeSystemNameJobsPost ::
  "'s Client \<Rightarrow> string \<Rightarrow> JobDescriptionModel \<Rightarrow> ('s, http_reply) action" where
  "PostJobSubmitComputeSystemNameJobsPost c systemName body =
     client_send c (NewPostJobSubmitComputeSystemNameJobsPostRequest c systemName body)"

definition ParsePostJobSubmitComputeSystemNameJobsPostResponse ::
  "api_decoders \<Rightarrow> http_reply \<Rightarrow> string option op_response result" where
  "ParsePostJobSubmitComputeSystemNameJobsPostResponse d = parse_reply d 201 (Some (dec_JobSubmission d))"

definition PostJobSubmitComputeSystemNameJobsPostWithResponse ::
  "'s Client \<Rightarrow> string \<Rightarrow> JobDescriptionModel \<Rightarrow> ('s, string option op_response) action" where
  "PostJobSubmitComputeSystemNameJobsPostWithResponse c systemName body =
     with_response ParsePostJobSubmitComputeSystemNameJobsPostResponse c
       (PostJobSubmitComputeSystemNameJobsPost c systemName body)"

definition GetJobComputeSystemNameJobsJobIdGet ::
  "'s Client \<Rightarrow> string \<Rightarrow> string \<Rightarrow> ('s, http_reply) action" where
  "GetJobComputeSystemNameJobsJobIdGet c systemName jobId =
     client_send c (NewGetJobComputeSystemNameJobsJobIdGetRequest c systemName jobId)"

definition ParseGetJobComputeSystemNameJobsJobIdGetResponse ::
  "api_decoders \<Rightarrow> http_reply \<Rightarrow> string list option op_response result" where
  "ParseGetJobComputeSystemNameJobsJobIdGetResponse d = parse_reply d 200 (Some (dec_Job d))"

definition GetJobComputeSystemNameJobsJobIdGetWithResponse ::
  "'s Client \<Rightarrow> string \<Rightarrow> string \<Rightarrow> ('s, string list option op_response) action" where
  "GetJobComputeSystemNameJobsJobIdGetWithResponse c systemName jobId =
     with_response ParseGetJobComputeSystemNameJobsJobIdGetResponse c
       (GetJobComputeSystemNameJobsJobIdGet c systemName jobId)"

definition GetJobMetadataComputeSystemNameJobsJobIdMetadataGet ::
  "'s Client \<Rightarrow> string \<Rightarrow> string \<Rightarrow> ('s, http_reply) action" where
  "GetJobMetadataComputeSystemNameJobsJobIdMetadataGet c systemName jobId =
     client_send c (NewGetJobMetadataComputeSystemNameJobsJobIdMetadataGetRequest c systemName jobId)"

definition ParseGetJobMetadataComputeSystemNameJobsJobIdMetadataGetResponse ::
  "api_decoders \<Rightarrow> http_reply \<Rightarrow> JobMetadataModel list option op_response result" where
  "ParseGetJobMetadataComputeSystemNameJobsJobIdMetadataGetResponse d = parse_reply d 200 (Some (dec_JobMetadata d))"

definition GetJobMetadataComputeSystemNameJobsJobIdMetadataGetWithResponse ::
  "'s Client \<Rightarrow> string \<Rightarrow> string \<Rightarrow> ('s, JobMetadataModel list option op_response) action" where
  "GetJobMetadataComputeSystemNameJobsJobIdMetadataGetWithResponse c systemName jobId =
     with_response ParseGetJobMetadataComputeSystemNameJobsJobIdMetadataGetResponse c
       (GetJobMetadataComputeSystemNameJobsJobIdMetadataGet c systemName jobId)"

definition DeleteJobCancelComputeSystemNameJobsJobIdDelete ::
  "'s Client \<Rightarrow> string \<Rightarrow> string \<Rightarrow> ('s, http_reply) action" where
  "DeleteJobCancelComputeSystemNameJobsJobIdDelete c systemName jobId =
     client_send c (NewDeleteJobCancelComputeSystemNameJobsJobIdDeleteRequest c systemName jobId)"

definition ParseDeleteJobCancelComputeSystemNameJobsJobIdDeleteResponse ::
  "api_decoders \<Rightarrow> http_reply \<Rightarrow> unit op_response result" where
  "ParseDeleteJobCancelComputeSystemNameJobsJobIdDeleteResponse d = parse_reply d 204 (None)"

definition DeleteJobCancelComputeSystemNameJobsJobIdDeleteWithResponse ::
  "'s Client \<Rightarrow> string \<Rightarrow> string \<Rightarrow> ('s, unit op_response) action" where
  "DeleteJobCancelComputeSystemNameJobsJobIdDeleteWithResponse c systemName jobId =
     with_response ParseDeleteJobCancelComputeSystemNameJobsJobIdDeleteResponse c
       (DeleteJobCancelComputeSystemNameJobsJobIdDelete c systemName jobId)"

definition GetViewFilesystemSystemNameOpsViewGet ::
  "'s Client \<Rightarrow> string \<Rightarrow> GetViewFilesystemSystemNameOpsViewGetParams \<Rightarrow> ('s, http_reply) action" where
  "GetViewFilesystemSystemNameOpsViewGet c systemName params =
     client_send c (NewGetViewFilesystemSystemNameOpsViewGetRequest c systemName params)"

definition ParseGetViewFilesystemSystemNameOpsViewGetResponse ::
  "api_decoders \<Rightarrow> http_reply \<Rightarrow> string option op_response result" where
  "ParseGetViewFilesystemSystemNameOpsViewGetResponse d = parse_reply d 200 (Some (dec_ViewFile d))"

definition GetViewFilesystemSystemNameOpsViewGetWithResponse ::
  "'s Client \<Rightarrow> string \<Rightarrow> GetViewFilesystemSystemNameOpsViewGetParams \<Rightarrow> ('s, string option op_response) action" where
  "GetViewFilesystemSystemNameOpsViewGetWithResponse c systemName params =
     with_response ParseGetViewFilesystemSystemNameOpsViewGetResponse c
       (GetViewFilesystemSystemNameOpsViewGet c systemName params)"

end
