(* ===== verification/Remote_Host.thy ===== *)
theory Remote_Host
  imports Remote_Auth Operator_Config
begin

text \<open>
  What both controllers of remote sessions use: the states of a remote session
  (\<^verbatim>\<open>src/internal/remote/models/status.go\<close>), the operating system as a record of actions, and
  the image names of enroot (\<^verbatim>\<open>src/internal/utils/container.go\<close>).
\<close>

text \<open>The zero value of the Go type is the empty string, \<open>RemoteUnset\<close>.\<close>

datatype RemoteSessionState =
  RemoteRunning | RemoteFailed | RemoteCompleted | RemoteNotReady | RemoteUnset

text \<open>
  The environment is a list of names and values in the order of \<^verbatim>\<open>os.Environ\<close>. Directory
  entries come with whether they are directories. The two orders are those in which Go walks
  a map; the timestamp is the current local time, formatted.
\<close>

record 's remote_host =
  rh_Environ :: "(string \<times> string) list"
  rh_ReadFile :: "string \<Rightarrow> ('s, string) action"
  rh_WriteFile :: "string \<Rightarrow> string \<Rightarrow> ('s, unit) action"
  rh_MkdirAll :: "string \<Rightarrow> ('s, unit) action"
  rh_Remove :: "string \<Rightarrow> ('s, unit) action"
  rh_ReadDir :: "string \<Rightarrow> ('s, (string \<times> bool) list) action"
  rh_ctx_Err :: "('s, unit) action"
  rh_Stdout :: "string \<Rightarrow> ('s, unit) action"
  rh_order :: "nat \<Rightarrow> string list \<Rightarrow> string list"
  rh_timestamp :: "'s \<Rightarrow> string"
  rh_boundary :: "'s \<Rightarrow> string"
  rh_ParseDockerRef :: docker_ref_parser
  rh_FamiliarString :: "named_ref \<Rightarrow> string"

definition Getenv :: "'s remote_host \<Rightarrow> string \<Rightarrow> string" where
  "Getenv h k = (case map_of (rh_Environ h) k of Some v \<Rightarrow> v | None \<Rightarrow> [])"

definition EnrootImageFormat :: "'s remote_host \<Rightarrow> string \<Rightarrow> string result" where
  "EnrootImageFormat h dockerImage =
     bindE (rh_ParseDockerRef h dockerImage) (\<lambda>named.
       if nr_Domain named = ''docker.io'' then Inr (rh_FamiliarString h named)
       else (let name = nr_Domain named @ ''#'' @ nr_Path named in
         case (nr_Tag named, nr_Digest named) of
           (Some tag, Some digest) \<Rightarrow> Inr (name @ '':'' @ tag @ ''@'' @ digest)
         | (Some tag, None) \<Rightarrow> Inr (name @ '':'' @ tag)
         | (None, Some digest) \<Rightarrow> Inr (name @ ''@'' @ digest)
         | (None, None) \<Rightarrow> Inr name))"

text \<open>\<^verbatim>\<open>strings.TrimSpace\<close> and \<^verbatim>\<open>strings.Replace(s, old, new, 1)\<close>.\<close>

definition is_space :: "char \<Rightarrow> bool" where
  "is_space c \<longleftrightarrow> (of_char c :: nat) \<in> {9, 10, 11, 12, 13, 32}"

definition TrimSpace :: "string \<Rightarrow> string" where
  "TrimSpace s = rev (dropWhile is_space (rev (dropWhile is_space s)))"

definition replace_first :: "string \<Rightarrow> string \<Rightarrow> string \<Rightarrow> string" where
  "replace_first s old new =
     (case Cut s old of (a, b, found) \<Rightarrow> if found then a @ new @ b else s)"

end
