(* ===== verification/Firecrest_Controller.thy ===== *)
theory Firecrest_Controller
  imports Firecrest_Client Remote_Host
begin

text \<open>
  The controller of sessions on a FirecREST cluster:
  \<^verbatim>\<open>src/internal/remote/firecrest/controller.go\<close> and \<^verbatim>\<open>status.go\<close>. Its methods are actions on the
  pair of the world and the controller. The background loop is modelled by one turn of it; the
  session script, an embedded file, is an argument.
\<close>

section \<open>State\<close>

definition statusMap :: "(string \<times> RemoteSessionState) list" where
  "statusMap = [
     (''BOOT_FAIL'', RemoteFailed), (''CANCELLED'', RemoteFailed), (''COMPLETED'', RemoteCompleted),
     (''DEADLINE'', RemoteFailed), (''FAILED'', RemoteFailed), (''NODE_FAIL'', RemoteFailed),
     (''OUT_OF_MEMORY'', RemoteFailed), (''PENDING'', RemoteNotReady), (''PREEMPTED'', RemoteFailed),
     (''RUNNING'', RemoteRunning), (''SUSPENDED'', RemoteFailed), (''TIMEOUT'', RemoteFailed)]"

definition GetRemoteSessionState :: "string \<Rightarrow> RemoteSessionState \<times> go_error option" where
  "GetRemoteSessionState status =
     (case map_of statusMap status of
        Some state \<Rightarrow> (state, None)
      | None \<Rightarrow> (RemoteFailed, Some (Err (''status not recognized: '' @ status))))"

record FirecrestRemoteSessionController =
  fcr_jobID :: string
  fcr_systemName :: string
  fcr_partition :: string
  fcr_currentStatus :: RemoteSessionState
  fcr_currentStatusError :: "go_error option"
  fcr_fakeStart :: bool
  fcr_stdoutPath :: string
  fcr_stderrPath :: string
  fcr_stdoutOffset :: int
  fcr_stderrOffset :: int
  fcr_stdoutBuf :: string
  fcr_stderrBuf :: string

type_synonym ('s, 'a) fc_method = "('s \<times> FirecrestRemoteSessionController, 'a) action"

definition getErrorMessage :: "ApiResponseError option \<Rightarrow> ApiResponseError option \<Rightarrow> string" where
  "getErrorMessage json4XX json5XX =
     (case json4XX of
        Some e \<Rightarrow> ae_Message e
      | None \<Rightarrow> (case json5XX of Some e \<Rightarrow> ae_Message e | None \<Rightarrow> []))"

text \<open>The error of an operation that did not get the reply it needs.\<close>

definition api_error :: "string \<Rightarrow> 'a op_response \<Rightarrow> go_error" where
  "api_error what res =
     (let message = getErrorMessage (or_JSON4XX res) (or_JSON5XX res) in
      if message \<noteq> [] then Err (what @ '': '' @ message)
      else Err (what @ '': HTTP '' @ show_int (or_StatusCode res)))"

text \<open>The payload of a reply.\<close>

definition need_JSON :: "string \<Rightarrow> 'a op_response \<Rightarrow> ('s, 'a) action" where
  "need_JSON what res =
     (case or_JSON res of Some x \<Rightarrow> returnA x | None \<Rightarrow> failA (api_error what res))"

section \<open>Calls\<close>

definition GetCurrentSystem :: "'s Client \<Rightarrow> string \<Rightarrow> ('s, HPCCluster) action" where
  "GetCurrentSystem cl systemName =
     bindA (GetSystemsStatusSystemsGetWithResponse cl) (\<lambda>res.
     bindA (need_JSON ''could not get job'' res) (\<lambda>systems.
       case find (\<lambda>sys. hpc_Name sys = systemName) systems of
         Some sys \<Rightarrow> returnA sys
       | None \<Rightarrow> failA (Err (''system '' @ [CHR 0x27] @ systemName @ [CHR 0x27] @ '' not found''))))"

definition getUserInfo :: "'s Client \<Rightarrow> string \<Rightarrow> ('s, string) action" where
  "getUserInfo cl systemName =
     bindA (GetUserinfoStatusSystemNameUserinfoGetWithResponse cl systemName)
       (need_JSON ''could not get user info'')"

text \<open>The body of an upload: one file of a multipart form.\<close>

definition crlf :: string where "crlf = [CHR 0x0D, CHR 0x0A]"

definition multipart_body :: "string \<Rightarrow> string \<Rightarrow> string \<Rightarrow> string" where
  "multipart_body boundary filename contents =
     ''--'' @ boundary @ crlf
     @ ''Content-Disposition: form-data; name='' @ [CHR 0x22] @ ''file'' @ [CHR 0x22]
     @ ''; filename='' @ [CHR 0x22] @ filename @ [CHR 0x22] @ crlf
     @ ''Content-Type: application/octet-stream'' @ crlf @ crlf
     @ contents @ crlf @ ''--'' @ boundary @ ''--'' @ crlf"

definition uploadFile ::
  "'s remote_host \<Rightarrow> 's Client \<Rightarrow> string \<Rightarrow> string \<Rightarrow> string \<Rightarrow> string \<Rightarrow> ('s, unit) action" where
  "uploadFile h cl systemName directory filename contents w =
     (let boundary = rh_boundary h w in
      bindA (PostUploadFilesystemSystemNameOpsUploadPostWithBodyWithResponse cl systemName directory
               (''multipart/form-data; boundary='' @ boundary)
               (multipart_body boundary filename contents)) (\<lambda>res.
        if or_StatusCode res \<noteq> 204 then failA (api_error ''could not run uploadFile'' res)
        else returnA ()) w)"

definition mkdir :: "'s Client \<Rightarrow> string \<Rightarrow> string \<Rightarrow> bool \<Rightarrow> ('s, unit) action" where
  "mkdir cl systemName srcPath createParents =
     bindA (PostMkdirFilesystemSystemNameOpsMkdirPostWithResponse cl systemName
              \<lparr> md_Parent = Some createParents, md_SourcePath = srcPath \<rparr>)
       (need_JSON ''could not run mkdir'')"

definition chmod :: "'s Client \<Rightarrow> string \<Rightarrow> string \<Rightarrow> string \<Rightarrow> ('s, unit) action" where
  "chmod cl systemName srcPath mode =
     bindA (PutChmodFilesystemSystemNameOpsChmodPutWithResponse cl systemName
              \<lparr> cm_Mode = mode, cm_SourcePath = srcPath \<rparr>)
       (need_JSON ''could not run chmod'')"

definition submitJob :: "'s Client \<Rightarrow> string \<Rightarrow> JobDescriptionModel \<Rightarrow> ('s, string) action" where
  "submitJob cl systemName job =
     bindA (PostJobSubmitComputeSystemNameJobsPostWithResponse cl systemName job) (\<lambda>res.
     bindA (need_JSON ''could not submit job'' res) (\<lambda>jobId.
       case jobId of
         None \<Rightarrow> failA (Err ''invalid job submission response'')
       | Some i \<Rightarrow> returnA i))"

section \<open>Git repositories\<close>

record gitRepository =
  gr_Branch :: string
  gr_ConfigPath :: string

text \<open>
  \<^verbatim>\<open>bufio.Scanner\<close>: the lines without their ends, up to one that does not fit into the buffer.
\<close>

definition file_lines :: "string \<Rightarrow> string list" where
  "file_lines s =
     (let ls = split_char (CHR 0x0A) s in if last ls = [] then butlast ls else ls)"

definition scan_lines :: "string \<Rightarrow> string list" where
  "scan_lines s =
     map (\<lambda>l. if HasSuffix l [CHR 0x0D] then butlast l else l)
       (takeWhile (\<lambda>l. length l < 65536) (file_lines s))"

text \<open>
  The regular expression \<^verbatim>\<open>[[]branch "(.+)"]\<close>: the first place where it matches, and there the
  longest text before a closing \<^verbatim>\<open>"]\<close>.
\<close>

definition branch_open :: string where "branch_open = ''[branch '' @ [CHR 0x22]"
definition branch_close :: string where "branch_close = [CHR 0x22] @ '']''"

definition last_close :: "string \<Rightarrow> nat option" where
  "last_close s = last_some (\<lambda>i. if HasPrefix (drop i s) branch_close then Some i else None)
     [1..<length s]"

fun branch_match :: "string \<Rightarrow> string option" where
  "branch_match [] = None"
| "branch_match (c # s) =
     (let rest = drop (length branch_open) (c # s) in
      if HasPrefix (c # s) branch_open
      then (case last_close rest of Some i \<Rightarrow> Some (take i rest) | None \<Rightarrow> branch_match s)
      else branch_match s)"

definition git_branch :: "string \<Rightarrow> string" where
  "git_branch contents =
     (case first_some (\<lambda>l. branch_match (TrimSpace l)) (scan_lines contents) of
        Some b \<Rightarrow> b | None \<Rightarrow> [])"

text \<open>The entries of the directory that are directories with a readable git configuration.\<close>

fun collect_entries ::
  "'s remote_host \<Rightarrow> string \<Rightarrow> (string \<times> bool) list \<Rightarrow> ('s, (string \<times> gitRepository) list) action" where
  "collect_entries h workDir [] = returnA []"
| "collect_entries h workDir ((name, isDir) # es) =
     bindA (rh_ctx_Err h) (\<lambda>_.
       if \<not> isDir then collect_entries h workDir es
       else
         let gitConfigPath = filepath_Join [filepath_Join [workDir, name], ''.git'', ''config''] in
         bindA (tryA (rh_ReadFile h gitConfigPath)) (\<lambda>r.
           case r of
             Inl _ \<Rightarrow> collect_entries h workDir es
           | Inr contents \<Rightarrow>
               bindA (collect_entries h workDir es) (\<lambda>rs.
                 returnA ((name, \<lparr> gr_Branch = git_branch contents,
                                   gr_ConfigPath = gitConfigPath \<rparr>) # rs))))"

definition collectGitRepositories ::
  "'s remote_host \<Rightarrow> string \<Rightarrow> ('s, (string \<times> gitRepository) list) action" where
  "collectGitRepositories h workDir =
     bindA (rh_ReadDir h workDir) (collect_entries h workDir)"

text \<open>A walk over the map of repositories, in the order Go chooses for it.\<close>

definition walk_repositories ::
  "'s remote_host \<Rightarrow> nat \<Rightarrow> (string \<times> gitRepository) list \<Rightarrow> (string \<times> gitRepository) list" where
  "walk_repositories h k rs =
     List.map_filter (\<lambda>name. map_option (Pair name) (map_of rs name)) (rh_order h k (map fst rs))"

section \<open>The session script\<close>

definition note_open :: string where "note_open = ''# NOTE FOR AMALTHEA MAINTAINERS''"
definition note_close :: string where "note_close = ''# END NOTE''"

text \<open>The last end of a note that is followed by the end of its line.\<close>

definition last_note_end :: "string \<Rightarrow> nat option" where
  "last_note_end s = last_some
     (\<lambda>i. if HasPrefix (drop i s) note_close \<and> CHR 0x0A \<in> set (drop (i + length note_close) s)
          then Some i else None) [0..<length s]"

definition removeMaintainersNotesFromScript :: "string \<Rightarrow> string" where
  "removeMaintainersNotesFromScript s =
     (case str_Index s note_open of
        None \<Rightarrow> s
      | Some i \<Rightarrow>
          let rest = drop (i + length note_open) s in
          case last_note_end rest of
            None \<Rightarrow> s
          | Some j \<Rightarrow> take i s
              @ tl (dropWhile (\<lambda>c. c \<noteq> CHR 0x0A) (drop (j + length note_close) rest)))"

definition sbatch_directives :: "'s remote_host \<Rightarrow> string \<Rightarrow> string list" where
  "sbatch_directives h part =
     (let slurmAccount = Getenv h ''USER_ENV_SLURM_ACCOUNT'';
          cpu = Getenv h ''RSC_SESSION_CPU''; mem = Getenv h ''RSC_SESSION_MEMORY'';
          gpus = Getenv h ''RSC_SESSION_GPUS'' in
      [''#SBATCH --nodes=1'', ''#SBATCH --ntasks-per-node=1'']
      @ (if part \<noteq> [] then [''#SBATCH --partition='' @ part] else [])
      @ (if slurmAccount \<noteq> [] then [''#SBATCH --account='' @ slurmAccount] else [])
      @ (if ToLower (Getenv h ''RSC_FIRECREST_FORWARD_RESOURCE_VALUES'') = ''true'' then
           (if cpu \<noteq> [] then [''#SBATCH --cpus-per-task='' @ cpu] else [])
           @ (if mem \<noteq> [] then [''#SBATCH --mem='' @ mem @ ''M''] else [])
           @ (if gpus \<noteq> [] then [''#SBATCH --gpus='' @ gpus] else [])
         else []))"

definition addSbatchDirectivesToScript :: "'s remote_host \<Rightarrow> string \<Rightarrow> string \<Rightarrow> string" where
  "addSbatchDirectivesToScript h sessionScript part =
     replace_first sessionScript ''#{{SBATCH_DIRECTIVES_PLACEHOLDER}}''
       (str_Join (sbatch_directives h part) [CHR 0x0A])"

definition session_mounts :: "FileSystem list \<Rightarrow> string \<Rightarrow> string list" where
  "session_mounts fileSystems secretsPath =
     map fs_Path (filter (\<lambda>fs. fs_DataType fs = Scratch) fileSystems)
     @ map fs_Path (filter (\<lambda>fs. fs_DataType fs = Store) fileSystems)
     @ (case last_some (\<lambda>fs. if fs_DataType fs = Users then Some fs else None) fileSystems of
          Some home \<Rightarrow> [fs_Path home @ '':/home'' @ fs_Path home @ '':ro'']
        | None \<Rightarrow> [])
     @ [secretsPath @ '':/secrets:ro'']"

definition addSessionMountsToScript ::
  "string \<Rightarrow> FileSystem list option \<Rightarrow> string \<Rightarrow> string" where
  "addSessionMountsToScript sessionScript fileSystems secretsPath =
     (case fileSystems of
        None \<Rightarrow> replace_first sessionScript ''#{{SESSION_MOUNTS_PLACEHOLDER}}'' []
      | Some fss \<Rightarrow>
          replace_first sessionScript ''#{{SESSION_MOUNTS_PLACEHOLDER}}''
            (''mounts = ['' @ [CHR 0x0A]
             @ str_Join (map (\<lambda>m. ''    '' @ [CHR 0x22] @ m @ [CHR 0x22] @ '','')
                 (session_mounts fss secretsPath)) [CHR 0x0A]
             @ [CHR 0x0A] @ '']''))"

definition renderSessionScriptStatic ::
  "'s remote_host \<Rightarrow> string \<Rightarrow> string \<Rightarrow> FileSystem list option \<Rightarrow> string \<Rightarrow> string" where
  "renderSessionScriptStatic h sessionScript part fileSystems secretsPath =
     addSessionMountsToScript
       (addSbatchDirectivesToScript h (removeMaintainersNotesFromScript sessionScript) part)
       fileSystems secretsPath"

section \<open>Saved state\<close>

record savedState =
  sv_JobID :: string
  sv_StdoutPath :: string
  sv_StderrPath :: string
  sv_StdoutOffset :: int
  sv_StderrOffset :: int

definition encode_savedState :: "savedState \<Rightarrow> json" where
  "encode_savedState s = JObj
     ([(''job_id'', JStr (sv_JobID s))]
      @ (if sv_StdoutPath s \<noteq> [] then [(''stdout_path'', JStr (sv_StdoutPath s))] else [])
      @ (if sv_StderrPath s \<noteq> [] then [(''stderr_path'', JStr (sv_StderrPath s))] else [])
      @ (if sv_StdoutOffset s \<noteq> 0
         then [(''stdout_offset'', JNum (show_int (sv_StdoutOffset s)))] else [])
      @ (if sv_StderrOffset s \<noteq> 0
         then [(''stderr_offset'', JNum (show_int (sv_StderrOffset s)))] else []))"

definition decode_savedState :: "string \<Rightarrow> savedState result" where
  "decode_savedState contents =
     bindE (bindE (json_parse contents) json_object) (\<lambda>ms.
     bindE (decode_string (json_member ''job_id'' ms)) (\<lambda>jobID.
     bindE (decode_string (json_member ''stdout_path'' ms)) (\<lambda>outPath.
     bindE (decode_string (json_member ''stderr_path'' ms)) (\<lambda>errPath.
     bindE (decode_int (json_member ''stdout_offset'' ms)) (\<lambda>outOffset.
     bindE (decode_int (json_member ''stderr_offset'' ms)) (\<lambda>errOffset.
     Inr \<lparr> sv_JobID = jobID, sv_StdoutPath = outPath, sv_StderrPath = errPath,
       sv_StdoutOffset = outOffset, sv_StderrOffset = errOffset \<rparr>))))))"

definition fc_getSaveDirPath :: "'s remote_host \<Rightarrow> string" where
  "fc_getSaveDirPath h = filepath_Join [Getenv h ''RENKU_MOUNT_DIR'', ''.rsc'']"

definition fc_getSavePath :: "'s remote_host \<Rightarrow> string" where
  "fc_getSavePath h = filepath_Join [fc_getSaveDirPath h, ''state.json'']"

definition state_of :: "FirecrestRemoteSessionController \<Rightarrow> savedState" where
  "state_of c = \<lparr> sv_JobID = fcr_jobID c, sv_StdoutPath = fcr_stdoutPath c,
     sv_StderrPath = fcr_stderrPath c, sv_StdoutOffset = fcr_stdoutOffset c,
     sv_StderrOffset = fcr_stderrOffset c \<rparr>"

definition saveState :: "'s remote_host \<Rightarrow> ('s, unit) fc_method" where
  "saveState h =
     bindA getA (\<lambda>c.
       if fcr_jobID c = [] then failA (Err ''cannot save, job ID is not defined'')
       else bindA (liftA (rh_MkdirAll h (fc_getSaveDirPath h))) (\<lambda>_.
         liftA (rh_WriteFile h (fc_getSavePath h) (json_Marshal (encode_savedState (state_of c))))))"

definition deleteSavedState :: "'s remote_host \<Rightarrow> ('s, unit) action" where
  "deleteSavedState h = rh_Remove h (fc_getSavePath h)"

definition recovered ::
  "savedState \<Rightarrow> FirecrestRemoteSessionController \<Rightarrow> FirecrestRemoteSessionController" where
  "recovered s c =
     (let c = (if sv_JobID s \<noteq> [] then c\<lparr> fcr_jobID := sv_JobID s \<rparr> else c) in
      c\<lparr> fcr_stdoutPath := sv_StdoutPath s, fcr_stderrPath := sv_StderrPath s,
         fcr_stdoutOffset := sv_StdoutOffset s, fcr_stderrOffset := sv_StderrOffset s \<rparr>)"

definition recoverState :: "'s remote_host \<Rightarrow> ('s, unit) fc_method" where
  "recoverState h =
     bindA (liftA (tryA (rh_ReadFile h (fc_getSavePath h)))) (\<lambda>r.
       case r of
         Inl _ \<Rightarrow> returnA ()
       | Inr contents \<Rightarrow>
           bindA (liftE (decode_savedState contents)) (\<lambda>s. modifyA (recovered s)))"

section \<open>Start and stop\<close>

text \<open>Both loops overwrite the variable, so the last file system that fits is returned.\<close>

definition getPreferredScratch :: "FileSystem list option \<Rightarrow> FileSystem option" where
  "getPreferredScratch fileSystems =
     (case fileSystems of
        None \<Rightarrow> None
      | Some fss \<Rightarrow>
          (case last_some (\<lambda>fs. if fs_DataType fs = Scratch \<and> fs_DefaultWorkDir fs = Some True
                               then Some fs else None) fss of
             Some fs \<Rightarrow> Some fs
           | None \<Rightarrow> last_some (\<lambda>fs. if fs_DataType fs = Scratch then Some fs else None) fss))"

definition renkuProjectPath_of :: "'s remote_host \<Rightarrow> string" where
  "renkuProjectPath_of h =
     (let p = TrimSuffix (Getenv h ''RENKU_PROJECT_PATH'') ''/'' in
      if p = [] then ''dev-project'' else p)"

definition renkuBaseURLPath_of :: "'s remote_host \<Rightarrow> string" where
  "renkuBaseURLPath_of h =
     (let p = TrimSuffix (Getenv h ''RENKU_BASE_URL_PATH'') ''/'' in
      if p = [] then ''dev-session'' else p)"

definition session_path :: "'s remote_host \<Rightarrow> FileSystem \<Rightarrow> string \<Rightarrow> string" where
  "session_path h scratch userName =
     filepath_Join [filepath_Join [fs_Path scratch, userName, ''renku''], ''sessions'',
       renkuProjectPath_of h, TrimPrefix (renkuBaseURLPath_of h) ''/sessions'']"

text \<open>The git configurations of the repositories are copied to the cluster.\<close>

definition upload_repository ::
  "'s remote_host \<Rightarrow> 's Client \<Rightarrow> string \<Rightarrow> string \<Rightarrow> string \<times> gitRepository \<Rightarrow> ('s, unit) action" where
  "upload_repository h cl systemName sessionPath = (\<lambda>(repo, r).
     let repoGitDirPath = filepath_Join [sessionPath, ''work'', repo, ''.git''] in
     bindA (mkdir cl systemName repoGitDirPath True) (\<lambda>_.
     bindA (rh_ReadFile h (gr_ConfigPath r)) (\<lambda>gitConfigContents.
     uploadFile h cl systemName repoGitDirPath ''config'' gitConfigContents)))"

text \<open>The three copies of variables into the environment of the job.\<close>

definition copy_user_env :: "(string \<times> string) list \<Rightarrow> job_env \<Rightarrow> job_env" where
  "copy_user_env environ env = foldl (\<lambda>env (key, val).
     (let (newKey, isRenkuEnv) = CutPrefix key ''USER_ENV_'' in
      if isRenkuEnv then Values_Set newKey val env else env)) env environ"

definition copy_prefixed :: "string \<Rightarrow> (string \<times> string) list \<Rightarrow> job_env \<Rightarrow> job_env" where
  "copy_prefixed pre environ env = foldl (\<lambda>env (key, val).
     if HasPrefix key pre then Values_Set key val env else env) env environ"

definition env_get :: "job_env \<Rightarrow> string \<Rightarrow> string" where
  "env_get env k = (case map_of env k of Some v \<Rightarrow> v | None \<Rightarrow> [])"

definition wstunnel_env ::
  "'s remote_host \<Rightarrow> authority_parser \<Rightarrow> job_env \<Rightarrow> job_env result" where
  "wstunnel_env h pa env =
     (if Getenv h ''RENKU_BASE_URL'' = [] then Inr env
      else bindE (url_Parse pa (Getenv h ''RENKU_BASE_URL'')) (\<lambda>renkuBaseURL.
        Inr (Values_Set ''WSTUNNEL_PATH_PREFIX''
               (renkuBaseURLPath_of h @ ''/'' @ TunnelIngressPathSuffix)
            (Values_Set ''WSTUNNEL_SERVICE_PORT'' (show_int 443)
            (Values_Set ''WSTUNNEL_SERVICE_ADDRESS'' (url_Hostname renkuBaseURL) env)))))"

definition start_env ::
  "'s remote_host \<Rightarrow> authority_parser \<Rightarrow> (string \<times> gitRepository) list \<Rightarrow> job_env result" where
  "start_env h pa gitRepositories =
     (let env = copy_user_env (rh_Environ h) [];
          env = copy_prefixed ''REMOTE_SESSION'' (rh_Environ h) env;
          env = (case EnrootImageFormat h (env_get env ''REMOTE_SESSION_IMAGE'') of
                   Inr enrootImage \<Rightarrow> Values_Set ''REMOTE_SESSION_IMAGE'' enrootImage env
                 | Inl _ \<Rightarrow> env);
          env = copy_prefixed ''RENKU'' (rh_Environ h) env
      in bindE (wstunnel_env h pa env) (\<lambda>env.
        let repos = map (\<lambda>(repo, r). repo @ [CHR 0x09] @ gr_Branch r)
                      (walk_repositories h 1 gitRepositories)
        in Inr (Values_Set ''GIT_PROXY_HEALTH_PORT'' (show_int 65481)
               (Values_Set ''GIT_PROXY_PORT'' (show_int 65480)
               (Values_Set ''GIT_REPOSITORIES'' (str_Join repos [CHR 0x0A]) env)))))"

definition job_description :: "'s remote_host \<Rightarrow> string \<Rightarrow> job_env \<Rightarrow> JobDescriptionModel" where
  "job_description h sessionPath env =
     (let slurmAccount = Getenv h ''USER_ENV_SLURM_ACCOUNT'' in
      \<lparr> jd_Account = (if slurmAccount \<noteq> [] then Some slurmAccount else None),
        jd_Constraints = None, jd_Env = Some (FromJobDescriptionModelEnv0 env), jd_Name = None,
        jd_Script = None, jd_ScriptPath = Some (filepath_Join [sessionPath, ''session_script.sh'']),
        jd_StandardError = None, jd_StandardInput = None, jd_StandardOutput = None,
        jd_WorkingDirectory = sessionPath \<rparr>)"

text \<open>Where the job writes its output, from the metadata of the job when there are any.\<close>

definition absolute_path :: "string \<Rightarrow> string \<Rightarrow> string" where
  "absolute_path sessionPath p =
     (if HasPrefix p ''/'' then p else filepath_Join [sessionPath, p])"

definition log_paths ::
  "string \<Rightarrow> string \<Rightarrow> go_error + JobMetadataModel list option op_response \<Rightarrow> string \<times> string" where
  "log_paths sessionPath jobID metaRes =
     (let stdoutPath = filepath_Join [sessionPath, ''slurm-'' @ jobID @ ''.out''];
          stderrPath = filepath_Join [sessionPath, ''slurm-'' @ jobID @ ''.err''] in
      case metaRes of
        Inl _ \<Rightarrow> (stdoutPath, stderrPath)
      | Inr res \<Rightarrow>
        (case or_JSON res of
           Some (Some (meta # _)) \<Rightarrow>
             (let stdoutPath = (case jm_StandardOutput meta of
                    Some p \<Rightarrow> if p \<noteq> [] then absolute_path sessionPath p else stdoutPath
                  | None \<Rightarrow> stdoutPath);
                  stderrPath = (case jm_StandardError meta of
                    Some p \<Rightarrow> if p \<noteq> [] then absolute_path sessionPath p else stdoutPath
                  | None \<Rightarrow> stdoutPath)
              in (stdoutPath, stderrPath))
         | _ \<Rightarrow> (stdoutPath, stderrPath)))"

text \<open>The set-up of the session's directory on the cluster, up to the submission of the job.\<close>

definition prepare_session ::
  "'s remote_host \<Rightarrow> 's Client \<Rightarrow> string \<Rightarrow> string \<Rightarrow> string \<Rightarrow> ('s, string \<times> JobDescriptionModel) action" where
  "prepare_session h cl sessionScript systemName part =
     bindA (GetCurrentSystem cl systemName) (\<lambda>system.
     bindA (getUserInfo cl systemName) (\<lambda>userName.
       if userName = [] then failA (Err ''could not get user name'')
       else case getPreferredScratch (hpc_FileSystems system) of
         None \<Rightarrow> failA (Err (''could not find scratch file system on '' @ [CHR 0x27]
                            @ systemName @ [CHR 0x27]))
       | Some scratch \<Rightarrow>
         let sessionPath = session_path h scratch userName;
             secretsPath = filepath_Join [sessionPath, ''secrets''];
             wstunnel_secret = Getenv h ''RSC_WSTUNNEL_SECRET'' in
         bindA (mkdir cl systemName secretsPath True) (\<lambda>_.
         bindA (chmod cl systemName sessionPath ''700'') (\<lambda>_.
         bindA (if wstunnel_secret \<noteq> []
                then uploadFile h cl systemName secretsPath ''wstunnel_secret'' wstunnel_secret
                else returnA ()) (\<lambda>_.
         bindA (collectGitRepositories h (Getenv h ''RENKU_WORKING_DIR'')) (\<lambda>gitRepositories.
         bindA (forA (walk_repositories h 0 gitRepositories)
                  (upload_repository h cl systemName sessionPath)) (\<lambda>_.
         bindA (liftE (start_env h (rt_parseAuthority (cl_runtime cl)) gitRepositories)) (\<lambda>env.
         bindA (uploadFile h cl systemName sessionPath ''session_script.sh''
                  (renderSessionScriptStatic h sessionScript part (hpc_FileSystems system)
                    secretsPath)) (\<lambda>_.
         returnA (sessionPath, job_description h sessionPath env))))))))))"

text \<open>From the submission on: the job, its log files and the saved state.\<close>

definition submit_session ::
  "'s remote_host \<Rightarrow> 's Client \<Rightarrow> string \<Rightarrow> JobDescriptionModel \<Rightarrow> ('s, unit) fc_method" where
  "submit_session h cl sessionPath job =
     bindA getA (\<lambda>c.
     bindA (liftA (submitJob cl (fcr_systemName c) job)) (\<lambda>jobID.
     bindA (modifyA (\<lambda>c. c\<lparr> fcr_jobID := jobID \<rparr>)) (\<lambda>_.
     bindA (liftA (tryA (GetJobMetadataComputeSystemNameJobsJobIdMetadataGetWithResponse cl
              (fcr_systemName c) jobID))) (\<lambda>metaRes.
     bindA (modifyA (\<lambda>c. c\<lparr> fcr_stdoutPath := fst (log_paths sessionPath jobID metaRes),
                            fcr_stderrPath := snd (log_paths sessionPath jobID metaRes) \<rparr>)) (\<lambda>_.
     saveState h)))))"

text \<open>
  \<^verbatim>\<open>Start\<close>. The second of the two identical checks of \<^verbatim>\<open>fakeStart\<close> is never reached.
\<close>

definition fc_Start :: "'s remote_host \<Rightarrow> 's Client \<Rightarrow> string \<Rightarrow> ('s, unit) fc_method" where
  "fc_Start h cl sessionScript =
     bindA (recoverState h) (\<lambda>_.
     bindA getA (\<lambda>c.
       if fcr_jobID c \<noteq> [] then returnA ()
       else if fcr_fakeStart c then modifyA (\<lambda>c. c\<lparr> fcr_jobID := ''fake-job-id'' \<rparr>)
       else bindA (liftA (prepare_session h cl sessionScript (fcr_systemName c) (fcr_partition c)))
              (\<lambda>(sessionPath, job). submit_session h cl sessionPath job)))"

definition fc_Stop :: "'s remote_host \<Rightarrow> 's Client \<Rightarrow> ('s, unit) fc_method" where
  "fc_Stop h cl =
     bindA getA (\<lambda>c.
       if fcr_jobID c = [] then returnA ()
       else bindA (liftA (tryA (deleteSavedState h))) (\<lambda>_.
         bindA (liftA (DeleteJobCancelComputeSystemNameJobsJobIdDeleteWithResponse cl
                  (fcr_systemName c) (fcr_jobID c))) (\<lambda>res.
           if or_StatusCode res < 200 \<or> or_StatusCode res \<ge> 300
           then failA (api_error ''could not cancel job'' res) else returnA ())))"

definition fc_Status :: "FirecrestRemoteSessionController \<Rightarrow> RemoteSessionState \<times> go_error option" where
  "fc_Status c = (fcr_currentStatus c, fcr_currentStatusError c)"

section \<open>Status and logs\<close>

definition fc_getCurrentStatus ::
  "'s Client \<Rightarrow> FirecrestRemoteSessionController \<Rightarrow> 's \<Rightarrow> 's \<times> RemoteSessionState \<times> go_error option" where
  "fc_getCurrentStatus cl c w =
     (if fcr_jobID c = [] then (w, RemoteNotReady, None)
      else case GetJobComputeSystemNameJobsJobIdGetWithResponse cl (fcr_systemName c) (fcr_jobID c) w of
        (w', Inl e) \<Rightarrow> (w', RemoteFailed, Some e)
      | (w', Inr res) \<Rightarrow>
          (w', case or_JSON res of
             None \<Rightarrow> (RemoteFailed, Some (api_error ''could not get job'' res))
           | Some None \<Rightarrow> (RemoteFailed, Some (Err ''invalid job status response''))
           | Some (Some []) \<Rightarrow> (RemoteFailed, Some (Err ''empty job response''))
           | Some (Some (job # _)) \<Rightarrow>
               (case GetRemoteSessionState job of
                  (state, None) \<Rightarrow> (state, None)
                | (_, Some e) \<Rightarrow> (RemoteFailed, Some e))))"

datatype log_stream = StdoutStream | StderrStream

definition stream_name :: "log_stream \<Rightarrow> string" where
  "stream_name s = (case s of StdoutStream \<Rightarrow> ''stdout'' | StderrStream \<Rightarrow> ''stderr'')"

definition streamsToFetch :: "FirecrestRemoteSessionController \<Rightarrow> log_stream list" where
  "streamsToFetch c =
     [StdoutStream]
     @ (if fcr_stderrPath c \<noteq> [] \<and> fcr_stderrPath c \<noteq> fcr_stdoutPath c then [StderrStream] else [])"

definition stream_path :: "log_stream \<Rightarrow> FirecrestRemoteSessionController \<Rightarrow> string" where
  "stream_path s c = (case s of StdoutStream \<Rightarrow> fcr_stdoutPath c | StderrStream \<Rightarrow> fcr_stderrPath c)"

definition stream_offset :: "log_stream \<Rightarrow> FirecrestRemoteSessionController \<Rightarrow> int" where
  "stream_offset s c =
     (case s of StdoutStream \<Rightarrow> fcr_stdoutOffset c | StderrStream \<Rightarrow> fcr_stderrOffset c)"

definition stream_buf :: "log_stream \<Rightarrow> FirecrestRemoteSessionController \<Rightarrow> string" where
  "stream_buf s c = (case s of StdoutStream \<Rightarrow> fcr_stdoutBuf c | StderrStream \<Rightarrow> fcr_stderrBuf c)"

definition set_stream ::
  "log_stream \<Rightarrow> int \<Rightarrow> string \<Rightarrow> FirecrestRemoteSessionController \<Rightarrow> FirecrestRemoteSessionController" where
  "set_stream s offset buf c =
     (case s of
        StdoutStream \<Rightarrow> c\<lparr> fcr_stdoutOffset := offset, fcr_stdoutBuf := buf \<rparr>
      | StderrStream \<Rightarrow> c\<lparr> fcr_stderrOffset := offset, fcr_stderrBuf := buf \<rparr>)"

text \<open>Writing the complete lines of the buffer; what is left is returned with the offset.\<close>

function flush_lines :: "'s remote_host \<Rightarrow> log_stream \<Rightarrow> int \<Rightarrow> string \<Rightarrow> ('s, int \<times> string) action" where
  "flush_lines h stream offset buf =
     (case str_Index buf [CHR 0x0A] of
        None \<Rightarrow> returnA (offset, buf)
      | Some idx \<Rightarrow>
          bindA (tryA (rh_Stdout h (''[session/'' @ stream_name stream @ ''] ''
                   @ take idx buf @ [CHR 0x0A]))) (\<lambda>_.
            flush_lines h stream (offset + int idx + 1) (drop (idx + 1) buf)))"
  by pat_completeness auto

termination
proof (relation "measure (\<lambda>(_, _, _, buf). length buf)")
  show "((h, stream, offset + int idx + 1, drop (idx + 1) buf), h, stream, offset, buf)
      \<in> measure (\<lambda>(_, _, _, buf). length buf)"
    if "str_Index buf [CHR 0x0A] = Some idx"
    for h :: "'s remote_host" and stream offset buf idx
    using that by (cases buf) auto
qed simp

definition log_chunk_size :: int where "log_chunk_size = 524288"

definition fetchLogStream :: "'s remote_host \<Rightarrow> 's Client \<Rightarrow> log_stream \<Rightarrow> ('s, unit) fc_method" where
  "fetchLogStream h cl stream =
     bindA getA (\<lambda>c.
     bindA (liftA (tryA (GetViewFilesystemSystemNameOpsViewGetWithResponse cl (fcr_systemName c)
              \<lparr> gv_Path = stream_path stream c, gv_Size = Some log_chunk_size,
                gv_Offset = Some (stream_offset stream c + int (length (stream_buf stream c))) \<rparr>))) (\<lambda>r.
       case r of
         Inl _ \<Rightarrow> returnA ()
       | Inr res \<Rightarrow>
         (case or_JSON res of
            Some (Some content) \<Rightarrow>
              if content = [] then returnA ()
              else bindA (liftA (flush_lines h stream (stream_offset stream c)
                     (stream_buf stream c @ content))) (\<lambda>(offset, buf).
                   modifyA (set_stream stream offset buf))
          | _ \<Rightarrow> returnA ())))"

definition fetchSessionLogs :: "'s remote_host \<Rightarrow> 's Client \<Rightarrow> ('s, unit) fc_method" where
  "fetchSessionLogs h cl =
     bindA getA (\<lambda>c.
       if fcr_jobID c = [] \<or> fcr_stdoutPath c = [] then returnA ()
       else forA (streamsToFetch c) (fetchLogStream h cl))"

text \<open>One turn of the background loop.\<close>

definition fc_status_turn :: "'s remote_host \<Rightarrow> 's Client \<Rightarrow> ('s, unit) fc_method" where
  "fc_status_turn h cl = (\<lambda>(w, c).
     let (w', state, err) = fc_getCurrentStatus cl c w;
         c' = c\<lparr> fcr_currentStatus := state, fcr_currentStatusError := err \<rparr>
     in bindA (fetchSessionLogs h cl) (\<lambda>_.
        bindA getA (\<lambda>c.
          if fcr_jobID c \<noteq> [] then bindA (tryA (saveState h)) (\<lambda>_. returnA ())
          else returnA ())) (w', c'))"

section \<open>Construction\<close>

text \<open>
  The client of the controller works on the world together with the authentication.
\<close>

definition firecrest_client ::
  "'w auth_net \<Rightarrow> api_runtime \<Rightarrow> url \<Rightarrow> ('w \<times> FirecrestAuth) Client" where
  "firecrest_client net rt apiURL =
     NewFirecrestClient rt (\<lambda>req. liftA (an_Do net req))
       (Some (FirecrestAuth_GetAccessToken net)) apiURL"

definition NewFirecrestRemoteSessionController ::
  "'w auth_net \<Rightarrow> api_runtime \<Rightarrow> RemoteSessionControllerConfig
   \<Rightarrow> (FirecrestAuth \<times> ('w \<times> FirecrestAuth) Client \<times> FirecrestRemoteSessionController) result" where
  "NewFirecrestRemoteSessionController net rt cfg =
     bindE (NewFirecrestAuth net (fc_AuthConfig (rs_Firecrest cfg))) (\<lambda>a.
     bindE (url_Parse (rt_parseAuthority rt) (fc_APIURL (rs_Firecrest cfg))) (\<lambda>apiURL.
       if fc_SystemName (rs_Firecrest cfg) = [] then Inl (Err ''systemName is not set'')
       else Inr (a, firecrest_client net rt apiURL,
         \<lparr> fcr_jobID = [], fcr_systemName = fc_SystemName (rs_Firecrest cfg),
           fcr_partition = fc_Partition (rs_Firecrest cfg), fcr_currentStatus = RemoteNotReady,
           fcr_currentStatusError = None, fcr_fakeStart = rs_FakeStart cfg, fcr_stdoutPath = [],
           fcr_stderrPath = [], fcr_stdoutOffset = 0, fcr_stderrOffset = 0, fcr_stdoutBuf = [],
           fcr_stderrBuf = [] \<rparr>)))"

end
