(* ===== verification/Runai_Client.thy ===== *)
theory Runai_Client
  imports Remote_Host Go_JSON_Struct
begin

text \<open>
  The client of the Run:AI API: \<^verbatim>\<open>src/internal/remote/runai/runai_api.go\<close> and \<^verbatim>\<open>runai.go\<close>.

  As for FirecREST, the type \<open>'s\<close> of the world includes the state of the authentication. The
  reader of timestamps in replies is a field of the client.
\<close>

section \<open>Types of requests and replies\<close>

record ProjectResponse =
  prj_Id :: string
  prj_Name :: string
  prj_Description :: string
  prj_SchedulingRules :: "(string \<times> json) list"
  prj_DefaultNodePools :: "string list"
  prj_NodeTypes :: "(string \<times> json) list"
  prj_ClusterId :: string
  prj_ParentId :: string
  prj_RequestedNamespace :: string
  prj_EnforceRunaiScheduler :: bool

type_synonym WorkloadResponse = "(string \<times> json) list"

record WorkspaceSpecEnvVar =
  wse_Name :: string
  wse_Value :: string

record WorkspaceSpec =
  wss_Image :: string
  wss_EnvironmentVariables :: "WorkspaceSpecEnvVar list"

record WorkspacePostBody =
  wpb_Name :: string
  wpb_ProjectId :: string
  wpb_ClusterId :: string
  wpb_Spec :: WorkspaceSpec

record WorkspaceResponse =
  wsr_Name :: string
  wsr_WorkloadId :: string
  wsr_ProjectId :: string
  wsr_DepartmentId :: string
  wsr_ClusterId :: string
  wsr_CreatedAt :: time
  wsr_DeletedAt :: "time option"
  wsr_DesiredPhase :: string
  wsr_ActualPhase :: string

section \<open>Decoding and encoding\<close>

definition decode_ProjectResponse :: "json \<Rightarrow> ProjectResponse result" where
  "decode_ProjectResponse j =
     bindE (json_object j) (\<lambda>ms.
     bindE (decode_string (json_member ''id'' ms)) (\<lambda>i.
     bindE (decode_string (json_member ''name'' ms)) (\<lambda>name.
     bindE (decode_string (json_member ''description'' ms)) (\<lambda>description.
     bindE (json_object (json_member ''schedulingRules'' ms)) (\<lambda>schedulingRules.
     bindE (decode_list decode_string (json_member ''defaultNodePools'' ms)) (\<lambda>defaultNodePools.
     bindE (json_object (json_member ''nodeTypes'' ms)) (\<lambda>nodeTypes.
     bindE (decode_string (json_member ''clusterId'' ms)) (\<lambda>clusterId.
     bindE (decode_string (json_member ''parentId'' ms)) (\<lambda>parentId.
     bindE (decode_string (json_member ''requestedNamespace'' ms)) (\<lambda>requestedNamespace.
     bindE (decode_bool (json_member ''enforceRunaiScheduler'' ms)) (\<lambda>enforceRunaiScheduler.
     Inr \<lparr> prj_Id = i, prj_Name = name, prj_Description = description,
       prj_SchedulingRules = schedulingRules, prj_DefaultNodePools = defaultNodePools,
       prj_NodeTypes = nodeTypes, prj_ClusterId = clusterId, prj_ParentId = parentId,
       prj_RequestedNamespace = requestedNamespace,
       prj_EnforceRunaiScheduler = enforceRunaiScheduler \<rparr>)))))))))))"

definition decode_ProjectsResponse :: "string \<Rightarrow> ProjectResponse list result" where
  "decode_ProjectsResponse body =
     bindE (bindE (json_Decode body) json_object) (\<lambda>ms.
     decode_list decode_ProjectResponse (json_member ''projects'' ms))"

definition decode_WorkloadsResponse :: "string \<Rightarrow> WorkloadResponse list result" where
  "decode_WorkloadsResponse body =
     bindE (bindE (json_Decode body) json_object) (\<lambda>ms.
     decode_list json_object (json_member ''workloads'' ms))"

definition decode_WorkspaceResponse ::
  "(string \<Rightarrow> time result) \<Rightarrow> string \<Rightarrow> WorkspaceResponse result" where
  "decode_WorkspaceResponse unmarshalTime body =
     bindE (bindE (json_Decode body) json_object) (\<lambda>ms.
     bindE (decode_string (json_member ''name'' ms)) (\<lambda>name.
     bindE (decode_string (json_member ''workloadId'' ms)) (\<lambda>workloadId.
     bindE (decode_string (json_member ''projectId'' ms)) (\<lambda>projectId.
     bindE (decode_string (json_member ''departmentId'' ms)) (\<lambda>departmentId.
     bindE (decode_string (json_member ''clusterId'' ms)) (\<lambda>clusterId.
     bindE (decode_time unmarshalTime (json_member ''createdAt'' ms)) (\<lambda>createdAt.
     bindE (decode_time_option unmarshalTime (json_member ''deletedAt'' ms)) (\<lambda>deletedAt.
     bindE (decode_string (json_member ''desiredPhase'' ms)) (\<lambda>desiredPhase.
     bindE (decode_string (json_member ''actualPhase'' ms)) (\<lambda>actualPhase.
     Inr \<lparr> wsr_Name = name, wsr_WorkloadId = workloadId, wsr_ProjectId = projectId,
       wsr_DepartmentId = departmentId, wsr_ClusterId = clusterId, wsr_CreatedAt = createdAt,
       wsr_DeletedAt = deletedAt, wsr_DesiredPhase = desiredPhase,
       wsr_ActualPhase = actualPhase \<rparr>))))))))))"

definition encode_WorkspacePostBody :: "WorkspacePostBody \<Rightarrow> json" where
  "encode_WorkspacePostBody b = JObj
     [(''name'', JStr (wpb_Name b)), (''projectId'', JStr (wpb_ProjectId b)),
      (''clusterId'', JStr (wpb_ClusterId b)),
      (''spec'', JObj
         [(''image'', JStr (wss_Image (wpb_Spec b))),
          (''environmentVariables'', JArr (map (\<lambda>e. JObj
             [(''name'', JStr (wse_Name e)), (''value'', JStr (wse_Value e))])
             (wss_EnvironmentVariables (wpb_Spec b))))])]"

section \<open>The client\<close>

record 's RunaiApi =
  api_BaseURL :: string
  api_TokenExpiresAt :: time
  api_GetAccessToken :: "('s, string) action"
  api_Do :: "http_request \<Rightarrow> ('s, http_reply) action"
  api_RequestEditors :: "(http_request \<Rightarrow> ('s, http_request) action) list"
  api_parseAuthority :: authority_parser
  api_unmarshalTime :: "string \<Rightarrow> time result"

definition NewRunaiApi ::
  "authority_parser \<Rightarrow> (string \<Rightarrow> time result) \<Rightarrow> string \<Rightarrow> ('s, string) action
   \<Rightarrow> (http_request \<Rightarrow> ('s, http_reply) action) \<Rightarrow> 's RunaiApi" where
  "NewRunaiApi pa unmarshalTime baseURL runaiAuth httpClient =
     \<lparr> api_BaseURL = (if baseURL = [] then ''https://api.run.ai'' else baseURL),
       api_TokenExpiresAt = zero_time, api_GetAccessToken = runaiAuth, api_Do = httpClient,
       api_RequestEditors = [RequestEditorInjectAccessToken runaiAuth],
       api_parseAuthority = pa, api_unmarshalTime = unmarshalTime \<rparr>"

definition NewRunaiClient ::
  "authority_parser \<Rightarrow> (string \<Rightarrow> time result) \<Rightarrow> ('s, string) action
   \<Rightarrow> (http_request \<Rightarrow> ('s, http_reply) action) \<Rightarrow> url \<Rightarrow> 's RunaiApi" where
  "NewRunaiClient pa unmarshalTime runaiAuth httpClient baseUrl =
     NewRunaiApi pa unmarshalTime (url_String baseUrl) runaiAuth httpClient"

definition projectsUrl :: "string \<Rightarrow> string" where
  "projectsUrl baseURL = baseURL @ ''/api/v1/org-unit/projects''"

definition workloadsUrl :: "string \<Rightarrow> string" where
  "workloadsUrl baseURL = baseURL @ ''/api/v1/workloads''"

definition workspacesUrl :: "string \<Rightarrow> string" where
  "workspacesUrl baseURL = workloadsUrl baseURL @ ''/workspaces''"

fun runai_edit ::
  "(http_request \<Rightarrow> ('s, http_request) action) list \<Rightarrow> http_request \<Rightarrow> ('s, http_request) action" where
  "runai_edit [] req = returnA req"
| "runai_edit (r # rs) req = bindA (r req) (runai_edit rs)"

definition runai_applyEditors :: "'s RunaiApi \<Rightarrow> http_request \<Rightarrow> ('s, http_request) action" where
  "runai_applyEditors c = runai_edit (api_RequestEditors c)"

definition retryUnauthorizedRequest :: "'s RunaiApi \<Rightarrow> http_request \<Rightarrow> ('s, http_reply) action" where
  "retryUnauthorizedRequest c req =
     bindA (api_GetAccessToken c) (\<lambda>_.
     bindA (runai_applyEditors c req) (api_Do c))"

text \<open>An error with the text of \<^verbatim>\<open>fmt.Errorf("what: %w", err)\<close>.\<close>

definition wrap_err :: "string \<Rightarrow> go_error \<Rightarrow> go_error" where
  "wrap_err what e = (case e of Panicked m \<Rightarrow> Panicked m | _ \<Rightarrow> Err (what @ '': '' @ err_msg e))"

definition wrapA :: "string \<Rightarrow> ('s, 'a) action \<Rightarrow> ('s, 'a) action" where
  "wrapA what m s = (case m s of (s', Inl e) \<Rightarrow> (s', Inl (wrap_err what e)) | (s', Inr x) \<Rightarrow> (s', Inr x))"

text \<open>
  What every operation does with its request: it is sent, and sent once more if the reply is
  401. Sending it has read the body, a plain reader with nothing to rewind it, so the request
  that is sent again has an empty body.
\<close>

definition runai_send :: "'s RunaiApi \<Rightarrow> string \<Rightarrow> http_request \<Rightarrow> ('s, http_reply) action" where
  "runai_send c what req =
     bindA (wrapA (''failed to send '' @ what @ '' request'') (api_Do c req)) (\<lambda>resp.
       if rp_StatusCode resp = 401
       then wrapA (''failed to retry '' @ what @ '' request'')
              (retryUnauthorizedRequest c (req\<lparr> rq_Body := [] \<rparr>))
       else returnA resp)"

text \<open>The check of the status; a body that cannot be read is shown as empty.\<close>

definition runai_expect :: "int \<Rightarrow> string \<Rightarrow> http_reply \<Rightarrow> unit result" where
  "runai_expect code what resp =
     (if rp_StatusCode resp \<noteq> code
      then Inl (Err (what @ '' request failed with status '' @ show_int (rp_StatusCode resp) @ '': ''
             @ (case rp_Body resp of Inr b \<Rightarrow> b | Inl _ \<Rightarrow> [])))
      else Inr ())"

definition runai_decode ::
  "string \<Rightarrow> (string \<Rightarrow> 'a result) \<Rightarrow> http_reply \<Rightarrow> 'a result" where
  "runai_decode what dec resp =
     (case bindE (rp_Body resp) dec of
        Inl e \<Rightarrow> Inl (wrap_err (''failed to decode '' @ what @ '' response'') e)
      | Inr x \<Rightarrow> Inr x)"

definition GetProjects :: "'s RunaiApi \<Rightarrow> ('s, ProjectResponse list) action" where
  "GetProjects c =
     bindA (wrapA ''failed to make get projects request''
       (liftE (http_NewRequest (api_parseAuthority c) ''GET'' (projectsUrl (api_BaseURL c)) []))) (\<lambda>req.
     bindA (runai_applyEditors c req) (\<lambda>req.
     bindA (runai_send c ''projects'' req) (\<lambda>resp.
     liftE (bindE (runai_expect 200 ''projects'' resp) (\<lambda>_.
       runai_decode ''projects'' decode_ProjectsResponse resp)))))"

text \<open>The filter is added to the query of the URL that \<^verbatim>\<open>http.NewRequest\<close> has parsed.\<close>

definition projects_by_name_request :: "authority_parser \<Rightarrow> string \<Rightarrow> string \<Rightarrow> http_request result" where
  "projects_by_name_request pa baseURL name =
     bindE (http_NewRequest pa ''GET'' (projectsUrl baseURL) []) (\<lambda>req.
     bindE (url_Parse pa (projectsUrl baseURL)) (\<lambda>u.
     Inr (req\<lparr> rq_URL := url_String (u\<lparr> u_RawQuery :=
       Values_Encode (Values_Add ''filterBy'' (''name=='' @ name) (url_Query u)) \<rparr>) \<rparr>)))"

definition GetProjectsByName :: "'s RunaiApi \<Rightarrow> string \<Rightarrow> ('s, ProjectResponse list) action" where
  "GetProjectsByName c name =
     bindA (wrapA ''failed to make get projects by name request''
       (liftE (projects_by_name_request (api_parseAuthority c) (api_BaseURL c) name))) (\<lambda>req.
     bindA (runai_applyEditors c req) (\<lambda>req.
     bindA (runai_send c ''get projects by name'' req) (\<lambda>resp.
     liftE (bindE (runai_expect 200 ''get projects by name'' resp) (\<lambda>_.
       runai_decode ''projects'' decode_ProjectsResponse resp)))))"

definition GetWorkloads :: "'s RunaiApi \<Rightarrow> ('s, WorkloadResponse list) action" where
  "GetWorkloads c =
     bindA (wrapA ''failed to make get workloads request''
       (liftE (http_NewRequest (api_parseAuthority c) ''GET'' (workloadsUrl (api_BaseURL c)) []))) (\<lambda>req.
     bindA (runai_applyEditors c req) (\<lambda>req.
     bindA (runai_send c ''get workloads'' req) (\<lambda>resp.
     liftE (bindE (runai_expect 200 ''get workloads'' resp) (\<lambda>_.
       runai_decode ''workloads'' decode_WorkloadsResponse resp)))))"

definition CreateWorkspace ::
  "'s RunaiApi \<Rightarrow> ProjectResponse \<Rightarrow> string \<Rightarrow> WorkspaceSpec \<Rightarrow> ('s, WorkspaceResponse) action" where
  "CreateWorkspace c project jobName spec =
     bindA (wrapA ''failed to make create workspace request''
       (liftE (http_NewRequest (api_parseAuthority c) ''POST'' (workspacesUrl (api_BaseURL c)) []))) (\<lambda>req.
     bindA (runai_applyEditors c req) (\<lambda>req.
     let body = \<lparr> wpb_Name = jobName, wpb_ProjectId = prj_Id project,
           wpb_ClusterId = prj_ClusterId project, wpb_Spec = spec \<rparr>;
         req = Header_Set ''Content-Type'' ''application/json''
           (req\<lparr> rq_Body := json_Marshal (encode_WorkspacePostBody body) \<rparr>) in
     bindA (runai_send c ''create workspace'' req) (\<lambda>resp.
     liftE (bindE (runai_expect 202 ''create workspace'' resp) (\<lambda>_.
       runai_decode ''workspace'' (decode_WorkspaceResponse (api_unmarshalTime c)) resp)))))"

definition DeleteWorkspace :: "'s RunaiApi \<Rightarrow> string \<Rightarrow> ('s, unit) action" where
  "DeleteWorkspace c i =
     bindA (wrapA ''failed to make delete workspace request''
       (liftE (http_NewRequest (api_parseAuthority c) ''DELETE''
          (workspacesUrl (api_BaseURL c) @ ''/'' @ i) []))) (\<lambda>req.
     bindA (runai_applyEditors c req) (\<lambda>req.
     bindA (runai_send c ''delete workspace'' req) (\<lambda>resp.
     liftE (runai_expect 202 ''delete workspace'' resp))))"

lemma keeps_wrapA: "keeps f m \<Longrightarrow> keeps f (wrapA what m)"
  unfolding keeps_def wrapA_def by (simp add: split_beta split: sum.split)

end
