(* ===== verification/Runai_Controller.thy ===== *)
theory Runai_Controller
  imports Runai_Client
begin

text \<open>
  The controller of sessions on Run:AI: \<^verbatim>\<open>src/internal/remote/runai/controller.go\<close>. Its methods
  are actions on the pair of the world and the controller.
\<close>

record RunaiRemoteSessionController =
  rrc_jobName :: string
  rrc_jobId :: string
  rrc_project :: string
  rrc_currentStatus :: RemoteSessionState
  rrc_currentStatusError :: "go_error option"
  rrc_fakeStart :: bool

type_synonym ('s, 'a) ra_method = "('s \<times> RunaiRemoteSessionController, 'a) action"

section \<open>Saved state\<close>

record runai_savedState =
  rsv_JobName :: string
  rsv_JobId :: string

definition encode_runai_savedState :: "runai_savedState \<Rightarrow> json" where
  "encode_runai_savedState s =
     JObj [(''job_name'', JStr (rsv_JobName s)), (''job_id'', JStr (rsv_JobId s))]"

definition decode_runai_savedState :: "string \<Rightarrow> runai_savedState result" where
  "decode_runai_savedState contents =
     bindE (bindE (json_parse contents) json_object) (\<lambda>ms.
     bindE (decode_string (json_member ''job_name'' ms)) (\<lambda>jobName.
     bindE (decode_string (json_member ''job_id'' ms)) (\<lambda>jobId.
     Inr \<lparr> rsv_JobName = jobName, rsv_JobId = jobId \<rparr>)))"

text \<open>The working directory and the mount directory.\<close>

definition getRenkuSessionDirs :: "'s remote_host \<Rightarrow> string \<times> string" where
  "getRenkuSessionDirs h =
     (let workDir = TrimSuffix (Getenv h ''RENKU_WORKING_DIR'') ''/'';
          workDir = (if workDir = [] then ''/home/renku/work'' else workDir);
          mountDir = TrimSuffix (Getenv h ''RENKU_MOUNT_DIR'') ''/'';
          mountDir = (if mountDir = [] then workDir else mountDir)
      in (workDir, mountDir))"

definition ra_getSaveDirPath :: "'s remote_host \<Rightarrow> string" where
  "ra_getSaveDirPath h = filepath_Join [snd (getRenkuSessionDirs h), ''.rsc'']"

definition ra_getSavePath :: "'s remote_host \<Rightarrow> string" where
  "ra_getSavePath h = filepath_Join [ra_getSaveDirPath h, ''state.json'']"

definition ra_deleteSavedState :: "'s remote_host \<Rightarrow> ('s, unit) action" where
  "ra_deleteSavedState h = rh_Remove h (ra_getSavePath h)"

definition recoverJobInfo :: "'s remote_host \<Rightarrow> ('s, unit) ra_method" where
  "recoverJobInfo h =
     bindA (liftA (tryA (rh_ReadFile h (ra_getSavePath h)))) (\<lambda>r.
       case r of
         Inl _ \<Rightarrow> returnA ()
       | Inr contents \<Rightarrow>
           bindA (liftE (decode_runai_savedState contents)) (\<lambda>state.
             if rsv_JobName state \<noteq> []
             then modifyA (\<lambda>c. c\<lparr> rrc_jobName := rsv_JobName state \<rparr>)
             else returnA ()))"

definition saveJobInfo :: "'s remote_host \<Rightarrow> ('s, unit) ra_method" where
  "saveJobInfo h =
     bindA getA (\<lambda>c.
       if rrc_jobId c = [] then failA (Err ''cannot save, job id is not defined'')
       else bindA (liftA (rh_MkdirAll h (ra_getSaveDirPath h))) (\<lambda>_.
         liftA (rh_WriteFile h (ra_getSavePath h) (json_Marshal (encode_runai_savedState
           \<lparr> rsv_JobName = rrc_jobName c, rsv_JobId = rrc_jobId c \<rparr>)))))"

section \<open>Start and stop\<close>

text \<open>The first of the projects with the name, which need not be its name exactly.\<close>

definition getProject :: "'s RunaiApi \<Rightarrow> string \<Rightarrow> ('s, ProjectResponse option) action" where
  "getProject cl projectName =
     bindA (GetProjectsByName cl projectName) (\<lambda>projects.
     returnA (case projects of [] \<Rightarrow> None | p # _ \<Rightarrow> Some p))"

definition env_or :: "string \<Rightarrow> string \<Rightarrow> string" where
  "env_or v d = (if v = [] then d else v)"

definition workspace_spec :: "'s remote_host \<Rightarrow> WorkspaceSpec" where
  "workspace_spec h =
     (let renkuProjectPath = env_or (TrimSuffix (Getenv h ''RENKU_PROJECT_PATH'') ''/'') ''dev-project'';
          renkuBaseURLPath = env_or (TrimSuffix (Getenv h ''RENKU_BASE_URL_PATH'') ''/'') ''/'';
          (renkuWorkDir, renkuMountDir) = getRenkuSessionDirs h;
          renkuPort = env_or (Getenv h ''RENKU_SESSION_PORT'') ''8888''
      in \<lparr> wss_Image = Getenv h ''REMOTE_SESSION_IMAGE'',
           wss_EnvironmentVariables =
            [\<lparr> wse_Name = ''RENKU_PROJECT_PATH'', wse_Value = renkuProjectPath \<rparr>,
             \<lparr> wse_Name = ''RENKU_BASE_URL_PATH'', wse_Value = renkuBaseURLPath \<rparr>,
             \<lparr> wse_Name = ''HOME'', wse_Value = renkuWorkDir \<rparr>,
             \<lparr> wse_Name = ''RENKU_SESSION_PORT'', wse_Value = renkuPort \<rparr>,
             \<lparr> wse_Name = ''RENKU_MOUNT_DIR'', wse_Value = renkuMountDir \<rparr>,
             \<lparr> wse_Name = ''RENKU_WORKING_DIR'', wse_Value = renkuWorkDir \<rparr>] \<rparr>)"

text \<open>The name of the job has the time of the start.\<close>

definition name_job :: "'s remote_host \<Rightarrow> ('s, unit) ra_method" where
  "name_job h = (\<lambda>(w, c).
     ((w, c\<lparr> rrc_jobName := ''amalthea-'' @ rrc_project c @ ''-'' @ rh_timestamp h w \<rparr>), Inr ()))"

definition create_workspace :: "'s remote_host \<Rightarrow> 's RunaiApi \<Rightarrow> ('s, unit) ra_method" where
  "create_workspace h cl =
     bindA getA (\<lambda>c.
     bindA (wrapA ''failed to get project'' (liftA (getProject cl (rrc_project c)))) (\<lambda>project.
       case project of
         None \<Rightarrow> failA (Err (''project '' @ rrc_project c @ '' not found''))
       | Some project \<Rightarrow>
           bindA (wrapA ''failed to create workspace''
             (liftA (CreateWorkspace cl project (rrc_jobName c) (workspace_spec h)))) (\<lambda>workspaceResp.
           bindA (modifyA (\<lambda>c. c\<lparr> rrc_jobId := wsr_WorkloadId workspaceResp \<rparr>)) (\<lambda>_.
           saveJobInfo h))))"

definition ra_Start :: "'s remote_host \<Rightarrow> 's RunaiApi \<Rightarrow> ('s, unit) ra_method" where
  "ra_Start h cl =
     bindA (recoverJobInfo h) (\<lambda>_.
     bindA getA (\<lambda>c.
       if rrc_jobName c \<noteq> [] then returnA ()
       else bindA (name_job h) (\<lambda>_.
         if rrc_fakeStart c then returnA ()
         else create_workspace h cl)))"

definition ra_Stop :: "'s remote_host \<Rightarrow> 's RunaiApi \<Rightarrow> ('s, unit) ra_method" where
  "ra_Stop h cl =
     bindA getA (\<lambda>c.
       if rrc_jobId c = [] then returnA ()
       else bindA (liftA (tryA (ra_deleteSavedState h))) (\<lambda>_.
         wrapA ''failed to delete workspace'' (liftA (DeleteWorkspace cl (rrc_jobId c)))))"

section \<open>Status\<close>

definition ra_Status :: "RunaiRemoteSessionController \<Rightarrow> RemoteSessionState \<times> go_error option" where
  "ra_Status c = (rrc_currentStatus c, rrc_currentStatusError c)"

text \<open>The workloads are only logged: with a job, the state that is returned was never set.\<close>

definition ra_getCurrentStatus ::
  "'s RunaiApi \<Rightarrow> RunaiRemoteSessionController \<Rightarrow> 's \<Rightarrow> 's \<times> RemoteSessionState \<times> go_error option" where
  "ra_getCurrentStatus cl c w =
     (case GetWorkloads cl w of
        (w', Inl e) \<Rightarrow> (w', RemoteNotReady, Some e)
      | (w', Inr _) \<Rightarrow>
          (w', if rrc_jobName c = [] then RemoteNotReady else RemoteUnset, None))"

definition ra_status_turn :: "'s RunaiApi \<Rightarrow> ('s, unit) ra_method" where
  "ra_status_turn cl = (\<lambda>(w, c).
     let (w', state, err) = ra_getCurrentStatus cl c w
     in ((w', c\<lparr> rrc_currentStatus := state, rrc_currentStatusError := err \<rparr>), Inr ()))"

section \<open>Construction\<close>

definition runai_client ::
  "'w auth_net \<Rightarrow> (string \<Rightarrow> time result) \<Rightarrow> url \<Rightarrow> ('w \<times> RunaiClientCredentialsAuth) RunaiApi" where
  "runai_client net unmarshalTime baseURL =
     NewRunaiClient (an_parseAuthority net) unmarshalTime (rca_GetAccessToken net)
       (\<lambda>req. liftA (an_Do net req)) baseURL"

definition NewRunaiRemoteSessionController ::
  "'w auth_net \<Rightarrow> (string \<Rightarrow> time result) \<Rightarrow> RemoteSessionControllerConfig
   \<Rightarrow> (RunaiClientCredentialsAuth \<times> ('w \<times> RunaiClientCredentialsAuth) RunaiApi
        \<times> RunaiRemoteSessionController) result" where
  "NewRunaiRemoteSessionController net unmarshalTime cfg =
     bindE (NewRunaiAuth (rc_AuthConfig (rs_Runai cfg))) (\<lambda>a.
     bindE (url_Parse (an_parseAuthority net) (rc_BaseURL (rs_Runai cfg))) (\<lambda>runaiBaseURL.
       if rc_Project (rs_Runai cfg) = [] then Inl (Err ''project is not set'')
       else Inr (a, runai_client net unmarshalTime runaiBaseURL,
         \<lparr> rrc_jobName = [], rrc_jobId = [], rrc_project = rc_Project (rs_Runai cfg),
           rrc_currentStatus = RemoteNotReady, rrc_currentStatusError = None,
           rrc_fakeStart = rs_FakeStart cfg \<rparr>)))"

end
