(* ===== verification/Remote_Server.thy ===== *)
theory Remote_Server
  imports Firecrest_Controller Runai_Controller
begin

text \<open>
  The remote session controller as a process: the interface of the controllers
  (\<^verbatim>\<open>src/internal/remote/controller/controller.go\<close>), the HTTP endpoints and the main function
  (\<^verbatim>\<open>src/internal/remote/server/server.go\<close>).
\<close>

section \<open>The interface of the controllers\<close>

text \<open>
  A value of the interface is one of the two controllers, with its client and the state of its
  authentication. The host's actions do not look at the authentication.
\<close>

definition lift_host :: "'w remote_host \<Rightarrow> ('w \<times> 'a) remote_host" where
  "lift_host h = \<lparr> rh_Environ = rh_Environ h,
     rh_ReadFile = (\<lambda>p. liftA (rh_ReadFile h p)),
     rh_WriteFile = (\<lambda>p t. liftA (rh_WriteFile h p t)),
     rh_MkdirAll = (\<lambda>p. liftA (rh_MkdirAll h p)),
     rh_Remove = (\<lambda>p. liftA (rh_Remove h p)),
     rh_ReadDir = (\<lambda>p. liftA (rh_ReadDir h p)),
     rh_ctx_Err = liftA (rh_ctx_Err h),
     rh_Stdout = (\<lambda>t. liftA (rh_Stdout h t)),
     rh_order = rh_order h,
     rh_timestamp = (\<lambda>s. rh_timestamp h (fst s)),
     rh_boundary = (\<lambda>s. rh_boundary h (fst s)),
     rh_ParseDockerRef = rh_ParseDockerRef h,
     rh_FamiliarString = rh_FamiliarString h \<rparr>"

datatype 'w RemoteSessionController =
    FirecrestRSC "('w \<times> FirecrestAuth) Client" FirecrestAuth FirecrestRemoteSessionController
  | RunaiRSC "('w \<times> RunaiClientCredentialsAuth) RunaiApi" RunaiClientCredentialsAuth
      RunaiRemoteSessionController

type_synonym ('w, 'a) rsc_method = "('w \<times> 'w RemoteSessionController, 'a) action"

text \<open>What the process is given: the network, the host and the embedded session script.\<close>

record 'w rsc_env =
  re_net :: "'w auth_net"
  re_runtime :: api_runtime
  re_unmarshalTime :: "string \<Rightarrow> time result"
  re_host :: "'w remote_host"
  re_script :: string

definition NewRemoteSessionController ::
  "'w rsc_env \<Rightarrow> RemoteSessionControllerConfig \<Rightarrow> 'w RemoteSessionController result" where
  "NewRemoteSessionController e cfg =
     (if rs_RemoteKind cfg = RemoteKindFirecrest then
        bindE (NewFirecrestRemoteSessionController (re_net e) (re_runtime e) cfg) (\<lambda>(a, cl, c).
        Inr (FirecrestRSC cl a c))
      else if rs_RemoteKind cfg = RemoteKindRunai then
        bindE (NewRunaiRemoteSessionController (re_net e) (re_unmarshalTime e) cfg) (\<lambda>(a, cl, c).
        Inr (RunaiRSC cl a c))
      else Inl (Err (''remote kind: '' @ [CHR 0x27] @ rs_RemoteKind cfg @ [CHR 0x27]
                     @ '' is not supported'')))"

text \<open>The methods of the interface, and one turn of the loop that \<^verbatim>\<open>Start\<close> leaves behind.\<close>

definition on_firecrest ::
  "('w \<times> FirecrestAuth) Client \<Rightarrow> FirecrestAuth \<Rightarrow> FirecrestRemoteSessionController
   \<Rightarrow> ('w \<times> FirecrestAuth, unit) fc_method \<Rightarrow> 'w
   \<Rightarrow> ('w \<times> 'w RemoteSessionController) \<times> unit result" where
  "on_firecrest cl a c m w =
     (case m ((w, a), c) of (((w', a'), c'), r) \<Rightarrow> ((w', FirecrestRSC cl a' c'), r))"

definition on_runai ::
  "('w \<times> RunaiClientCredentialsAuth) RunaiApi \<Rightarrow> RunaiClientCredentialsAuth
   \<Rightarrow> RunaiRemoteSessionController \<Rightarrow> ('w \<times> RunaiClientCredentialsAuth, unit) ra_method \<Rightarrow> 'w
   \<Rightarrow> ('w \<times> 'w RemoteSessionController) \<times> unit result" where
  "on_runai cl a c m w =
     (case m ((w, a), c) of (((w', a'), c'), r) \<Rightarrow> ((w', RunaiRSC cl a' c'), r))"

fun rsc_Start :: "'w rsc_env \<Rightarrow> ('w, unit) rsc_method" where
  "rsc_Start e (w, FirecrestRSC cl a c) =
     on_firecrest cl a c (fc_Start (lift_host (re_host e)) cl (re_script e)) w"
| "rsc_Start e (w, RunaiRSC cl a c) =
     on_runai cl a c (ra_Start (lift_host (re_host e)) cl) w"

fun rsc_Stop :: "'w rsc_env \<Rightarrow> ('w, unit) rsc_method" where
  "rsc_Stop e (w, FirecrestRSC cl a c) =
     on_firecrest cl a c (fc_Stop (lift_host (re_host e)) cl) w"
| "rsc_Stop e (w, RunaiRSC cl a c) =
     on_runai cl a c (ra_Stop (lift_host (re_host e)) cl) w"

fun rsc_Status :: "'w RemoteSessionController \<Rightarrow> RemoteSessionState \<times> go_error option" where
  "rsc_Status (FirecrestRSC cl a c) = fc_Status c"
| "rsc_Status (RunaiRSC cl a c) = ra_Status c"

fun rsc_turn :: "'w rsc_env \<Rightarrow> ('w, unit) rsc_method" where
  "rsc_turn e (w, FirecrestRSC cl a c) =
     on_firecrest cl a c (fc_status_turn (lift_host (re_host e)) cl) w"
| "rsc_turn e (w, RunaiRSC cl a c) = on_runai cl a c (ra_status_turn cl) w"

section \<open>The endpoints\<close>

datatype response_body = NoContent | TextBody string | JSONBody json

record endpoint_response =
  er_Code :: int
  er_Body :: response_body

fun state_string :: "RemoteSessionState \<Rightarrow> string" where
  "state_string RemoteRunning = ''Running''"
| "state_string RemoteFailed = ''Failed''"
| "state_string RemoteCompleted = ''Completed''"
| "state_string RemoteNotReady = ''NotReady''"
| "state_string RemoteUnset = []"

text \<open>An error is encoded through its exported fields, and the errors that occur have none.\<close>

definition encode_statusResponse :: "RemoteSessionState \<Rightarrow> go_error option \<Rightarrow> json" where
  "encode_statusResponse status err = JObj
     ([(''status'', JStr (state_string status))]
      @ (case err of None \<Rightarrow> [] | Some _ \<Rightarrow> [(''error'', JObj [])]))"

definition status_endpoint :: "RemoteSessionState \<times> go_error option \<Rightarrow> endpoint_response" where
  "status_endpoint = (\<lambda>(status, err).
     if err = None \<and> status = RemoteRunning
     then \<lparr> er_Code = 200, er_Body = JSONBody (encode_statusResponse status None) \<rparr>
     else \<lparr> er_Code = 503, er_Body = JSONBody (encode_statusResponse status err) \<rparr>)"

text \<open>
  The readiness of the session as seen from the container: a connection, or a request whose
  redirects are not followed.
\<close>

record 'w probe_net =
  pn_DialTCP :: "string \<Rightarrow> ('w, unit) action"
  pn_Do :: "http_request \<Rightarrow> ('w, int) action"
  pn_parseAuthority :: authority_parser

definition status_only :: "int \<Rightarrow> endpoint_response" where
  "status_only code = \<lparr> er_Code = code, er_Body = NoContent \<rparr>"

definition ready_endpoint ::
  "'w probe_net \<Rightarrow> RemoteSessionControllerConfig \<Rightarrow> 'w \<Rightarrow> 'w \<times> endpoint_response" where
  "ready_endpoint pn cfg w =
     (if rs_ReadinessProbeType cfg = ReadinessProbeType_string ProbeTCP then
        (case pn_DialTCP pn (''127.0.0.1:'' @ show_int (rs_SessionPort cfg)) w of
           (w', Inl _) \<Rightarrow> (w', status_only 503)
         | (w', Inr _) \<Rightarrow> (w', status_only 200))
      else if rs_ReadinessProbeType cfg = ReadinessProbeType_string ProbeHTTP then
        (case http_NewRequest (pn_parseAuthority pn) ''GET''
                (''http://127.0.0.1:'' @ show_int (rs_SessionPort cfg) @ rs_SessionURLPath cfg) [] of
           Inl _ \<Rightarrow> (w, status_only 503)
         | Inr req \<Rightarrow>
           (case pn_Do pn req w of
              (w', Inl _) \<Rightarrow> (w', status_only 503)
            | (w', Inr code) \<Rightarrow>
                (w', status_only (if code \<ge> 200 \<and> code < 400 then 200 else 503))))
      else (w, status_only 200))"

definition rsc_GET ::
  "'w probe_net \<Rightarrow> RemoteSessionControllerConfig \<Rightarrow> 'w RemoteSessionController \<Rightarrow> string \<Rightarrow> 'w
   \<Rightarrow> 'w \<times> endpoint_response" where
  "rsc_GET pn cfg c path w =
     (if path = ''/'' then
        (w, \<lparr> er_Code = 200, er_Body = TextBody ''Remote session controller: OK'' \<rparr>)
      else if path = ''/live'' then (w, status_only 200)
      else if path = ''/ready'' then ready_endpoint pn cfg w
      else if path = ''/status'' then (w, status_endpoint (rsc_Status c))
      else (w, \<lparr> er_Code = 404, er_Body = JSONBody (JObj [(''message'', JStr ''Not Found'')]) \<rparr>))"

section \<open>The process\<close>

text \<open>Up to the construction of the controller, every error ends the process with status 1.\<close>

definition rsc_load ::
  "'w rsc_env \<Rightarrow> viper \<Rightarrow> (int + RemoteSessionControllerConfig \<times> 'w RemoteSessionController)" where
  "rsc_load e v =
     (case remote_Validate (an_parseAuthority (re_net e)) (remote_GetConfig v) of
        (_, Some _) \<Rightarrow> Inl 1
      | (cfg, None) \<Rightarrow>
        (case NewRemoteSessionController e cfg of
           Inl _ \<Rightarrow> Inl 1
         | Inr c \<Rightarrow> Inr (cfg, c)))"

text \<open>
  From there on the main goroutine and the two it starts take turns. The main one starts the
  session, waits for a signal, stops the session and shuts the server down. The calls it has
  made of the controller are kept with the state, newest first.
\<close>

datatype rsc_phase = PhaseStart | PhaseWait | PhaseStop | PhaseShutdown | PhaseExit int

datatype rsc_call = CalledStart "unit result" | CalledStop "unit result"

record 'w rsc_process =
  pr_phase :: rsc_phase
  pr_state :: "'w \<times> 'w RemoteSessionController"
  pr_calls :: "rsc_call list"

definition rsc_initial :: "'w \<times> 'w RemoteSessionController \<Rightarrow> 'w rsc_process" where
  "rsc_initial s = \<lparr> pr_phase = PhaseStart, pr_state = s, pr_calls = [] \<rparr>"

inductive rsc_step :: "'w rsc_env \<Rightarrow> 'w rsc_process \<Rightarrow> 'w rsc_process \<Rightarrow> bool" for e where
  step_start:
    "pr_phase p = PhaseStart \<Longrightarrow> rsc_Start e (pr_state p) = (s, r) \<Longrightarrow>
     rsc_step e p (p\<lparr> pr_phase := (case r of Inr _ \<Rightarrow> PhaseWait | Inl _ \<Rightarrow> PhaseExit 1),
                       pr_state := s, pr_calls := CalledStart r # pr_calls p \<rparr>)"
| step_signal:
    "pr_phase p = PhaseWait \<Longrightarrow> rsc_step e p (p\<lparr> pr_phase := PhaseStop \<rparr>)"
| step_stop:
    "pr_phase p = PhaseStop \<Longrightarrow> rsc_Stop e (pr_state p) = (s, r) \<Longrightarrow>
     rsc_step e p (p\<lparr> pr_phase := PhaseShutdown, pr_state := s,
                       pr_calls := CalledStop r # pr_calls p \<rparr>)"
| step_shutdown:
    "pr_phase p = PhaseShutdown \<Longrightarrow> code = 0 \<or> code = 1 \<Longrightarrow>
     rsc_step e p (p\<lparr> pr_phase := PhaseExit code \<rparr>)"
| step_turn:
    "\<forall>code. pr_phase p \<noteq> PhaseExit code \<Longrightarrow> rsc_turn e (pr_state p) = (s, r) \<Longrightarrow>
     rsc_step e p (p\<lparr> pr_state := s \<rparr>)"
| step_server_error:
    "pr_phase p \<noteq> PhaseShutdown \<Longrightarrow> \<forall>code. pr_phase p \<noteq> PhaseExit code \<Longrightarrow>
     rsc_step e p (p\<lparr> pr_phase := PhaseExit 1 \<rparr>)"

inductive rsc_reachable ::
  "'w rsc_env \<Rightarrow> 'w \<times> 'w RemoteSessionController \<Rightarrow> 'w rsc_process \<Rightarrow> bool" for e s where
  reach_initial: "rsc_reachable e s (rsc_initial s)"
| reach_step: "rsc_reachable e s p \<Longrightarrow> rsc_step e p q \<Longrightarrow> rsc_reachable e s q"

end
