(* ===== verification/Firecrest_Client_Props.thy ===== *)
theory Firecrest_Client_Props
  imports Firecrest_Client
begin

text \<open>
  Where the requests of the FirecREST client go: resolving the relative path of an operation
  against the server's URL appends it to the path of the server.
\<close>

section \<open>Resolving paths\<close>

lemma split_char_not_Nil [simp]: "split_char sep s \<noteq> []"
  by (cases s) (auto split: list.splits)

lemma split_char_sep: "split_char sep (x @ sep # y) = split_char sep x @ split_char sep y"
proof (induction x)
  case (Cons c x)
  then show ?case by (cases "split_char sep x") auto
qed simp

definition no_dots :: "string \<Rightarrow> bool" where
  "no_dots p \<longleftrightarrow> ''.'' \<notin> set (split_char (CHR ''/'') p) \<and> ''..'' \<notin> set (split_char (CHR ''/'') p)"

definition slashed :: "string list \<Rightarrow> string" where
  "slashed ss = concat (map (\<lambda>s. CHR ''/'' # s) ss)"

lemma slashed_split: "slashed (split_char (CHR ''/'') p) = CHR ''/'' # p"
proof (induction p)
  case (Cons c p)
  then show ?case by (cases "split_char (CHR ''/'') p") (auto simp: slashed_def)
qed (simp add: slashed_def)

lemma resolve_plain:
  assumes "''.'' \<notin> set ss" "''..'' \<notin> set ss"
  shows "resolve_segs ss dst False = dst @ slashed ss"
  using assms by (induction ss arbitrary: dst) (auto simp: slashed_def)

lemma resolve_segs_append:
  assumes "''.'' \<notin> set ss" "''..'' \<notin> set ss"
  shows "resolve_segs (ss @ ts) dst False = resolve_segs ts (dst @ slashed ss) False"
  using assms by (induction ss arbitrary: dst) (auto simp: slashed_def)

lemma last_index_end: "last_index c (s @ [c]) = Some (length s)"
  by (simp add: last_index_def)

lemma resolvePath_operation:
  assumes "b = [] \<or> hd b = CHR ''/''" "no_dots b" "no_dots p"
  shows "resolvePath (b @ ''/'') (''./'' @ p) = b @ ''/'' @ p"
proof -
  let ?split = "split_char (CHR ''/'')"
  obtain bs where b: "?split b = [] # bs"
    using assms(1) by (cases b) auto
  have slashed_b: "slashed bs = b"
    using slashed_split [of b] b by (simp add: slashed_def)
  have full: "?split (b @ ''/'' @ ''./'' @ p) = ([] # bs) @ [''.''] @ ?split p"
    using split_char_sep [of "CHR ''/''" b "''./'' @ p"] split_char_sep [of "CHR ''/''" "''.''" p] b
    by simp
  have "resolve_segs (([] # bs) @ [''.''] @ ?split p) [] True = resolve_segs ([''.''] @ ?split p) (slashed bs) False"
    using assms(2) b by (simp add: no_dots_def resolve_segs_append)
  also have "\<dots> = b @ CHR ''/'' # p"
    using assms(3) by (simp add: no_dots_def resolve_plain slashed_b slashed_split)
  finally have dst: "resolve_segs (([] # bs) @ [''.''] @ ?split p) [] True = b @ CHR ''/'' # p" .
  have "x \<noteq> ''.'' \<and> x \<noteq> ''..''" if "x \<in> set (?split p)" for x
    using that assms(3) by (auto simp: no_dots_def)
  from this [OF last_in_set [OF split_char_not_Nil]]
  have last: "last (([] # bs) @ [''.''] @ ?split p) \<noteq> ''.''"
    "last (([] # bs) @ [''.''] @ ?split p) \<noteq> ''..''" by simp_all
  have "HasPrefix (CHR ''/'' # b @ CHR ''/'' # p) ''//''"
    using assms(1) by (cases b) (auto simp: HasPrefix_def)
  then show ?thesis
    using last_index_end [of "CHR ''/''" b] full dst last
    unfolding resolvePath_def Let_def by simp
qed

section \<open>Requests address the server\<close>

definition plain_path :: "string \<Rightarrow> bool" where
  "plain_path p \<longleftrightarrow> list_all plain_char p \<and> no_dots p"

lemma EscapedPath_plain: "list_all plain_char p \<Longrightarrow> u_Path u = p \<Longrightarrow> u_RawPath u = [] \<Longrightarrow> EscapedPath u = p"
  using url_escape_id [of p encodePath] plain_char_not_escaped
  by (auto simp: EscapedPath_def list_all_iff)

lemma setPath_plain:
  assumes "list_all plain_char p"
  shows "setPath u p = Inr (u\<lparr> u_Path := p, u_RawPath := [] \<rparr>)"
proof -
  have "url_escape encodePath p = p"
    by (rule url_escape_id) (use assms plain_char_not_escaped in \<open>auto simp: list_all_iff\<close>)
  moreover have "url_unescape p = Inr p"
    by (rule url_unescape_id) (use assms plain_char_not_special in \<open>auto simp: list_all_iff\<close>)
  ultimately show ?thesis by (simp add: setPath_def)
qed

lemma url_Parse_relative:
  assumes "list_all plain_char p"
  shows "url_Parse pa (''./'' @ p) = Inr (empty_url\<lparr> u_Path := ''./'' @ p \<rparr>)"
proof -
  let ?s = "''./'' @ p"
  have plain: "list_all plain_char ?s" using assms by (simp add: plain_char_def)
  then have no: "CHR ''?'' \<notin> set ?s" "CHR ''#'' \<notin> set ?s"
    using plain_char_not_special by (auto simp: list_all_iff)
  have ctl: "\<not> containsCTLByte ?s"
    using plain plain_char_not_special by (auto simp: containsCTLByte_def list_ex_iff list_all_iff)
  have cut: "fst (Cut ?s ''/'') = ''.''" by (simp add: Cut_def HasPrefix_def)
  have sch: "getScheme ?s = Inr ([], ?s)"
    by (simp add: getScheme_def is_alpha_def is_digit_def)
  have "parse_ref pa ?s = setPath empty_url ?s"
    using ctl sch cut split_query_absent [OF no(1)]
    by (simp add: parse_ref_def ToLower_def empty_url_def HasPrefix_def str_Contains_def)
  then show ?thesis
    using Cut_absent [OF no(2)] setPath_plain [OF plain]
    by (simp add: url_Parse_def empty_url_def)
qed

lemma operation_url_plain:
  assumes "url_Parse (rt_parseAuthority (cl_runtime c)) (cl_Server c) = Inr u"
    and "u_Path u = b @ ''/''" "u_RawPath u = []" "b = [] \<or> hd b = CHR ''/''"
    and "plain_path b" "plain_path p"
  shows "operation_url c (''/'' @ p) =
    Inr (empty_url\<lparr> u_Scheme := u_Scheme u, u_User := u_User u, u_Host := u_Host u,
                    u_Path := b @ ''/'' @ p \<rparr>)"
proof -
  let ?ref = "empty_url\<lparr> u_Path := ''./'' @ p \<rparr>"
  have chars: "list_all plain_char p" "list_all plain_char (b @ ''/'')"
      "list_all plain_char (''./'' @ p)" "list_all plain_char (b @ ''/'' @ p)"
    using assms(5,6) by (simp_all add: plain_path_def plain_char_def)
  have "ResolveReference u ?ref =
      set_resolved (?ref\<lparr> u_Scheme := u_Scheme u, u_Host := u_Host u, u_User := u_User u \<rparr>)
        (resolvePath (b @ ''/'') (''./'' @ p))"
    using EscapedPath_plain [OF chars(2) assms(2,3)] EscapedPath_plain [OF chars(3), of ?ref]
    by (simp add: ResolveReference_def empty_url_def)
  also have "resolvePath (b @ ''/'') (''./'' @ p) = b @ ''/'' @ p"
    using assms(4-6) by (intro resolvePath_operation) (simp_all add: plain_path_def)
  finally have "ResolveReference u ?ref =
      empty_url\<lparr> u_Scheme := u_Scheme u, u_User := u_User u, u_Host := u_Host u,
                  u_Path := b @ ''/'' @ p \<rparr>"
    using setPath_plain [OF chars(4)] by (simp add: set_resolved_def empty_url_def)
  then show ?thesis
    using assms(1) url_Parse_relative [OF chars(1)]
    by (simp add: operation_url_def url_ParseRef_def HasPrefix_def)
qed

text \<open>The requests of the FirecREST client go to the configured server: the URL of an operation
  has the scheme, the user information and the host of the server's URL, and its path is the
  path of the operation below the path of the server, whatever that path is.
\<close>

lemma operations_address_server:
  assumes "url_Parse (rt_parseAuthority (cl_runtime c)) (cl_Server c) = Inr u"
    and "u_Path u = b @ ''/''" "u_RawPath u = []" "b = [] \<or> hd b = CHR ''/''"
    and "plain_path b" "plain_path p"
  shows "operation_url c (''/'' @ p) =
    Inr (empty_url\<lparr> u_Scheme := u_Scheme u, u_User := u_User u, u_Host := u_Host u,
                    u_Path := b @ ''/'' @ p \<rparr>)"
  by (rule operation_url_plain [OF assms])

end
