(* ===== verification/Remote_Sample.thy ===== *)
theory Remote_Sample
  imports Firecrest_Controller Firecrest_Client_Props Git_Proxy_Props
begin

text \<open>
  A small remote cluster on which the properties of the remote session controllers are
  instantiated: a client whose server gives every request the same reply, and a host with a
  file system.
\<close>

definition sample_system :: HPCCluster where
  "sample_system = \<lparr> hpc_DataOperation = None, hpc_FileSystems = Some
       [\<lparr> fs_DataType = Scratch, fs_DefaultWorkDir = None, fs_Path = ''/scratch'' \<rparr>],
     hpc_LastHealthCheck = None, hpc_Name = ''sys'',
     hpc_Probing = \<lparr> ProbingServices_IntervalCheck = None, ProbingServices_Services = None \<rparr>,
     hpc_Scheduler = \<lparr> Scheduler_ApiUrl = None, Scheduler_ApiVersion = None, Scheduler_ConnectionMode = None,
       Scheduler_Timeout = None, Scheduler_Type = [], Scheduler_Version = [] \<rparr>,
     hpc_ServicesHealth = None,
     hpc_Ssh = \<lparr> SSHClientPool_Host = [], SSHClientPool_MaxClients = None, SSHClientPool_Port = 0,
       SSHClientPool_ProxyHost = None, SSHClientPool_ProxyPort = None, SSHClientPool_Timeout = None \<rparr> \<rparr>"

lemma sample_system_fields [simp]:
  "hpc_Name sample_system = ''sys''"
  "hpc_FileSystems sample_system =
     Some [\<lparr> fs_DataType = Scratch, fs_DefaultWorkDir = None, fs_Path = ''/scratch'' \<rparr>]"
  by (simp_all add: sample_system_def)

text \<open>What the server writes, by the URL of the request.\<close>

definition systems_reply :: json where
  "systems_reply = JObj [(''systems'', JArr [JObj [(''name'', JStr ''sys''), (''fileSystems'',
     JArr [JObj [(''dataType'', JStr ''scratch''), (''path'', JStr ''/scratch'')]])]])]"

definition job_reply :: "string \<Rightarrow> json" where
  "job_reply state = JObj [(''jobs'', JArr [JObj [(''status'', JObj [(''state'', JStr state)])]])]"

definition sample_reply :: "string \<Rightarrow> string \<Rightarrow> http_request \<Rightarrow> json" where
  "sample_reply state body req =
     (let u = rq_URL req in
      if u = ''/status/systems'' then systems_reply
      else if u = ''/status/sys/userinfo'' then JObj [(''user'', JObj [(''name'', JStr ''alice'')])]
      else if u = ''/compute/sys/jobs'' then JObj [(''jobId'', JStr ''42'')]
      else if u = ''/compute/sys/jobs/42'' then job_reply state
      else if HasPrefix u ''/filesystem/sys/ops/view'' then JObj [(''output'', JStr body)]
      else JObj [])"

lemmas read_reply = firecrest_decoders_def unmarshal_def json_parse_Marshal pointer_field_def decode_pointer_def
  json_lookup_def json_member_def ToLower_def lower_char_def

lemma dec_systems_reply: "dec_Systems (firecrest_decoders pt) (json_Marshal systems_reply) = Inr [sample_system]"
  by (simp add: read_reply systems_reply_def decode_GetSystemsResponse_def decode_HPCCluster_def
      decode_FileSystem_def decode_FileSystemDataType_def decode_ProbingServices_def decode_Scheduler_def
      decode_SSHClientPool_def sample_system_def del: json_Marshal.simps)

lemma dec_job_reply: "dec_Job (firecrest_decoders pt) (json_Marshal (job_reply state)) = Inr (Some [state])"
  by (simp add: read_reply job_reply_def decode_GetJobResponse_def decode_JobModel_def decode_JobStatus_def
      decode_JobTime_def del: json_Marshal.simps)

lemma dec_small_replies:
  "dec_UserInfo (firecrest_decoders pt) (json_Marshal (JObj [(''user'', JObj [(''name'', JStr n)])])) = Inr n"
  "dec_JobSubmission (firecrest_decoders pt) (json_Marshal (JObj [(''jobId'', JStr n)])) = Inr (Some n)"
  "dec_ViewFile (firecrest_decoders pt) (json_Marshal (JObj [(''output'', JStr n)])) = Inr (Some n)"
  "dec_JobMetadata (firecrest_decoders pt) (json_Marshal (JObj [])) = Inr None"
  "dec_Mkdir (firecrest_decoders pt) (json_Marshal (JObj [])) = Inr ()"
  "dec_Chmod (firecrest_decoders pt) (json_Marshal (JObj [])) = Inr ()"
  by (simp_all add: read_reply decode_UserInfoResponse_def decode_PosixIdentified_def
      decode_PostJobSubmissionResponse_def decode_GetViewFileResponse_def decode_GetJobMetadataResponse_def
      decode_PostMkdirResponse_def decode_PutFileChmodResponse_def del: json_Marshal.simps)

lemmas sample_replies = dec_systems_reply dec_job_reply dec_small_replies

text \<open>Only the start of a file can be viewed.\<close>

definition sample_style :: "string \<Rightarrow> bool \<Rightarrow> string \<Rightarrow> param \<Rightarrow> string result" where
  "sample_style style explode name v =
     (if style = ''simple'' then (case v of PString s \<Rightarrow> Inr s | PInt n \<Rightarrow> Inr (show_int n)
       | PBool b \<Rightarrow> Inr (if b then ''true'' else ''false''))
      else if name = ''offset'' \<and> v \<noteq> PInt 0 then Inl (Err ''out of range'')
      else Inr ''q'')"

definition sample_client :: "(http_request \<Rightarrow> int) \<Rightarrow> string \<Rightarrow> string \<Rightarrow> 's Client" where
  "sample_client code state body = \<lparr> cl_Server = ''/'',
     cl_Do = (\<lambda>req w. (w, Inr \<lparr> rp_StatusCode = code req, rp_Status = [],
       rp_ContentType = ''application/json'', rp_Body = Inr (json_Marshal (sample_reply state body req)) \<rparr>)),
     cl_RequestEditors = [],
     cl_runtime = \<lparr> rt_StyleParam = sample_style, rt_parseAuthority = (\<lambda>a. Inr (None, a)),
       rt_unmarshalTime = (\<lambda>_. Inr zero_time) \<rparr> \<rparr>"

lemma parse_root: "url_Parse pa ''/'' = Inr (empty_url\<lparr> u_Path := ''/'' \<rparr>)"
  using url_Parse_plain [of "[]" pa] by (simp add: plain_char_def HasPrefix_def)

lemma sample_operation_url:
  assumes "plain_path p"
  shows "operation_url (sample_client code state body) (CHR ''/'' # p) =
    Inr (empty_url\<lparr> u_Path := CHR ''/'' # p \<rparr>)"
  using operation_url_plain [of "sample_client code state body" "empty_url\<lparr> u_Path := ''/'' \<rparr>" "[]" p]
    assms parse_root
  by (simp add: sample_client_def empty_url_def plain_path_def no_dots_def)

lemma url_String_path:
  assumes "list_all plain_char p" "\<not> HasPrefix p ''/''"
  shows "url_String (empty_url\<lparr> u_Path := CHR ''/'' # p \<rparr>) = CHR ''/'' # p"
proof -
  have "EscapedPath (empty_url\<lparr> u_Path := CHR ''/'' # p \<rparr>) = CHR ''/'' # p"
    using assms(1) by (intro EscapedPath_plain) (simp_all add: plain_char_def empty_url_def)
  moreover have "fst (Cut (CHR ''/'' # p) ''/'') = []" by (simp add: Cut_def HasPrefix_def)
  ultimately show ?thesis
    by (simp add: url_String_def empty_url_def HasPrefix_def str_Contains_def)
qed

text \<open>A request of the sample client for a plain path.\<close>

lemma sample_new_request:
  assumes "plain_path p" "hd p \<noteq> CHR ''/''"
  shows "new_request (sample_client code state body) meth (empty_url\<lparr> u_Path := CHR ''/'' # p \<rparr>) b =
    Inr \<lparr> rq_Method = meth, rq_URL = CHR ''/'' # p, rq_Header = fmempty, rq_Body = b \<rparr>"
proof -
  have p: "list_all plain_char p" "\<not> HasPrefix p ''/''"
    using assms by (cases p; simp add: plain_path_def HasPrefix_def)+
  then have "url_Parse pa (CHR ''/'' # p) = Inr (empty_url\<lparr> u_Path := CHR ''/'' # p \<rparr>)" for pa
    by (intro url_Parse_plain) (auto simp: list_all_iff plain_char_def)
  then show ?thesis
    using url_String_path [OF p] by (simp add: new_request_def http_NewRequest_def)
qed

lemma sample_path_param [simp]: "path_param (sample_client code state body) name v = Inr v"
  by (simp add: path_param_def sample_client_def sample_style_def)

lemma sample_query_path [simp]: "query_param (sample_client code state body) ''path'' v = Inr ''q''"
  by (simp add: query_param_def sample_client_def sample_style_def)

lemma sample_client_send:
  "client_send (sample_client code state body) (Inr req) w =
     (w, Inr \<lparr> rp_StatusCode = code req, rp_Status = [], rp_ContentType = ''application/json'',
            rp_Body = Inr (json_Marshal (sample_reply state body req)) \<rparr>)"
  by (simp add: client_send_def sample_client_def bindA_def returnA_def)

lemma client_send_error [simp]: "client_send c (Inl e) w = (w, Inl e)"
  by (simp add: client_send_def failA_def)

lemma sample_runtime [simp]:
  "rt_parseAuthority (cl_runtime (sample_client code state body)) = (\<lambda>a. Inr (None, a))"
  by (simp add: sample_client_def)

lemma json_content [simp]: "str_Contains ''application/json'' ''json''"
  by (simp add: str_Contains_def HasPrefix_def)

lemma plain_strings [simp]:
  "plain_path ''filesystem/sys/ops/view''" "plain_path ''status/systems''"
  "plain_path ''status/sys/userinfo''" "plain_path ''filesystem/sys/ops/mkdir''"
  "plain_path ''filesystem/sys/ops/chmod''" "plain_path ''filesystem/sys/ops/upload''"
  "plain_path ''compute/sys/jobs''" "plain_path ''compute/sys/jobs/42/metadata''"
  "plain_path ''compute/sys/jobs/42''"
  by (simp_all add: plain_path_def no_dots_def plain_char_def is_alnum_def)

text \<open>Viewing a file needs the query, which is the one part of the URL that is not its path.\<close>

lemma query_view:
  "set_query (empty_url\<lparr> u_Path := ''/filesystem/sys/ops/view'' \<rparr>) [''q'', ''q'', ''q''] =
     empty_url\<lparr> u_Path := ''/filesystem/sys/ops/view'', u_RawQuery := ''q&q&q'' \<rparr>"
  by (simp add: set_query_def url_Query_def query_part_def Values_Encode_def empty_url_def)

lemma print_view:
  "url_Parse pa (url_String (empty_url\<lparr> u_Path := ''/filesystem/sys/ops/view'', u_RawQuery := ''q&q&q'' \<rparr>))
   = Inr (empty_url\<lparr> u_Path := ''/filesystem/sys/ops/view'', u_RawQuery := ''q&q&q'' \<rparr>)"
  by (simp add: url_String_def url_eval empty_url_def ToLower_def EscapedPath_def)

lemma sample_view:
  fixes w :: 's
  assumes code: "\<And>req. rq_Method req = ''GET'' \<Longrightarrow> code req = 200"
  shows "GetViewFilesystemSystemNameOpsViewGetWithResponse (sample_client code state body) ''sys''
     \<lparr> gv_Path = path, gv_Size = Some k, gv_Offset = Some n \<rparr> w =
   (w, if n = 0 then Inr \<lparr> or_StatusCode = 200, or_JSON = Some (Some body), or_JSON4XX = None,
         or_JSON5XX = None \<rparr> else Inl (Err ''out of range''))"
proof -
  let ?c = "sample_client code state body :: 's Client"
  let ?ps = "\<lparr> gv_Path = path, gv_Size = Some k, gv_Offset = Some n \<rparr>"
  have params: "optional_query ?c ''size'' (Some k) = Inr [''q'']"
    "optional_query ?c ''offset'' (Some n) = (if n = 0 then Inr [''q''] else Inl (Err ''out of range''))"
    by (simp_all add: query_param_def optional_query_def sample_client_def sample_style_def)
  define req where "req = \<lparr> rq_Method = ''GET'', rq_URL = url_String (empty_url\<lparr> u_Path :=
    ''/filesystem/sys/ops/view'', u_RawQuery := ''q&q&q'' \<rparr>), rq_Header = fmempty, rq_Body = [] \<rparr>"
  have req: "rq_Method req = ''GET''" by (simp add: req_def)
  have reply: "sample_reply state body req = JObj [(''output'', JStr body)]"
    by (simp add: req_def sample_reply_def HasPrefix_def url_String_def url_eval empty_url_def EscapedPath_def)
  have "new_request ?c ''GET'' (empty_url\<lparr> u_Path := ''/filesystem/sys/ops/view'',
      u_RawQuery := ''q&q&q'' \<rparr>) [] = Inr req"
    by (simp add: new_request_def http_NewRequest_def print_view req_def)
  then have "NewGetViewFilesystemSystemNameOpsViewGetRequest ?c ''sys'' ?ps =
      (if n = 0 then Inr req else Inl (Err ''out of range''))"
    using params query_view
    by (cases "n = 0")
      (simp_all add: NewGetViewFilesystemSystemNameOpsViewGetRequest_def sample_operation_url)
  then show ?thesis
    by (simp add: GetViewFilesystemSystemNameOpsViewGetWithResponse_def with_response_def
        GetViewFilesystemSystemNameOpsViewGet_def sample_client_send bindA_def code req reply
        ParseGetViewFilesystemSystemNameOpsViewGetResponse_def parse_reply_def
        sample_replies del: json_Marshal.simps)
qed

text \<open>A server that answers every operation with success.\<close>

definition sample_code :: "http_request \<Rightarrow> int" where
  "sample_code req =
     (if rq_Method req = ''POST'' then (if rq_URL req = ''/filesystem/sys/ops/upload?q'' then 204 else 201)
      else if rq_Method req = ''DELETE'' then 204 else 200)"

definition sample_ok :: "int \<Rightarrow> 'a option \<Rightarrow> 'a op_response" where
  "sample_ok code x = \<lparr> or_StatusCode = code, or_JSON = x, or_JSON4XX = None, or_JSON5XX = None \<rparr>"

abbreviation sample_cluster :: "'s Client" where
  "sample_cluster \<equiv> sample_client sample_code ''RUNNING'' []"

lemmas sample_send = with_response_def sample_client_send bindA_def parse_reply_def sample_ok_def
  sample_code_def sample_operation_url sample_new_request Header_Set_def

lemma sample_GetSystems:
  "GetSystemsStatusSystemsGetWithResponse sample_cluster w =
     (w, Inr (sample_ok 200 (Some [sample_system])))"
  by (simp add: GetSystemsStatusSystemsGetWithResponse_def GetSystemsStatusSystemsGet_def
      NewGetSystemsStatusSystemsGetRequest_def ParseGetSystemsStatusSystemsGetResponse_def
      sample_send sample_reply_def sample_replies HasPrefix_def del: json_Marshal.simps)

lemma sample_GetUserinfo:
  "GetUserinfoStatusSystemNameUserinfoGetWithResponse sample_cluster ''sys'' w =
     (w, Inr (sample_ok 200 (Some ''alice'')))"
  by (simp add: GetUserinfoStatusSystemNameUserinfoGetWithResponse_def
      GetUserinfoStatusSystemNameUserinfoGet_def NewGetUserinfoStatusSystemNameUserinfoGetRequest_def
      ParseGetUserinfoStatusSystemNameUserinfoGetResponse_def sample_send sample_reply_def sample_replies HasPrefix_def del: json_Marshal.simps)

lemma sample_PostMkdir:
  "PostMkdirFilesystemSystemNameOpsMkdirPostWithResponse sample_cluster ''sys'' b w =
     (w, Inr (sample_ok 201 (Some ())))"
  by (simp add: PostMkdirFilesystemSystemNameOpsMkdirPostWithResponse_def
      PostMkdirFilesystemSystemNameOpsMkdirPost_def
      NewPostMkdirFilesystemSystemNameOpsMkdirPostRequest_def
      NewPostMkdirFilesystemSystemNameOpsMkdirPostRequestWithBody_def
      ParsePostMkdirFilesystemSystemNameOpsMkdirPostResponse_def sample_send sample_reply_def sample_replies HasPrefix_def del: json_Marshal.simps)

lemma sample_PutChmod:
  "PutChmodFilesystemSystemNameOpsChmodPutWithResponse sample_cluster ''sys'' b w =
     (w, Inr (sample_ok 200 (Some ())))"
  by (simp add: PutChmodFilesystemSystemNameOpsChmodPutWithResponse_def
      PutChmodFilesystemSystemNameOpsChmodPut_def
      NewPutChmodFilesystemSystemNameOpsChmodPutRequest_def
      NewPutChmodFilesystemSystemNameOpsChmodPutRequestWithBody_def
      ParsePutChmodFilesystemSystemNameOpsChmodPutResponse_def sample_send sample_reply_def sample_replies HasPrefix_def del: json_Marshal.simps)

lemma query_upload:
  "set_query (empty_url\<lparr> u_Path := ''/filesystem/sys/ops/upload'' \<rparr>) [''q''] =
     empty_url\<lparr> u_Path := ''/filesystem/sys/ops/upload'', u_RawQuery := ''q'' \<rparr>"
  by (simp add: set_query_def url_Query_def query_part_def Values_Encode_def empty_url_def)

lemma print_upload:
  "url_String (empty_url\<lparr> u_Path := ''/filesystem/sys/ops/upload'', u_RawQuery := ''q'' \<rparr>) =
     ''/filesystem/sys/ops/upload?q''"
  "url_Parse pa ''/filesystem/sys/ops/upload?q'' =
     Inr (empty_url\<lparr> u_Path := ''/filesystem/sys/ops/upload'', u_RawQuery := ''q'' \<rparr>)"
  by (simp_all add: url_String_def url_eval empty_url_def ToLower_def EscapedPath_def)

lemma sample_PostUpload:
  "PostUploadFilesystemSystemNameOpsUploadPostWithBodyWithResponse sample_cluster ''sys'' dir ct b w =
     (w, Inr (sample_ok 204 None))"
  by (simp add: PostUploadFilesystemSystemNameOpsUploadPostWithBodyWithResponse_def
      PostUploadFilesystemSystemNameOpsUploadPostWithBody_def
      NewPostUploadFilesystemSystemNameOpsUploadPostRequestWithBody_def
      ParsePostUploadFilesystemSystemNameOpsUploadPostResponse_def query_upload print_upload
      new_request_def http_NewRequest_def sample_send)

lemma sample_PostJob:
  "PostJobSubmitComputeSystemNameJobsPostWithResponse sample_cluster ''sys'' b w =
     (w, Inr (sample_ok 201 (Some (Some ''42''))))"
  by (simp add: PostJobSubmitComputeSystemNameJobsPostWithResponse_def
      PostJobSubmitComputeSystemNameJobsPost_def
      NewPostJobSubmitComputeSystemNameJobsPostRequest_def
      NewPostJobSubmitComputeSystemNameJobsPostRequestWithBody_def
      ParsePostJobSubmitComputeSystemNameJobsPostResponse_def sample_send sample_reply_def sample_replies HasPrefix_def del: json_Marshal.simps)

lemma sample_GetJobMetadata:
  "GetJobMetadataComputeSystemNameJobsJobIdMetadataGetWithResponse sample_cluster ''sys'' ''42'' w =
     (w, Inr (sample_ok 200 (Some None)))"
  by (simp add: GetJobMetadataComputeSystemNameJobsJobIdMetadataGetWithResponse_def
      GetJobMetadataComputeSystemNameJobsJobIdMetadataGet_def
      NewGetJobMetadataComputeSystemNameJobsJobIdMetadataGetRequest_def
      ParseGetJobMetadataComputeSystemNameJobsJobIdMetadataGetResponse_def sample_send sample_reply_def sample_replies HasPrefix_def del: json_Marshal.simps)

lemma sample_GetJob:
  "GetJobComputeSystemNameJobsJobIdGetWithResponse sample_cluster ''sys'' ''42'' w =
     (w, Inr (sample_ok 200 (Some (Some [''RUNNING'']))))"
  by (simp add: GetJobComputeSystemNameJobsJobIdGetWithResponse_def
      GetJobComputeSystemNameJobsJobIdGet_def NewGetJobComputeSystemNameJobsJobIdGetRequest_def
      ParseGetJobComputeSystemNameJobsJobIdGetResponse_def sample_send sample_reply_def sample_replies HasPrefix_def del: json_Marshal.simps)

lemma sample_DeleteJob:
  "DeleteJobCancelComputeSystemNameJobsJobIdDeleteWithResponse sample_cluster ''sys'' ''42'' w =
     (w, Inr (sample_ok 204 None))"
  by (simp add: DeleteJobCancelComputeSystemNameJobsJobIdDeleteWithResponse_def
      DeleteJobCancelComputeSystemNameJobsJobIdDelete_def
      NewDeleteJobCancelComputeSystemNameJobsJobIdDeleteRequest_def
      ParseDeleteJobCancelComputeSystemNameJobsJobIdDeleteResponse_def sample_send)

lemma sample_cluster_view:
  "GetViewFilesystemSystemNameOpsViewGetWithResponse sample_cluster ''sys''
     \<lparr> gv_Path = path, gv_Size = Some k, gv_Offset = Some 0 \<rparr> w = (w, Inr (sample_ok 200 (Some (Some []))))"
  by (subst sample_view) (simp_all add: sample_code_def sample_ok_def)

lemmas sample_operations = sample_DeleteJob sample_cluster_view sample_GetSystems sample_GetUserinfo sample_PostMkdir sample_PutChmod
  sample_PostUpload sample_PostJob sample_GetJobMetadata sample_GetJob

text \<open>The files are an association list; the output is kept with them.\<close>

type_synonym sample_world = "(string \<times> string) list \<times> string list"

definition sample_host :: "(string \<times> string) list \<Rightarrow> sample_world remote_host" where
  "sample_host environ = \<lparr> rh_Environ = environ,
     rh_ReadFile = (\<lambda>p (fs, out). ((fs, out), case map_of fs p of Some t \<Rightarrow> Inr t
       | None \<Rightarrow> Inl (NotFound ''no such file or directory''))),
     rh_WriteFile = (\<lambda>p t (fs, out). (((p, t) # fs, out), Inr ())),
     rh_MkdirAll = (\<lambda>_ w. (w, Inr ())),
     rh_Remove = (\<lambda>p (fs, out). ((filter (\<lambda>(q, _). q \<noteq> p) fs, out), Inr ())),
     rh_ReadDir = (\<lambda>_ w. (w, Inr [])), rh_ctx_Err = (\<lambda>w. (w, Inr ())),
     rh_Stdout = (\<lambda>t (fs, out). ((fs, out @ [t]), Inr ())), rh_order = (\<lambda>_ ks. ks),
     rh_timestamp = (\<lambda>_. ''20260101-00-00-00''), rh_boundary = (\<lambda>_. ''b''),
     rh_ParseDockerRef = (\<lambda>_. Inl (Err ''invalid reference format'')),
     rh_FamiliarString = nr_Path \<rparr>"

definition sample_controller :: FirecrestRemoteSessionController where
  "sample_controller = \<lparr> fcr_jobID = ''42'', fcr_systemName = ''sys'', fcr_partition = [],
     fcr_currentStatus = RemoteNotReady, fcr_currentStatusError = None, fcr_fakeStart = False,
     fcr_stdoutPath = ''/out'', fcr_stderrPath = ''/out'', fcr_stdoutOffset = 0,
     fcr_stderrOffset = 0, fcr_stdoutBuf = [], fcr_stderrBuf = [] \<rparr>"

end
