(* ===== verification/Firecrest_Logs.thy ===== *)
theory Firecrest_Logs
  imports Remote_Sample
begin

text \<open>
  The logs of a remote session. A specification of a log reader: what has been received of a
  file is a prefix of it, and exactly the complete lines of that prefix have been printed, in
  order. The controller, which keeps an offset and a buffer per stream, is shown to refine it,
  across failed requests and restarts from the saved state.
\<close>

section \<open>Lines\<close>

abbreviation newline :: char where "newline \<equiv> CHR 0x0A"

definition complete_lines :: "string \<Rightarrow> string list" where
  "complete_lines s = butlast (split_char newline s)"

definition partial_line :: "string \<Rightarrow> string" where
  "partial_line s = last (split_char newline s)"

lemma split_char_append:
  "split_char sep (s @ t) =
     butlast (split_char sep s) @ split_char sep (last (split_char sep s) @ t)"
proof (induction s)
  case Nil
  then show ?case by simp
next
  case (Cons c s)
  show ?case
  proof (cases "c = sep")
    case True
    with Cons show ?thesis by simp
  next
    case False
    obtain x xs where s: "split_char sep s = x # xs"
      using split_char_not_Nil [of sep s] by (cases "split_char sep s") auto
    show ?thesis
    proof (cases xs)
      case Nil
      with False s Cons show ?thesis by simp
    next
      case (Cons y ys)
      with False s \<open>split_char sep (s @ t) = _\<close> show ?thesis by simp
    qed
  qed
qed

lemma complete_lines_append:
  "complete_lines (s @ t) = complete_lines s @ complete_lines (partial_line s @ t)"
  unfolding complete_lines_def partial_line_def
  by (subst split_char_append) (simp add: butlast_append)

lemma partial_line_append: "partial_line (s @ t) = partial_line (partial_line s @ t)"
  unfolding partial_line_def by (subst split_char_append) simp

lemma split_no_sep: "sep \<notin> set s \<Longrightarrow> split_char sep s = [s]"
  by (induction s) auto

lemma split_ends: "sep \<notin> set s \<Longrightarrow> split_char sep (s @ [sep]) = [s, []]"
  by (induction s) auto

lemma sep_notin_last_split: "sep \<notin> set (last (split_char sep s))"
proof (induction s)
  case (Cons c s)
  then show ?case by (cases "split_char sep s") auto
qed simp

lemma partial_line_idem [simp]: "partial_line (partial_line s) = partial_line s"
  by (simp add: partial_line_def split_no_sep sep_notin_last_split)

lemma complete_lines_partial [simp]: "complete_lines (partial_line s) = []"
  by (simp add: complete_lines_def partial_line_def split_no_sep sep_notin_last_split)

lemma partial_line_suffix: "\<exists>p. s = p @ partial_line s \<and> partial_line p = []"
proof (induction s rule: rev_induct)
  case Nil
  then show ?case by (simp add: partial_line_def)
next
  case (snoc c s)
  then obtain p where p: "s = p @ partial_line s" "partial_line p = []" by blast
  show ?case
  proof (cases "c = newline")
    case True
    have "partial_line (s @ [c]) = partial_line (partial_line s @ [c])"
      by (rule partial_line_append)
    also have "split_char newline (partial_line s @ [newline]) = [partial_line s, []]"
      by (rule split_ends) (simp add: partial_line_def sep_notin_last_split)
    then have "partial_line (partial_line s @ [c]) = []" by (simp add: True partial_line_def)
    finally show ?thesis by (intro exI [of _ "s @ [c]"]) simp
  next
    case False
    then have "newline \<notin> set (partial_line s @ [c])"
      by (simp add: partial_line_def sep_notin_last_split)
    then have "partial_line (s @ [c]) = partial_line s @ [c]"
      unfolding partial_line_append [of s] by (simp add: partial_line_def [of "_ @ _"] split_no_sep)
    then show ?thesis using p by (metis append_assoc)
  qed
qed

lemma complete_part:
  assumes "s = p @ partial_line s"
  shows "p = take (length s - length (partial_line s)) s"
  using assms by (metis append_eq_conv_conj length_append add_diff_cancel_right')

lemma complete_lines_of_part:
  assumes "s = p @ partial_line s" "partial_line p = []"
  shows "complete_lines p = complete_lines s"
proof -
  have "complete_lines s = complete_lines p @ complete_lines (partial_line p @ partial_line s)"
    using assms(1) complete_lines_append by metis
  then show ?thesis using assms(2) by simp
qed

section \<open>Writing the complete lines\<close>

definition log_line :: "log_stream \<Rightarrow> string \<Rightarrow> string" where
  "log_line stream l = ''[session/'' @ stream_name stream @ ''] '' @ l @ [newline]"

definition print_lines :: "'s remote_host \<Rightarrow> log_stream \<Rightarrow> string list \<Rightarrow> ('s, unit) action" where
  "print_lines h stream ls =
     forA ls (\<lambda>l. bindA (tryA (rh_Stdout h (log_line stream l))) (\<lambda>_. returnA ()))"

lemma str_Index_newline:
  "str_Index s [newline] = (if newline \<in> set s then Some (length (takeWhile (\<lambda>c. c \<noteq> newline) s)) else None)"
  by (induction s) (auto simp: HasPrefix_def)

lemma split_at_newline:
  assumes "str_Index s [newline] = Some i"
  shows "split_char newline s = take i s # split_char newline (drop (i + 1) s)"
  using assms
proof (induction s arbitrary: i)
  case (Cons c s)
  show ?case
  proof (cases "c = newline")
    case True
    then show ?thesis using Cons.prems by (auto simp: HasPrefix_def)
  next
    case False
    then obtain j where "str_Index s [newline] = Some j" "i = Suc j"
      using Cons.prems by (auto simp: HasPrefix_def)
    with Cons.IH [of j] False show ?thesis by simp
  qed
qed simp

lemma bindA_assoc: "bindA (bindA m f) g = bindA m (\<lambda>x. bindA (f x) g)"
  by (auto simp: bindA_def fun_eq_iff split: prod.splits sum.splits)

lemma flush_lines_split:
  "flush_lines h stream offset buf =
     bindA (print_lines h stream (complete_lines buf)) (\<lambda>_.
       returnA (offset + int (length buf) - int (length (partial_line buf)), partial_line buf))"
proof (induction h stream offset buf rule: flush_lines.induct)
  case (1 h stream offset buf)
  show ?case
  proof (cases "str_Index buf [newline]")
    case None
    then have "newline \<notin> set buf" by (simp add: str_Index_newline split: if_splits)
    then have "complete_lines buf = []" "partial_line buf = buf"
      by (simp_all add: complete_lines_def partial_line_def split_no_sep)
    with None show ?thesis by (simp add: print_lines_def)
  next
    case (Some i)
    let ?rest = "drop (i + 1) buf"
    have "split_char newline buf = take i buf # split_char newline ?rest"
      using Some by (rule split_at_newline)
    then have parts: "complete_lines buf = take i buf # complete_lines ?rest"
      "partial_line buf = partial_line ?rest"
      by (simp_all add: complete_lines_def partial_line_def)
    have "i < length buf" using str_Index_Some [OF Some] by auto
    then have "offset + int i + 1 + int (length ?rest) = offset + int (length buf)" by simp
    with Some parts 1 show ?thesis
      by (simp add: print_lines_def log_line_def bindA_assoc del: drop_Suc)
  qed
qed

declare flush_lines.simps [simp del]

text \<open>The loop that flushes the buffer of a log stream is equivalent to splitting the buffer
  into lines at once: it prints the complete lines in order, keeps the partial line that
  follows them, and advances the offset by exactly the number of bytes it took out of the
  buffer. It ends for every buffer, and failures to print do not stop it.
\<close>

lemma flush_lines_eq:
  "flush_lines h stream offset buf =
     bindA (print_lines h stream (complete_lines buf)) (\<lambda>_.
       returnA (offset + int (length buf) - int (length (partial_line buf)), partial_line buf))"
  by (rule flush_lines_split)

section \<open>Saving and recovering\<close>

lemma decode_show_int_Inr: "decode_int (JNum (show_int i)) = Inr j \<Longrightarrow> j = i"
  using show_nat_digit show_nat_not_sign
  by (auto simp: int_literal_def show_int_def digits_val_show_nat Let_def
      split: if_splits option.splits)

lemma json_ok_savedState: "json_ok (encode_savedState s)"
  using json_ok_int by (auto simp: encode_savedState_def simp del: json_ok.simps(1))

lemma savedState_members:
  defines "ms \<equiv> \<lambda>s. case encode_savedState s of JObj m \<Rightarrow> m | _ \<Rightarrow> []"
  shows "json_object (encode_savedState s) = Inr (ms s)"
    and "decode_string (json_member ''job_id'' (ms s)) = Inr (sv_JobID s)"
    and "decode_string (json_member ''stdout_path'' (ms s)) = Inr (sv_StdoutPath s)"
    and "decode_string (json_member ''stderr_path'' (ms s)) = Inr (sv_StderrPath s)"
    and "json_member ''stdout_offset'' (ms s) =
      (if sv_StdoutOffset s = 0 then JNull else JNum (show_int (sv_StdoutOffset s)))"
    and "json_member ''stderr_offset'' (ms s) =
      (if sv_StderrOffset s = 0 then JNull else JNum (show_int (sv_StderrOffset s)))"
  by (simp_all add: ms_def encode_savedState_def json_member_def ToLower_def lower_char_def)

lemma decode_offset:
  "decode_int (if i = 0 then JNull else JNum (show_int i)) = Inr j \<Longrightarrow> j = i"
  by (auto simp del: decode_int.simps(2) dest: decode_show_int_Inr split: if_splits)

lemma decode_savedState_eq:
  assumes "decode_savedState (json_Marshal (encode_savedState s)) = Inr s'"
  shows "s' = s"
  using assms
  by (auto simp: decode_savedState_def json_parse_Marshal json_ok_savedState savedState_members
      bindE_Inr_iff dest!: decode_offset simp del: decode_int.simps(2))

lemma decode_encode_savedState:
  assumes "\<bar>sv_StdoutOffset s\<bar> < 2 ^ 63" "\<bar>sv_StderrOffset s\<bar> < 2 ^ 63"
  shows "decode_savedState (json_Marshal (encode_savedState s)) = Inr s"
proof -
  have "decode_int (if i = 0 then JNull else JNum (show_int i)) = Inr i" if "\<bar>i\<bar> < 2 ^ 63" for i
    using that by (simp add: decode_show_int del: decode_int.simps(2))
  then show ?thesis
    using assms
    by (simp add: decode_savedState_def json_parse_Marshal json_ok_savedState savedState_members)
qed

text \<open>Saving the state of the controller and reading it back loses nothing: the text written
  to the state file decodes to the job, the paths of the logs and the offsets that were saved.
\<close>

lemma savedState_roundtrip:
  assumes "\<bar>sv_StdoutOffset s\<bar> < 2 ^ 63" "\<bar>sv_StderrOffset s\<bar> < 2 ^ 63"
  shows "decode_savedState (json_Marshal (encode_savedState s)) = Inr s"
  using assms by (rule decode_encode_savedState)

section \<open>The controller refines the log reader\<close>

text \<open>
  The text \<open>r\<close> received of a file: its partial line is in the buffer, and the offset is
  where that line starts.
\<close>

definition represents :: "log_stream \<Rightarrow> string \<Rightarrow> FirecrestRemoteSessionController \<Rightarrow> bool" where
  "represents stream r c \<longleftrightarrow> stream_buf stream c = partial_line r
     \<and> stream_offset stream c = int (length r) - int (length (partial_line r))"

text \<open>
  What is assumed of the surroundings: what has been printed, \<open>out w\<close>, grows by what is
  printed and by nothing else, and the server returns a part of the file from the offset on.
\<close>

definition stdout_sink :: "'s remote_host \<Rightarrow> ('s \<Rightarrow> string list) \<Rightarrow> bool" where
  "stdout_sink h out \<longleftrightarrow> (\<forall>t w. out (fst (rh_Stdout h t w)) = out w @ [t])"

definition serves_file ::
  "'s Client \<Rightarrow> ('s \<Rightarrow> string list) \<Rightarrow> string \<Rightarrow> string \<Rightarrow> string \<Rightarrow> bool" where
  "serves_file cl out sys path file \<longleftrightarrow> (\<forall>n w w' r.
     GetViewFilesystemSystemNameOpsViewGetWithResponse cl sys
       \<lparr> gv_Path = path, gv_Size = Some log_chunk_size, gv_Offset = Some (int n) \<rparr> w = (w', r)
     \<longrightarrow> out w' = out w
       \<and> (\<forall>res content. r = Inr res \<and> or_JSON res = Some (Some content)
            \<longrightarrow> (\<exists>k. content = take k (drop n file))))"

lemma print_lines_out:
  assumes "stdout_sink h out"
  shows "\<exists>w'. print_lines h stream ls w = (w', Inr ()) \<and> out w' = out w @ map (log_line stream) ls"
proof (induction ls arbitrary: w)
  case Nil
  then show ?case by (simp add: print_lines_def returnA_def)
next
  case (Cons l ls)
  obtain w1 r where w1: "rh_Stdout h (log_line stream l) w = (w1, r)" by fastforce
  then have "out w1 = out w @ [log_line stream l]"
    using assms unfolding stdout_sink_def by (metis fst_conv)
  with Cons [of w1] w1 show ?case
    by (auto simp: print_lines_def bindA_def tryA_def returnA_def)
qed

lemma flush_out:
  assumes "stdout_sink h out"
  shows "\<exists>w'. flush_lines h stream offset buf w =
      (w', Inr (offset + int (length buf) - int (length (partial_line buf)), partial_line buf))
    \<and> out w' = out w @ map (log_line stream) (complete_lines buf)"
  using print_lines_out [OF assms, of stream "complete_lines buf" w]
  by (auto simp: flush_lines_split bindA_def returnA_def)

lemma represents_buffer:
  assumes "represents stream r c"
  shows "stream_offset stream c + int (length (stream_buf stream c)) = int (length r)"
  using assms by (simp add: represents_def)

lemma represents_set_stream:
  assumes "represents stream r c"
  shows "represents stream (r @ content) (set_stream stream
    (stream_offset stream c + int (length (stream_buf stream c @ content))
       - int (length (partial_line (stream_buf stream c @ content))))
    (partial_line (stream_buf stream c @ content)) c)"
  using assms partial_line_append [of r content]
  by (cases stream) (simp_all add: represents_def set_stream_def stream_offset_def stream_buf_def)

lemma set_stream_paths [simp]:
  "fcr_systemName (set_stream s n b c) = fcr_systemName c"
  "stream_path t (set_stream s n b c) = stream_path t c"
  by (cases s; cases t; simp add: set_stream_def stream_path_def)+

lemma fetch_refines:
  assumes sink: "stdout_sink h out" and rep: "represents stream r c"
    and served: "serves_file cl out (fcr_systemName c) (stream_path stream c) file"
    and fetch: "fetchLogStream h cl stream (w, c) = ((w', c'), res)"
  shows "\<exists>k. represents stream (r @ take k (drop (length r) file)) c'
    \<and> out w' = out w @ map (log_line stream)
        (complete_lines (partial_line r @ take k (drop (length r) file)))
    \<and> fcr_systemName c' = fcr_systemName c \<and> stream_path stream c' = stream_path stream c"
proof -
  let ?view = "GetViewFilesystemSystemNameOpsViewGetWithResponse cl (fcr_systemName c)
    \<lparr> gv_Path = stream_path stream c, gv_Size = Some log_chunk_size,
      gv_Offset = Some (int (length r)) \<rparr> w"
  obtain w1 v where view: "?view = (w1, v)" by fastforce
  note law = served [unfolded serves_file_def, rule_format, OF view]
  have none: "\<exists>k. represents stream (r @ take k (drop (length r) file)) c
    \<and> out w1 = out w @ map (log_line stream)
        (complete_lines (partial_line r @ take k (drop (length r) file)))"
    using rep law by (intro exI [of _ 0]) simp
  show ?thesis
  proof (cases "\<exists>x content. v = Inr x \<and> or_JSON x = Some (Some content) \<and> content \<noteq> []")
    case False
    then have "w' = w1 \<and> c' = c"
      using fetch view
      by (auto simp: fetchLogStream_def bindA_def getA_def liftA_def tryA_def returnA_def
          represents_buffer [OF rep] split: sum.splits option.splits)
    then show ?thesis using none by auto
  next
    case True
    then obtain x content where v: "v = Inr x" "or_JSON x = Some (Some content)" "content \<noteq> []"
      by blast
    then obtain k where k: "content = take k (drop (length r) file)" using law by blast
    let ?buf = "stream_buf stream c @ content"
    obtain w2 where "flush_lines h stream (stream_offset stream c) ?buf w1 =
        (w2, Inr (stream_offset stream c + int (length ?buf) - int (length (partial_line ?buf)),
                  partial_line ?buf))"
      and out: "out w2 = out w1 @ map (log_line stream) (complete_lines ?buf)"
      using flush_out [OF sink] by blast
    then have "w' = w2 \<and> c' = set_stream stream
        (stream_offset stream c + int (length ?buf) - int (length (partial_line ?buf)))
        (partial_line ?buf) c"
      using fetch view v
      by (auto simp: fetchLogStream_def bindA_def getA_def liftA_def tryA_def modifyA_def
          represents_buffer [OF rep] simp del: length_append flush_lines.simps)
    then show ?thesis
      using represents_set_stream [OF rep, of content] out law rep
      by (intro exI [of _ k]) (simp add: k [symmetric] represents_def)
  qed
qed

lemma represents_recovered:
  assumes "represents stream r c" "stream_buf stream c0 = []"
  shows "\<exists>n. represents stream (take n r) (recovered (state_of c) c0)
    \<and> complete_lines (take n r) = complete_lines r"
proof -
  obtain p where p: "r = p @ partial_line r" "partial_line p = []" using partial_line_suffix by blast
  then have "length p = length r - length (partial_line r)"
    by (metis add_diff_cancel_right' length_append)
  moreover have "length (partial_line r) \<le> length r" using p(1) by (metis le_add2 length_append)
  ultimately have "represents stream p (recovered (state_of c) c0)"
    using assms p(2) by (cases stream)
      (simp_all add: represents_def recovered_def state_of_def stream_offset_def stream_buf_def Let_def)
  then show ?thesis
    using complete_part [OF p(1)] complete_lines_of_part [OF p] by metis
qed

text \<open>
  The life of a log stream of one job: fetches, successful or not, and restarts of the
  controller, which begin with a new controller and the state saved by the old one.
\<close>

inductive log_run ::
  "'s remote_host \<Rightarrow> 's Client \<Rightarrow> ('s \<Rightarrow> string list) \<Rightarrow> log_stream \<Rightarrow> string \<Rightarrow> string
   \<Rightarrow> 's \<times> FirecrestRemoteSessionController \<Rightarrow> bool"
  for h cl out stream sys path where
  log_start: "log_run h cl out stream sys path (w, c)"
    if "out w = []" "stream_offset stream c = 0" "stream_buf stream c = []"
      "fcr_systemName c = sys" "stream_path stream c = path"
| log_fetch: "log_run h cl out stream sys path (w', c')"
    if "log_run h cl out stream sys path (w, c)" "fetchLogStream h cl stream (w, c) = ((w', c'), r)"
| log_restart: "log_run h cl out stream sys path (w, recovered s c0)"
    if "log_run h cl out stream sys path (w, c)"
      "decode_savedState (json_Marshal (encode_savedState (state_of c))) = Inr s"
      "stream_buf stream c0 = []" "fcr_systemName c0 = sys"

lemma log_run_invariant:
  assumes "log_run h cl out stream sys path (w, c)"
    and "stdout_sink h out" "serves_file cl out sys path file"
  shows "\<exists>n. represents stream (take n file) c
    \<and> out w = map (log_line stream) (complete_lines (take n file))
    \<and> fcr_systemName c = sys \<and> stream_path stream c = path"
  using assms(1)
proof (induction "(w, c)" arbitrary: w c rule: log_run.induct)
  case (log_start w c)
  then show ?case
    by (intro exI [of _ 0]) (simp add: represents_def partial_line_def complete_lines_def)
next
  case (log_fetch w c w' c' r)
  then obtain n where n: "represents stream (take n file) c"
    "out w = map (log_line stream) (complete_lines (take n file))"
    "fcr_systemName c = sys" "stream_path stream c = path" by blast
  obtain k where k: "represents stream (take n file @ take k (drop (length (take n file)) file)) c'"
    "out w' = out w @ map (log_line stream) (complete_lines
        (partial_line (take n file) @ take k (drop (length (take n file)) file)))"
    "fcr_systemName c' = sys" "stream_path stream c' = path"
    using fetch_refines [OF assms(2) n(1) _ log_fetch(3)] assms(3) n(3,4) by metis
  have "take n file @ take k (drop (length (take n file)) file)
      = take (length (take n file) + k) file"
    by (simp add: take_add min_def)
  with k n(2) show ?case
    by (intro exI [of _ "length (take n file) + k"])
      (metis complete_lines_append map_append)
next
  case (log_restart w c s c0)
  then obtain n where n: "represents stream (take n file) c"
    "out w = map (log_line stream) (complete_lines (take n file))"
    "fcr_systemName c = sys" "stream_path stream c = path" by blast
  have s: "s = state_of c" using log_restart(3) by (rule decode_savedState_eq)
  obtain m where m: "represents stream (take m (take n file)) (recovered (state_of c) c0)"
    "complete_lines (take m (take n file)) = complete_lines (take n file)"
    using represents_recovered [OF n(1) log_restart(4)] by blast
  have "fcr_systemName (recovered s c0) = sys" "stream_path stream (recovered s c0) = path"
    using log_restart(5) n(4) s
    by (cases stream; simp add: recovered_def state_of_def stream_path_def Let_def)+
  then show ?case
    using m n(2) s by (intro exI [of _ "min m n"]) simp
qed

text \<open>C6: The controller implements a log reader that neither loses, repeats nor reorders lines.
  After any sequence of fetches, failing ones included, and restarts from the saved state,
  what has been printed of a log file is exactly the complete lines of a prefix of the file,
  and the controller's offset and buffer stand for that prefix.
\<close>

theorem logs_refine_reader:
  assumes "log_run h cl out stream sys path (w, c)"
    and "stdout_sink h out" "serves_file cl out sys path file"
  shows "\<exists>received. (\<exists>n. received = take n file) \<and> represents stream received c
    \<and> out w = map (log_line stream) (complete_lines received)"
  using log_run_invariant [OF assms] by blast

definition sample_log :: string where "sample_log = ''one'' @ [newline] @ ''tw''"

lemma sample_log_lines: "complete_lines sample_log = [''one'']" "partial_line sample_log = ''tw''"
  by (simp_all add: complete_lines_def partial_line_def sample_log_def)

lemma sample_fetch:
  "fetchLogStream (sample_host []) (sample_client (\<lambda>_. 200) [] sample_log) StdoutStream
     (([], []), sample_controller) =
   ((([], [log_line StdoutStream ''one'']),
     sample_controller\<lparr> fcr_stdoutOffset := 4, fcr_stdoutBuf := ''tw'' \<rparr>), Inr ())"
proof -
  have "flush_lines (sample_host []) StdoutStream 0 sample_log ([], []) =
      (([], [log_line StdoutStream ''one'']), Inr (4, ''tw''))"
    by (simp add: flush_lines_split sample_log_lines print_lines_def sample_host_def bindA_def
        tryA_def returnA_def) (simp add: sample_log_def)
  moreover have "sample_log \<noteq> []" by (simp add: sample_log_def)
  ultimately show ?thesis
    by (simp add: sample_view [where code = "\<lambda>_. 200"] fetchLogStream_def bindA_def getA_def liftA_def tryA_def modifyA_def
        sample_controller_def stream_path_def stream_offset_def stream_buf_def set_stream_def)
qed

lemma logs_refine_reader_witness:
  "\<exists>w c received. (\<exists>n. received = take n sample_log) \<and> represents StdoutStream received c
     \<and> snd w = map (log_line StdoutStream) (complete_lines received)
     \<and> snd w = [log_line StdoutStream ''one'']"
proof -
  let ?h = "sample_host []" and ?cl = "sample_client (\<lambda>_. 200) [] sample_log"
  have "log_run ?h ?cl snd StdoutStream ''sys'' ''/out'' (([], []), sample_controller)"
    by (rule log_start) (simp_all add: sample_controller_def stream_offset_def stream_buf_def
        stream_path_def)
  from log_fetch [OF this sample_fetch]
  have run: "log_run ?h ?cl snd StdoutStream ''sys'' ''/out''
      (([], [log_line StdoutStream ''one'']),
       sample_controller\<lparr> fcr_stdoutOffset := 4, fcr_stdoutBuf := ''tw'' \<rparr>)" .
  have sink: "stdout_sink ?h snd" by (simp add: stdout_sink_def sample_host_def)
  have "serves_file ?cl snd ''sys'' ''/out'' sample_log"
    by (auto simp: serves_file_def sample_view [where code = "\<lambda>_. 200"] intro: exI [of _ "length sample_log"])
  from logs_refine_reader [OF run sink this] show ?thesis by fastforce
qed

end
