(* ===== verification/Firecrest_Props.thy ===== *)
theory Firecrest_Props
  imports Firecrest_Logs
begin

text \<open>
  What holds of the FirecREST controller: a session that was started is adopted after a restart
  and not submitted again, when a session is reported as running, which file system is used,
  and which variables of the user reach the job.
\<close>

section \<open>Restarts\<close>

text \<open>A file reads back as it was written, and reading changes nothing.\<close>

definition keeps_files :: "'s remote_host \<Rightarrow> bool" where
  "keeps_files h \<longleftrightarrow>
     (\<forall>p t w w'. rh_WriteFile h p t w = (w', Inr ()) \<longrightarrow> rh_ReadFile h p w' = (w', Inr t))"

text \<open>
  What a controller promises about restarts: what it saves it recovers, and a start that
  recovers a job does nothing else. A job is known by its handle.
\<close>

locale adopting_controller =
  fixes files_ok :: bool
    and save :: "('s \<times> 'c, unit) action"
    and recover :: "('s \<times> 'c, unit) action"
    and start :: "('s \<times> 'c, unit) action"
    and job :: "'c \<Rightarrow> string"
    and storable :: "'c \<Rightarrow> bool"
  assumes save_recover: "files_ok \<Longrightarrow> save (w, c) = ((w', c'), Inr ()) \<Longrightarrow> storable c \<Longrightarrow> job c \<noteq> [] \<Longrightarrow>
      \<exists>c1. recover (w', c0) = ((w', c1), Inr ()) \<and> job c1 = job c"
    and start_skips: "recover (w, c) = ((w', c'), Inr ()) \<Longrightarrow> job c' \<noteq> [] \<Longrightarrow>
      start (w, c) = ((w', c'), Inr ())"
begin

lemma start_adopts:
  assumes "files_ok" "save (w, c) = ((w', c'), Inr ())" "storable c" "job c \<noteq> []"
  shows "\<exists>c1. start (w', c0) = ((w', c1), Inr ()) \<and> job c1 = job c"
  using save_recover [OF assms, of c0] start_skips assms(4) by metis

end

definition offsets_in_range :: "FirecrestRemoteSessionController \<Rightarrow> bool" where
  "offsets_in_range c \<longleftrightarrow> \<bar>fcr_stdoutOffset c\<bar> < 2 ^ 63 \<and> \<bar>fcr_stderrOffset c\<bar> < 2 ^ 63"

lemma saveState_cases:
  assumes "saveState h (w, c) = ((w', c'), Inr ())"
  shows "c' = c \<and> fcr_jobID c \<noteq> [] \<and> (\<exists>w1. rh_WriteFile h (fc_getSavePath h)
    (json_Marshal (encode_savedState (state_of c))) w1 = (w', Inr ()))"
  using assms
  by (auto simp: saveState_def bindA_def getA_def liftA_def failA_def
      split: if_splits prod.splits sum.splits)

lemma recoverState_saved:
  assumes "keeps_files h" "saveState h (w, c) = ((w', c'), Inr ())" "offsets_in_range c"
  shows "recoverState h (w', c0) = ((w', recovered (state_of c) c0), Inr ())"
proof -
  obtain w1 where "rh_WriteFile h (fc_getSavePath h)
      (json_Marshal (encode_savedState (state_of c))) w1 = (w', Inr ())"
    using saveState_cases [OF assms(2)] by blast
  then have "rh_ReadFile h (fc_getSavePath h) w' =
      (w', Inr (json_Marshal (encode_savedState (state_of c))))"
    using assms(1) unfolding keeps_files_def by blast
  moreover have "decode_savedState (json_Marshal (encode_savedState (state_of c))) = Inr (state_of c)"
    using assms(3) by (intro decode_encode_savedState) (simp_all add: offsets_in_range_def state_of_def)
  ultimately show ?thesis
    by (simp add: recoverState_def bindA_def liftA_def tryA_def liftE_def returnA_def modifyA_def)
qed

lemma recovered_jobID [simp]:
  "fcr_jobID c \<noteq> [] \<Longrightarrow> fcr_jobID (recovered (state_of c) c0) = fcr_jobID c"
  by (simp add: recovered_def state_of_def Let_def)

interpretation fc_restart: adopting_controller "keeps_files h" "saveState h" "recoverState h"
  "fc_Start h cl script" fcr_jobID offsets_in_range for h cl script
proof
  show "\<exists>c1. recoverState h (w', c0) = ((w', c1), Inr ()) \<and> fcr_jobID c1 = fcr_jobID c"
    if "keeps_files h" "saveState h (w, c) = ((w', c'), Inr ())" "offsets_in_range c" "fcr_jobID c \<noteq> []"
    for w c w' c' c0
    using recoverState_saved [OF that(1-3), of c0] that(4) by simp
  show "fc_Start h cl script (w, c) = ((w', c'), Inr ())"
    if "recoverState h (w, c) = ((w', c'), Inr ())" "fcr_jobID c' \<noteq> []" for w c w' c'
    using that by (simp add: fc_Start_def bindA_step returnA_def)
qed

text \<open>A successful submission ends with saving the state of the controller.\<close>

lemma submit_session_saves:
  assumes "submit_session h cl sessionPath job (w, c) = ((w', c'), Inr ())"
  shows "\<exists>w1. saveState h (w1, c') = ((w', c'), Inr ())
    \<and> fcr_stdoutOffset c' = fcr_stdoutOffset c \<and> fcr_stderrOffset c' = fcr_stderrOffset c"
proof -
  have "\<exists>w1 jobID out err. saveState h (w1, c\<lparr> fcr_jobID := jobID, fcr_stdoutPath := out,
      fcr_stderrPath := err \<rparr>) = ((w', c'), Inr ())"
    using assms unfolding submit_session_def bindA_Inr_iff
    by (auto simp: liftA_eq_iff)
  then obtain w1 jobID out err where save: "saveState h (w1, c\<lparr> fcr_jobID := jobID,
      fcr_stdoutPath := out, fcr_stderrPath := err \<rparr>) = ((w', c'), Inr ())" by blast
  have c': "c' = c\<lparr> fcr_jobID := jobID, fcr_stdoutPath := out, fcr_stderrPath := err \<rparr>"
    using saveState_cases [OF save] by simp
  show ?thesis using save unfolding c' by (intro exI [of _ w1]) simp
qed

text \<open>C3: A remote session is submitted at most once. When the controller has started a session,
  there is a job, and a controller that is restarted on the same files adopts that job: its
  start succeeds without a single request, whatever the client, and leaves the world as it is.
\<close>

theorem restart_adopts_job:
  assumes "keeps_files h" and "rh_ReadFile h (fc_getSavePath h) w = (w0, Inl e)"
    and "fcr_jobID c = []" "\<not> fcr_fakeStart c" "offsets_in_range c"
    and start: "fc_Start h cl script (w, c) = ((w', c'), Inr ())"
  shows "fcr_jobID c' \<noteq> []
    \<and> (\<exists>c1. fc_Start h cl' script' (w', c0) = ((w', c1), Inr ()) \<and> fcr_jobID c1 = fcr_jobID c')"
proof -
  have "recoverState h (w, c) = ((w0, c), Inr ())"
    using assms(2) by (simp add: recoverState_def bindA_def liftA_def tryA_def returnA_def)
  with start assms(3,4) obtain w1 sessionPath job where
    "submit_session h cl sessionPath job (w1, c) = ((w', c'), Inr ())"
    by (auto simp: fc_Start_def bindA_Inr_iff liftA_eq_iff)
  then obtain w2 where save: "saveState h (w2, c') = ((w', c'), Inr ())"
    and off: "offsets_in_range c'"
    using submit_session_saves assms(5) unfolding offsets_in_range_def by metis
  then show ?thesis
    using fc_restart.start_adopts [OF assms(1) save off] saveState_cases [OF save] by metis
qed

definition fresh_controller :: FirecrestRemoteSessionController where
  "fresh_controller = sample_controller\<lparr> fcr_jobID := [], fcr_stdoutPath := [], fcr_stderrPath := [] \<rparr>"

lemma saveState_succeeds:
  assumes "fcr_jobID c \<noteq> []" "\<And>v. succeeds (rh_MkdirAll h v)" "\<And>v t. succeeds (rh_WriteFile h v t)"
  shows "\<exists>w'. saveState h (w, c) = ((w', c), Inr ())"
proof -
  obtain w1 where "rh_MkdirAll h (fc_getSaveDirPath h) w = (w1, Inr ())"
    using assms(2) unfolding succeeds_def by (metis (full_types) unit.exhaust)
  moreover obtain w2 where "rh_WriteFile h (fc_getSavePath h)
      (json_Marshal (encode_savedState (state_of c))) w1 = (w2, Inr ())"
    using assms(3) unfolding succeeds_def by (metis (full_types) unit.exhaust)
  ultimately show ?thesis
    using assms(1) by (simp add: saveState_def bindA_def liftA_def)
qed

lemma submit_session_succeeds:
  assumes "submitJob cl (fcr_systemName c) job w = (w1, Inr i)"
    and "GetJobMetadataComputeSystemNameJobsJobIdMetadataGetWithResponse cl (fcr_systemName c) i w1 = (w2, r)"
    and "\<And>c'. fcr_jobID c' = i \<Longrightarrow> \<exists>w'. saveState h (w2, c') = ((w', c'), Inr ())"
  shows "\<exists>w' c'. submit_session h cl sessionPath job (w, c) = ((w', c'), Inr ())"
proof -
  let ?c = "c\<lparr> fcr_jobID := i, fcr_stdoutPath := fst (log_paths sessionPath i r),
    fcr_stderrPath := snd (log_paths sessionPath i r) \<rparr>"
  obtain w' where "saveState h (w2, ?c) = ((w', ?c), Inr ())" using assms(3) [of ?c] by auto
  then have "submit_session h cl sessionPath job (w, c) = ((w', ?c), Inr ())"
    using assms(1,2) by (simp add: submit_session_def bindA_step liftA_def tryA_def)
  then show ?thesis by blast
qed

lemma sample_calls:
  "GetCurrentSystem sample_cluster ''sys'' w = (w, Inr sample_system)"
  "getUserInfo sample_cluster ''sys'' w = (w, Inr ''alice'')"
  "mkdir sample_cluster ''sys'' p b w = (w, Inr ())"
  "chmod sample_cluster ''sys'' p m w = (w, Inr ())"
  "uploadFile h sample_cluster ''sys'' p n t w = (w, Inr ())"
  "submitJob sample_cluster ''sys'' j w = (w, Inr ''42'')"
  by (simp_all add: GetCurrentSystem_def getUserInfo_def mkdir_def chmod_def uploadFile_def
      submitJob_def need_JSON_def Let_def bindA_step returnA_def sample_operations)
    (simp_all add: sample_ok_def bindA_step returnA_def)

lemma sample_prepare:
  "\<exists>p j. prepare_session (sample_host []) sample_cluster [] ''sys'' [] w = (w, Inr (p, j))"
proof -
  have env: "\<exists>env. start_env (sample_host []) pa [] = Inr env" for pa
    by (simp add: start_env_def copy_user_env_def copy_prefixed_def EnrootImageFormat_def
        wstunnel_env_def Getenv_def sample_host_def)
  then obtain env where env: "start_env (sample_host []) (\<lambda>a. Inr (None, a)) [] = Inr env" by blast
  have "Getenv (sample_host []) k = []" for k by (simp add: Getenv_def sample_host_def)
  moreover have "collectGitRepositories (sample_host []) [] w = (w, Inr [])"
    by (simp add: collectGitRepositories_def sample_host_def bindA_step returnA_def)
  moreover have "walk_repositories (sample_host []) 0 [] = []"
    by (simp add: walk_repositories_def sample_host_def map_filter_simps)
  ultimately show ?thesis
    using env by (simp add: prepare_session_def getPreferredScratch_def Let_def bindA_step returnA_def
        sample_calls liftE_def)
qed

lemma restart_adopts_job_witness:
  "\<exists>w' c'. fc_Start (sample_host []) sample_cluster [] (([], []), fresh_controller) = ((w', c'), Inr ())
     \<and> fcr_jobID c' \<noteq> []
     \<and> (\<exists>c1. fc_Start (sample_host []) sample_cluster [] (w', fresh_controller) = ((w', c1), Inr ())
          \<and> fcr_jobID c1 = fcr_jobID c')"
proof -
  let ?h = "sample_host []" and ?w = "([], []) :: sample_world"
  have files: "keeps_files ?h" by (auto simp: keeps_files_def sample_host_def)
  have read: "rh_ReadFile ?h (fc_getSavePath ?h) ?w = (?w, Inl (NotFound ''no such file or directory''))"
    by (simp add: sample_host_def)
  then have recover: "recoverState ?h (?w, fresh_controller) = ((?w, fresh_controller), Inr ())"
    by (simp add: recoverState_def bindA_step returnA_def liftA_def tryA_def)
  obtain p j where prep: "prepare_session ?h sample_cluster [] ''sys'' [] ?w = (?w, Inr (p, j))"
    using sample_prepare by blast
  have fields: "fcr_jobID fresh_controller = []" "\<not> fcr_fakeStart fresh_controller"
    "fcr_systemName fresh_controller = ''sys''" "fcr_partition fresh_controller = []"
    "offsets_in_range fresh_controller"
    by (simp_all add: fresh_controller_def sample_controller_def offsets_in_range_def)
  have saves: "\<exists>w'. saveState ?h (v, c) = ((w', c), Inr ())" if "fcr_jobID c \<noteq> []" for v c
    by (rule saveState_succeeds [OF that]) (auto simp: succeeds_def sample_host_def)
  have "\<exists>w' c'. submit_session ?h sample_cluster p j (?w, fresh_controller) = ((w', c'), Inr ())"
  proof (rule submit_session_succeeds)
    show "submitJob sample_cluster (fcr_systemName fresh_controller) j ?w = (?w, Inr ''42'')"
      by (simp add: fields sample_calls)
    show "GetJobMetadataComputeSystemNameJobsJobIdMetadataGetWithResponse sample_cluster
        (fcr_systemName fresh_controller) ''42'' ?w = (?w, Inr (sample_ok 200 (Some None)))"
      by (simp add: fields sample_operations)
  qed (rule saves, simp)
  then obtain w' c' where
    "submit_session ?h sample_cluster p j (?w, fresh_controller) = ((w', c'), Inr ())" by blast
  then have start: "fc_Start ?h sample_cluster [] (?w, fresh_controller) = ((w', c'), Inr ())"
    using prep by (simp add: fc_Start_def bindA_step recover fields liftA_def)
  from restart_adopts_job [OF files read fields(1,2,5) start, of sample_cluster "[]" fresh_controller]
  show ?thesis using start by blast
qed

text \<open>A turn of the status loop with a job keeps the job and saves it.\<close>

lemma succeeds_forA: "(\<And>x. x \<in> set xs \<Longrightarrow> succeeds (f x)) \<Longrightarrow> succeeds (forA xs f)"
  by (induction xs) (auto intro: succeeds_intros)

lemma flush_lines_succeeds: "succeeds (flush_lines h stream offset buf)"
  unfolding flush_lines_split print_lines_def by (intro succeeds_intros succeeds_forA)

lemma fetchLogStream_keeps_job:
  assumes "fetchLogStream h cl stream (w, c) = ((w', c'), r)"
  shows "r = Inr () \<and> fcr_jobID c' = fcr_jobID c"
proof -
  have "\<exists>v n b. flush_lines h stream offset buf u = (v, Inr (n, b))" for offset buf u
    using flush_lines_succeeds [of h stream offset buf] unfolding succeeds_def by (metis surj_pair)
  moreover have "fcr_jobID (set_stream stream n b c) = fcr_jobID c" for n b
    by (cases stream) (simp_all add: set_stream_def)
  ultimately show ?thesis
    using assms
    by (auto simp: fetchLogStream_def bindA_def liftA_def tryA_def returnA_def Let_def
        split: prod.splits sum.splits option.splits if_splits) (metis Inl_Inr_False prod.inject)+
qed

lemma fetchSessionLogs_keeps_job:
  assumes "fetchSessionLogs h cl (w, c) = ((w', c'), r)"
  shows "r = Inr () \<and> fcr_jobID c' = fcr_jobID c"
proof -
  have "r = Inr () \<and> fcr_jobID c' = fcr_jobID c"
    if "forA streams (fetchLogStream h cl) (w, c) = ((w', c'), r)" for streams
    using that
  proof (induction streams arbitrary: w c)
    case Nil
    then show ?case by (simp add: returnA_def)
  next
    case (Cons s streams)
    obtain w1 c1 r1 where s: "fetchLogStream h cl s (w, c) = ((w1, c1), r1)" by (metis surj_pair)
    note keeps = fetchLogStream_keeps_job [OF s]
    with s Cons.prems have "forA streams (fetchLogStream h cl) (w1, c1) = ((w', c'), r)"
      by (simp add: bindA_def)
    from Cons.IH [OF this] keeps show ?case by simp
  qed
  then show ?thesis
    using assms by (auto simp: fetchSessionLogs_def bindA_def returnA_def split: if_splits)
qed

lemma status_turn_saves:
  assumes turn: "fc_status_turn h cl (w, c) = ((w', c'), r)" and job: "fcr_jobID c \<noteq> []"
    and saves: "\<And>v. succeeds (rh_MkdirAll h v)" "\<And>v t. succeeds (rh_WriteFile h v t)"
  shows "\<exists>w1. saveState h (w1, c') = ((w', c'), Inr ()) \<and> fcr_jobID c' = fcr_jobID c"
proof -
  obtain w1 state err where status: "fc_getCurrentStatus cl c w = (w1, state, err)"
    by (metis surj_pair)
  let ?c = "c\<lparr> fcr_currentStatus := state, fcr_currentStatusError := err \<rparr>"
  obtain w2 c2 x where logs: "fetchSessionLogs h cl (w1, ?c) = ((w2, c2), x)" by (metis surj_pair)
  have c2: "x = Inr () \<and> fcr_jobID c2 = fcr_jobID c" using fetchSessionLogs_keeps_job [OF logs] by simp
  then obtain w3 where save: "saveState h (w2, c2) = ((w3, c2), Inr ())"
    using saveState_succeeds job saves by metis
  then have "w' = w3 \<and> c' = c2"
    using turn status logs c2 job
    by (simp add: fc_status_turn_def bindA_def tryA_def returnA_def)
  with save c2 show ?thesis by blast
qed

text \<open>C38: Stopping a session removes the saved state so that a later start submits a fresh job. A
  turn of the status loop that is still under way when the session is stopped saves the state
  again: the next start then adopts the cancelled job and submits none.
\<close>

theorem late_turn_revives_job:
  assumes "keeps_files h" "fcr_jobID c \<noteq> []"
    and stop: "fc_Stop h cl (w, c) = ((w1, c1), r)"
    and turn: "fc_status_turn h cl (w1, c1) = ((w2, c2), r')"
    and saves: "\<And>v. succeeds (rh_MkdirAll h v)" "\<And>v t. succeeds (rh_WriteFile h v t)"
    and range: "offsets_in_range c2"
  shows "\<exists>c3. fc_Start h cl script (w2, c0) = ((w2, c3), Inr ()) \<and> fcr_jobID c3 = fcr_jobID c"
proof -
  have c1: "c1 = c"
    using stop assms(2) by (auto simp: fc_Stop_def bindA_def liftA_def tryA_def failA_def returnA_def
        split: prod.splits sum.splits if_splits)
  obtain w3 where save: "saveState h (w3, c2) = ((w2, c2), Inr ())"
    and "fcr_jobID c2 = fcr_jobID c"
    using status_turn_saves [OF turn _ saves] assms(2) unfolding c1 by blast
  then show ?thesis
    using fc_restart.start_adopts [OF assms(1) save range] assms(2) by metis
qed

lemma late_turn_revives_job_witness:
  "\<exists>w1 w2 c1 c2 r r'. fc_Stop (sample_host []) sample_cluster (([], []), sample_controller) = ((w1, c1), r)
     \<and> fc_status_turn (sample_host []) sample_cluster (w1, c1) = ((w2, c2), r')
     \<and> (\<exists>c3. fc_Start (sample_host []) sample_cluster [] (w2, fresh_controller) = ((w2, c3), Inr ())
          \<and> fcr_jobID c3 = ''42'')"
proof -
  let ?h = "sample_host []" and ?w = "([], []) :: sample_world"
  let ?c = "sample_controller\<lparr> fcr_currentStatus := RemoteRunning, fcr_currentStatusError := None \<rparr>"
  have fields: "fcr_jobID sample_controller = ''42''" "fcr_systemName sample_controller = ''sys''"
    "fcr_jobID ?c = ''42''"
    by (simp_all add: sample_controller_def)
  have files: "keeps_files ?h" by (auto simp: keeps_files_def sample_host_def)
  have saves: "succeeds (rh_MkdirAll ?h v)" "succeeds (rh_WriteFile ?h v t)" for v t
    by (auto simp: succeeds_def sample_host_def)
  have stop: "fc_Stop ?h sample_cluster (?w, sample_controller) = ((?w, sample_controller), Inr ())"
    by (simp add: fc_Stop_def bindA_step fields liftA_def tryA_def deleteSavedState_def
        sample_operations, simp add: sample_ok_def sample_host_def returnA_def bindA_def)
  have status: "fc_getCurrentStatus sample_cluster sample_controller ?w = (?w, RemoteRunning, None)"
    by (simp add: fc_getCurrentStatus_def fields sample_operations)
      (simp add: sample_ok_def GetRemoteSessionState_def statusMap_def)
  have logs: "fetchSessionLogs ?h sample_cluster (?w, ?c) = ((?w, ?c), Inr ())"
    by (simp add: fetchSessionLogs_def fetchLogStream_def streamsToFetch_def bindA_def liftA_def
        tryA_def getA_def returnA_def sample_controller_def stream_path_def stream_offset_def
        stream_buf_def sample_operations sample_ok_def)
  obtain w2 where "saveState ?h (?w, ?c) = ((w2, ?c), Inr ())"
    using saveState_succeeds [of ?c ?h ?w] saves fields by auto
  then have turn: "fc_status_turn ?h sample_cluster (?w, sample_controller) = ((w2, ?c), Inr ())"
    using fields by (simp add: fc_status_turn_def status logs bindA_step tryA_def returnA_def)
  have range: "offsets_in_range ?c" by (simp add: offsets_in_range_def sample_controller_def)
  have job: "fcr_jobID sample_controller \<noteq> []" by (simp add: fields)
  from late_turn_revives_job [OF files job stop turn saves range, of "[]" fresh_controller]
  have "\<exists>c3. fc_Start ?h sample_cluster [] (w2, fresh_controller) = ((w2, c3), Inr ()) \<and> fcr_jobID c3 = ''42''"
    unfolding fields(1) .
  with stop turn show ?thesis by blast
qed

section \<open>Status\<close>

text \<open>A FirecREST session is reported as running only when the cluster says so: the controller
  has a job, the reply is a success, and the first job in it is in the state \<^verbatim>\<open>RUNNING\<close>. Every
  error is reported together with the failed state.
\<close>

lemma running_means_cluster_running:
  assumes "fc_getCurrentStatus cl c w = (w', state, err)"
  shows "(state = RemoteRunning \<longrightarrow> err = None \<and> fcr_jobID c \<noteq> []
      \<and> (\<exists>res jobs. GetJobComputeSystemNameJobsJobIdGetWithResponse cl (fcr_systemName c) (fcr_jobID c) w
              = (w', Inr res) \<and> or_JSON res = Some (Some (''RUNNING'' # jobs))))
    \<and> (err \<noteq> None \<longrightarrow> state = RemoteFailed)"
proof -
  have running: "s = ''RUNNING''" if "GetRemoteSessionState s = (RemoteRunning, e)" for s e
    using that by (auto simp: GetRemoteSessionState_def statusMap_def split: option.splits if_splits)
  show ?thesis
    using assms
    by (auto simp: fc_getCurrentStatus_def dest: running
        split: if_splits prod.splits sum.splits option.splits list.splits)
qed

section \<open>File systems\<close>

text \<open>The scratch file system of a session is one of the system's, and a default working
  directory if there is one among the scratch file systems. Of several candidates the last
  one is used, although a comment in the code says the first.
\<close>

lemma preferred_scratch_is_last:
  "getPreferredScratch (Some fss) =
     (let scratches = filter (\<lambda>fs. fs_DataType fs = Scratch) fss;
          defaults = filter (\<lambda>fs. fs_DefaultWorkDir fs = Some True) scratches
      in if defaults \<noteq> [] then Some (last defaults)
         else if scratches \<noteq> [] then Some (last scratches) else None)"
proof -
  have "last_some (\<lambda>x. if P x then Some x else None) xs =
      (if filter P xs \<noteq> [] then Some (last (filter P xs)) else None)" for P and xs :: "FileSystem list"
    by (induction xs) auto
  then show ?thesis by (auto simp: getPreferredScratch_def conj_commute Let_def)
qed

end
