(* ===== verification/Remote_Auth_Props.thy ===== *)
theory Remote_Auth_Props
  imports Remote_Auth Git_Proxy_Props
begin

text \<open>
  What holds of the authentication of the remote session controller. The interface
  \<^verbatim>\<open>RemoteAuth\<close> is the locale \<open>remote_auth\<close>: which token is handed out, when the network
  is used, and that a failed attempt keeps the token. The three implementations are
  interpretations of it, and the request editor is treated once, for all of them.
\<close>

section \<open>Specification\<close>

text \<open>A token that is still valid for ten seconds. One without an expiry is always valid.\<close>

definition usable :: "time \<Rightarrow> string \<times> time \<Rightarrow> bool" where
  "usable now c \<longleftrightarrow> fst c \<noteq> [] \<and> IsNotExpired now (snd c) (10 * second) False"

lemma usable_iff: "usable now (tok, t) \<longleftrightarrow> tok \<noteq> [] \<and> (t = 0 \<or> now + 10 * second < t)"
  by (auto simp: usable_def IsNotExpired_def Let_def)

locale remote_auth =
  fixes get_token :: "('s, string) action"
    and cached :: "'s \<Rightarrow> string \<times> time"
    and clock :: "'s \<Rightarrow> time"
  assumes cached_token: "usable (clock s) (cached s) \<Longrightarrow> get_token s = (s, Inr (fst (cached s)))"
    and new_token: "get_token s = (s', Inr token) \<Longrightarrow> token = fst (cached s')"
    and failed_token: "get_token s = (s', Inl e) \<Longrightarrow> cached s' = cached s"
begin

text \<open>Asking again while the token lasts neither uses the network nor changes the token.\<close>

lemma get_token_again:
  assumes "get_token s = (s', Inr token)" "usable (clock s') (cached s')"
  shows "get_token s' = (s', Inr token)"
  using cached_token [OF assms(2)] new_token [OF assms(1)] by simp

lemma edit_authorized:
  "header_get (rq_Header req) ''Authorization'' \<noteq> []
   \<Longrightarrow> RequestEditorInjectAccessToken get_token req s = (s, Inr req)"
  by (simp add: RequestEditorInjectAccessToken_def returnA_def)

lemma edit_request:
  assumes "header_get (rq_Header req) ''Authorization'' = []"
    and "RequestEditorInjectAccessToken get_token req s = (s', Inr req')"
  shows "req' = Header_Add ''Authorization'' (''Bearer '' @ fst (cached s')) req"
proof -
  obtain token where "get_token s = (s', Inr token)"
    and "req' = Header_Add ''Authorization'' (''Bearer '' @ token) req"
    using assms by (auto simp: RequestEditorInjectAccessToken_def bindA_def returnA_def
        split: prod.splits sum.splits)
  with new_token show ?thesis by simp
qed

lemma edit_error:
  assumes "RequestEditorInjectAccessToken get_token req s = (s', Inl e)"
  shows "get_token s = (s', Inl e) \<and> cached s' = cached s"
  using assms failed_token
  by (auto simp: RequestEditorInjectAccessToken_def bindA_def returnA_def
      split: prod.splits sum.splits if_splits)

end

section \<open>The implementations\<close>

definition fcc_cached :: "'w \<times> FirecrestClientCredentialsAuth \<Rightarrow> string \<times> time" where
  "fcc_cached s = (fcc_accessToken (snd s), fcc_accessTokenExpiresAt (snd s))"

definition ren_cached :: "'w \<times> RenkuAuth \<Rightarrow> string \<times> time" where
  "ren_cached s = (ren_accessToken (snd s), ren_accessTokenExpiresAt (snd s))"

definition rca_cached :: "'w \<times> RunaiClientCredentialsAuth \<Rightarrow> string \<times> time" where
  "rca_cached s = (rca_accessToken (snd s), rca_accessTokenExpiresAt (snd s))"

lemmas cached_defs = fcc_cached_def ren_cached_def rca_cached_def usable_def

interpretation fcc: remote_auth "fcc_GetAccessToken net" fcc_cached "\<lambda>s. an_now net (fst s)"
  for net :: "'w auth_net"
proof unfold_locales
  show "fcc_GetAccessToken net s = (s, Inr (fst (fcc_cached s)))"
    if "usable (an_now net (fst s)) (fcc_cached s)" for s
    using that by (cases s) (simp add: fcc_GetAccessToken_def cached_defs)
qed (auto simp: fcc_GetAccessToken_def fcc_refreshAccessToken_def cached_defs bindA_def
    split: if_splits prod.splits sum.splits)

lemma refreshRenku_keeps_token:
  assumes "getRenkuAccessToken net s = (s', r)"
  shows "ren_cached s' = ren_cached s"
  using assms
  by (cases s) (auto simp: getRenkuAccessToken_def refreshRenkuAccessToken_def
      refreshRenkuAccessTokenV2_def store_v2_def ren_cached_def bindA_def Let_def
      split: if_splits prod.splits sum.splits)

lemma ren_refresh_error:
  assumes "ren_refreshAccessToken net s = (s', Inl e)"
  shows "ren_cached s' = ren_cached s"
  using assms refreshRenku_keeps_token
  by (fastforce simp: ren_refreshAccessToken_def ren_cached_def bindA_def
      split: prod.splits sum.splits)

interpretation ren: remote_auth "ren_GetAccessToken net" ren_cached "\<lambda>s. an_now net (fst s)"
  for net :: "'w auth_net"
proof unfold_locales
  show "ren_GetAccessToken net s = (s, Inr (fst (ren_cached s)))"
    if "usable (an_now net (fst s)) (ren_cached s)" for s
    using that by (cases s) (simp add: ren_GetAccessToken_def cached_defs)
  show "token = fst (ren_cached s')"
    if "ren_GetAccessToken net s = (s', Inr token)" for s s' token
    using that by (cases s) (auto simp: ren_GetAccessToken_def ren_cached_def bindA_def
        split: if_splits prod.splits sum.splits)
  show "ren_cached s' = ren_cached s"
    if "ren_GetAccessToken net s = (s', Inl e)" for s s' e
    using that by (cases s) (auto simp: ren_GetAccessToken_def bindA_def
        split: if_splits prod.splits sum.splits dest: ren_refresh_error)
qed

interpretation rca: remote_auth "rca_GetAccessToken net" rca_cached "\<lambda>s. an_now net (fst s)"
  for net :: "'w auth_net"
proof unfold_locales
  show "rca_GetAccessToken net s = (s, Inr (fst (rca_cached s)))"
    if "usable (an_now net (fst s)) (rca_cached s)" for s
    using that by (cases s) (simp add: rca_GetAccessToken_def cached_defs)
qed (auto simp: rca_GetAccessToken_def rca_refreshAccessToken_def rca_cached_def
    split: if_splits prod.splits sum.splits)

fun fa_cached :: "'w \<times> FirecrestAuth \<Rightarrow> string \<times> time" where
  "fa_cached (w, FirecrestAuthRenku a) = ren_cached (w, a)"
| "fa_cached (w, FirecrestAuthClientCredentials a) = fcc_cached (w, a)"

interpretation fa: remote_auth "FirecrestAuth_GetAccessToken net" fa_cached "\<lambda>s. an_now net (fst s)"
  for net :: "'w auth_net"
proof unfold_locales
  show "FirecrestAuth_GetAccessToken net s = (s, Inr (fst (fa_cached s)))"
    if "usable (an_now net (fst s)) (fa_cached s)" for s
    using that ren.cached_token [of net] fcc.cached_token [of net]
    by (cases s rule: fa_cached.cases) simp_all
  show "token = fst (fa_cached s')"
    if "FirecrestAuth_GetAccessToken net s = (s', Inr token)" for s s' token
    using that by (cases s rule: fa_cached.cases)
      (auto simp: Let_def split: prod.splits dest: ren.new_token fcc.new_token)
  show "fa_cached s' = fa_cached s"
    if "FirecrestAuth_GetAccessToken net s = (s', Inl e)" for s s' e
    using that by (cases s rule: fa_cached.cases)
      (auto simp: Let_def split: prod.splits dest: ren.failed_token fcc.failed_token)
qed

section \<open>A sample network\<close>

text \<open>
  The world is the clock; every request gets the same reply. The token \<^verbatim>\<open>jwt\<close> has an expiry,
  \<^verbatim>\<open>endless\<close> has none, and no other token is a JWT.
\<close>

definition sample_auth_net :: "int \<Rightarrow> string \<Rightarrow> int auth_net" where
  "sample_auth_net code body = \<lparr>
     an_Do = (\<lambda>_ w. (w, Inr \<lparr> rp_StatusCode = code, rp_Status = [],
       rp_ContentType = ''application/json'', rp_Body = Inr body \<rparr>)),
     an_now = (\<lambda>w. w),
     an_jwt_expiry = (\<lambda>t. if t = ''jwt'' then Inr (Some (60 * minute))
       else if t = ''endless'' then Inr None else Inl (Err ''token is malformed'')),
     an_parseAuthority = (\<lambda>a. Inr (None, a)) \<rparr>"

definition sample_rca :: RunaiClientCredentialsAuth where
  "sample_rca = \<lparr> rca_tokenURI = ''/token'', rca_clientID = ''id'', rca_clientSecret = ''secret'',
     rca_accessToken = [], rca_accessTokenExpiresAt = 0 \<rparr>"

definition sample_fcc :: FirecrestClientCredentialsAuth where
  "sample_fcc = \<lparr> fcc_tokenURI = ''/token'', fcc_clientID = ''id'', fcc_clientSecret = ''secret'',
     fcc_accessToken = ''abc'', fcc_accessTokenExpiresAt = 0 \<rparr>"

definition sample_request :: http_request where
  "sample_request = \<lparr> rq_Method = ''GET'', rq_URL = ''/status'', rq_Header = fmempty, rq_Body = [] \<rparr>"

section \<open>Requests carry the current token\<close>

text \<open>C26: A request to the FirecREST API that has no credentials yet is sent with the access token
  that the authentication object holds after the call, whatever the scheme: the token is the last
  value of the header \<^verbatim>\<open>Authorization\<close>, after the empty ones that it may have had, and nothing
  else of the request changes, its other headers included. A request that has credentials
  is left as it is, and no token is asked for.
\<close>

theorem request_carries_current_token:
  assumes "RequestEditorInjectAccessToken (FirecrestAuth_GetAccessToken net) req s = (s', Inr req')"
  shows "if header_get (rq_Header req) ''Authorization'' \<noteq> [] then req' = req \<and> s' = s
    else req' = req\<lparr> rq_Header := fmupd ''Authorization''
        ((case fmlookup (rq_Header req) ''Authorization'' of Some vs \<Rightarrow> vs | None \<Rightarrow> [])
           @ [''Bearer '' @ fst (fa_cached s')]) (rq_Header req) \<rparr>"
  using assms fa.edit_authorized [of req net s] fa.edit_request [of req net s s' req']
  by (simp add: Header_Add_def header_add_def)

lemma request_carries_current_token_witness:
  "rq_Header (Header_Add ''Authorization'' ''Bearer abc'' sample_request)
     = fmupd ''Authorization'' [''Bearer abc''] fmempty"
proof -
  let ?s = "(5, FirecrestAuthClientCredentials sample_fcc)"
  have e: "RequestEditorInjectAccessToken (FirecrestAuth_GetAccessToken (sample_auth_net 200 []))
      sample_request ?s = (?s, Inr (Header_Add ''Authorization'' ''Bearer abc'' sample_request))"
    by (simp add: RequestEditorInjectAccessToken_def header_get_def sample_request_def bindA_def
        returnA_def fcc_GetAccessToken_def sample_fcc_def IsNotExpired_def Let_def)
  show ?thesis
    using request_carries_current_token [OF e]
    by (simp add: header_get_def sample_request_def fcc_cached_def sample_fcc_def)
qed

section \<open>Refreshing under the lock\<close>

lemma rca_get_eq_refresh: "rca_GetAccessToken net s = rca_refreshAccessToken net s"
  by (cases s) (simp add: rca_GetAccessToken_def rca_refreshAccessToken_def)

text \<open>A token reply of the RunAI API.\<close>

definition runai_reply_body :: "string \<Rightarrow> int \<Rightarrow> string" where
  "runai_reply_body token n =
     json_Marshal (JObj [(''accessToken'', JStr token), (''expiresIn'', JNum (show_int n))])"

lemma parse_runai_reply:
  assumes "- (2 ^ 63) \<le> n" "n < 2 ^ 63" "rp_Body res = Inr (runai_reply_body token n)"
  shows "runai_parseTokenResponse res = Inr \<lparr> rtp_AccessToken = token, rtp_ExpiresIn = n \<rparr>"
proof -
  let ?v = "JObj [(''accessToken'', JStr token), (''expiresIn'', JNum (show_int n))]"
  have "json_ok ?v" using json_ok_int [of n] by simp
  then have "json_Decode (runai_reply_body token n) = Inr ?v"
    unfolding runai_reply_body_def by (rule json_Decode_Marshal)
  moreover have "json_member ''accessToken'' [(''accessToken'', JStr token), (''expiresIn'', JNum (show_int n))]
      = JStr token"
    "json_member ''expiresIn'' [(''accessToken'', JStr token), (''expiresIn'', JNum (show_int n))]
      = JNum (show_int n)"
    by (simp_all add: json_member_def ToLower_def lower_char_def)
  ultimately show ?thesis
    using assms by (simp add: runai_parseTokenResponse_def decode_show_int del: decode_int.simps(2))
qed

section \<open>Lifetime of a token\<close>

lemma wrap64_small: "- (2 ^ 63) \<le> n \<Longrightarrow> n < 2 ^ 63 \<Longrightarrow> wrap64 n = n"
  by (simp add: wrap64_def)

lemma wrap64_over: "2 ^ 63 \<le> n \<Longrightarrow> n < 2 ^ 63 + 2 ^ 64 \<Longrightarrow> wrap64 n = n - 2 ^ 64"
proof -
  assume "2 ^ 63 \<le> n" "n < 2 ^ 63 + 2 ^ 64"
  then have "(n + 2 ^ 63 - 2 ^ 64) mod 2 ^ 64 = n + 2 ^ 63 - 2 ^ 64"
    by (intro mod_pos_pos_trivial) simp_all
  moreover have "(n + 2 ^ 63 - 2 ^ 64) mod 2 ^ 64 = (n + 2 ^ 63) mod 2 ^ 64"
    by (rule minus_mod_self2)
  ultimately show ?thesis by (simp add: wrap64_def)
qed

text \<open>
  A token server of the RunAI API that grants the token for \<open>n\<close> seconds to every request; the
  requests that it gets are counted.
\<close>

definition grants :: "'w auth_net \<Rightarrow> ('w \<Rightarrow> nat) \<Rightarrow> string \<Rightarrow> int \<Rightarrow> bool" where
  "grants net requests token n \<longleftrightarrow> (\<forall>req w. \<exists>w' res. an_Do net req w = (w', Inr res)
     \<and> requests w' = Suc (requests w) \<and> rp_StatusCode res = 200
     \<and> rp_Body res = Inr (runai_reply_body token n))"

definition rca_request :: "'w auth_net \<Rightarrow> RunaiClientCredentialsAuth \<Rightarrow> http_request result" where
  "rca_request net a = http_NewRequest (an_parseAuthority net) ''POST'' (rca_tokenURI a)
     (json_Marshal (runai_tokenRequest ''client_credentials'' (rca_clientID a) (rca_clientSecret a)))"

lemma granted_token:
  assumes "grants net requests token n" "- (2 ^ 63) \<le> n" "n < 2 ^ 63"
    and "\<not> usable (an_now net w) (rca_cached (w, a))" "rca_request net a = Inr req"
  obtains w' where "requests w' = Suc (requests w)"
    "rca_GetAccessToken net (w, a) = ((w', a\<lparr> rca_accessToken := token,
       rca_accessTokenExpiresAt := expires_in (an_now net w') n \<rparr>), Inr token)"
proof -
  let ?req = "Header_Set ''Content-Type'' ''application/json'' req"
  obtain w' res where w': "an_Do net ?req w = (w', Inr res)" "requests w' = Suc (requests w)"
    "rp_StatusCode res = 200" "rp_Body res = Inr (runai_reply_body token n)"
    using assms(1) unfolding grants_def by blast
  have "rca_GetAccessToken net (w, a) = ((w', a\<lparr> rca_accessToken := token,
       rca_accessTokenExpiresAt := expires_in (an_now net w') n \<rparr>), Inr token)"
    unfolding rca_get_eq_refresh using assms(4,5) w'(1,3) parse_runai_reply [OF assms(2,3) w'(4)]
    by (auto simp: rca_refreshAccessToken_def runai_requestNewAccessToken_def bindA_def usable_def
        rca_cached_def rca_request_def)
  with w'(2) show ?thesis by (rule that)
qed

lemma rca_failed_request:
  assumes "rca_request net a = Inl e" "\<not> usable (an_now net w) (rca_cached (w, a))"
  shows "rca_GetAccessToken net (w, a) = ((w, a), Inl e)"
  unfolding rca_get_eq_refresh using assms
  by (simp add: rca_refreshAccessToken_def runai_requestNewAccessToken_def failA_def usable_def
      rca_cached_def rca_request_def)

lemma token_reused_iff:
  assumes "grants net requests token n" "token \<noteq> []" "- (2 ^ 63) \<le> n" "n < 2 ^ 63"
    and "rca_GetAccessToken net (w, a) = ((w1, a1), Inr t)" "requests w1 \<noteq> requests w"
    and "2 ^ 63 < an_now net w1"
  shows "requests (fst (fst (rca_GetAccessToken net (w2, a1)))) = requests w2
    \<longleftrightarrow> an_now net w2 + 10 * second < an_now net w1 + wrap64 (second * n)"
proof -
  have not: "\<not> usable (an_now net w) (rca_cached (w, a))"
    using rca.cached_token [of net "(w, a)"] assms(5,6) by auto
  then obtain req where req: "rca_request net a = Inr req"
    using rca_failed_request [OF _ not] assms(5) by (cases "rca_request net a") simp_all
  obtain w' where "rca_GetAccessToken net (w, a) = ((w', a\<lparr> rca_accessToken := token,
       rca_accessTokenExpiresAt := expires_in (an_now net w') n \<rparr>), Inr token)"
    using granted_token [OF assms(1,3,4) not req] by blast
  then have a1: "a1 = a\<lparr> rca_accessToken := token,
      rca_accessTokenExpiresAt := expires_in (an_now net w1) n \<rparr>" using assms(5) by simp
  have "expires_in (an_now net w1) n \<noteq> 0"
    using assms(7) by (simp add: expires_in_def wrap64_def)
  then have u: "usable (an_now net w2) (rca_cached (w2, a1))
      \<longleftrightarrow> an_now net w2 + 10 * second < an_now net w1 + wrap64 (second * n)"
    using assms(2) by (simp add: a1 rca_cached_def usable_iff expires_in_def)
  show ?thesis
  proof (cases "usable (an_now net w2) (rca_cached (w2, a1))")
    case True
    then show ?thesis using u rca.cached_token [of net "(w2, a1)"] by simp
  next
    case False
    moreover have "rca_request net a1 = Inr req" using req by (simp add: a1 rca_request_def)
    ultimately show ?thesis
      using u granted_token [OF assms(1,3,4) False, of req] by (metis fst_conv n_not_Suc_n)
  qed
qed

text \<open>C33: The lifetime in seconds that a RunAI token server announces is multiplied with 64 bits,
  and the token is given out without a request as long as it is valid for ten more seconds. After a
  token was obtained, a later call sends no request exactly when its time and ten seconds come
  before the time of the first call and the wrapped product. So for lifetimes of at most
  9223372036 seconds (292 years) the announced lifetime counts, and from there to 18446744073 seconds
  every later call asks for a new token, because the product is negative. (Beyond, it can be
  positive again: 18446744084 seconds last ten seconds.) The clock shows a date after the year 293.
\<close>

theorem token_lifetime_bounds:
  assumes "grants net requests token n" "token \<noteq> []" "- (2 ^ 63) \<le> n" "n < 2 ^ 63"
    and "rca_GetAccessToken net (w, a) = ((w1, a1), Inr t)" "requests w1 \<noteq> requests w"
    and "2 ^ 63 < an_now net w1"
  shows "(requests (fst (fst (rca_GetAccessToken net (w2, a1)))) = requests w2
      \<longleftrightarrow> an_now net w2 + 10 * second < an_now net w1 + wrap64 (second * n))
    \<and> (\<bar>n\<bar> \<le> 9223372036 \<longrightarrow>
        (requests (fst (fst (rca_GetAccessToken net (w2, a1)))) = requests w2
          \<longleftrightarrow> an_now net w2 + 10 * second < an_now net w1 + n * second))
    \<and> (9223372036 < n \<and> n \<le> 18446744073 \<and> an_now net w1 \<le> an_now net w2 \<longrightarrow>
        requests (fst (fst (rca_GetAccessToken net (w2, a1)))) \<noteq> requests w2)"
proof -
  have "wrap64 (second * n) = n * second" if "\<bar>n\<bar> \<le> 9223372036"
    using that wrap64_small [of "second * n"] by (simp add: second_def abs_le_iff)
  moreover have "wrap64 (second * n) < 0" if "9223372036 < n" "n \<le> 18446744073"
    using that wrap64_over [of "second * n"] by (simp add: second_def)
  ultimately show ?thesis
    using token_reused_iff [OF assms, of w2] by (auto simp: second_def)
qed

text \<open>A clock with a server that counts its requests.\<close>

definition counting_net :: "string \<Rightarrow> int \<Rightarrow> (time \<times> nat) auth_net" where
  "counting_net token n = \<lparr>
     an_Do = (\<lambda>_ (t, k). ((t, Suc k), Inr \<lparr> rp_StatusCode = 200, rp_Status = ''200 OK'',
       rp_ContentType = ''application/json'', rp_Body = Inr (runai_reply_body token n) \<rparr>)),
     an_now = fst, an_jwt_expiry = (\<lambda>_. Inr None), an_parseAuthority = (\<lambda>a. Inr (None, a)) \<rparr>"

lemma counting_net_grants: "grants (counting_net token n) snd token n"
  by (simp add: grants_def counting_net_def case_prod_beta)

lemma counting_net_fetch:
  assumes "- (2 ^ 63) \<le> n" "n < 2 ^ 63"
  shows "rca_GetAccessToken (counting_net token n) ((t, k), sample_rca) =
    (((t, Suc k), sample_rca\<lparr> rca_accessToken := token,
        rca_accessTokenExpiresAt := expires_in t n \<rparr>), Inr token)"
proof -
  have not: "\<not> usable t' (rca_cached (x, sample_rca))" for t' x
    by (simp add: rca_cached_def usable_iff sample_rca_def)
  obtain req where req: "rca_request (counting_net token n) sample_rca = Inr req"
    by (simp add: rca_request_def sample_rca_def http_NewRequest_def sample_parse)
  obtain req where "http_NewRequest (an_parseAuthority (counting_net token n)) ''POST'' ''/token''
      (json_Marshal (runai_tokenRequest ''client_credentials'' ''id'' ''secret'')) = Inr req"
    by (simp add: http_NewRequest_def sample_parse)
  then show ?thesis
    unfolding rca_get_eq_refresh using not
    by (simp add: rca_refreshAccessToken_def runai_requestNewAccessToken_def bindA_def usable_def
        rca_cached_def sample_rca_def counting_net_def parse_runai_reply [OF assms])
qed

lemma token_lifetime_bounds_witness:
  "snd (fst (fst (rca_GetAccessToken (counting_net ''abc'' 10000000000) ((2 ^ 64, 1),
     sample_rca\<lparr> rca_accessToken := ''abc'',
       rca_accessTokenExpiresAt := expires_in (2 ^ 64) 10000000000 \<rparr>)))) \<noteq> 1"
proof -
  let ?net = "counting_net ''abc'' 10000000000"
  have "rca_GetAccessToken ?net ((2 ^ 64, 0), sample_rca) = (((2 ^ 64, Suc 0), sample_rca\<lparr>
      rca_accessToken := ''abc'', rca_accessTokenExpiresAt := expires_in (2 ^ 64) 10000000000 \<rparr>), Inr ''abc'')"
    by (rule counting_net_fetch) simp_all
  moreover have "an_now ?net (2 ^ 64, k) = 2 ^ 64" for k by (simp add: counting_net_def)
  ultimately show ?thesis
    using token_lifetime_bounds [OF counting_net_grants, of "''abc''" 10000000000 "(2 ^ 64, 0)"
        sample_rca "(2 ^ 64, Suc 0)" _ "''abc''" "(2 ^ 64, 1)", THEN conjunct2, THEN conjunct2]
    by simp
qed

section \<open>Tokens without an expiry\<close>

text \<open>A token reply of an OAuth 2.0 server.\<close>

definition oauth_reply :: "string \<Rightarrow> int \<Rightarrow> http_reply" where
  "oauth_reply token n = \<lparr> rp_StatusCode = 200, rp_Status = ''200 OK'',
     rp_ContentType = ''application/json'',
     rp_Body = Inr (json_Marshal (JObj [(''access_token'', JStr token),
       (''expires_in'', JNum (show_int n))])) \<rparr>"

lemma parse_oauth_reply:
  assumes "- (2 ^ 63) \<le> n" "n < 2 ^ 63"
  shows "parseTokenResponse (oauth_reply token n) =
    Inr \<lparr> tp_AccessToken = token, tp_ExpiresIn = n, tp_RefreshToken = [] \<rparr>"
proof -
  let ?ms = "[(''access_token'', JStr token), (''expires_in'', JNum (show_int n))]"
  have "json_ok (JObj ?ms)" using json_ok_int [of n] by simp
  then have "json_parse (json_Marshal (JObj ?ms)) = Inr (JObj ?ms)" by (rule json_parse_Marshal)
  moreover have "json_member ''access_token'' ?ms = JStr token"
    "json_member ''expires_in'' ?ms = JNum (show_int n)" "json_member ''refresh_token'' ?ms = JNull"
    by (simp_all add: json_member_def ToLower_def lower_char_def)
  ultimately show ?thesis
    using assms by (simp add: parseTokenResponse_def oauth_reply_def decode_show_int
        del: decode_int.simps(2))
qed

text \<open>A token server may answer with a JWT that carries no expiry, which the announced
  lifetime is there for. The controller then panics, because it reads the missing claim
  through a nil pointer; for a token that is no JWT it does use the announced lifetime.
\<close>

lemma token_without_expiry_panics:
  assumes "- (2 ^ 63) \<le> n" "n < 2 ^ 63"
  shows "(an_jwt_expiry net token = Inr None
      \<longrightarrow> (\<exists>m. token_result net (oauth_reply token n) w = (w, Inl (Panicked m))))
    \<and> (\<forall>e. an_jwt_expiry net token = Inl e
      \<longrightarrow> token_result net (oauth_reply token n) w =
        (w, Inr \<lparr> tr_AccessToken = token, tr_ExpiresAt = expires_in (an_now net w) n,
              tr_RefreshToken = [] \<rparr>))"
proof -
  have "rp_StatusCode (oauth_reply token n) = 200" by (simp add: oauth_reply_def)
  then show ?thesis
    using assms by (auto simp: token_result_def parse_oauth_reply getJWTExpiresAt_def)
qed

section \<open>The Renku access token\<close>

text \<open>With the first version of the Renku scheme the access token that the controller is
  configured with has no recorded expiry. It is therefore handed out for ever, without a
  request and whatever the clock says, and the refresh token is never used for it.
\<close>

lemma initial_renku_token_never_expires:
  assumes "newRenkuAuth net uri version token refresh renkuURI clientID secret = Inr a"
    and "version \<noteq> ''v2''" "token \<noteq> []"
  shows "getRenkuAccessToken net (w, a) = ((w, a), Inr token)"
  using assms by (auto simp: newRenkuAuth_def getRenkuAccessToken_def IsNotExpired_def Let_def
      split: if_splits)

section \<open>Configurations that pass the checks\<close>

text \<open>
  A FirecREST authentication configuration that passes the checks can be used, unless the
  second version of the Renku scheme is given an access token without an expiry, where the
  constructor panics.
\<close>

lemma validated_auth_constructs:
  assumes "FirecrestAuthConfig_Validate pa cfg = None"
  shows "(\<exists>a. NewFirecrestAuth net cfg = Inr a)
    \<longleftrightarrow> \<not> (fa_Kind cfg = FirecrestAuthConfigKindRenkuV2
          \<and> an_jwt_expiry net (fa_RenkuAccessToken cfg) = Inr None)"
proof -
  have kinds: "FirecrestAuthConfigKindRenku \<noteq> FirecrestAuthConfigKindRenkuV2"
    "FirecrestAuthConfigKindRenku \<noteq> FirecrestAuthConfigKindClientCredentials"
    "FirecrestAuthConfigKindRenkuV2 \<noteq> FirecrestAuthConfigKindClientCredentials"
    by (simp_all add: FirecrestAuthConfigKindRenku_def FirecrestAuthConfigKindRenkuV2_def
        FirecrestAuthConfigKindClientCredentials_def)
  from assms consider
      "fa_Kind cfg = FirecrestAuthConfigKindRenku" "validateRenku pa cfg = None"
    | "fa_Kind cfg = FirecrestAuthConfigKindRenkuV2" "validateRenkuV2 pa cfg = None"
    | "fa_Kind cfg = FirecrestAuthConfigKindClientCredentials" "validateClientCredentials pa cfg = None"
    by (auto simp: FirecrestAuthConfig_Validate_def split: if_splits)
  then show ?thesis
  proof cases
    case 1
    then show ?thesis
      using kinds by (auto simp: NewFirecrestAuth_def newRenkuAuth_def validateRenku_def
          split: if_splits sum.splits)
  next
    case 2
    then have "fa_TokenURI cfg \<noteq> []" "fa_RenkuRefreshToken cfg \<noteq> []" "fa_RenkuTokenURI cfg \<noteq> []"
      by (auto simp: validateRenkuV2_def split: if_splits sum.splits)
    then show ?thesis
      using 2(1) kinds by (auto simp: NewFirecrestAuth_def newRenkuAuth_def deref_def bindE_def
          split: sum.splits option.splits)
  next
    case 3
    then show ?thesis
      using kinds by (auto simp: NewFirecrestAuth_def newFirecrestClientCredentialsAuth_def
          validateClientCredentials_def split: if_splits sum.splits)
  qed
qed

definition sample_auth_config :: "string \<Rightarrow> FirecrestAuthConfig" where
  "sample_auth_config token = \<lparr> fa_Kind = ''renku_v2'', fa_TokenURI = ''/token'',
     fa_RenkuAccessToken = token, fa_RenkuRefreshToken = ''r'', fa_RenkuTokenURI = ''/token'',
     fa_RenkuClientID = [], fa_RenkuClientSecret = [], fa_FirecrestClientID = [],
     fa_FirecrestClientSecret = [] \<rparr>"

lemma sample_auth_config_valid:
  "token \<noteq> [] \<Longrightarrow> FirecrestAuthConfig_Validate pa (sample_auth_config token) = None"
  by (simp add: FirecrestAuthConfig_Validate_def sample_auth_config_def validateRenkuV2_def
      FirecrestAuthConfigKindRenku_def FirecrestAuthConfigKindRenkuV2_def
      FirecrestAuthConfigKindClientCredentials_def sample_parse)

end
