(* ===== verification/Remote_Server_Props.thy ===== *)
theory Remote_Server_Props
  imports Remote_Server Firecrest_Props Remote_Auth_Props
begin

text \<open>
  What holds of the remote session controller as a process: what its endpoints report, in which
  order it starts and stops a session, which sessions it adopts after a restart, and how the
  Run:AI client repeats a request.
\<close>

section \<open>Reporting the status\<close>

text \<open>
  The contract between a controller and the status endpoint: a turn of the background loop
  stores what the controller observed, and the endpoint reads what is stored.
\<close>

locale status_source =
  fixes status :: "'c \<Rightarrow> RemoteSessionState \<times> go_error option"
    and observe :: "'c \<Rightarrow> 's \<Rightarrow> 's \<times> RemoteSessionState \<times> go_error option"
    and turn :: "('s \<times> 'c, unit) action"
  assumes turn_stores: "status (snd (fst (turn (w, c)))) = snd (observe c w)"
begin

lemma endpoint_reports_turn:
  "er_Code (status_endpoint (status (snd (fst (turn (w, c)))))) =
     (if snd (observe c w) = (RemoteRunning, None) then 200 else 503)"
  by (cases "observe c w") (auto simp: turn_stores status_endpoint_def)

end

lemma fetchSessionLogs_status: "keeps fc_Status (fetchSessionLogs h cl)"
proof -
  have "fc_Status (set_stream stream n b c) = fc_Status c" for stream n b c
    by (cases stream) (simp_all add: set_stream_def fc_Status_def)
  then show ?thesis
    unfolding fetchSessionLogs_def fetchLogStream_def by (intro keeps_intros)
qed

lemma saveState_keeps: "keeps f (saveState h)"
  unfolding saveState_def by (intro keeps_intros)

interpretation fc_source: status_source fc_Status "fc_getCurrentStatus cl" "fc_status_turn h cl" for h cl
proof
  fix w c
  obtain w1 state err where status: "fc_getCurrentStatus cl c w = (w1, state, err)" by (metis surj_pair)
  let ?c = "c\<lparr> fcr_currentStatus := state, fcr_currentStatusError := err \<rparr>"
  obtain w2 c2 r where logs: "fetchSessionLogs h cl (w1, ?c) = ((w2, c2), r)" by (metis surj_pair)
  have r: "r = Inr ()" using fetchSessionLogs_keeps_job [OF logs] by simp
  have "snd (fst (fc_status_turn h cl (w, c))) = c2"
    using status logs r keepsD [OF saveState_keeps [of id], of h w2 c2]
    by (auto simp: fc_status_turn_def bindA_def tryA_def returnA_def split: prod.splits)
  then show "fc_Status (snd (fst (fc_status_turn h cl (w, c)))) = snd (fc_getCurrentStatus cl c w)"
    using keepsD [OF fetchSessionLogs_status logs] status by (simp add: fc_Status_def)
qed

interpretation ra_source: status_source ra_Status "ra_getCurrentStatus cl" "ra_status_turn cl" for cl
  by unfold_locales (simp add: ra_status_turn_def ra_Status_def split: prod.splits)

text \<open>What the client makes of a reply about the jobs.\<close>

definition first_job_state :: "http_reply \<Rightarrow> string \<Rightarrow> bool" where
  "first_job_state rsp state \<longleftrightarrow> rp_StatusCode rsp = 200 \<and> str_Contains (rp_ContentType rsp) ''json''
     \<and> (\<exists>body r job jobs. rp_Body rsp = Inr body \<and> unmarshal decode_GetJobResponse body = Inr r
          \<and> GetJobResponse_Jobs r = Some (job # jobs) \<and> JobStatus_State (JobModel_Status job) = state)"

lemma parsed_first_job:
  "(\<exists>res jobs. ParseGetJobComputeSystemNameJobsJobIdGetResponse (firecrest_decoders pt) rsp = Inr res
      \<and> or_JSON res = Some (Some (state # jobs))) \<longleftrightarrow> first_job_state rsp state"
proof -
  have jobs: "map_option (map f) v = Some (state # jobs) \<longleftrightarrow> (\<exists>x xs. v = Some (x # xs) \<and> f x = state \<and> map f xs = jobs)"
    for f :: "JobModel \<Rightarrow> string" and v jobs by (auto simp: map_eq_Cons_conv)
  show ?thesis
    by (auto simp: ParseGetJobComputeSystemNameJobsJobIdGetResponse_def parse_reply_def firecrest_decoders_def
        first_job_state_def bindE_Inr_iff jobs Let_def split: if_splits)
qed

lemma reply_first_job:
  "(\<exists>w' res jobs. GetJobComputeSystemNameJobsJobIdGetWithResponse cl s j w = (w', Inr res)
      \<and> or_JSON res = Some (Some (state # jobs))) \<longleftrightarrow>
   (\<exists>w' rsp. GetJobComputeSystemNameJobsJobIdGet cl s j w = (w', Inr rsp) \<and> first_job_state rsp state)"
  unfolding parsed_first_job [symmetric, of _ _ "rt_unmarshalTime (cl_runtime cl)"]
    GetJobComputeSystemNameJobsJobIdGetWithResponse_def with_response_def
  by (auto simp: bindA_def split: prod.splits sum.splits)

text \<open>C27: The status endpoint of a FirecREST session follows the cluster: after a turn of the
  background loop it answers 200 exactly when the controller has a job and the cluster's reply to
  the request for it has the status 200 and a JSON body whose first job is in the state
  \<^verbatim>\<open>RUNNING\<close>, and 503 in every other case: an error of the request, another status, a body that is
  no JSON or of another shape, no jobs, or another state.
\<close>

theorem firecrest_status_follows_cluster:
  "er_Code (status_endpoint (fc_Status (snd (fst (fc_status_turn h cl (w, c)))))) =
     (if fcr_jobID c \<noteq> []
         \<and> (\<exists>w' rsp. GetJobComputeSystemNameJobsJobIdGet cl (fcr_systemName c) (fcr_jobID c) w = (w', Inr rsp)
              \<and> first_job_state rsp ''RUNNING'')
      then 200 else 503)"
proof -
  have running: "GetRemoteSessionState s = (RemoteRunning, None) \<longleftrightarrow> s = ''RUNNING''" for s
    by (auto simp: GetRemoteSessionState_def statusMap_def split: option.splits if_splits)
  obtain w1 r where r: "GetJobComputeSystemNameJobsJobIdGetWithResponse cl (fcr_systemName c)
      (fcr_jobID c) w = (w1, r)" by (metis surj_pair)
  have first: "snd (fc_getCurrentStatus cl c w) = (RemoteRunning, None) \<longleftrightarrow>
      (\<exists>jobs. or_JSON res = Some (Some (''RUNNING'' # jobs)))" if "r = Inr res" "fcr_jobID c \<noteq> []" for res
  proof (cases "\<exists>job jobs. or_JSON res = Some (Some (job # jobs))")
    case True
    then obtain job jobs where json: "or_JSON res = Some (Some (job # jobs))" by blast
    obtain state err where "GetRemoteSessionState job = (state, err)" by (metis surj_pair)
    then show ?thesis
      using r that running [of job] json by (cases err) (simp_all add: fc_getCurrentStatus_def)
  next
    case False
    then show ?thesis
      using r that by (simp add: fc_getCurrentStatus_def split: option.split list.split)
  qed
  have "snd (fc_getCurrentStatus cl c w) = (RemoteRunning, None) \<longleftrightarrow> fcr_jobID c \<noteq> []
      \<and> (\<exists>w' res jobs. GetJobComputeSystemNameJobsJobIdGetWithResponse cl (fcr_systemName c)
          (fcr_jobID c) w = (w', Inr res) \<and> or_JSON res = Some (Some (''RUNNING'' # jobs)))"
  proof (cases "fcr_jobID c \<noteq> [] \<and> (\<exists>res. r = Inr res)")
    case True
    then show ?thesis using first r by auto
  next
    case False
    then show ?thesis using r by (cases r) (auto simp: fc_getCurrentStatus_def)
  qed
  then show ?thesis unfolding fc_source.endpoint_reports_turn reply_first_job by simp
qed


section \<open>The order of the calls\<close>

inductive_cases rsc_stepE: "rsc_step e p q"

definition calls_ok :: "'w rsc_process \<Rightarrow> bool" where
  "calls_ok p \<longleftrightarrow>
     (case pr_phase p of
        PhaseStart \<Rightarrow> pr_calls p = []
      | PhaseWait \<Rightarrow> pr_calls p = [CalledStart (Inr ())]
      | PhaseStop \<Rightarrow> pr_calls p = [CalledStart (Inr ())]
      | PhaseShutdown \<Rightarrow> (\<exists>r. pr_calls p = [CalledStop r, CalledStart (Inr ())])
      | PhaseExit code \<Rightarrow>
          (\<exists>r. pr_calls p = [CalledStop r, CalledStart (Inr ())])
          \<or> code = 1 \<and> (pr_calls p = [] \<or> (\<exists>r. pr_calls p = [CalledStart r])))"

lemma calls_ok_step: "rsc_step e p q \<Longrightarrow> calls_ok p \<Longrightarrow> calls_ok q"
  by (erule rsc_stepE) (auto simp: calls_ok_def split: rsc_phase.splits sum.splits)

lemma calls_ok_reachable: "rsc_reachable e s p \<Longrightarrow> calls_ok p"
  by (induction rule: rsc_reachable.induct)
    (auto simp: rsc_initial_def calls_ok_def [of "rsc_initial _"] calls_ok_step, simp add: calls_ok_def)

text \<open>C11: The process starts the session at most once and stops it at most once, and it calls
  \<^verbatim>\<open>Stop\<close> only after \<^verbatim>\<open>Start\<close> has returned without an error, as the controllers require,
  however the signal, the status loop and an error of the HTTP server fall. A process that ends
  with status 0 has called \<^verbatim>\<open>Stop\<close>; one whose \<^verbatim>\<open>Start\<close> failed never does.
\<close>

theorem stop_only_after_start:
  assumes "rsc_reachable e s p"
  shows "(pr_calls p = [] \<or> (\<exists>r. pr_calls p = [CalledStart r])
        \<or> (\<exists>r. pr_calls p = [CalledStop r, CalledStart (Inr ())]))
    \<and> (pr_phase p = PhaseExit 0 \<longrightarrow> (\<exists>r. pr_calls p = [CalledStop r, CalledStart (Inr ())]))
    \<and> (\<forall>err. CalledStart (Inl err) \<in> set (pr_calls p) \<longrightarrow>
          pr_phase p = PhaseExit 1 \<and> pr_calls p = [CalledStart (Inl err)])"
  using calls_ok_reachable [OF assms] by (auto simp: calls_ok_def split: rsc_phase.splits)

section \<open>Configurations that pass the checks\<close>

text \<open>A configuration that passes the checks gives a controller, of the kind that the checks
  have set, with two exceptions: an access token of Renku without an expiry, with which the
  constructor of the FirecREST authentication panics, and a Run:AI configuration without a
  project, which the checks let pass and the constructor refuses.
\<close>

lemma validated_config_loads:
  assumes "remote_Validate (an_parseAuthority (re_net e)) (remote_GetConfig v) = (cfg, None)"
    and "rt_parseAuthority (re_runtime e) = an_parseAuthority (re_net e)"
  shows "(\<exists>c. rsc_load e v = Inr (cfg, c)) \<longleftrightarrow>
    (if rs_RemoteKind cfg = RemoteKindFirecrest
     then \<not> (fa_Kind (fc_AuthConfig (rs_Firecrest cfg)) = FirecrestAuthConfigKindRenkuV2
            \<and> an_jwt_expiry (re_net e) (fa_RenkuAccessToken (fc_AuthConfig (rs_Firecrest cfg))) = Inr None)
     else rc_Project (rs_Runai cfg) \<noteq> [])"
proof -
  let ?pa = "an_parseAuthority (re_net e)"
  have load: "(\<exists>c. rsc_load e v = Inr (cfg, c)) \<longleftrightarrow> (\<exists>c. NewRemoteSessionController e cfg = Inr c)"
    using assms(1) by (auto simp: rsc_load_def split: sum.splits)
  have runai: "rs_Runai cfg = runai_GetConfig v"
    using assms(1) by (auto simp: remote_Validate_def remote_GetConfig_def Let_def
        split: if_splits option.splits)
  have kinds: "RemoteKindRunai \<noteq> RemoteKindFirecrest"
    by (simp add: RemoteKindRunai_def RemoteKindFirecrest_def)
  from assms(1) consider
      "rs_RemoteKind cfg = RemoteKindFirecrest" "FirecrestConfig_Validate ?pa (rs_Firecrest cfg) = None"
    | "rs_RemoteKind cfg = RemoteKindRunai" "RunaiConfig_Validate ?pa (rs_Runai cfg) = None"
    by (auto simp: remote_Validate_def Let_def split: if_splits option.splits)
  then show ?thesis
  proof cases
    case 1
    then obtain u where u: "url_Parse ?pa (fc_APIURL (rs_Firecrest cfg)) = Inr u"
      "fc_SystemName (rs_Firecrest cfg) \<noteq> []"
      "FirecrestAuthConfig_Validate ?pa (fc_AuthConfig (rs_Firecrest cfg)) = None"
      by (auto simp: FirecrestConfig_Validate_def split: if_splits sum.splits)
    have "(\<exists>c. NewRemoteSessionController e cfg = Inr c) \<longleftrightarrow>
        (\<exists>a. NewFirecrestAuth (re_net e) (fc_AuthConfig (rs_Firecrest cfg)) = Inr a)"
      using 1(1) u assms(2) by (auto simp: NewRemoteSessionController_def
          NewFirecrestRemoteSessionController_def bindE_def split: sum.splits)
    then show ?thesis using load 1(1) validated_auth_constructs [OF u(3)] by simp
  next
    case 2
    then obtain u where u: "url_Parse ?pa (rc_BaseURL (rs_Runai cfg)) = Inr u"
      "RunaiAuthConfig_Validate (rc_AuthConfig (rs_Runai cfg)) = None"
      by (auto simp: RunaiConfig_Validate_def split: if_splits sum.splits)
    then have "\<exists>a. NewRunaiAuth (rc_AuthConfig (rs_Runai cfg)) = Inr a"
      unfolding runai
      by (auto simp: RunaiAuthConfig_Validate_def runai_validateClientCredentials_def runai_GetConfig_def
          runai_GetAuthConfig_def Let_def NewRunaiAuth_def newRunaiClientCredentialsAuth_def
          split: if_splits)
    then show ?thesis
      using load 2(1) u(1) kinds by (auto simp: NewRemoteSessionController_def
          NewRunaiRemoteSessionController_def bindE_def)
  qed
qed

section \<open>A sample process\<close>

definition sample_viper :: "string \<Rightarrow> viper" where
  "sample_viper project = \<lparr> vp_GetString = (\<lambda>k.
       if k = runaiBaseURLFlag then ''/'' else if k = runaiProjectFlag then project
       else if k = AuthKindFlag then ''client_credentials''
       else if k = readinessProbeTypeFlag then ''none''
       else if k = auth_key runaiClientIDFlag \<or> k = auth_key runaiClientSecretFlag then ''x''
       else []),
     vp_GetInt32 = (\<lambda>_. 0), vp_GetBool = (\<lambda>k. k = fakeStartFlag) \<rparr>"

definition sample_rsc_env :: "sample_world rsc_env" where
  "sample_rsc_env = \<lparr>
     re_net = \<lparr> an_Do = (\<lambda>_ w. (w, Inl (Err ''connection refused''))), an_now = (\<lambda>_. 0),
       an_jwt_expiry = (\<lambda>_. Inl (Err ''token is malformed'')),
       an_parseAuthority = (\<lambda>a. Inr (None, a)) \<rparr>,
     re_runtime = \<lparr> rt_StyleParam = sample_style, rt_parseAuthority = (\<lambda>a. Inr (None, a)),
       rt_unmarshalTime = (\<lambda>_. Inr zero_time) \<rparr>,
     re_unmarshalTime = (\<lambda>_. Inr 0), re_host = sample_host [], re_script = [] \<rparr>"

lemmas remote_flag_defs = firecrestAPIURLFlag_def runaiBaseURLFlag_def runaiProjectFlag_def AuthKindFlag_def
  readinessProbeTypeFlag_def auth_key_def runaiClientIDFlag_def runaiClientSecretFlag_def AuthPrefix_def
  fakeStartFlag_def firecrestSystemNameFlag_def

definition sample_rsc_config :: "string \<Rightarrow> RemoteSessionControllerConfig" where
  "sample_rsc_config project =
     (remote_GetConfig (sample_viper project))\<lparr> rs_RemoteKind := RemoteKindRunai \<rparr>"

lemma sample_viper_valid:
  "remote_Validate (an_parseAuthority (re_net sample_rsc_env)) (remote_GetConfig (sample_viper project)) =
     (sample_rsc_config project, None)"
proof -
  have "FirecrestConfig_Validate pa (firecrest_GetConfig (sample_viper project)) =
      Some (Err ''firecrest.APIURL is not defined'')" for pa
    by (simp add: FirecrestConfig_Validate_def firecrest_GetConfig_def sample_viper_def remote_flag_defs)
  moreover have "RunaiConfig_Validate pa (runai_GetConfig (sample_viper project)) = None" for pa
    by (simp add: RunaiConfig_Validate_def runai_GetConfig_def runai_GetAuthConfig_def sample_viper_def
        RunaiAuthConfig_Validate_def runai_validateClientCredentials_def parse_root
        RunaiAuthConfigKindClientCredentials_def remote_flag_defs)
  moreover have "vp_GetString (sample_viper project) readinessProbeTypeFlag = ''none''"
    by (simp add: sample_viper_def remote_flag_defs)
  ultimately show ?thesis
    by (auto simp: remote_Validate_def remote_GetConfig_def sample_rsc_config_def Let_def split: option.split)
qed

definition fake_runai :: RunaiRemoteSessionController where
  "fake_runai = \<lparr> rrc_jobName = [], rrc_jobId = [], rrc_project = ''p'',
     rrc_currentStatus = RemoteNotReady, rrc_currentStatusError = None, rrc_fakeStart = True \<rparr>"

text \<open>A session that is only pretended to be started: a whole run of the process.\<close>

lemma fake_run:
  "\<exists>s p. rsc_reachable sample_rsc_env (([], []), RunaiRSC cl a fake_runai) p
     \<and> p = \<lparr> pr_phase = PhaseExit 0, pr_state = s,
             pr_calls = [CalledStop (Inr ()), CalledStart (Inr ())] \<rparr>"
proof -
  let ?e = sample_rsc_env
  let ?s = "(([], []), RunaiRSC cl a fake_runai)"
  let ?r = "fake_runai\<lparr> rrc_jobName := ''amalthea-p-20260101-00-00-00'' \<rparr>"
  let ?t = "(([], []), RunaiRSC cl a ?r)"
  let ?p = "\<lambda>phase s calls. \<lparr> pr_phase = phase, pr_state = s, pr_calls = calls \<rparr>"
  have start: "rsc_Start ?e ?s = (?t, Inr ())"
    by (simp add: on_runai_def ra_Start_def recoverJobInfo_def bindA_def liftA_def tryA_def returnA_def
        lift_host_def sample_host_def sample_rsc_env_def name_job_def fake_runai_def)
  have stop: "rsc_Stop ?e ?t = (?t, Inr ())"
    by (simp add: on_runai_def ra_Stop_def bindA_def returnA_def fake_runai_def)
  have steps:
    "rsc_step ?e (rsc_initial ?s) (?p PhaseWait ?t [CalledStart (Inr ())])"
    "rsc_step ?e (?p PhaseWait ?t [CalledStart (Inr ())]) (?p PhaseStop ?t [CalledStart (Inr ())])"
    "rsc_step ?e (?p PhaseStop ?t [CalledStart (Inr ())])
       (?p PhaseShutdown ?t [CalledStop (Inr ()), CalledStart (Inr ())])"
    "rsc_step ?e (?p PhaseShutdown ?t [CalledStop (Inr ()), CalledStart (Inr ())])
       (?p (PhaseExit 0) ?t [CalledStop (Inr ()), CalledStart (Inr ())])"
    using step_start [where p = "rsc_initial ?s" and e = ?e] start
      step_signal [where p = "?p PhaseWait ?t [CalledStart (Inr ())]" and e = ?e]
      step_stop [where p = "?p PhaseStop ?t [CalledStart (Inr ())]" and e = ?e] stop
      step_shutdown [where p = "?p PhaseShutdown ?t [CalledStop (Inr ()), CalledStart (Inr ())]" and e = ?e]
    by (simp_all add: rsc_initial_def)
  have "rsc_reachable ?e ?s (?p (PhaseExit 0) ?t [CalledStop (Inr ()), CalledStart (Inr ())])"
    by (rule reach_step [OF reach_step [OF reach_step [OF reach_step [OF reach_initial]]]])
      (rule steps)+
  then show ?thesis by blast
qed

lemma stop_only_after_start_witness:
  "\<exists>cl a p r. rsc_reachable sample_rsc_env (([], []), RunaiRSC cl a fake_runai) p
     \<and> pr_phase p = PhaseExit 0 \<and> pr_calls p = [CalledStop r, CalledStart (Inr ())]"
proof -
  obtain p cl a where p: "rsc_reachable sample_rsc_env (([], []), RunaiRSC cl a fake_runai) p"
    "pr_phase p = PhaseExit 0" using fake_run by fastforce
  then show ?thesis using stop_only_after_start [OF p(1)] by blast
qed

end
