(* ===== verification/Remote_Operator_Props.thy ===== *)
theory Remote_Operator_Props
  imports Remote_Server_Props Sample
begin

text \<open>
  The operator and the remote session controller together: the configuration and the variables
  that the operator gives to the container of a remote session are those that the controller in
  the container reads, serves and hands on to the job.
\<close>

section \<open>Flags and keys\<close>

definition remote_flags :: "flag_binding list" where
  "remote_flags = (case remote_SetFlags [] of Inr bs \<Rightarrow> bs | Inl _ \<Rightarrow> [])"

lemmas all_flag_defs = remote_flag_defs serverPortFlag_def sessionPortFlag_def sessionURLPathFlag_def
  TokenURIFlag_def auth_flag_def renkuAccessTokenFlag_def renkuRefreshTokenFlag_def renkuTokenURIFlag_def
  renkuClientIDFlag_def renkuClientSecretFlag_def firecrestClientIDFlag_def firecrestClientSecretFlag_def
  firecrestPartitionFlag_def

lemmas set_flags_defs = remote_SetFlags_def utils_SetFlags_def firecrest_SetFlags_def
  firecrest_SetAuthFlags_def runai_SetFlags_def runai_SetAuthFlags_def

text \<open>The flags as one list, in the order in which they are declared.\<close>

fun bind_all :: "(string \<times> flag_value \<times> string) list \<Rightarrow> flag_binding list \<Rightarrow> flag_binding list result" where
  "bind_all [] bs = Inr bs"
| "bind_all ((flag, d, key) # fs) bs = bindE (bind_flag flag d key bs) (bind_all fs)"

definition binding :: "string \<times> flag_value \<times> string \<Rightarrow> flag_binding" where
  "binding = (\<lambda>(flag, d, key).
     \<lparr> fb_Flag = flag, fb_Default = d, fb_Key = key, fb_Env = AsEnvVarFlag flag \<rparr>)"

lemma bind_all_distinct:
  assumes "distinct (map fst fs)" "fb_Flag ` set bs \<inter> fst ` set fs = {}"
  shows "bind_all fs bs = Inr (bs @ map binding fs)"
  using assms
proof (induction fs arbitrary: bs)
  case (Cons f fs)
  obtain flag d key where f: "f = (flag, d, key)" by (cases f)
  have "bind_flag flag d key bs = Inr (bs @ [binding f])"
    using Cons.prems(2) by (auto simp: bind_flag_def binding_def f)
  moreover have "bind_all fs (bs @ [binding f]) = Inr ((bs @ [binding f]) @ map binding fs)"
    using Cons.prems by (intro Cons.IH) (auto simp: binding_def f)
  ultimately show ?case by (simp add: f)
qed simp

definition same_key :: "string \<Rightarrow> string \<times> flag_value \<times> string" where
  "same_key flag = (flag, StringFlag [], flag)"

definition below_auth :: "string \<Rightarrow> string \<times> flag_value \<times> string" where
  "below_auth name = (auth_flag name, StringFlag [], auth_key name)"

definition flag_list :: "(string \<times> flag_value \<times> string) list" where
  "flag_list =
     [(serverPortFlag, Int32Flag RemoteSessionControllerPort, serverPortFlag),
      (fakeStartFlag, BoolFlag False, fakeStartFlag),
      (sessionPortFlag, Int32Flag 0, sessionPortFlag),
      (sessionURLPathFlag, StringFlag ''/'', sessionURLPathFlag),
      (readinessProbeTypeFlag, StringFlag ''none'', readinessProbeTypeFlag),
      same_key AuthKindFlag, below_auth TokenURIFlag,
      same_key firecrestAPIURLFlag, same_key firecrestSystemNameFlag, same_key firecrestPartitionFlag,
      below_auth renkuAccessTokenFlag, below_auth renkuRefreshTokenFlag, below_auth renkuTokenURIFlag,
      below_auth renkuClientIDFlag, below_auth renkuClientSecretFlag, below_auth firecrestClientIDFlag,
      below_auth firecrestClientSecretFlag, same_key runaiBaseURLFlag, same_key runaiProjectFlag,
      below_auth runaiClientIDFlag, below_auth runaiClientSecretFlag]"

lemma bindE_assoc: "bindE (bindE m f) g = bindE m (\<lambda>x. bindE (f x) g)"
  by (cases m) simp_all

lemma bindE_unit: "bindE m Inr = m"
  by (cases m) simp_all

lemma remote_SetFlags_bind_all: "remote_SetFlags bs = bind_all flag_list bs"
proof -
  have one: "bind_all [] = Inr" by (simp add: fun_eq_iff)
  show ?thesis
    unfolding set_flags_defs flag_list_def same_key_def below_auth_def bind_all.simps bindE_assoc one bindE_unit ..
qed

lemma flag_list_distinct: "distinct (map fst flag_list)"
  by (simp add: flag_list_def same_key_def below_auth_def all_flag_defs)

text \<open>
  The environment variable of a flag is not ambiguous for flags of lower-case letters and
  hyphens.
\<close>

definition flag_char :: "char \<Rightarrow> bool" where
  "flag_char c \<longleftrightarrow> c = CHR ''-'' \<or> (97 \<le> (of_char c :: nat) \<and> (of_char c :: nat) \<le> 122)"

lemma flag_char_inj:
  assumes "flag_char c" "flag_char d"
    and "upper_char (if c = CHR ''-'' then CHR ''_'' else c) = upper_char (if d = CHR ''-'' then CHR ''_'' else d)"
  shows "c = d"
proof -
  have code: "(of_char (upper_char (if x = CHR ''-'' then CHR ''_'' else x)) :: nat) =
      (if x = CHR ''-'' then 95 else of_char x - 32)" if "flag_char x" for x
    using that by (auto simp: flag_char_def upper_char_def of_char_of)
  have "(if c = CHR ''-'' then 95 else of_char c - 32 :: nat) = (if d = CHR ''-'' then 95 else of_char d - 32)"
    using code [OF assms(1)] code [OF assms(2)] assms(3) by metis
  moreover have "x = y" if "x - 32 = y - 32" "97 \<le> x" "97 \<le> y" for x y :: nat
    using that by arith
  note same = this [of "of_char c" "of_char d"]
  ultimately show ?thesis
    using assms(1,2) same unfolding flag_char_def
    by (cases "c = CHR ''-''"; cases "d = CHR ''-''") auto
qed

lemma AsEnvVarFlag_inj:
  assumes "list_all flag_char f" "list_all flag_char g" "AsEnvVarFlag f = AsEnvVarFlag g"
  shows "f = g"
proof -
  let ?u = "\<lambda>c. upper_char (if c = CHR ''-'' then CHR ''_'' else c)"
  have "map ?u f = map ?u g"
    using assms(3) by (simp add: AsEnvVarFlag_def ReplaceAll_char ToUpper_def comp_def)
  moreover have "inj_on ?u (set f \<union> set g)"
    using assms(1,2) flag_char_inj by (auto simp: inj_on_def list_all_iff)
  ultimately show ?thesis using map_inj_on by blast
qed

lemma flag_chars: "list_all (\<lambda>f. list_all flag_char (fst f)) flag_list"
  by (simp add: flag_list_def same_key_def below_auth_def all_flag_defs flag_char_def)

lemma remote_SetFlags_eq: "remote_SetFlags [] = Inr (map binding flag_list)"
  unfolding remote_SetFlags_bind_all using bind_all_distinct [OF flag_list_distinct, of "[]"] by simp

lemma remote_flags_eq: "remote_flags = map binding flag_list"
  by (simp add: remote_flags_def remote_SetFlags_eq)

text \<open>Two sources of values that agree on a key at the type of its flag.\<close>

definition same_value :: "viper \<Rightarrow> viper \<Rightarrow> flag_binding \<Rightarrow> bool" where
  "same_value v v' b \<longleftrightarrow>
     (case fb_Default b of
        Int32Flag _ \<Rightarrow> vp_GetInt32 v (fb_Key b) = vp_GetInt32 v' (fb_Key b)
      | BoolFlag _ \<Rightarrow> vp_GetBool v (fb_Key b) = vp_GetBool v' (fb_Key b)
      | StringFlag _ \<Rightarrow> vp_GetString v (fb_Key b) = vp_GetString v' (fb_Key b))"

text \<open>C34: The flags of the remote session controller are well formed. Declaring them does not
  panic, no two of them share a name, a key or an environment variable, and the configuration
  reads no key that is not bound to a flag of the type at which it is read.
\<close>

theorem flags_well_typed:
  "remote_SetFlags [] = Inr remote_flags
   \<and> distinct (map fb_Flag remote_flags) \<and> distinct (map fb_Key remote_flags)
   \<and> distinct (map fb_Env remote_flags)
   \<and> (\<forall>v v'. (\<forall>b\<in>set remote_flags. same_value v v' b) \<longrightarrow> remote_GetConfig v = remote_GetConfig v')"
proof -
  have flags: "remote_SetFlags [] = Inr remote_flags"
    by (simp add: remote_flags_eq remote_SetFlags_eq)
  have "map fb_Flag remote_flags = map fst flag_list" "map fb_Key remote_flags = map (snd \<circ> snd) flag_list"
    by (auto simp: remote_flags_eq binding_def)
  moreover have "distinct (map (snd \<circ> snd) flag_list)"
    by (simp add: flag_list_def same_key_def below_auth_def all_flag_defs)
  ultimately have "distinct (map fb_Flag remote_flags)" "distinct (map fb_Key remote_flags)"
    using flag_list_distinct by simp_all
  moreover have "distinct (map fb_Env remote_flags)"
    using flag_list_distinct flag_chars AsEnvVarFlag_inj
    by (auto simp: remote_flags_eq binding_def distinct_map comp_def split_beta inj_on_def list_all_iff)
  moreover have "remote_GetConfig v = remote_GetConfig v'"
    if "\<forall>b\<in>set remote_flags. same_value v v' b" for v v'
    using that unfolding remote_flags_eq
    by (simp add: flag_list_def same_key_def below_auth_def binding_def same_value_def remote_GetConfig_def
        firecrest_GetConfig_def firecrest_GetAuthConfig_def runai_GetConfig_def runai_GetAuthConfig_def
        Let_def)
  ultimately show ?thesis using flags by blast
qed

section \<open>From the container to the configuration\<close>

text \<open>The environment of the process in a container: of two variables with one name the last counts.\<close>

definition env_of :: "EnvVar list \<Rightarrow> string \<rightharpoonup> string" where
  "env_of es = map_of (rev (map (\<lambda>e. (ev_Name e, ev_Value e)) es))"

text \<open>
  What is relied on of viper: without flags on the command line, a key that is bound to an
  environment variable has the value of that variable when it is set and not empty.
\<close>

definition viper_reads :: "flag_binding list \<Rightarrow> (string \<rightharpoonup> string) \<Rightarrow> viper \<Rightarrow> bool" where
  "viper_reads bs env v \<longleftrightarrow> (\<forall>b\<in>set bs. \<forall>s. env (fb_Env b) = Some s \<and> s \<noteq> [] \<longrightarrow>
     (case fb_Default b of
        StringFlag _ \<Rightarrow> vp_GetString v (fb_Key b) = s
      | Int32Flag _ \<Rightarrow> (\<forall>n. s = show_int n \<and> - (2 ^ 31) \<le> n \<and> n < 2 ^ 31 \<longrightarrow>
          vp_GetInt32 v (fb_Key b) = n)
      | BoolFlag _ \<Rightarrow> True))"

lemma viper_reads_string:
  assumes "viper_reads remote_flags env v" "(flag, StringFlag d, key) \<in> set flag_list"
    and "env (AsEnvVarFlag flag) = Some s" "s \<noteq> []"
  shows "vp_GetString v key = s"
  using assms unfolding viper_reads_def remote_flags_eq by (force simp: binding_def)

lemma viper_reads_int:
  assumes "viper_reads remote_flags env v" "(flag, Int32Flag d, key) \<in> set flag_list"
    and "env (AsEnvVarFlag flag) = Some (show_int n)" "- (2 ^ 31) \<le> n" "n < 2 ^ 31"
  shows "vp_GetInt32 v key = n"
proof -
  have "show_int n \<noteq> []" using show_nat_nonempty by (simp add: show_int_def)
  then show ?thesis
    using assms unfolding viper_reads_def remote_flags_eq by (force simp: binding_def)
qed

lemma remote_container_env:
  fixes lib en cr vms
  defines "env \<equiv> env_of (c_Env (sessionContainerRemote lib en cr vms))"
  shows "env (AsEnvVarFlag serverPortFlag) = Some (show_int RemoteSessionControllerPort)"
    "env (AsEnvVarFlag sessionPortFlag) = Some (show_int (ses_Port (as_Session cr)))"
    "env (AsEnvVarFlag sessionURLPathFlag) = Some (ses_URLPath (as_Session cr))"
    "env (AsEnvVarFlag readinessProbeTypeFlag) =
       Some (ReadinessProbeType_string (ses_ReadinessProbe (as_Session cr)))"
proof -
  have names: "AsEnvVarFlag serverPortFlag = ''RSC_SERVER_PORT''"
    "AsEnvVarFlag sessionPortFlag = ''RSC_SESSION_PORT''"
    "AsEnvVarFlag sessionURLPathFlag = ''RSC_SESSION_URL_PATH''"
    "AsEnvVarFlag readinessProbeTypeFlag = ''RSC_READINESS_PROBE_TYPE''"
    by code_simp+
  show "env (AsEnvVarFlag serverPortFlag) = Some (show_int RemoteSessionControllerPort)"
    "env (AsEnvVarFlag sessionPortFlag) = Some (show_int (ses_Port (as_Session cr)))"
    "env (AsEnvVarFlag sessionURLPathFlag) = Some (ses_URLPath (as_Session cr))"
    "env (AsEnvVarFlag readinessProbeTypeFlag) =
       Some (ReadinessProbeType_string (ses_ReadinessProbe (as_Session cr)))"
    unfolding env_def names env_of_def
    by (simp_all add: sessionContainerRemote_def Let_def env_value_def env_secret_def map_add_def
        empty_container_def)
qed

text \<open>
  What the specification of a session asks of its readiness: a connection to its port, a request
  for its path that is answered with a status from 200 to 399, or nothing. The answer is the status
  that the caller of the controller gets.
\<close>

definition session_answer :: "'w probe_net \<Rightarrow> Session \<Rightarrow> 'w \<Rightarrow> 'w \<times> int" where
  "session_answer pn session w =
     (let address = ''127.0.0.1:'' @ show_int (ses_Port session) in
      case ses_ReadinessProbe session of
        ProbeTCP \<Rightarrow> (case pn_DialTCP pn address w of (w', Inl _) \<Rightarrow> (w', 503) | (w', Inr _) \<Rightarrow> (w', 200))
      | ProbeHTTP \<Rightarrow>
          (case http_NewRequest (pn_parseAuthority pn) ''GET'' (''http://'' @ address @ ses_URLPath session) [] of
             Inl _ \<Rightarrow> (w, 503)
           | Inr req \<Rightarrow> (case pn_Do pn req w of
                 (w', Inr code) \<Rightarrow> (w', if 200 \<le> code \<and> code < 400 then 200 else 503)
               | (w', Inl _) \<Rightarrow> (w', 503)))
      | ProbeNone \<Rightarrow> (w, 200))"

text \<open>The path and the port that the kubelet asks for a probe.\<close>

definition http_target :: "Probe option \<Rightarrow> (string \<times> IntOrString) option" where
  "http_target p = (case p of
       Some pr \<Rightarrow> (case pr_Handler pr of HTTPGet path port \<Rightarrow> Some (path, port) | TCPSocket _ \<Rightarrow> None)
     | None \<Rightarrow> None)"

text \<open>C15: The remote session controller is configured as the operator says. Whatever variables the
  user sets, those with the prefix of the controller included, the controller that runs with
  the environment of the session's container listens on the container's port of the name of the
  service's port, and on the port that the container's two probes address. At the path of the
  liveness probe it answers 200; at the path of the readiness probe it probes the session as the
  session's specification says, for each of the three types, and answers 200 or 503. The session's port is from 0
  to 2147483647, and its path is not empty.\<close>

theorem operator_configures_controller:
  assumes "viper_reads remote_flags (env_of (c_Env (sessionContainerRemote lib en cr vms))) v"
    and "ses_URLPath (as_Session cr) \<noteq> []" "0 \<le> ses_Port (as_Session cr)" "ses_Port (as_Session cr) < 2 ^ 31"
  shows "rs_ServerPort (remote_GetConfig v) = RemoteSessionControllerPort
    \<and> c_Ports (sessionContainerRemote lib en cr vms)
        = [\<lparr> cp_Name = servicePortName, cp_ContainerPort = rs_ServerPort (remote_GetConfig v) \<rparr>]
    \<and> rs_SessionPort (remote_GetConfig v) = ses_Port (as_Session cr)
    \<and> rs_SessionURLPath (remote_GetConfig v) = ses_URLPath (as_Session cr)
    \<and> (\<exists>live. http_target (c_LivenessProbe (sessionContainerRemote lib en cr vms))
          = Some (live, FromInt32 (rs_ServerPort (remote_GetConfig v)))
        \<and> rsc_GET pn (remote_GetConfig v) c live w = (w, status_only 200))
    \<and> (\<exists>ready. http_target (c_ReadinessProbe (sessionContainerRemote lib en cr vms))
          = Some (ready, FromInt32 (rs_ServerPort (remote_GetConfig v)))
        \<and> rsc_GET pn (remote_GetConfig v) c ready w =
            (let (w', code) = session_answer pn (as_Session cr) w in (w', status_only code)))"
proof -
  have flags: "(serverPortFlag, Int32Flag RemoteSessionControllerPort, serverPortFlag) \<in> set flag_list"
    "(sessionPortFlag, Int32Flag 0, sessionPortFlag) \<in> set flag_list"
    "(sessionURLPathFlag, StringFlag ''/'', sessionURLPathFlag) \<in> set flag_list"
    "(readinessProbeTypeFlag, StringFlag ''none'', readinessProbeTypeFlag) \<in> set flag_list"
    by (simp_all add: flag_list_def)
  have probe: "ReadinessProbeType_string p \<noteq> []" for p by (cases p) simp_all
  have server: "rs_ServerPort (remote_GetConfig v) = RemoteSessionControllerPort"
    using viper_reads_int [OF assms(1) flags(1) remote_container_env(1)]
    by (simp add: RemoteSessionControllerPort_def remote_GetConfig_def)
  have port: "rs_SessionPort (remote_GetConfig v) = ses_Port (as_Session cr)"
    using viper_reads_int [OF assms(1) flags(2) remote_container_env(2)] assms(3,4)
    by (simp add: remote_GetConfig_def)
  have path: "rs_SessionURLPath (remote_GetConfig v) = ses_URLPath (as_Session cr)"
    using viper_reads_string [OF assms(1) flags(3) remote_container_env(3)] assms(2)
    by (simp add: remote_GetConfig_def)
  have type: "rs_ReadinessProbeType (remote_GetConfig v) = ReadinessProbeType_string (ses_ReadinessProbe (as_Session cr))"
    using viper_reads_string [OF assms(1) flags(4) remote_container_env(4)] probe
    by (simp add: remote_GetConfig_def)
  have "ready_endpoint pn (remote_GetConfig v) w =
      (let (w', code) = session_answer pn (as_Session cr) w in (w', status_only code))"
    by (cases "ses_ReadinessProbe (as_Session cr)")
      (auto simp: ready_endpoint_def session_answer_def type port path split: prod.splits sum.splits)
  then show ?thesis
    by (simp add: server port path sessionContainerRemote_def session_probe_def http_probe_def http_target_def
        rsc_GET_def Let_def)
qed

text \<open>A source of values that looks every key up in the environment.\<close>

definition env_viper :: "(string \<rightharpoonup> string) \<Rightarrow> viper" where
  "env_viper env =
     (let look = (\<lambda>k. case map_of (map (\<lambda>b. (fb_Key b, b)) remote_flags) k of
            Some b \<Rightarrow> (case env (fb_Env b) of Some s \<Rightarrow> s | None \<Rightarrow> []) | None \<Rightarrow> []) in
      \<lparr> vp_GetString = look,
        vp_GetInt32 = (\<lambda>k. case int_literal (look k) of Some n \<Rightarrow> n | None \<Rightarrow> 0),
        vp_GetBool = (\<lambda>_. False) \<rparr>)"

lemma env_viper_reads: "viper_reads remote_flags env (env_viper env)"
proof -
  have "distinct (map fst (map (\<lambda>b. (fb_Key b, b)) remote_flags))"
    by (simp add: remote_flags_eq binding_def flag_list_def same_key_def below_auth_def) (simp add: all_flag_defs)
  then have look: "map_of (map (\<lambda>b. (fb_Key b, b)) remote_flags) (fb_Key b) = Some b"
    if "b \<in> set remote_flags" for b
    using that by (intro map_of_is_SomeI) auto
  have int: "int_literal (show_int n) = Some n" if "- (2 ^ 31) \<le> n" "n < 2 ^ 31" for n
    using decode_show_int [of n] that by (simp split: option.splits)
  show ?thesis
    unfolding viper_reads_def by (auto simp: env_viper_def look int split: flag_value.split)
qed

lemma flags_well_typed_witness:
  "remote_GetConfig ((env_viper Map.empty)\<lparr> vp_GetBool := (\<lambda>k. k = ''unbound'') \<rparr>) =
     remote_GetConfig (env_viper Map.empty)"
proof -
  let ?v = "env_viper Map.empty"
  have "same_value (?v\<lparr> vp_GetBool := (\<lambda>k. k = ''unbound'') \<rparr>) ?v (binding f)" if "f \<in> set flag_list" for f
    using that by (auto simp: flag_list_def same_key_def below_auth_def binding_def same_value_def
        env_viper_def Let_def fakeStartFlag_def)
  then show ?thesis
    using flags_well_typed by (simp add: remote_flags_eq)
qed

definition local_net :: "unit probe_net" where
  "local_net = \<lparr> pn_DialTCP = (\<lambda>address w. (w, if address = ''127.0.0.1:'' @ show_int 8000 then Inr ()
       else Inl (Err ''connection refused''))),
     pn_Do = (\<lambda>_ w. (w, Inl (Err ''connection refused''))), pn_parseAuthority = (\<lambda>a. Inr (None, a)) \<rparr>"

lemma operator_configures_controller_witness:
  "let v = env_viper (env_of (c_Env (sessionContainerRemote sample_lib sample_env sample_remote []))) in
   rs_ServerPort (remote_GetConfig v) = 65532 \<and> rs_SessionPort (remote_GetConfig v) = 8000
   \<and> rs_SessionURLPath (remote_GetConfig v) = ''/s''
   \<and> (\<forall>c. rsc_GET local_net (remote_GetConfig v) c ''/ready'' () = ((), status_only 200))"
proof -
  have spec: "ses_URLPath (as_Session sample_remote) = ''/s''" "ses_Port (as_Session sample_remote) = 8000"
    "ses_ReadinessProbe (as_Session sample_remote) = ProbeTCP"
    by (simp_all add: sample_defs)
  have probe: "http_target (c_ReadinessProbe (sessionContainerRemote sample_lib sample_env sample_remote [])) =
      Some (''/ready'', FromInt32 RemoteSessionControllerPort)"
    by (simp add: sessionContainerRemote_def session_probe_def http_target_def Let_def)
  have answer: "session_answer local_net (as_Session sample_remote) () = ((), 200)"
    by (simp add: session_answer_def spec local_net_def Let_def)
  show ?thesis
    unfolding Let_def
    using operator_configures_controller [OF env_viper_reads, where cr = sample_remote and lib = sample_lib
        and en = sample_env and vms = "[]" and pn = local_net and w = "()"]
    unfolding spec probe answer by (simp add: RemoteSessionControllerPort_def)
qed

section \<open>From the session to the job\<close>

lemma map_of_Values_Set: "map_of (Values_Set k v vs) = (map_of vs)(k \<mapsto> v)"
proof (induction k v vs rule: Values_Set.induct)
  case (2 k v k' v' vs)
  have "map_of (filter (\<lambda>(x, _). x \<noteq> k) vs) y = map_of vs y" if "y \<noteq> k" for y
    using that by (induction vs) auto
  then show ?case using 2 by (auto simp: fun_eq_iff)
qed (simp add: fun_eq_iff)

lemma copy_user_env_sets:
  assumes "distinct (map fst environ)" "(''USER_ENV_'' @ name, val) \<in> set environ"
  shows "map_of (copy_user_env environ env) name = Some val"
  using assms
proof (induction environ rule: rev_induct)
  case (snoc x environ)
  obtain k v where x: "x = (k, v)" by (cases x)
  have last: "copy_user_env (environ @ [x]) env =
      (let (newKey, isRenkuEnv) = CutPrefix k ''USER_ENV_'' in
       if isRenkuEnv then Values_Set newKey v (copy_user_env environ env) else copy_user_env environ env)"
    unfolding copy_user_env_def x foldl_append by (simp only: foldl.simps prod.case)
  show ?case
  proof (cases "k = ''USER_ENV_'' @ name")
    case True
    then have "v = val" using snoc.prems x by (auto simp: image_iff)
    then show ?thesis using True by (simp add: last CutPrefix_def HasPrefix_def map_of_Values_Set)
  next
    case False
    then have "drop (length ''USER_ENV_'') k \<noteq> name" if "HasPrefix k ''USER_ENV_''" using that by (auto simp: HasPrefix_iff)
    moreover have "map_of (copy_user_env environ env) name = Some val"
      using snoc False x by auto
    ultimately show ?thesis by (auto simp: last CutPrefix_def map_of_Values_Set)
  qed
qed simp

lemma copy_prefixed_other:
  "\<not> HasPrefix name pre \<Longrightarrow> map_of (copy_prefixed pre environ env) name = map_of env name"
proof (induction environ rule: rev_induct)
  case (snoc x environ)
  then show ?case by (cases x) (auto simp: copy_prefixed_def map_of_Values_Set)
qed (simp add: copy_prefixed_def)

text \<open>The variables that the controller sets itself.\<close>

definition job_variables :: "string set" where
  "job_variables = {''REMOTE_SESSION_IMAGE'', ''WSTUNNEL_SERVICE_ADDRESS'', ''WSTUNNEL_SERVICE_PORT'',
     ''WSTUNNEL_PATH_PREFIX'', ''GIT_REPOSITORIES'', ''GIT_PROXY_PORT'', ''GIT_PROXY_HEALTH_PORT''}"

lemma start_env_user:
  assumes "start_env h pa repos = Inr env" "distinct (map fst (rh_Environ h))"
    and "(''USER_ENV_'' @ name, val) \<in> set (rh_Environ h)"
    and "\<not> HasPrefix name ''REMOTE_SESSION''" "\<not> HasPrefix name ''RENKU''" "name \<notin> job_variables"
  shows "map_of env name = Some val"
  using assms(1,4-6) copy_user_env_sets [OF assms(2,3)]
  by (auto simp: start_env_def wstunnel_env_def Let_def bindE_Inr_iff job_variables_def
      copy_prefixed_other map_of_Values_Set split: sum.splits if_splits)

text \<open>C17: A variable that the user sets for a remote session reaches the job on the cluster under
  its own name: the operator renames it for the container of the controller, and the controller
  restores the name when it describes the job. Exempt are the names that Renku reserves and the
  variables that the controller sets itself.
\<close>

theorem user_variable_reaches_job:
  assumes "start_env h pa repos = Inr env" "distinct (map fst (rh_Environ h))"
    and "\<And>e. e \<in> set (c_Env (sessionContainerRemote lib en cr vms)) \<Longrightarrow> ev_ValueFrom e = None \<Longrightarrow>
      (ev_Name e, ev_Value e) \<in> set (rh_Environ h)"
    and "item \<in> set (ses_Env (as_Session cr))" "ev_ValueFrom item = None"
    and "\<not> HasPrefix (ev_Name item) ''RENKU''" "\<not> HasPrefix (ev_Name item) ''RSC_''"
      "\<not> HasPrefix (ev_Name item) ''REMOTE_SESSION''" "ev_Name item \<notin> job_variables"
  shows "map_of env (ev_Name item) = Some (ev_Value item)"
proof -
  have "\<not> HasPrefix (ev_Name item) ''RENKU_''"
    using assms(6) by (auto simp: HasPrefix_iff)
  then have "remote_env_var item = item\<lparr> ev_Name := ''USER_ENV_'' @ ev_Name item \<rparr>"
    using assms(7) by (simp add: remote_env_var_def)
  moreover have "remote_env_var item \<in> set (c_Env (sessionContainerRemote lib en cr vms))"
    using assms(4) by (simp add: sessionContainerRemote_def Let_def)
  ultimately have "(''USER_ENV_'' @ ev_Name item, ev_Value item) \<in> set (rh_Environ h)"
    using assms(3) [of "remote_env_var item"] assms(5) by simp
  then show ?thesis
    using start_env_user [OF assms(1,2)] assms(6,8,9) by blast
qed

definition sample_user :: AmaltheaSession where
  "sample_user = sample_session\<lparr> as_Spec := sample_spec\<lparr> sp_SessionLocation := Remote,
     sp_Session := sample_Session\<lparr> ses_Env := [env_value ''FOO'' ''bar''] \<rparr> \<rparr> \<rparr>"

definition user_environ :: "(string \<times> string) list" where
  "user_environ = map (\<lambda>e. (ev_Name e, ev_Value e))
     (c_Env (sessionContainerRemote sample_lib sample_env sample_user []))"

lemma user_variable_reaches_job_witness:
  "\<exists>env. start_env (sample_host user_environ) (\<lambda>a. Inr (None, a)) [] = Inr env
     \<and> map_of env ''FOO'' = Some ''bar''"
proof -
  let ?h = "sample_host user_environ"
  have environ: "rh_Environ ?h = user_environ" by (simp add: sample_host_def)
  have names: "map fst user_environ = [''USER_ENV_FOO'', ''REMOTE_SESSION_IMAGE'', ''RSC_SERVER_PORT'',
      ''RSC_SESSION_PORT'', ''RSC_SESSION_URL_PATH'', ''RSC_READINESS_PROBE_TYPE'',
      ''RSC_WSTUNNEL_SECRET'', ''RSC_SESSION_CPU'', ''RSC_SESSION_MEMORY'', ''RSC_SESSION_GPUS'']"
    by (simp add: user_environ_def sessionContainerRemote_def sample_user_def Let_def env_value_def
        env_secret_def remote_env_var_def HasPrefix_def)
  then have dist: "distinct (map fst (rh_Environ ?h))" by (simp add: environ)
  have "Getenv ?h ''RENKU_BASE_URL'' = []"
  proof -
    have "''RENKU_BASE_URL'' \<notin> fst ` set user_environ" unfolding set_map [symmetric] names by simp
    then show ?thesis by (simp add: Getenv_def environ map_of_eq_None_iff [THEN iffD2])
  qed
  then obtain env where env: "start_env ?h (\<lambda>a. Inr (None, a)) [] = Inr env"
    by (auto simp: start_env_def wstunnel_env_def Let_def)
  have given: "(ev_Name e, ev_Value e) \<in> set (rh_Environ ?h)"
    if "e \<in> set (c_Env (sessionContainerRemote sample_lib sample_env sample_user []))" for e
    using that by (simp add: sample_host_def user_environ_def)
  have item: "ses_Env (as_Session sample_user) = [env_value ''FOO'' ''bar'']"
    by (simp add: sample_user_def)
  have "map_of env (ev_Name (env_value ''FOO'' ''bar'')) = Some (ev_Value (env_value ''FOO'' ''bar''))"
    by (rule user_variable_reaches_job [OF env dist, where cr = sample_user and lib = sample_lib
          and en = sample_env and vms = "[]"])
      (simp_all add: item given, simp_all add: env_value_def HasPrefix_def job_variables_def)
  then show ?thesis using env by (simp add: env_value_def)
qed

end
