(* ===== verification/Runai_Props.thy ===== *)
theory Runai_Props
  imports Remote_Server_Props
begin

text \<open>
  What holds of the Run:AI controller: its status is never that of a running session, a
  restarted controller does not stop the session it has adopted, and a rejected request is
  repeated as it was.
\<close>

section \<open>Status\<close>

text \<open>A controller of Run:AI never has the state of a running session.\<close>

definition runai_not_running :: "'w RemoteSessionController \<Rightarrow> bool" where
  "runai_not_running c \<longleftrightarrow> (\<exists>cl a r. c = RunaiRSC cl a r \<and> rrc_currentStatus r \<noteq> RemoteRunning)"

lemma ra_methods_status:
  "keeps rrc_currentStatus (ra_Start h cl)" "keeps rrc_currentStatus (ra_Stop h cl)"
proof -
  have "keeps rrc_currentStatus (name_job h)" by (auto simp: keeps_def name_job_def)
  then show "keeps rrc_currentStatus (ra_Start h cl)"
    unfolding ra_Start_def recoverJobInfo_def create_workspace_def saveJobInfo_def
    by (intro keeps_intros keeps_wrapA) simp_all
  show "keeps rrc_currentStatus (ra_Stop h cl)"
    unfolding ra_Stop_def by (intro keeps_intros keeps_wrapA)
qed

lemma on_runai_not_running:
  assumes "keeps rrc_currentStatus m" "on_runai cl a r m w = ((w', c'), x)"
    and "rrc_currentStatus r \<noteq> RemoteRunning"
  shows "runai_not_running c'"
proof -
  obtain w1 a1 r1 y where m: "m ((w, a), r) = (((w1, a1), r1), y)" by (metis surj_pair)
  show ?thesis
    using assms m keepsD [OF assms(1) m] by (auto simp: on_runai_def runai_not_running_def)
qed

lemma ra_status_turn_not_running:
  assumes "on_runai cl a r (ra_status_turn cl) w = ((w', c'), x)"
  shows "runai_not_running c'"
  using assms
  by (auto simp: on_runai_def ra_status_turn_def ra_getCurrentStatus_def runai_not_running_def
      split: prod.splits sum.splits if_splits)

lemma runai_not_running_step:
  assumes "rsc_step e p q" "runai_not_running (snd (pr_state p))"
  shows "runai_not_running (snd (pr_state q))"
proof -
  obtain w cl a r where p: "pr_state p = (w, RunaiRSC cl a r)" and r: "rrc_currentStatus r \<noteq> RemoteRunning"
    using assms(2) by (cases "pr_state p") (auto simp: runai_not_running_def)
  from assms(1) show ?thesis
  proof cases
    case (step_start s x)
    then show ?thesis using p r on_runai_not_running [OF ra_methods_status(1)] by (cases s) simp
  next
    case (step_stop s x)
    then show ?thesis using p r on_runai_not_running [OF ra_methods_status(2)] by (cases s) simp
  next
    case (step_turn s x)
    then show ?thesis using p ra_status_turn_not_running by (cases s) simp
  qed (use assms(2) in simp_all)
qed

text \<open>C37: The status endpoint of a Run:AI session never answers 200: whatever the API replies, a
  process whose controller was just constructed answers 503 in every state that it can reach,
  because the observed state of a session with a job is never set.
\<close>

theorem runai_status_never_ok:
  assumes "NewRunaiRemoteSessionController net ut cfg = Inr (a, cl, r)"
    and "rsc_reachable e (w, RunaiRSC cl a r) p"
  shows "er_Code (status_endpoint (rsc_Status (snd (pr_state p)))) = 503"
proof -
  have "rrc_currentStatus r \<noteq> RemoteRunning"
    using assms(1) by (auto simp: NewRunaiRemoteSessionController_def bindE_def split: sum.splits if_splits)
  with assms(2) have "runai_not_running (snd (pr_state p))"
    by (induction rule: rsc_reachable.induct)
      (auto simp: rsc_initial_def intro: runai_not_running_step, simp add: runai_not_running_def)
  then show ?thesis
    by (auto simp: runai_not_running_def status_endpoint_def ra_Status_def)
qed

lemma fake_runai_constructed:
  "\<exists>a cl. NewRunaiRemoteSessionController (re_net sample_rsc_env) ut (sample_rsc_config ''p'') =
     Inr (a, cl, fake_runai)"
proof -
  have "NewRunaiAuth (rc_AuthConfig (rs_Runai (sample_rsc_config ''p''))) =
      newRunaiClientCredentialsAuth ''//api/v1/token'' ''x'' ''x''"
    by (simp add: sample_rsc_config_def remote_GetConfig_def runai_GetConfig_def runai_GetAuthConfig_def
        Let_def sample_viper_def NewRunaiAuth_def RunaiAuthConfigKindClientCredentials_def remote_flag_defs)
  then show ?thesis
    by (simp add: NewRunaiRemoteSessionController_def newRunaiClientCredentialsAuth_def bindE_def
        sample_rsc_config_def remote_GetConfig_def runai_GetConfig_def Let_def sample_viper_def
        parse_root fake_runai_def remote_flag_defs)
qed

lemma runai_status_never_ok_witness:
  "\<exists>a cl p. rsc_reachable sample_rsc_env (([], []), RunaiRSC cl a fake_runai) p
     \<and> pr_phase p = PhaseExit 0
     \<and> er_Code (status_endpoint (rsc_Status (snd (pr_state p)))) = 503"
proof -
  obtain a cl where new: "NewRunaiRemoteSessionController (re_net sample_rsc_env) (\<lambda>_. Inr 0)
      (sample_rsc_config ''p'') = Inr (a, cl, fake_runai)"
    using fake_runai_constructed by blast
  obtain p where p: "rsc_reachable sample_rsc_env (([], []), RunaiRSC cl a fake_runai) p"
    "pr_phase p = PhaseExit 0" using fake_run [of cl a] by fastforce
  from runai_status_never_ok [OF new p(1)] p show ?thesis by blast
qed

section \<open>Restarts\<close>

lemma decode_encode_runai:
  "decode_runai_savedState (json_Marshal (encode_runai_savedState s)) = Inr s"
proof -
  have "json_parse (json_Marshal (encode_runai_savedState s)) = Inr (encode_runai_savedState s)"
    by (rule json_parse_Marshal) (simp add: encode_runai_savedState_def)
  then show ?thesis
    unfolding decode_runai_savedState_def
    by (simp add: encode_runai_savedState_def json_member_def ToLower_def lower_char_def)
qed

lemma saveJobInfo_cases:
  assumes "saveJobInfo h (w, c) = ((w', c'), Inr ())"
  shows "c' = c \<and> rrc_jobId c \<noteq> [] \<and> (\<exists>w1. rh_WriteFile h (ra_getSavePath h) (json_Marshal
    (encode_runai_savedState \<lparr> rsv_JobName = rrc_jobName c, rsv_JobId = rrc_jobId c \<rparr>)) w1 = (w', Inr ()))"
  using assms
  by (auto simp: saveJobInfo_def bindA_def liftA_def failA_def split: if_splits prod.splits sum.splits)

lemma recoverJobInfo_saved:
  assumes "keeps_files h" "saveJobInfo h (w, c) = ((w', c'), Inr ())" "rrc_jobName c \<noteq> []"
  shows "recoverJobInfo h (w', c0) = ((w', c0\<lparr> rrc_jobName := rrc_jobName c \<rparr>), Inr ())"
proof -
  have "rh_ReadFile h (ra_getSavePath h) w' = (w', Inr (json_Marshal
      (encode_runai_savedState \<lparr> rsv_JobName = rrc_jobName c, rsv_JobId = rrc_jobId c \<rparr>)))"
    using saveJobInfo_cases [OF assms(2)] assms(1) unfolding keeps_files_def by blast
  then show ?thesis
    using assms(3) by (simp add: recoverJobInfo_def bindA_def liftA_def tryA_def liftE_def returnA_def
        decode_encode_runai)
qed

interpretation ra_restart: adopting_controller "keeps_files h" "saveJobInfo h" "recoverJobInfo h"
  "ra_Start h cl" rrc_jobName "\<lambda>_. True" for h cl
proof
  show "\<exists>c1. recoverJobInfo h (w', c0) = ((w', c1), Inr ()) \<and> rrc_jobName c1 = rrc_jobName c"
    if "keeps_files h" "saveJobInfo h (w, c) = ((w', c'), Inr ())" "rrc_jobName c \<noteq> []"
    for w c w' c' c0
    using recoverJobInfo_saved [OF that, of c0] by simp
  show "ra_Start h cl (w, c) = ((w', c'), Inr ())"
    if "recoverJobInfo h (w, c) = ((w', c'), Inr ())" "rrc_jobName c' \<noteq> []" for w c w' c'
    using that by (simp add: ra_Start_def bindA_step returnA_def)
qed

text \<open>A Run:AI session outlives a restart of its controller for good. A restarted controller
  adopts the session that its predecessor has saved and starts no other one, but it does not
  take over the workload's identifier: stopping it succeeds without a single request, leaves
  the workspace running, and leaves the saved state for the next start to adopt.
\<close>

lemma runai_restart_never_stops:
  assumes "keeps_files h" "saveJobInfo h (w, c) = ((w', c'), Inr ())"
    and "rrc_jobName c \<noteq> []" "rrc_jobId c0 = []"
  shows "\<exists>c1. ra_Start h cl (w', c0) = ((w', c1), Inr ()) \<and> rrc_jobName c1 = rrc_jobName c
    \<and> ra_Stop h cl' (w', c1) = ((w', c1), Inr ())"
proof -
  let ?c = "c0\<lparr> rrc_jobName := rrc_jobName c \<rparr>"
  have "ra_Start h cl (w', c0) = ((w', ?c), Inr ())"
    using ra_restart.start_skips [OF recoverJobInfo_saved [OF assms(1-3)]] assms(3) by simp
  moreover have "ra_Stop h cl' (w', ?c) = ((w', ?c), Inr ())"
    using assms(4) by (simp add: ra_Stop_def bindA_step returnA_def)
  ultimately show ?thesis by auto
qed

section \<open>Rejected requests\<close>

text \<open>A request of the Run:AI client that is answered with 401 is sent once more with the
  rejected token: the new token that is fetched before is not used, because the request still
  has its authorization header. What is sent again is the same request, without its body.
\<close>

lemma retry_repeats_token:
  assumes "c = NewRunaiApi pa ut baseURL runaiAuth httpClient"
    and "runai_applyEditors c req w = (w1, Inr req1)" "fmlookup (rq_Header req) ''Authorization'' = None"
    and "api_Do c req1 w1 = (w2, Inr resp)" "rp_StatusCode resp = 401"
    and "api_GetAccessToken c w2 = (w3, Inr token)"
  shows "runai_send c what req1 w1 =
    wrapA (''failed to retry '' @ what @ '' request'') (\<lambda>_. api_Do c (req1\<lparr> rq_Body := [] \<rparr>) w3) w2"
proof -
  have none: "runai_edit [] = returnA" by (simp add: fun_eq_iff)
  have edit: "runai_applyEditors c = (\<lambda>r. bindA (RequestEditorInjectAccessToken runaiAuth r) returnA)"
    unfolding assms(1) runai_applyEditors_def NewRunaiApi_def by (simp add: fun_eq_iff none)
  have "header_get (rq_Header req1) ''Authorization'' \<noteq> []"
    using assms(2,3) unfolding edit
    by (auto simp: RequestEditorInjectAccessToken_def bindA_def returnA_def Header_Add_def header_add_def header_get_def
        split: if_splits prod.splits sum.splits)
  then have again: "runai_applyEditors c (req1\<lparr> rq_Body := [] \<rparr>) = returnA (req1\<lparr> rq_Body := [] \<rparr>)"
    unfolding edit by (simp add: RequestEditorInjectAccessToken_def)
  show ?thesis
    using assms(4-6) again
    by (simp add: runai_send_def retryUnauthorizedRequest_def bindA_def wrapA_def)
qed

end
