(* ===== verification/Firecrest_Unions.thy ===== *)
theory Firecrest_Unions
  imports Firecrest_Client
begin

text \<open>
  The unions of the FirecREST types (\<^verbatim>\<open>As\<close>, \<^verbatim>\<open>From\<close> and \<^verbatim>\<open>Merge\<close> of each alternative in
  \<^verbatim>\<open>src/internal/remote/firecrest/firecrest_gen.go\<close>). A union is a raw message. \<^verbatim>\<open>JSONMerge\<close> of the
  runtime package is the argument \<open>mg\<close>. A method that changes the union returns it with its error. The
  alternatives of the health checks, which hold timestamps, are only read.
\<close>

section \<open>What the methods do\<close>

type_synonym json_merge = "raw_message \<Rightarrow> json \<Rightarrow> json result"

definition union_As :: "(json \<Rightarrow> 'a result) \<Rightarrow> raw_message \<Rightarrow> 'a result" where
  "union_As f t = (case t of None \<Rightarrow> Inl (Err ''unexpected end of JSON input'') | Some j \<Rightarrow> f j)"

definition union_From :: "json \<Rightarrow> raw_message \<times> go_error option" where
  "union_From b = (Some b, None)"

definition union_Merge :: "json_merge \<Rightarrow> raw_message \<Rightarrow> json \<Rightarrow> raw_message \<times> go_error option" where
  "union_Merge mg t b = (case mg t b of Inr merged \<Rightarrow> (Some merged, None) | Inl e \<Rightarrow> (None, Some e))"

text \<open>With a discriminator, which is merged into the written alternative first.\<close>

definition union_FromWith :: "json_merge \<Rightarrow> json \<Rightarrow> json \<Rightarrow> raw_message \<times> go_error option" where
  "union_FromWith mg discriminator b = union_Merge mg (Some b) discriminator"

definition union_MergeWith ::
  "json_merge \<Rightarrow> json \<Rightarrow> raw_message \<Rightarrow> json \<Rightarrow> raw_message \<times> go_error option" where
  "union_MergeWith mg discriminator t b =
     (case mg (Some b) discriminator of Inl e \<Rightarrow> (t, Some e) | Inr b \<Rightarrow> union_Merge mg t b)"

section \<open>The alternatives\<close>

definition DataOperation_DataTransfer_AsS3DataTransfer :: "raw_message \<Rightarrow> S3DataTransfer result" where
  "DataOperation_DataTransfer_AsS3DataTransfer t = union_As decode_S3DataTransfer t"

definition DataOperation_DataTransfer_FromS3DataTransfer :: "json_merge \<Rightarrow> S3DataTransfer \<Rightarrow> raw_message \<times> go_error option" where
  "DataOperation_DataTransfer_FromS3DataTransfer mg v = union_FromWith mg (JObj [(''serviceType'', JStr ''s3'')]) (encode_S3DataTransfer v)"

definition DataOperation_DataTransfer_MergeS3DataTransfer ::
  "json_merge \<Rightarrow> raw_message \<Rightarrow> S3DataTransfer \<Rightarrow> raw_message \<times> go_error option" where
  "DataOperation_DataTransfer_MergeS3DataTransfer mg t v = union_MergeWith mg (JObj [(''serviceType'', JStr ''s3'')]) t (encode_S3DataTransfer v)"

definition DataOperation_DataTransfer_AsWormholeDataTransfer :: "raw_message \<Rightarrow> WormholeDataTransfer result" where
  "DataOperation_DataTransfer_AsWormholeDataTransfer t = union_As decode_WormholeDataTransfer t"

definition DataOperation_DataTransfer_FromWormholeDataTransfer :: "json_merge \<Rightarrow> WormholeDataTransfer \<Rightarrow> raw_message \<times> go_error option" where
  "DataOperation_DataTransfer_FromWormholeDataTransfer mg v = union_FromWith mg (JObj [(''serviceType'', JStr ''wormhole'')]) (encode_WormholeDataTransfer v)"

definition DataOperation_DataTransfer_MergeWormholeDataTransfer ::
  "json_merge \<Rightarrow> raw_message \<Rightarrow> WormholeDataTransfer \<Rightarrow> raw_message \<times> go_error option" where
  "DataOperation_DataTransfer_MergeWormholeDataTransfer mg t v = union_MergeWith mg (JObj [(''serviceType'', JStr ''wormhole'')]) t (encode_WormholeDataTransfer v)"

definition DataOperation_DataTransfer_AsStreamerDataTransfer :: "raw_message \<Rightarrow> StreamerDataTransfer result" where
  "DataOperation_DataTransfer_AsStreamerDataTransfer t = union_As decode_StreamerDataTransfer t"

definition DataOperation_DataTransfer_FromStreamerDataTransfer :: "json_merge \<Rightarrow> StreamerDataTransfer \<Rightarrow> raw_message \<times> go_error option" where
  "DataOperation_DataTransfer_FromStreamerDataTransfer mg v = union_FromWith mg (JObj [(''serviceType'', JStr ''streamer'')]) (encode_StreamerDataTransfer v)"

definition DataOperation_DataTransfer_MergeStreamerDataTransfer ::
  "json_merge \<Rightarrow> raw_message \<Rightarrow> StreamerDataTransfer \<Rightarrow> raw_message \<times> go_error option" where
  "DataOperation_DataTransfer_MergeStreamerDataTransfer mg t v = union_MergeWith mg (JObj [(''serviceType'', JStr ''streamer'')]) t (encode_StreamerDataTransfer v)"

definition DownloadFileResponse_TransferDirectives_AsWormholeTransferResponse :: "raw_message \<Rightarrow> WormholeTransferResponse result" where
  "DownloadFileResponse_TransferDirectives_AsWormholeTransferResponse t = union_As decode_WormholeTransferResponse t"

definition DownloadFileResponse_TransferDirectives_FromWormholeTransferResponse :: "WormholeTransferResponse \<Rightarrow> raw_message \<times> go_error option" where
  "DownloadFileResponse_TransferDirectives_FromWormholeTransferResponse v = union_From (encode_WormholeTransferResponse v)"

definition DownloadFileResponse_TransferDirectives_MergeWormholeTransferResponse ::
  "json_merge \<Rightarrow> raw_message \<Rightarrow> WormholeTransferResponse \<Rightarrow> raw_message \<times> go_error option" where
  "DownloadFileResponse_TransferDirectives_MergeWormholeTransferResponse mg t v = union_Merge mg t (encode_WormholeTransferResponse v)"

definition DownloadFileResponse_TransferDirectives_AsS3TransferResponse :: "raw_message \<Rightarrow> S3TransferResponse result" where
  "DownloadFileResponse_TransferDirectives_AsS3TransferResponse t = union_As decode_S3TransferResponse t"

definition DownloadFileResponse_TransferDirectives_FromS3TransferResponse :: "S3TransferResponse \<Rightarrow> raw_message \<times> go_error option" where
  "DownloadFileResponse_TransferDirectives_FromS3TransferResponse v = union_From (encode_S3TransferResponse v)"

definition DownloadFileResponse_TransferDirectives_MergeS3TransferResponse ::
  "json_merge \<Rightarrow> raw_message \<Rightarrow> S3TransferResponse \<Rightarrow> raw_message \<times> go_error option" where
  "DownloadFileResponse_TransferDirectives_MergeS3TransferResponse mg t v = union_Merge mg t (encode_S3TransferResponse v)"

definition DownloadFileResponse_TransferDirectives_AsStreamerTransferResponse :: "raw_message \<Rightarrow> StreamerTransferResponse result" where
  "DownloadFileResponse_TransferDirectives_AsStreamerTransferResponse t = union_As decode_StreamerTransferResponse t"

definition DownloadFileResponse_TransferDirectives_FromStreamerTransferResponse :: "StreamerTransferResponse \<Rightarrow> raw_message \<times> go_error option" where
  "DownloadFileResponse_TransferDirectives_FromStreamerTransferResponse v = union_From (encode_StreamerTransferResponse v)"

definition DownloadFileResponse_TransferDirectives_MergeStreamerTransferResponse ::
  "json_merge \<Rightarrow> raw_message \<Rightarrow> StreamerTransferResponse \<Rightarrow> raw_message \<times> go_error option" where
  "DownloadFileResponse_TransferDirectives_MergeStreamerTransferResponse mg t v = union_Merge mg t (encode_StreamerTransferResponse v)"

definition HPCCluster_ServicesHealth_Item_AsSchedulerServiceHealth :: "(string \<Rightarrow> time result) \<Rightarrow> raw_message \<Rightarrow> SchedulerServiceHealth result" where
  "HPCCluster_ServicesHealth_Item_AsSchedulerServiceHealth pt t = union_As (decode_SchedulerServiceHealth pt) t"

definition HPCCluster_ServicesHealth_Item_AsFilesystemServiceHealth :: "(string \<Rightarrow> time result) \<Rightarrow> raw_message \<Rightarrow> FilesystemServiceHealth result" where
  "HPCCluster_ServicesHealth_Item_AsFilesystemServiceHealth pt t = union_As (decode_FilesystemServiceHealth pt) t"

definition HPCCluster_ServicesHealth_Item_AsSSHServiceHealth :: "(string \<Rightarrow> time result) \<Rightarrow> raw_message \<Rightarrow> SSHServiceHealth result" where
  "HPCCluster_ServicesHealth_Item_AsSSHServiceHealth pt t = union_As (decode_SSHServiceHealth pt) t"

definition HPCCluster_ServicesHealth_Item_AsS3ServiceHealth :: "(string \<Rightarrow> time result) \<Rightarrow> raw_message \<Rightarrow> S3ServiceHealth result" where
  "HPCCluster_ServicesHealth_Item_AsS3ServiceHealth pt t = union_As (decode_S3ServiceHealth pt) t"

definition HPCCluster_ServicesHealth_Item_AsHealthCheckException :: "(string \<Rightarrow> time result) \<Rightarrow> raw_message \<Rightarrow> HealthCheckException result" where
  "HPCCluster_ServicesHealth_Item_AsHealthCheckException pt t = union_As (decode_HealthCheckException pt) t"

definition JobDescriptionModel_Env_AsJobDescriptionModelEnv0 :: "raw_message \<Rightarrow> (string, string) fmap result" where
  "JobDescriptionModel_Env_AsJobDescriptionModelEnv0 t = union_As (decode_map decode_string) t"

definition JobDescriptionModel_Env_FromJobDescriptionModelEnv0 :: "job_env \<Rightarrow> raw_message \<times> go_error option" where
  "JobDescriptionModel_Env_FromJobDescriptionModelEnv0 v = union_From (FromJobDescriptionModelEnv0 v)"

definition JobDescriptionModel_Env_MergeJobDescriptionModelEnv0 ::
  "json_merge \<Rightarrow> raw_message \<Rightarrow> job_env \<Rightarrow> raw_message \<times> go_error option" where
  "JobDescriptionModel_Env_MergeJobDescriptionModelEnv0 mg t v = union_Merge mg t (FromJobDescriptionModelEnv0 v)"

definition JobDescriptionModel_Env_AsJobDescriptionModelEnv1 :: "raw_message \<Rightarrow> string list result" where
  "JobDescriptionModel_Env_AsJobDescriptionModelEnv1 t = union_As (decode_list decode_string) t"

definition JobDescriptionModel_Env_FromJobDescriptionModelEnv1 :: "string list \<Rightarrow> raw_message \<times> go_error option" where
  "JobDescriptionModel_Env_FromJobDescriptionModelEnv1 v = union_From ((\<lambda>xs. JArr (map JStr xs)) v)"

definition JobDescriptionModel_Env_MergeJobDescriptionModelEnv1 ::
  "json_merge \<Rightarrow> raw_message \<Rightarrow> string list \<Rightarrow> raw_message \<times> go_error option" where
  "JobDescriptionModel_Env_MergeJobDescriptionModelEnv1 mg t v = union_Merge mg t ((\<lambda>xs. JArr (map JStr xs)) v)"

definition NodeModel_Features_AsNodeModelFeatures0 :: "raw_message \<Rightarrow> string result" where
  "NodeModel_Features_AsNodeModelFeatures0 t = union_As decode_string t"

definition NodeModel_Features_FromNodeModelFeatures0 :: "string \<Rightarrow> raw_message \<times> go_error option" where
  "NodeModel_Features_FromNodeModelFeatures0 v = union_From (JStr v)"

definition NodeModel_Features_MergeNodeModelFeatures0 ::
  "json_merge \<Rightarrow> raw_message \<Rightarrow> string \<Rightarrow> raw_message \<times> go_error option" where
  "NodeModel_Features_MergeNodeModelFeatures0 mg t v = union_Merge mg t (JStr v)"

definition NodeModel_Features_AsNodeModelFeatures1 :: "raw_message \<Rightarrow> string list result" where
  "NodeModel_Features_AsNodeModelFeatures1 t = union_As (decode_list decode_string) t"

definition NodeModel_Features_FromNodeModelFeatures1 :: "string list \<Rightarrow> raw_message \<times> go_error option" where
  "NodeModel_Features_FromNodeModelFeatures1 v = union_From ((\<lambda>xs. JArr (map JStr xs)) v)"

definition NodeModel_Features_MergeNodeModelFeatures1 ::
  "json_merge \<Rightarrow> raw_message \<Rightarrow> string list \<Rightarrow> raw_message \<times> go_error option" where
  "NodeModel_Features_MergeNodeModelFeatures1 mg t v = union_Merge mg t ((\<lambda>xs. JArr (map JStr xs)) v)"

definition NodeModel_State_AsNodeModelState0 :: "raw_message \<Rightarrow> string result" where
  "NodeModel_State_AsNodeModelState0 t = union_As decode_string t"

definition NodeModel_State_FromNodeModelState0 :: "string \<Rightarrow> raw_message \<times> go_error option" where
  "NodeModel_State_FromNodeModelState0 v = union_From (JStr v)"

definition NodeModel_State_MergeNodeModelState0 ::
  "json_merge \<Rightarrow> raw_message \<Rightarrow> string \<Rightarrow> raw_message \<times> go_error option" where
  "NodeModel_State_MergeNodeModelState0 mg t v = union_Merge mg t (JStr v)"

definition NodeModel_State_AsNodeModelState1 :: "raw_message \<Rightarrow> string list result" where
  "NodeModel_State_AsNodeModelState1 t = union_As (decode_list decode_string) t"

definition NodeModel_State_FromNodeModelState1 :: "string list \<Rightarrow> raw_message \<times> go_error option" where
  "NodeModel_State_FromNodeModelState1 v = union_From ((\<lambda>xs. JArr (map JStr xs)) v)"

definition NodeModel_State_MergeNodeModelState1 ::
  "json_merge \<Rightarrow> raw_message \<Rightarrow> string list \<Rightarrow> raw_message \<times> go_error option" where
  "NodeModel_State_MergeNodeModelState1 mg t v = union_Merge mg t ((\<lambda>xs. JArr (map JStr xs)) v)"

definition PartitionModel_Partition_AsPartitionModelPartition0 :: "raw_message \<Rightarrow> string result" where
  "PartitionModel_Partition_AsPartitionModelPartition0 t = union_As decode_string t"

definition PartitionModel_Partition_FromPartitionModelPartition0 :: "string \<Rightarrow> raw_message \<times> go_error option" where
  "PartitionModel_Partition_FromPartitionModelPartition0 v = union_From (JStr v)"

definition PartitionModel_Partition_MergePartitionModelPartition0 ::
  "json_merge \<Rightarrow> raw_message \<Rightarrow> string \<Rightarrow> raw_message \<times> go_error option" where
  "PartitionModel_Partition_MergePartitionModelPartition0 mg t v = union_Merge mg t (JStr v)"

definition PartitionModel_Partition_AsPartitionModelPartition1 :: "raw_message \<Rightarrow> string list result" where
  "PartitionModel_Partition_AsPartitionModelPartition1 t = union_As (decode_list decode_string) t"

definition PartitionModel_Partition_FromPartitionModelPartition1 :: "string list \<Rightarrow> raw_message \<times> go_error option" where
  "PartitionModel_Partition_FromPartitionModelPartition1 v = union_From ((\<lambda>xs. JArr (map JStr xs)) v)"

definition PartitionModel_Partition_MergePartitionModelPartition1 ::
  "json_merge \<Rightarrow> raw_message \<Rightarrow> string list \<Rightarrow> raw_message \<times> go_error option" where
  "PartitionModel_Partition_MergePartitionModelPartition1 mg t v = union_Merge mg t ((\<lambda>xs. JArr (map JStr xs)) v)"

definition PostFileDownloadRequest_TransferDirectives_AsWormholeTransferRequest :: "raw_message \<Rightarrow> WormholeTransferRequest result" where
  "PostFileDownloadRequest_TransferDirectives_AsWormholeTransferRequest t = union_As decode_WormholeTransferRequest t"

definition PostFileDownloadRequest_TransferDirectives_FromWormholeTransferRequest :: "WormholeTransferRequest \<Rightarrow> raw_message \<times> go_error option" where
  "PostFileDownloadRequest_TransferDirectives_FromWormholeTransferRequest v = union_From (encode_WormholeTransferRequest v)"

definition PostFileDownloadRequest_TransferDirectives_MergeWormholeTransferRequest ::
  "json_merge \<Rightarrow> raw_message \<Rightarrow> WormholeTransferRequest \<Rightarrow> raw_message \<times> go_error option" where
  "PostFileDownloadRequest_TransferDirectives_MergeWormholeTransferRequest mg t v = union_Merge mg t (encode_WormholeTransferRequest v)"

definition PostFileDownloadRequest_TransferDirectives_AsS3TransferRequest :: "raw_message \<Rightarrow> S3TransferRequest result" where
  "PostFileDownloadRequest_TransferDirectives_AsS3TransferRequest t = union_As decode_S3TransferRequest t"

definition PostFileDownloadRequest_TransferDirectives_FromS3TransferRequest :: "S3TransferRequest \<Rightarrow> raw_message \<times> go_error option" where
  "PostFileDownloadRequest_TransferDirectives_FromS3TransferRequest v = union_From (encode_S3TransferRequest v)"

definition PostFileDownloadRequest_TransferDirectives_MergeS3TransferRequest ::
  "json_merge \<Rightarrow> raw_message \<Rightarrow> S3TransferRequest \<Rightarrow> raw_message \<times> go_error option" where
  "PostFileDownloadRequest_TransferDirectives_MergeS3TransferRequest mg t v = union_Merge mg t (encode_S3TransferRequest v)"

definition PostFileDownloadRequest_TransferDirectives_AsStreamerTransferRequest :: "raw_message \<Rightarrow> StreamerTransferRequest result" where
  "PostFileDownloadRequest_TransferDirectives_AsStreamerTransferRequest t = union_As decode_StreamerTransferRequest t"

definition PostFileDownloadRequest_TransferDirectives_FromStreamerTransferRequest :: "StreamerTransferRequest \<Rightarrow> raw_message \<times> go_error option" where
  "PostFileDownloadRequest_TransferDirectives_FromStreamerTransferRequest v = union_From (encode_StreamerTransferRequest v)"

definition PostFileDownloadRequest_TransferDirectives_MergeStreamerTransferRequest ::
  "json_merge \<Rightarrow> raw_message \<Rightarrow> StreamerTransferRequest \<Rightarrow> raw_message \<times> go_error option" where
  "PostFileDownloadRequest_TransferDirectives_MergeStreamerTransferRequest mg t v = union_Merge mg t (encode_StreamerTransferRequest v)"

definition PostFileUploadRequest_TransferDirectives_AsWormholeTransferUploadRequest :: "raw_message \<Rightarrow> WormholeTransferUploadRequest result" where
  "PostFileUploadRequest_TransferDirectives_AsWormholeTransferUploadRequest t = union_As decode_WormholeTransferUploadRequest t"

definition PostFileUploadRequest_TransferDirectives_FromWormholeTransferUploadRequest :: "WormholeTransferUploadRequest \<Rightarrow> raw_message \<times> go_error option" where
  "PostFileUploadRequest_TransferDirectives_FromWormholeTransferUploadRequest v = union_From (encode_WormholeTransferUploadRequest v)"

definition PostFileUploadRequest_TransferDirectives_MergeWormholeTransferUploadRequest ::
  "json_merge \<Rightarrow> raw_message \<Rightarrow> WormholeTransferUploadRequest \<Rightarrow> raw_message \<times> go_error option" where
  "PostFileUploadRequest_TransferDirectives_MergeWormholeTransferUploadRequest mg t v = union_Merge mg t (encode_WormholeTransferUploadRequest v)"

definition PostFileUploadRequest_TransferDirectives_AsS3TransferRequest :: "raw_message \<Rightarrow> S3TransferRequest result" where
  "PostFileUploadRequest_TransferDirectives_AsS3TransferRequest t = union_As decode_S3TransferRequest t"

definition PostFileUploadRequest_TransferDirectives_FromS3TransferRequest :: "S3TransferRequest \<Rightarrow> raw_message \<times> go_error option" where
  "PostFileUploadRequest_TransferDirectives_FromS3TransferRequest v = union_From (encode_S3TransferRequest v)"

definition PostFileUploadRequest_TransferDirectives_MergeS3TransferRequest ::
  "json_merge \<Rightarrow> raw_message \<Rightarrow> S3TransferRequest \<Rightarrow> raw_message \<times> go_error option" where
  "PostFileUploadRequest_TransferDirectives_MergeS3TransferRequest mg t v = union_Merge mg t (encode_S3TransferRequest v)"

definition PostFileUploadRequest_TransferDirectives_AsStreamerTransferRequest :: "raw_message \<Rightarrow> StreamerTransferRequest result" where
  "PostFileUploadRequest_TransferDirectives_AsStreamerTransferRequest t = union_As decode_StreamerTransferRequest t"

definition PostFileUploadRequest_TransferDirectives_FromStreamerTransferRequest :: "StreamerTransferRequest \<Rightarrow> raw_message \<times> go_error option" where
  "PostFileUploadRequest_TransferDirectives_FromStreamerTransferRequest v = union_From (encode_StreamerTransferRequest v)"

definition PostFileUploadRequest_TransferDirectives_MergeStreamerTransferRequest ::
  "json_merge \<Rightarrow> raw_message \<Rightarrow> StreamerTransferRequest \<Rightarrow> raw_message \<times> go_error option" where
  "PostFileUploadRequest_TransferDirectives_MergeStreamerTransferRequest mg t v = union_Merge mg t (encode_StreamerTransferRequest v)"

definition UploadFileResponse_TransferDirectives_AsWormholeTransferResponse :: "raw_message \<Rightarrow> WormholeTransferResponse result" where
  "UploadFileResponse_TransferDirectives_AsWormholeTransferResponse t = union_As decode_WormholeTransferResponse t"

definition UploadFileResponse_TransferDirectives_FromWormholeTransferResponse :: "WormholeTransferResponse \<Rightarrow> raw_message \<times> go_error option" where
  "UploadFileResponse_TransferDirectives_FromWormholeTransferResponse v = union_From (encode_WormholeTransferResponse v)"

definition UploadFileResponse_TransferDirectives_MergeWormholeTransferResponse ::
  "json_merge \<Rightarrow> raw_message \<Rightarrow> WormholeTransferResponse \<Rightarrow> raw_message \<times> go_error option" where
  "UploadFileResponse_TransferDirectives_MergeWormholeTransferResponse mg t v = union_Merge mg t (encode_WormholeTransferResponse v)"

definition UploadFileResponse_TransferDirectives_AsS3TransferResponse :: "raw_message \<Rightarrow> S3TransferResponse result" where
  "UploadFileResponse_TransferDirectives_AsS3TransferResponse t = union_As decode_S3TransferResponse t"

definition UploadFileResponse_TransferDirectives_FromS3TransferResponse :: "S3TransferResponse \<Rightarrow> raw_message \<times> go_error option" where
  "UploadFileResponse_TransferDirectives_FromS3TransferResponse v = union_From (encode_S3TransferResponse v)"

definition UploadFileResponse_TransferDirectives_MergeS3TransferResponse ::
  "json_merge \<Rightarrow> raw_message \<Rightarrow> S3TransferResponse \<Rightarrow> raw_message \<times> go_error option" where
  "UploadFileResponse_TransferDirectives_MergeS3TransferResponse mg t v = union_Merge mg t (encode_S3TransferResponse v)"

definition UploadFileResponse_TransferDirectives_AsStreamerTransferResponse :: "raw_message \<Rightarrow> StreamerTransferResponse result" where
  "UploadFileResponse_TransferDirectives_AsStreamerTransferResponse t = union_As decode_StreamerTransferResponse t"

definition UploadFileResponse_TransferDirectives_FromStreamerTransferResponse :: "StreamerTransferResponse \<Rightarrow> raw_message \<times> go_error option" where
  "UploadFileResponse_TransferDirectives_FromStreamerTransferResponse v = union_From (encode_StreamerTransferResponse v)"

definition UploadFileResponse_TransferDirectives_MergeStreamerTransferResponse ::
  "json_merge \<Rightarrow> raw_message \<Rightarrow> StreamerTransferResponse \<Rightarrow> raw_message \<times> go_error option" where
  "UploadFileResponse_TransferDirectives_MergeStreamerTransferResponse mg t v = union_Merge mg t (encode_StreamerTransferResponse v)"

section \<open>The discriminator\<close>

definition DataOperation_DataTransfer_Discriminator :: "raw_message \<Rightarrow> string result" where
  "DataOperation_DataTransfer_Discriminator t =
     union_As (\<lambda>j. bindE (json_object j) (\<lambda>ms. decode_string (json_member ''serviceType'' ms))) t"

datatype data_transfer = IsS3 S3DataTransfer | IsStreamer StreamerDataTransfer | IsWormhole WormholeDataTransfer

definition DataOperation_DataTransfer_ValueByDiscriminator :: "raw_message \<Rightarrow> data_transfer result" where
  "DataOperation_DataTransfer_ValueByDiscriminator t =
     bindE (DataOperation_DataTransfer_Discriminator t) (\<lambda>discriminator.
     if discriminator = ''s3''
     then bindE (DataOperation_DataTransfer_AsS3DataTransfer t) (\<lambda>v. Inr (IsS3 v))
     else if discriminator = ''streamer''
     then bindE (DataOperation_DataTransfer_AsStreamerDataTransfer t) (\<lambda>v. Inr (IsStreamer v))
     else if discriminator = ''wormhole''
     then bindE (DataOperation_DataTransfer_AsWormholeDataTransfer t) (\<lambda>v. Inr (IsWormhole v))
     else Inl (Err (''unknown discriminator value: '' @ discriminator)))"

end
