(* ===== verification/Firecrest_Api.thy ===== *)
theory Firecrest_Api
  imports Firecrest_Unions
begin

text \<open>
  The operations of the generated FirecREST client
  (\<^verbatim>\<open>src/internal/remote/firecrest/firecrest_gen.go\<close>) that the session controller does not call:
  for each the request, the method of the client, the parser of the reply and the method that puts
  them together; the others are in \<^verbatim>\<open>Firecrest_Client\<close>. A pointer to parameters may be nil.
\<close>

section \<open>Queries\<close>

definition required_frag :: "'s Client \<Rightarrow> string \<Rightarrow> param \<Rightarrow> string list result" where
  "required_frag c name v = bindE (query_param c name v) (\<lambda>f. Inr [f])"

definition optional_frag :: "'s Client \<Rightarrow> string \<Rightarrow> param option \<Rightarrow> string list result" where
  "optional_frag c name v = (case v of None \<Rightarrow> Inr [] | Some p \<Rightarrow> required_frag c name p)"

fun concatE :: "'a list result list \<Rightarrow> 'a list result" where
  "concatE [] = Inr []"
| "concatE (x # xs) = bindE x (\<lambda>ys. bindE (concatE xs) (\<lambda>zs. Inr (ys @ zs)))"

definition with_query :: "url \<Rightarrow> 'p option \<Rightarrow> ('p \<Rightarrow> string list result) \<Rightarrow> url result" where
  "with_query u params frags =
     (case params of None \<Rightarrow> Inr u | Some ps \<Rightarrow> bindE (frags ps) (\<lambda>fs. Inr (set_query u fs)))"

section \<open>Jobs\<close>

record GetJobsComputeSystemNameJobsGetParams =
  GetJobs_Allusers :: "bool option"
  GetJobs_Account :: "string option"

definition NewGetJobsComputeSystemNameJobsGetRequest ::
  "'s Client \<Rightarrow> string \<Rightarrow> GetJobsComputeSystemNameJobsGetParams option \<Rightarrow> http_request result" where
  "NewGetJobsComputeSystemNameJobsGetRequest c systemName params =
     bindE (path_param c ''system_name'' systemName) (\<lambda>p0.
     bindE (operation_url c (''/compute/'' @ p0 @ ''/jobs'')) (\<lambda>queryURL.
     bindE (with_query queryURL params (\<lambda>ps. concatE
       [optional_frag c ''allusers'' (map_option PBool (GetJobs_Allusers ps)),
        optional_frag c ''account'' (map_option PString (GetJobs_Account ps))])) (\<lambda>queryURL.
     new_request c ''GET'' queryURL [])))"

definition ParseGetJobsComputeSystemNameJobsGetResponse ::
  "api_decoders \<Rightarrow> http_reply \<Rightarrow> GetJobResponse op_response result" where
  "ParseGetJobsComputeSystemNameJobsGetResponse d = parse_reply d 200 (Some (unmarshal decode_GetJobResponse))"

definition GetJobsComputeSystemNameJobsGet ::
  "'s Client \<Rightarrow> string \<Rightarrow> GetJobsComputeSystemNameJobsGetParams option \<Rightarrow> ('s, http_reply) action" where
  "GetJobsComputeSystemNameJobsGet c systemName params = client_send c (NewGetJobsComputeSystemNameJobsGetRequest c systemName params)"

definition GetJobsComputeSystemNameJobsGetWithResponse ::
  "'s Client \<Rightarrow> string \<Rightarrow> GetJobsComputeSystemNameJobsGetParams option \<Rightarrow> ('s, GetJobResponse op_response) action" where
  "GetJobsComputeSystemNameJobsGetWithResponse c systemName params = with_response ParseGetJobsComputeSystemNameJobsGetResponse c (GetJobsComputeSystemNameJobsGet c systemName params)"

definition PostJobSubmitComputeSystemNameJobsPostWithBody ::
  "'s Client \<Rightarrow> string \<Rightarrow> string \<Rightarrow> string \<Rightarrow> ('s, http_reply) action" where
  "PostJobSubmitComputeSystemNameJobsPostWithBody c systemName contentType body = client_send c (NewPostJobSubmitComputeSystemNameJobsPostRequestWithBody c systemName contentType body)"

definition PostJobSubmitComputeSystemNameJobsPostWithBodyWithResponse ::
  "'s Client \<Rightarrow> string \<Rightarrow> string \<Rightarrow> string \<Rightarrow> ('s, string option op_response) action" where
  "PostJobSubmitComputeSystemNameJobsPostWithBodyWithResponse c systemName contentType body = with_response ParsePostJobSubmitComputeSystemNameJobsPostResponse c (PostJobSubmitComputeSystemNameJobsPostWithBody c systemName contentType body)"

definition NewAttachComputeSystemNameJobsJobIdAttachPutRequestWithBody ::
  "'s Client \<Rightarrow> string \<Rightarrow> string \<Rightarrow> string \<Rightarrow> string \<Rightarrow> http_request result" where
  "NewAttachComputeSystemNameJobsJobIdAttachPutRequestWithBody c systemName jobId contentType body =
     bindE (path_param c ''system_name'' systemName) (\<lambda>p0.
     bindE (path_param c ''job_id'' jobId) (\<lambda>p1.
     bindE (operation_url c (''/compute/'' @ p0 @ ''/jobs/'' @ p1 @ ''/attach'')) (\<lambda>queryURL.
     bindE (new_request c ''PUT'' queryURL body) (\<lambda>req.
     Inr (Header_Set ''Content-Type'' contentType req)))))"

definition NewAttachComputeSystemNameJobsJobIdAttachPutRequest ::
  "'s Client \<Rightarrow> string \<Rightarrow> string \<Rightarrow> PostJobAttachRequest \<Rightarrow> http_request result" where
  "NewAttachComputeSystemNameJobsJobIdAttachPutRequest c systemName jobId body =
     NewAttachComputeSystemNameJobsJobIdAttachPutRequestWithBody c systemName jobId ''application/json''
       (json_Marshal (encode_PostJobAttachRequest body))"

definition ParseAttachComputeSystemNameJobsJobIdAttachPutResponse ::
  "api_decoders \<Rightarrow> http_reply \<Rightarrow> unit op_response result" where
  "ParseAttachComputeSystemNameJobsJobIdAttachPutResponse d = parse_reply d 204 None"

definition AttachComputeSystemNameJobsJobIdAttachPutWithBody ::
  "'s Client \<Rightarrow> string \<Rightarrow> string \<Rightarrow> string \<Rightarrow> string \<Rightarrow> ('s, http_reply) action" where
  "AttachComputeSystemNameJobsJobIdAttachPutWithBody c systemName jobId contentType body = client_send c (NewAttachComputeSystemNameJobsJobIdAttachPutRequestWithBody c systemName jobId contentType body)"

definition AttachComputeSystemNameJobsJobIdAttachPutWithBodyWithResponse ::
  "'s Client \<Rightarrow> string \<Rightarrow> string \<Rightarrow> string \<Rightarrow> string \<Rightarrow> ('s, unit op_response) action" where
  "AttachComputeSystemNameJobsJobIdAttachPutWithBodyWithResponse c systemName jobId contentType body = with_response ParseAttachComputeSystemNameJobsJobIdAttachPutResponse c (AttachComputeSystemNameJobsJobIdAttachPutWithBody c systemName jobId contentType body)"

definition AttachComputeSystemNameJobsJobIdAttachPut ::
  "'s Client \<Rightarrow> string \<Rightarrow> string \<Rightarrow> PostJobAttachRequest \<Rightarrow> ('s, http_reply) action" where
  "AttachComputeSystemNameJobsJobIdAttachPut c systemName jobId body = client_send c (NewAttachComputeSystemNameJobsJobIdAttachPutRequest c systemName jobId body)"

definition AttachComputeSystemNameJobsJobIdAttachPutWithResponse ::
  "'s Client \<Rightarrow> string \<Rightarrow> string \<Rightarrow> PostJobAttachRequest \<Rightarrow> ('s, unit op_response) action" where
  "AttachComputeSystemNameJobsJobIdAttachPutWithResponse c systemName jobId body = with_response ParseAttachComputeSystemNameJobsJobIdAttachPutResponse c (AttachComputeSystemNameJobsJobIdAttachPut c systemName jobId body)"

section \<open>Files\<close>

record GetChecksumFilesystemSystemNameOpsChecksumGetParams =
  GetChecksum_Path :: string

definition NewGetChecksumFilesystemSystemNameOpsChecksumGetRequest ::
  "'s Client \<Rightarrow> string \<Rightarrow> GetChecksumFilesystemSystemNameOpsChecksumGetParams option \<Rightarrow> http_request result" where
  "NewGetChecksumFilesystemSystemNameOpsChecksumGetRequest c systemName params =
     bindE (path_param c ''system_name'' systemName) (\<lambda>p0.
     bindE (operation_url c (''/filesystem/'' @ p0 @ ''/ops/checksum'')) (\<lambda>queryURL.
     bindE (with_query queryURL params (\<lambda>ps. concatE
       [required_frag c ''path'' (PString (GetChecksum_Path ps))])) (\<lambda>queryURL.
     new_request c ''GET'' queryURL [])))"

definition ParseGetChecksumFilesystemSystemNameOpsChecksumGetResponse ::
  "api_decoders \<Rightarrow> http_reply \<Rightarrow> GetFileChecksumResponse op_response result" where
  "ParseGetChecksumFilesystemSystemNameOpsChecksumGetResponse d = parse_reply d 200 (Some (unmarshal decode_GetFileChecksumResponse))"

definition GetChecksumFilesystemSystemNameOpsChecksumGet ::
  "'s Client \<Rightarrow> string \<Rightarrow> GetChecksumFilesystemSystemNameOpsChecksumGetParams option \<Rightarrow> ('s, http_reply) action" where
  "GetChecksumFilesystemSystemNameOpsChecksumGet c systemName params = client_send c (NewGetChecksumFilesystemSystemNameOpsChecksumGetRequest c systemName params)"

definition GetChecksumFilesystemSystemNameOpsChecksumGetWithResponse ::
  "'s Client \<Rightarrow> string \<Rightarrow> GetChecksumFilesystemSystemNameOpsChecksumGetParams option \<Rightarrow> ('s, GetFileChecksumResponse op_response) action" where
  "GetChecksumFilesystemSystemNameOpsChecksumGetWithResponse c systemName params = with_response ParseGetChecksumFilesystemSystemNameOpsChecksumGetResponse c (GetChecksumFilesystemSystemNameOpsChecksumGet c systemName params)"

definition PutChmodFilesystemSystemNameOpsChmodPutWithBody ::
  "'s Client \<Rightarrow> string \<Rightarrow> string \<Rightarrow> string \<Rightarrow> ('s, http_reply) action" where
  "PutChmodFilesystemSystemNameOpsChmodPutWithBody c systemName contentType body = client_send c (NewPutChmodFilesystemSystemNameOpsChmodPutRequestWithBody c systemName contentType body)"

definition PutChmodFilesystemSystemNameOpsChmodPutWithBodyWithResponse ::
  "'s Client \<Rightarrow> string \<Rightarrow> string \<Rightarrow> string \<Rightarrow> ('s, unit op_response) action" where
  "PutChmodFilesystemSystemNameOpsChmodPutWithBodyWithResponse c systemName contentType body = with_response ParsePutChmodFilesystemSystemNameOpsChmodPutResponse c (PutChmodFilesystemSystemNameOpsChmodPutWithBody c systemName contentType body)"

definition NewPutChownFilesystemSystemNameOpsChownPutRequestWithBody ::
  "'s Client \<Rightarrow> string \<Rightarrow> string \<Rightarrow> string \<Rightarrow> http_request result" where
  "NewPutChownFilesystemSystemNameOpsChownPutRequestWithBody c systemName contentType body =
     bindE (path_param c ''system_name'' systemName) (\<lambda>p0.
     bindE (operation_url c (''/filesystem/'' @ p0 @ ''/ops/chown'')) (\<lambda>queryURL.
     bindE (new_request c ''PUT'' queryURL body) (\<lambda>req.
     Inr (Header_Set ''Content-Type'' contentType req))))"

definition NewPutChownFilesystemSystemNameOpsChownPutRequest ::
  "'s Client \<Rightarrow> string \<Rightarrow> PutFileChownRequest \<Rightarrow> http_request result" where
  "NewPutChownFilesystemSystemNameOpsChownPutRequest c systemName body =
     NewPutChownFilesystemSystemNameOpsChownPutRequestWithBody c systemName ''application/json''
       (json_Marshal (encode_PutFileChownRequest body))"

definition ParsePutChownFilesystemSystemNameOpsChownPutResponse ::
  "api_decoders \<Rightarrow> http_reply \<Rightarrow> PutFileChownResponse op_response result" where
  "ParsePutChownFilesystemSystemNameOpsChownPutResponse d = parse_reply d 200 (Some (unmarshal decode_PutFileChownResponse))"

definition PutChownFilesystemSystemNameOpsChownPutWithBody ::
  "'s Client \<Rightarrow> string \<Rightarrow> string \<Rightarrow> string \<Rightarrow> ('s, http_reply) action" where
  "PutChownFilesystemSystemNameOpsChownPutWithBody c systemName contentType body = client_send c (NewPutChownFilesystemSystemNameOpsChownPutRequestWithBody c systemName contentType body)"

definition PutChownFilesystemSystemNameOpsChownPutWithBodyWithResponse ::
  "'s Client \<Rightarrow> string \<Rightarrow> string \<Rightarrow> string \<Rightarrow> ('s, PutFileChownResponse op_response) action" where
  "PutChownFilesystemSystemNameOpsChownPutWithBodyWithResponse c systemName contentType body = with_response ParsePutChownFilesystemSystemNameOpsChownPutResponse c (PutChownFilesystemSystemNameOpsChownPutWithBody c systemName contentType body)"

definition PutChownFilesystemSystemNameOpsChownPut ::
  "'s Client \<Rightarrow> string \<Rightarrow> PutFileChownRequest \<Rightarrow> ('s, http_reply) action" where
  "PutChownFilesystemSystemNameOpsChownPut c systemName body = client_send c (NewPutChownFilesystemSystemNameOpsChownPutRequest c systemName body)"

definition PutChownFilesystemSystemNameOpsChownPutWithResponse ::
  "'s Client \<Rightarrow> string \<Rightarrow> PutFileChownRequest \<Rightarrow> ('s, PutFileChownResponse op_response) action" where
  "PutChownFilesystemSystemNameOpsChownPutWithResponse c systemName body = with_response ParsePutChownFilesystemSystemNameOpsChownPutResponse c (PutChownFilesystemSystemNameOpsChownPut c systemName body)"

definition NewPostCompressFilesystemSystemNameOpsCompressPostRequestWithBody ::
  "'s Client \<Rightarrow> string \<Rightarrow> string \<Rightarrow> string \<Rightarrow> http_request result" where
  "NewPostCompressFilesystemSystemNameOpsCompressPostRequestWithBody c systemName contentType body =
     bindE (path_param c ''system_name'' systemName) (\<lambda>p0.
     bindE (operation_url c (''/filesystem/'' @ p0 @ ''/ops/compress'')) (\<lambda>queryURL.
     bindE (new_request c ''POST'' queryURL body) (\<lambda>req.
     Inr (Header_Set ''Content-Type'' contentType req))))"

definition NewPostCompressFilesystemSystemNameOpsCompressPostRequest ::
  "'s Client \<Rightarrow> string \<Rightarrow> PostCompressRequest \<Rightarrow> http_request result" where
  "NewPostCompressFilesystemSystemNameOpsCompressPostRequest c systemName body =
     NewPostCompressFilesystemSystemNameOpsCompressPostRequestWithBody c systemName ''application/json''
       (json_Marshal (encode_PostCompressRequest body))"

definition ParsePostCompressFilesystemSystemNameOpsCompressPostResponse ::
  "api_decoders \<Rightarrow> http_reply \<Rightarrow> unit op_response result" where
  "ParsePostCompressFilesystemSystemNameOpsCompressPostResponse d = parse_reply d 204 None"

definition PostCompressFilesystemSystemNameOpsCompressPostWithBody ::
  "'s Client \<Rightarrow> string \<Rightarrow> string \<Rightarrow> string \<Rightarrow> ('s, http_reply) action" where
  "PostCompressFilesystemSystemNameOpsCompressPostWithBody c systemName contentType body = client_send c (NewPostCompressFilesystemSystemNameOpsCompressPostRequestWithBody c systemName contentType body)"

definition PostCompressFilesystemSystemNameOpsCompressPostWithBodyWithResponse ::
  "'s Client \<Rightarrow> string \<Rightarrow> string \<Rightarrow> string \<Rightarrow> ('s, unit op_response) action" where
  "PostCompressFilesystemSystemNameOpsCompressPostWithBodyWithResponse c systemName contentType body = with_response ParsePostCompressFilesystemSystemNameOpsCompressPostResponse c (PostCompressFilesystemSystemNameOpsCompressPostWithBody c systemName contentType body)"

definition PostCompressFilesystemSystemNameOpsCompressPost ::
  "'s Client \<Rightarrow> string \<Rightarrow> PostCompressRequest \<Rightarrow> ('s, http_reply) action" where
  "PostCompressFilesystemSystemNameOpsCompressPost c systemName body = client_send c (NewPostCompressFilesystemSystemNameOpsCompressPostRequest c systemName body)"

definition PostCompressFilesystemSystemNameOpsCompressPostWithResponse ::
  "'s Client \<Rightarrow> string \<Rightarrow> PostCompressRequest \<Rightarrow> ('s, unit op_response) action" where
  "PostCompressFilesystemSystemNameOpsCompressPostWithResponse c systemName body = with_response ParsePostCompressFilesystemSystemNameOpsCompressPostResponse c (PostCompressFilesystemSystemNameOpsCompressPost c systemName body)"

record GetDownloadFilesystemSystemNameOpsDownloadGetParams =
  GetDownload_Path :: string

definition NewGetDownloadFilesystemSystemNameOpsDownloadGetRequest ::
  "'s Client \<Rightarrow> string \<Rightarrow> GetDownloadFilesystemSystemNameOpsDownloadGetParams option \<Rightarrow> http_request result" where
  "NewGetDownloadFilesystemSystemNameOpsDownloadGetRequest c systemName params =
     bindE (path_param c ''system_name'' systemName) (\<lambda>p0.
     bindE (operation_url c (''/filesystem/'' @ p0 @ ''/ops/download'')) (\<lambda>queryURL.
     bindE (with_query queryURL params (\<lambda>ps. concatE
       [required_frag c ''path'' (PString (GetDownload_Path ps))])) (\<lambda>queryURL.
     new_request c ''GET'' queryURL [])))"

definition ParseGetDownloadFilesystemSystemNameOpsDownloadGetResponse ::
  "api_decoders \<Rightarrow> http_reply \<Rightarrow> json op_response result" where
  "ParseGetDownloadFilesystemSystemNameOpsDownloadGetResponse d = parse_reply d 200 (Some (unmarshal decode_any))"

definition GetDownloadFilesystemSystemNameOpsDownloadGet ::
  "'s Client \<Rightarrow> string \<Rightarrow> GetDownloadFilesystemSystemNameOpsDownloadGetParams option \<Rightarrow> ('s, http_reply) action" where
  "GetDownloadFilesystemSystemNameOpsDownloadGet c systemName params = client_send c (NewGetDownloadFilesystemSystemNameOpsDownloadGetRequest c systemName params)"

definition GetDownloadFilesystemSystemNameOpsDownloadGetWithResponse ::
  "'s Client \<Rightarrow> string \<Rightarrow> GetDownloadFilesystemSystemNameOpsDownloadGetParams option \<Rightarrow> ('s, json op_response) action" where
  "GetDownloadFilesystemSystemNameOpsDownloadGetWithResponse c systemName params = with_response ParseGetDownloadFilesystemSystemNameOpsDownloadGetResponse c (GetDownloadFilesystemSystemNameOpsDownloadGet c systemName params)"

definition NewPostExtractFilesystemSystemNameOpsExtractPostRequestWithBody ::
  "'s Client \<Rightarrow> string \<Rightarrow> string \<Rightarrow> string \<Rightarrow> http_request result" where
  "NewPostExtractFilesystemSystemNameOpsExtractPostRequestWithBody c systemName contentType body =
     bindE (path_param c ''system_name'' systemName) (\<lambda>p0.
     bindE (operation_url c (''/filesystem/'' @ p0 @ ''/ops/extract'')) (\<lambda>queryURL.
     bindE (new_request c ''POST'' queryURL body) (\<lambda>req.
     Inr (Header_Set ''Content-Type'' contentType req))))"

definition NewPostExtractFilesystemSystemNameOpsExtractPostRequest ::
  "'s Client \<Rightarrow> string \<Rightarrow> PostExtractRequest \<Rightarrow> http_request result" where
  "NewPostExtractFilesystemSystemNameOpsExtractPostRequest c systemName body =
     NewPostExtractFilesystemSystemNameOpsExtractPostRequestWithBody c systemName ''application/json''
       (json_Marshal (encode_PostExtractRequest body))"

definition ParsePostExtractFilesystemSystemNameOpsExtractPostResponse ::
  "api_decoders \<Rightarrow> http_reply \<Rightarrow> unit op_response result" where
  "ParsePostExtractFilesystemSystemNameOpsExtractPostResponse d = parse_reply d 204 None"

definition PostExtractFilesystemSystemNameOpsExtractPostWithBody ::
  "'s Client \<Rightarrow> string \<Rightarrow> string \<Rightarrow> string \<Rightarrow> ('s, http_reply) action" where
  "PostExtractFilesystemSystemNameOpsExtractPostWithBody c systemName contentType body = client_send c (NewPostExtractFilesystemSystemNameOpsExtractPostRequestWithBody c systemName contentType body)"

definition PostExtractFilesystemSystemNameOpsExtractPostWithBodyWithResponse ::
  "'s Client \<Rightarrow> string \<Rightarrow> string \<Rightarrow> string \<Rightarrow> ('s, unit op_response) action" where
  "PostExtractFilesystemSystemNameOpsExtractPostWithBodyWithResponse c systemName contentType body = with_response ParsePostExtractFilesystemSystemNameOpsExtractPostResponse c (PostExtractFilesystemSystemNameOpsExtractPostWithBody c systemName contentType body)"

definition PostExtractFilesystemSystemNameOpsExtractPost ::
  "'s Client \<Rightarrow> string \<Rightarrow> PostExtractRequest \<Rightarrow> ('s, http_reply) action" where
  "PostExtractFilesystemSystemNameOpsExtractPost c systemName body = client_send c (NewPostExtractFilesystemSystemNameOpsExtractPostRequest c systemName body)"

definition PostExtractFilesystemSystemNameOpsExtractPostWithResponse ::
  "'s Client \<Rightarrow> string \<Rightarrow> PostExtractRequest \<Rightarrow> ('s, unit op_response) action" where
  "PostExtractFilesystemSystemNameOpsExtractPostWithResponse c systemName body = with_response ParsePostExtractFilesystemSystemNameOpsExtractPostResponse c (PostExtractFilesystemSystemNameOpsExtractPost c systemName body)"

record GetFileFilesystemSystemNameOpsFileGetParams =
  GetFile_Path :: string

definition NewGetFileFilesystemSystemNameOpsFileGetRequest ::
  "'s Client \<Rightarrow> string \<Rightarrow> GetFileFilesystemSystemNameOpsFileGetParams option \<Rightarrow> http_request result" where
  "NewGetFileFilesystemSystemNameOpsFileGetRequest c systemName params =
     bindE (path_param c ''system_name'' systemName) (\<lambda>p0.
     bindE (operation_url c (''/filesystem/'' @ p0 @ ''/ops/file'')) (\<lambda>queryURL.
     bindE (with_query queryURL params (\<lambda>ps. concatE
       [required_frag c ''path'' (PString (GetFile_Path ps))])) (\<lambda>queryURL.
     new_request c ''GET'' queryURL [])))"

definition ParseGetFileFilesystemSystemNameOpsFileGetResponse ::
  "api_decoders \<Rightarrow> http_reply \<Rightarrow> GetFileTypeResponse op_response result" where
  "ParseGetFileFilesystemSystemNameOpsFileGetResponse d = parse_reply d 200 (Some (unmarshal decode_GetFileTypeResponse))"

definition GetFileFilesystemSystemNameOpsFileGet ::
  "'s Client \<Rightarrow> string \<Rightarrow> GetFileFilesystemSystemNameOpsFileGetParams option \<Rightarrow> ('s, http_reply) action" where
  "GetFileFilesystemSystemNameOpsFileGet c systemName params = client_send c (NewGetFileFilesystemSystemNameOpsFileGetRequest c systemName params)"

definition GetFileFilesystemSystemNameOpsFileGetWithResponse ::
  "'s Client \<Rightarrow> string \<Rightarrow> GetFileFilesystemSystemNameOpsFileGetParams option \<Rightarrow> ('s, GetFileTypeResponse op_response) action" where
  "GetFileFilesystemSystemNameOpsFileGetWithResponse c systemName params = with_response ParseGetFileFilesystemSystemNameOpsFileGetResponse c (GetFileFilesystemSystemNameOpsFileGet c systemName params)"

record GetHeadFilesystemSystemNameOpsHeadGetParams =
  GetHead_Path :: string
  GetHead_Bytes :: "int option"
  GetHead_Lines :: "int option"
  GetHead_SkipTrailing :: "bool option"

definition NewGetHeadFilesystemSystemNameOpsHeadGetRequest ::
  "'s Client \<Rightarrow> string \<Rightarrow> GetHeadFilesystemSystemNameOpsHeadGetParams option \<Rightarrow> http_request result" where
  "NewGetHeadFilesystemSystemNameOpsHeadGetRequest c systemName params =
     bindE (path_param c ''system_name'' systemName) (\<lambda>p0.
     bindE (operation_url c (''/filesystem/'' @ p0 @ ''/ops/head'')) (\<lambda>queryURL.
     bindE (with_query queryURL params (\<lambda>ps. concatE
       [required_frag c ''path'' (PString (GetHead_Path ps)),
        optional_frag c ''bytes'' (map_option PInt (GetHead_Bytes ps)),
        optional_frag c ''lines'' (map_option PInt (GetHead_Lines ps)),
        optional_frag c ''skipTrailing'' (map_option PBool (GetHead_SkipTrailing ps))])) (\<lambda>queryURL.
     new_request c ''GET'' queryURL [])))"

definition ParseGetHeadFilesystemSystemNameOpsHeadGetResponse ::
  "api_decoders \<Rightarrow> http_reply \<Rightarrow> GetFileHeadResponse op_response result" where
  "ParseGetHeadFilesystemSystemNameOpsHeadGetResponse d = parse_reply d 200 (Some (unmarshal decode_GetFileHeadResponse))"

definition GetHeadFilesystemSystemNameOpsHeadGet ::
  "'s Client \<Rightarrow> string \<Rightarrow> GetHeadFilesystemSystemNameOpsHeadGetParams option \<Rightarrow> ('s, http_reply) action" where
  "GetHeadFilesystemSystemNameOpsHeadGet c systemName params = client_send c (NewGetHeadFilesystemSystemNameOpsHeadGetRequest c systemName params)"

definition GetHeadFilesystemSystemNameOpsHeadGetWithResponse ::
  "'s Client \<Rightarrow> string \<Rightarrow> GetHeadFilesystemSystemNameOpsHeadGetParams option \<Rightarrow> ('s, GetFileHeadResponse op_response) action" where
  "GetHeadFilesystemSystemNameOpsHeadGetWithResponse c systemName params = with_response ParseGetHeadFilesystemSystemNameOpsHeadGetResponse c (GetHeadFilesystemSystemNameOpsHeadGet c systemName params)"

record GetLsFilesystemSystemNameOpsLsGetParams =
  GetLs_Path :: string
  GetLs_ShowHidden :: "bool option"
  GetLs_NumericUid :: "bool option"
  GetLs_Recursive :: "bool option"
  GetLs_Dereference :: "bool option"

definition NewGetLsFilesystemSystemNameOpsLsGetRequest ::
  "'s Client \<Rightarrow> string \<Rightarrow> GetLsFilesystemSystemNameOpsLsGetParams option \<Rightarrow> http_request result" where
  "NewGetLsFilesystemSystemNameOpsLsGetRequest c systemName params =
     bindE (path_param c ''system_name'' systemName) (\<lambda>p0.
     bindE (operation_url c (''/filesystem/'' @ p0 @ ''/ops/ls'')) (\<lambda>queryURL.
     bindE (with_query queryURL params (\<lambda>ps. concatE
       [required_frag c ''path'' (PString (GetLs_Path ps)),
        optional_frag c ''showHidden'' (map_option PBool (GetLs_ShowHidden ps)),
        optional_frag c ''numericUid'' (map_option PBool (GetLs_NumericUid ps)),
        optional_frag c ''recursive'' (map_option PBool (GetLs_Recursive ps)),
        optional_frag c ''dereference'' (map_option PBool (GetLs_Dereference ps))])) (\<lambda>queryURL.
     new_request c ''GET'' queryURL [])))"

definition ParseGetLsFilesystemSystemNameOpsLsGetResponse ::
  "api_decoders \<Rightarrow> http_reply \<Rightarrow> GetDirectoryLsResponse op_response result" where
  "ParseGetLsFilesystemSystemNameOpsLsGetResponse d = parse_reply d 200 (Some (unmarshal decode_GetDirectoryLsResponse))"

definition GetLsFilesystemSystemNameOpsLsGet ::
  "'s Client \<Rightarrow> string \<Rightarrow> GetLsFilesystemSystemNameOpsLsGetParams option \<Rightarrow> ('s, http_reply) action" where
  "GetLsFilesystemSystemNameOpsLsGet c systemName params = client_send c (NewGetLsFilesystemSystemNameOpsLsGetRequest c systemName params)"

definition GetLsFilesystemSystemNameOpsLsGetWithResponse ::
  "'s Client \<Rightarrow> string \<Rightarrow> GetLsFilesystemSystemNameOpsLsGetParams option \<Rightarrow> ('s, GetDirectoryLsResponse op_response) action" where
  "GetLsFilesystemSystemNameOpsLsGetWithResponse c systemName params = with_response ParseGetLsFilesystemSystemNameOpsLsGetResponse c (GetLsFilesystemSystemNameOpsLsGet c systemName params)"

definition PostMkdirFilesystemSystemNameOpsMkdirPostWithBody ::
  "'s Client \<Rightarrow> string \<Rightarrow> string \<Rightarrow> string \<Rightarrow> ('s, http_reply) action" where
  "PostMkdirFilesystemSystemNameOpsMkdirPostWithBody c systemName contentType body = client_send c (NewPostMkdirFilesystemSystemNameOpsMkdirPostRequestWithBody c systemName contentType body)"

definition PostMkdirFilesystemSystemNameOpsMkdirPostWithBodyWithResponse ::
  "'s Client \<Rightarrow> string \<Rightarrow> string \<Rightarrow> string \<Rightarrow> ('s, unit op_response) action" where
  "PostMkdirFilesystemSystemNameOpsMkdirPostWithBodyWithResponse c systemName contentType body = with_response ParsePostMkdirFilesystemSystemNameOpsMkdirPostResponse c (PostMkdirFilesystemSystemNameOpsMkdirPostWithBody c systemName contentType body)"

record DeleteRmFilesystemSystemNameOpsRmDeleteParams =
  DeleteRmOps_Path :: string

definition NewDeleteRmFilesystemSystemNameOpsRmDeleteRequest ::
  "'s Client \<Rightarrow> string \<Rightarrow> DeleteRmFilesystemSystemNameOpsRmDeleteParams option \<Rightarrow> http_request result" where
  "NewDeleteRmFilesystemSystemNameOpsRmDeleteRequest c systemName params =
     bindE (path_param c ''system_name'' systemName) (\<lambda>p0.
     bindE (operation_url c (''/filesystem/'' @ p0 @ ''/ops/rm'')) (\<lambda>queryURL.
     bindE (with_query queryURL params (\<lambda>ps. concatE
       [required_frag c ''path'' (PString (DeleteRmOps_Path ps))])) (\<lambda>queryURL.
     new_request c ''DELETE'' queryURL [])))"

definition ParseDeleteRmFilesystemSystemNameOpsRmDeleteResponse ::
  "api_decoders \<Rightarrow> http_reply \<Rightarrow> unit op_response result" where
  "ParseDeleteRmFilesystemSystemNameOpsRmDeleteResponse d = parse_reply d 204 None"

definition DeleteRmFilesystemSystemNameOpsRmDelete ::
  "'s Client \<Rightarrow> string \<Rightarrow> DeleteRmFilesystemSystemNameOpsRmDeleteParams option \<Rightarrow> ('s, http_reply) action" where
  "DeleteRmFilesystemSystemNameOpsRmDelete c systemName params = client_send c (NewDeleteRmFilesystemSystemNameOpsRmDeleteRequest c systemName params)"

definition DeleteRmFilesystemSystemNameOpsRmDeleteWithResponse ::
  "'s Client \<Rightarrow> string \<Rightarrow> DeleteRmFilesystemSystemNameOpsRmDeleteParams option \<Rightarrow> ('s, unit op_response) action" where
  "DeleteRmFilesystemSystemNameOpsRmDeleteWithResponse c systemName params = with_response ParseDeleteRmFilesystemSystemNameOpsRmDeleteResponse c (DeleteRmFilesystemSystemNameOpsRmDelete c systemName params)"

record GetStatFilesystemSystemNameOpsStatGetParams =
  GetStat_Path :: string
  GetStat_Dereference :: "bool option"

definition NewGetStatFilesystemSystemNameOpsStatGetRequest ::
  "'s Client \<Rightarrow> string \<Rightarrow> GetStatFilesystemSystemNameOpsStatGetParams option \<Rightarrow> http_request result" where
  "NewGetStatFilesystemSystemNameOpsStatGetRequest c systemName params =
     bindE (path_param c ''system_name'' systemName) (\<lambda>p0.
     bindE (operation_url c (''/filesystem/'' @ p0 @ ''/ops/stat'')) (\<lambda>queryURL.
     bindE (with_query queryURL params (\<lambda>ps. concatE
       [required_frag c ''path'' (PString (GetStat_Path ps)),
        optional_frag c ''dereference'' (map_option PBool (GetStat_Dereference ps))])) (\<lambda>queryURL.
     new_request c ''GET'' queryURL [])))"

definition ParseGetStatFilesystemSystemNameOpsStatGetResponse ::
  "api_decoders \<Rightarrow> http_reply \<Rightarrow> GetFileStatResponse op_response result" where
  "ParseGetStatFilesystemSystemNameOpsStatGetResponse d = parse_reply d 200 (Some (unmarshal decode_GetFileStatResponse))"

definition GetStatFilesystemSystemNameOpsStatGet ::
  "'s Client \<Rightarrow> string \<Rightarrow> GetStatFilesystemSystemNameOpsStatGetParams option \<Rightarrow> ('s, http_reply) action" where
  "GetStatFilesystemSystemNameOpsStatGet c systemName params = client_send c (NewGetStatFilesystemSystemNameOpsStatGetRequest c systemName params)"

definition GetStatFilesystemSystemNameOpsStatGetWithResponse ::
  "'s Client \<Rightarrow> string \<Rightarrow> GetStatFilesystemSystemNameOpsStatGetParams option \<Rightarrow> ('s, GetFileStatResponse op_response) action" where
  "GetStatFilesystemSystemNameOpsStatGetWithResponse c systemName params = with_response ParseGetStatFilesystemSystemNameOpsStatGetResponse c (GetStatFilesystemSystemNameOpsStatGet c systemName params)"

definition NewPostSymlinkFilesystemSystemNameOpsSymlinkPostRequestWithBody ::
  "'s Client \<Rightarrow> string \<Rightarrow> string \<Rightarrow> string \<Rightarrow> http_request result" where
  "NewPostSymlinkFilesystemSystemNameOpsSymlinkPostRequestWithBody c systemName contentType body =
     bindE (path_param c ''system_name'' systemName) (\<lambda>p0.
     bindE (operation_url c (''/filesystem/'' @ p0 @ ''/ops/symlink'')) (\<lambda>queryURL.
     bindE (new_request c ''POST'' queryURL body) (\<lambda>req.
     Inr (Header_Set ''Content-Type'' contentType req))))"

definition NewPostSymlinkFilesystemSystemNameOpsSymlinkPostRequest ::
  "'s Client \<Rightarrow> string \<Rightarrow> PostFileSymlinkRequest \<Rightarrow> http_request result" where
  "NewPostSymlinkFilesystemSystemNameOpsSymlinkPostRequest c systemName body =
     NewPostSymlinkFilesystemSystemNameOpsSymlinkPostRequestWithBody c systemName ''application/json''
       (json_Marshal (encode_PostFileSymlinkRequest body))"

definition ParsePostSymlinkFilesystemSystemNameOpsSymlinkPostResponse ::
  "api_decoders \<Rightarrow> http_reply \<Rightarrow> PostFileSymlinkResponse op_response result" where
  "ParsePostSymlinkFilesystemSystemNameOpsSymlinkPostResponse d = parse_reply d 201 (Some (unmarshal decode_PostFileSymlinkResponse))"

definition PostSymlinkFilesystemSystemNameOpsSymlinkPostWithBody ::
  "'s Client \<Rightarrow> string \<Rightarrow> string \<Rightarrow> string \<Rightarrow> ('s, http_reply) action" where
  "PostSymlinkFilesystemSystemNameOpsSymlinkPostWithBody c systemName contentType body = client_send c (NewPostSymlinkFilesystemSystemNameOpsSymlinkPostRequestWithBody c systemName contentType body)"

definition PostSymlinkFilesystemSystemNameOpsSymlinkPostWithBodyWithResponse ::
  "'s Client \<Rightarrow> string \<Rightarrow> string \<Rightarrow> string \<Rightarrow> ('s, PostFileSymlinkResponse op_response) action" where
  "PostSymlinkFilesystemSystemNameOpsSymlinkPostWithBodyWithResponse c systemName contentType body = with_response ParsePostSymlinkFilesystemSystemNameOpsSymlinkPostResponse c (PostSymlinkFilesystemSystemNameOpsSymlinkPostWithBody c systemName contentType body)"

definition PostSymlinkFilesystemSystemNameOpsSymlinkPost ::
  "'s Client \<Rightarrow> string \<Rightarrow> PostFileSymlinkRequest \<Rightarrow> ('s, http_reply) action" where
  "PostSymlinkFilesystemSystemNameOpsSymlinkPost c systemName body = client_send c (NewPostSymlinkFilesystemSystemNameOpsSymlinkPostRequest c systemName body)"

definition PostSymlinkFilesystemSystemNameOpsSymlinkPostWithResponse ::
  "'s Client \<Rightarrow> string \<Rightarrow> PostFileSymlinkRequest \<Rightarrow> ('s, PostFileSymlinkResponse op_response) action" where
  "PostSymlinkFilesystemSystemNameOpsSymlinkPostWithResponse c systemName body = with_response ParsePostSymlinkFilesystemSystemNameOpsSymlinkPostResponse c (PostSymlinkFilesystemSystemNameOpsSymlinkPost c systemName body)"

record GetTailFilesystemSystemNameOpsTailGetParams =
  GetTail_Path :: string
  GetTail_Bytes :: "int option"
  GetTail_Lines :: "int option"
  GetTail_SkipHeading :: "bool option"

definition NewGetTailFilesystemSystemNameOpsTailGetRequest ::
  "'s Client \<Rightarrow> string \<Rightarrow> GetTailFilesystemSystemNameOpsTailGetParams option \<Rightarrow> http_request result" where
  "NewGetTailFilesystemSystemNameOpsTailGetRequest c systemName params =
     bindE (path_param c ''system_name'' systemName) (\<lambda>p0.
     bindE (operation_url c (''/filesystem/'' @ p0 @ ''/ops/tail'')) (\<lambda>queryURL.
     bindE (with_query queryURL params (\<lambda>ps. concatE
       [required_frag c ''path'' (PString (GetTail_Path ps)),
        optional_frag c ''bytes'' (map_option PInt (GetTail_Bytes ps)),
        optional_frag c ''lines'' (map_option PInt (GetTail_Lines ps)),
        optional_frag c ''skipHeading'' (map_option PBool (GetTail_SkipHeading ps))])) (\<lambda>queryURL.
     new_request c ''GET'' queryURL [])))"

definition ParseGetTailFilesystemSystemNameOpsTailGetResponse ::
  "api_decoders \<Rightarrow> http_reply \<Rightarrow> GetFileTailResponse op_response result" where
  "ParseGetTailFilesystemSystemNameOpsTailGetResponse d = parse_reply d 200 (Some (unmarshal decode_GetFileTailResponse))"

definition GetTailFilesystemSystemNameOpsTailGet ::
  "'s Client \<Rightarrow> string \<Rightarrow> GetTailFilesystemSystemNameOpsTailGetParams option \<Rightarrow> ('s, http_reply) action" where
  "GetTailFilesystemSystemNameOpsTailGet c systemName params = client_send c (NewGetTailFilesystemSystemNameOpsTailGetRequest c systemName params)"

definition GetTailFilesystemSystemNameOpsTailGetWithResponse ::
  "'s Client \<Rightarrow> string \<Rightarrow> GetTailFilesystemSystemNameOpsTailGetParams option \<Rightarrow> ('s, GetFileTailResponse op_response) action" where
  "GetTailFilesystemSystemNameOpsTailGetWithResponse c systemName params = with_response ParseGetTailFilesystemSystemNameOpsTailGetResponse c (GetTailFilesystemSystemNameOpsTailGet c systemName params)"

section \<open>Transfers of files\<close>

definition NewCompressFilesystemSystemNameTransferCompressPostRequestWithBody ::
  "'s Client \<Rightarrow> string \<Rightarrow> string \<Rightarrow> string \<Rightarrow> http_request result" where
  "NewCompressFilesystemSystemNameTransferCompressPostRequestWithBody c systemName contentType body =
     bindE (path_param c ''system_name'' systemName) (\<lambda>p0.
     bindE (operation_url c (''/filesystem/'' @ p0 @ ''/transfer/compress'')) (\<lambda>queryURL.
     bindE (new_request c ''POST'' queryURL body) (\<lambda>req.
     Inr (Header_Set ''Content-Type'' contentType req))))"

definition NewCompressFilesystemSystemNameTransferCompressPostRequest ::
  "'s Client \<Rightarrow> string \<Rightarrow> CompressRequest \<Rightarrow> http_request result" where
  "NewCompressFilesystemSystemNameTransferCompressPostRequest c systemName body =
     NewCompressFilesystemSystemNameTransferCompressPostRequestWithBody c systemName ''application/json''
       (json_Marshal (encode_CompressRequest body))"

definition ParseCompressFilesystemSystemNameTransferCompressPostResponse ::
  "api_decoders \<Rightarrow> http_reply \<Rightarrow> CompressResponse op_response result" where
  "ParseCompressFilesystemSystemNameTransferCompressPostResponse d = parse_reply d 201 (Some (unmarshal decode_CompressResponse))"

definition CompressFilesystemSystemNameTransferCompressPostWithBody ::
  "'s Client \<Rightarrow> string \<Rightarrow> string \<Rightarrow> string \<Rightarrow> ('s, http_reply) action" where
  "CompressFilesystemSystemNameTransferCompressPostWithBody c systemName contentType body = client_send c (NewCompressFilesystemSystemNameTransferCompressPostRequestWithBody c systemName contentType body)"

definition CompressFilesystemSystemNameTransferCompressPostWithBodyWithResponse ::
  "'s Client \<Rightarrow> string \<Rightarrow> string \<Rightarrow> string \<Rightarrow> ('s, CompressResponse op_response) action" where
  "CompressFilesystemSystemNameTransferCompressPostWithBodyWithResponse c systemName contentType body = with_response ParseCompressFilesystemSystemNameTransferCompressPostResponse c (CompressFilesystemSystemNameTransferCompressPostWithBody c systemName contentType body)"

definition CompressFilesystemSystemNameTransferCompressPost ::
  "'s Client \<Rightarrow> string \<Rightarrow> CompressRequest \<Rightarrow> ('s, http_reply) action" where
  "CompressFilesystemSystemNameTransferCompressPost c systemName body = client_send c (NewCompressFilesystemSystemNameTransferCompressPostRequest c systemName body)"

definition CompressFilesystemSystemNameTransferCompressPostWithResponse ::
  "'s Client \<Rightarrow> string \<Rightarrow> CompressRequest \<Rightarrow> ('s, CompressResponse op_response) action" where
  "CompressFilesystemSystemNameTransferCompressPostWithResponse c systemName body = with_response ParseCompressFilesystemSystemNameTransferCompressPostResponse c (CompressFilesystemSystemNameTransferCompressPost c systemName body)"

definition NewPostCpFilesystemSystemNameTransferCpPostRequestWithBody ::
  "'s Client \<Rightarrow> string \<Rightarrow> string \<Rightarrow> string \<Rightarrow> http_request result" where
  "NewPostCpFilesystemSystemNameTransferCpPostRequestWithBody c systemName contentType body =
     bindE (path_param c ''system_name'' systemName) (\<lambda>p0.
     bindE (operation_url c (''/filesystem/'' @ p0 @ ''/transfer/cp'')) (\<lambda>queryURL.
     bindE (new_request c ''POST'' queryURL body) (\<lambda>req.
     Inr (Header_Set ''Content-Type'' contentType req))))"

definition NewPostCpFilesystemSystemNameTransferCpPostRequest ::
  "'s Client \<Rightarrow> string \<Rightarrow> CopyRequest \<Rightarrow> http_request result" where
  "NewPostCpFilesystemSystemNameTransferCpPostRequest c systemName body =
     NewPostCpFilesystemSystemNameTransferCpPostRequestWithBody c systemName ''application/json''
       (json_Marshal (encode_CopyRequest body))"

definition ParsePostCpFilesystemSystemNameTransferCpPostResponse ::
  "api_decoders \<Rightarrow> http_reply \<Rightarrow> CopyResponse op_response result" where
  "ParsePostCpFilesystemSystemNameTransferCpPostResponse d = parse_reply d 201 (Some (unmarshal decode_CopyResponse))"

definition PostCpFilesystemSystemNameTransferCpPostWithBody ::
  "'s Client \<Rightarrow> string \<Rightarrow> string \<Rightarrow> string \<Rightarrow> ('s, http_reply) action" where
  "PostCpFilesystemSystemNameTransferCpPostWithBody c systemName contentType body = client_send c (NewPostCpFilesystemSystemNameTransferCpPostRequestWithBody c systemName contentType body)"

definition PostCpFilesystemSystemNameTransferCpPostWithBodyWithResponse ::
  "'s Client \<Rightarrow> string \<Rightarrow> string \<Rightarrow> string \<Rightarrow> ('s, CopyResponse op_response) action" where
  "PostCpFilesystemSystemNameTransferCpPostWithBodyWithResponse c systemName contentType body = with_response ParsePostCpFilesystemSystemNameTransferCpPostResponse c (PostCpFilesystemSystemNameTransferCpPostWithBody c systemName contentType body)"

definition PostCpFilesystemSystemNameTransferCpPost ::
  "'s Client \<Rightarrow> string \<Rightarrow> CopyRequest \<Rightarrow> ('s, http_reply) action" where
  "PostCpFilesystemSystemNameTransferCpPost c systemName body = client_send c (NewPostCpFilesystemSystemNameTransferCpPostRequest c systemName body)"

definition PostCpFilesystemSystemNameTransferCpPostWithResponse ::
  "'s Client \<Rightarrow> string \<Rightarrow> CopyRequest \<Rightarrow> ('s, CopyResponse op_response) action" where
  "PostCpFilesystemSystemNameTransferCpPostWithResponse c systemName body = with_response ParsePostCpFilesystemSystemNameTransferCpPostResponse c (PostCpFilesystemSystemNameTransferCpPost c systemName body)"

definition NewPostDownloadFilesystemSystemNameTransferDownloadPostRequestWithBody ::
  "'s Client \<Rightarrow> string \<Rightarrow> string \<Rightarrow> string \<Rightarrow> http_request result" where
  "NewPostDownloadFilesystemSystemNameTransferDownloadPostRequestWithBody c systemName contentType body =
     bindE (path_param c ''system_name'' systemName) (\<lambda>p0.
     bindE (operation_url c (''/filesystem/'' @ p0 @ ''/transfer/download'')) (\<lambda>queryURL.
     bindE (new_request c ''POST'' queryURL body) (\<lambda>req.
     Inr (Header_Set ''Content-Type'' contentType req))))"

definition NewPostDownloadFilesystemSystemNameTransferDownloadPostRequest ::
  "'s Client \<Rightarrow> string \<Rightarrow> PostFileDownloadRequest \<Rightarrow> http_request result" where
  "NewPostDownloadFilesystemSystemNameTransferDownloadPostRequest c systemName body =
     NewPostDownloadFilesystemSystemNameTransferDownloadPostRequestWithBody c systemName ''application/json''
       (json_Marshal (encode_PostFileDownloadRequest body))"

definition ParsePostDownloadFilesystemSystemNameTransferDownloadPostResponse ::
  "api_decoders \<Rightarrow> http_reply \<Rightarrow> DownloadFileResponse op_response result" where
  "ParsePostDownloadFilesystemSystemNameTransferDownloadPostResponse d = parse_reply d 201 (Some (unmarshal decode_DownloadFileResponse))"

definition PostDownloadFilesystemSystemNameTransferDownloadPostWithBody ::
  "'s Client \<Rightarrow> string \<Rightarrow> string \<Rightarrow> string \<Rightarrow> ('s, http_reply) action" where
  "PostDownloadFilesystemSystemNameTransferDownloadPostWithBody c systemName contentType body = client_send c (NewPostDownloadFilesystemSystemNameTransferDownloadPostRequestWithBody c systemName contentType body)"

definition PostDownloadFilesystemSystemNameTransferDownloadPostWithBodyWithResponse ::
  "'s Client \<Rightarrow> string \<Rightarrow> string \<Rightarrow> string \<Rightarrow> ('s, DownloadFileResponse op_response) action" where
  "PostDownloadFilesystemSystemNameTransferDownloadPostWithBodyWithResponse c systemName contentType body = with_response ParsePostDownloadFilesystemSystemNameTransferDownloadPostResponse c (PostDownloadFilesystemSystemNameTransferDownloadPostWithBody c systemName contentType body)"

definition PostDownloadFilesystemSystemNameTransferDownloadPost ::
  "'s Client \<Rightarrow> string \<Rightarrow> PostFileDownloadRequest \<Rightarrow> ('s, http_reply) action" where
  "PostDownloadFilesystemSystemNameTransferDownloadPost c systemName body = client_send c (NewPostDownloadFilesystemSystemNameTransferDownloadPostRequest c systemName body)"

definition PostDownloadFilesystemSystemNameTransferDownloadPostWithResponse ::
  "'s Client \<Rightarrow> string \<Rightarrow> PostFileDownloadRequest \<Rightarrow> ('s, DownloadFileResponse op_response) action" where
  "PostDownloadFilesystemSystemNameTransferDownloadPostWithResponse c systemName body = with_response ParsePostDownloadFilesystemSystemNameTransferDownloadPostResponse c (PostDownloadFilesystemSystemNameTransferDownloadPost c systemName body)"

definition NewExtractFilesystemSystemNameTransferExtractPostRequestWithBody ::
  "'s Client \<Rightarrow> string \<Rightarrow> string \<Rightarrow> string \<Rightarrow> http_request result" where
  "NewExtractFilesystemSystemNameTransferExtractPostRequestWithBody c systemName contentType body =
     bindE (path_param c ''system_name'' systemName) (\<lambda>p0.
     bindE (operation_url c (''/filesystem/'' @ p0 @ ''/transfer/extract'')) (\<lambda>queryURL.
     bindE (new_request c ''POST'' queryURL body) (\<lambda>req.
     Inr (Header_Set ''Content-Type'' contentType req))))"

definition NewExtractFilesystemSystemNameTransferExtractPostRequest ::
  "'s Client \<Rightarrow> string \<Rightarrow> ExtractRequest \<Rightarrow> http_request result" where
  "NewExtractFilesystemSystemNameTransferExtractPostRequest c systemName body =
     NewExtractFilesystemSystemNameTransferExtractPostRequestWithBody c systemName ''application/json''
       (json_Marshal (encode_ExtractRequest body))"

definition ParseExtractFilesystemSystemNameTransferExtractPostResponse ::
  "api_decoders \<Rightarrow> http_reply \<Rightarrow> ExtractResponse op_response result" where
  "ParseExtractFilesystemSystemNameTransferExtractPostResponse d = parse_reply d 201 (Some (unmarshal decode_ExtractResponse))"

definition ExtractFilesystemSystemNameTransferExtractPostWithBody ::
  "'s Client \<Rightarrow> string \<Rightarrow> string \<Rightarrow> string \<Rightarrow> ('s, http_reply) action" where
  "ExtractFilesystemSystemNameTransferExtractPostWithBody c systemName contentType body = client_send c (NewExtractFilesystemSystemNameTransferExtractPostRequestWithBody c systemName contentType body)"

definition ExtractFilesystemSystemNameTransferExtractPostWithBodyWithResponse ::
  "'s Client \<Rightarrow> string \<Rightarrow> string \<Rightarrow> string \<Rightarrow> ('s, ExtractResponse op_response) action" where
  "ExtractFilesystemSystemNameTransferExtractPostWithBodyWithResponse c systemName contentType body = with_response ParseExtractFilesystemSystemNameTransferExtractPostResponse c (ExtractFilesystemSystemNameTransferExtractPostWithBody c systemName contentType body)"

definition ExtractFilesystemSystemNameTransferExtractPost ::
  "'s Client \<Rightarrow> string \<Rightarrow> ExtractRequest \<Rightarrow> ('s, http_reply) action" where
  "ExtractFilesystemSystemNameTransferExtractPost c systemName body = client_send c (NewExtractFilesystemSystemNameTransferExtractPostRequest c systemName body)"

definition ExtractFilesystemSystemNameTransferExtractPostWithResponse ::
  "'s Client \<Rightarrow> string \<Rightarrow> ExtractRequest \<Rightarrow> ('s, ExtractResponse op_response) action" where
  "ExtractFilesystemSystemNameTransferExtractPostWithResponse c systemName body = with_response ParseExtractFilesystemSystemNameTransferExtractPostResponse c (ExtractFilesystemSystemNameTransferExtractPost c systemName body)"

definition NewMoveMvFilesystemSystemNameTransferMvPostRequestWithBody ::
  "'s Client \<Rightarrow> string \<Rightarrow> string \<Rightarrow> string \<Rightarrow> http_request result" where
  "NewMoveMvFilesystemSystemNameTransferMvPostRequestWithBody c systemName contentType body =
     bindE (path_param c ''system_name'' systemName) (\<lambda>p0.
     bindE (operation_url c (''/filesystem/'' @ p0 @ ''/transfer/mv'')) (\<lambda>queryURL.
     bindE (new_request c ''POST'' queryURL body) (\<lambda>req.
     Inr (Header_Set ''Content-Type'' contentType req))))"

definition NewMoveMvFilesystemSystemNameTransferMvPostRequest ::
  "'s Client \<Rightarrow> string \<Rightarrow> MoveRequest \<Rightarrow> http_request result" where
  "NewMoveMvFilesystemSystemNameTransferMvPostRequest c systemName body =
     NewMoveMvFilesystemSystemNameTransferMvPostRequestWithBody c systemName ''application/json''
       (json_Marshal (encode_MoveRequest body))"

definition ParseMoveMvFilesystemSystemNameTransferMvPostResponse ::
  "api_decoders \<Rightarrow> http_reply \<Rightarrow> MoveResponse op_response result" where
  "ParseMoveMvFilesystemSystemNameTransferMvPostResponse d = parse_reply d 201 (Some (unmarshal decode_MoveResponse))"

definition MoveMvFilesystemSystemNameTransferMvPostWithBody ::
  "'s Client \<Rightarrow> string \<Rightarrow> string \<Rightarrow> string \<Rightarrow> ('s, http_reply) action" where
  "MoveMvFilesystemSystemNameTransferMvPostWithBody c systemName contentType body = client_send c (NewMoveMvFilesystemSystemNameTransferMvPostRequestWithBody c systemName contentType body)"

definition MoveMvFilesystemSystemNameTransferMvPostWithBodyWithResponse ::
  "'s Client \<Rightarrow> string \<Rightarrow> string \<Rightarrow> string \<Rightarrow> ('s, MoveResponse op_response) action" where
  "MoveMvFilesystemSystemNameTransferMvPostWithBodyWithResponse c systemName contentType body = with_response ParseMoveMvFilesystemSystemNameTransferMvPostResponse c (MoveMvFilesystemSystemNameTransferMvPostWithBody c systemName contentType body)"

definition MoveMvFilesystemSystemNameTransferMvPost ::
  "'s Client \<Rightarrow> string \<Rightarrow> MoveRequest \<Rightarrow> ('s, http_reply) action" where
  "MoveMvFilesystemSystemNameTransferMvPost c systemName body = client_send c (NewMoveMvFilesystemSystemNameTransferMvPostRequest c systemName body)"

definition MoveMvFilesystemSystemNameTransferMvPostWithResponse ::
  "'s Client \<Rightarrow> string \<Rightarrow> MoveRequest \<Rightarrow> ('s, MoveResponse op_response) action" where
  "MoveMvFilesystemSystemNameTransferMvPostWithResponse c systemName body = with_response ParseMoveMvFilesystemSystemNameTransferMvPostResponse c (MoveMvFilesystemSystemNameTransferMvPost c systemName body)"

record DeleteRmFilesystemSystemNameTransferRmDeleteParams =
  DeleteRmTransfer_Path :: string
  DeleteRmTransfer_Account :: "string option"

definition NewDeleteRmFilesystemSystemNameTransferRmDeleteRequest ::
  "'s Client \<Rightarrow> string \<Rightarrow> DeleteRmFilesystemSystemNameTransferRmDeleteParams option \<Rightarrow> http_request result" where
  "NewDeleteRmFilesystemSystemNameTransferRmDeleteRequest c systemName params =
     bindE (path_param c ''system_name'' systemName) (\<lambda>p0.
     bindE (operation_url c (''/filesystem/'' @ p0 @ ''/transfer/rm'')) (\<lambda>queryURL.
     bindE (with_query queryURL params (\<lambda>ps. concatE
       [required_frag c ''path'' (PString (DeleteRmTransfer_Path ps)),
        optional_frag c ''account'' (map_option PString (DeleteRmTransfer_Account ps))])) (\<lambda>queryURL.
     new_request c ''DELETE'' queryURL [])))"

definition ParseDeleteRmFilesystemSystemNameTransferRmDeleteResponse ::
  "api_decoders \<Rightarrow> http_reply \<Rightarrow> DeleteResponse op_response result" where
  "ParseDeleteRmFilesystemSystemNameTransferRmDeleteResponse d = parse_reply d 200 (Some (unmarshal decode_DeleteResponse))"

definition DeleteRmFilesystemSystemNameTransferRmDelete ::
  "'s Client \<Rightarrow> string \<Rightarrow> DeleteRmFilesystemSystemNameTransferRmDeleteParams option \<Rightarrow> ('s, http_reply) action" where
  "DeleteRmFilesystemSystemNameTransferRmDelete c systemName params = client_send c (NewDeleteRmFilesystemSystemNameTransferRmDeleteRequest c systemName params)"

definition DeleteRmFilesystemSystemNameTransferRmDeleteWithResponse ::
  "'s Client \<Rightarrow> string \<Rightarrow> DeleteRmFilesystemSystemNameTransferRmDeleteParams option \<Rightarrow> ('s, DeleteResponse op_response) action" where
  "DeleteRmFilesystemSystemNameTransferRmDeleteWithResponse c systemName params = with_response ParseDeleteRmFilesystemSystemNameTransferRmDeleteResponse c (DeleteRmFilesystemSystemNameTransferRmDelete c systemName params)"

definition NewPostUploadFilesystemSystemNameTransferUploadPostRequestWithBody ::
  "'s Client \<Rightarrow> string \<Rightarrow> string \<Rightarrow> string \<Rightarrow> http_request result" where
  "NewPostUploadFilesystemSystemNameTransferUploadPostRequestWithBody c systemName contentType body =
     bindE (path_param c ''system_name'' systemName) (\<lambda>p0.
     bindE (operation_url c (''/filesystem/'' @ p0 @ ''/transfer/upload'')) (\<lambda>queryURL.
     bindE (new_request c ''POST'' queryURL body) (\<lambda>req.
     Inr (Header_Set ''Content-Type'' contentType req))))"

definition NewPostUploadFilesystemSystemNameTransferUploadPostRequest ::
  "'s Client \<Rightarrow> string \<Rightarrow> PostFileUploadRequest \<Rightarrow> http_request result" where
  "NewPostUploadFilesystemSystemNameTransferUploadPostRequest c systemName body =
     NewPostUploadFilesystemSystemNameTransferUploadPostRequestWithBody c systemName ''application/json''
       (json_Marshal (encode_PostFileUploadRequest body))"

definition ParsePostUploadFilesystemSystemNameTransferUploadPostResponse ::
  "api_decoders \<Rightarrow> http_reply \<Rightarrow> UploadFileResponse op_response result" where
  "ParsePostUploadFilesystemSystemNameTransferUploadPostResponse d = parse_reply d 201 (Some (unmarshal decode_UploadFileResponse))"

definition PostUploadFilesystemSystemNameTransferUploadPostWithBody ::
  "'s Client \<Rightarrow> string \<Rightarrow> string \<Rightarrow> string \<Rightarrow> ('s, http_reply) action" where
  "PostUploadFilesystemSystemNameTransferUploadPostWithBody c systemName contentType body = client_send c (NewPostUploadFilesystemSystemNameTransferUploadPostRequestWithBody c systemName contentType body)"

definition PostUploadFilesystemSystemNameTransferUploadPostWithBodyWithResponse ::
  "'s Client \<Rightarrow> string \<Rightarrow> string \<Rightarrow> string \<Rightarrow> ('s, UploadFileResponse op_response) action" where
  "PostUploadFilesystemSystemNameTransferUploadPostWithBodyWithResponse c systemName contentType body = with_response ParsePostUploadFilesystemSystemNameTransferUploadPostResponse c (PostUploadFilesystemSystemNameTransferUploadPostWithBody c systemName contentType body)"

definition PostUploadFilesystemSystemNameTransferUploadPost ::
  "'s Client \<Rightarrow> string \<Rightarrow> PostFileUploadRequest \<Rightarrow> ('s, http_reply) action" where
  "PostUploadFilesystemSystemNameTransferUploadPost c systemName body = client_send c (NewPostUploadFilesystemSystemNameTransferUploadPostRequest c systemName body)"

definition PostUploadFilesystemSystemNameTransferUploadPostWithResponse ::
  "'s Client \<Rightarrow> string \<Rightarrow> PostFileUploadRequest \<Rightarrow> ('s, UploadFileResponse op_response) action" where
  "PostUploadFilesystemSystemNameTransferUploadPostWithResponse c systemName body = with_response ParsePostUploadFilesystemSystemNameTransferUploadPostResponse c (PostUploadFilesystemSystemNameTransferUploadPost c systemName body)"

section \<open>Status of a system\<close>

definition NewGetLivenessStatusLivenessGetRequest ::
  "'s Client \<Rightarrow> http_request result" where
  "NewGetLivenessStatusLivenessGetRequest c  =
     bindE (operation_url c ''/status/liveness/'') (\<lambda>queryURL.
     new_request c ''GET'' queryURL [])"

definition ParseGetLivenessStatusLivenessGetResponse ::
  "api_decoders \<Rightarrow> http_reply \<Rightarrow> GetLiveness op_response result" where
  "ParseGetLivenessStatusLivenessGetResponse d = parse_reply d 200 (Some (unmarshal (decode_GetLiveness (dec_Time d))))"

definition GetLivenessStatusLivenessGet ::
  "'s Client \<Rightarrow> ('s, http_reply) action" where
  "GetLivenessStatusLivenessGet c = client_send c (NewGetLivenessStatusLivenessGetRequest c)"

definition GetLivenessStatusLivenessGetWithResponse ::
  "'s Client \<Rightarrow> ('s, GetLiveness op_response) action" where
  "GetLivenessStatusLivenessGetWithResponse c = with_response ParseGetLivenessStatusLivenessGetResponse c (GetLivenessStatusLivenessGet c)"

definition NewGetSystemNodesStatusSystemNameNodesGetRequest ::
  "'s Client \<Rightarrow> string \<Rightarrow> http_request result" where
  "NewGetSystemNodesStatusSystemNameNodesGetRequest c systemName =
     bindE (path_param c ''system_name'' systemName) (\<lambda>p0.
     bindE (operation_url c (''/status/'' @ p0 @ ''/nodes'')) (\<lambda>queryURL.
     new_request c ''GET'' queryURL []))"

definition ParseGetSystemNodesStatusSystemNameNodesGetResponse ::
  "api_decoders \<Rightarrow> http_reply \<Rightarrow> GetNodesResponse op_response result" where
  "ParseGetSystemNodesStatusSystemNameNodesGetResponse d = parse_reply d 200 (Some (unmarshal decode_GetNodesResponse))"

definition GetSystemNodesStatusSystemNameNodesGet ::
  "'s Client \<Rightarrow> string \<Rightarrow> ('s, http_reply) action" where
  "GetSystemNodesStatusSystemNameNodesGet c systemName = client_send c (NewGetSystemNodesStatusSystemNameNodesGetRequest c systemName)"

definition GetSystemNodesStatusSystemNameNodesGetWithResponse ::
  "'s Client \<Rightarrow> string \<Rightarrow> ('s, GetNodesResponse op_response) action" where
  "GetSystemNodesStatusSystemNameNodesGetWithResponse c systemName = with_response ParseGetSystemNodesStatusSystemNameNodesGetResponse c (GetSystemNodesStatusSystemNameNodesGet c systemName)"

definition NewGetSystemPartitionsStatusSystemNamePartitionsGetRequest ::
  "'s Client \<Rightarrow> string \<Rightarrow> http_request result" where
  "NewGetSystemPartitionsStatusSystemNamePartitionsGetRequest c systemName =
     bindE (path_param c ''system_name'' systemName) (\<lambda>p0.
     bindE (operation_url c (''/status/'' @ p0 @ ''/partitions'')) (\<lambda>queryURL.
     new_request c ''GET'' queryURL []))"

definition ParseGetSystemPartitionsStatusSystemNamePartitionsGetResponse ::
  "api_decoders \<Rightarrow> http_reply \<Rightarrow> GetPartitionsResponse op_response result" where
  "ParseGetSystemPartitionsStatusSystemNamePartitionsGetResponse d = parse_reply d 200 (Some (unmarshal decode_GetPartitionsResponse))"

definition GetSystemPartitionsStatusSystemNamePartitionsGet ::
  "'s Client \<Rightarrow> string \<Rightarrow> ('s, http_reply) action" where
  "GetSystemPartitionsStatusSystemNamePartitionsGet c systemName = client_send c (NewGetSystemPartitionsStatusSystemNamePartitionsGetRequest c systemName)"

definition GetSystemPartitionsStatusSystemNamePartitionsGetWithResponse ::
  "'s Client \<Rightarrow> string \<Rightarrow> ('s, GetPartitionsResponse op_response) action" where
  "GetSystemPartitionsStatusSystemNamePartitionsGetWithResponse c systemName = with_response ParseGetSystemPartitionsStatusSystemNamePartitionsGetResponse c (GetSystemPartitionsStatusSystemNamePartitionsGet c systemName)"

definition NewGetSystemReservationsStatusSystemNameReservationsGetRequest ::
  "'s Client \<Rightarrow> string \<Rightarrow> http_request result" where
  "NewGetSystemReservationsStatusSystemNameReservationsGetRequest c systemName =
     bindE (path_param c ''system_name'' systemName) (\<lambda>p0.
     bindE (operation_url c (''/status/'' @ p0 @ ''/reservations'')) (\<lambda>queryURL.
     new_request c ''GET'' queryURL []))"

definition ParseGetSystemReservationsStatusSystemNameReservationsGetResponse ::
  "api_decoders \<Rightarrow> http_reply \<Rightarrow> GetReservationsResponse op_response result" where
  "ParseGetSystemReservationsStatusSystemNameReservationsGetResponse d = parse_reply d 200 (Some (unmarshal decode_GetReservationsResponse))"

definition GetSystemReservationsStatusSystemNameReservationsGet ::
  "'s Client \<Rightarrow> string \<Rightarrow> ('s, http_reply) action" where
  "GetSystemReservationsStatusSystemNameReservationsGet c systemName = client_send c (NewGetSystemReservationsStatusSystemNameReservationsGetRequest c systemName)"

definition GetSystemReservationsStatusSystemNameReservationsGetWithResponse ::
  "'s Client \<Rightarrow> string \<Rightarrow> ('s, GetReservationsResponse op_response) action" where
  "GetSystemReservationsStatusSystemNameReservationsGetWithResponse c systemName = with_response ParseGetSystemReservationsStatusSystemNameReservationsGetResponse c (GetSystemReservationsStatusSystemNameReservationsGet c systemName)"

end
