(* ===== verification/Firecrest_Codecs.thy ===== *)
theory Firecrest_Codecs
  imports Firecrest_Unions
begin

text \<open>
  Everything that the FirecREST client writes is read back: the contract \<^verbatim>\<open>json_codec\<close>, interpreted
  on the bodies of the requests and on the alternatives of the unions.
\<close>

section \<open>Rules\<close>

interpretation string_list: json_codec "\<lambda>xs. JArr (map JStr xs)" "decode_list decode_string" "list_all (\<lambda>_. True)"
  by (rule string_codec.list_codec)

interpretation any_list: json_codec JArr "decode_list decode_any" "list_all any_value"
  using any_codec.list_codec by simp

lemma always_valid [simp]: "list_all (\<lambda>_. True) xs" "pred_option (list_all (\<lambda>_. True)) v" "pred_option (\<lambda>_. True) x"
  by (simp_all add: list_all_iff pred_option_def)

lemma key_lower:
  "ToLower ''accessKeyId'' = ''accesskeyid''"
  "ToLower ''account'' = ''account''"
  "ToLower ''bucketLifecycleConfiguration'' = ''bucketlifecycleconfiguration''"
  "ToLower ''command'' = ''command''"
  "ToLower ''completeUploadUrl'' = ''completeuploadurl''"
  "ToLower ''compression'' = ''compression''"
  "ToLower ''coordinates'' = ''coordinates''"
  "ToLower ''days'' = ''days''"
  "ToLower ''dereference'' = ''dereference''"
  "ToLower ''downloadUrl'' = ''downloadurl''"
  "ToLower ''fileSize'' = ''filesize''"
  "ToLower ''group'' = ''group''"
  "ToLower ''host'' = ''host''"
  "ToLower ''inboundTransferLimit'' = ''inboundtransferlimit''"
  "ToLower ''linkPath'' = ''linkpath''"
  "ToLower ''matchPattern'' = ''matchpattern''"
  "ToLower ''maxPartSize'' = ''maxpartsize''"
  "ToLower ''max_part_size'' = ''max_part_size''"
  "ToLower ''multipart'' = ''multipart''"
  "ToLower ''name'' = ''name''"
  "ToLower ''owner'' = ''owner''"
  "ToLower ''parallel_runs'' = ''parallel_runs''"
  "ToLower ''partsUploadUrls'' = ''partsuploadurls''"
  "ToLower ''portRange'' = ''portrange''"
  "ToLower ''privateUrl'' = ''privateurl''"
  "ToLower ''publicIps'' = ''publicips''"
  "ToLower ''publicUrl'' = ''publicurl''"
  "ToLower ''pypiIndexUrl'' = ''pypiindexurl''"
  "ToLower ''region'' = ''region''"
  "ToLower ''secretAccessKey'' = ''secretaccesskey''"
  "ToLower ''serviceType'' = ''servicetype''"
  "ToLower ''sourcePath'' = ''sourcepath''"
  "ToLower ''targetPath'' = ''targetpath''"
  "ToLower ''tenant'' = ''tenant''"
  "ToLower ''tmp_folder'' = ''tmp_folder''"
  "ToLower ''transferDirectives'' = ''transferdirectives''"
  "ToLower ''transferMethod'' = ''transfermethod''"
  "ToLower ''ttl'' = ''ttl''"
  "ToLower ''use_split'' = ''use_split''"
  "ToLower ''waitTimeout'' = ''waittimeout''"
  "ToLower ''wormholeCode'' = ''wormholecode''"
  by code_simp+

lemmas codec_simps = json_fields key_lower pointer_field_def
  string_codec.pointer_read_back bool_codec.pointer_read_back int_codec.pointer_read_back
  string_list.pointer_read_back any_list.pointer_read_back
  string_codec.pointer_member_ok bool_codec.pointer_member_ok int_codec.pointer_member_ok
  string_list.pointer_member_ok any_list.pointer_member_ok
  int_codec.dec_enc int_codec.enc_ok holds_message_simps

section \<open>The types\<close>

interpretation PostJobAttachRequest_codec: json_codec encode_PostJobAttachRequest decode_PostJobAttachRequest "\<lambda>_. True"
  by unfold_locales (simp_all add: encode_PostJobAttachRequest_def decode_PostJobAttachRequest_def codec_simps del: json_ok.simps(3))

interpretation PutFileChownRequest_codec: json_codec encode_PutFileChownRequest decode_PutFileChownRequest "\<lambda>_. True"
  by unfold_locales (simp_all add: encode_PutFileChownRequest_def decode_PutFileChownRequest_def codec_simps del: json_ok.simps(3))

interpretation PostCompressRequest_codec: json_codec encode_PostCompressRequest decode_PostCompressRequest "\<lambda>_. True"
  by unfold_locales (simp_all add: encode_PostCompressRequest_def decode_PostCompressRequest_def codec_simps del: json_ok.simps(3))

interpretation PostExtractRequest_codec: json_codec encode_PostExtractRequest decode_PostExtractRequest "\<lambda>_. True"
  by unfold_locales (simp_all add: encode_PostExtractRequest_def decode_PostExtractRequest_def codec_simps del: json_ok.simps(3))

interpretation PostFileSymlinkRequest_codec: json_codec encode_PostFileSymlinkRequest decode_PostFileSymlinkRequest "\<lambda>_. True"
  by unfold_locales (simp_all add: encode_PostFileSymlinkRequest_def decode_PostFileSymlinkRequest_def codec_simps del: json_ok.simps(3))

interpretation CompressRequest_codec: json_codec encode_CompressRequest decode_CompressRequest "\<lambda>_. True"
  by unfold_locales (simp_all add: encode_CompressRequest_def decode_CompressRequest_def codec_simps del: json_ok.simps(3))

interpretation CopyRequest_codec: json_codec encode_CopyRequest decode_CopyRequest "\<lambda>_. True"
  by unfold_locales (simp_all add: encode_CopyRequest_def decode_CopyRequest_def codec_simps del: json_ok.simps(3))

definition valid_PostFileDownloadRequest :: "PostFileDownloadRequest \<Rightarrow> bool" where
  "valid_PostFileDownloadRequest b \<longleftrightarrow> holds_message (PostFileDownloadRequest_TransferDirectives b)"

interpretation PostFileDownloadRequest_codec: json_codec encode_PostFileDownloadRequest decode_PostFileDownloadRequest valid_PostFileDownloadRequest
  by unfold_locales (simp_all add: encode_PostFileDownloadRequest_def decode_PostFileDownloadRequest_def valid_PostFileDownloadRequest_def codec_simps del: json_ok.simps(3))

interpretation ExtractRequest_codec: json_codec encode_ExtractRequest decode_ExtractRequest "\<lambda>_. True"
  by unfold_locales (simp_all add: encode_ExtractRequest_def decode_ExtractRequest_def codec_simps del: json_ok.simps(3))

interpretation MoveRequest_codec: json_codec encode_MoveRequest decode_MoveRequest "\<lambda>_. True"
  by unfold_locales (simp_all add: encode_MoveRequest_def decode_MoveRequest_def codec_simps del: json_ok.simps(3))

definition valid_PostFileUploadRequest :: "PostFileUploadRequest \<Rightarrow> bool" where
  "valid_PostFileUploadRequest b \<longleftrightarrow> holds_message (PostFileUploadRequest_TransferDirectives b)"

interpretation PostFileUploadRequest_codec: json_codec encode_PostFileUploadRequest decode_PostFileUploadRequest valid_PostFileUploadRequest
  by unfold_locales (simp_all add: encode_PostFileUploadRequest_def decode_PostFileUploadRequest_def valid_PostFileUploadRequest_def codec_simps del: json_ok.simps(3))

definition valid_BucketLifecycleConfiguration :: "BucketLifecycleConfiguration \<Rightarrow> bool" where
  "valid_BucketLifecycleConfiguration b \<longleftrightarrow> pred_option int64 (BucketLifecycleConfiguration_Days b)"

interpretation BucketLifecycleConfiguration_codec: json_codec encode_BucketLifecycleConfiguration decode_BucketLifecycleConfiguration valid_BucketLifecycleConfiguration
  by unfold_locales (simp_all add: encode_BucketLifecycleConfiguration_def decode_BucketLifecycleConfiguration_def valid_BucketLifecycleConfiguration_def codec_simps del: json_ok.simps(3))

definition valid_MultipartUpload :: "MultipartUpload \<Rightarrow> bool" where
  "valid_MultipartUpload b \<longleftrightarrow> pred_option int64 (MultipartUpload_MaxPartSize b)
     \<and> pred_option int64 (MultipartUpload_ParallelRuns b)"

interpretation MultipartUpload_codec: json_codec encode_MultipartUpload decode_MultipartUpload valid_MultipartUpload
  by unfold_locales (simp_all add: encode_MultipartUpload_def decode_MultipartUpload_def valid_MultipartUpload_def codec_simps del: json_ok.simps(3))

definition valid_S3DataTransfer :: "S3DataTransfer \<Rightarrow> bool" where
  "valid_S3DataTransfer b \<longleftrightarrow> pred_option valid_BucketLifecycleConfiguration (S3DataTransfer_BucketLifecycleConfiguration b)
     \<and> pred_option valid_MultipartUpload (S3DataTransfer_Multipart b)
     \<and> int64 (S3DataTransfer_Ttl b)"

interpretation S3DataTransfer_codec: json_codec encode_S3DataTransfer decode_S3DataTransfer valid_S3DataTransfer
  by unfold_locales (simp_all add: encode_S3DataTransfer_def decode_S3DataTransfer_def valid_S3DataTransfer_def codec_simps BucketLifecycleConfiguration_codec.pointer_read_back BucketLifecycleConfiguration_codec.pointer_member_ok MultipartUpload_codec.pointer_read_back MultipartUpload_codec.pointer_member_ok del: json_ok.simps(3))

interpretation WormholeDataTransfer_codec: json_codec encode_WormholeDataTransfer decode_WormholeDataTransfer "\<lambda>_. True"
  by unfold_locales (simp_all add: encode_WormholeDataTransfer_def decode_WormholeDataTransfer_def codec_simps del: json_ok.simps(3))

definition valid_StreamerDataTransfer :: "StreamerDataTransfer \<Rightarrow> bool" where
  "valid_StreamerDataTransfer b \<longleftrightarrow> pred_option int64 (StreamerDataTransfer_InboundTransferLimit b)
     \<and> pred_option (list_all any_value) (StreamerDataTransfer_PortRange b)
     \<and> pred_option int64 (StreamerDataTransfer_WaitTimeout b)"

interpretation StreamerDataTransfer_codec: json_codec encode_StreamerDataTransfer decode_StreamerDataTransfer valid_StreamerDataTransfer
  by unfold_locales (simp_all add: encode_StreamerDataTransfer_def decode_StreamerDataTransfer_def valid_StreamerDataTransfer_def codec_simps del: json_ok.simps(3))

interpretation WormholeTransferResponse_codec: json_codec encode_WormholeTransferResponse decode_WormholeTransferResponse "\<lambda>_. True"
  by unfold_locales (simp_all add: encode_WormholeTransferResponse_def decode_WormholeTransferResponse_def codec_simps del: json_ok.simps(3))

definition valid_S3TransferResponse :: "S3TransferResponse \<Rightarrow> bool" where
  "valid_S3TransferResponse b \<longleftrightarrow> pred_option int64 (S3TransferResponse_MaxPartSize b)"

interpretation S3TransferResponse_codec: json_codec encode_S3TransferResponse decode_S3TransferResponse valid_S3TransferResponse
  by unfold_locales (simp_all add: encode_S3TransferResponse_def decode_S3TransferResponse_def valid_S3TransferResponse_def codec_simps del: json_ok.simps(3))

interpretation StreamerTransferResponse_codec: json_codec encode_StreamerTransferResponse decode_StreamerTransferResponse "\<lambda>_. True"
  by unfold_locales (simp_all add: encode_StreamerTransferResponse_def decode_StreamerTransferResponse_def codec_simps del: json_ok.simps(3))

interpretation WormholeTransferRequest_codec: json_codec encode_WormholeTransferRequest decode_WormholeTransferRequest "\<lambda>_. True"
  by unfold_locales (simp_all add: encode_WormholeTransferRequest_def decode_WormholeTransferRequest_def codec_simps del: json_ok.simps(3))

definition valid_S3TransferRequest :: "S3TransferRequest \<Rightarrow> bool" where
  "valid_S3TransferRequest b \<longleftrightarrow> pred_option int64 (S3TransferRequest_FileSize b)"

interpretation S3TransferRequest_codec: json_codec encode_S3TransferRequest decode_S3TransferRequest valid_S3TransferRequest
  by unfold_locales (simp_all add: encode_S3TransferRequest_def decode_S3TransferRequest_def valid_S3TransferRequest_def codec_simps del: json_ok.simps(3))

interpretation StreamerTransferRequest_codec: json_codec encode_StreamerTransferRequest decode_StreamerTransferRequest "\<lambda>_. True"
  by unfold_locales (simp_all add: encode_StreamerTransferRequest_def decode_StreamerTransferRequest_def codec_simps del: json_ok.simps(3))

interpretation WormholeTransferUploadRequest_codec: json_codec encode_WormholeTransferUploadRequest decode_WormholeTransferUploadRequest "\<lambda>_. True"
  by unfold_locales (simp_all add: encode_WormholeTransferUploadRequest_def decode_WormholeTransferUploadRequest_def codec_simps del: json_ok.simps(3))

end
