(* ===== verification/Firecrest_Api_Props.thy ===== *)
theory Firecrest_Api_Props
  imports Firecrest_Api Firecrest_Codecs Remote_Sample
begin

text \<open>
  All operations of the FirecREST client: their requests go to the configured server, their bodies
  are read back as they were given, and the unions keep their discriminator.
\<close>

section \<open>The requests\<close>

text \<open>A name that needs no escaping; the styling of a path parameter leaves it as it is.\<close>

definition plain_name :: "string \<Rightarrow> bool" where
  "plain_name v \<longleftrightarrow> v \<noteq> [] \<and> list_all plain_char v \<and> CHR ''/'' \<notin> set v \<and> v \<noteq> ''.'' \<and> v \<noteq> ''..''"

definition keeps_plain_names :: "'s Client \<Rightarrow> bool" where
  "keeps_plain_names c \<longleftrightarrow> (\<forall>name v. plain_name v \<longrightarrow> path_param c name v = Inr v)"

text \<open>The requests that the client makes, with the method and the path of the operation.\<close>

inductive api_request :: "'s Client \<Rightarrow> string \<Rightarrow> string \<Rightarrow> http_request \<Rightarrow> bool" for c where
GetSystemsStatusSystemsGet:
    "NewGetSystemsStatusSystemsGetRequest c = Inr req
     \<Longrightarrow> api_request c ''GET'' (''/status/systems'') req"
| GetUserinfoStatusSystemNameUserinfoGet:
    "plain_name systemName \<Longrightarrow> NewGetUserinfoStatusSystemNameUserinfoGetRequest c systemName = Inr req
     \<Longrightarrow> api_request c ''GET'' (''/status/'' @ systemName @ ''/userinfo'') req"
| PostUploadFilesystemSystemNameOpsUploadPost:
    "plain_name systemName \<Longrightarrow> NewPostUploadFilesystemSystemNameOpsUploadPostRequestWithBody c systemName params_Path contentType body = Inr req
     \<Longrightarrow> api_request c ''POST'' (''/filesystem/'' @ systemName @ ''/ops/upload'') req"
| PostMkdirFilesystemSystemNameOpsMkdirPost:
    "plain_name systemName \<Longrightarrow> NewPostMkdirFilesystemSystemNameOpsMkdirPostRequestWithBody c systemName contentType body = Inr req
     \<Longrightarrow> api_request c ''POST'' (''/filesystem/'' @ systemName @ ''/ops/mkdir'') req"
| PutChmodFilesystemSystemNameOpsChmodPut:
    "plain_name systemName \<Longrightarrow> NewPutChmodFilesystemSystemNameOpsChmodPutRequestWithBody c systemName contentType body = Inr req
     \<Longrightarrow> api_request c ''PUT'' (''/filesystem/'' @ systemName @ ''/ops/chmod'') req"
| PostJobSubmitComputeSystemNameJobsPost:
    "plain_name systemName \<Longrightarrow> NewPostJobSubmitComputeSystemNameJobsPostRequestWithBody c systemName contentType body = Inr req
     \<Longrightarrow> api_request c ''POST'' (''/compute/'' @ systemName @ ''/jobs'') req"
| GetJobComputeSystemNameJobsJobIdGet:
    "plain_name systemName \<Longrightarrow> plain_name jobId \<Longrightarrow> NewGetJobComputeSystemNameJobsJobIdGetRequest c systemName jobId = Inr req
     \<Longrightarrow> api_request c ''GET'' (''/compute/'' @ systemName @ ''/jobs/'' @ jobId) req"
| GetJobMetadataComputeSystemNameJobsJobIdMetadataGet:
    "plain_name systemName \<Longrightarrow> plain_name jobId \<Longrightarrow> NewGetJobMetadataComputeSystemNameJobsJobIdMetadataGetRequest c systemName jobId = Inr req
     \<Longrightarrow> api_request c ''GET'' (''/compute/'' @ systemName @ ''/jobs/'' @ jobId @ ''/metadata'') req"
| DeleteJobCancelComputeSystemNameJobsJobIdDelete:
    "plain_name systemName \<Longrightarrow> plain_name jobId \<Longrightarrow> NewDeleteJobCancelComputeSystemNameJobsJobIdDeleteRequest c systemName jobId = Inr req
     \<Longrightarrow> api_request c ''DELETE'' (''/compute/'' @ systemName @ ''/jobs/'' @ jobId) req"
| GetViewFilesystemSystemNameOpsViewGet:
    "plain_name systemName \<Longrightarrow> NewGetViewFilesystemSystemNameOpsViewGetRequest c systemName params = Inr req
     \<Longrightarrow> api_request c ''GET'' (''/filesystem/'' @ systemName @ ''/ops/view'') req"
| GetJobsComputeSystemNameJobsGet:
    "plain_name systemName \<Longrightarrow> NewGetJobsComputeSystemNameJobsGetRequest c systemName params = Inr req
     \<Longrightarrow> api_request c ''GET'' (''/compute/'' @ systemName @ ''/jobs'') req"
| AttachComputeSystemNameJobsJobIdAttachPut:
    "plain_name systemName \<Longrightarrow> plain_name jobId \<Longrightarrow> NewAttachComputeSystemNameJobsJobIdAttachPutRequestWithBody c systemName jobId contentType body = Inr req
     \<Longrightarrow> api_request c ''PUT'' (''/compute/'' @ systemName @ ''/jobs/'' @ jobId @ ''/attach'') req"
| GetChecksumFilesystemSystemNameOpsChecksumGet:
    "plain_name systemName \<Longrightarrow> NewGetChecksumFilesystemSystemNameOpsChecksumGetRequest c systemName params = Inr req
     \<Longrightarrow> api_request c ''GET'' (''/filesystem/'' @ systemName @ ''/ops/checksum'') req"
| PutChownFilesystemSystemNameOpsChownPut:
    "plain_name systemName \<Longrightarrow> NewPutChownFilesystemSystemNameOpsChownPutRequestWithBody c systemName contentType body = Inr req
     \<Longrightarrow> api_request c ''PUT'' (''/filesystem/'' @ systemName @ ''/ops/chown'') req"
| PostCompressFilesystemSystemNameOpsCompressPost:
    "plain_name systemName \<Longrightarrow> NewPostCompressFilesystemSystemNameOpsCompressPostRequestWithBody c systemName contentType body = Inr req
     \<Longrightarrow> api_request c ''POST'' (''/filesystem/'' @ systemName @ ''/ops/compress'') req"
| GetDownloadFilesystemSystemNameOpsDownloadGet:
    "plain_name systemName \<Longrightarrow> NewGetDownloadFilesystemSystemNameOpsDownloadGetRequest c systemName params = Inr req
     \<Longrightarrow> api_request c ''GET'' (''/filesystem/'' @ systemName @ ''/ops/download'') req"
| PostExtractFilesystemSystemNameOpsExtractPost:
    "plain_name systemName \<Longrightarrow> NewPostExtractFilesystemSystemNameOpsExtractPostRequestWithBody c systemName contentType body = Inr req
     \<Longrightarrow> api_request c ''POST'' (''/filesystem/'' @ systemName @ ''/ops/extract'') req"
| GetFileFilesystemSystemNameOpsFileGet:
    "plain_name systemName \<Longrightarrow> NewGetFileFilesystemSystemNameOpsFileGetRequest c systemName params = Inr req
     \<Longrightarrow> api_request c ''GET'' (''/filesystem/'' @ systemName @ ''/ops/file'') req"
| GetHeadFilesystemSystemNameOpsHeadGet:
    "plain_name systemName \<Longrightarrow> NewGetHeadFilesystemSystemNameOpsHeadGetRequest c systemName params = Inr req
     \<Longrightarrow> api_request c ''GET'' (''/filesystem/'' @ systemName @ ''/ops/head'') req"
| GetLsFilesystemSystemNameOpsLsGet:
    "plain_name systemName \<Longrightarrow> NewGetLsFilesystemSystemNameOpsLsGetRequest c systemName params = Inr req
     \<Longrightarrow> api_request c ''GET'' (''/filesystem/'' @ systemName @ ''/ops/ls'') req"
| DeleteRmFilesystemSystemNameOpsRmDelete:
    "plain_name systemName \<Longrightarrow> NewDeleteRmFilesystemSystemNameOpsRmDeleteRequest c systemName params = Inr req
     \<Longrightarrow> api_request c ''DELETE'' (''/filesystem/'' @ systemName @ ''/ops/rm'') req"
| GetStatFilesystemSystemNameOpsStatGet:
    "plain_name systemName \<Longrightarrow> NewGetStatFilesystemSystemNameOpsStatGetRequest c systemName params = Inr req
     \<Longrightarrow> api_request c ''GET'' (''/filesystem/'' @ systemName @ ''/ops/stat'') req"
| PostSymlinkFilesystemSystemNameOpsSymlinkPost:
    "plain_name systemName \<Longrightarrow> NewPostSymlinkFilesystemSystemNameOpsSymlinkPostRequestWithBody c systemName contentType body = Inr req
     \<Longrightarrow> api_request c ''POST'' (''/filesystem/'' @ systemName @ ''/ops/symlink'') req"
| GetTailFilesystemSystemNameOpsTailGet:
    "plain_name systemName \<Longrightarrow> NewGetTailFilesystemSystemNameOpsTailGetRequest c systemName params = Inr req
     \<Longrightarrow> api_request c ''GET'' (''/filesystem/'' @ systemName @ ''/ops/tail'') req"
| CompressFilesystemSystemNameTransferCompressPost:
    "plain_name systemName \<Longrightarrow> NewCompressFilesystemSystemNameTransferCompressPostRequestWithBody c systemName contentType body = Inr req
     \<Longrightarrow> api_request c ''POST'' (''/filesystem/'' @ systemName @ ''/transfer/compress'') req"
| PostCpFilesystemSystemNameTransferCpPost:
    "plain_name systemName \<Longrightarrow> NewPostCpFilesystemSystemNameTransferCpPostRequestWithBody c systemName contentType body = Inr req
     \<Longrightarrow> api_request c ''POST'' (''/filesystem/'' @ systemName @ ''/transfer/cp'') req"
| PostDownloadFilesystemSystemNameTransferDownloadPost:
    "plain_name systemName \<Longrightarrow> NewPostDownloadFilesystemSystemNameTransferDownloadPostRequestWithBody c systemName contentType body = Inr req
     \<Longrightarrow> api_request c ''POST'' (''/filesystem/'' @ systemName @ ''/transfer/download'') req"
| ExtractFilesystemSystemNameTransferExtractPost:
    "plain_name systemName \<Longrightarrow> NewExtractFilesystemSystemNameTransferExtractPostRequestWithBody c systemName contentType body = Inr req
     \<Longrightarrow> api_request c ''POST'' (''/filesystem/'' @ systemName @ ''/transfer/extract'') req"
| MoveMvFilesystemSystemNameTransferMvPost:
    "plain_name systemName \<Longrightarrow> NewMoveMvFilesystemSystemNameTransferMvPostRequestWithBody c systemName contentType body = Inr req
     \<Longrightarrow> api_request c ''POST'' (''/filesystem/'' @ systemName @ ''/transfer/mv'') req"
| DeleteRmFilesystemSystemNameTransferRmDelete:
    "plain_name systemName \<Longrightarrow> NewDeleteRmFilesystemSystemNameTransferRmDeleteRequest c systemName params = Inr req
     \<Longrightarrow> api_request c ''DELETE'' (''/filesystem/'' @ systemName @ ''/transfer/rm'') req"
| PostUploadFilesystemSystemNameTransferUploadPost:
    "plain_name systemName \<Longrightarrow> NewPostUploadFilesystemSystemNameTransferUploadPostRequestWithBody c systemName contentType body = Inr req
     \<Longrightarrow> api_request c ''POST'' (''/filesystem/'' @ systemName @ ''/transfer/upload'') req"
| GetLivenessStatusLivenessGet:
    "NewGetLivenessStatusLivenessGetRequest c = Inr req
     \<Longrightarrow> api_request c ''GET'' (''/status/liveness/'') req"
| GetSystemNodesStatusSystemNameNodesGet:
    "plain_name systemName \<Longrightarrow> NewGetSystemNodesStatusSystemNameNodesGetRequest c systemName = Inr req
     \<Longrightarrow> api_request c ''GET'' (''/status/'' @ systemName @ ''/nodes'') req"
| GetSystemPartitionsStatusSystemNamePartitionsGet:
    "plain_name systemName \<Longrightarrow> NewGetSystemPartitionsStatusSystemNamePartitionsGetRequest c systemName = Inr req
     \<Longrightarrow> api_request c ''GET'' (''/status/'' @ systemName @ ''/partitions'') req"
| GetSystemReservationsStatusSystemNameReservationsGet:
    "plain_name systemName \<Longrightarrow> NewGetSystemReservationsStatusSystemNameReservationsGetRequest c systemName = Inr req
     \<Longrightarrow> api_request c ''GET'' (''/status/'' @ systemName @ ''/reservations'') req"

lemmas request_defs =
  NewGetSystemsStatusSystemsGetRequest_def
  NewGetUserinfoStatusSystemNameUserinfoGetRequest_def
  NewPostUploadFilesystemSystemNameOpsUploadPostRequestWithBody_def
  NewPostMkdirFilesystemSystemNameOpsMkdirPostRequestWithBody_def
  NewPutChmodFilesystemSystemNameOpsChmodPutRequestWithBody_def
  NewPostJobSubmitComputeSystemNameJobsPostRequestWithBody_def
  NewGetJobComputeSystemNameJobsJobIdGetRequest_def
  NewGetJobMetadataComputeSystemNameJobsJobIdMetadataGetRequest_def
  NewDeleteJobCancelComputeSystemNameJobsJobIdDeleteRequest_def
  NewGetViewFilesystemSystemNameOpsViewGetRequest_def
  NewGetJobsComputeSystemNameJobsGetRequest_def
  NewAttachComputeSystemNameJobsJobIdAttachPutRequestWithBody_def
  NewGetChecksumFilesystemSystemNameOpsChecksumGetRequest_def
  NewPutChownFilesystemSystemNameOpsChownPutRequestWithBody_def
  NewPostCompressFilesystemSystemNameOpsCompressPostRequestWithBody_def
  NewGetDownloadFilesystemSystemNameOpsDownloadGetRequest_def
  NewPostExtractFilesystemSystemNameOpsExtractPostRequestWithBody_def
  NewGetFileFilesystemSystemNameOpsFileGetRequest_def
  NewGetHeadFilesystemSystemNameOpsHeadGetRequest_def
  NewGetLsFilesystemSystemNameOpsLsGetRequest_def
  NewDeleteRmFilesystemSystemNameOpsRmDeleteRequest_def
  NewGetStatFilesystemSystemNameOpsStatGetRequest_def
  NewPostSymlinkFilesystemSystemNameOpsSymlinkPostRequestWithBody_def
  NewGetTailFilesystemSystemNameOpsTailGetRequest_def
  NewCompressFilesystemSystemNameTransferCompressPostRequestWithBody_def
  NewPostCpFilesystemSystemNameTransferCpPostRequestWithBody_def
  NewPostDownloadFilesystemSystemNameTransferDownloadPostRequestWithBody_def
  NewExtractFilesystemSystemNameTransferExtractPostRequestWithBody_def
  NewMoveMvFilesystemSystemNameTransferMvPostRequestWithBody_def
  NewDeleteRmFilesystemSystemNameTransferRmDeleteRequest_def
  NewPostUploadFilesystemSystemNameTransferUploadPostRequestWithBody_def
  NewGetLivenessStatusLivenessGetRequest_def
  NewGetSystemNodesStatusSystemNameNodesGetRequest_def
  NewGetSystemPartitionsStatusSystemNamePartitionsGetRequest_def
  NewGetSystemReservationsStatusSystemNameReservationsGetRequest_def

text \<open>What the requests have in common.\<close>

definition sent_to :: "'s Client \<Rightarrow> string \<Rightarrow> string \<Rightarrow> http_request \<Rightarrow> bool" where
  "sent_to c meth p req \<longleftrightarrow>
     (\<exists>u u' body r. operation_url c p = Inr u \<and> (u' = u \<or> (\<exists>fs. u' = set_query u fs))
        \<and> new_request c meth u' body = Inr r \<and> (req = r \<or> (\<exists>ct. req = Header_Set ''Content-Type'' ct r)))"

lemma with_query_cases:
  "with_query u params frags = Inr u' \<Longrightarrow> u' = u \<or> (\<exists>fs. u' = set_query u fs)"
  by (auto simp: with_query_def bindE_def split: option.splits sum.splits)

lemma sent_toI:
  assumes "operation_url c p = Inr u"
  shows "new_request c meth u body = Inr req \<Longrightarrow> sent_to c meth p req"
    "new_request c meth (set_query u fs) body = Inr req \<Longrightarrow> sent_to c meth p req"
    "with_query u params frags = Inr u' \<Longrightarrow> new_request c meth u' body = Inr req \<Longrightarrow> sent_to c meth p req"
    "new_request c meth u body = Inr r \<Longrightarrow> sent_to c meth p (Header_Set ''Content-Type'' ct r)"
    "new_request c meth (set_query u fs) body = Inr r \<Longrightarrow> sent_to c meth p (Header_Set ''Content-Type'' ct r)"
  using assms unfolding sent_to_def by (blast dest: with_query_cases)+

lemma api_request_sent:
  assumes "api_request c meth p req" "keeps_plain_names c"
  shows "sent_to c meth p req"
  using assms(1)
proof induction
qed (use assms(2) in \<open>auto simp: request_defs keeps_plain_names_def bindE_Inr_iff intro: sent_toI\<close>)


lemma split_char_absent: "sep \<notin> set s \<Longrightarrow> split_char sep s = [s]"
  by (induction s) auto

lemma plain_name_split: "plain_name v \<Longrightarrow> split_char (CHR ''/'') v = [v]"
  by (simp add: plain_name_def split_char_absent)

lemma api_request_path:
  assumes "api_request c meth p req"
  shows "\<exists>p'. p = ''/'' @ p' \<and> plain_path p'"
  using assms
proof induction
qed (auto simp: plain_path_def no_dots_def plain_name_split split_char_sep plain_char_def is_alnum_def, auto simp: plain_name_def plain_char_def is_alnum_def)

text \<open>C28: Every request of the FirecREST client, of all its operations, goes to the configured server: its
  address has the scheme, the user information and the host of the server's URL, its path is the
  documented path of the operation below the path of the server, with the names of the system and the
  job in their places, and its method is the documented one; only the query differs. This holds for
  names that need no escaping, when the styling leaves those as they are.\<close>

theorem api_requests_address_server:
  assumes "api_request c meth p req" "keeps_plain_names c"
    and "url_Parse (rt_parseAuthority (cl_runtime c)) (cl_Server c) = Inr u"
    and "u_Path u = b @ ''/''" "u_RawPath u = []" "b = [] \<or> hd b = CHR ''/''" "plain_path b"
  shows "rq_Method req = meth \<and>
    (\<exists>query v. url_Parse (rt_parseAuthority (cl_runtime c)) (url_String (empty_url\<lparr> u_Scheme := u_Scheme u,
        u_User := u_User u, u_Host := u_Host u, u_Path := b @ p, u_RawQuery := query \<rparr>)) = Inr v
      \<and> rq_URL req = url_String v)"
proof -
  obtain p' where p: "p = ''/'' @ p'" "plain_path p'" using api_request_path [OF assms(1)] by blast
  let ?u = "empty_url\<lparr> u_Scheme := u_Scheme u, u_User := u_User u, u_Host := u_Host u, u_Path := b @ p \<rparr>"
  have "operation_url c p = Inr ?u"
    using operation_url_plain [OF assms(3-7) p(2)] by (simp add: p(1))
  with api_request_sent [OF assms(1,2)] obtain u' body r where
    u': "u' = ?u \<or> (\<exists>fs. u' = set_query ?u fs)" and r: "new_request c meth u' body = Inr r"
    and req: "req = r \<or> (\<exists>ct. req = Header_Set ''Content-Type'' ct r)"
    unfolding sent_to_def by auto
  obtain query where "u' = ?u\<lparr> u_RawQuery := query \<rparr>"
    using u' by (auto simp: set_query_def empty_url_def Let_def)
  with r obtain v where v: "url_Parse (rt_parseAuthority (cl_runtime c)) (url_String (?u\<lparr> u_RawQuery := query \<rparr>)) = Inr v"
    "r = \<lparr> rq_Method = meth, rq_URL = url_String v, rq_Header = fmempty, rq_Body = body \<rparr>"
    by (auto simp: new_request_def http_NewRequest_def bindE_Inr_iff)
  have "rq_Method req = meth" "rq_URL req = url_String v" using req v(2) by (auto simp: Header_Set_def)
  with v(1) show ?thesis by blast
qed

theorem api_requests_address_server_witness:
  "\<exists>req. NewGetSystemNodesStatusSystemNameNodesGetRequest (sample_cluster :: unit Client) ''sys'' = Inr req
     \<and> rq_Method req = ''GET'' \<and> (\<exists>query v. url_Parse (\<lambda>a. Inr (None, a))
        (url_String (empty_url\<lparr> u_Path := ''/status/sys/nodes'', u_RawQuery := query \<rparr>)) = Inr v
          \<and> rq_URL req = url_String v)"
proof -
  let ?c = "sample_cluster :: unit Client"
  have names: "plain_name ''sys''" by (simp add: plain_name_def plain_char_def is_alnum_def)
  have "plain_path ''status/sys/nodes''"
    by (simp add: plain_path_def no_dots_def plain_char_def is_alnum_def)
  then obtain req where req: "NewGetSystemNodesStatusSystemNameNodesGetRequest ?c ''sys'' = Inr req"
    by (auto simp: NewGetSystemNodesStatusSystemNameNodesGetRequest_def sample_operation_url sample_new_request)
  have "api_request ?c ''GET'' (''/status/'' @ ''sys'' @ ''/nodes'') req"
    by (rule GetSystemNodesStatusSystemNameNodesGet [OF names req])
  moreover have "keeps_plain_names ?c" by (simp add: keeps_plain_names_def)
  moreover have "url_Parse (rt_parseAuthority (cl_runtime ?c)) (cl_Server ?c) = Inr (empty_url\<lparr> u_Path := ''/'' \<rparr>)"
    by (simp add: parse_root sample_client_def)
  moreover have "plain_path []" by (simp add: plain_path_def no_dots_def)
  ultimately show ?thesis
    using api_requests_address_server [of ?c "''GET''" "''/status/'' @ ''sys'' @ ''/nodes''" req
        "empty_url\<lparr> u_Path := ''/'' \<rparr>" "[]"] req
    by (simp add: empty_url_def)
qed

section \<open>The bodies\<close>

text \<open>
  What a server reads that decodes with the same types; a job is decoded as its tags say.
\<close>

definition decode_JobDescriptionModel :: "json \<Rightarrow> JobDescriptionModel result" where
  "decode_JobDescriptionModel j =
     bindE (json_object j) (\<lambda>ms.
     bindE (pointer_field decode_string ''account'' ms) (\<lambda>account.
     bindE (pointer_field decode_string ''constraints'' ms) (\<lambda>constraints.
     bindE (pointer_field decode_any ''env'' ms) (\<lambda>env.
     bindE (pointer_field decode_string ''name'' ms) (\<lambda>name.
     bindE (pointer_field decode_string ''script'' ms) (\<lambda>script.
     bindE (pointer_field decode_string ''scriptPath'' ms) (\<lambda>scriptPath.
     bindE (pointer_field decode_string ''standardError'' ms) (\<lambda>standardError.
     bindE (pointer_field decode_string ''standardInput'' ms) (\<lambda>standardInput.
     bindE (pointer_field decode_string ''standardOutput'' ms) (\<lambda>standardOutput.
     bindE (decode_string (json_member ''workingDirectory'' ms)) (\<lambda>workingDirectory.
     Inr \<lparr> jd_Account = account, jd_Constraints = constraints, jd_Env = env, jd_Name = name, jd_Script = script,
           jd_ScriptPath = scriptPath, jd_StandardError = standardError, jd_StandardInput = standardInput,
           jd_StandardOutput = standardOutput, jd_WorkingDirectory = workingDirectory \<rparr>)))))))))))"

definition decode_PostJobSubmitRequest :: "json \<Rightarrow> JobDescriptionModel result" where
  "decode_PostJobSubmitRequest j =
     bindE (json_object j) (\<lambda>ms. decode_JobDescriptionModel (json_member ''job'' ms))"

definition valid_job :: "JobDescriptionModel \<Rightarrow> bool" where
  "valid_job j \<longleftrightarrow> pred_option any_value (jd_Env j)"

definition decode_PostMakeDirRequest :: "json \<Rightarrow> PostMakeDirRequest result" where
  "decode_PostMakeDirRequest j =
     bindE (json_object j) (\<lambda>ms.
     bindE (pointer_field decode_bool ''parent'' ms) (\<lambda>parent.
     bindE (decode_string (json_member ''sourcePath'' ms)) (\<lambda>sourcePath.
     Inr \<lparr> md_Parent = parent, md_SourcePath = sourcePath \<rparr>)))"

definition decode_PutFileChmodRequest :: "json \<Rightarrow> PutFileChmodRequest result" where
  "decode_PutFileChmodRequest j =
     bindE (json_object j) (\<lambda>ms.
     bindE (decode_string (json_member ''mode'' ms)) (\<lambda>mode.
     bindE (decode_string (json_member ''sourcePath'' ms)) (\<lambda>sourcePath.
     Inr \<lparr> cm_Mode = mode, cm_SourcePath = sourcePath \<rparr>)))"

lemma written_members:
  "optional_member k v = pointer_member JStr k v"
  "(case x of None \<Rightarrow> [] | Some p \<Rightarrow> [(k, f p)]) = pointer_member f k x"
  "(case e of None \<Rightarrow> [] | Some j \<Rightarrow> [(k, j)]) = pointer_member (\<lambda>j. j) k e"
  by (simp_all add: optional_member_def pointer_member_def)

lemma job_key_lower:
  "ToLower ''constraints'' = ''constraints''" "ToLower ''env'' = ''env''" "ToLower ''script'' = ''script''"
  "ToLower ''scriptPath'' = ''scriptpath''" "ToLower ''standardError'' = ''standarderror''"
  "ToLower ''standardInput'' = ''standardinput''" "ToLower ''standardOutput'' = ''standardoutput''"
  "ToLower ''workingDirectory'' = ''workingdirectory''" "ToLower ''job'' = ''job''"
  "ToLower ''parent'' = ''parent''" "ToLower ''mode'' = ''mode''"
  by code_simp+

lemmas job_codec_simps = written_members job_key_lower codec_simps any_codec.pointer_read_back any_codec.pointer_member_ok

interpretation job_codec: json_codec encode_JobDescriptionModel decode_JobDescriptionModel valid_job
  by unfold_locales
    (simp_all add: encode_JobDescriptionModel_def decode_JobDescriptionModel_def valid_job_def
      job_codec_simps del: json_ok.simps(3))

interpretation submit_codec: json_codec encode_PostJobSubmitRequest decode_PostJobSubmitRequest valid_job
  by unfold_locales
    (simp_all add: encode_PostJobSubmitRequest_def decode_PostJobSubmitRequest_def job_codec.dec_enc
      job_codec.enc_ok job_codec_simps del: json_ok.simps(3))

interpretation mkdir_codec: json_codec encode_PostMakeDirRequest decode_PostMakeDirRequest "\<lambda>_. True"
  by unfold_locales
    (simp_all add: encode_PostMakeDirRequest_def decode_PostMakeDirRequest_def job_codec_simps del: json_ok.simps(3))

interpretation chmod_codec: json_codec encode_PutFileChmodRequest decode_PutFileChmodRequest "\<lambda>_. True"
  by unfold_locales
    (simp_all add: encode_PutFileChmodRequest_def decode_PutFileChmodRequest_def job_codec_simps del: json_ok.simps(3))

text \<open>A request whose body is JSON: the content type says so, and the body decodes to the given value.\<close>

definition reads_back :: "('a \<Rightarrow> http_request result) \<Rightarrow> (json \<Rightarrow> 'a result) \<Rightarrow> ('a \<Rightarrow> bool) \<Rightarrow> bool" where
  "reads_back new dec valid \<longleftrightarrow> (\<forall>b req. new b = Inr req \<and> valid b \<longrightarrow>
     unmarshal dec (rq_Body req) = Inr b \<and> fmlookup (rq_Header req) ''Content-Type'' = Some [''application/json''])"

lemma reads_backI:
  assumes "json_codec enc dec valid"
    and "\<And>b req. new b = Inr req \<Longrightarrow> rq_Body req = json_Marshal (enc b)
      \<and> fmlookup (rq_Header req) ''Content-Type'' = Some [''application/json'']"
  shows "reads_back new dec valid"
  using assms json_codec.read_back [OF assms(1)] by (auto simp: reads_back_def)

lemmas json_request_defs =
  NewPostMkdirFilesystemSystemNameOpsMkdirPostRequest_def
  NewPutChmodFilesystemSystemNameOpsChmodPutRequest_def
  NewPostJobSubmitComputeSystemNameJobsPostRequest_def
  NewAttachComputeSystemNameJobsJobIdAttachPutRequest_def
  NewPutChownFilesystemSystemNameOpsChownPutRequest_def
  NewPostCompressFilesystemSystemNameOpsCompressPostRequest_def
  NewPostExtractFilesystemSystemNameOpsExtractPostRequest_def
  NewPostSymlinkFilesystemSystemNameOpsSymlinkPostRequest_def
  NewCompressFilesystemSystemNameTransferCompressPostRequest_def
  NewPostCpFilesystemSystemNameTransferCpPostRequest_def
  NewPostDownloadFilesystemSystemNameTransferDownloadPostRequest_def
  NewExtractFilesystemSystemNameTransferExtractPostRequest_def
  NewMoveMvFilesystemSystemNameTransferMvPostRequest_def
  NewPostUploadFilesystemSystemNameTransferUploadPostRequest_def

lemma new_request_body: "new_request c meth u body = Inr r \<Longrightarrow> rq_Body r = body"
  by (auto simp: new_request_def http_NewRequest_def bindE_Inr_iff)

lemmas json_request_simps = json_request_defs request_defs bindE_Inr_iff Header_Set_def header_set_def new_request_body

text \<open>C32: Every body that the FirecREST client sends is read back as it was given: for each operation with a
  JSON body, whatever the client and the names, a request that could be made has the content type of
  JSON, and decoding its body by the tags of the type gives the value that was passed, as long as its
  integers have 64 bits and its raw parts are JSON. So no field of a job or of a transfer is lost,
  renamed or mixed up with another.\<close>

theorem request_bodies_read_back:
  "reads_back (NewPostMkdirFilesystemSystemNameOpsMkdirPostRequest c systemName) decode_PostMakeDirRequest (\<lambda>_. True)
   \<and> reads_back (NewPutChmodFilesystemSystemNameOpsChmodPutRequest c systemName) decode_PutFileChmodRequest (\<lambda>_. True)
   \<and> reads_back (NewPostJobSubmitComputeSystemNameJobsPostRequest c systemName) decode_PostJobSubmitRequest valid_job
   \<and> reads_back (NewAttachComputeSystemNameJobsJobIdAttachPutRequest c systemName jobId) decode_PostJobAttachRequest (\<lambda>_. True)
   \<and> reads_back (NewPutChownFilesystemSystemNameOpsChownPutRequest c systemName) decode_PutFileChownRequest (\<lambda>_. True)
   \<and> reads_back (NewPostCompressFilesystemSystemNameOpsCompressPostRequest c systemName) decode_PostCompressRequest (\<lambda>_. True)
   \<and> reads_back (NewPostExtractFilesystemSystemNameOpsExtractPostRequest c systemName) decode_PostExtractRequest (\<lambda>_. True)
   \<and> reads_back (NewPostSymlinkFilesystemSystemNameOpsSymlinkPostRequest c systemName) decode_PostFileSymlinkRequest (\<lambda>_. True)
   \<and> reads_back (NewCompressFilesystemSystemNameTransferCompressPostRequest c systemName) decode_CompressRequest (\<lambda>_. True)
   \<and> reads_back (NewPostCpFilesystemSystemNameTransferCpPostRequest c systemName) decode_CopyRequest (\<lambda>_. True)
   \<and> reads_back (NewPostDownloadFilesystemSystemNameTransferDownloadPostRequest c systemName) decode_PostFileDownloadRequest valid_PostFileDownloadRequest
   \<and> reads_back (NewExtractFilesystemSystemNameTransferExtractPostRequest c systemName) decode_ExtractRequest (\<lambda>_. True)
   \<and> reads_back (NewMoveMvFilesystemSystemNameTransferMvPostRequest c systemName) decode_MoveRequest (\<lambda>_. True)
   \<and> reads_back (NewPostUploadFilesystemSystemNameTransferUploadPostRequest c systemName) decode_PostFileUploadRequest valid_PostFileUploadRequest"
  by (intro conjI reads_backI [OF mkdir_codec.json_codec_axioms]
      reads_backI [OF chmod_codec.json_codec_axioms]
      reads_backI [OF submit_codec.json_codec_axioms]
      reads_backI [OF PostJobAttachRequest_codec.json_codec_axioms]
      reads_backI [OF PutFileChownRequest_codec.json_codec_axioms]
      reads_backI [OF PostCompressRequest_codec.json_codec_axioms]
      reads_backI [OF PostExtractRequest_codec.json_codec_axioms]
      reads_backI [OF PostFileSymlinkRequest_codec.json_codec_axioms]
      reads_backI [OF CompressRequest_codec.json_codec_axioms]
      reads_backI [OF CopyRequest_codec.json_codec_axioms]
      reads_backI [OF PostFileDownloadRequest_codec.json_codec_axioms]
      reads_backI [OF ExtractRequest_codec.json_codec_axioms]
      reads_backI [OF MoveRequest_codec.json_codec_axioms]
      reads_backI [OF PostFileUploadRequest_codec.json_codec_axioms];
      auto simp: json_request_simps)

section \<open>Unions\<close>

text \<open>
  What is relied on of \<^verbatim>\<open>JSONMerge\<close>, a JSON merge patch: patching an object whose keys are distinct with
  one member sets that member and keeps the others.
\<close>

definition distinct_keys :: "(string \<times> json) list \<Rightarrow> bool" where
  "distinct_keys ms \<longleftrightarrow> distinct (map (\<lambda>(k, _). ToLower k) ms)"

definition merge_patches :: "json_merge \<Rightarrow> bool" where
  "merge_patches mg \<longleftrightarrow> (\<forall>ms k v. distinct_keys ms \<and> v \<noteq> JNull \<longrightarrow> (\<exists>ms'. mg (Some (JObj ms)) (JObj [(k, v)]) = Inr (JObj ms')
     \<and> (\<forall>k'. json_lookup k' ms' = (if ToLower k' = ToLower k then Some v else json_lookup k' ms)
          \<and> json_member k' ms' = (if ToLower k' = ToLower k then v else json_member k' ms))))"

definition key_set :: "(string \<times> json) list \<Rightarrow> string set" where
  "key_set ms = set (map (\<lambda>(k, _). ToLower k) ms)"

lemma key_set_simps:
  "key_set [] = {}" "key_set ((k, v) # ms) = insert (ToLower k) (key_set ms)"
  "key_set (xs @ ys) = key_set xs \<union> key_set ys"
  "x \<in> key_set (pointer_member f k y) \<longleftrightarrow> y \<noteq> None \<and> x = ToLower k"
  by (auto simp: key_set_def pointer_member_def split: option.splits)

lemma distinct_keys_simps:
  "distinct_keys []" "distinct_keys ((k, v) # ms) \<longleftrightarrow> ToLower k \<notin> key_set ms \<and> distinct_keys ms"
  "distinct_keys (pointer_member f k y @ ms) \<longleftrightarrow> (y \<noteq> None \<longrightarrow> ToLower k \<notin> key_set ms) \<and> distinct_keys ms"
  "distinct_keys (pointer_member f k y)"
  by (auto simp: distinct_keys_def key_set_def pointer_member_def split: option.splits)

lemma discriminated:
  assumes "merge_patches mg" "distinct_keys ms"
    and "\<And>ms'. (\<And>k. json_lookup k ms' = (if ToLower k = ''servicetype'' then Some (JStr d) else json_lookup k ms))
      \<Longrightarrow> (\<And>k. json_member k ms' = (if ToLower k = ''servicetype'' then JStr d else json_member k ms))
      \<Longrightarrow> DataOperation_DataTransfer_ValueByDiscriminator (Some (JObj ms')) = r"
  shows "\<exists>t. union_FromWith mg (JObj [(''serviceType'', JStr d)]) (JObj ms) = (t, None)
    \<and> DataOperation_DataTransfer_ValueByDiscriminator t = r"
proof -
  have "distinct_keys ms \<and> JStr d \<noteq> JNull" using assms(2) by simp
  with assms(1) [unfolded merge_patches_def, rule_format, of ms "JStr d" "''serviceType''"]
  obtain ms' where "mg (Some (JObj ms)) (JObj [(''serviceType'', JStr d)]) = Inr (JObj ms')"
    "\<And>k. json_lookup k ms' = (if ToLower k = ''servicetype'' then Some (JStr d) else json_lookup k ms)"
    "\<And>k. json_member k ms' = (if ToLower k = ''servicetype'' then JStr d else json_member k ms)"
    unfolding key_lower by blast
  then show ?thesis using assms(3) by (auto simp: union_FromWith_def union_Merge_def)
qed

lemmas discriminator_simps = DataOperation_DataTransfer_ValueByDiscriminator_def
  DataOperation_DataTransfer_Discriminator_def union_As_def codec_simps key_set_simps distinct_keys_simps

text \<open>The data transfer of a system keeps its alternative: a union that is made from one of the three
  alternatives is valued by its discriminator as that alternative again, with all its fields, and its
  service type is the one of the alternative whatever it was set to before.\<close>

lemma data_transfer_discriminated:
  assumes "merge_patches mg" "valid_S3DataTransfer s3" "valid_StreamerDataTransfer st"
  shows "(\<exists>t. DataOperation_DataTransfer_FromS3DataTransfer mg s3 = (t, None)
      \<and> DataOperation_DataTransfer_ValueByDiscriminator t = Inr (IsS3 (s3\<lparr> S3DataTransfer_ServiceType := ''s3'' \<rparr>)))
    \<and> (\<exists>t. DataOperation_DataTransfer_FromStreamerDataTransfer mg st = (t, None)
      \<and> DataOperation_DataTransfer_ValueByDiscriminator t = Inr (IsStreamer (st\<lparr> StreamerDataTransfer_ServiceType := ''streamer'' \<rparr>)))
    \<and> (\<exists>t. DataOperation_DataTransfer_FromWormholeDataTransfer mg wh = (t, None)
      \<and> DataOperation_DataTransfer_ValueByDiscriminator t = Inr (IsWormhole (wh\<lparr> WormholeDataTransfer_ServiceType := ''wormhole'' \<rparr>)))"
proof (intro conjI)
  show "\<exists>t. DataOperation_DataTransfer_FromS3DataTransfer mg s3 = (t, None)
      \<and> DataOperation_DataTransfer_ValueByDiscriminator t = Inr (IsS3 (s3\<lparr> S3DataTransfer_ServiceType := ''s3'' \<rparr>))"
    using assms(2) unfolding DataOperation_DataTransfer_FromS3DataTransfer_def encode_S3DataTransfer_def
    by (intro discriminated [OF assms(1)])
      (simp_all add: discriminator_simps DataOperation_DataTransfer_AsS3DataTransfer_def decode_S3DataTransfer_def
         valid_S3DataTransfer_def BucketLifecycleConfiguration_codec.pointer_read_back
         MultipartUpload_codec.pointer_read_back)
  show "\<exists>t. DataOperation_DataTransfer_FromStreamerDataTransfer mg st = (t, None)
      \<and> DataOperation_DataTransfer_ValueByDiscriminator t = Inr (IsStreamer (st\<lparr> StreamerDataTransfer_ServiceType := ''streamer'' \<rparr>))"
    using assms(3) unfolding DataOperation_DataTransfer_FromStreamerDataTransfer_def encode_StreamerDataTransfer_def
    by (intro discriminated [OF assms(1)])
      (simp_all add: discriminator_simps DataOperation_DataTransfer_AsStreamerDataTransfer_def
         decode_StreamerDataTransfer_def valid_StreamerDataTransfer_def)
  show "\<exists>t. DataOperation_DataTransfer_FromWormholeDataTransfer mg wh = (t, None)
      \<and> DataOperation_DataTransfer_ValueByDiscriminator t = Inr (IsWormhole (wh\<lparr> WormholeDataTransfer_ServiceType := ''wormhole'' \<rparr>))"
    unfolding DataOperation_DataTransfer_FromWormholeDataTransfer_def encode_WormholeDataTransfer_def
    by (intro discriminated [OF assms(1)])
      (simp_all add: discriminator_simps DataOperation_DataTransfer_AsWormholeDataTransfer_def
         decode_WormholeDataTransfer_def)
qed

text \<open>A merge that removes the member and appends the new one.\<close>

definition sample_merge :: json_merge where
  "sample_merge t patch =
     (case (t, patch) of
        (Some (JObj ms), JObj [(k, v)]) \<Rightarrow> Inr (JObj (filter (\<lambda>(k', _). ToLower k' \<noteq> ToLower k) ms @ [(k, v)]))
      | _ \<Rightarrow> Inl (Err ''not an object''))"

lemma sample_merge_patches: "merge_patches sample_merge"
proof -
  have "json_lookup k' (filter (\<lambda>(k', _). ToLower k' \<noteq> ToLower k) ms) =
      (if ToLower k' = ToLower k then None else json_lookup k' ms)"
    "json_member k' (filter (\<lambda>(k', _). ToLower k' \<noteq> ToLower k) ms) =
      (if ToLower k' = ToLower k then JNull else json_member k' ms)" for k k' ms
    by (induction ms) (auto simp: json_fields split: if_splits)
  then show ?thesis by (auto simp: merge_patches_def sample_merge_def json_fields)
qed

definition sample_s3 :: S3DataTransfer where
  "sample_s3 = \<lparr> S3DataTransfer_AccessKeyId = None, S3DataTransfer_BucketLifecycleConfiguration = None,
     S3DataTransfer_Multipart = None, S3DataTransfer_Name = ''s3'', S3DataTransfer_PrivateUrl = None,
     S3DataTransfer_PublicUrl = ''https://s3'', S3DataTransfer_Region = ''zrh'', S3DataTransfer_SecretAccessKey = None,
     S3DataTransfer_ServiceType = [], S3DataTransfer_Tenant = None, S3DataTransfer_Ttl = 60 \<rparr>"

definition sample_streamer :: StreamerDataTransfer where
  "sample_streamer = \<lparr> StreamerDataTransfer_Host = None, StreamerDataTransfer_InboundTransferLimit = None,
     StreamerDataTransfer_PortRange = None, StreamerDataTransfer_PublicIps = Some [''10.0.0.1''],
     StreamerDataTransfer_PypiIndexUrl = None, StreamerDataTransfer_ServiceType = [],
     StreamerDataTransfer_WaitTimeout = Some 5 \<rparr>"

lemma sample_data_transfer:
  "\<exists>t. DataOperation_DataTransfer_FromS3DataTransfer sample_merge sample_s3 = (t, None)
    \<and> DataOperation_DataTransfer_ValueByDiscriminator t = Inr (IsS3 (sample_s3\<lparr> S3DataTransfer_ServiceType := ''s3'' \<rparr>))"
proof -
  have "valid_S3DataTransfer sample_s3"
    by (simp add: valid_S3DataTransfer_def sample_s3_def int64_def)
  moreover have "valid_StreamerDataTransfer sample_streamer"
    by (simp add: valid_StreamerDataTransfer_def sample_streamer_def int64_def)
  ultimately show ?thesis using data_transfer_discriminated [OF sample_merge_patches] by blast
qed

end
