(* ===== verification/OpenAPI_Downgrade.thy ===== *)
theory OpenAPI_Downgrade
  imports Go_Action "HOL-Library.Char_ord" "HOL-Library.List_Lexorder"
begin

text \<open>
  The OpenAPI tool (\<^verbatim>\<open>src/tools/openapi_spec_downgrader/main.go\<close>), which rewrites a
  specification of version 3.1 so that generators for version 3.0 accept it: alternatives of
  type null become \<^verbatim>\<open>nullable\<close>, and an \<^verbatim>\<open>anyOf\<close> with one alternative is replaced by it.

  A decoded document is a \<open>ynode\<close>. A map is the list of its members by increasing key; Go walks
  a map in an order that changes from run to run, so the order of every walk is a parameter,
  which may differ from node to node.
\<close>

section \<open>Documents\<close>

datatype ynode =
    YMap "(string \<times> ynode) list"
  | YArr "ynode list"
  | YStr string
  | YBool bool
  | YNum string
  | YNull

type_synonym ymap = "(string \<times> ynode) list"

text \<open>The place of a node in the document, innermost step first, and the orders of the walks.\<close>

datatype ystep = YKey string | YIdx nat

type_synonym map_ranges = "ystep list \<Rightarrow> string list \<Rightarrow> string list"

text \<open>\<open>m[k] = v\<close> and \<open>m[k]\<close>; an absent key reads as nil.\<close>

fun map_put :: "string \<Rightarrow> 'v \<Rightarrow> (string \<times> 'v) list \<Rightarrow> (string \<times> 'v) list" where
  "map_put k v [] = [(k, v)]"
| "map_put k v ((k', v') # m) =
     (if k = k' then (k, v) # m
      else if k < k' then (k, v) # (k', v') # m
      else (k', v') # map_put k v m)"

definition ymap_get :: "ymap \<Rightarrow> string \<Rightarrow> ynode" where
  "ymap_get m k = (case map_of m k of Some v \<Rightarrow> v | None \<Rightarrow> YNull)"

section \<open>The transformation\<close>

fun isTypeNull :: "ynode \<Rightarrow> bool" where
  "isTypeNull (YMap m) \<longleftrightarrow> ymap_get m ''type'' = YStr ''null''"
| "isTypeNull _ \<longleftrightarrow> False"

fun makeNullable :: "ynode \<Rightarrow> ynode result" where
  "makeNullable (YMap m) = Inr (YMap (map_put ''nullable'' (YBool True) m))"
| "makeNullable _ = Inl (Err ''cannot make non-map node nullable'')"

text \<open>The result is the replacement, if there is one.\<close>

fun simplifyAnyOf :: "ynode \<Rightarrow> ymap option result" where
  "simplifyAnyOf (YArr xs) = Inr (case xs of [YMap m] \<Rightarrow> Some m | _ \<Rightarrow> None)"
| "simplifyAnyOf _ = Inl (Err ''anyOf node should contain a list'')"

fun put_all :: "ymap \<Rightarrow> string list \<Rightarrow> ymap \<Rightarrow> ymap" where
  "put_all tt [] out = out"
| "put_all tt (subKey # ks) out = put_all tt ks (map_put subKey (ymap_get tt subKey) out)"

text \<open>
  The loop of \<^verbatim>\<open>transformMap\<close>. The member of a key is transformed when the loop reaches it: what
  \<open>ts\<close> holds is the result that the call has, and the first error in the order of the walk is
  the one returned.
\<close>

fun map_loop :: "string list \<Rightarrow> (string \<rightharpoonup> ynode result) \<Rightarrow> (string list \<Rightarrow> string list) \<Rightarrow> ymap
  \<Rightarrow> ymap result" where
  "map_loop [] ts sub out = Inr out"
| "map_loop (key # ks) ts sub out =
     bindE (case ts key of Some r \<Rightarrow> r | None \<Rightarrow> Inr YNull) (\<lambda>t.
     if key = ''anyOf'' then
       bindE (simplifyAnyOf t) (\<lambda>s.
       case s of
         Some tt \<Rightarrow> map_loop ks ts sub (put_all tt (sub (map fst tt)) out)
       | None \<Rightarrow> map_loop ks ts sub (map_put key t out))
     else map_loop ks ts sub (map_put key t out))"

function (sequential)
  transformNode :: "map_ranges \<Rightarrow> ystep list \<Rightarrow> ynode \<Rightarrow> ynode result"
  and transformMap :: "map_ranges \<Rightarrow> ystep list \<Rightarrow> ymap \<Rightarrow> ymap result"
  and transformMembers :: "map_ranges \<Rightarrow> ystep list \<Rightarrow> ymap \<Rightarrow> (string \<times> ynode result) list"
  and transformArray :: "map_ranges \<Rightarrow> ystep list \<Rightarrow> ynode list \<Rightarrow> ynode list result"
  and transformElems :: "map_ranges \<Rightarrow> ystep list \<Rightarrow> nat \<Rightarrow> ynode list \<Rightarrow> (bool \<times> ynode list) result"
where
  "transformNode ord p (YMap m) = bindE (transformMap ord p m) (\<lambda>out. Inr (YMap out))"
| "transformNode ord p (YArr xs) = bindE (transformArray ord p xs) (\<lambda>out. Inr (YArr out))"
| "transformNode ord p n = Inr n"
| "transformMap ord p m =
     map_loop (ord p (map fst m)) (map_of (transformMembers ord p m)) (ord (YKey ''anyOf'' # p)) []"
| "transformMembers ord p [] = []"
| "transformMembers ord p ((k, v) # m) =
     (k, transformNode ord (YKey k # p) v) # transformMembers ord p m"
| "transformArray ord p xs =
     bindE (transformElems ord p 0 xs) (\<lambda>(hasTypeNull, out).
     if hasTypeNull then traverseE makeNullable out else Inr out)"
| "transformElems ord p i [] = Inr (False, [])"
| "transformElems ord p i (x # xs) =
     (if isTypeNull x then bindE (transformElems ord p (Suc i) xs) (\<lambda>(_, out). Inr (True, out))
      else bindE (transformNode ord (YIdx i # p) x) (\<lambda>t.
           bindE (transformElems ord p (Suc i) xs) (\<lambda>(h, out). Inr (h, t # out))))"
  by pat_completeness auto

termination
  by (relation "measure (\<lambda>x. case x of
       Inl (Inl (_, _, n)) \<Rightarrow> 2 * size n
     | Inl (Inr (_, _, m)) \<Rightarrow> Suc (2 * size_list (size_prod (\<lambda>_. 0) size) m)
     | Inr (Inl (_, _, m)) \<Rightarrow> 2 * size_list (size_prod (\<lambda>_. 0) size) m
     | Inr (Inr (Inl (_, _, xs))) \<Rightarrow> Suc (2 * size_list size xs)
     | Inr (Inr (Inr (_, _, _, xs))) \<Rightarrow> 2 * size_list size xs)") auto

section \<open>The command\<close>

text \<open>
  What the command is given: files, and the YAML library. \<open>os_Unmarshal\<close> decodes into a map (the
  text \<^verbatim>\<open>null\<close> into an empty one). An error ends the process through \<^verbatim>\<open>log.Fatalln\<close>.
\<close>

record 'w downgrade_host =
  dh_ReadFile :: "string \<Rightarrow> ('w, string) action"
  dh_WriteFile :: "string \<Rightarrow> string \<Rightarrow> ('w, unit) action"
  dh_Unmarshal :: "string \<Rightarrow> ymap result"
  dh_Marshal :: "ynode \<Rightarrow> string result"
  dh_ranges :: map_ranges

definition downgrade_run :: "'w downgrade_host \<Rightarrow> string \<Rightarrow> string \<Rightarrow> ('w, unit) action" where
  "downgrade_run h input output =
     bindA (dh_ReadFile h input) (\<lambda>contents.
     bindA (liftE (dh_Unmarshal h contents)) (\<lambda>doc.
     bindA (liftE (transformNode (dh_ranges h) [] (YMap doc))) (\<lambda>transformed.
     bindA (liftE (dh_Marshal h transformed)) (\<lambda>newContents.
     dh_WriteFile h output newContents))))"

text \<open>The flags: both are required, so cobra refuses to run without them.\<close>

definition downgrade_command ::
  "'w downgrade_host \<Rightarrow> (string \<rightharpoonup> string) \<Rightarrow> ('w, unit) action" where
  "downgrade_command h flags =
     (case (flags ''in'', flags ''out'') of
        (Some i, Some out) \<Rightarrow> downgrade_run h i out
      | _ \<Rightarrow> failA (Err (''required flag(s) ''
          @ str_Join (map go_quote (List.filter (\<lambda>f. flags f = None) [''in'', ''out''])) '', ''
          @ '' not set'')))"

end
