(* ===== verification/OpenAPI_Props.thy ===== *)
theory OpenAPI_Props
  imports OpenAPI_Downgrade
begin

text \<open>
  The OpenAPI tool: what its output looks like, that running it again changes nothing, and when
  the output does not depend on the order in which Go walks a map.
\<close>

section \<open>Maps in increasing key order\<close>

definition sorted_keys :: "(string \<times> 'v) list \<Rightarrow> bool" where
  "sorted_keys m \<longleftrightarrow> sorted_wrt (<) (map fst m)"

lemma sorted_keys_simps [simp]:
  "sorted_keys []"
  "sorted_keys ((k, v) # m) \<longleftrightarrow> (\<forall>k'\<in>fst ` set m. k < k') \<and> sorted_keys m"
  by (auto simp: sorted_keys_def)

lemma sorted_keys_distinct: "sorted_keys m \<Longrightarrow> distinct (map fst m)"
  by (simp add: sorted_keys_def strict_sorted_iff)

lemma keys_map_put [simp]: "fst ` set (map_put k v m) = insert k (fst ` set m)"
  by (induction k v m rule: map_put.induct) (simp, simp add: insert_commute)

lemma sorted_map_put [simp]: "sorted_keys m \<Longrightarrow> sorted_keys (map_put k v m)"
proof (induction k v m rule: map_put.induct)
  case (2 k v k' v' m)
  then show ?case by (cases k k' rule: linorder_cases) (auto dest: order.strict_trans)
qed simp

lemma map_of_map_put [simp]: "map_of (map_put k v m) = (map_of m)(k \<mapsto> v)"
  by (induction m) auto

lemma set_map_put: "set (map_put k v m) \<subseteq> insert (k, v) (set m)"
  by (induction k v m rule: map_put.induct) auto

lemma sorted_keys_unique:
  assumes "sorted_keys m" "sorted_keys m'" "map_of m = map_of m'"
  shows "m = m'"
proof -
  have "set m = set m'"
    using assms map_of_eq_Some_iff [OF sorted_keys_distinct [OF assms(1)]]
      map_of_eq_Some_iff [OF sorted_keys_distinct [OF assms(2)]] by auto
  then show ?thesis
    using assms(1,2) sorted_keys_distinct
    by (intro map_sorted_distinct_set_unique [of fst])
       (auto simp: sorted_keys_def strict_sorted_iff inj_on_def dest: eq_key_imp_eq_value)
qed

text \<open>Go visits every key of a map once, in some order.\<close>

definition walks :: "map_ranges \<Rightarrow> bool" where
  "walks ord \<longleftrightarrow> (\<forall>p ks. distinct ks \<longrightarrow> distinct (ord p ks) \<and> set (ord p ks) = set ks)"


lemma walks_keys:
  assumes "walks ord" "sorted_keys m"
  shows "distinct (ord p (map fst m))" "set (ord p (map fst m)) = fst ` set m"
  using assms sorted_keys_distinct [OF assms(2)] by (simp_all add: walks_def)

section \<open>The loops\<close>

lemma sorted_put_all [simp]: "sorted_keys out \<Longrightarrow> sorted_keys (put_all tt ks out)"
  by (induction ks arbitrary: out) auto

lemma map_of_put_all:
  "set ks \<subseteq> fst ` set tt \<Longrightarrow>
   map_of (put_all tt ks out) = map_of out ++ (map_of tt |` set ks)"
proof (induction ks arbitrary: out)
  case (Cons k ks)
  then obtain v where "map_of tt k = Some v" by (force simp: map_of_eq_None_iff dest: weak_map_of_SomeI)
  with Cons show ?case
    by (auto simp: ymap_get_def fun_eq_iff map_add_def restrict_map_def split: option.splits)
qed simp

lemma restrict_map_of: "map_of m |` (fst ` set m) = map_of m"
proof
  show "(map_of m |` (fst ` set m)) x = map_of m x" for x
    using map_of_eq_None_iff [of m x] by (cases "x \<in> fst ` set m") auto
qed

text \<open>What a key adds to the output.\<close>

definition contribution :: "(string \<rightharpoonup> ynode result) \<Rightarrow> string \<Rightarrow> (string \<rightharpoonup> ynode) result" where
  "contribution ts key =
     bindE (case ts key of Some r \<Rightarrow> r | None \<Rightarrow> Inr YNull) (\<lambda>t.
     if key = ''anyOf'' then
       bindE (simplifyAnyOf t) (\<lambda>s. Inr (case s of Some tt \<Rightarrow> map_of tt | None \<Rightarrow> [key \<mapsto> t]))
     else Inr [key \<mapsto> t])"

definition copies :: "(string list \<Rightarrow> string list) \<Rightarrow> bool" where
  "copies sub \<longleftrightarrow> (\<forall>m :: ymap. sorted_keys m \<longrightarrow> set (sub (map fst m)) = fst ` set m)"

definition sorted_results :: "(string \<rightharpoonup> ynode result) \<Rightarrow> bool" where
  "sorted_results ts \<longleftrightarrow> (\<forall>k m. ts k = Some (Inr (YArr [YMap m])) \<longrightarrow> sorted_keys m)"

lemma simplifyAnyOf_Some: "simplifyAnyOf t = Inr (Some tt) \<longleftrightarrow> t = YArr [YMap tt]"
  by (cases t) (auto split: list.splits ynode.splits)

text \<open>One turn of the loop.\<close>

lemma map_loop_step:
  assumes "copies sub" "sorted_results ts"
  shows "(contribution ts key = Inl e \<longrightarrow> map_loop (key # ks) ts sub out = Inl e) \<and>
    (contribution ts key = Inr c \<longrightarrow> (\<exists>out'. map_loop (key # ks) ts sub out = map_loop ks ts sub out'
       \<and> map_of out' = map_of out ++ c \<and> (sorted_keys out \<longrightarrow> sorted_keys out')))"
proof (cases "ts key")
  case None
  then show ?thesis by (auto simp: contribution_def)
next
  case (Some r)
  show ?thesis
  proof (cases r)
    case (Inr t)
    show ?thesis
    proof (cases "key = ''anyOf'' \<and> (\<exists>tt. simplifyAnyOf t = Inr (Some tt))")
      case True
      then obtain tt where tt: "key = ''anyOf''" "t = YArr [YMap tt]" by (auto simp: simplifyAnyOf_Some)
      then have "sorted_keys tt" using assms(2) Some Inr by (simp add: sorted_results_def)
      then have "set (sub (map fst tt)) = fst ` set tt" using assms(1) by (simp add: copies_def)
      then have "map_of (put_all tt (sub (map fst tt)) out) = map_of out ++ map_of tt"
        by (simp add: map_of_put_all restrict_map_of)
      then show ?thesis
        using tt Some Inr by (auto simp: contribution_def)
    next
      case False
      then show ?thesis
        using Some Inr by (cases "simplifyAnyOf t")
          (auto simp: contribution_def split: option.splits if_splits)
    qed
  qed (use Some in \<open>simp add: contribution_def\<close>)
qed

lemma map_loop_success:
  assumes "copies sub" "sorted_results ts"
  shows "(\<exists>r. map_loop ks ts sub out = Inr r) \<longleftrightarrow> (\<forall>k\<in>set ks. \<exists>c. contribution ts k = Inr c)"
proof (induction ks arbitrary: out)
  case (Cons k ks)
  then show ?case
    using map_loop_step [OF assms, of k _ ks out]
    by (cases "contribution ts k") (auto, metis+)
qed simp

lemma map_loop_sorted:
  assumes "copies sub" "sorted_results ts" "map_loop ks ts sub out = Inr r" "sorted_keys out"
  shows "sorted_keys r"
  using assms(3,4)
proof (induction ks arbitrary: out)
  case (Cons k ks)
  then show ?case
    using map_loop_step [OF assms(1,2), of k _ ks out] by (cases "contribution ts k") (auto, metis+)
qed simp

text \<open>Every entry of the result is one of the entries that a key adds.\<close>

lemma map_loop_entry:
  assumes "copies sub" "sorted_results ts" "map_loop ks ts sub out = Inr r" "map_of r x = Some v"
  shows "map_of out x = Some v \<or> (\<exists>k\<in>set ks. \<exists>c. contribution ts k = Inr c \<and> c x = Some v)"
  using assms(3)
proof (induction ks arbitrary: out)
  case (Cons k ks)
  show ?case
  proof (cases "contribution ts k")
    case (Inr c)
    with map_loop_step [OF assms(1,2), of k _ ks out] Cons.prems obtain out'
      where "map_loop ks ts sub out' = Inr r" "map_of out' = map_of out ++ c" by metis
    with Cons.IH [of out'] Inr show ?thesis by (auto simp: map_add_Some_iff)
  qed (use map_loop_step [OF assms(1,2), of k _ ks out] Cons.prems in auto)
qed (use assms(4) in simp)


section \<open>The output\<close>

text \<open>
  A downgraded document: no list has an alternative of type null, and no \<^verbatim>\<open>anyOf\<close> is a list of
  one schema, or no list at all.
\<close>

fun downgraded :: "ynode \<Rightarrow> bool"
  and downgraded_members :: "ymap \<Rightarrow> bool"
  and downgraded_elems :: "ynode list \<Rightarrow> bool" where
  "downgraded (YMap m) \<longleftrightarrow> sorted_keys m \<and> downgraded_members m"
| "downgraded (YArr xs) \<longleftrightarrow> downgraded_elems xs"
| "downgraded _ \<longleftrightarrow> True"
| "downgraded_members [] \<longleftrightarrow> True"
| "downgraded_members ((k, v) # m) \<longleftrightarrow>
     downgraded v \<and> (k = ''anyOf'' \<longrightarrow> simplifyAnyOf v = Inr None) \<and> downgraded_members m"
| "downgraded_elems [] \<longleftrightarrow> True"
| "downgraded_elems (x # xs) \<longleftrightarrow> downgraded x \<and> \<not> isTypeNull x \<and> downgraded_elems xs"

lemma downgraded_members_iff:
  "downgraded_members m \<longleftrightarrow> (\<forall>(k, v)\<in>set m. downgraded v \<and> (k = ''anyOf'' \<longrightarrow> simplifyAnyOf v = Inr None))"
  by (induction m) auto

lemma downgraded_elems_iff: "downgraded_elems xs \<longleftrightarrow> (\<forall>x\<in>set xs. downgraded x \<and> \<not> isTypeNull x)"
  by (induction xs) auto

text \<open>What the loop over a map gets from its members and what it makes of them.\<close>

definition good_results :: "(string \<rightharpoonup> ynode result) \<Rightarrow> bool" where
  "good_results ts \<longleftrightarrow> (\<forall>k t. ts k = Some (Inr t) \<longrightarrow> downgraded t)"

lemma good_sorted: "good_results ts \<Longrightarrow> sorted_results ts"
  by (fastforce simp: good_results_def sorted_results_def)

lemma good_contribution:
  assumes "good_results ts" "contribution ts k = Inr c" "c x = Some v"
  shows "downgraded v \<and> (x = ''anyOf'' \<longrightarrow> simplifyAnyOf v = Inr None)"
proof -
  obtain t where t: "(case ts k of Some r \<Rightarrow> r | None \<Rightarrow> Inr YNull) = Inr t" "downgraded t"
    using assms by (cases "ts k") (auto simp: contribution_def good_results_def bindE_Inr_iff)
  show ?thesis
  proof (cases "\<exists>tt. k = ''anyOf'' \<and> simplifyAnyOf t = Inr (Some tt)")
    case True
    then obtain tt where tt: "k = ''anyOf''" "t = YArr [YMap tt]" by (auto simp: simplifyAnyOf_Some)
    then have "map_of tt x = Some v" using assms t by (simp add: contribution_def)
    with t tt show ?thesis by (auto simp: downgraded_members_iff dest!: map_of_SomeD)
  next
    case False
    then show ?thesis
      using assms t
      by (cases "simplifyAnyOf t") (auto simp: contribution_def split: if_splits option.splits)
  qed
qed

lemma map_loop_downgraded:
  assumes "copies sub" "good_results ts" "map_loop ks ts sub [] = Inr r"
  shows "downgraded (YMap r)"
proof -
  have sorted: "sorted_keys r"
    by (rule map_loop_sorted [OF assms(1) good_sorted [OF assms(2)] assms(3)]) simp
  have "downgraded v \<and> (x = ''anyOf'' \<longrightarrow> simplifyAnyOf v = Inr None)" if "(x, v) \<in> set r" for x v
  proof -
    have "map_of r x = Some v" using that sorted sorted_keys_distinct by force
    from map_loop_entry [OF assms(1) good_sorted [OF assms(2)] assms(3) this]
    show ?thesis using good_contribution [OF assms(2)] by auto
  qed
  with sorted show ?thesis by (auto simp: downgraded_members_iff)
qed

lemma walks_copies: "walks ord \<Longrightarrow> copies (ord p)"
  by (auto simp: copies_def walks_keys)

lemma makeNullable_downgraded:
  assumes "makeNullable t = Inr t'" "downgraded t"
  shows "downgraded t' \<and> (isTypeNull t' \<longleftrightarrow> isTypeNull t)"
proof (cases t)
  case (YMap m)
  have "(k, v) \<in> set m \<or> k = ''nullable'' \<and> v = YBool True"
    if "(k, v) \<in> set (map_put ''nullable'' (YBool True) m)" for k v
    using that set_map_put [of "''nullable''" "YBool True" m] by auto
  then have "downgraded_members (map_put ''nullable'' (YBool True) m)"
    using assms(2) YMap by (fastforce simp: downgraded_members_iff)
  with assms YMap show ?thesis by (auto simp: ymap_get_def)
qed (use assms in auto)

lemma traverse_makeNullable:
  "traverseE makeNullable xs = Inr ys \<Longrightarrow> downgraded_elems xs \<Longrightarrow> downgraded_elems ys"
  by (induction xs arbitrary: ys) (auto simp: bindE_Inr_iff dest: makeNullable_downgraded)

lemma isTypeNull_iff: "isTypeNull n \<longleftrightarrow> (\<exists>m. n = YMap m \<and> map_of m ''type'' = Some (YStr ''null''))"
  by (cases n) (auto simp: ymap_get_def split: option.splits)

lemma contribution_type:
  assumes "contribution ts k = Inr c" "c ''type'' = Some v"
    and "\<And>m. ts ''anyOf'' = Some (Inr (YArr [YMap m])) \<Longrightarrow> \<not> isTypeNull (YMap m)" "v = YStr ''null''"
  shows "k = ''type'' \<and> ts k = Some (Inr v)"
proof (cases "k = ''anyOf''")
  case True
  then show ?thesis
    using assms by (cases "ts k")
      (auto simp: contribution_def bindE_Inr_iff isTypeNull_iff simplifyAnyOf_Some split: option.splits)
next
  case False
  then show ?thesis
    using assms by (cases "ts k") (auto simp: contribution_def bindE_Inr_iff split: if_splits)
qed

lemma map_of_transformMembers:
  "map_of (transformMembers ord p m) k = map_option (transformNode ord (YKey k # p)) (map_of m k)"
  by (induction m) auto


lemma transformNode_YStr: "transformNode ord p n = Inr (YStr s) \<longleftrightarrow> n = YStr s"
  by (cases n) (auto simp: bindE_Inr_iff)

text \<open>The loop over a map does not make it a schema of type null.\<close>

lemma map_loop_type:
  assumes "copies sub" "good_results ts" "map_loop ks ts sub [] = Inr r" "isTypeNull (YMap r)"
  shows "ts ''type'' = Some (Inr (YStr ''null''))"
proof -
  have null: "\<not> isTypeNull (YMap m)" if "ts ''anyOf'' = Some (Inr (YArr [YMap m]))" for m
    using assms(2) that by (fastforce simp: good_results_def)
  have "map_of r ''type'' = Some (YStr ''null'')" using assms(4) by (simp add: isTypeNull_iff)
  from map_loop_entry [OF assms(1) good_sorted [OF assms(2)] assms(3) this]
  show ?thesis using contribution_type [OF _ _ null] by auto
qed

lemma transform_downgraded:
  assumes "walks ord"
  shows "transformNode ord p n = Inr n' \<Longrightarrow> downgraded n' \<and> (isTypeNull n' \<longrightarrow> isTypeNull n)"
    and "transformMap ord p m = Inr m' \<Longrightarrow> downgraded (YMap m') \<and> (isTypeNull (YMap m') \<longrightarrow> isTypeNull (YMap m))"
    and "good_results (map_of (transformMembers ord p m))"
    and "transformArray ord p xs = Inr xs' \<Longrightarrow> downgraded_elems xs'"
    and "transformElems ord p i xs = Inr (h, xs') \<Longrightarrow> downgraded_elems xs'"
  using assms
proof (induction ord p n and ord p m and ord p m and ord p xs and ord p i xs
    arbitrary: n' and m' and and xs' and h xs'
    rule: transformNode_transformMap_transformMembers_transformArray_transformElems.induct)
  case (4 ord p m)
  have good: "good_results (map_of (transformMembers ord p m))" using 4 by blast
  note loop = walks_copies [OF "4.prems"(2)] good "4.prems"(1) [unfolded transformMap.simps]
  have "isTypeNull (YMap m)" if "isTypeNull (YMap m')"
    using map_loop_type [OF loop that]
    by (auto simp: map_of_transformMembers isTypeNull_iff transformNode_YStr)
  with map_loop_downgraded [OF loop] show ?case by blast
next
  case (6 ord p k v m)
  then show ?case by (auto simp: good_results_def split: if_splits)
next
  case (7 ord p xs)
  then obtain h out where "transformElems ord p 0 xs = Inr (h, out)"
    "(if h then traverseE makeNullable out else Inr out) = Inr xs'"
    by (auto simp: bindE_Inr_iff)
  with 7 traverse_makeNullable show ?case by (metis old.sum.inject(2))
next
  case (9 ord p i x xs)
  then show ?case by (auto simp: bindE_Inr_iff split: if_splits)
qed (auto simp: bindE_Inr_iff good_results_def)


section \<open>The result of a walk\<close>

text \<open>
  When the entries that the keys add do not contradict each other, the result of the loop is
  their union, whatever the order.
\<close>

definition entries :: "(string \<rightharpoonup> ynode result) \<Rightarrow> string set \<Rightarrow> (string \<times> ynode) set" where
  "entries ts K = (\<Union>k\<in>K. case contribution ts k of Inr c \<Rightarrow> Map.graph c | Inl _ \<Rightarrow> {})"

lemma in_entries:
  "(x, v) \<in> entries ts K \<longleftrightarrow> (\<exists>k\<in>K. \<exists>c. contribution ts k = Inr c \<and> c x = Some v)"
proof -
  have "(x, v) \<in> (case contribution ts k of Inr c \<Rightarrow> Map.graph c | Inl _ \<Rightarrow> {}) \<longleftrightarrow>
    (\<exists>c. contribution ts k = Inr c \<and> c x = Some v)" for k
    by (cases "contribution ts k") (auto simp: graph_def)
  then show ?thesis by (simp add: entries_def)
qed

lemma graph_compatible_add:
  assumes "single_valued (Map.graph m \<union> Map.graph c)"
  shows "Map.graph (m ++ c) = Map.graph m \<union> Map.graph c"
  using assms by (auto simp: graph_def map_add_Some_iff single_valued_def) (metis option.exhaust)

lemma map_loop_union:
  assumes "copies sub" "sorted_results ts" "map_loop ks ts sub out = Inr r"
    and "single_valued (Map.graph (map_of out) \<union> entries ts (set ks))"
  shows "Map.graph (map_of r) = Map.graph (map_of out) \<union> entries ts (set ks)"
  using assms(3,4)
proof (induction ks arbitrary: out)
  case Nil
  then show ?case by (simp add: entries_def)
next
  case (Cons k ks)
  show ?case
  proof (cases "contribution ts k")
    case (Inr c)
    with map_loop_step [OF assms(1,2), of k _ ks out] Cons.prems obtain out'
      where out': "map_loop ks ts sub out' = Inr r" "map_of out' = map_of out ++ c" by metis
    have split: "entries ts (set (k # ks)) = Map.graph c \<union> entries ts (set ks)"
      using Inr by (simp add: entries_def)
    have graph: "Map.graph (map_of out') = Map.graph (map_of out) \<union> Map.graph c"
      unfolding out'(2) by (rule graph_compatible_add) (use Cons.prems(2) split in \<open>auto intro: single_valued_subset\<close>)
    show ?thesis
      using Cons.IH [OF out'(1)] Cons.prems(2) unfolding graph split by (simp add: Un_assoc)
  qed (use map_loop_step [OF assms(1,2), of k _ ks out] Cons.prems in auto)
qed

lemma graph_unique:
  assumes "Map.graph (map_of m) = Map.graph (map_of m')" "sorted_keys m" "sorted_keys m'"
  shows "m = m'"
proof (rule sorted_keys_unique [OF assms(2,3)])
  have "map_of m x = Some v \<longleftrightarrow> map_of m' x = Some v" for x v
    using assms(1) in_graphD in_graphI by metis
  then show "map_of m = map_of m'" by (metis ext not_None_eq)
qed

section \<open>Running the tool again\<close>

lemma contribution_kept:
  assumes "ts k = Some (Inr v)" "k = ''anyOf'' \<longrightarrow> simplifyAnyOf v = Inr None"
  shows "contribution ts k = Inr [k \<mapsto> v]"
  using assms by (simp add: contribution_def)

lemma map_loop_kept:
  assumes "copies sub" "downgraded (YMap m)" "set ks = fst ` set m"
    and ts: "ts = map_of (map (\<lambda>(k, v). (k, Inr v)) m)"
  shows "map_loop ks ts sub [] = Inr m"
proof -
  have good: "good_results ts"
    using assms(2) by (auto simp: good_results_def ts map_of_map downgraded_members_iff dest!: map_of_SomeD)
  note sorted = good_sorted [OF good]
  have m: "sorted_keys m" "distinct (map fst m)" using assms(2) sorted_keys_distinct by auto
  have kept: "contribution ts k = Inr [k \<mapsto> v]" if "(k, v) \<in> set m" for k v
    using that assms(2) m(2)
    by (intro contribution_kept) (auto simp: ts map_of_map downgraded_members_iff)
  have set_m: "entries ts (set ks) = set m"
    using kept unfolding entries_def assms(3) by (fastforce simp: graph_def split: if_splits)
  have "single_valued (set m)" using m(2) by (auto simp: single_valued_def dest: eq_key_imp_eq_value)
  moreover obtain r where r: "map_loop ks ts sub [] = Inr r"
    using map_loop_success [OF assms(1) sorted, of ks "[]"] kept assms(3) by fastforce
  ultimately have "Map.graph (map_of r) = Map.graph (map_of m)"
    using map_loop_union [OF assms(1) sorted r] set_m m(2)
    by (simp add: graph_map_of_if_distinct_dom)
  with r m(1) map_loop_sorted [OF assms(1) sorted r] show ?thesis by (auto dest: graph_unique)
qed

lemma transform_kept:
  assumes "walks ord"
  shows "downgraded n \<Longrightarrow> transformNode ord p n = Inr n"
    and "downgraded (YMap m) \<Longrightarrow> transformMap ord p m = Inr m"
    and "downgraded_members m \<Longrightarrow> transformMembers ord p m = map (\<lambda>(k, v). (k, Inr v)) m"
    and "downgraded_elems xs \<Longrightarrow> transformArray ord p xs = Inr xs"
    and "downgraded_elems xs \<Longrightarrow> transformElems ord p i xs = Inr (False, xs)"
  using assms
proof (induction ord p n and ord p m and ord p m and ord p xs and ord p i xs
    rule: transformNode_transformMap_transformMembers_transformArray_transformElems.induct)
  case (4 ord p m)
  then show ?case by (auto intro!: map_loop_kept walks_copies walks_keys)
qed auto

text \<open>C18: What the tool makes of a document is in the form that generators for version 3.0 need, in
  whatever order Go walks the maps: no list of the result has an alternative of type null, every
  \<^verbatim>\<open>anyOf\<close> is a list of no, of several, or of non-map alternatives, at every depth; and transforming the
  result again, with the maps walked in any other order, changes nothing.\<close>

theorem transform_normalises:
  assumes "walks ord" "walks ord'" "transformNode ord p n = Inr n'"
  shows "downgraded n' \<and> transformNode ord' q n' = Inr n'"
  using transform_downgraded(1) [OF assms(1,3)] transform_kept(1) [OF assms(2)] by blast


section \<open>A small schema\<close>

definition in_order :: map_ranges where
  "in_order = (\<lambda>_ ks. ks)"

definition in_reverse :: map_ranges where
  "in_reverse = (\<lambda>_. rev)"

lemma walks_samples: "walks in_order" "walks in_reverse"
  by (simp_all add: walks_def in_order_def in_reverse_def)

definition optional_name :: ynode where
  "optional_name = YMap
     [(''anyOf'', YArr [YMap [(''maxLength'', YNum ''9''), (''type'', YStr ''string'')],
                        YMap [(''type'', YStr ''null'')]]),
      (''description'', YStr ''a name'')]"

definition downgraded_name :: ynode where
  "downgraded_name = YMap
     [(''description'', YStr ''a name''), (''maxLength'', YNum ''9''),
      (''nullable'', YBool True), (''type'', YStr ''string'')]"

lemma optional_name_downgraded: "transformNode in_reverse [] optional_name = Inr downgraded_name"
  by code_simp

theorem transform_normalises_witness:
  "transformNode in_reverse [] optional_name = Inr downgraded_name \<and>
   downgraded downgraded_name \<and> transformNode in_order [] downgraded_name = Inr downgraded_name"
  using transform_normalises [OF walks_samples(2,1) optional_name_downgraded, of "[]"]
    optional_name_downgraded by blast

section \<open>The order of the walks\<close>

text \<open>
  The keys of the schema that replaces an \<^verbatim>\<open>anyOf\<close> are not keys of the map that has the
  \<^verbatim>\<open>anyOf\<close>, at every depth.
\<close>

definition no_clash :: "ymap \<Rightarrow> bool" where
  "no_clash m \<longleftrightarrow>
     (case map_of m ''anyOf'' of
        None \<Rightarrow> True
      | Some v \<Rightarrow> (case transformNode in_order [] v of
                     Inr (YArr [YMap tt]) \<Rightarrow> (\<forall>k\<in>fst ` set m. k = ''anyOf'' \<or> k \<notin> fst ` set tt)
                   | _ \<Rightarrow> True))"

fun clash_free :: "ynode \<Rightarrow> bool"
  and clash_free_members :: "ymap \<Rightarrow> bool"
  and clash_free_elems :: "ynode list \<Rightarrow> bool" where
  "clash_free (YMap m) \<longleftrightarrow> sorted_keys m \<and> no_clash m \<and> clash_free_members m"
| "clash_free (YArr xs) \<longleftrightarrow> clash_free_elems xs"
| "clash_free _ \<longleftrightarrow> True"
| "clash_free_members [] \<longleftrightarrow> True"
| "clash_free_members ((k, v) # m) \<longleftrightarrow> clash_free v \<and> clash_free_members m"
| "clash_free_elems [] \<longleftrightarrow> True"
| "clash_free_elems (x # xs) \<longleftrightarrow> clash_free x \<and> clash_free_elems xs"

definition same_success :: "('e + 'a) \<Rightarrow> ('e + 'a) \<Rightarrow> bool" where
  "same_success r r' \<longleftrightarrow> (\<forall>x. r = Inr x \<longleftrightarrow> r' = Inr x)"

lemma same_success_bind:
  "same_success m m' \<Longrightarrow> (\<And>x. same_success (f x) (f' x)) \<Longrightarrow> same_success (bindE m f) (bindE m' f')"
  by (auto simp: same_success_def bindE_Inr_iff)

lemma same_success_simps [simp]:
  "same_success r r"
  "same_success (Inr x) (Inr y) \<longleftrightarrow> x = y"
  "\<not> same_success (Inl e) (Inr y)"
  "\<not> same_success (Inr x) (Inl e')"
  by (auto simp: same_success_def)

text \<open>Two loops that see the same keys and the same results.\<close>

definition same_results :: "(string \<rightharpoonup> ynode result) \<Rightarrow> (string \<rightharpoonup> ynode result) \<Rightarrow> bool" where
  "same_results ts ts' \<longleftrightarrow> (\<forall>k. rel_option same_success (ts k) (ts' k))"

lemma same_results_Some:
  assumes "same_results ts ts'"
  shows "ts k = Some (Inr t) \<longleftrightarrow> ts' k = Some (Inr t)"
  using assms by (cases "ts k"; cases "ts' k") (auto simp: same_results_def same_success_def dest!: spec [of _ k])

lemma same_contribution:
  assumes "same_results ts ts'"
  shows "same_success (contribution ts k) (contribution ts' k)"
  using assms unfolding contribution_def
  by (intro same_success_bind) (auto simp: same_results_def dest!: spec [of _ k] split: option.splits)

lemma same_entries:
  assumes "same_results ts ts'"
  shows "entries ts K = entries ts' K"
proof -
  have "(case contribution ts k of Inr c \<Rightarrow> Map.graph c | Inl _ \<Rightarrow> {}) =
        (case contribution ts' k of Inr c \<Rightarrow> Map.graph c | Inl _ \<Rightarrow> {})" for k
    using same_contribution [OF assms, of k]
    by (cases "contribution ts k"; cases "contribution ts' k") auto
  then show ?thesis by (simp add: entries_def)
qed

lemma map_loop_same:
  assumes "copies sub" "copies sub'" "sorted_results ts" "sorted_results ts'"
    and "same_results ts ts'" "set ks = set ks'" "single_valued (entries ts (set ks))"
  shows "same_success (map_loop ks ts sub []) (map_loop ks' ts' sub' [])"
proof -
  have "r = r'" if "map_loop ks ts sub [] = Inr r" "map_loop ks' ts' sub' [] = Inr r'" for r r'
    using map_loop_union [OF assms(1,3) that(1)] map_loop_union [OF assms(2,4) that(2)]
      map_loop_sorted [OF assms(1,3) that(1)] map_loop_sorted [OF assms(2,4) that(2)]
      same_entries [OF assms(5)] assms(6,7) by (auto intro!: graph_unique)
  moreover have "(\<exists>r. map_loop ks ts sub [] = Inr r) \<longleftrightarrow> (\<exists>r. map_loop ks' ts' sub' [] = Inr r)"
    using map_loop_success [OF assms(1,3)] map_loop_success [OF assms(2,4)] assms(6)
      same_contribution [OF assms(5)] by (simp add: same_success_def)
  ultimately show ?thesis unfolding same_success_def by metis
qed


lemma contribution_dom:
  assumes "contribution ts k = Inr c"
  shows "dom c = {k} \<or> k = ''anyOf'' \<and> (\<exists>tt. ts k = Some (Inr (YArr [YMap tt])) \<and> dom c = fst ` set tt)"
proof -
  obtain t where t: "(case ts k of Some r \<Rightarrow> r | None \<Rightarrow> Inr YNull) = Inr t"
    using assms by (auto simp: contribution_def bindE_Inr_iff)
  show ?thesis
  proof (cases "\<exists>tt. k = ''anyOf'' \<and> simplifyAnyOf t = Inr (Some tt)")
    case True
    then obtain tt where tt: "k = ''anyOf''" "t = YArr [YMap tt]" by (auto simp: simplifyAnyOf_Some)
    then have "ts k = Some (Inr t)" using t by (cases "ts k") auto
    moreover have "dom c = fst ` set tt"
      using tt assms t dom_map_of_conv_image_fst [of tt] by (simp add: contribution_def)
    ultimately show ?thesis using tt by simp
  next
    case False
    then show ?thesis
      using assms t by (cases "simplifyAnyOf t") (auto simp: contribution_def split: if_splits option.splits)
  qed
qed

lemma contribution_key:
  assumes "contribution ts k = Inr c" "c x = Some v"
  shows "x = k \<or> k = ''anyOf'' \<and> (\<exists>tt. ts ''anyOf'' = Some (Inr (YArr [YMap tt])) \<and> x \<in> fst ` set tt)"
  using contribution_dom [OF assms(1)] domI [of c x v, OF assms(2)] by (metis singletonD)

lemma entries_single_valued:
  assumes "\<And>tt. ts ''anyOf'' = Some (Inr (YArr [YMap tt])) \<Longrightarrow> \<forall>k\<in>K. k = ''anyOf'' \<or> k \<notin> fst ` set tt"
  shows "single_valued (entries ts K)"
proof (rule single_valuedI)
  fix x v v' assume "(x, v) \<in> entries ts K" "(x, v') \<in> entries ts K"
  then obtain k c k' c' where c: "k \<in> K" "contribution ts k = Inr c" "c x = Some v"
    and c': "k' \<in> K" "contribution ts k' = Inr c'" "c' x = Some v'"
    unfolding in_entries by blast
  have "k = k'"
    using contribution_key [OF c(2,3)] contribution_key [OF c'(2,3)] assms c(1) c'(1) by metis
  with c c' show "v = v'" by simp
qed

lemma in_order_path:
  "transformNode in_order p n = transformNode in_order q n"
  "transformMap in_order p m = transformMap in_order q m"
  "transformMembers in_order p m = transformMembers in_order q m"
  "transformArray in_order p xs = transformArray in_order q xs"
  "transformElems in_order p i xs = transformElems in_order q j xs"
proof (induction in_order p n and in_order p m and in_order p m and in_order p xs and in_order p i xs
    arbitrary: q and q and q and q and q j
    rule: transformNode_transformMap_transformMembers_transformArray_transformElems.induct)
  case (4 p m)
  have "map_of (transformMembers in_order p m) = map_of (transformMembers in_order q m)"
    using 4 by metis
  then show ?case by (simp add: in_order_def)
next
  case (7 p xs)
  then have "transformElems in_order p 0 xs = transformElems in_order q 0 xs" by blast
  then show ?case by simp
next
  case (9 p i x xs)
  have "transformElems in_order p (Suc i) xs = transformElems in_order q (Suc j) xs"
    using 9(1,3) by blast
  moreover have "transformNode in_order (YIdx i # p) x = transformNode in_order (YIdx j # q) x" if "\<not> isTypeNull x"
    using 9(2) that by blast
  ultimately show ?case by (simp del: transformNode.simps)
next
  case (1 p m)
  then show ?case by (metis transformNode.simps(1))
next
  case (2 p xs)
  then show ?case by (metis transformNode.simps(2))
qed auto

lemma transform_same:
  assumes "walks ord"
  shows "clash_free n \<Longrightarrow> same_success (transformNode ord p n) (transformNode in_order q n)"
    and "clash_free (YMap m) \<Longrightarrow> same_success (transformMap ord p m) (transformMap in_order q m)"
    and "clash_free_members m \<Longrightarrow>
         same_results (map_of (transformMembers ord p m)) (map_of (transformMembers in_order q m))"
    and "clash_free_elems xs \<Longrightarrow> same_success (transformArray ord p xs) (transformArray in_order q xs)"
    and "clash_free_elems xs \<Longrightarrow> same_success (transformElems ord p i xs) (transformElems in_order q j xs)"
  using assms
proof (induction ord p n and ord p m and ord p m and ord p xs and ord p i xs
    arbitrary: q and q and q and q and q j
    rule: transformNode_transformMap_transformMembers_transformArray_transformElems.induct)
  case (4 ord p m)
  then have m: "sorted_keys m" "no_clash m" "clash_free_members m" "walks ord" by auto
  let ?ts = "map_of (transformMembers ord p m)" and ?ts' = "\<lambda>q. map_of (transformMembers in_order q m)"
  have same: "same_results ?ts (?ts' q)" for q using 4 by auto
  have "\<forall>k\<in>fst ` set m. k = ''anyOf'' \<or> k \<notin> fst ` set tt"
    if "?ts ''anyOf'' = Some (Inr (YArr [YMap tt]))" for tt
  proof -
    have "?ts' [] ''anyOf'' = Some (Inr (YArr [YMap tt]))"
      using same_results_Some [OF same] that by blast
    then obtain v where v: "map_of m ''anyOf'' = Some v"
      "transformNode in_order [YKey ''anyOf''] v = Inr (YArr [YMap tt])"
      by (auto simp: map_of_transformMembers)
    then have "transformNode in_order [] v = Inr (YArr [YMap tt])"
      by (simp add: in_order_path(1) [of "[]" v "[YKey ''anyOf'']"])
    with m(2) v(1) show ?thesis by (auto simp: no_clash_def)
  qed
  then have "single_valued (entries ?ts (fst ` set m))" by (rule entries_single_valued)
  then show ?case
    using walks_keys [OF m(4,1)] walks_keys [OF walks_samples(1) m(1)] same
    by (auto intro!: map_loop_same walks_copies m walks_samples good_sorted transform_downgraded(3))
next
  case (7 ord p xs)
  then show ?case by (auto intro!: same_success_bind)
next
  case (2 ord p xs)
  then show ?case unfolding transformNode.simps by (intro same_success_bind) (auto simp del: transformArray.simps)
next
  case (9 ord p i x xs)
  then show ?case by (auto intro!: same_success_bind)
qed (auto intro!: same_success_bind simp: same_results_def)


text \<open>C19: Unless the schema that replaces an \<^verbatim>\<open>anyOf\<close> has a key of the map it is put into, the
  result of the tool does not depend on the order in which Go walks the maps: any two runs
  succeed on the same documents and with the same result.\<close>

theorem transform_order_independent:
  assumes "walks ord" "walks ord'" "clash_free n"
  shows "transformNode ord p n = Inr r \<longleftrightarrow> transformNode ord' q n = Inr r"
  using transform_same(1) [OF assms(1,3), of p "[]"] transform_same(1) [OF assms(2,3), of q "[]"]
  by (simp add: same_success_def)

theorem transform_order_independent_witness:
  "transformNode in_order [] optional_name = Inr downgraded_name"
proof -
  have "clash_free optional_name" by code_simp
  from transform_order_independent [OF walks_samples(2,1) this] optional_name_downgraded
  show ?thesis by blast
qed

text \<open>
  Otherwise it does: a description of the schema and one of its only alternative are both
  written to the same key.
\<close>

definition described_twice :: ynode where
  "described_twice = YMap
     [(''anyOf'', YArr [YMap [(''description'', YStr ''inner''), (''type'', YStr ''string'')],
                        YMap [(''type'', YStr ''null'')]]),
      (''description'', YStr ''outer'')]"

lemma order_decides_description:
  "\<exists>m m'. transformNode in_order [] described_twice = Inr (YMap m) \<and>
          transformNode in_reverse [] described_twice = Inr (YMap m') \<and>
          ymap_get m ''description'' = YStr ''outer'' \<and> ymap_get m' ''description'' = YStr ''inner''"
proof -
  let ?m = "\<lambda>d. [(''description'', YStr d), (''nullable'', YBool True), (''type'', YStr ''string'')]"
  have "transformNode in_order [] described_twice = Inr (YMap (?m ''outer''))" by code_simp
  moreover have "transformNode in_reverse [] described_twice = Inr (YMap (?m ''inner''))" by code_simp
  ultimately show ?thesis by (simp add: ymap_get_def)
qed

text \<open>The other spelling of a nullable type, a list of type names, is left as it is.\<close>

lemma type_lists_unchanged:
  "transformNode in_order [] (YMap [(''type'', YArr [YStr ''string'', YStr ''null''])]) =
   Inr (YMap [(''type'', YArr [YStr ''string'', YStr ''null''])])"
  by code_simp

section \<open>The command\<close>

text \<open>
  Files keep what is written to them, and the YAML library reads back what it writes. Both are
  laws about single calls.
\<close>

definition keeps_files :: "'w downgrade_host \<Rightarrow> bool" where
  "keeps_files h \<longleftrightarrow> (\<forall>w w' path new. dh_WriteFile h path new w = (w', Inr ()) \<longrightarrow>
     dh_ReadFile h path w' = (w', Inr new))"

definition yaml_roundtrip :: "'w downgrade_host \<Rightarrow> bool" where
  "yaml_roundtrip h \<longleftrightarrow> (\<forall>m new. dh_Marshal h (YMap m) = Inr new \<longrightarrow> dh_Unmarshal h new = Inr m)"

lemma transformNode_YMap: "transformNode ord p (YMap m) = Inr n \<Longrightarrow> \<exists>m'. n = YMap m'"
  by (auto simp: bindE_Inr_iff)

lemma liftE_iff: "liftE r w = (w', x) \<longleftrightarrow> w' = w \<and> x = r"
  by (cases r) (auto simp: liftE_def failA_def returnA_def)

lemma downgrade_run_success:
  assumes "downgrade_run h i out w = (w', Inr ())"
  shows "\<exists>w1 doc m new. transformNode (dh_ranges h) [] (YMap doc) = Inr (YMap m) \<and>
    dh_Marshal h (YMap m) = Inr new \<and> dh_WriteFile h out new w1 = (w', Inr ())"
proof -
  obtain w1 doc n new where run: "transformNode (dh_ranges h) [] (YMap doc) = Inr n"
    "dh_Marshal h n = Inr new" "dh_WriteFile h out new w1 = (w', Inr ())"
    using assms unfolding downgrade_run_def bindA_Inr_iff liftE_iff by metis
  with transformNode_YMap show ?thesis by blast
qed

text \<open>The output of the command is a fixed point of the command: after a run that succeeded, running
  it on its output, with the maps walked in any order, does nothing but write the same text to
  the new output file, provided that files keep what is written and the YAML library reads what
  it writes. A document is never rewritten twice.\<close>

lemma downgrade_run_again:
  assumes "walks (dh_ranges h)" "walks ord'" "keeps_files h" "yaml_roundtrip h"
    and "downgrade_run h i out w = (w', Inr ())"
  shows "\<exists>new. dh_ReadFile h out w' = (w', Inr new) \<and>
    downgrade_run (h\<lparr> dh_ranges := ord' \<rparr>) out out' w' = dh_WriteFile h out' new w'"
proof -
  obtain w1 doc m new where run: "transformNode (dh_ranges h) [] (YMap doc) = Inr (YMap m)"
    "dh_Marshal h (YMap m) = Inr new" "dh_WriteFile h out new w1 = (w', Inr ())"
    using downgrade_run_success [OF assms(5)] by blast
  have "dh_ReadFile h out w' = (w', Inr new)" using assms(3) run(3) by (simp add: keeps_files_def)
  moreover have "dh_Unmarshal h new = Inr m" using assms(4) run(2) by (simp add: yaml_roundtrip_def)
  moreover have "transformNode ord' [] (YMap m) = Inr (YMap m)"
    using transform_downgraded(1) [OF assms(1) run(1)] transform_kept(1) [OF assms(2)] by blast
  ultimately show ?thesis
    using run(2) by (simp add: downgrade_run_def bindA_step liftE_def del: transformNode.simps)
qed

end
