(* ===== verification/Sidecar_Flags.thy ===== *)
theory Sidecar_Flags
  imports Go_URL K8s_Types
begin

text \<open>
  The way in which the helper programs of a session declare their flags: every flag is bound to
  a key of viper below the name of the program and to an environment variable
  (\<^verbatim>\<open>Command\<close> of \<^verbatim>\<open>src/internal/authproxy/serve.go\<close> and of \<^verbatim>\<open>src/internal/tunnel/root.go\<close>).
  Where viper finds a value is a parameter; what is relied on of it is \<open>viper_finds\<close>.
\<close>

datatype var_default = IntVar int | BoolVar bool | StringVar string

record var_binding =
  vb_Flag :: string
  vb_Default :: var_default
  vb_Key :: string
  vb_Env :: string

text \<open>Declaring a flag a second time panics, as \<^verbatim>\<open>pflag\<close> does.\<close>

definition bind_var ::
  "string \<Rightarrow> string \<Rightarrow> var_default \<Rightarrow> var_binding list \<Rightarrow> var_binding list result" where
  "bind_var pre flag d bs =
     (if flag \<in> vb_Flag ` set bs then Inl (Panicked (''flag redefined: '' @ flag))
      else Inr (bs @ [\<lparr> vb_Flag = flag, vb_Default = d, vb_Key = pre @ ''.'' @ flag,
                         vb_Env = ToUpper (pre @ ''_'' @ flag) \<rparr>]))"

lemma bind_var_new:
  "flag \<notin> vb_Flag ` set bs \<Longrightarrow>
   bind_var pre flag d bs = Inr (bs @ [\<lparr> vb_Flag = flag, vb_Default = d, vb_Key = pre @ ''.'' @ flag,
                                         vb_Env = ToUpper (pre @ ''_'' @ flag) \<rparr>])"
  by (simp add: bind_var_def)

text \<open>
  A source of values: the reader of configuration files, whose result maps keys to values (the
  parts of a nested key are joined by dots), and the look-up of a key.
\<close>

type_synonym settings = "string \<rightharpoonup> string"

record viper_source =
  vs_ReadInConfig :: "string \<Rightarrow> settings result"
  vs_find :: "settings \<Rightarrow> string \<Rightarrow> string option"

text \<open>
  The documented precedence: a flag of the command line, then the environment (where an empty
  variable counts as unset), then the file. A key that is bound to nothing is looked up in the
  file.
\<close>

definition viper_value :: "settings \<Rightarrow> settings \<Rightarrow> settings \<Rightarrow> var_binding \<Rightarrow> string option" where
  "viper_value args env file b =
     (case args (vb_Flag b) of
        Some s \<Rightarrow> Some s
      | None \<Rightarrow> (case env (vb_Env b) of
                   Some s \<Rightarrow> if s \<noteq> [] then Some s else file (vb_Key b)
                 | None \<Rightarrow> file (vb_Key b)))"

definition viper_finds :: "var_binding list \<Rightarrow> settings \<Rightarrow> settings \<Rightarrow> viper_source \<Rightarrow> bool" where
  "viper_finds bs args env V \<longleftrightarrow>
     (\<forall>file. (\<forall>b\<in>set bs. vs_find V file (vb_Key b) = viper_value args env file b) \<and>
             (\<forall>k. k \<notin> vb_Key ` set bs \<longrightarrow> vs_find V file k = file k))"

text \<open>The variables of a container, as its process sees them: of two with one name the last counts.\<close>

definition container_env :: "EnvVar list \<Rightarrow> settings" where
  "container_env es = map_of (rev (map (\<lambda>e. (ev_Name e, ev_Value e)) es))"

text \<open>A source with these laws.\<close>

definition plain_viper :: "var_binding list \<Rightarrow> settings \<Rightarrow> settings \<Rightarrow> (string \<Rightarrow> settings result) \<Rightarrow> viper_source" where
  "plain_viper bs args env read = \<lparr> vs_ReadInConfig = read,
     vs_find = (\<lambda>file k. case map_of (map (\<lambda>b. (vb_Key b, b)) bs) k of
                  Some b \<Rightarrow> viper_value args env file b | None \<Rightarrow> file k) \<rparr>"

lemma plain_viper_finds:
  assumes "distinct (map vb_Key bs)"
  shows "viper_finds bs args env (plain_viper bs args env read)"
proof -
  have "map_of (map (\<lambda>b. (vb_Key b, b)) bs) (vb_Key b) = Some b" if "b \<in> set bs" for b
    using assms that by (intro map_of_is_SomeI) (auto simp: comp_def)
  moreover have "map_of (map (\<lambda>b. (vb_Key b, b)) bs) k = None" if "k \<notin> vb_Key ` set bs" for k
    using that by (auto simp: map_of_eq_None_iff image_iff)
  ultimately show ?thesis by (simp add: viper_finds_def plain_viper_def)
qed

end
