(* ===== verification/Auth_Proxy.thy ===== *)
theory Auth_Proxy
  imports Sidecar_Flags Go_Action Go_JSON
begin

text \<open>
  The authentication proxy (\<^verbatim>\<open>src/internal/authproxy/\<close>), which stands before the session in
  its pod: it asks for a token if one is configured, strips a prefix of the path, forwards the
  request to the session and notes when the last request was served.

  The HTTP framework (\<^verbatim>\<open>echo\<close>: its router, its middlewares and its error handler) is a record of
  functions; what is relied on of it is stated with the properties.
\<close>

section \<open>Flags\<close>

definition remoteFlag :: string where "remoteFlag = ''remote''"
definition portFlag :: string where "portFlag = ''port''"
definition metaPortFlag :: string where "metaPortFlag = ''meta_port''"
definition tokenFlag :: string where "tokenFlag = ''token''"
definition cookieKeyFlag :: string where "cookieKeyFlag = ''cookie_key''"
definition verboseFlag :: string where "verboseFlag = ''verbose''"
definition configFlag :: string where "configFlag = ''config''"
definition stripPathPrefixFlag :: string where "stripPathPrefixFlag = ''strip_path_prefix''"
definition authproxy_prefix :: string where "authproxy_prefix = ''authproxy''"

lemmas authproxy_flag_defs = remoteFlag_def portFlag_def metaPortFlag_def tokenFlag_def cookieKeyFlag_def
  verboseFlag_def configFlag_def stripPathPrefixFlag_def authproxy_prefix_def

text \<open>The variables that the flags set.\<close>

record authproxy_options =
  ao_remote :: string
  ao_port :: int
  ao_metaPort :: int
  ao_token :: string
  ao_cookieKey :: string
  ao_verbose :: bool
  ao_config :: string
  ao_stripPathPrefix :: string

definition authproxy_defaults :: authproxy_options where
  "authproxy_defaults = \<lparr> ao_remote = [], ao_port = 65535, ao_metaPort = 65534, ao_token = [],
     ao_cookieKey = ''renku-auth'', ao_verbose = False, ao_config = [], ao_stripPathPrefix = [] \<rparr>"

text \<open>The flags that are bound to keys; the flag for the configuration file is not.\<close>

definition authproxy_Command :: "var_binding list result" where
  "authproxy_Command =
     (let bind = bind_var authproxy_prefix in
      bindE (bind remoteFlag (StringVar []) []) (\<lambda>bs.
      bindE (bind stripPathPrefixFlag (StringVar []) bs) (\<lambda>bs.
      bindE (bind portFlag (IntVar 65535) bs) (\<lambda>bs.
      bindE (bind metaPortFlag (IntVar 65534) bs) (\<lambda>bs.
      bindE (bind cookieKeyFlag (StringVar ''renku-auth'') bs) (\<lambda>bs.
      bindE (bind tokenFlag (StringVar []) bs) (\<lambda>bs.
      bind verboseFlag (BoolVar False) bs)))))))"

section \<open>Loading the configuration\<close>

text \<open>Setting a flag from a text. How a number or a Boolean is read is that of \<^verbatim>\<open>pflag\<close>.\<close>

record pflag_parsers =
  pf_int :: "string \<Rightarrow> int result"
  pf_bool :: "string \<Rightarrow> bool result"

definition flag_Set ::
  "pflag_parsers \<Rightarrow> string \<Rightarrow> string \<Rightarrow> authproxy_options \<Rightarrow> authproxy_options result" where
  "flag_Set pf name s opts =
     (if name = remoteFlag then Inr (opts\<lparr> ao_remote := s \<rparr>)
      else if name = stripPathPrefixFlag then Inr (opts\<lparr> ao_stripPathPrefix := s \<rparr>)
      else if name = portFlag then bindE (pf_int pf s) (\<lambda>n. Inr (opts\<lparr> ao_port := n \<rparr>))
      else if name = metaPortFlag then bindE (pf_int pf s) (\<lambda>n. Inr (opts\<lparr> ao_metaPort := n \<rparr>))
      else if name = cookieKeyFlag then Inr (opts\<lparr> ao_cookieKey := s \<rparr>)
      else if name = tokenFlag then Inr (opts\<lparr> ao_token := s \<rparr>)
      else if name = verboseFlag then bindE (pf_bool pf s) (\<lambda>b. Inr (opts\<lparr> ao_verbose := b \<rparr>))
      else if name = configFlag then Inr (opts\<lparr> ao_config := s \<rparr>)
      else Inl (Err (''no such flag -'' @ name)))"

text \<open>\<^verbatim>\<open>VisitAll\<close> goes through the flags by name; an error of \<^verbatim>\<open>Set\<close> ends the process.\<close>

definition visited_flags :: "string list" where
  "visited_flags = [configFlag, cookieKeyFlag, metaPortFlag, portFlag, remoteFlag, stripPathPrefixFlag,
     tokenFlag, verboseFlag]"

fun visit_flags ::
  "pflag_parsers \<Rightarrow> (string \<Rightarrow> string option) \<Rightarrow> string list \<Rightarrow> authproxy_options \<Rightarrow> authproxy_options result" where
  "visit_flags pf look [] opts = Inr opts"
| "visit_flags pf look (name # names) opts =
     (case look (authproxy_prefix @ ''.'' @ name) of
        Some s \<Rightarrow> bindE (flag_Set pf name s opts) (visit_flags pf look names)
      | None \<Rightarrow> visit_flags pf look names opts)"

definition config_file :: "viper_source \<Rightarrow> authproxy_options \<Rightarrow> settings result" where
  "config_file V opts =
     (if ao_config opts \<noteq> [] then vs_ReadInConfig V (ao_config opts) else Inr Map.empty)"

definition loadConfig ::
  "pflag_parsers \<Rightarrow> viper_source \<Rightarrow> authproxy_options \<Rightarrow> authproxy_options result" where
  "loadConfig pf V opts =
     bindE (config_file V opts) (\<lambda>file.
     visit_flags pf (vs_find V file) visited_flags opts)"

section \<open>Requests and middlewares\<close>

record echo_context =
  ec_Method :: string
  ec_Path :: string
  ec_Header :: "(string \<times> string) list"
  ec_Response :: "(int \<times> json option) option"

record RequestStats =
  LastRequest :: time

record 'w px_state =
  px_world :: 'w
  px_stats :: RequestStats
  px_context :: echo_context

type_synonym 'w echo_handler = "('w px_state, unit) action"
type_synonym 'w middleware = "'w echo_handler \<Rightarrow> 'w echo_handler"

text \<open>
  The framework. A route is a method (\<^verbatim>\<open>*\<close> for the routes of a group) with a pattern;
  \<open>el_find\<close> selects one of the registered routes for a method and a path, \<open>el_use\<close> puts a list of
  middlewares around a handler and \<open>el_Error\<close> writes the response for an error.
\<close>

type_synonym echo_route = "string \<times> string"

record 'w echo_lib =
  el_Recover :: "'w middleware"
  el_RequestLogger :: "'w middleware"
  el_KeyAuth :: "string \<Rightarrow> (string \<Rightarrow> bool result) \<Rightarrow> 'w middleware"
  el_Rewrite :: "(string \<times> string) list \<Rightarrow> 'w middleware"
  el_Proxy :: "url list \<Rightarrow> 'w middleware"
  el_use :: "'w middleware list \<Rightarrow> 'w middleware"
  el_find :: "echo_route list \<Rightarrow> string \<Rightarrow> string \<Rightarrow> nat option"
  el_NotFoundHandler :: "'w echo_handler"
  el_Error :: "go_error \<Rightarrow> 'w px_state \<Rightarrow> 'w px_state"
  el_NoContent :: "int \<Rightarrow> 'w echo_handler"
  el_JSON :: "int \<Rightarrow> json \<Rightarrow> 'w echo_handler"
  el_Now :: "'w px_state \<Rightarrow> time"
  el_timeText :: "time \<Rightarrow> string"

definition NewStats :: "time \<Rightarrow> RequestStats" where
  "NewStats now = \<lparr> LastRequest = now \<rparr>"

text \<open>A panic of the next handler goes through, before the time is noted; an error is answered.\<close>

definition Process :: "'w echo_lib \<Rightarrow> 'w middleware" where
  "Process L next s =
     (let note = (\<lambda>s. (s\<lparr> px_stats := (px_stats s)\<lparr> LastRequest := el_Now L s \<rparr> \<rparr>, Inr ())) in
      case next s of
        (s', Inl (Panicked m)) \<Rightarrow> (s', Inl (Panicked m))
      | (s', Inl e) \<Rightarrow> note (el_Error L e s')
      | (s', Inr _) \<Rightarrow> note s')"

text \<open>
  Requests are served concurrently; the section under the lock is one step, and the clock goes on
  between the steps. The times noted so far are kept, newest first.
\<close>

record stats_state =
  ss_stats :: RequestStats
  ss_now :: time
  ss_noted :: "time list"

inductive stats_step :: "stats_state \<Rightarrow> stats_state \<Rightarrow> bool" where
  stats_tick: "ss_now t \<le> now \<Longrightarrow> stats_step t (t\<lparr> ss_now := now \<rparr>)"
| stats_note:
    "stats_step t (t\<lparr> ss_stats := (ss_stats t)\<lparr> LastRequest := ss_now t \<rparr>, ss_noted := ss_now t # ss_noted t \<rparr>)"

definition stats_initial :: "time \<Rightarrow> stats_state" where
  "stats_initial now = \<lparr> ss_stats = NewStats now, ss_now = now, ss_noted = [] \<rparr>"

definition stats_response :: "'w echo_lib \<Rightarrow> RequestStats \<Rightarrow> json" where
  "stats_response L rs = JObj [(''last_request_time'', JStr (el_timeText L (LastRequest rs)))]"

definition stats_Handle :: "'w echo_lib \<Rightarrow> 'w echo_handler" where
  "stats_Handle L s = el_JSON L 200 (stats_response L (px_stats s)) s"

definition removeForwardedHeader :: "'w middleware" where
  "removeForwardedHeader next s =
     next (s\<lparr> px_context := (px_context s)\<lparr>
       ec_Header := filter (\<lambda>(k, _). k \<noteq> ''Forwarded'') (ec_Header (px_context s)) \<rparr> \<rparr>)"

section \<open>The servers\<close>

record 'w echo_server =
  es_Address :: string
  es_Middleware :: "'w middleware list"
  es_Routes :: "(echo_route \<times> 'w echo_handler) list"

definition normalised_prefix :: "string \<Rightarrow> string" where
  "normalised_prefix p =
     (let p = (if \<not> HasPrefix p ''/'' then ''/'' @ p else p) in
      if \<not> HasSuffix p ''/'' then p @ ''/'' else p)"

definition keyLookup :: "string \<Rightarrow> string" where
  "keyLookup cookieKey = ''cookie:'' @ cookieKey @ '',header:Authorization''"

definition proxyMWs :: "'w echo_lib \<Rightarrow> authproxy_options \<Rightarrow> url \<Rightarrow> 'w middleware list" where
  "proxyMWs L opts remoteURL =
     [el_RequestLogger L, Process L]
     @ (if length (ao_token opts) > 0
        then [el_KeyAuth L (keyLookup (ao_cookieKey opts)) (\<lambda>key. Inr (key = ao_token opts))] else [])
     @ (if length (ao_stripPathPrefix opts) > 0
        then [removeForwardedHeader,
              el_Rewrite L [(normalised_prefix (ao_stripPathPrefix opts) @ ''*'', ''/$1'')]] else [])
     @ [el_Proxy L [remoteURL]]"

definition proxy_server :: "'w echo_lib \<Rightarrow> authproxy_options \<Rightarrow> url \<Rightarrow> 'w echo_server" where
  "proxy_server L opts remoteURL =
     \<lparr> es_Address = '':'' @ show_int (ao_port opts), es_Middleware = [el_Recover L],
       es_Routes = [((''*'', ''/*''), el_use L (proxyMWs L opts remoteURL) (el_NotFoundHandler L)),
                    ((''GET'', ''/__amalthea__/health''), el_NoContent L 200)] \<rparr>"

definition meta_server :: "'w echo_lib \<Rightarrow> authproxy_options \<Rightarrow> 'w echo_server" where
  "meta_server L opts =
     \<lparr> es_Address = '':'' @ show_int (ao_metaPort opts), es_Middleware = [el_Recover L],
       es_Routes = [((''GET'', ''/request_stats''), stats_Handle L)] \<rparr>"

definition authproxy_serve ::
  "'w echo_lib \<Rightarrow> authority_parser \<Rightarrow> authproxy_options \<Rightarrow> ('w echo_server \<times> 'w echo_server) result" where
  "authproxy_serve L pa opts =
     bindE (url_Parse pa (ao_remote opts)) (\<lambda>remoteURL.
     Inr (proxy_server L opts remoteURL, meta_server L opts))"

text \<open>What the framework does with a request: it selects the handler of a route and answers errors.\<close>

definition handle_request :: "'w echo_lib \<Rightarrow> 'w echo_server \<Rightarrow> 'w px_state \<Rightarrow> 'w px_state" where
  "handle_request L srv s =
     (let h = (case el_find L (map fst (es_Routes srv)) (ec_Method (px_context s)) (ec_Path (px_context s)) of
                 Some i \<Rightarrow> if i < length (es_Routes srv) then snd (es_Routes srv ! i) else el_NotFoundHandler L
               | None \<Rightarrow> el_NotFoundHandler L) in
      case el_use L (es_Middleware srv) h s of
        (s', Inr _) \<Rightarrow> s'
      | (s', Inl e) \<Rightarrow> el_Error L e s')"

text \<open>
  The command: the flags of the command line are parsed, \<^verbatim>\<open>loadConfig\<close> runs, and only then does
  cobra look for the required flag, which \<^verbatim>\<open>loadConfig\<close> may have set.
\<close>

fun parse_args ::
  "pflag_parsers \<Rightarrow> (string \<times> string) list \<Rightarrow> authproxy_options \<Rightarrow> authproxy_options result" where
  "parse_args pf [] opts = Inr opts"
| "parse_args pf ((name, s) # args) opts = bindE (flag_Set pf name s opts) (parse_args pf args)"

definition remote_given :: "viper_source \<Rightarrow> (string \<times> string) list \<Rightarrow> authproxy_options \<Rightarrow> bool" where
  "remote_given V args opts \<longleftrightarrow>
     map_of args remoteFlag \<noteq> None \<or>
     (case config_file V opts of
        Inl _ \<Rightarrow> False
      | Inr file \<Rightarrow> vs_find V file (authproxy_prefix @ ''.'' @ remoteFlag) \<noteq> None)"

definition authproxy_main ::
  "'w echo_lib \<Rightarrow> authority_parser \<Rightarrow> pflag_parsers \<Rightarrow> viper_source \<Rightarrow> (string \<times> string) list
   \<Rightarrow> ('w echo_server \<times> 'w echo_server) result" where
  "authproxy_main L pa pf V args =
     bindE (parse_args pf args authproxy_defaults) (\<lambda>opts.
     bindE (loadConfig pf V opts) (\<lambda>opts'.
     if remote_given V args opts then authproxy_serve L pa opts'
     else Inl (Err (''required flag(s) '' @ go_quote remoteFlag @ '' not set''))))"

section \<open>The process\<close>

text \<open>
  The two servers run until a signal comes; then the proxy is shut down before the metadata
  server. An error of a server that runs, or of a shutdown, ends the process.
\<close>

datatype px_phase = PxServing | PxStopping | PxStoppingMeta | PxDone | PxFatal

record px_process =
  pp_phase :: px_phase
  pp_proxy_up :: bool
  pp_meta_up :: bool

inductive authproxy_step :: "px_process \<Rightarrow> px_process \<Rightarrow> bool" where
  px_server_error:
    "pp_phase p \<in> {PxServing, PxStopping, PxStoppingMeta} \<Longrightarrow> authproxy_step p (p\<lparr> pp_phase := PxFatal \<rparr>)"
| px_signal:
    "pp_phase p = PxServing \<Longrightarrow> authproxy_step p (p\<lparr> pp_phase := PxStopping \<rparr>)"
| px_shutdown:
    "pp_phase p = PxStopping \<Longrightarrow>
     authproxy_step p (p\<lparr> pp_phase := (if ok then PxStoppingMeta else PxFatal), pp_proxy_up := False \<rparr>)"
| px_shutdown_meta:
    "pp_phase p = PxStoppingMeta \<Longrightarrow>
     authproxy_step p (p\<lparr> pp_phase := (if ok then PxDone else PxFatal), pp_meta_up := False \<rparr>)"

end
