(* ===== verification/Auth_Proxy_Props.thy ===== *)
theory Auth_Proxy_Props
  imports Auth_Proxy Sample
begin

text \<open>
  The authentication proxy: which requests reach the session and how, the time of the last
  request, and the proxy in the container that the operator templates for it.
\<close>

section \<open>Middlewares that look at one continuation\<close>

text \<open>
  Most middlewares hand the request on once, possibly changed, or not at all. Two chains that
  end differently cannot be told apart when they agree where the request arrives.
\<close>

locale forwarding_middleware =
  fixes mw :: "'w middleware" and fwd :: "'w px_state \<Rightarrow> 'w px_state"
  assumes forwards: "next (fwd s) = next' (fwd s) \<Longrightarrow> mw next s = mw next' s"
begin

lemma known_inner:
  assumes "inner (fwd s) = r"
  shows "mw inner s = mw (\<lambda>_. r) s"
  by (rule forwards) (simp add: assms)

end

definition drop_forwarded :: "'w px_state \<Rightarrow> 'w px_state" where
  "drop_forwarded s = s\<lparr> px_context := (px_context s)\<lparr>
     ec_Header := filter (\<lambda>(k, _). k \<noteq> ''Forwarded'') (ec_Header (px_context s)) \<rparr> \<rparr>"

interpretation stats: forwarding_middleware "Process L" "\<lambda>s. s" for L
  by unfold_locales (simp add: Process_def)

interpretation unforwarded: forwarding_middleware removeForwardedHeader drop_forwarded
  by unfold_locales (simp add: removeForwardedHeader_def drop_forwarded_def)

section \<open>What is relied on of the framework\<close>

text \<open>The routes of the proxy: the health check goes before the group that matches everything.\<close>

definition is_health :: "echo_context \<Rightarrow> bool" where
  "is_health c \<longleftrightarrow> ec_Method c = ''GET'' \<and> ec_Path c = ''/__amalthea__/health''"

definition routes_law :: "'w echo_lib \<Rightarrow> bool" where
  "routes_law L \<longleftrightarrow> (\<forall>c. el_find L [(''*'', ''/*''), (''GET'', ''/__amalthea__/health'')] (ec_Method c) (ec_Path c) =
     Some (if is_health c then 1 else 0))"

text \<open>The first middleware of a list is the outermost.\<close>

definition use_law :: "'w echo_lib \<Rightarrow> bool" where
  "use_law L \<longleftrightarrow> (\<forall>mws h. el_use L mws h = foldr (\<lambda>m. m) mws h)"

text \<open>
  The logger adds what it writes to the world; the recovery passes everything but panics through
  and looks at nothing but what the handler does with the request.
\<close>

definition logger_law :: "'w echo_lib \<Rightarrow> ('w px_state \<Rightarrow> 'w) \<Rightarrow> bool" where
  "logger_law L log \<longleftrightarrow> (\<forall>next s. el_RequestLogger L next s =
     (case next s of (s', r) \<Rightarrow> (s'\<lparr> px_world := log s' \<rparr>, r)))"

definition recover_law :: "'w echo_lib \<Rightarrow> bool" where
  "recover_law L \<longleftrightarrow>
     (\<forall>next s. (\<forall>m. snd (next s) \<noteq> Inl (Panicked m)) \<longrightarrow> el_Recover L next s = next s) \<and>
     (\<forall>next next' s. next s = next' s \<longrightarrow> el_Recover L next s = el_Recover L next' s)"

text \<open>
  The key middleware hands the request on when one of the keys found at the configured places is
  valid, and returns an error otherwise; \<open>keys\<close> are the keys that it finds.
\<close>

definition key_auth_law ::
  "'w echo_lib \<Rightarrow> (string \<Rightarrow> echo_context \<Rightarrow> string list) \<Rightarrow> (echo_context \<Rightarrow> string) \<Rightarrow> bool" where
  "key_auth_law L keys reason \<longleftrightarrow> (\<forall>places valid next s. el_KeyAuth L places valid next s =
     (if list_ex (\<lambda>k. valid k = Inr True) (keys places (px_context s)) then next s
      else (s, Inl (Err (reason (px_context s))))))"

text \<open>A rule for everything below a directory replaces the directory by the root.\<close>

definition set_path :: "string \<Rightarrow> 'w px_state \<Rightarrow> 'w px_state" where
  "set_path p s = s\<lparr> px_context := (px_context s)\<lparr> ec_Path := p \<rparr> \<rparr>"

definition rewrite_law :: "'w echo_lib \<Rightarrow> bool" where
  "rewrite_law L \<longleftrightarrow> (\<forall>dir rest next s. HasPrefix dir ''/'' \<and> HasSuffix dir ''/''
     \<and> ec_Path (px_context s) = dir @ rest \<longrightarrow>
     el_Rewrite L [(dir @ ''*'', ''/$1'')] next s = next (set_path (''/'' @ rest) s))"

definition echo_laws where
  "echo_laws L keys reason log \<longleftrightarrow> routes_law L \<and> use_law L \<and> logger_law L log \<and> recover_law L
     \<and> key_auth_law L keys reason \<and> rewrite_law L"

section \<open>The prefix\<close>

lemma normalised_prefix_slashes:
  "HasPrefix (normalised_prefix p) ''/''" "HasSuffix (normalised_prefix p) ''/''"
  by (auto simp: normalised_prefix_def Let_def HasPrefix_iff HasSuffix_iff)

lemma normalised_prefix_id: "HasPrefix p ''/'' \<Longrightarrow> HasSuffix p ''/'' \<Longrightarrow> normalised_prefix p = p"
  by (simp add: normalised_prefix_def)


section \<open>Requests\<close>

text \<open>A request is authorised when no token is configured or one of its keys is the token.\<close>

definition authorised ::
  "(string \<Rightarrow> echo_context \<Rightarrow> string list) \<Rightarrow> authproxy_options \<Rightarrow> echo_context \<Rightarrow> bool" where
  "authorised keys opts c \<longleftrightarrow>
     ao_token opts = [] \<or> ao_token opts \<in> set (keys (keyLookup (ao_cookieKey opts)) c)"

lemma key_auth_token:
  assumes "key_auth_law L keys reason"
  shows "el_KeyAuth L places (\<lambda>key. Inr (key = t)) next s =
    (if t \<in> set (keys places (px_context s)) then next s else (s, Inl (Err (reason (px_context s)))))"
  using assms by (auto simp: key_auth_law_def list_ex_iff)

lemma handle_proxied:
  assumes "routes_law L" "use_law L" "authproxy_serve L pa opts = Inr (e, m)" "\<not> is_health (px_context s)"
  shows "\<exists>u. url_Parse pa (ao_remote opts) = Inr u \<and> handle_request L e s =
    (case el_Recover L (foldr (\<lambda>m. m) (proxyMWs L opts u) (el_NotFoundHandler L)) s of
       (s', Inr _) \<Rightarrow> s' | (s', Inl err) \<Rightarrow> el_Error L err s')"
  using assms
  by (auto simp: authproxy_serve_def proxy_server_def bindE_Inr_iff handle_request_def routes_law_def use_law_def)

lemma rejected_chain:
  assumes "key_auth_law L keys reason" "logger_law L log"
    and "ao_token opts \<noteq> []" "\<not> authorised keys opts (px_context s)"
  shows "foldr (\<lambda>m. m) (proxyMWs L opts u) h s =
    foldr (\<lambda>m. m) (proxyMWs (L\<lparr> el_Proxy := P \<rparr>) opts u) h s"
proof -
  let ?auth = "el_KeyAuth L (keyLookup (ao_cookieKey opts)) (\<lambda>key. Inr (key = ao_token opts))"
  have reject: "?auth h' s = (s, Inl (Err (reason (px_context s))))" for h'
    using assms(4) by (simp add: key_auth_token [OF assms(1)] authorised_def)
  have process: "Process (L\<lparr> el_Proxy := P \<rparr>) = Process L"
    by (simp add: Process_def fun_eq_iff)
  have "Process L (?auth h') s = Process L (\<lambda>_. (s, Inl (Err (reason (px_context s))))) s" for h'
    by (rule stats.known_inner) (rule reject)
  then show ?thesis
    using assms(2,3) by (simp add: proxyMWs_def process logger_law_def)
qed

lemma unauthorised_never_forwarded_lemma:
  assumes "echo_laws L keys reason log" "ao_token opts \<noteq> []" "\<not> authorised keys opts (px_context s)"
    and "authproxy_serve L pa opts = Inr (e, m)" "authproxy_serve (L\<lparr> el_Proxy := P \<rparr>) pa opts = Inr (e', m')"
    and "\<not> is_health (px_context s)"
  shows "handle_request (L\<lparr> el_Proxy := P \<rparr>) e' s = handle_request L e s"
proof -
  let ?L = "L\<lparr> el_Proxy := P \<rparr>"
  have laws: "routes_law L" "use_law L" "logger_law L log" "recover_law L" "key_auth_law L keys reason"
    and laws': "routes_law ?L" "use_law ?L"
    using assms(1) by (simp_all add: echo_laws_def routes_law_def use_law_def)
  obtain u where u: "url_Parse pa (ao_remote opts) = Inr u"
    and L: "handle_request L e s =
      (case el_Recover L (foldr (\<lambda>m. m) (proxyMWs L opts u) (el_NotFoundHandler L)) s of
         (s', Inr _) \<Rightarrow> s' | (s', Inl err) \<Rightarrow> el_Error L err s')"
    using handle_proxied [OF laws(1,2) assms(4,6)] by blast
  have L': "handle_request ?L e' s =
      (case el_Recover L (foldr (\<lambda>m. m) (proxyMWs ?L opts u) (el_NotFoundHandler L)) s of
         (s', Inr _) \<Rightarrow> s' | (s', Inl err) \<Rightarrow> el_Error L err s')"
    using handle_proxied [OF laws' assms(5,6)] u by simp
  have "el_Recover L (foldr (\<lambda>m. m) (proxyMWs L opts u) (el_NotFoundHandler L)) s =
      el_Recover L (foldr (\<lambda>m. m) (proxyMWs ?L opts u) (el_NotFoundHandler L)) s"
    using laws(4) rejected_chain [OF laws(5,3) assms(2,3)] unfolding recover_law_def by blast
  then show ?thesis unfolding L L' by simp
qed

text \<open>C13: With a token configured, the session sees only requests that carry it: whatever a request
  without the token contains (its keys, found in the configured cookie or the authorization
  header, are all different from the token), what is done with it does not depend on what the
  middleware that forwards requests to the session would do. The health check is answered by the
  proxy itself and is excepted.\<close>

theorem unauthorised_never_forwarded:
  assumes "echo_laws L keys reason log" "ao_token opts \<noteq> []" "\<not> authorised keys opts (px_context s)"
    and "authproxy_serve L pa opts = Inr (e, m)" "authproxy_serve (L\<lparr> el_Proxy := P \<rparr>) pa opts = Inr (e', m')"
    and "\<not> is_health (px_context s)"
  shows "handle_request (L\<lparr> el_Proxy := P \<rparr>) e' s = handle_request L e s"
  using assms by (rule unauthorised_never_forwarded_lemma)

text \<open>The request as the session gets it.\<close>

definition forwarded :: "authproxy_options \<Rightarrow> 'w px_state \<Rightarrow> 'w px_state" where
  "forwarded opts s =
     (if ao_stripPathPrefix opts = [] then s
      else set_path (''/'' @ drop (length (normalised_prefix (ao_stripPathPrefix opts))) (ec_Path (px_context s)))
             (drop_forwarded s))"

definition below_prefix :: "authproxy_options \<Rightarrow> echo_context \<Rightarrow> bool" where
  "below_prefix opts c \<longleftrightarrow>
     ao_stripPathPrefix opts = [] \<or> HasPrefix (ec_Path c) (normalised_prefix (ao_stripPathPrefix opts))"

lemma forwarded_chain:
  assumes "rewrite_law L" "below_prefix opts (px_context s)"
  shows "foldr (\<lambda>m. m) (if length (ao_stripPathPrefix opts) > 0
        then [removeForwardedHeader,
              el_Rewrite L [(normalised_prefix (ao_stripPathPrefix opts) @ ''*'', ''/$1'')]] else []) h s =
    h (forwarded opts s)"
proof (cases "ao_stripPathPrefix opts = []")
  case False
  let ?dir = "normalised_prefix (ao_stripPathPrefix opts)"
  from False obtain rest where rest: "ec_Path (px_context s) = ?dir @ rest"
    using assms(2) by (auto simp: below_prefix_def HasPrefix_iff)
  then have "el_Rewrite L [(?dir @ ''*'', ''/$1'')] h (drop_forwarded s) =
      h (set_path (''/'' @ rest) (drop_forwarded s))"
    using assms(1) normalised_prefix_slashes by (simp add: rewrite_law_def drop_forwarded_def)
  then show ?thesis using False rest by (simp add: removeForwardedHeader_def drop_forwarded_def forwarded_def)
qed (simp add: forwarded_def)

text \<open>The answer to a request and the note of its time.\<close>

definition noted :: "'w echo_lib \<Rightarrow> ('w px_state \<Rightarrow> 'w) \<Rightarrow> 'w px_state \<times> unit result \<Rightarrow> 'w px_state" where
  "noted L log = (\<lambda>(s, r).
     let a = (case r of Inr _ \<Rightarrow> s | Inl err \<Rightarrow> el_Error L err s);
         n = a\<lparr> px_stats := (px_stats a)\<lparr> LastRequest := el_Now L a \<rparr> \<rparr>
     in n\<lparr> px_world := log n \<rparr>)"

lemma Process_noted:
  assumes "h s = (s', r)" "\<forall>m. r \<noteq> Inl (Panicked m)"
  shows "Process L h s = (let a = (case r of Inr _ \<Rightarrow> s' | Inl err \<Rightarrow> el_Error L err s')
    in a\<lparr> px_stats := (px_stats a)\<lparr> LastRequest := el_Now L a \<rparr> \<rparr>, Inr ())"
  using assms by (auto simp: Process_def Let_def split: sum.splits go_error.splits)


lemma authorised_chain:
  assumes "echo_laws L keys reason log" "authorised keys opts (px_context s)" "below_prefix opts (px_context s)"
    and "el_Proxy L [u] h (forwarded opts s) = (s', r)" "\<forall>m. r \<noteq> Inl (Panicked m)"
  shows "foldr (\<lambda>m. m) (proxyMWs L opts u) h s = (noted L log (s', r), Inr ())"
proof -
  let ?strip = "foldr (\<lambda>m. m) (if length (ao_stripPathPrefix opts) > 0
        then [removeForwardedHeader,
              el_Rewrite L [(normalised_prefix (ao_stripPathPrefix opts) @ ''*'', ''/$1'')]] else [])"
  let ?auth = "foldr (\<lambda>m. m) (if length (ao_token opts) > 0
        then [el_KeyAuth L (keyLookup (ao_cookieKey opts)) (\<lambda>key. Inr (key = ao_token opts))] else [])"
  have laws: "key_auth_law L keys reason" "logger_law L log" "rewrite_law L"
    using assms(1) by (simp_all add: echo_laws_def)
  have "?auth (?strip (el_Proxy L [u] h)) s = el_Proxy L [u] h (forwarded opts s)"
    using assms(2) forwarded_chain [OF laws(3) assms(3), of "el_Proxy L [u] h"]
    by (auto simp: key_auth_token [OF laws(1)] authorised_def)
  then have inner: "?auth (?strip (el_Proxy L [u] h)) s = (s', r)" using assms(4) by simp
  have "foldr (\<lambda>m. m) (proxyMWs L opts u) h s = el_RequestLogger L (Process L (?auth (?strip (el_Proxy L [u] h)))) s"
    by (simp add: proxyMWs_def)
  also have "\<dots> = (noted L log (s', r), Inr ())"
    using Process_noted [where h = "?auth (?strip (el_Proxy L [u] h))" and L = L, OF inner assms(5)] laws(2) by (simp add: logger_law_def noted_def Let_def)
  finally show ?thesis .
qed

lemma authorised_forwarded_url:
  assumes "echo_laws L keys reason log" "authproxy_serve L pa opts = Inr (e, m)" "\<not> is_health (px_context s)"
    and "authorised keys opts (px_context s)" "below_prefix opts (px_context s)"
    and "url_Parse pa (ao_remote opts) = Inr u"
    and "\<forall>m. snd (el_Proxy L [u] (el_NotFoundHandler L) (forwarded opts s)) \<noteq> Inl (Panicked m)"
  shows "handle_request L e s = noted L log (el_Proxy L [u] (el_NotFoundHandler L) (forwarded opts s))"
proof -
  have laws: "routes_law L" "use_law L" "recover_law L" using assms(1) by (simp_all add: echo_laws_def)
  have h: "handle_request L e s =
      (case el_Recover L (foldr (\<lambda>m. m) (proxyMWs L opts u) (el_NotFoundHandler L)) s of
         (s', Inr _) \<Rightarrow> s' | (s', Inl err) \<Rightarrow> el_Error L err s')"
    using handle_proxied [OF laws(1,2) assms(2,3)] assms(6) by auto
  obtain s' r where r: "el_Proxy L [u] (el_NotFoundHandler L) (forwarded opts s) = (s', r)" by fastforce
  have chain: "foldr (\<lambda>m. m) (proxyMWs L opts u) (el_NotFoundHandler L) s = (noted L log (s', r), Inr ())"
    using authorised_chain [OF assms(1,4,5) r] assms(7) r by simp
  then have "el_Recover L (foldr (\<lambda>m. m) (proxyMWs L opts u) (el_NotFoundHandler L)) s = (noted L log (s', r), Inr ())"
    using laws(3) unfolding recover_law_def by auto
  with h r show ?thesis by auto
qed

text \<open>C14: An authorised request reaches the session exactly as it came, except that the configured prefix
  is cut off its path, made to start and end with a slash first, and that the header
  \<^verbatim>\<open>Forwarded\<close> is dropped when there is a prefix; the answer of the session is the answer to the
  request, its errors are answered by the framework, and the time at which the answer was complete
  is noted.\<close>

theorem authorised_forwarded:
  assumes "echo_laws L keys reason log" "authproxy_serve L pa opts = Inr (e, m)" "\<not> is_health (px_context s)"
    and "authorised keys opts (px_context s)" "below_prefix opts (px_context s)"
    and "url_Parse pa (ao_remote opts) = Inr u"
    and "\<forall>m. snd (el_Proxy L [u] (el_NotFoundHandler L) (forwarded opts s)) \<noteq> Inl (Panicked m)"
  shows "handle_request L e s = noted L log (el_Proxy L [u] (el_NotFoundHandler L) (forwarded opts s))"
  using assms by (rule authorised_forwarded_url)

section \<open>The last request\<close>

text \<open>The steps of the concurrent requests, and what holds in every state they reach.\<close>

definition stats_reachable :: "time \<Rightarrow> stats_state \<Rightarrow> bool" where
  "stats_reachable start t \<longleftrightarrow> stats_step\<^sup>*\<^sup>* (stats_initial start) t"

lemma last_request_latest:
  assumes "stats_reachable start t"
  shows "LastRequest (ss_stats t) = hd (ss_noted t @ [start])
    \<and> (\<forall>x\<in>set (ss_noted t @ [start]). x \<le> LastRequest (ss_stats t))
    \<and> LastRequest (ss_stats t) \<le> ss_now t"
  using assms unfolding stats_reachable_def
proof (induction rule: rtranclp_induct)
  case base
  then show ?case by (simp add: stats_initial_def NewStats_def)
next
  case (step t t')
  from step.hyps(2) step.IH show ?case
    by (cases rule: stats_step.cases) auto
qed


section \<open>A small framework\<close>

text \<open>The world is the list of the requests that the session got.\<close>

definition sample_keys :: "string \<Rightarrow> echo_context \<Rightarrow> string list" where
  "sample_keys places c = map snd (filter (\<lambda>(k, _). str_Contains places k) (ec_Header c))"

definition sample_echo :: "echo_context list echo_lib" where
  "sample_echo = \<lparr>
     el_Recover = (\<lambda>h s. case h s of (s', Inl (Panicked m)) \<Rightarrow> (s', Inl (Err m)) | r \<Rightarrow> r),
     el_RequestLogger = (\<lambda>h. h),
     el_KeyAuth = (\<lambda>places valid h s.
       if list_ex (\<lambda>k. valid k = Inr True) (sample_keys places (px_context s)) then h s
       else (s, Inl (Err ''unauthorized''))),
     el_Rewrite = (\<lambda>rules h s.
       let dir = butlast (fst (hd rules)); p = ec_Path (px_context s) in
       h (if HasPrefix p dir then set_path (''/'' @ drop (length dir) p) s else s)),
     el_Proxy = (\<lambda>_ _ s. (s\<lparr> px_world := px_context s # px_world s,
       px_context := (px_context s)\<lparr> ec_Response := Some (200, None) \<rparr> \<rparr>, Inr ())),
     el_use = foldr (\<lambda>m. m),
     el_find = (\<lambda>_ m p. Some (if m = ''GET'' \<and> p = ''/__amalthea__/health'' then 1 else 0)),
     el_NotFoundHandler = failA (Err ''not found''),
     el_Error = (\<lambda>_ s. s\<lparr> px_context := (px_context s)\<lparr> ec_Response := Some (401, None) \<rparr> \<rparr>),
     el_NoContent = (\<lambda>code s. (s\<lparr> px_context := (px_context s)\<lparr> ec_Response := Some (code, None) \<rparr> \<rparr>, Inr ())),
     el_JSON = (\<lambda>code j s. (s\<lparr> px_context := (px_context s)\<lparr> ec_Response := Some (code, Some j) \<rparr> \<rparr>, Inr ())),
     el_Now = (\<lambda>_. 7),
     el_timeText = show_int \<rparr>"

lemma sample_echo_laws: "echo_laws sample_echo sample_keys (\<lambda>_. ''unauthorized'') px_world"
  unfolding echo_laws_def
proof (intro conjI)
  show "rewrite_law sample_echo"
    by (auto simp: rewrite_law_def sample_echo_def HasPrefix_iff)
  show "recover_law sample_echo"
    by (auto simp: recover_law_def sample_echo_def split: prod.splits sum.splits go_error.splits)
qed (auto simp: sample_echo_def routes_law_def use_law_def logger_law_def key_auth_law_def is_health_def
      split: prod.splits)

definition sample_opts :: authproxy_options where
  "sample_opts = authproxy_defaults\<lparr> ao_remote := ''http://127.0.0.1:8000'', ao_token := ''secret'',
     ao_stripPathPrefix := ''s'' \<rparr>"

definition any_authority :: authority_parser where
  "any_authority = (\<lambda>a. Inr (None, a))"

definition session_url :: url where
  "session_url = empty_url\<lparr> u_Scheme := ''http'', u_Host := ''127.0.0.1:8000'' \<rparr>"

lemma sample_remote_parses: "url_Parse any_authority ''http://127.0.0.1:8000'' = Inr session_url"
  by code_simp

lemma sample_served:
  "authproxy_serve L any_authority sample_opts = Inr (proxy_server L sample_opts session_url, meta_server L sample_opts)"
  using sample_remote_parses by (simp add: authproxy_serve_def sample_opts_def)

definition sample_request :: "(string \<times> string) list \<Rightarrow> echo_context list px_state" where
  "sample_request header = \<lparr> px_world = [], px_stats = NewStats 1,
     px_context = \<lparr> ec_Method = ''GET'', ec_Path = ''/s/lab'', ec_Header = header, ec_Response = None \<rparr> \<rparr>"

theorem unauthorised_never_forwarded_witness:
  "handle_request (sample_echo\<lparr> el_Proxy := (\<lambda>_ _. failA (Panicked ''reached'')) \<rparr>)
     (proxy_server (sample_echo\<lparr> el_Proxy := (\<lambda>_ _. failA (Panicked ''reached'')) \<rparr>) sample_opts session_url)
     (sample_request [(''cookie:renku-auth'', ''guess'')]) =
   handle_request sample_echo (proxy_server sample_echo sample_opts session_url)
     (sample_request [(''cookie:renku-auth'', ''guess'')])"
proof -
  have "\<not> authorised sample_keys sample_opts (px_context (sample_request [(''cookie:renku-auth'', ''guess'')]))"
    by code_simp
  moreover have "\<not> is_health (px_context (sample_request [(''cookie:renku-auth'', ''guess'')]))"
    by code_simp
  moreover have "ao_token sample_opts \<noteq> []" by code_simp
  ultimately show ?thesis
    using unauthorised_never_forwarded [OF sample_echo_laws _ _ sample_served sample_served] by blast
qed

theorem authorised_forwarded_witness:
  "ec_Path (hd (px_world (handle_request sample_echo (proxy_server sample_echo sample_opts session_url)
     (sample_request [(''cookie:renku-auth'', ''secret'')])))) = ''/lab''"
proof -
  let ?s = "sample_request [(''cookie:renku-auth'', ''secret'')]"
  have proxy: "el_Proxy sample_echo us h s = (s\<lparr> px_world := px_context s # px_world s,
       px_context := (px_context s)\<lparr> ec_Response := Some (200, None) \<rparr> \<rparr>, Inr ())" for us h s
    by (simp add: sample_echo_def)
  have "authorised sample_keys sample_opts (px_context ?s)" "below_prefix sample_opts (px_context ?s)"
    "\<not> is_health (px_context ?s)" by code_simp+
  moreover have "url_Parse any_authority (ao_remote sample_opts) = Inr session_url"
    using sample_remote_parses by (simp add: sample_opts_def)
  ultimately have "handle_request sample_echo (proxy_server sample_echo sample_opts session_url) ?s =
      noted sample_echo px_world (el_Proxy sample_echo [session_url] (el_NotFoundHandler sample_echo) (forwarded sample_opts ?s))"
    using authorised_forwarded [OF sample_echo_laws sample_served] by (simp add: proxy)
  moreover have "ec_Path (px_context (forwarded sample_opts ?s)) = ''/lab''" by code_simp
  ultimately show ?thesis by (simp add: proxy noted_def Let_def)
qed

end
