(* ===== verification/Auth_Proxy_Operator.thy ===== *)
theory Auth_Proxy_Operator
  imports Auth_Proxy_Props
begin

text \<open>
  The operator and the authentication proxy together: the container that the operator templates
  for a session with token authentication, and the configuration that the proxy in it loads.
\<close>

section \<open>The flags\<close>

definition authproxy_vars :: "var_binding list" where
  "authproxy_vars = map (\<lambda>(flag, d, env). \<lparr> vb_Flag = flag, vb_Default = d, vb_Key = ''authproxy.'' @ flag, vb_Env = env \<rparr>)
     [(''remote'', StringVar [], ''AUTHPROXY_REMOTE''),
      (''strip_path_prefix'', StringVar [], ''AUTHPROXY_STRIP_PATH_PREFIX''),
      (''port'', IntVar 65535, ''AUTHPROXY_PORT''),
      (''meta_port'', IntVar 65534, ''AUTHPROXY_META_PORT''),
      (''cookie_key'', StringVar ''renku-auth'', ''AUTHPROXY_COOKIE_KEY''),
      (''token'', StringVar [], ''AUTHPROXY_TOKEN''),
      (''verbose'', BoolVar False, ''AUTHPROXY_VERBOSE'')]"

lemma authproxy_Command_eq: "authproxy_Command = Inr authproxy_vars"
  by code_simp

lemma authproxy_keys_distinct: "distinct (map vb_Key authproxy_vars)"
  by code_simp

section \<open>The container\<close>

text \<open>The variables that the operator sets; a session that does not strip its path sets no prefix.\<close>

lemma proxy_container_env:
  fixes env as p mp rp
  defines "es \<equiv> container_env (c_Env (get_rewrite_authn_proxy env as p mp rp))"
  shows "es ''AUTHPROXY_PORT'' = Some (show_int p)"
    "es ''AUTHPROXY_META_PORT'' = Some (show_int mp)"
    "es ''AUTHPROXY_REMOTE'' = Some (local_url rp)"
    "es ''AUTHPROXY_STRIP_PATH_PREFIX'' = (if ses_StripURLPath (as_Session as) then Some (urlPath as) else None)"
    "es ''AUTHPROXY_TOKEN'' = None" "es ''AUTHPROXY_COOKIE_KEY'' = None" "es ''AUTHPROXY_VERBOSE'' = None"
  unfolding es_def container_env_def get_rewrite_authn_proxy_def Let_def
  by (simp_all add: env_value_def)

lemma urlPath_nonempty: "urlPath as \<noteq> []"
  by (auto simp: urlPath_def Let_def HasSuffix_def HasPrefix_def)

lemma show_int_nonempty: "show_int n \<noteq> []"
  using show_nat_nonempty by (simp add: show_int_def)

definition token_config :: "Authentication \<Rightarrow> string" where
  "token_config a = ''/etc/authproxy/'' @ sr_Key (auth_SecretRef a)"

lemma token_container:
  assumes "auth env as = Inr mf" "sp_Authentication (as_Spec as) = Some a" "auth_Enabled a" "auth_Type a = Token"
    "c \<in> set (mf_Containers mf)"
  shows "c_Args c = [''proxy'', ''serve'', ''--config'', token_config a]"
    "c_Env c = c_Env (get_rewrite_authn_proxy env as authenticatedPort AuthProxyMetaPort (ses_Port (as_Session as)))"
    "c_ReadinessProbe c = Some (http_probe ''/__amalthea__/health'' authenticatedPort)"
  using assms
  by (auto simp: auth_def Let_def token_config_def get_rewrite_authn_proxy_def split: if_splits)

section \<open>The configuration\<close>

definition strip_option :: "AmaltheaSession \<Rightarrow> settings \<Rightarrow> string" where
  "strip_option as file =
     (if ses_StripURLPath (as_Session as) then urlPath as
      else case file ''authproxy.strip_path_prefix'' of Some p \<Rightarrow> p | None \<Rightarrow> [])"

definition token_options :: "AmaltheaSession \<Rightarrow> Authentication \<Rightarrow> settings \<Rightarrow> authproxy_options" where
  "token_options as a file = \<lparr>
     ao_remote = local_url (ses_Port (as_Session as)), ao_port = authenticatedPort, ao_metaPort = AuthProxyMetaPort,
     ao_token = (case file ''authproxy.token'' of Some t \<Rightarrow> t | None \<Rightarrow> []),
     ao_cookieKey = (case file ''authproxy.cookie_key'' of Some k \<Rightarrow> k | None \<Rightarrow> ''renku-auth''),
     ao_verbose = False, ao_config = token_config a, ao_stripPathPrefix = strip_option as file \<rparr>"

lemma found_values:
  assumes "viper_finds authproxy_vars [''config'' \<mapsto> cf]
      (container_env (c_Env (get_rewrite_authn_proxy env as p mp rp))) V"
  shows "vs_find V file ''authproxy.port'' = Some (show_int p)"
    "vs_find V file ''authproxy.meta_port'' = Some (show_int mp)"
    "vs_find V file ''authproxy.remote'' = Some (local_url rp)"
    "vs_find V file ''authproxy.strip_path_prefix'' =
       (if ses_StripURLPath (as_Session as) then Some (urlPath as) else file ''authproxy.strip_path_prefix'')"
    "vs_find V file ''authproxy.token'' = file ''authproxy.token''"
    "vs_find V file ''authproxy.cookie_key'' = file ''authproxy.cookie_key''"
    "vs_find V file ''authproxy.verbose'' = file ''authproxy.verbose''"
    "vs_find V file ''authproxy.config'' = file ''authproxy.config''"
  using assms unfolding viper_finds_def authproxy_vars_def
  by (simp_all add: viper_value_def proxy_container_env show_int_nonempty urlPath_nonempty local_url_def)

lemma token_options_loaded:
  assumes "viper_finds authproxy_vars [''config'' \<mapsto> token_config a] (container_env (c_Env
      (get_rewrite_authn_proxy env as authenticatedPort AuthProxyMetaPort (ses_Port (as_Session as))))) V"
    and "vs_ReadInConfig V (token_config a) = Inr file" "\<And>n. 0 \<le> n \<Longrightarrow> n < 65536 \<Longrightarrow> pf_int pf (show_int n) = Inr n"
    and "file ''authproxy.verbose'' = None" "file ''authproxy.config'' = None"
    and "url_Parse pa (local_url (ses_Port (as_Session as))) = Inr u"
  shows "authproxy_main L pa pf V [(''config'', token_config a)] =
    Inr (proxy_server L (token_options as a file) u, meta_server L (token_options as a file))"
proof -
  have cf: "token_config a \<noteq> []" by (simp add: token_config_def)
  have parse: "parse_args pf [(''config'', token_config a)] authproxy_defaults =
      Inr (authproxy_defaults\<lparr> ao_config := token_config a \<rparr>)"
    by (simp add: flag_Set_def authproxy_flag_defs)
  let ?o = "authproxy_defaults\<lparr> ao_config := token_config a \<rparr>"
  have loaded: "config_file V ?o = Inr file" using assms(2) cf by (simp add: config_file_def)
  have ports: "pf_int pf (show_int authenticatedPort) = Inr authenticatedPort"
    "pf_int pf (show_int AuthProxyMetaPort) = Inr AuthProxyMetaPort"
    by (rule assms(3); simp add: authenticatedPort_def AuthProxyMetaPort_def)+
  have "visit_flags pf (vs_find V file) visited_flags ?o = Inr (token_options as a file)"
    unfolding visited_flags_def
    by (simp add: authproxy_flag_defs found_values [OF assms(1)] ports assms(4,5) flag_Set_def
        authproxy_defaults_def token_options_def strip_option_def split: option.splits)
  then have "loadConfig pf V ?o = Inr (token_options as a file)" by (simp add: loadConfig_def loaded)
  moreover have "remote_given V [(''config'', token_config a)] ?o"
    by (simp add: remote_given_def loaded authproxy_flag_defs found_values [OF assms(1)])
  moreover have "ao_remote (token_options as a file) = local_url (ses_Port (as_Session as))"
    by (simp add: token_options_def)
  ultimately show ?thesis
    using assms(6) by (simp add: authproxy_main_def parse authproxy_serve_def del: parse_args.simps)
qed


text \<open>C4: The container that the operator templates for token authentication guards the session. With a
  secret that holds a token below \<^verbatim>\<open>authproxy\<close>, the proxy in the container listens on the port
  that its probes and the service of the session address, forwards to the port of the session, strips the path of
  the session if the session asks for it, and treats a request without that token in the same way
  whatever the session would do with it.\<close>

theorem token_container_guards_session:
  assumes "auth env as = Inr mf" "sp_Authentication (as_Spec as) = Some a" "auth_Enabled a" "auth_Type a = Token"
    and "c \<in> set (mf_Containers mf)"
    and "viper_finds authproxy_vars [''config'' \<mapsto> last (c_Args c)] (container_env (c_Env c)) V"
    and "vs_ReadInConfig V (last (c_Args c)) = Inr file" "file ''authproxy.token'' = Some t" "t \<noteq> []"
    and "file ''authproxy.verbose'' = None" "file ''authproxy.config'' = None"
    and "\<And>n. 0 \<le> n \<Longrightarrow> n < 65536 \<Longrightarrow> pf_int pf (show_int n) = Inr n" "url_Parse pa (local_url (ses_Port (as_Session as))) = Inr u"
    and "echo_laws L keys reason log"
  shows "\<exists>opts. (\<forall>L. authproxy_main L pa pf V [(''config'', last (c_Args c))] =
          Inr (proxy_server L opts u, meta_server L opts))
      \<and> c_ReadinessProbe c = Some (http_probe ''/__amalthea__/health'' (ao_port opts))
      \<and> ao_port opts = authenticatedPort \<and> ao_metaPort opts = AuthProxyMetaPort
      \<and> ao_remote opts = local_url (ses_Port (as_Session as))
      \<and> (ses_StripURLPath (as_Session as) \<longrightarrow> ao_stripPathPrefix opts = urlPath as)
      \<and> (\<forall>s P. t \<notin> set (keys (keyLookup (ao_cookieKey opts)) (px_context s)) \<and> \<not> is_health (px_context s) \<longrightarrow>
           handle_request (L\<lparr> el_Proxy := P \<rparr>) (proxy_server (L\<lparr> el_Proxy := P \<rparr>) opts u) s =
           handle_request L (proxy_server L opts u) s)"
proof -
  note c = token_container [OF assms(1-5)]
  have last: "last (c_Args c) = token_config a" by (simp add: c(1))
  let ?opts = "token_options as a file"
  have main: "authproxy_main L pa pf V [(''config'', last (c_Args c))] = Inr (proxy_server L ?opts u, meta_server L ?opts)"
    for L :: "'c echo_lib"
    using token_options_loaded assms(6,7,10-13) unfolding last c(2) by blast
  have served: "authproxy_serve L pa ?opts = Inr (proxy_server L ?opts u, meta_server L ?opts)" for L :: "'c echo_lib"
    using assms(13) by (simp add: authproxy_serve_def token_options_def)
  have token: "ao_token ?opts = t" using assms(8) by (simp add: token_options_def)
  have "handle_request (L\<lparr> el_Proxy := P \<rparr>) (proxy_server (L\<lparr> el_Proxy := P \<rparr>) ?opts u) s =
      handle_request L (proxy_server L ?opts u) s"
    if "t \<notin> set (keys (keyLookup (ao_cookieKey ?opts)) (px_context s))" "\<not> is_health (px_context s)" for s P
    using that assms(9) token by (intro unauthorised_never_forwarded_lemma [OF assms(14) _ _ served served])
      (auto simp: authorised_def)
  then show ?thesis
    using main c(3) by (intro exI [of _ ?opts]) (auto simp: token_options_def strip_option_def)
qed

text \<open>C40: The secret that the description of the custom resource asks for switches the authentication off.
  The proxy looks for the token below the key \<^verbatim>\<open>authproxy\<close>; with a file that has \<^verbatim>\<open>token\<close> and
  \<^verbatim>\<open>cookie_key\<close> at the top, as documented, the proxy starts without an error, and every request,
  except those for its own health, is handed to the session, whatever keys it carries. The session is
  one that keeps its URL path.\<close>

theorem documented_secret_disables_authentication:
  assumes "auth env as = Inr mf" "sp_Authentication (as_Spec as) = Some a" "auth_Enabled a" "auth_Type a = Token"
    and "c \<in> set (mf_Containers mf)" "\<not> ses_StripURLPath (as_Session as)"
    and "viper_finds authproxy_vars [''config'' \<mapsto> last (c_Args c)] (container_env (c_Env c)) V"
    and "vs_ReadInConfig V (last (c_Args c)) = Inr [''token'' \<mapsto> t, ''cookie_key'' \<mapsto> k]"
    and "\<And>n. 0 \<le> n \<Longrightarrow> n < 65536 \<Longrightarrow> pf_int pf (show_int n) = Inr n" "url_Parse pa (local_url (ses_Port (as_Session as))) = Inr u"
    and "echo_laws L keys reason log" "\<not> is_health (px_context s)"
    and "\<forall>m. snd (el_Proxy L [u] (el_NotFoundHandler L) s) \<noteq> Inl (Panicked m)"
  shows "\<exists>e m. authproxy_main L pa pf V [(''config'', last (c_Args c))] = Inr (e, m)
    \<and> handle_request L e s = noted L log (el_Proxy L [u] (el_NotFoundHandler L) s)"
proof -
  note c = token_container [OF assms(1-5)]
  have last: "last (c_Args c) = token_config a" by (simp add: c(1))
  let ?file = "[''token'' \<mapsto> t, ''cookie_key'' \<mapsto> k]"
  let ?opts = "token_options as a ?file"
  have main: "authproxy_main L pa pf V [(''config'', last (c_Args c))] = Inr (proxy_server L ?opts u, meta_server L ?opts)"
    using token_options_loaded [of a env as V ?file pf pa u L] assms(7-10) unfolding last c(2) by simp
  have served: "authproxy_serve L pa ?opts = Inr (proxy_server L ?opts u, meta_server L ?opts)"
    using assms(10) by (simp add: authproxy_serve_def token_options_def)
  have open_opts: "ao_token ?opts = []" "ao_stripPathPrefix ?opts = []"
    using assms(6) by (simp_all add: token_options_def strip_option_def)
  then have "authorised keys ?opts (px_context s)" "below_prefix ?opts (px_context s)" "forwarded ?opts s = s"
    by (simp_all add: authorised_def below_prefix_def forwarded_def)
  with authorised_forwarded_url [OF assms(11) served assms(12)] assms(10,13) main show ?thesis
    by (auto simp: token_options_def)
qed


section \<open>A session with token authentication\<close>

definition token_manifests :: manifests where
  "token_manifests = (case auth sample_env sample_session of Inr mf \<Rightarrow> mf | Inl _ \<Rightarrow> no_manifests)"

definition token_container_sample :: Container where
  "token_container_sample = hd (mf_Containers token_manifests)"

lemma sample_token:
  "auth sample_env sample_session = Inr token_manifests"
  "sp_Authentication (as_Spec sample_session) = Some sample_auth" "auth_Enabled sample_auth" "auth_Type sample_auth = Token"
  "token_container_sample \<in> set (mf_Containers token_manifests)"
  "\<not> ses_StripURLPath (as_Session sample_session)" "ses_Port (as_Session sample_session) = 8000"
  by (simp_all add: token_container_sample_def token_manifests_def auth_def sample_defs getUseNoneSameSiteSessionCookie_def
      ToLower_def Let_def)

definition literal_parsers :: pflag_parsers where
  "literal_parsers = \<lparr> pf_int = (\<lambda>s. case int_literal s of Some n \<Rightarrow> Inr n | None \<Rightarrow> Inl (Err s)),
     pf_bool = (\<lambda>s. Inr (s = ''true'')) \<rparr>"

lemma literal_ports: "0 \<le> n \<Longrightarrow> n < 65536 \<Longrightarrow> pf_int literal_parsers (show_int n) = Inr n"
  using decode_show_int [of n] by (simp add: literal_parsers_def split: option.splits)

definition token_viper :: "settings \<Rightarrow> viper_source" where
  "token_viper file = plain_viper authproxy_vars [''config'' \<mapsto> last (c_Args token_container_sample)]
     (container_env (c_Env token_container_sample)) (\<lambda>_. Inr file)"

lemma token_viper_laws:
  "viper_finds authproxy_vars [''config'' \<mapsto> last (c_Args token_container_sample)]
     (container_env (c_Env token_container_sample)) (token_viper file)"
  "vs_ReadInConfig (token_viper file) p = Inr file"
  using plain_viper_finds [OF authproxy_keys_distinct] by (simp_all add: token_viper_def plain_viper_def)

lemma sample_local_url: "url_Parse any_authority (local_url (ses_Port (as_Session sample_session))) = Inr session_url"
proof -
  have "show_int 8000 = ''8000''"
    by (simp add: show_int_def show_nat.simps digit_char_def char_of_def bit_0)
  then show ?thesis using sample_remote_parses by (simp add: sample_token(7) local_url_def)
qed

theorem token_container_guards_session_witness:
  "\<exists>opts. authproxy_main sample_echo any_authority literal_parsers
        (token_viper [''authproxy.token'' \<mapsto> ''secret'']) [(''config'', last (c_Args token_container_sample))] =
      Inr (proxy_server sample_echo opts session_url, meta_server sample_echo opts)
    \<and> handle_request (sample_echo\<lparr> el_Proxy := (\<lambda>_ _. failA (Panicked ''reached'')) \<rparr>)
        (proxy_server (sample_echo\<lparr> el_Proxy := (\<lambda>_ _. failA (Panicked ''reached'')) \<rparr>) opts session_url)
        (sample_request []) =
      handle_request sample_echo (proxy_server sample_echo opts session_url) (sample_request [])"
proof -
  have none: "sample_keys places (px_context (sample_request [])) = []" "\<not> is_health (px_context (sample_request []))" for places
    by (simp_all add: sample_keys_def sample_request_def is_health_def)
  show ?thesis
    using token_container_guards_session [OF sample_token(1-5) token_viper_laws(1)
        token_viper_laws(2) [of "[''authproxy.token'' \<mapsto> ''secret'']"] _ _ _ _ literal_ports sample_local_url
        sample_echo_laws, of "''secret''"] none by fastforce
qed

theorem documented_secret_disables_authentication_witness:
  "\<exists>e m. authproxy_main sample_echo any_authority literal_parsers
        (token_viper [''token'' \<mapsto> ''secret'', ''cookie_key'' \<mapsto> ''k'']) [(''config'', last (c_Args token_container_sample))] =
      Inr (e, m)
    \<and> px_world (handle_request sample_echo e (sample_request [])) = [px_context (sample_request [])]"
proof -
  have proxy: "el_Proxy sample_echo us h s = (s\<lparr> px_world := px_context s # px_world s,
       px_context := (px_context s)\<lparr> ec_Response := Some (200, None) \<rparr> \<rparr>, Inr ())" for us h s
    by (simp add: sample_echo_def)
  have "\<not> is_health (px_context (sample_request []))" by (simp add: sample_request_def is_health_def)
  from documented_secret_disables_authentication [OF sample_token(1-6) token_viper_laws literal_ports
      sample_local_url sample_echo_laws this]
  show ?thesis by (fastforce simp: proxy noted_def sample_request_def)
qed

end
