(* ===== verification/Tunnel.thy ===== *)
theory Tunnel
  imports Sidecar_Flags Go_Action
begin

text \<open>
  The tunnel (\<^verbatim>\<open>src/internal/tunnel/\<close>), the helper program in the pod of a remote session to
  which the job on the cluster connects: it writes a file with the restrictions for the program
  \<^verbatim>\<open>wstunnel\<close> and runs that program. Temporary files, the program and the YAML encoder are
  parameters.
\<close>

section \<open>Restrictions\<close>

datatype yaml_node =
    ScalarNode string string
  | SequenceNode string "yaml_node list"
  | MappingNode string "yaml_node list"

text \<open>Tag, then value or content; the content of a mapping alternates keys and values.\<close>

record Restriction =
  rst_Name :: string
  rst_Match :: "yaml_node list"
  rst_Allow :: "yaml_node list"

record TunnelConfig =
  tc_Restrictions :: "Restriction list"

definition authorization_pattern :: "string \<Rightarrow> string" where
  "authorization_pattern secret = ''^[Bb]earer +'' @ secret @ ''$''"

definition tcp_node :: "string \<Rightarrow> yaml_node" where
  "tcp_node tag = MappingNode tag
     [ScalarNode [] ''protocol'', SequenceNode [] [ScalarNode [] ''Tcp'']]"

definition tunnel_config :: "string \<Rightarrow> TunnelConfig" where
  "tunnel_config secret = \<lparr> tc_Restrictions =
     [\<lparr> rst_Name = ''My config'',
        rst_Match = [ScalarNode ''!Authorization'' (authorization_pattern secret)],
        rst_Allow = [tcp_node ''!Tunnel'', tcp_node ''!ReverseTunnel''] \<rparr>] \<rparr>"

section \<open>Flags\<close>

definition wstunnelSecretFlag :: string where "wstunnelSecretFlag = ''secret''"
definition wstunnelPortFlag :: string where "wstunnelPortFlag = ''port''"
definition wstunnelLogLevelFlag :: string where "wstunnelLogLevelFlag = ''log-level''"
definition wstunnelPrefix :: string where "wstunnelPrefix = ''wstunnel''"

lemmas tunnel_flag_defs = wstunnelSecretFlag_def wstunnelPortFlag_def wstunnelLogLevelFlag_def wstunnelPrefix_def

definition tunnel_Command :: "var_binding list result" where
  "tunnel_Command =
     (let bind = bind_var wstunnelPrefix in
      bindE (bind wstunnelSecretFlag (StringVar []) []) (\<lambda>bs.
      bindE (bind wstunnelPortFlag (StringVar ''5050'') bs) (\<lambda>bs.
      bind wstunnelLogLevelFlag (StringVar ''INFO'') bs)))"

text \<open>The keys that the hook before the command binds to the same flags without the prefix.\<close>

definition tunnel_prerun_keys :: "var_binding list \<Rightarrow> string list" where
  "tunnel_prerun_keys bs = map vb_Flag bs"

text \<open>\<^verbatim>\<open>viper.GetString\<close> of a key that is bound to a flag: the default of the flag comes last.\<close>

definition flag_default :: "var_binding list \<Rightarrow> string \<Rightarrow> string" where
  "flag_default bs key =
     (case map_of (map (\<lambda>b. (vb_Key b, vb_Default b)) bs) key of Some (StringVar s) \<Rightarrow> s | _ \<Rightarrow> [])"

definition viper_GetString :: "var_binding list \<Rightarrow> viper_source \<Rightarrow> string \<Rightarrow> string" where
  "viper_GetString bs V key = (case vs_find V Map.empty key of Some s \<Rightarrow> s | None \<Rightarrow> flag_default bs key)"

section \<open>The command\<close>

record 'w tunnel_host =
  th_Marshal :: "TunnelConfig \<Rightarrow> string result"
  th_CreateTemp :: "string \<Rightarrow> ('w, string) action"
  th_Write :: "string \<Rightarrow> string \<Rightarrow> ('w, unit) action"
  th_Close :: "string \<Rightarrow> ('w, unit) action"
  th_Remove :: "string \<Rightarrow> ('w, unit) action"
  th_Printf :: "string \<Rightarrow> 'w \<Rightarrow> 'w"
  th_Run :: "string \<Rightarrow> string list \<Rightarrow> ('w, unit) action"

definition wrapped :: "string \<Rightarrow> ('w, 'a) action \<Rightarrow> ('w, 'a) action" where
  "wrapped msg m w = (case m w of (w', Inl e) \<Rightarrow> (w', Inl (Err (msg @ '': '' @ err_msg e))) | r \<Rightarrow> r)"

definition or_default :: "string \<Rightarrow> string \<Rightarrow> string" where
  "or_default s d = (if s = [] then d else s)"

definition wstunnelArgs :: "string \<Rightarrow> string \<Rightarrow> string \<Rightarrow> string list" where
  "wstunnelArgs path logLevel port =
     [''server'', ''--restrict-config'', path, ''--log-lvl'', logLevel, ''ws://0.0.0.0:'' @ port]"

text \<open>
  From the creation of the file on, it is removed on every way out, and an error of the removal
  is ignored; when the text cannot be written the file is closed first.
\<close>

definition with_file ::
  "'w tunnel_host \<Rightarrow> string \<Rightarrow> string \<Rightarrow> string \<Rightarrow> string \<Rightarrow> ('w, unit) action" where
  "with_file h path yamlContent logLevel port =
     bindA (tryA (th_Write h path yamlContent)) (\<lambda>r.
     case r of
       Inl e \<Rightarrow> bindA (tryA (th_Close h path)) (\<lambda>_.
         failA (Err (''failed to write YAML to temporary file: '' @ err_msg e)))
     | Inr _ \<Rightarrow>
         bindA (wrapped ''failed to close temporary file'' (th_Close h path)) (\<lambda>_.
         bindA (\<lambda>w. (th_Printf h (''Executing wstunnel: wstunnel ''
                        @ str_Join (wstunnelArgs path logLevel port) '' '' @ [CHR 0x0A]) w, Inr ())) (\<lambda>_.
         wrapped ''wstunnel command failed'' (th_Run h ''wstunnel'' (wstunnelArgs path logLevel port)))))"

definition deferred :: "('w, 'b) action \<Rightarrow> ('w, 'a) action \<Rightarrow> ('w, 'a) action" where
  "deferred fin m w = (case m w of (w', r) \<Rightarrow> (fst (fin w'), r))"

definition tunnel_listen :: "'w tunnel_host \<Rightarrow> (string \<Rightarrow> string) \<Rightarrow> ('w, unit) action" where
  "tunnel_listen h GetString =
     (let wstunnelSecret = GetString (wstunnelPrefix @ ''.'' @ wstunnelSecretFlag) in
      if wstunnelSecret = [] then
        failA (Err ''wstunnel secret is not set, use --secret or WSTUNNEL_SECRET environment variable'')
      else
        (let wstunnelPort = or_default (GetString (wstunnelPrefix @ ''.'' @ wstunnelPortFlag)) ''5050'';
             wstunnelLogLevel = or_default (GetString (wstunnelPrefix @ ''.'' @ wstunnelLogLevelFlag)) ''INFO'' in
         bindA (wrapped ''failed to marshal YAML config'' (liftE (th_Marshal h (tunnel_config wstunnelSecret)))) (\<lambda>yamlContent.
         bindA (wrapped ''failed to create temporary file'' (th_CreateTemp h ''wstunnel-restrict-config-*.yaml'')) (\<lambda>path.
         deferred (th_Remove h path) (with_file h path yamlContent wstunnelLogLevel wstunnelPort)))))"

end
