(* ===== verification/Tunnel_Props.thy ===== *)
theory Tunnel_Props
  imports Tunnel Children_Props
begin

text \<open>
  The tunnel: its temporary file does not outlive the command, and the tunnel in the container
  that the operator templates admits exactly the secret that the operator made.
\<close>

section \<open>The flags\<close>

definition tunnel_vars :: "var_binding list" where
  "tunnel_vars =
     [\<lparr> vb_Flag = ''secret'', vb_Default = StringVar [], vb_Key = ''wstunnel.secret'', vb_Env = ''WSTUNNEL_SECRET'' \<rparr>,
      \<lparr> vb_Flag = ''port'', vb_Default = StringVar ''5050'', vb_Key = ''wstunnel.port'', vb_Env = ''WSTUNNEL_PORT'' \<rparr>,
      \<lparr> vb_Flag = ''log-level'', vb_Default = StringVar ''INFO'', vb_Key = ''wstunnel.log-level'',
         vb_Env = ''WSTUNNEL_LOG-LEVEL'' \<rparr>]"

lemma tunnel_Command_eq: "tunnel_Command = Inr tunnel_vars"
  by code_simp

lemma tunnel_keys_distinct: "distinct (map vb_Key tunnel_vars)"
  by code_simp

section \<open>The temporary file\<close>

text \<open>
  What is relied on of the operating system: a file that is created is a new one, removing a
  file removes it and no other, and the other calls create and remove none. \<open>files\<close> are the files
  of a world.
\<close>

definition file_laws :: "'w tunnel_host \<Rightarrow> ('w \<Rightarrow> string set) \<Rightarrow> bool" where
  "file_laws h files \<longleftrightarrow>
     (\<forall>pat w w' path. th_CreateTemp h pat w = (w', Inr path) \<longrightarrow> path \<notin> files w \<and> files w' = insert path (files w)) \<and>
     (\<forall>pat w w' e. th_CreateTemp h pat w = (w', Inl e) \<longrightarrow> files w' = files w) \<and>
     (\<forall>path w. files (fst (th_Remove h path w)) = files w - {path}) \<and>
     (\<forall>path s w. files (fst (th_Write h path s w)) = files w) \<and>
     (\<forall>path w. files (fst (th_Close h path w)) = files w) \<and>
     (\<forall>s w. files (th_Printf h s w) = files w) \<and>
     (\<forall>cmd args w. files (fst (th_Run h cmd args w)) = files w)"

lemma fst_bindA_keeps:
  assumes "files (fst (m w)) = files w" "\<And>x w'. files (fst (f x w')) = files w'"
  shows "files (fst (bindA m f w)) = files w"
  using assms by (auto simp: bindA_def split: prod.splits sum.splits)

lemma bindA_update: "bindA (\<lambda>w. (g w, Inr x)) f w = f x (g w)"
  by (simp add: bindA_def)

lemma fst_wrapped [simp]: "fst (wrapped msg m w) = fst (m w)"
  by (auto simp: wrapped_def split: prod.splits sum.splits)

lemma fst_tryA [simp]: "fst (tryA m w) = fst (m w)"
  by (auto simp: tryA_def split: prod.splits)

lemma with_file_keeps:
  assumes "file_laws h files"
  shows "files (fst (with_file h path y l p w)) = files w"
  unfolding with_file_def
proof (rule fst_bindA_keeps)
  show "files (fst (tryA (th_Write h path y) w)) = files w"
    using assms by (simp add: file_laws_def)
next
  fix r w'
  have close: "files (fst (th_Close h path w)) = files w" for w
    using assms by (simp add: file_laws_def)
  have run: "files (fst (th_Run h c args w)) = files w" for c args w
    using assms by (simp add: file_laws_def)
  have print: "files (th_Printf h s w) = files w" for s w
    using assms by (simp add: file_laws_def)
  show "files (fst ((case r of
      Inl e \<Rightarrow> bindA (tryA (th_Close h path)) (\<lambda>_.
         failA (Err (''failed to write YAML to temporary file: '' @ err_msg e)))
     | Inr _ \<Rightarrow>
         bindA (wrapped ''failed to close temporary file'' (th_Close h path)) (\<lambda>_.
         bindA (\<lambda>w. (th_Printf h (''Executing wstunnel: wstunnel ''
                        @ str_Join (wstunnelArgs path l p) '' '' @ [CHR 0x0A]) w, Inr ())) (\<lambda>_.
         wrapped ''wstunnel command failed'' (th_Run h ''wstunnel'' (wstunnelArgs path l p))))) w')) = files w'"
    by (cases r) (auto intro!: fst_bindA_keeps simp: close run print failA_def)
qed

text \<open>C25: The file with the secret of the tunnel does not stay behind: whether the command succeeds or
  fails, and at whichever call it fails, the files after it are those before it.\<close>

theorem tunnel_file_removed:
  assumes "file_laws h files"
  shows "files (fst (tunnel_listen h GetString w)) = files w"
proof -
  have created: "files (fst (bindA (wrapped msg (th_CreateTemp h pat)) (\<lambda>path.
      deferred (th_Remove h path) (with_file h path y l p)) w)) = files w" for msg pat y l p w
  proof (cases "th_CreateTemp h pat w")
    case (Pair w1 r)
    show ?thesis
    proof (cases r)
      case (Inl e)
      have "\<forall>pat w w' e. th_CreateTemp h pat w = (w', Inl e) \<longrightarrow> files w' = files w"
        using assms unfolding file_laws_def by (elim conjE)
      with Pair Inl have "files w1 = files w" by blast
      then show ?thesis using Pair Inl by (simp add: bindA_def wrapped_def)
    next
      case (Inr path)
      obtain w2 r2 where w2: "with_file h path y l p w1 = (w2, r2)" by fastforce
      have "files w1 = insert path (files w)" "path \<notin> files w"
        using assms Pair Inr by (auto simp: file_laws_def)
      moreover have "files w2 = files w1" using with_file_keeps [OF assms, of path y l p w1] w2 by simp
      moreover have "files (fst (th_Remove h path w2)) = files w2 - {path}" using assms by (simp add: file_laws_def)
      ultimately show ?thesis using Pair Inr w2 by (simp add: bindA_def wrapped_def deferred_def)
    qed
  qed
  have marshal: "fst (wrapped msg (liftE r) w) = w" for msg r w
    by (cases r) (simp_all add: liftE_def failA_def returnA_def wrapped_def)
  show ?thesis
  proof (cases "GetString (wstunnelPrefix @ ''.'' @ wstunnelSecretFlag) = []")
    case False
    show ?thesis
      unfolding tunnel_listen_def Let_def if_not_P [OF False]
      by (rule fst_bindA_keeps) (simp_all only: created marshal)
  qed (simp add: tunnel_listen_def failA_def)
qed


text \<open>Files with their texts, and the texts that were read when \<^verbatim>\<open>wstunnel\<close> ran.\<close>

record tmp_world =
  tw_files :: "string \<rightharpoonup> string"
  tw_runs :: "(string list \<times> string option) list"

definition tmp_host :: "(TunnelConfig \<Rightarrow> string result) \<Rightarrow> unit result \<Rightarrow> tmp_world tunnel_host" where
  "tmp_host enc exit = \<lparr>
     th_Marshal = enc,
     th_CreateTemp = (\<lambda>_ w. if tw_files w ''/tmp/x'' = None
        then (w\<lparr> tw_files := (tw_files w)(''/tmp/x'' \<mapsto> []) \<rparr>, Inr ''/tmp/x'') else (w, Inl (Err ''exists''))),
     th_Write = (\<lambda>p t w. if tw_files w p = None then (w, Inl (Err ''gone''))
        else (w\<lparr> tw_files := (tw_files w)(p \<mapsto> t) \<rparr>, Inr ())),
     th_Close = (\<lambda>_ w. (w, Inr ())),
     th_Remove = (\<lambda>p w. (w\<lparr> tw_files := (tw_files w)(p := None) \<rparr>, Inr ())),
     th_Printf = (\<lambda>_ w. w),
     th_Run = (\<lambda>c args w. (w\<lparr> tw_runs := (args, tw_files w (args ! 2)) # tw_runs w \<rparr>, exit)) \<rparr>"

lemma tmp_host_laws: "file_laws (tmp_host enc exit) (\<lambda>w. dom (tw_files w))"
  unfolding file_laws_def by (auto simp: tmp_host_def split: if_splits)

theorem tunnel_file_removed_witness:
  "dom (tw_files (fst (tunnel_listen (tmp_host (\<lambda>_. Inr ''y'') (Inl (Err ''exit 1''))) (\<lambda>_. ''s'')
     \<lparr> tw_files = [''/tmp/other'' \<mapsto> ''t''], tw_runs = [] \<rparr>))) = {''/tmp/other''}"
  using tunnel_file_removed [OF tmp_host_laws, of "\<lambda>_. Inr ''y''" "Inl (Err ''exit 1'')" "\<lambda>_. ''s''"
      "\<lparr> tw_files = [''/tmp/other'' \<mapsto> ''t''], tw_runs = [] \<rparr>"] by simp

section \<open>The operator's tunnel container\<close>

text \<open>
  The variables of a process in a container, those that come from secrets included; \<open>secrets\<close>
  are the values of the secrets in the namespace, by name and key.
\<close>

definition process_env :: "(string \<Rightarrow> string \<Rightarrow> string option) \<Rightarrow> EnvVar list \<Rightarrow> settings" where
  "process_env secrets es = map_of (rev (map (\<lambda>e. (ev_Name e,
     case ev_ValueFrom e of Some (SecretKeyRef n k) \<Rightarrow> (case secrets n k of Some v \<Rightarrow> v | None \<Rightarrow> []) | _ \<Rightarrow> ev_Value e)) es))"

section \<open>Patterns\<close>

text \<open>
  How \<^verbatim>\<open>wstunnel\<close> reads the pattern of a restriction: a regular expression that is searched for in
  the value of the header. The fragment that the tunnel uses: literal characters, classes that list
  their characters, the repetition \<^verbatim>\<open>+\<close> of either, and the anchors; anything else is outside of it.
\<close>

datatype re_item = One "char list" | Many "char list" | AtEnd

definition regexp_special :: "char \<Rightarrow> bool" where
  "regexp_special c \<longleftrightarrow> c = CHR 0x5C \<or> c \<in> set ''.+*?()|[]{}^$''"

definition plain_class :: "char list \<Rightarrow> bool" where
  "plain_class cls \<longleftrightarrow> cls \<noteq> [] \<and> list_all (\<lambda>c. c \<noteq> CHR 0x5C \<and> c \<notin> set ''[^-&~'') cls"

text \<open>The characters of the first atom of a pattern, and what follows it.\<close>

fun re_atom :: "string \<Rightarrow> (char list \<times> string) option" where
  "re_atom [] = None"
| "re_atom (c # cs) =
     (if c = CHR ''['' then
        (let cls = takeWhile (\<lambda>d. d \<noteq> CHR '']'') cs in
         if plain_class cls \<and> length cls < length cs then Some (cls, drop (Suc (length cls)) cs) else None)
      else if regexp_special c then None else Some ([c], cs))"

lemma re_atom_shorter: "re_atom p = Some (cls, rest) \<Longrightarrow> length rest < length p"
  by (cases p) (auto simp: Let_def split: if_splits)

function re_items :: "string \<Rightarrow> re_item list option" where
  "re_items p =
     (if p = [] then Some []
      else if p = ''$'' then Some [AtEnd]
      else case re_atom p of
             None \<Rightarrow> None
           | Some (cls, rest) \<Rightarrow>
               if HasPrefix rest ''+'' then map_option ((#) (Many cls)) (re_items (tl rest))
               else map_option ((#) (One cls)) (re_items rest))"
  by pat_completeness auto

termination
  by (relation "measure length") (auto dest!: re_atom_shorter)

declare re_items.simps [simp del]

function re_match :: "re_item list \<Rightarrow> string \<Rightarrow> bool" where
  "re_match [] v \<longleftrightarrow> True"
| "re_match (AtEnd # r) v \<longleftrightarrow> v = [] \<and> re_match r v"
| "re_match (One cls # r) [] \<longleftrightarrow> False"
| "re_match (One cls # r) (c # v) \<longleftrightarrow> c \<in> set cls \<and> re_match r v"
| "re_match (Many cls # r) [] \<longleftrightarrow> False"
| "re_match (Many cls # r) (c # v) \<longleftrightarrow> c \<in> set cls \<and> (re_match r v \<or> re_match (Many cls # r) v)"
  by pat_completeness auto

termination
  by (relation "measure (\<lambda>(r, v). length r + length v)") auto

definition regexp_is_match :: "string \<Rightarrow> string \<Rightarrow> bool option" where
  "regexp_is_match p v =
     (if HasPrefix p ''^'' then map_option (\<lambda>r. re_match r v) (re_items (tl p))
      else map_option (\<lambda>r. list_ex (\<lambda>i. re_match r (drop i v)) [0..<Suc (length v)]) (re_items p))"

lemma re_items_plain:
  "list_all (\<lambda>c. \<not> regexp_special c) s \<Longrightarrow> re_items (s @ ''$'') = Some (map (\<lambda>c. One [c]) s @ [AtEnd])"
proof (induction s)
  case Nil
  then show ?case by (simp add: re_items.simps [of "''$''"])
next
  case (Cons c s)
  have "\<not> HasPrefix (s @ ''$'') ''+''"
    using Cons.prems by (cases s) (auto simp: HasPrefix_def regexp_special_def)
  then show ?case
    using Cons by (subst re_items.simps) (auto simp: regexp_special_def)
qed

lemma re_match_literal: "re_match (map (\<lambda>c. One [c]) s @ r) v \<longleftrightarrow> (\<exists>u. v = s @ u \<and> re_match r u)"
proof (induction s arbitrary: v)
  case (Cons c s)
  then show ?case by (cases v) auto
qed simp

lemma re_match_plain: "re_match (map (\<lambda>c. One [c]) s @ [AtEnd]) v \<longleftrightarrow> v = s"
  by (simp add: re_match_literal)

lemma re_match_many:
  "re_match (Many [c] # map (\<lambda>c. One [c]) s @ [AtEnd]) v \<longleftrightarrow> (\<exists>n>0. v = replicate n c @ s)"
proof (induction v)
  case Nil
  then show ?case by (auto simp: gr0_conv_Suc)
next
  case (Cons d v)
  have "re_match (Many [c] # map (\<lambda>c. One [c]) s @ [AtEnd]) (d # v) \<longleftrightarrow>
      d = c \<and> (v = s \<or> (\<exists>n>0. v = replicate n c @ s))"
    by (simp add: re_match_plain Cons)
  also have "\<dots> \<longleftrightarrow> d = c \<and> (\<exists>n. v = replicate n c @ s)"
    by (metis gr0I replicate_0 self_append_conv2)
  also have "\<dots> \<longleftrightarrow> (\<exists>n>0. d # v = replicate n c @ s)"
    by (auto simp: gr0_conv_Suc)
  finally show ?case .
qed

text \<open>The values of the header that present a secret.\<close>

definition presents :: "string \<Rightarrow> string \<Rightarrow> bool" where
  "presents secret v \<longleftrightarrow>
     (\<exists>n>0. v \<in> {''Bearer'' @ replicate n (CHR '' '') @ secret, ''bearer'' @ replicate n (CHR '' '') @ secret})"

lemma authorization_pattern_exact:
  assumes "list_all (\<lambda>c. \<not> regexp_special c) s"
  shows "regexp_is_match (authorization_pattern s) v = Some (presents s v)"
proof -
  let ?rest = "Many '' '' # map (\<lambda>c. One [c]) s @ [AtEnd]"
  have "re_items ('' +'' @ s @ ''$'') = Some ?rest"
    by (subst re_items.simps) (simp add: re_items_plain [OF assms] regexp_special_def HasPrefix_def)
  then have "re_items (''[Bb]earer +'' @ s @ ''$'') = Some (One ''Bb'' # map (\<lambda>c. One [c]) ''earer'' @ ?rest)"
    by (simp add: re_items.simps [of "CHR ''['' # _"] re_items.simps [of "CHR ''e'' # _"]
        re_items.simps [of "CHR ''a'' # _"] re_items.simps [of "CHR ''r'' # _"]
        regexp_special_def HasPrefix_def plain_class_def)
  moreover have "re_match (One ''Bb'' # map (\<lambda>c. One [c]) ''earer'' @ ?rest) v \<longleftrightarrow> presents s v"
    unfolding presents_def
    by (cases v) (auto simp: re_match_literal re_match_many simp del: re_match.simps(6) list.map)
  ultimately show ?thesis by (simp add: regexp_is_match_def authorization_pattern_def HasPrefix_def)
qed

section \<open>The secret of the operator\<close>

definition plain_code :: "nat \<Rightarrow> bool" where
  "plain_code n \<longleftrightarrow> n \<notin> {92, 46, 43, 42, 63, 40, 41, 124, 91, 93, 123, 125, 94, 36}"

lemma not_special: "plain_code (of_char c) \<Longrightarrow> \<not> regexp_special c"
  by (auto simp: regexp_special_def plain_code_def)

lemma b64_char_plain: "\<not> regexp_special (b64_char True d)"
proof (rule not_special)
  have small: "(of_char (char_of n :: char) :: nat) = n" if "n < 256" for n
    using that by (simp add: of_char_of)
  consider "d < 26" | "26 \<le> d" "d < 52" | "52 \<le> d" "d < 62" | "62 \<le> d" by linarith
  then show "plain_code (of_char (b64_char True d))"
    by cases (auto simp: b64_char_def plain_code_def small)
qed

lemma b64_encode_all:
  "(\<And>d. P (ch d)) \<Longrightarrow> list_all P (b64_encode ch False s)"
  by (induction ch "False" s rule: b64_encode.induct) (simp_all add: Let_def)

lemma RawURLEncoding_plain: "list_all (\<lambda>c. \<not> regexp_special c) (RawURLEncoding_EncodeToString b)"
  unfolding RawURLEncoding_EncodeToString_def by (rule b64_encode_all, rule b64_char_plain)

lemma tunnel_container_env:
  "process_env secrets (c_Env (tunnelContainer env cr)) ''WSTUNNEL_PORT'' = Some (show_int TunnelPort)"
  "process_env secrets (c_Env (tunnelContainer env cr)) ''WSTUNNEL_SECRET'' =
     Some (case secrets (InternalSecretName cr) ''WSTUNNEL_SECRET'' of Some v \<Rightarrow> v | None \<Rightarrow> [])"
  "process_env secrets (c_Env (tunnelContainer env cr)) ''WSTUNNEL_LOG-LEVEL'' = None"
  by (simp_all add: process_env_def tunnelContainer_def env_value_def env_secret_def)

lemma tunnel_values:
  assumes "viper_finds tunnel_vars Map.empty (process_env secrets (c_Env (tunnelContainer env cr))) V"
    and "secrets (InternalSecretName cr) ''WSTUNNEL_SECRET'' = Some s" "s \<noteq> []"
  shows "viper_GetString tunnel_vars V ''wstunnel.secret'' = s"
    "viper_GetString tunnel_vars V ''wstunnel.port'' = show_int TunnelPort"
    "viper_GetString tunnel_vars V ''wstunnel.log-level'' = ''INFO''"
proof -
  have "show_int TunnelPort \<noteq> []" using show_nat_nonempty by (simp add: show_int_def)
  then show "viper_GetString tunnel_vars V ''wstunnel.secret'' = s"
    "viper_GetString tunnel_vars V ''wstunnel.port'' = show_int TunnelPort"
    "viper_GetString tunnel_vars V ''wstunnel.log-level'' = ''INFO''"
    using assms unfolding viper_finds_def tunnel_vars_def
    by (simp_all add: viper_GetString_def viper_value_def tunnel_container_env flag_default_def)
qed

text \<open>C20: In the pod of a remote session the tunnel admits the clients that present the secret which
  the operator made for the session, and no others. The container runs \<^verbatim>\<open>wstunnel\<close> on the port that
  the container declares, with a file whose one restriction has a pattern that matches a header exactly
  when it is \<^verbatim>\<open>Bearer\<close> or \<^verbatim>\<open>bearer\<close>, spaces and that secret.\<close>

theorem tunnel_admits_operator_secret:
  assumes "Secret lib env rnd cr = Inr sec" "sp_SessionLocation (as_Spec cr) = Remote"
    "rnd_tunnel rnd = Inr b" "length b = 16"
    and "\<And>k. secrets (om_Name (sec_Meta sec)) k = fmlookup (sec_StringData sec) k"
    and "viper_finds tunnel_vars Map.empty (process_env secrets (c_Env (tunnelContainer env cr))) V"
    and "th_Marshal h (tunnel_config (RawURLEncoding_EncodeToString b)) = Inr y"
    and "th_CreateTemp h ''wstunnel-restrict-config-*.yaml'' w = (w1, Inr path)"
    and "th_Write h path y w1 = (w2, Inr ())" "th_Close h path w2 = (w3, Inr ())"
  shows "(\<exists>name pat allow. tc_Restrictions (tunnel_config (RawURLEncoding_EncodeToString b)) =
        [\<lparr> rst_Name = name, rst_Match = [ScalarNode ''!Authorization'' pat], rst_Allow = allow \<rparr>]
        \<and> (\<forall>v. regexp_is_match pat v = Some (presents (RawURLEncoding_EncodeToString b) v)))
    \<and> c_Ports (tunnelContainer env cr) = [\<lparr> cp_Name = tunnelServiceName, cp_ContainerPort = TunnelPort \<rparr>]
    \<and> (\<exists>line. tunnel_listen h (viper_GetString tunnel_vars V) w =
        deferred (th_Remove h path) (wrapped ''wstunnel command failed''
          (th_Run h ''wstunnel'' [''server'', ''--restrict-config'', path, ''--log-lvl'', ''INFO'',
             ''ws://0.0.0.0:'' @ show_int TunnelPort])) (th_Printf h line w3))"
proof -
  let ?s = "RawURLEncoding_EncodeToString b"
  have "b \<noteq> []" using assms(4) by auto
  then have s: "secrets (InternalSecretName cr) ''WSTUNNEL_SECRET'' = Some ?s" "?s \<noteq> []"
    using assms(5) Secret_tunnel [OF assms(1-3)] Secret_name [OF assms(1)]
    by (simp_all add: RawURLEncoding_EncodeToString_def)
  note found = tunnel_values [OF assms(6) s]
  have "show_int TunnelPort \<noteq> []" using show_nat_nonempty by (simp add: show_int_def)
  then have "tunnel_listen h (viper_GetString tunnel_vars V) w =
      deferred (th_Remove h path) (with_file h path y ''INFO'' (show_int TunnelPort)) w1"
    using s(2) assms(7,8)
    by (simp add: tunnel_listen_def tunnel_flag_defs found or_default_def bindA_def wrapped_def liftE_def returnA_def)
  moreover have "\<exists>line. with_file h path y ''INFO'' (show_int TunnelPort) w1 =
      wrapped ''wstunnel command failed'' (th_Run h ''wstunnel'' (wstunnelArgs path ''INFO'' (show_int TunnelPort)))
        (th_Printf h line w3)"
  proof -
    have "tryA (th_Write h path y) w1 = (w2, Inr (Inr ()))" by (simp add: tryA_def assms(9))
    note wrote = bindA_step [where m = "tryA (th_Write h path y)", OF this]
    let ?close = "wrapped ''failed to close temporary file'' (th_Close h path)"
    have "?close w2 = (w3, Inr ())" by (simp add: wrapped_def assms(10))
    note closed = bindA_step [where m = ?close, OF this]
    show ?thesis unfolding with_file_def wrote sum.case closed bindA_update by blast
  qed
  moreover have "c_Ports (tunnelContainer env cr) = [\<lparr> cp_Name = tunnelServiceName, cp_ContainerPort = TunnelPort \<rparr>]"
    by (simp add: tunnelContainer_def)
  moreover have "\<exists>name pat allow. tc_Restrictions (tunnel_config ?s) =
      [\<lparr> rst_Name = name, rst_Match = [ScalarNode ''!Authorization'' pat], rst_Allow = allow \<rparr>]
      \<and> (\<forall>v. regexp_is_match pat v = Some (presents ?s v))"
    using authorization_pattern_exact [OF RawURLEncoding_plain] by (auto simp: tunnel_config_def)
  ultimately show ?thesis by (auto simp: deferred_def wstunnelArgs_def)
qed


definition tunnel_bytes :: string where
  "tunnel_bytes = replicate 16 (CHR ''a'')"

definition tunnel_secrets :: "string \<Rightarrow> string \<Rightarrow> string option" where
  "tunnel_secrets n k = (case Secret sample_lib sample_env (sample_rnd\<lparr> rnd_tunnel := Inr tunnel_bytes \<rparr>) sample_remote of
     Inr sec \<Rightarrow> if n = om_Name (sec_Meta sec) then fmlookup (sec_StringData sec) k else None | Inl _ \<Rightarrow> None)"

definition tunnel_viper :: viper_source where
  "tunnel_viper = plain_viper tunnel_vars Map.empty
     (process_env tunnel_secrets (c_Env (tunnelContainer sample_env sample_remote))) (\<lambda>_. Inr Map.empty)"

theorem tunnel_admits_operator_secret_witness:
  "tw_runs (fst (tunnel_listen (tmp_host (\<lambda>_. Inr ''y'') (Inr ())) (viper_GetString tunnel_vars tunnel_viper)
     \<lparr> tw_files = Map.empty, tw_runs = [] \<rparr>)) =
   [([''server'', ''--restrict-config'', ''/tmp/x'', ''--log-lvl'', ''INFO'', ''ws://0.0.0.0:'' @ show_int TunnelPort],
     Some ''y'')]"
proof -
  let ?rnd = "sample_rnd\<lparr> rnd_tunnel := Inr tunnel_bytes \<rparr>"
  obtain sec where sec: "Secret sample_lib sample_env ?rnd sample_remote = Inr sec"
    by (auto simp: Secret_def bindE_def as_panic_def makeTunnelSecret_def sample_defs Let_def)
  have remote: "sp_SessionLocation (as_Spec sample_remote) = Remote" by (simp add: sample_defs)
  have secrets: "tunnel_secrets (om_Name (sec_Meta sec)) k = fmlookup (sec_StringData sec) k" for k
    by (simp add: tunnel_secrets_def sec)
  have viper: "viper_finds tunnel_vars Map.empty
      (process_env tunnel_secrets (c_Env (tunnelContainer sample_env sample_remote))) tunnel_viper"
    unfolding tunnel_viper_def by (rule plain_viper_finds [OF tunnel_keys_distinct])
  let ?h = "tmp_host (\<lambda>_. Inr ''y'') (Inr ())"
  let ?w = "\<lambda>t. \<lparr> tw_files = [''/tmp/x'' \<mapsto> t], tw_runs = [] \<rparr>"
  have "length tunnel_bytes = 16" by (simp add: tunnel_bytes_def)
  note run = tunnel_admits_operator_secret [OF sec remote _ this secrets viper, of ?h "''y''"
      "\<lparr> tw_files = Map.empty, tw_runs = [] \<rparr>" "?w []" "''/tmp/x''" "?w ''y''" "?w ''y''"]
  have "th_Run ?h c args w = (w\<lparr> tw_runs := (args, tw_files w (args ! 2)) # tw_runs w \<rparr>, Inr ())" for c args w
    by (simp add: tmp_host_def)
  with run show ?thesis
    by (auto simp: tmp_host_def deferred_def wrapped_def)
qed

end
