(* ===== verification/Sidecars.thy ===== *)
theory Sidecars
  imports Auth_Proxy_Operator Tunnel_Props Git_Proxy_Server_Props Remote_Operator_Props Cloner
begin

text \<open>
  The program of the helper containers (\<^verbatim>\<open>src/cmd/sidecars/main.go\<close>): one executable with a tree
  of commands, and the arguments with which the operator runs it.
\<close>

section \<open>The commands\<close>

text \<open>A command has a name, aliases, flags (and whether a flag takes a value) and further commands.\<close>

datatype cobra_command =
  CobraCommand (cb_Name: string) (cb_Aliases: "string list") (cb_Flags: "(string \<times> bool) list")
    (cb_Commands: "cobra_command list")

definition group_command :: "string \<Rightarrow> string list \<Rightarrow> cobra_command list \<Rightarrow> cobra_command" where
  "group_command name aliases cmds = CobraCommand name aliases [] cmds"

definition leaf_command :: "string \<Rightarrow> (string \<times> bool) list \<Rightarrow> cobra_command" where
  "leaf_command name flags = CobraCommand name [] flags []"

definition var_flags :: "var_binding list \<Rightarrow> (string \<times> bool) list" where
  "var_flags bs = map (\<lambda>b. (vb_Flag b, case vb_Default b of BoolVar _ \<Rightarrow> False | _ \<Rightarrow> True)) bs"

definition remote_cmd_flags :: "flag_binding list \<Rightarrow> (string \<times> bool) list" where
  "remote_cmd_flags bs = map (\<lambda>b. (fb_Flag b, case fb_Default b of BoolFlag _ \<Rightarrow> False | _ \<Rightarrow> True)) bs"

text \<open>The flags of the cloner are declared in its own \<^verbatim>\<open>Command\<close>; the git proxy has none.\<close>

definition cloner_commands :: cobra_command where
  "cloner_commands = group_command ''cloner'' []
     [leaf_command ''clone'' [(''config'', True), (''remote'', True), (''revision'', True), (''path'', True),
        (''verbose'', False), (''strategy'', True)],
      leaf_command ''shellclone'' []]"

record sidecar_commands =
  sd_root :: cobra_command
  sd_authproxy :: "var_binding list"
  sd_remote :: "flag_binding list"
  sd_tunnel :: "var_binding list"

text \<open>An error of a \<^verbatim>\<open>Command\<close> function ends the process.\<close>

definition buildCommands :: "sidecar_commands result" where
  "buildCommands =
     bindE authproxy_Command (\<lambda>authFlags.
     bindE (remote_SetFlags []) (\<lambda>remoteFlags.
     bindE tunnel_Command (\<lambda>tunnelFlags.
     Inr \<lparr> sd_root = group_command ''sidecars'' []
             [leaf_command ''version'' [],
              group_command ''proxy'' [] [leaf_command ''serve'' (var_flags authFlags @ [(configFlag, True)])],
              cloner_commands,
              group_command ''remote-session-controller'' [''rsc''] [leaf_command ''run'' (remote_cmd_flags remoteFlags)],
              group_command ''tunnel'' [] [leaf_command ''listen'' (var_flags tunnelFlags)],
              group_command ''gitproxy'' [] [leaf_command ''proxy'' []]],
           sd_authproxy = authFlags, sd_remote = remoteFlags, sd_tunnel = tunnelFlags \<rparr>)))"

text \<open>The version that the command \<^verbatim>\<open>version\<close> prints, from the build information if there is one.\<close>

definition sidecars_version :: "string option \<Rightarrow> string" where
  "sidecars_version info = ''sidecars '' @
     (case info of Some v \<Rightarrow> if length v > 0 then v else ''(devel)'' | None \<Rightarrow> ''(devel)'')"

section \<open>The operator's arguments\<close>

text \<open>The command that the leading arguments name, with the arguments that are left.\<close>

fun named_command :: "cobra_command \<Rightarrow> string list \<Rightarrow> cobra_command \<times> string list" where
  "named_command c [] = (c, [])"
| "named_command c (a # args) =
     (case find (\<lambda>s. a = cb_Name s \<or> a \<in> set (cb_Aliases s)) (cb_Commands c) of
        Some s \<Rightarrow> named_command s args
      | None \<Rightarrow> (c, a # args))"

definition declared_args :: "cobra_command \<Rightarrow> string list \<Rightarrow> bool" where
  "declared_args c args \<longleftrightarrow> (\<exists>ps. args = concat (map (\<lambda>(f, vs). (''--'' @ f) # vs) ps)
     \<and> (\<forall>(f, vs)\<in>set ps. length vs \<le> 1 \<and> (f, vs \<noteq> []) \<in> set (cb_Flags c)))"

definition runs_command :: "cobra_command \<Rightarrow> string list \<Rightarrow> string \<Rightarrow> bool" where
  "runs_command root args name \<longleftrightarrow>
     (case named_command root args of (c, rest) \<Rightarrow>
        cb_Name c = name \<and> cb_Commands c = [] \<and> declared_args c rest)"

lemma declared_argsI:
  assumes "args = concat (map (\<lambda>(f, vs). (''--'' @ f) # vs) ps)"
    and "\<forall>(f, vs)\<in>set ps. length vs \<le> 1 \<and> (f, vs \<noteq> []) \<in> set (cb_Flags c)"
  shows "declared_args c args"
  using assms unfolding declared_args_def by blast

definition sidecar_tree :: sidecar_commands where
  "sidecar_tree = (case buildCommands of Inr s \<Rightarrow> s | Inl _ \<Rightarrow>
     \<lparr> sd_root = leaf_command [] [], sd_authproxy = [], sd_remote = [], sd_tunnel = [] \<rparr>)"

lemma buildCommands_eq: "buildCommands = Inr sidecar_tree"
  by (simp add: sidecar_tree_def buildCommands_def authproxy_Command_eq tunnel_Command_eq remote_SetFlags_eq)

lemma sidecar_tree_fields:
  "sd_authproxy sidecar_tree = authproxy_vars" "sd_remote sidecar_tree = remote_flags" "sd_tunnel sidecar_tree = tunnel_vars"
  "cb_Commands (sd_root sidecar_tree) =
     [leaf_command ''version'' [],
      group_command ''proxy'' [] [leaf_command ''serve'' (var_flags authproxy_vars @ [(configFlag, True)])],
      cloner_commands,
      group_command ''remote-session-controller'' [''rsc''] [leaf_command ''run'' (remote_cmd_flags remote_flags)],
      group_command ''tunnel'' [] [leaf_command ''listen'' (var_flags tunnel_vars)],
      group_command ''gitproxy'' [] [leaf_command ''proxy'' []]]"
  by (simp_all add: sidecar_tree_def buildCommands_def authproxy_Command_eq tunnel_Command_eq remote_SetFlags_eq
      remote_flags_eq group_command_def)

lemmas command_defs = group_command_def leaf_command_def cloner_commands_def

lemma named_commands:
  "named_command (sd_root sidecar_tree) (''proxy'' # ''serve'' # args) =
     named_command (leaf_command ''serve'' (var_flags authproxy_vars @ [(configFlag, True)])) args"
  "named_command (sd_root sidecar_tree) (''cloner'' # ''clone'' # args) = named_command (hd (cb_Commands cloner_commands)) args"
  "named_command (sd_root sidecar_tree) (''remote-session-controller'' # ''run'' # args) =
     named_command (leaf_command ''run'' (remote_cmd_flags remote_flags)) args"
  "named_command (sd_root sidecar_tree) (''tunnel'' # ''listen'' # args) =
     named_command (leaf_command ''listen'' (var_flags tunnel_vars)) args"
  by (simp_all add: sidecar_tree_fields command_defs)

lemma leaf_named: "cb_Commands c = [] \<Longrightarrow> named_command c args = (c, args)"
  by (cases args) simp_all

lemma clone_args_declared: "declared_args (hd (cb_Commands cloner_commands)) (drop 2 (clone_args as repo))"
  by (rule declared_argsI [of _ "[(''strategy'', [''notifexist'']), (''remote'', [cr_Remote repo]),
        (''path'', [stg_MountPath (ses_Storage (as_Session as)) @ ''/'' @ cr_ClonePath repo])]
      @ (case cr_CloningConfigSecretRef repo of None \<Rightarrow> []
         | Some ref \<Rightarrow> [(''config'', [''/git-clone-secrets/'' @ skr_Key ref])])
      @ (if cr_Revision repo = [] then [] else [(''revision'', [cr_Revision repo])])"])
     (auto simp: clone_args_def command_defs split: option.splits)

text \<open>C24: Every helper container that the operator templates runs a command that its program has, with
  flags that this command declares: the containers that clone repositories, the
  authentication proxy with and without a token, the remote session controller and the tunnel. The
  commands share one table of settings, and no two of their settings have the same key.\<close>

theorem sidecar_containers_run:
  "runs_command (sd_root sidecar_tree) (clone_args as repo) ''clone''
   \<and> runs_command (sd_root sidecar_tree) (c_Args (get_rewrite_authn_proxy env as p mp rp)) ''serve''
   \<and> (\<forall>a mf c. sp_Authentication (as_Spec as) = Some a \<and> auth_Enabled a \<and> auth_Type a = Token
        \<and> auth env as = Inr mf \<and> c \<in> set (mf_Containers mf) \<longrightarrow>
        runs_command (sd_root sidecar_tree) (c_Args c) ''serve'')
   \<and> runs_command (sd_root sidecar_tree) (c_Args (sessionContainerRemote lib env as vms)) ''run''
   \<and> runs_command (sd_root sidecar_tree) (c_Args (tunnelContainer env as)) ''listen''
   \<and> distinct (map vb_Key (sd_authproxy sidecar_tree) @ map fb_Key (sd_remote sidecar_tree) @ map vb_Key (sd_tunnel sidecar_tree))"
proof (intro conjI allI impI)
  have "clone_args as repo = ''cloner'' # ''clone'' # drop 2 (clone_args as repo)"
    by (simp add: clone_args_def)
  then have "named_command (sd_root sidecar_tree) (clone_args as repo) =
      (hd (cb_Commands cloner_commands), drop 2 (clone_args as repo))"
    using named_commands(2) leaf_named [of "hd (cb_Commands cloner_commands)"]
    by (metis command_defs cobra_command.sel(4) list.sel(1))
  then show "runs_command (sd_root sidecar_tree) (clone_args as repo) ''clone''"
    using clone_args_declared by (simp add: runs_command_def command_defs)
next
  have "declared_args (leaf_command ''serve'' (var_flags authproxy_vars @ [(configFlag, True)])) [''--verbose'']"
    by (rule declared_argsI [of _ "[(''verbose'', [])]"])
       (simp_all add: leaf_command_def var_flags_def authproxy_vars_def)
  then show "runs_command (sd_root sidecar_tree) (c_Args (get_rewrite_authn_proxy env as p mp rp)) ''serve''"
    by (simp add: runs_command_def get_rewrite_authn_proxy_def Let_def named_commands leaf_named leaf_command_def del: named_command.simps)
next
  fix a mf c
  assume "sp_Authentication (as_Spec as) = Some a \<and> auth_Enabled a \<and> auth_Type a = Token
        \<and> auth env as = Inr mf \<and> c \<in> set (mf_Containers mf)"
  then have args: "c_Args c = [''proxy'', ''serve'', ''--config'', token_config a]"
    using token_container(1) by blast
  have "declared_args (leaf_command ''serve'' (var_flags authproxy_vars @ [(configFlag, True)])) [''--config'', token_config a]"
    by (rule declared_argsI [of _ "[(''config'', [token_config a])]"]) (simp_all add: leaf_command_def configFlag_def)
  then show "runs_command (sd_root sidecar_tree) (c_Args c) ''serve''"
    by (simp add: runs_command_def args named_commands leaf_named leaf_command_def del: named_command.simps)
next
  have none: "declared_args c []" for c by (rule declared_argsI [of _ "[]"]) simp_all
  show "runs_command (sd_root sidecar_tree) (c_Args (sessionContainerRemote lib env as vms)) ''run''"
    using none by (simp add: runs_command_def sessionContainerRemote_def Let_def named_commands leaf_named leaf_command_def del: named_command.simps)
  show "runs_command (sd_root sidecar_tree) (c_Args (tunnelContainer env as)) ''listen''"
    using none by (simp add: runs_command_def tunnelContainer_def named_commands leaf_named leaf_command_def del: named_command.simps)
next
  have remote: "map fb_Key remote_flags = map (snd \<circ> snd) flag_list"
    by (auto simp: remote_flags_eq binding_def)
  show "distinct (map vb_Key (sd_authproxy sidecar_tree) @ map fb_Key (sd_remote sidecar_tree) @ map vb_Key (sd_tunnel sidecar_tree))"
    unfolding sidecar_tree_fields remote
    by (simp add: authproxy_vars_def tunnel_vars_def flag_list_def same_key_def below_auth_def all_flag_defs)
qed


theorem sidecar_containers_run_witness:
  "runs_command (sd_root sidecar_tree) (c_Args token_container_sample) ''serve''"
  using sidecar_containers_run [where as = sample_session and env = sample_env] sample_token(1-5) by blast

end
