(* ===== verification/Operator_Main.thy ===== *)
theory Operator_Main
  imports Operator_Config Go_Action
begin

text \<open>
  The entry point of the operator (\<^verbatim>\<open>src/cmd/amalthea/main.go\<close>) and the set-up of its controller
  (\<^verbatim>\<open>SetupWithManager\<close> of \<^verbatim>\<open>src/internal/controller/amaltheasession_controller.go\<close>): the flags, the
  options of the manager, and the order of the calls until the manager runs.

  The controller-runtime library and the Kubernetes clients are the fields of the argument of
  type \<open>operator_host\<close>; the logger is left out.
\<close>

section \<open>Flags\<close>

record operator_flags =
  of_metricsAddr :: string
  of_probeAddr :: string
  of_enableLeaderElection :: bool
  of_secureMetrics :: bool
  of_enableHTTP2 :: bool
  of_sentryDsn :: string
  of_sentryEnvironment :: string
  of_sentryTracesSampleRate :: string
  of_sentryRelease :: string

definition default_flags :: operator_flags where
  "default_flags = \<lparr> of_metricsAddr = ''0'', of_probeAddr = '':8081'', of_enableLeaderElection = False,
     of_secureMetrics = True, of_enableHTTP2 = False, of_sentryDsn = [], of_sentryEnvironment = [],
     of_sentryTracesSampleRate = ''0'', of_sentryRelease = [] \<rparr>"

section \<open>Options of the manager\<close>

text \<open>A change of a TLS configuration, of which there is one: only HTTP/1.1 is offered.\<close>

datatype tls_option = DisableHTTP2

definition next_protos :: "tls_option list \<Rightarrow> string list \<Rightarrow> string list" where
  "next_protos opts protos = foldl (\<lambda>_ opt. case opt of DisableHTTP2 \<Rightarrow> [''http/1.1'']) protos opts"

record metrics_options =
  ms_BindAddress :: string
  ms_SecureServing :: bool
  ms_TLSOpts :: "tls_option list"
  ms_FilterProvider :: bool

record manager_options =
  mo_Metrics :: metrics_options
  mo_WebhookTLSOpts :: "tls_option list"
  mo_HealthProbeBindAddress :: string
  mo_LeaderElection :: bool
  mo_LeaderElectionID :: string
  mo_DefaultNamespaces :: "string list option"

text \<open>
  The variable \<^verbatim>\<open>tlsOpts\<close> is empty when the options of the metrics server are built from it; what
  is appended to it later does not reach them.
\<close>

definition make_manager_options :: "operator_flags \<Rightarrow> (string \<Rightarrow> string) \<Rightarrow> manager_options" where
  "make_manager_options flags Getenv =
     (let tlsOpts = [];
          metricsServerOptions = \<lparr> ms_BindAddress = of_metricsAddr flags, ms_SecureServing = of_secureMetrics flags,
            ms_TLSOpts = tlsOpts, ms_FilterProvider = False \<rparr>;
          metricsServerOptions = (if of_secureMetrics flags
            then metricsServerOptions\<lparr> ms_FilterProvider := True \<rparr> else metricsServerOptions);
          tlsOpts = (if \<not> of_enableHTTP2 flags then tlsOpts @ [DisableHTTP2] else tlsOpts);
          clusterScoped = (Getenv ''CLUSTER_SCOPED'' = ''true'');
          releaseNamespace = Getenv ''RELEASE_NAMESPACE'';
          releaseNamespace = (if releaseNamespace = [] then ''default'' else releaseNamespace) in
      \<lparr> mo_Metrics = metricsServerOptions, mo_WebhookTLSOpts = tlsOpts,
        mo_HealthProbeBindAddress = of_probeAddr flags, mo_LeaderElection = of_enableLeaderElection flags,
        mo_LeaderElectionID = ''d2dc1fe0.amalthea.dev'',
        mo_DefaultNamespaces = (if clusterScoped then None else Some [releaseNamespace]) \<rparr>)"

section \<open>The controller\<close>

datatype watched_kind = KStatefulSet | KService | KIngress | KPersistentVolumeClaim | KSecret | KJob

record controller_setup =
  ct_For :: string
  ct_Owns :: "watched_kind list"
  ct_Configuration :: AmaltheaSessionConfiguration

definition SetupWithManager :: "AmaltheaSessionConfiguration \<Rightarrow> controller_setup" where
  "SetupWithManager cfg = \<lparr> ct_For = ''AmaltheaSession'',
     ct_Owns = [KStatefulSet, KService, KIngress, KPersistentVolumeClaim, KSecret],
     ct_Configuration = cfg \<rparr>"

text \<open>The indices over events: what the three functions return for an event.\<close>

record involved_object =
  io_Kind :: string
  io_Namespace :: string
  io_Name :: string

definition event_index :: "string \<Rightarrow> involved_object \<Rightarrow> string list" where
  "event_index fld obj =
     (if fld = ''involvedObject.name'' then [io_Name obj]
      else if fld = ''involvedObject.namespace'' then [io_Namespace obj]
      else if fld = ''involvedObject.kind'' then [io_Kind obj]
      else [])"

definition indexed_fields :: "string list" where
  "indexed_fields = [''involvedObject.name'', ''involvedObject.namespace'', ''involvedObject.kind'']"

section \<open>The main function\<close>

text \<open>\<open>'m\<close> is the type of managers.\<close>

record ('w, 'm) operator_host =
  oh_Getenv :: "string \<Rightarrow> string"
  oh_sentry_Init :: "operator_flags \<Rightarrow> ('w, unit) action"
  oh_HTTPClientFor :: "('w, unit) action"
  oh_NewManager :: "manager_options \<Rightarrow> ('w, 'm) action"
  oh_GetConfiguration :: "('w, AmaltheaSessionConfiguration) action"
  oh_Complete :: "'m \<Rightarrow> controller_setup \<Rightarrow> ('w, unit) action"
  oh_IndexField :: "'m \<Rightarrow> string \<Rightarrow> (involved_object \<Rightarrow> string list) \<Rightarrow> ('w, unit) action"
  oh_AddHealthzCheck :: "'m \<Rightarrow> ('w, unit) action"
  oh_AddReadyzCheck :: "'m \<Rightarrow> ('w, unit) action"
  oh_Start :: "'m \<Rightarrow> ('w, unit) action"

text \<open>An error of \<^verbatim>\<open>IndexField\<close> is only logged; every other one ends the process with status 1.\<close>

definition index_events :: "('w, 'm) operator_host \<Rightarrow> 'm \<Rightarrow> ('w, unit) action" where
  "index_events h mgr =
     forA indexed_fields (\<lambda>fld. bindA (tryA (oh_IndexField h mgr fld (event_index fld))) (\<lambda>_. returnA ()))"

definition operator_setup :: "('w, 'm) operator_host \<Rightarrow> operator_flags \<Rightarrow> ('w, 'm) action" where
  "operator_setup h flags =
     bindA (if of_sentryDsn flags \<noteq> [] then oh_sentry_Init h flags else returnA ()) (\<lambda>_.
     bindA (oh_HTTPClientFor h) (\<lambda>_.
     bindA (oh_NewManager h (make_manager_options flags (oh_Getenv h))) (\<lambda>mgr.
     bindA (oh_GetConfiguration h) (\<lambda>cfg.
     bindA (oh_Complete h mgr (SetupWithManager cfg)) (\<lambda>_.
     bindA (index_events h mgr) (\<lambda>_.
     bindA (oh_AddHealthzCheck h mgr) (\<lambda>_.
     bindA (oh_AddReadyzCheck h mgr) (\<lambda>_.
     returnA mgr))))))))"

definition operator_main :: "('w, 'm) operator_host \<Rightarrow> operator_flags \<Rightarrow> 'w \<Rightarrow> 'w \<times> int" where
  "operator_main h flags w =
     (case operator_setup h flags w of
        (w', Inl _) \<Rightarrow> (w', 1)
      | (w', Inr mgr) \<Rightarrow>
          (case oh_Start h mgr w' of
             (w'', Inl _) \<Rightarrow> (w'', 1)
           | (w'', Inr _) \<Rightarrow> (w'', 0)))"

section \<open>What the set-up ensures\<close>

text \<open>The switch against HTTP/2 misses the metrics server. Whatever the flags, the metrics server
  gets no change of its TLS configuration, so it offers the protocols it would offer anyway, although
  the flag is documented to govern both servers and HTTP/2 is meant to be off by default;
  the webhook server offers HTTP/1.1 alone exactly when the flag is not given.\<close>

lemma http2_stays_enabled_for_metrics:
  "next_protos (ms_TLSOpts (mo_Metrics (make_manager_options flags env))) protos = protos
   \<and> next_protos (mo_WebhookTLSOpts (make_manager_options flags env)) protos =
       (if of_enableHTTP2 flags then protos else [''http/1.1''])"
  by (simp add: make_manager_options_def next_protos_def Let_def)

text \<open>
  The operator watches its own namespace unless it is told to watch all, and protects its metrics
  whenever they are served over HTTPS.
\<close>

lemma watched_namespaces:
  "mo_DefaultNamespaces (make_manager_options flags env) =
     (if env ''CLUSTER_SCOPED'' = ''true'' then None
      else Some [if env ''RELEASE_NAMESPACE'' = [] then ''default'' else env ''RELEASE_NAMESPACE''])"
  "ms_FilterProvider (mo_Metrics (make_manager_options flags env)) \<longleftrightarrow>
     ms_SecureServing (mo_Metrics (make_manager_options flags env))"
  by (simp_all add: make_manager_options_def Let_def)

text \<open>Every field by which events are looked up is indexed, and the index of a field is that field.\<close>

lemma event_lookup_indexed:
  "list_all (\<lambda>f. f \<in> set indexed_fields) [''involvedObject.namespace'', ''involvedObject.kind'', ''involvedObject.name'']"
  "event_index ''involvedObject.name'' obj = [io_Name obj]"
  "event_index ''involvedObject.namespace'' obj = [io_Namespace obj]"
  "event_index ''involvedObject.kind'' obj = [io_Kind obj]"
  by (simp_all add: indexed_fields_def event_index_def)

lemma index_events_succeeds: "\<exists>w'. index_events h mgr w = (w', Inr ())"
proof -
  have "succeeds (index_events h mgr)"
    unfolding index_events_def indexed_fields_def by (auto intro!: succeeds_intros)
  then show ?thesis by (fastforce simp: succeeds_def)
qed

text \<open>
  The manager starts only when everything it needs is in place, and every failure before that
  ends the process with status 1 without starting it. If the manager was started, then
  it was made with the options of the flags, the controller for the configuration that was read
  had been added to it, and both health checks had been added; and then the status of the process
  tells whether the manager ended without an error.
\<close>

lemma manager_starts_last:
  assumes "operator_main h flags w = (w', code)"
  shows "(\<exists>e. operator_setup h flags w = (w', Inl e)) \<and> code = 1 \<or>
    (\<exists>w0 w1 w2 w3 w4 w5 w6 mgr cfg.
       oh_NewManager h (make_manager_options flags (oh_Getenv h)) w0 = (w1, Inr mgr)
       \<and> oh_GetConfiguration h w1 = (w2, Inr cfg)
       \<and> oh_Complete h mgr (SetupWithManager cfg) w2 = (w3, Inr ())
       \<and> index_events h mgr w3 = (w4, Inr ())
       \<and> oh_AddHealthzCheck h mgr w4 = (w5, Inr ())
       \<and> oh_AddReadyzCheck h mgr w5 = (w6, Inr ())
       \<and> fst (oh_Start h mgr w6) = w' \<and> (code = 0 \<longleftrightarrow> (\<exists>x. snd (oh_Start h mgr w6) = Inr x)))"
proof (cases "operator_setup h flags w")
  case (Pair ws r)
  show ?thesis
  proof (cases r)
    case (Inl e)
    then show ?thesis using assms Pair by (simp add: operator_main_def)
  next
    case (Inr mgr)
    from Pair Inr have "operator_setup h flags w = (ws, Inr mgr)" by simp
    then obtain w0 w1 w2 w3 w4 w5 cfg where steps:
      "oh_NewManager h (make_manager_options flags (oh_Getenv h)) w0 = (w1, Inr mgr)"
      "oh_GetConfiguration h w1 = (w2, Inr cfg)" "oh_Complete h mgr (SetupWithManager cfg) w2 = (w3, Inr ())"
      "index_events h mgr w3 = (w4, Inr ())" "oh_AddHealthzCheck h mgr w4 = (w5, Inr ())"
      "oh_AddReadyzCheck h mgr w5 = (ws, Inr ())"
      unfolding operator_setup_def bindA_Inr_iff returnA_def by auto
    have "fst (oh_Start h mgr ws) = w' \<and> (code = 0 \<longleftrightarrow> (\<exists>x. snd (oh_Start h mgr ws) = Inr x))"
      using assms Pair Inr by (auto simp: operator_main_def split: prod.splits sum.splits)
    with steps show ?thesis by blast
  qed
qed

end
