(* ===== verification/Secret_Passes.thy ===== *)
theory Secret_Passes
  imports Reconcile_Props
begin

text \<open>
  The secret that the operator makes for a session, over many passes of the reconciler, each of
  which computes a manifest with new random values.
\<close>

section \<open>One pass\<close>

text \<open>
  The API server moves the write-only \<^verbatim>\<open>stringData\<close> of a secret into its \<^verbatim>\<open>data\<close>.
\<close>

definition stored_secret :: "SecretObject \<Rightarrow> SecretObject" where
  "stored_secret s = s\<lparr> sec_Data := sec_Data s ++\<^sub>f sec_StringData s, sec_StringData := fmempty \<rparr>"

text \<open>
  What a pass makes of the stored secret of a session. Each pass has random values of its own and
  computes a new manifest from them; when that panics, or the mutator returns an error, nothing is
  written.
\<close>

definition secret_pass ::
  "golib \<Rightarrow> environ \<Rightarrow> owner_setter \<Rightarrow> AmaltheaSession \<Rightarrow> randomness \<Rightarrow> SecretObject \<Rightarrow> SecretObject" where
  "secret_pass lib env sr cr rnd t =
     (case Secret lib env rnd cr of
        Inl _ \<Rightarrow> t
      | Inr d \<Rightarrow> (case secret_mutate sr cr d t of
            (t', _, None) \<Rightarrow> stored_secret t'
          | (_, _, Some _) \<Rightarrow> t))"

text \<open>A secret of a session as the API server returns it.\<close>

definition live_secret :: "SecretObject \<Rightarrow> bool" where
  "live_secret t \<longleftrightarrow> om_CreationTimestamp (sec_Meta t) \<noteq> 0 \<and> sec_StringData t = fmempty"

definition is_oidc :: "AmaltheaSession \<Rightarrow> bool" where
  "is_oidc cr \<longleftrightarrow> (\<exists>a. sp_Authentication (as_Spec cr) = Some a \<and> auth_Type a = Oidc)"

text \<open>A pass that writes: the data are those of the new manifest, except the tunnel's secret.\<close>

lemma secret_pass_cases:
  assumes "live_secret t"
  shows "secret_pass lib env sr cr rnd t = t
    \<or> (\<exists>d. Secret lib env rnd cr = Inr d \<and> reconcile_allowed ''secret'' cr = Inr True
        \<and> secret_pass lib env sr cr rnd t = t\<lparr> sec_Data := sec_Data d
             ++\<^sub>f preserve_tunnel (sec_Data t) (sec_StringData d), sec_StringData := fmempty,
             sec_Meta := clean_meta (sec_Meta t) (sec_Meta d) \<rparr>)"
proof (cases "Secret lib env rnd cr")
  case (Inr d)
  with assms show ?thesis
    by (cases rule: reconcile_allowed_cases [of "''secret''" cr])
      (auto simp: secret_pass_def secret_mutate_def live_secret_def stored_secret_def)
qed (simp add: secret_pass_def)

lemma secret_pass_live:
  assumes "live_secret t"
  shows "live_secret (secret_pass lib env sr cr rnd t)"
  using secret_pass_cases [OF assms, of lib env sr cr rnd] assms by (auto simp: live_secret_def)

lemma tunnel_secret_kept:
  assumes "live_secret t" "fmlookup (sec_Data t) ''WSTUNNEL_SECRET'' = Some v"
  shows "fmlookup (sec_Data (secret_pass lib env sr cr rnd t)) ''WSTUNNEL_SECRET'' = Some v"
  using secret_pass_cases [OF assms(1), of lib env sr cr rnd] assms(2)
  by (auto simp: preserve_tunnel_def)

section \<open>The manifest\<close>

definition manifest_entry ::
  "golib \<Rightarrow> environ \<Rightarrow> randomness \<Rightarrow> AmaltheaSession \<Rightarrow> string \<Rightarrow> string option" where
  "manifest_entry lib env rnd cr k =
     (if k = ''WSTUNNEL_SECRET'' then
        (if sp_SessionLocation (as_Spec cr) = Remote \<and> rnd_tunnel rnd \<noteq> Inr []
         then Some (projr (makeTunnelSecret (rnd_tunnel rnd))) else None)
      else if \<not> is_oidc cr then None
      else if k = ''oauth2-proxy-alpha-config.yaml''
      then Some (projr (lib_yaml_Marshal lib (oidc_new_config (ingressPathPrefix cr))))
      else if k = ''oauth2-proxy-config.yaml''
      then Some (str_Join (oidc_old_config_lines (ingressPathPrefix cr)
             (the (GetURL (lib_parseAuthority lib) env cr)) (projr (rnd_cookie rnd))) [CHR 0x0A])
      else None)"

lemma as_panic_Inr [simp]: "as_panic r = Inr x \<longleftrightarrow> r = Inr x"
  by (simp add: as_panic_def split: sum.splits)

lemma deref_Inr: "deref m = Inr x \<longleftrightarrow> m = Some x"
  by (simp add: deref_def split: option.splits)

lemma Secret_Inr:
  assumes "Secret lib env rnd cr = Inr d"
  obtains ts m where "(if sp_SessionLocation (as_Spec cr) = Remote then makeTunnelSecret (rnd_tunnel rnd)
        else Inr []) = Inr ts"
    "d = \<lparr> sec_Meta = empty_meta\<lparr> om_Name := InternalSecretName cr, om_Namespace := as_Namespace cr,
           om_Labels := childLabels cr, om_Annotations := template_annotations cr \<rparr>,
         sec_Data = fmempty,
         sec_StringData = (if ts \<noteq> [] then fmupd ''WSTUNNEL_SECRET'' ts m else m) \<rparr>"
    "if is_oidc cr then \<exists>url cookie config. GetURL (lib_parseAuthority lib) env cr = Some url
         \<and> rnd_cookie rnd = Inr cookie
         \<and> lib_yaml_Marshal lib (oidc_new_config (ingressPathPrefix cr)) = Inr config
         \<and> m = fmap_of_list [(''oauth2-proxy-alpha-config.yaml'', config),
             (''oauth2-proxy-config.yaml'',
              str_Join (oidc_old_config_lines (ingressPathPrefix cr) url cookie) [CHR 0x0A])]
       else m = fmempty"
proof -
  have kind: "(case sp_Authentication (as_Spec cr) of None \<Rightarrow> True | Some a \<Rightarrow> auth_Type a \<noteq> Oidc)
      \<longleftrightarrow> \<not> is_oidc cr" by (auto simp: is_oidc_def split: option.splits)
  have panic: "(if c then as_panic r else Inr []) = Inr x \<longleftrightarrow> (if c then r else Inr []) = Inr x" for c r x
    by simp
  show thesis
    using assms unfolding Secret_def Let_def kind bindE_Inr_iff panic
    by (cases "is_oidc cr") (fastforce intro: that simp: bindE_Inr_iff deref_Inr)+
qed

lemma Secret_manifest:
  assumes "Secret lib env rnd cr = Inr d"
  shows "sec_Data d = fmempty" "fmlookup (sec_StringData d) k = manifest_entry lib env rnd cr k"
    "sec_Meta d = empty_meta\<lparr> om_Name := InternalSecretName cr, om_Namespace := as_Namespace cr,
       om_Labels := childLabels cr, om_Annotations := template_annotations cr \<rparr>"
proof -
  obtain ts m where t: "(if sp_SessionLocation (as_Spec cr) = Remote then makeTunnelSecret (rnd_tunnel rnd)
        else Inr []) = Inr ts"
    and d: "d = \<lparr> sec_Meta = empty_meta\<lparr> om_Name := InternalSecretName cr, om_Namespace := as_Namespace cr,
           om_Labels := childLabels cr, om_Annotations := template_annotations cr \<rparr>,
         sec_Data = fmempty,
         sec_StringData = (if ts \<noteq> [] then fmupd ''WSTUNNEL_SECRET'' ts m else m) \<rparr>"
    and m: "if is_oidc cr then \<exists>url cookie config. GetURL (lib_parseAuthority lib) env cr = Some url
         \<and> rnd_cookie rnd = Inr cookie
         \<and> lib_yaml_Marshal lib (oidc_new_config (ingressPathPrefix cr)) = Inr config
         \<and> m = fmap_of_list [(''oauth2-proxy-alpha-config.yaml'', config),
             (''oauth2-proxy-config.yaml'',
              str_Join (oidc_old_config_lines (ingressPathPrefix cr) url cookie) [CHR 0x0A])]
       else m = fmempty"
    using Secret_Inr [OF assms] by metis
  show "sec_Data d = fmempty" "sec_Meta d = empty_meta\<lparr> om_Name := InternalSecretName cr,
      om_Namespace := as_Namespace cr, om_Labels := childLabels cr, om_Annotations := template_annotations cr \<rparr>"
    by (simp_all add: d)
  have mk: "fmlookup m k = (if k = ''WSTUNNEL_SECRET'' then None else manifest_entry lib env rnd cr k)"
  proof (cases "is_oidc cr")
    case True
    with m obtain url cookie config where "GetURL (lib_parseAuthority lib) env cr = Some url"
      "rnd_cookie rnd = Inr cookie"
      "lib_yaml_Marshal lib (oidc_new_config (ingressPathPrefix cr)) = Inr config"
      "m = fmap_of_list [(''oauth2-proxy-alpha-config.yaml'', config), (''oauth2-proxy-config.yaml'',
          str_Join (oidc_old_config_lines (ingressPathPrefix cr) url cookie) [CHR 0x0A])]" by auto
    with True show ?thesis by (simp add: manifest_entry_def fmlookup_of_list)
  next
    case False
    with m show ?thesis by (simp add: manifest_entry_def)
  qed
  have ts: "ts = (if sp_SessionLocation (as_Spec cr) = Remote
      then projr (makeTunnelSecret (rnd_tunnel rnd)) else [])" using t by (auto split: if_splits)
  have nil: "ts = [] \<longleftrightarrow> \<not> (sp_SessionLocation (as_Spec cr) = Remote \<and> rnd_tunnel rnd \<noteq> Inr [])"
    using t by (auto simp: makeTunnelSecret_def bindE_Inr_iff RawURLEncoding_EncodeToString_def split: if_splits)
  show "fmlookup (sec_StringData d) k = manifest_entry lib env rnd cr k"
  proof (cases "k = ''WSTUNNEL_SECRET''")
    case True
    with mk ts nil show ?thesis by (cases "ts = []") (simp_all add: d manifest_entry_def)
  next
    case False
    then have "fmlookup (sec_StringData d) k = fmlookup m k" by (simp add: d)
    with mk False show ?thesis by simp
  qed
qed

section \<open>Many passes\<close>

text \<open>A sequence of passes, each with the session as it is then and its own random values.\<close>

definition secret_passes ::
  "golib \<Rightarrow> environ \<Rightarrow> owner_setter \<Rightarrow> (AmaltheaSession \<times> randomness) list \<Rightarrow> SecretObject \<Rightarrow> SecretObject" where
  "secret_passes lib env sr = fold (\<lambda>(cr, rnd). secret_pass lib env sr cr rnd)"

lemma secret_passes_Cons [simp]:
  "secret_passes lib env sr [] t = t"
  "secret_passes lib env sr ((cr, rnd) # ps) t = secret_passes lib env sr ps (secret_pass lib env sr cr rnd t)"
  by (simp_all add: secret_passes_def)

lemma secret_passes_tunnel:
  assumes "live_secret t" "fmlookup (sec_Data t) ''WSTUNNEL_SECRET'' = Some v"
  shows "fmlookup (sec_Data (secret_passes lib env sr ps t)) ''WSTUNNEL_SECRET'' = Some v"
  using assms
proof (induction ps arbitrary: t)
  case (Cons p ps)
  then show ?case
    using tunnel_secret_kept secret_pass_live by (cases p) simp
qed simp

section \<open>The secret settles\<close>

lemma written_data:
  assumes "Secret lib env rnd cr = Inr d"
  shows "fmlookup (sec_Data d ++\<^sub>f preserve_tunnel old (sec_StringData d)) k =
    (if k = ''WSTUNNEL_SECRET'' \<and> fmlookup old k \<noteq> None then fmlookup old k
     else manifest_entry lib env rnd cr k)"
  using Secret_manifest(1,2) [OF assms] by (auto simp: preserve_tunnel_def split: option.splits)

lemma manifest_entry_same:
  assumes "as_Spec cr' = as_Spec cr" "as_Meta cr' = as_Meta cr"
    and "k \<noteq> ''WSTUNNEL_SECRET'' \<or> sp_SessionLocation (as_Spec cr) \<noteq> Remote"
    and "k \<noteq> ''oauth2-proxy-config.yaml'' \<or> \<not> is_oidc cr"
  shows "manifest_entry lib env rnd' cr' k = manifest_entry lib env rnd cr k"
proof -
  have "is_oidc cr' = is_oidc cr" "ingressPathPrefix cr' = ingressPathPrefix cr"
    using assms(1) by (simp_all add: is_oidc_def ingressPathPrefix_def)
  with assms show ?thesis by (simp add: manifest_entry_def)
qed

lemma manifest_meta_same:
  assumes "as_Spec cr' = as_Spec cr" "as_Meta cr' = as_Meta cr"
    and "Secret lib env rnd cr = Inr d" "Secret lib env rnd' cr' = Inr d'"
  shows "sec_Meta d' = sec_Meta d"
  using assms(1,2) Secret_manifest(3) [OF assms(3)] Secret_manifest(3) [OF assms(4)]
  by (simp add: InternalSecretName_def childLabels_def template_annotations_def)

text \<open>The data that a later pass writes over those of an earlier one.\<close>

lemma written_again:
  assumes d: "Secret lib env rnd cr = Inr d" "Secret lib env rnd' cr' = Inr d'"
    and cr: "as_Spec cr' = as_Spec cr" "as_Meta cr' = as_Meta cr" "rnd_tunnel rnd \<noteq> Inr []"
    and k: "k \<noteq> ''oauth2-proxy-config.yaml'' \<or> \<not> is_oidc cr"
    and old': "fmlookup old' k = fmlookup (sec_Data d ++\<^sub>f preserve_tunnel old (sec_StringData d)) k"
  shows "fmlookup (sec_Data d' ++\<^sub>f preserve_tunnel old' (sec_StringData d')) k = fmlookup old' k"
proof (cases "k = ''WSTUNNEL_SECRET'' \<and> fmlookup old' k \<noteq> None")
  case True
  show ?thesis by (rule trans [OF written_data [OF d(2)] if_P [OF True]])
next
  case False
  note w = trans [OF old' written_data [OF d(1)]]
  have "\<not> (k = ''WSTUNNEL_SECRET'' \<and> fmlookup old k \<noteq> None)" using False w by metis
  then have e: "fmlookup old' k = manifest_entry lib env rnd cr k" by (intro trans [OF w if_not_P])
  have "k \<noteq> ''WSTUNNEL_SECRET'' \<or> sp_SessionLocation (as_Spec cr) \<noteq> Remote"
  proof (rule ccontr)
    assume "\<not> ?thesis"
    then have "manifest_entry lib env rnd cr k \<noteq> None" "k = ''WSTUNNEL_SECRET''"
      using cr(3) by (simp_all add: manifest_entry_def)
    with False e show False by (metis (full_types))
  qed
  then have "manifest_entry lib env rnd' cr' k = manifest_entry lib env rnd cr k"
    by (rule manifest_entry_same [OF cr(1,2) _ k])
  then show ?thesis
    unfolding e by (rule trans [OF trans [OF written_data [OF d(2)] if_not_P [OF False]]])
qed

text \<open>What the passes keep of the secret that a writing pass has left.\<close>

definition settled :: "AmaltheaSession \<Rightarrow> SecretObject \<Rightarrow> SecretObject \<Rightarrow> bool" where
  "settled cr t1 t \<longleftrightarrow> live_secret t \<and> sec_Meta t = sec_Meta t1
     \<and> (\<forall>k. fmlookup (sec_Data t) k \<noteq> fmlookup (sec_Data t1) k
            \<longrightarrow> is_oidc cr \<and> k = ''oauth2-proxy-config.yaml'')"

lemma settled_pass:
  assumes "live_secret t" "reconcile_allowed ''secret'' cr = Inr True" "Secret lib env rnd cr = Inr d"
    and "rnd_tunnel rnd \<noteq> Inr []" "as_Spec cr' = as_Spec cr" "as_Meta cr' = as_Meta cr"
    and "settled cr (secret_pass lib env sr cr rnd t) t'"
  shows "settled cr (secret_pass lib env sr cr rnd t) (secret_pass lib env sr cr' rnd' t')"
proof -
  let ?t1 = "secret_pass lib env sr cr rnd t" and ?t2 = "secret_pass lib env sr cr' rnd' t'"
  have t1: "?t1 = t\<lparr> sec_Data := sec_Data d ++\<^sub>f preserve_tunnel (sec_Data t) (sec_StringData d),
      sec_StringData := fmempty, sec_Meta := clean_meta (sec_Meta t) (sec_Meta d) \<rparr>"
    using assms(1-3) by (simp add: secret_pass_def secret_mutate_def live_secret_def stored_secret_def)
  have t': "live_secret t'" "sec_Meta t' = sec_Meta ?t1"
    "fmlookup (sec_Data t') k = fmlookup (sec_Data ?t1) k" if "\<not> (is_oidc cr \<and> k = ''oauth2-proxy-config.yaml'')" for k
    using assms(7) that by (auto simp: settled_def)
  from secret_pass_cases [of t' lib env sr cr' rnd'] assms(7) consider "?t2 = t'"
    | d' where "Secret lib env rnd' cr' = Inr d'"
      "?t2 = t'\<lparr> sec_Data := sec_Data d' ++\<^sub>f preserve_tunnel (sec_Data t') (sec_StringData d'),
         sec_StringData := fmempty, sec_Meta := clean_meta (sec_Meta t') (sec_Meta d') \<rparr>"
    by (auto simp: settled_def)
  then show ?thesis
  proof cases
    case 1
    with assms(7) show ?thesis by simp
  next
    case 2
    have "sec_Meta ?t2 = sec_Meta ?t1"
      using assms(7) manifest_meta_same [OF assms(5,6,3) 2(1)] by (simp add: 2(2) settled_def t1)
    moreover have same: "fmlookup (sec_Data ?t2) k = fmlookup (sec_Data ?t1) k"
      if k: "\<not> (is_oidc cr \<and> k = ''oauth2-proxy-config.yaml'')" for k
    proof -
      have old: "fmlookup (sec_Data t') k
          = fmlookup (sec_Data d ++\<^sub>f preserve_tunnel (sec_Data t) (sec_StringData d)) k"
        using t'(3) [OF k] by (simp add: t1)
      have "fmlookup (sec_Data ?t2) k = fmlookup (sec_Data t') k"
        using written_again [OF assms(3) 2(1) assms(5,6,4) _ old] k by (auto simp: 2(2) simp del: fmlookup_add)
      then show ?thesis using t'(3) [OF k] by simp
    qed
    moreover have "live_secret ?t2" using assms(7) by (auto simp: settled_def intro: secret_pass_live)
    ultimately show ?thesis unfolding settled_def using same by (intro conjI allI impI) metis+
  qed
qed

lemma settled_passes:
  assumes "live_secret t" "reconcile_allowed ''secret'' cr = Inr True" "Secret lib env rnd cr = Inr d"
    and "rnd_tunnel rnd \<noteq> Inr []"
    and "\<And>p. p \<in> set ps \<Longrightarrow> as_Spec (fst p) = as_Spec cr \<and> as_Meta (fst p) = as_Meta cr"
    and "settled cr (secret_pass lib env sr cr rnd t) t'"
  shows "settled cr (secret_pass lib env sr cr rnd t) (secret_passes lib env sr ps t')"
  using assms(5,6)
proof (induction ps arbitrary: t')
  case (Cons p ps)
  obtain cr' rnd' where p: "p = (cr', rnd')" by (cases p)
  have "settled cr (secret_pass lib env sr cr rnd t) (secret_pass lib env sr cr' rnd' t')"
    using Cons.prems(1) [of p] Cons.prems(2) by (intro settled_pass [OF assms(1-4)]) (simp_all add: p)
  then show ?case using Cons.IH Cons.prems(1) by (simp add: p)
qed simp

text \<open>C9: The operator's secret settles, although every pass computes its manifest with new random
  values. Take the secret of a session in the cluster and a pass that writes it. Whatever passes
  follow, with the same metadata and specification, any status and any random values, failing ones
  included, the stored secret keeps its metadata and every entry of its data, except, with \<^verbatim>\<open>oidc\<close>,
  the configuration of the proxy, which has the random cookie secret in it. The secret of the tunnel
  of a remote session is even kept by every sequence of passes of changed specifications, and it is
  the one that was stored before the first of these passes, if there was one.
\<close>

theorem operator_secret_settles:
  assumes "live_secret t" "reconcile_allowed ''secret'' cr = Inr True" "Secret lib env rnd cr = Inr d"
    and "rnd_tunnel rnd \<noteq> Inr []"
    and "\<forall>p \<in> set ps. as_Spec (fst p) = as_Spec cr \<and> as_Meta (fst p) = as_Meta cr"
  shows "let t1 = secret_pass lib env sr cr rnd t; t2 = secret_passes lib env sr ps t1
    in sec_Meta t2 = sec_Meta t1
     \<and> (\<forall>k. fmlookup (sec_Data t2) k \<noteq> fmlookup (sec_Data t1) k
            \<longrightarrow> is_oidc cr \<and> k = ''oauth2-proxy-config.yaml'')
     \<and> (sp_SessionLocation (as_Spec cr) = Remote \<longrightarrow>
          (\<exists>v. (fmlookup (sec_Data t) ''WSTUNNEL_SECRET'' \<in> {None, Some v})
             \<and> (\<forall>qs. fmlookup (sec_Data (secret_passes lib env sr qs t1)) ''WSTUNNEL_SECRET'' = Some v)))"
proof -
  let ?t1 = "secret_pass lib env sr cr rnd t"
  have live: "live_secret ?t1" by (rule secret_pass_live [OF assms(1)])
  then have "settled cr ?t1 ?t1" by (simp add: settled_def)
  then have "settled cr ?t1 (secret_passes lib env sr ps ?t1)"
    using settled_passes [OF assms(1-4)] assms(5) by blast
  moreover have "\<exists>v. fmlookup (sec_Data t) ''WSTUNNEL_SECRET'' \<in> {None, Some v}
      \<and> fmlookup (sec_Data ?t1) ''WSTUNNEL_SECRET'' = Some v" if "sp_SessionLocation (as_Spec cr) = Remote"
  proof -
    have "sec_Data ?t1 = sec_Data d ++\<^sub>f preserve_tunnel (sec_Data t) (sec_StringData d)"
      using assms(1-3) by (simp add: secret_pass_def secret_mutate_def live_secret_def stored_secret_def)
    then show ?thesis
      using written_data [OF assms(3), of "sec_Data t" "''WSTUNNEL_SECRET''"] that assms(4)
      by (cases "fmlookup (sec_Data t) ''WSTUNNEL_SECRET''") (simp_all add: manifest_entry_def)
  qed
  ultimately show ?thesis
    using secret_passes_tunnel [OF live] unfolding settled_def Let_def by blast
qed

text \<open>With \<^verbatim>\<open>oidc\<close> the exception is real: a pass that writes stores the cookie secret of its own
  random values, which the proxy that already runs does not have.\<close>

lemma cookie_secret_replaced:
  assumes "live_secret t" "reconcile_allowed ''secret'' cr = Inr True" "Secret lib env rnd cr = Inr d"
    and "is_oidc cr"
  shows "\<exists>url cookie. rnd_cookie rnd = Inr cookie
     \<and> fmlookup (sec_Data (secret_pass lib env sr cr rnd t)) ''oauth2-proxy-config.yaml'' =
        Some (str_Join (oidc_old_config_lines (ingressPathPrefix cr) url cookie) [CHR 0x0A])"
proof -
  have "sec_Data (secret_pass lib env sr cr rnd t) = sec_Data d ++\<^sub>f preserve_tunnel (sec_Data t) (sec_StringData d)"
    using assms(1-3) by (simp add: secret_pass_def secret_mutate_def live_secret_def stored_secret_def)
  then have "fmlookup (sec_Data (secret_pass lib env sr cr rnd t)) ''oauth2-proxy-config.yaml''
      = manifest_entry lib env rnd cr ''oauth2-proxy-config.yaml''"
    using written_data [OF assms(3)] by simp
  moreover obtain cookie where "rnd_cookie rnd = Inr cookie"
    using Secret_Inr [OF assms(3)] assms(4) by (metis (full_types))
  ultimately show ?thesis using assms(4) by (auto simp: manifest_entry_def)
qed

definition sample_operator_secret :: SecretObject where
  "sample_operator_secret = (secret_named [] [])\<lparr> sec_Meta := sample_live_meta \<rparr>"

theorem operator_secret_settles_witness:
  "\<exists>t1 v. fmlookup (sec_Data t1) ''WSTUNNEL_SECRET'' = Some v
     \<and> secret_pass sample_lib sample_env (\<lambda>_. Inr) sample_remote sample_rnd sample_operator_secret = t1
     \<and> fmlookup (sec_Data (secret_passes sample_lib sample_env (\<lambda>_. Inr)
          [(sample_remote, sample_rnd\<lparr> rnd_tunnel := Inr ''another'' \<rparr>)] t1)) ''WSTUNNEL_SECRET'' = Some v"
proof -
  have "live_secret sample_operator_secret"
    by (simp add: live_secret_def sample_operator_secret_def secret_named_def sample_live_meta_def)
  moreover have "reconcile_allowed ''secret'' sample_remote = Inr True"
    by (simp add: reconcile_allowed_def sample_remote_def sample_session_def sample_spec_def)
  moreover obtain d where "Secret sample_lib sample_env sample_rnd sample_remote = Inr d"
    by (simp add: Secret_def sample_defs makeTunnelSecret_def as_panic_def Let_def)
  moreover have "rnd_tunnel sample_rnd \<noteq> Inr []" by (simp add: sample_rnd_def)
  moreover have "\<forall>p \<in> set []. as_Spec (fst p) = as_Spec sample_remote \<and> as_Meta (fst p) = as_Meta sample_remote"
    by simp
  ultimately obtain v where v: "fmlookup (sec_Data (secret_passes sample_lib sample_env (\<lambda>_. Inr) qs
      (secret_pass sample_lib sample_env (\<lambda>_. Inr) sample_remote sample_rnd sample_operator_secret)))
      ''WSTUNNEL_SECRET'' = Some v" for qs
    using operator_secret_settles [of sample_operator_secret sample_remote sample_lib sample_env sample_rnd d
        "[]" "\<lambda>_. Inr"]
    by (force simp: Let_def sample_remote_def)
  show ?thesis by (intro exI conjI refl) (use v [of "[]"] v in \<open>simp_all only: secret_passes_Cons(1)\<close>)
qed

end
