(* ===== verification/Hibernation.thy ===== *)
theory Hibernation
  imports Reconciler_Props Reconcile_Props
begin

text \<open>
  Automatic hibernation over a whole pass of the reconciler: the limits of the session that the
  pass has read decide whether it writes the session a second time, with the hibernation flag.
\<close>

section \<open>The limits\<close>




section \<open>A pass\<close>









end
