(* ===== verification/Runai_Token.thy ===== *)
theory Runai_Token
  imports Remote_Auth_Props
begin

text \<open>
  Callers of the RunAI authentication that take turns
  (\<^verbatim>\<open>src/internal/remote/runai/auth/client_credentials.go\<close>). \<^verbatim>\<open>GetAccessToken\<close> and
  \<^verbatim>\<open>refreshAccessToken\<close> are cut where another goroutine can come in between: at the sections
  under the read lock and the write lock, and around the request to the token server. The
  number of callers is arbitrary.
\<close>

section \<open>The sections of a call\<close>

text \<open>
  \<open>CallerRead\<close> holds the copies that the section under the read lock made, \<open>CallerWaits\<close> is about
  to take the write lock, \<open>CallerChecks\<close> has it and is about to look at the token again,
  \<open>CallerRequests\<close> has it while its request is on the way.
\<close>

datatype token_caller =
    CallerIdle
  | CallerRead string time
  | CallerWaits
  | CallerChecks
  | CallerRequests
  | CallerDone "string result"

record 'w token_run =
  tk_world :: 'w
  tk_auth :: RunaiClientCredentialsAuth
  tk_lock :: "nat option"
  tk_caller :: "nat \<Rightarrow> token_caller"
  tk_requests :: nat

text \<open>Both checks ask for a token that is valid for ten more seconds at the time of the check.\<close>

definition still_valid :: "time \<Rightarrow> string \<Rightarrow> time \<Rightarrow> bool" where
  "still_valid now token expiresAt \<longleftrightarrow> token \<noteq> [] \<and> IsNotExpired now expiresAt (10 * second) False"

abbreviation tk_now :: "'w auth_net \<Rightarrow> 'w token_run \<Rightarrow> time" where
  "tk_now net p \<equiv> an_now net (tk_world p)"

definition set_caller :: "nat \<Rightarrow> token_caller \<Rightarrow> 'w token_run \<Rightarrow> 'w token_run" where
  "set_caller i c p = p\<lparr> tk_caller := (tk_caller p)(i := c) \<rparr>"

text \<open>
  One step of a caller, or of the rest of the world. A read lock is granted when nobody has the
  write lock, and its section is a single step. The clock does not go back.
\<close>

inductive rca_step :: "'w auth_net \<Rightarrow> 'w token_run \<Rightarrow> 'w token_run \<Rightarrow> bool"
  for net :: "'w auth_net" where
  read_token:
    "tk_lock p = None \<Longrightarrow> tk_caller p i = CallerIdle \<or> (\<exists>r. tk_caller p i = CallerDone r)
     \<Longrightarrow> rca_step net p (set_caller i (CallerRead (rca_accessToken (tk_auth p))
            (rca_accessTokenExpiresAt (tk_auth p))) p)"
| token_valid:
    "tk_caller p i = CallerRead token expiresAt \<Longrightarrow> still_valid (tk_now net p) token expiresAt
     \<Longrightarrow> rca_step net p (set_caller i (CallerDone (Inr token)) p)"
| token_expired:
    "tk_caller p i = CallerRead token expiresAt \<Longrightarrow> \<not> still_valid (tk_now net p) token expiresAt
     \<Longrightarrow> rca_step net p (set_caller i CallerWaits p)"
| take_lock:
    "tk_caller p i = CallerWaits \<Longrightarrow> tk_lock p = None
     \<Longrightarrow> rca_step net p ((set_caller i CallerChecks p)\<lparr> tk_lock := Some i \<rparr>)"
| check_again:
    "tk_caller p i = CallerChecks
     \<Longrightarrow> still_valid (tk_now net p) (rca_accessToken (tk_auth p)) (rca_accessTokenExpiresAt (tk_auth p))
     \<Longrightarrow> rca_step net p ((set_caller i (CallerDone (Inr (rca_accessToken (tk_auth p)))) p)
            \<lparr> tk_lock := None \<rparr>)"
| send_request:
    "tk_caller p i = CallerChecks
     \<Longrightarrow> \<not> still_valid (tk_now net p) (rca_accessToken (tk_auth p)) (rca_accessTokenExpiresAt (tk_auth p))
     \<Longrightarrow> rca_step net p ((set_caller i CallerRequests p)\<lparr> tk_requests := Suc (tk_requests p) \<rparr>)"
| receive_token:
    "tk_caller p i = CallerRequests
     \<Longrightarrow> runai_requestNewAccessToken net (rca_tokenURI (tk_auth p)) ''client_credentials''
          (rca_clientID (tk_auth p)) (rca_clientSecret (tk_auth p)) (tk_world p) = (w', Inr (token, expiresAt))
     \<Longrightarrow> tk_now net p \<le> an_now net w'
     \<Longrightarrow> rca_step net p ((set_caller i (CallerDone (Inr token)) p)
            \<lparr> tk_world := w', tk_lock := None,
              tk_auth := (tk_auth p)\<lparr> rca_accessToken := token, rca_accessTokenExpiresAt := expiresAt \<rparr> \<rparr>)"
| receive_error:
    "tk_caller p i = CallerRequests
     \<Longrightarrow> runai_requestNewAccessToken net (rca_tokenURI (tk_auth p)) ''client_credentials''
          (rca_clientID (tk_auth p)) (rca_clientSecret (tk_auth p)) (tk_world p) = (w', Inl e)
     \<Longrightarrow> tk_now net p \<le> an_now net w'
     \<Longrightarrow> rca_step net p ((set_caller i (CallerDone (Inl e)) p)\<lparr> tk_world := w', tk_lock := None \<rparr>)"
| world_moves:
    "tk_now net p \<le> an_now net w' \<Longrightarrow> rca_step net p (p\<lparr> tk_world := w' \<rparr>)"

definition token_start :: "'w \<Rightarrow> RunaiClientCredentialsAuth \<Rightarrow> 'w token_run" where
  "token_start w a = \<lparr> tk_world = w, tk_auth = a, tk_lock = None,
     tk_caller = (\<lambda>_. CallerIdle), tk_requests = 0 \<rparr>"

section \<open>The invariant of the lock\<close>

definition tk_usable :: "'w auth_net \<Rightarrow> 'w token_run \<Rightarrow> bool" where
  "tk_usable net p \<longleftrightarrow> still_valid (tk_now net p) (rca_accessToken (tk_auth p))
     (rca_accessTokenExpiresAt (tk_auth p))"

definition lock_ok :: "'w auth_net \<Rightarrow> 'w token_run \<Rightarrow> bool" where
  "lock_ok net p \<longleftrightarrow>
     (\<forall>i. tk_lock p = Some i \<longleftrightarrow> tk_caller p i \<in> {CallerChecks, CallerRequests})
     \<and> ((\<exists>i. tk_caller p i = CallerRequests) \<longrightarrow> \<not> tk_usable net p)"

lemma still_valid_earlier: "still_valid now' t e \<Longrightarrow> now \<le> now' \<Longrightarrow> still_valid now t e"
  by (auto simp: still_valid_def IsNotExpired_def Let_def split: if_splits)

lemma usable_earlier:
  "tk_usable net (p\<lparr> tk_world := w' \<rparr>) \<Longrightarrow> tk_now net p \<le> an_now net w' \<Longrightarrow> tk_usable net p"
  using still_valid_earlier by (fastforce simp: tk_usable_def)

lemmas token_run_simps = set_caller_def lock_ok_def tk_usable_def

lemma lock_ok_start: "lock_ok net (token_start w a)"
  by (simp add: lock_ok_def token_start_def)

lemma lock_ok_step:
  assumes "rca_step net p q" "lock_ok net p"
  shows "lock_ok net q"
  using assms
proof induction
  case (world_moves p w')
  then show ?case using usable_earlier [where net = net and p = p and w' = w'] by (auto simp: lock_ok_def)
qed (auto simp: token_run_simps, (metis option.inject)+)

lemma lock_ok_steps: "(rca_step net)\<^sup>*\<^sup>* p q \<Longrightarrow> lock_ok net p \<Longrightarrow> lock_ok net q"
  by (induction rule: rtranclp_induct) (auto intro: lock_ok_step)

section \<open>One request for a token\<close>

lemma clock_step: "rca_step net p q \<Longrightarrow> tk_now net p \<le> tk_now net q"
  by (induction rule: rca_step.induct) (auto simp: set_caller_def)

lemma usable_step:
  assumes "rca_step net p q" "lock_ok net p" "tk_usable net p"
  shows "tk_requests q = tk_requests p \<and> tk_auth q = tk_auth p"
  using assms by induction (auto simp: token_run_simps)

lemma usable_steps:
  assumes "(rca_step net)\<^sup>*\<^sup>* p q" "lock_ok net p"
    and "still_valid (tk_now net q) (rca_accessToken (tk_auth p)) (rca_accessTokenExpiresAt (tk_auth p))"
  shows "tk_requests q = tk_requests p \<and> tk_auth q = tk_auth p"
  using assms
proof (induction rule: rtranclp_induct)
  case (step q r)
  have "lock_ok net q" using step lock_ok_steps by blast
  moreover have valid: "still_valid (tk_now net q) (rca_accessToken (tk_auth p))
      (rca_accessTokenExpiresAt (tk_auth p))"
    by (rule still_valid_earlier [OF step.prems(2) clock_step [OF step.hyps(2)]])
  moreover from step.IH [OF step.prems(1) valid] have "tk_requests q = tk_requests p" "tk_auth q = tk_auth p"
    by simp_all
  ultimately show ?case using usable_step [OF step.hyps(2)] by (simp add: tk_usable_def)
qed simp

text \<open>The steps contain the sequential calls: a caller with no other one around does what
  \<^const>\<open>rca_GetAccessToken\<close> does.\<close>

definition alone :: "'w \<Rightarrow> RunaiClientCredentialsAuth \<Rightarrow> nat \<Rightarrow> token_caller \<Rightarrow> nat option \<Rightarrow> 'w token_run" where
  "alone w a n c lock = \<lparr> tk_world = w, tk_auth = a, tk_lock = lock,
     tk_caller = (\<lambda>_. CallerIdle)(0 := c), tk_requests = n \<rparr>"

lemma alone_simps [simp]:
  "tk_world (alone w a n c lock) = w" "tk_auth (alone w a n c lock) = a"
  "tk_lock (alone w a n c lock) = lock" "tk_caller (alone w a n c lock) 0 = c"
  "tk_requests (alone w a n c lock) = n"
  "set_caller 0 c' (alone w a n c lock) = alone w a n c' lock"
  "(alone w a n c lock)\<lparr> tk_lock := lock' \<rparr> = alone w a n c lock'"
  "(alone w a n c lock)\<lparr> tk_requests := m \<rparr> = alone w a m c lock"
  "(alone w a n c lock)\<lparr> tk_world := w' \<rparr> = alone w' a n c lock"
  "(alone w a n c lock)\<lparr> tk_auth := a' \<rparr> = alone w a' n c lock"
  by (simp_all add: alone_def set_caller_def)

lemma token_start_alone: "token_start w a = alone w a 0 CallerIdle None"
  by (simp add: token_start_def alone_def fun_upd_idem)

lemma call_alone:
  assumes "rca_GetAccessToken net (w, a) = ((w', a'), r)" "an_now net w \<le> an_now net w'"
  shows "\<exists>n. (rca_step net)\<^sup>*\<^sup>* (token_start w a) (alone w' a' n (CallerDone r) None)"
proof -
  let ?s = "\<lambda>c. alone w a 0 c None" and ?t = "rca_accessToken a" and ?e = "rca_accessTokenExpiresAt a"
  have read: "rca_step net (?s CallerIdle) (?s (CallerRead ?t ?e))"
    using rca_step.read_token [of "?s CallerIdle" 0] by simp
  show ?thesis
  proof (cases "still_valid (an_now net w) ?t ?e")
    case True
    then have "w' = w" "a' = a" "r = Inr ?t"
      using assms(1) by (auto simp: rca_GetAccessToken_def still_valid_def)
    moreover have "rca_step net (?s (CallerRead ?t ?e)) (?s (CallerDone (Inr ?t)))"
      using rca_step.token_valid [of "?s (CallerRead ?t ?e)" 0] True by simp
    ultimately show ?thesis
      using read unfolding token_start_alone by (meson r_into_rtranclp rtranclp.rtrancl_into_rtrancl)
  next
    case False
    let ?p = "alone w a 1 CallerRequests (Some 0)"
    let ?req = "runai_requestNewAccessToken net (rca_tokenURI a) ''client_credentials''
      (rca_clientID a) (rca_clientSecret a) w"
    have "rca_step net (?s (CallerRead ?t ?e)) (?s CallerWaits)"
      using rca_step.token_expired [of "?s (CallerRead ?t ?e)" 0] False by simp
    moreover have "rca_step net (?s CallerWaits) (alone w a 0 CallerChecks (Some 0))"
      using rca_step.take_lock [of "?s CallerWaits" 0] by simp
    moreover have "rca_step net (alone w a 0 CallerChecks (Some 0)) ?p"
      using rca_step.send_request [of "alone w a 0 CallerChecks (Some 0)" 0] False by simp
    moreover have "rca_step net ?p (alone w' a' 1 (CallerDone r) None)"
    proof (cases "snd ?req")
      case (Inl e)
      then have "?req = (w', Inl e)" "a' = a" "r = Inl e" using assms(1) False
        by (auto simp: rca_GetAccessToken_def rca_refreshAccessToken_def still_valid_def
            split: prod.splits)
      then show ?thesis using rca_step.receive_error [of ?p 0 net w' e] assms(2) by simp
    next
      case (Inr te)
      then have "?req = (w', Inr te)" "r = Inr (fst te)"
        "a' = a\<lparr> rca_accessToken := fst te, rca_accessTokenExpiresAt := snd te \<rparr>" using assms(1) False
        by (auto simp: rca_GetAccessToken_def rca_refreshAccessToken_def still_valid_def
            split: prod.splits)
      then show ?thesis using rca_step.receive_token [of ?p 0 net w' "fst te" "snd te"] assms(2) by simp
    qed
    ultimately show ?thesis
      using read unfolding token_start_alone
      by (intro exI [of _ 1]) (meson converse_rtranclp_into_rtranclp r_into_rtranclp)
  qed
qed

section \<open>Callers share a token\<close>

text \<open>C30: Goroutines that need a RunAI token at the same time share one request. In every
  interleaving of any number of callers, of the replies and of the clock, the write lock is held
  exactly by the caller that checks again or requests, so that at most one request is on the way;
  and from every state that is reached, as long as the token stored there is valid for ten more
  seconds, no caller sends a request and the token stays, whatever callers were already waiting for
  the lock because they had seen an older one.
\<close>

theorem waiting_callers_share_token:
  assumes "(rca_step net)\<^sup>*\<^sup>* (token_start w a) p"
  shows "(\<forall>i. tk_lock p = Some i \<longleftrightarrow> tk_caller p i \<in> {CallerChecks, CallerRequests})
    \<and> (\<forall>i j. tk_caller p i = CallerRequests \<and> tk_caller p j = CallerRequests \<longrightarrow> i = j)
    \<and> (\<forall>q. (rca_step net)\<^sup>*\<^sup>* p q
          \<and> still_valid (tk_now net q) (rca_accessToken (tk_auth p)) (rca_accessTokenExpiresAt (tk_auth p))
        \<longrightarrow> tk_requests q = tk_requests p \<and> tk_auth q = tk_auth p)"
proof -
  have ok: "lock_ok net p" using lock_ok_steps [OF assms lock_ok_start] .
  then have lock: "\<forall>i. tk_lock p = Some i \<longleftrightarrow> tk_caller p i \<in> {CallerChecks, CallerRequests}"
    by (simp add: lock_ok_def)
  then have "i = j" if "tk_caller p i = CallerRequests" "tk_caller p j = CallerRequests" for i j
    using that by (metis insertCI option.inject)
  with lock usable_steps [OF _ ok] show ?thesis by blast
qed

text \<open>After the first caller has fetched a token, a caller that saw none sends no request.\<close>

lemma waiting_callers_share_token_witness:
  "\<exists>n p. (rca_step (counting_net ''abc'' 3600))\<^sup>*\<^sup>* (token_start (5, 0) sample_rca) p
     \<and> rca_accessToken (tk_auth p) = ''abc''
     \<and> (\<forall>q. (rca_step (counting_net ''abc'' 3600))\<^sup>*\<^sup>* p q \<and> tk_now (counting_net ''abc'' 3600) q \<le> 3000 * second
          \<longrightarrow> tk_requests q = n \<and> tk_auth q = tk_auth p)"
proof -
  let ?net = "counting_net ''abc'' 3600"
  let ?a = "sample_rca\<lparr> rca_accessToken := ''abc'', rca_accessTokenExpiresAt := expires_in 5 3600 \<rparr>"
  have "rca_GetAccessToken ?net ((5, 0), sample_rca) = (((5, Suc 0), ?a), Inr ''abc'')"
    by (rule counting_net_fetch) simp_all
  then obtain n where reach: "(rca_step ?net)\<^sup>*\<^sup>* (token_start (5, 0) sample_rca)
      (alone (5, Suc 0) ?a n (CallerDone (Inr ''abc'')) None)"
    using call_alone [of ?net "(5, 0)"] by (fastforce simp: counting_net_def)
  have "still_valid t ''abc'' (expires_in 5 3600)" if "t \<le> 3000 * second" for t
    using that by (simp add: still_valid_def IsNotExpired_def expires_in_def wrap64_def second_def Let_def)
  with waiting_callers_share_token [OF reach] reach show ?thesis
    by (intro exI [of _ n] exI [of _ "alone (5, Suc 0) ?a n (CallerDone (Inr ''abc'')) None"]) simp
qed

end
