(* ===== verification/Spec2Isabelle.thy ===== *)
theory Spec2Isabelle
  imports Template_Props Children_Props Reconcile_Props Pod_Props Session_Lifecycle
    Git_Proxy_Props Clone_Container Cloner_Config Cloner_Exclude Remote_Operator_Props Runai_Props
    Firecrest_Api_Props OpenAPI_Props Sidecars Operator_Main Secret_Passes Hibernation Runai_Token
begin

text \<open>
  Verification of Amalthea, a Kubernetes operator that runs user sessions (a Jupyter server,
  a batch job, or a proxy to a session on a remote cluster) described by
  \<^verbatim>\<open>AmaltheaSession\<close> custom resources. The sources are under \<^verbatim>\<open>src/\<close>.

  \<^bold>\<open>The program.\<close> The operator watches the sessions. For each session it runs a pass of
  the reconciler (\<^verbatim>\<open>internal/controller/amaltheasession_controller.go\<close>): the pass reads the
  session, culls it or deletes it when its time has come, computes the manifests of its
  children (\<^verbatim>\<open>api/v1alpha1/\<close>), creates or patches them in the cluster
  (\<^verbatim>\<open>internal/controller/children.go\<close>), derives a new status from what the cluster returns
  and writes it back, and sets the metrics. A deleted session keeps a finalizer until its
  adopted secrets are gone. The containers of a session run helper programs of the
  repository (a cloner, a git proxy, an authentication proxy, a tunnel, a controller for
  remote sessions), which are the commands of one executable (\<^verbatim>\<open>cmd/sidecars/main.go\<close>). The
  operator starts in \<^verbatim>\<open>cmd/amalthea/main.go\<close>. A separate tool rewrites the OpenAPI specification
  from which the FirecREST client is generated. The controller for remote sessions
  (\<^verbatim>\<open>internal/remote/\<close>) runs in the place of the session's container: it starts the session as
  a job on a cluster with the FirecREST API or as a workspace of Run:AI, watches it, answers
  the probes and stops it when it gets a signal.

  \<^bold>\<open>The theories.\<close>
  \<^item> \<^verbatim>\<open>Go_Prelude\<close>: errors as values, instants and durations, the string, map and
    formatting functions of the Go library that the sources use, loops that stop at the first
    result or error. \<^verbatim>\<open>Go_Action\<close>: code with effects as actions on a world of an arbitrary
    type, methods as actions on the world and an object. \<^verbatim>\<open>Go_URL\<close>: \<^verbatim>\<open>net/url\<close> and
    \<^verbatim>\<open>path.Clean\<close>. \<^verbatim>\<open>Go_JSON\<close>: \<^verbatim>\<open>encoding/json\<close>, with its round trip;
    \<^verbatim>\<open>Go_JSON_Struct\<close>: its decoding into the fields of structs, and the contract of a type whose
    values read back. \<^verbatim>\<open>K8s_Types\<close>: the fields of the Kubernetes objects that the operator reads
    or writes.
  \<^item> \<^verbatim>\<open>Session_Types\<close>: \<^verbatim>\<open>amaltheasession_types.go\<close>; specification, status and conditions
    as records, enumerations as datatypes, URLs of a session.
  \<^item> \<^verbatim>\<open>Operator_Config\<close>: \<^verbatim>\<open>internal/controller/config/\<close>; cluster type and image rewriting.
  \<^item> \<^verbatim>\<open>Session_Templates\<close>: constants, labels, volumes, data sources, the cloning,
    authentication, session and tunnel containers and the pod, from
    \<^verbatim>\<open>amaltheasession_children.go\<close>, \<^verbatim>\<open>auth_templates.go\<close> and \<^verbatim>\<open>code_repo_templates.go\<close>.
  \<^item> \<^verbatim>\<open>K8s_Client\<close>: the API server as a record of functions on a world of an arbitrary type;
    \<^verbatim>\<open>Session_Children\<close>: the rest of \<^verbatim>\<open>amaltheasession_children.go\<close> (Job, StatefulSet,
    Service, Ingress, Secret, adopted secrets, deletion rule, look-ups of pod, job and events).
  \<^item> \<^verbatim>\<open>Pod_Status\<close>: \<^verbatim>\<open>children_conditions.go\<close> and the predicates of \<^verbatim>\<open>status.go\<close>.
    \<^verbatim>\<open>Child_Reconcile\<close>: \<^verbatim>\<open>children.go\<close> up to the updates; one mutation per kind of child,
    as the function that \<^verbatim>\<open>CreateOrPatch\<close> applies to the live object.
    \<^verbatim>\<open>Culling\<close>: \<^verbatim>\<open>cull.go\<close>. \<^verbatim>\<open>Session_Status\<close>: the rest of \<^verbatim>\<open>children.go\<close> and
    \<^verbatim>\<open>status.go\<close>. \<^verbatim>\<open>Session_Metrics\<close>: \<^verbatim>\<open>metrics.go\<close>. \<^verbatim>\<open>Reconciler\<close>: the pass.
  \<^item> \<^verbatim>\<open>Git_Proxy\<close>: \<^verbatim>\<open>internal/git-https-proxy/\<close> and \<^verbatim>\<open>internal/utils/token.go\<close>; the
    configuration, the token store (a record that the operations return updated, with the
    interleaving of its critical sections as a step relation) and the handlers that add
    credentials to requests.
  \<^item> \<^verbatim>\<open>Cloner\<close>: \<^verbatim>\<open>internal/cloner/\<close>; the commands \<^verbatim>\<open>clone\<close> and \<^verbatim>\<open>shellclone\<close> as actions on
    a world, over a record for the operating system, the git program and the go-git library.
  \<^item> \<^verbatim>\<open>Remote_Config\<close>: \<^verbatim>\<open>internal/remote/config/\<close>; flags, keys, environment variables, the
    checks of the configuration. \<^verbatim>\<open>Remote_Auth\<close>: \<^verbatim>\<open>auth/shared/\<close>, \<^verbatim>\<open>firecrest/auth/\<close> and
    \<^verbatim>\<open>runai/auth/\<close>; every authentication is a record and its locked sections are actions.
    \<^verbatim>\<open>Remote_Host\<close>: the states of a remote session, the operating system, and
    \<^verbatim>\<open>internal/utils/container.go\<close>.
  \<^item> \<^verbatim>\<open>firecrest_gen.go\<close>, the generated client: \<^verbatim>\<open>Firecrest_Types\<close> has its structs as records with
    the reading of each from JSON, the writing of those that requests carry, and its
    enumerations; \<^verbatim>\<open>Firecrest_Unions\<close> has the three methods of every alternative of a union and
    the discriminator; \<^verbatim>\<open>Firecrest_Client\<close> has the client, the operations that the controller
    calls, the parsing of their replies, and \<^verbatim>\<open>firecrest.go\<close>; \<^verbatim>\<open>Firecrest_Api\<close> has the other
    operations.
  \<^item> \<^verbatim>\<open>Firecrest_Controller\<close>: \<^verbatim>\<open>firecrest/controller.go\<close> and \<^verbatim>\<open>status.go\<close>.
    \<^verbatim>\<open>Runai_Client\<close>: \<^verbatim>\<open>runai_api.go\<close> and \<^verbatim>\<open>runai.go\<close>. \<^verbatim>\<open>Runai_Controller\<close>:
    \<^verbatim>\<open>runai/controller.go\<close>. \<^verbatim>\<open>Remote_Server\<close>: \<^verbatim>\<open>controller/controller.go\<close> and
    \<^verbatim>\<open>server/server.go\<close>; the endpoints, and the process as a step relation in which the main
    goroutine, the status loop and errors of the HTTP server take turns.
  \<^item> \<^verbatim>\<open>Sidecar_Flags\<close>: flags bound to keys of viper and to environment variables.
    \<^verbatim>\<open>Auth_Proxy\<close>: \<^verbatim>\<open>internal/authproxy/\<close>; flags, configuration, the chain of middlewares, both
    servers. \<^verbatim>\<open>Tunnel\<close>: \<^verbatim>\<open>internal/tunnel/\<close>; the restrictions and the run of \<^verbatim>\<open>wstunnel\<close>.
    \<^verbatim>\<open>Git_Proxy_Server\<close>: \<^verbatim>\<open>GetConfig\<close> with its decode hooks and \<^verbatim>\<open>root.go\<close> of the git
    proxy. \<^verbatim>\<open>Cloner_Config\<close>: the reading of the cloner's configuration;
    \<^verbatim>\<open>Cloner_Exclude\<close>: the paths that a clone ignores, with the termination of the walk to the root. \<^verbatim>\<open>Sidecars\<close>:
    \<^verbatim>\<open>cmd/sidecars/main.go\<close>; the tree of commands.
  \<^item> \<^verbatim>\<open>Operator_Main\<close>: \<^verbatim>\<open>cmd/amalthea/main.go\<close> and \<^verbatim>\<open>SetupWithManager\<close>; flags, options of the
    manager and the order of the calls until it runs. \<^verbatim>\<open>OpenAPI_Downgrade\<close>:
    \<^verbatim>\<open>tools/openapi_spec_downgrader/main.go\<close>; the whole transformation of a document.
  \<^item> \<^verbatim>\<open>Sample\<close>: a local, a remote and a job session with all options set;
    \<^verbatim>\<open>Remote_Sample\<close>: a small remote cluster that answers with texts of JSON. The properties are
    instantiated on them.

  \<^bold>\<open>What is shown.\<close>
  \<^item> \<^verbatim>\<open>Template_Props\<close>: volume names of a pod are distinct, mounts are declared, selectors
    match, data sources; \<^verbatim>\<open>Children_Props\<close>: routes reach the service, authentication hides
    the session port, one tunnel secret, the deletion rule, the session's address.
  \<^item> \<^verbatim>\<open>Reconcile_Props\<close>: the contract \<^verbatim>\<open>child_mutator\<close> of an update (it keeps what others
    own on a live object), interpreted on the six mutations; hibernation follows
    the specification under every strategy; combined errors. \<^verbatim>\<open>Secret_Passes\<close>: the
    operator's secret over many passes with random values of their own; it settles, the secret of
    the tunnel survives, the cookie secret of \<^verbatim>\<open>oidc\<close> does not.
  \<^item> \<^verbatim>\<open>Pod_Props\<close>, \<^verbatim>\<open>Status_Props\<close>: failing pods, when each state is reported,
    scheduling events, conditions and marks; the computed status is coherent for every
    answer of the cluster. \<^verbatim>\<open>Culling\<close>: the contract \<^verbatim>\<open>deadline_rule\<close>, interpreted on the four
    rules, and the earliest of their dates. \<^verbatim>\<open>Hibernation\<close>: a whole pass hibernates a session
    exactly when one of its limits has passed, by its previous status.
  \<^item> \<^verbatim>\<open>Reconciler_Props\<close>: secrets are deleted before the finalizer, sessions with adopted
    secrets carry it, run IDs. \<^verbatim>\<open>Session_Lifecycle\<close>: the states reachable by passes and by
    changes of others, in any order and with any errors, keep every stored status sound.
    \<^verbatim>\<open>Reconciler_Props\<close> also shows that a pass that does not delete its session asks for
    another pass or returns an error, after which the queue runs one.
  \<^item> \<^verbatim>\<open>Git_Proxy_Props\<close>: the contract \<^verbatim>\<open>credential_source\<close>, interpreted on the token store;
    credentials go only to the repository's host and come from its provider, tokens are
    cached, which configurations start. \<^verbatim>\<open>Cloner_Props\<close>: failures are contained, public
    repositories are cloned without credentials, which variables are read.
    \<^verbatim>\<open>Clone_Container\<close>: the operator's init containers and the cloner together; the strategy
    that the operator passes has no effect.
  \<^item> \<^verbatim>\<open>Remote_Auth_Props\<close>: the contract \<^verbatim>\<open>remote_auth\<close>, interpreted on all authentications;
    requests carry the current token and are otherwise unchanged, the bounds within which the
    announced lifetime of a token counts, tokens without an expiry. \<^verbatim>\<open>Runai_Token\<close>: the callers of
    the Run:AI authentication and its lock as a step relation, which contains the sequential
    calls; callers that wait for the lock share the token that the first of them obtains.
  \<^item> \<^verbatim>\<open>Firecrest_Codecs\<close>: the contract \<^verbatim>\<open>json_codec\<close>, interpreted on every type of the generated
    client that requests carry, and through it on their lists and optional members.
    \<^verbatim>\<open>Firecrest_Client_Props\<close>, \<^verbatim>\<open>Firecrest_Api_Props\<close>: every request that one of the constructors
    builds addresses the configured server, below its path; the body that each operation with a
    body writes reads back as the value it was given; a data transfer put into its union comes
    out again, under the discriminator of its kind.
  \<^item> \<^verbatim>\<open>Firecrest_Logs\<close>: forwarding the logs refines a reader of a file that neither loses,
    repeats nor reorders lines; the saved state reads back. \<^verbatim>\<open>Firecrest_Props\<close>: the contract
    \<^verbatim>\<open>adopting_controller\<close>, interpreted on both controllers: a session that was started is
    adopted after a restart and not submitted again; a late turn of the status loop brings the
    saved state of a stopped session back.
  \<^item> \<^verbatim>\<open>Remote_Server_Props\<close>: the contract \<^verbatim>\<open>status_source\<close> between a controller and the
    status endpoint, interpreted on both; the status of a FirecREST session as a function of the
    text with which the cluster replies; the order of the calls of the process; which
    configurations give a controller. \<^verbatim>\<open>Runai_Props\<close>: the status of a Run:AI session, its
    restarts, rejected requests. \<^verbatim>\<open>Remote_Operator_Props\<close>: the operator and the remote
    controller together; flags are well typed, the configuration that the operator templates is
    the one that is read, the controller answers at the port and the paths of its container's
    probes, variables of the user reach the job.
  \<^item> \<^verbatim>\<open>Auth_Proxy_Props\<close>: the contract \<^verbatim>\<open>forwarding_middleware\<close>, interpreted on the statistics and
    on the removal of headers; a request without the token never reaches the session, one with
    it does, with the prefix of its path stripped. \<^verbatim>\<open>Auth_Proxy_Operator\<close>: the operator's
    container and the proxy together; the token guards the session, and a secret written as the
    field's comment describes leaves it open. \<^verbatim>\<open>Tunnel_Props\<close>: the temporary file does not
    outlive the command; the tunnel of the operator's container admits its secret.
  \<^item> \<^verbatim>\<open>Git_Proxy_Server_Props\<close>: a configuration written to the environment reads back; an empty
    environment starts an anonymous proxy; the health endpoint. \<^verbatim>\<open>Sidecars\<close>: the arguments that
    the operator templates for each helper container select its command and only flags that it
    declares. \<^verbatim>\<open>Operator_Main\<close>: the flag for HTTP/2 has no effect on the metrics server, the
    index that the look-up of events needs is made, the manager runs last.
  \<^item> \<^verbatim>\<open>OpenAPI_Props\<close>: a document that the tool returns has no alternative of type null and no
    \<^verbatim>\<open>anyOf\<close> with one alternative left; its result does not depend on the order of the walks
    over maps unless a replaced \<^verbatim>\<open>anyOf\<close> and its surrounding schema share a key; the command
    run on its own output writes the same text again.

  \<^bold>\<open>Modelling choices.\<close>
  \<^item> A Go error is a value of \<^typ>\<open>go_error\<close>; a nil dereference is the error
    \<^const>\<open>Panicked\<close>, so a panic is a branch of the model. Pointers are options.
  \<^item> Instants and durations are unbounded integers of nanoseconds with zero as the zero
    time, except that differences of instants saturate at 64 bits as in the Go library. The
    clock is read once per pass, the argument \<open>now\<close>; the sources read it several times
    within a pass.
  \<^item> Code outside the repository is a parameter: the API server and the metrics server
    (\<^typ>\<open>'w client\<close>), quantity comparison, YAML encoding and sorting (\<^typ>\<open>golib\<close>), the
    image reference parser, the authority part of a URL, random bytes and ULIDs
    (\<^typ>\<open>randomness\<close>), the environment. What a theorem needs of them is a hypothesis.
  \<^item> Every map is a finite map; the order in which Go walks a map is the parameter
    \<open>lib_map_order\<close> where the result depends on it. Comparing with \<^verbatim>\<open>DeepEqual\<close> is
    equality. The headers of a request are a map from a name to its list of values. Gauge values of ages are kept as durations. Quoting (\<^verbatim>\<open>%q\<close>) is that of ASCII
    text.
  \<^item> All loops are structural recursions or folds, except the two that read numbered
    environment variables, whose termination is proved from the finite environment, the one
    that flushes log lines, whose buffer shrinks, the walk from a path to the root, whose path
    gets shorter, and the mutual recursion over a document of the OpenAPI tool, which goes to
    smaller nodes; so these definitions are total. The
    reader of JSON has fuel, twice the length of the text: every two nested calls consume a
    character, and the round trip is proved for that fuel. The one retry of the status write
    is written out, and the endless loops of the token store, the Renku authentication and the
    status of a remote session are modelled by one turn of them.
  \<^item> What the API server does with a written object is a parameter, except that it moves the
    \<^verbatim>\<open>stringData\<close> of a secret into its \<^verbatim>\<open>data\<close>, which the theorem about many passes
    needs. The lock of the Run:AI authentication is a step relation; the calls
    of the FirecREST authentications are taken one after the other.
  \<^item> For the remote session controller the world of the actions is of an arbitrary type; the
    HTTP client, the clock, the JWT parser (\<^typ>\<open>'w auth_net\<close>), the operating system
    (\<^typ>\<open>'s remote_host\<close>), the styling of parameters and the reading of timestamps
    (\<^typ>\<open>api_runtime\<close>) and viper (\<^typ>\<open>viper\<close>) are parameters. Contexts and timeouts show
    only as requests that fail. In the types of the generated client a number with a fraction is
    kept as its literal, a raw message is the JSON value that it holds, and the merging of two
    messages is a parameter of the methods that use it. The types of the replies are one record,
    with the status code and the payloads; the accessors of each type are its selectors. Of members of one name in a JSON
    object the last one counts; that the Go library merges the fields of nested structs from
    several such members is not modelled.
  \<^item> For the other helper programs viper, pflag, cobra, mapstructure, the HTTP framework and the
    proxy framework are parameters, and what is relied on of them is a law of its own that a
    sample satisfies; so is the controller-runtime library for the entry point of the operator.
    The order in which the OpenAPI tool walks a map is a parameter that may differ at each node.

  \<^bold>\<open>Not modelled.\<close> Logging and tracing; generated deep copies, which are the identity on
  values; in the generated FirecREST client the compressed text of its API specification and the
  functions that decompress it, the uploaded file of a multipart body, and the writing of the types
  that no request carries; how viper and cobra find values and commands beyond what is stated; the test utilities.
\<close>

end
